(* ===== verification/Prelude.thy ===== *)
theory Prelude
  imports Main "HOL-Library.Word" "HOL-Library.Char_ord" "HOL-Library.List_Lexorder"
    "HOL-Library.Sublist"
begin

text \<open>
  Shared ground of the development: Rust's \<open>String\<close> as the list of its UTF-8 bytes with
  the standard-library operations the program uses (\<open>trim\<close>, \<open>lines\<close>,
  \<open>split\<close>, \<open>strip_prefix\<close>, \<open>parse\<close>, \<open>to_ascii_lowercase\<close> \<dots>),
  \<open>Result\<close> as a sum with the error on the left, and 64-bit machine integers with Rust's
  saturating and checked operations. The collections \<open>kou_simps\<close> and \<open>str_simps\<close>
  gather the facts the component proofs rewrite with.
\<close>

named_theorems kou_simps "rewriting facts of the components"
named_theorems str_simps "rewriting facts on strings"

type_synonym u64 = "64 word"
type_synonym u32 = "32 word"

section \<open>Results\<close>

fun rbind :: "'e + 'a \<Rightarrow> ('a \<Rightarrow> 'e + 'b) \<Rightarrow> 'e + 'b" where
  "rbind (Inl e) f = Inl e"
| "rbind (Inr a) f = f a"

fun ok_or :: "'e \<Rightarrow> 'a option \<Rightarrow> 'e + 'a" where
  "ok_or e None = Inl e"
| "ok_or e (Some a) = Inr a"

fun or_else :: "'a option \<Rightarrow> 'a option \<Rightarrow> 'a option" where
  "or_else None y = y"
| "or_else (Some x) y = Some x"

fun unwrap_or :: "'a \<Rightarrow> 'a option \<Rightarrow> 'a" where
  "unwrap_or d None = d"
| "unwrap_or d (Some a) = a"

fun opt_filter :: "('a \<Rightarrow> bool) \<Rightarrow> 'a option \<Rightarrow> 'a option" where
  "opt_filter p None = None"
| "opt_filter p (Some a) = (if p a then Some a else None)"

lemma rbind_Inr: "rbind r f = Inr b \<longleftrightarrow> (\<exists>a. r = Inr a \<and> f a = Inr b)"
  by (cases r) auto

lemma rbind_Inl: "rbind r f = Inl e \<longleftrightarrow> r = Inl e \<or> (\<exists>a. r = Inr a \<and> f a = Inl e)"
  by (cases r) auto

lemma or_else_None [simp]: "or_else x y = None \<longleftrightarrow> x = None \<and> y = None"
  by (cases x) auto

lemma or_else_Some: "or_else x y = Some a \<longleftrightarrow> x = Some a \<or> (x = None \<and> y = Some a)"
  by (cases x) auto

lemma or_else_right [simp]: "or_else x None = x"
  by (cases x) auto

lemma or_else_assoc: "or_else (or_else x y) z = or_else x (or_else y z)"
  by (cases x) auto

lemma opt_filter_Some [simp]: "opt_filter p x = Some a \<longleftrightarrow> x = Some a \<and> p a"
  by (cases x) auto

lemma mem_map_filter: "y \<in> set (List.map_filter f xs) \<longleftrightarrow> (\<exists>x \<in> set xs. f x = Some y)"
  by (force simp: List.map_filter_def)

lemma find_SomeD: "find P xs = Some x \<Longrightarrow> x \<in> set xs \<and> P x"
  by (auto simp: find_Some_iff)

lemma find_None_ball: "find P xs = None \<longleftrightarrow> (\<forall>x \<in> set xs. \<not> P x)"
  by (auto simp: find_None_iff)

section \<open>Bytes and ASCII case\<close>

definition byte :: "char \<Rightarrow> nat" where
  "byte c = of_char c"

definition is_digit :: "char \<Rightarrow> bool" where
  "is_digit c \<longleftrightarrow> 48 \<le> byte c \<and> byte c \<le> 57"

definition is_upper :: "char \<Rightarrow> bool" where
  "is_upper c \<longleftrightarrow> 65 \<le> byte c \<and> byte c \<le> 90"

definition lower_byte :: "char \<Rightarrow> char" where
  "lower_byte c = (if is_upper c then char_of (byte c + 32) else c)"

definition to_ascii_lowercase :: "string \<Rightarrow> string" where
  "to_ascii_lowercase s = map lower_byte s"

definition eq_ignore_ascii_case :: "string \<Rightarrow> string \<Rightarrow> bool" where
  "eq_ignore_ascii_case a b \<longleftrightarrow> to_ascii_lowercase a = to_ascii_lowercase b"

lemma byte_lt: "byte c < 256"
  by (simp add: byte_def)

lemma byte_char_of: "n < 256 \<Longrightarrow> byte (char_of n) = n"
  by (simp add: byte_def)

lemma lower_byte_idem [simp]: "lower_byte (lower_byte c) = lower_byte c"
proof (cases "is_upper c")
  case True
  then have "byte (lower_byte c) = byte c + 32"
    by (simp add: lower_byte_def byte_char_of is_upper_def)
  with True have "\<not> is_upper (lower_byte c)" by (simp add: is_upper_def)
  then show ?thesis by (simp add: lower_byte_def)
next
  case False
  then show ?thesis by (simp add: lower_byte_def)
qed

lemma to_ascii_lowercase_idem [simp, str_simps]:
  "to_ascii_lowercase (to_ascii_lowercase s) = to_ascii_lowercase s"
  by (simp add: to_ascii_lowercase_def)

lemma eq_ignore_ascii_case_refl [simp]: "eq_ignore_ascii_case s s"
  by (simp add: eq_ignore_ascii_case_def)

lemma eq_ignore_ascii_case_sym: "eq_ignore_ascii_case a b \<longleftrightarrow> eq_ignore_ascii_case b a"
  by (auto simp: eq_ignore_ascii_case_def)

lemma eq_ignore_ascii_case_trans:
  "eq_ignore_ascii_case a b \<Longrightarrow> eq_ignore_ascii_case b c \<Longrightarrow> eq_ignore_ascii_case a c"
  by (simp add: eq_ignore_ascii_case_def)

section \<open>Searching, splitting, joining\<close>

definition starts_with :: "string \<Rightarrow> string \<Rightarrow> bool" where
  "starts_with s p \<longleftrightarrow> take (length p) s = p"

definition ends_with :: "string \<Rightarrow> string \<Rightarrow> bool" where
  "ends_with s p \<longleftrightarrow> length p \<le> length s \<and> drop (length s - length p) s = p"

fun str_contains :: "string \<Rightarrow> string \<Rightarrow> bool" where
  "str_contains [] p = (p = [])"
| "str_contains (c # cs) p = (starts_with (c # cs) p \<or> str_contains cs p)"

definition strip_prefix :: "string \<Rightarrow> string \<Rightarrow> string option" where
  "strip_prefix p s = (if starts_with s p then Some (drop (length p) s) else None)"

definition strip_suffix :: "string \<Rightarrow> string \<Rightarrow> string option" where
  "strip_suffix p s =
     (if ends_with s p then Some (take (length s - length p) s) else None)"

fun split_on :: "char \<Rightarrow> string \<Rightarrow> string list" where
  "split_on c [] = [[]]"
| "split_on c (x # xs) =
     (if x = c then [] # split_on c xs
      else (case split_on c xs of [] \<Rightarrow> [[x]] | y # ys \<Rightarrow> (x # y) # ys))"

fun str_join :: "string \<Rightarrow> string list \<Rightarrow> string" where
  "str_join sep [] = []"
| "str_join sep [s] = s"
| "str_join sep (s # t # ss) = s @ sep @ str_join sep (t # ss)"

definition split_once :: "char \<Rightarrow> string \<Rightarrow> (string \<times> string) option" where
  "split_once c s =
     (let p = takeWhile (\<lambda>x. x \<noteq> c) s
      in if length p < length s then Some (p, drop (Suc (length p)) s) else None)"

text \<open>\<open>rsplit(c).next()\<close>: what follows the last occurrence of \<open>c\<close>.\<close>

definition after_last :: "char \<Rightarrow> string \<Rightarrow> string" where
  "after_last c s = rev (takeWhile (\<lambda>x. x \<noteq> c) (rev s))"

definition trim_end_char :: "char \<Rightarrow> string \<Rightarrow> string" where
  "trim_end_char c s = rev (dropWhile (\<lambda>x. x = c) (rev s))"

lemma starts_with_iff: "starts_with s p \<longleftrightarrow> (\<exists>t. s = p @ t)"
  unfolding starts_with_def by (metis append_eq_conv_conj append_take_drop_id)

lemma starts_with_append [simp, str_simps]: "starts_with (p @ t) p"
  by (auto simp: starts_with_iff)

lemma starts_with_Nil [simp]: "starts_with s []"
  by (simp add: starts_with_def)

lemma ends_with_append [simp, str_simps]: "ends_with (t @ p) p"
  by (simp add: ends_with_def)

lemma ends_with_iff: "ends_with s p \<longleftrightarrow> (\<exists>t. s = t @ p)"
  unfolding ends_with_def by (metis append_take_drop_id ends_with_append ends_with_def)

lemma str_contains_iff: "str_contains s p \<longleftrightarrow> (\<exists>a b. s = a @ p @ b)"
proof (induction s)
  case Nil
  then show ?case by auto
next
  case (Cons c cs)
  show ?case
  proof
    assume "str_contains (c # cs) p"
    then consider "starts_with (c # cs) p" | "str_contains cs p" by auto
    then show "\<exists>a b. c # cs = a @ p @ b"
    proof cases
      case 1
      then obtain t where "c # cs = [] @ p @ t" by (auto simp: starts_with_iff)
      then show ?thesis by blast
    next
      case 2
      with Cons.IH obtain a b where "c # cs = (c # a) @ p @ b" by auto
      then show ?thesis by blast
    qed
  next
    assume "\<exists>a b. c # cs = a @ p @ b"
    then obtain a b where e: "c # cs = a @ p @ b" by blast
    show "str_contains (c # cs) p"
    proof (cases a)
      case Nil
      with e have "starts_with (c # cs) p" by (auto simp: starts_with_iff)
      then show ?thesis by simp
    next
      case (Cons x xs)
      with e Cons.IH show ?thesis by auto
    qed
  qed
qed

lemma str_contains_mid [simp, str_simps]: "str_contains (a @ p @ b) p"
  by (auto simp: str_contains_iff)

lemma strip_prefix_Some: "strip_prefix p s = Some r \<longleftrightarrow> s = p @ r"
  by (auto simp: strip_prefix_def starts_with_iff)

lemma strip_suffix_Some: "strip_suffix p s = Some r \<longleftrightarrow> s = r @ p"
  by (auto simp: strip_suffix_def ends_with_iff)

lemma split_on_nonempty [simp]: "split_on c s \<noteq> []"
  by (induction s) (auto split: list.splits)

lemma join_split_on: "str_join [c] (split_on c s) = s"
proof (induction s)
  case Nil
  show ?case by simp
next
  case (Cons x xs)
  obtain y ys where s: "split_on c xs = y # ys"
    by (meson neq_Nil_conv split_on_nonempty)
  show ?case using Cons.IH s by (cases ys) auto
qed

lemma split_on_no_sep: "t \<in> set (split_on c s) \<Longrightarrow> c \<notin> set t"
proof (induction s arbitrary: t)
  case (Cons x xs)
  obtain y ys where "split_on c xs = y # ys"
    by (meson neq_Nil_conv split_on_nonempty)
  with Cons show ?case by (auto split: if_splits)
qed simp

lemma split_on_nosep_id: "c \<notin> set s \<Longrightarrow> split_on c s = [s]"
  by (induction s) auto

lemma split_on_append_sep: "split_on c (a @ c # b) = split_on c a @ split_on c b"
  by (induction a) (auto split: list.splits)

lemma split_on_join:
  "ls \<noteq> [] \<Longrightarrow> (\<And>l. l \<in> set ls \<Longrightarrow> c \<notin> set l) \<Longrightarrow> split_on c (str_join [c] ls) = ls"
proof (induction ls rule: induct_list012)
  case (3 x y zs)
  then have "split_on c (x @ c # str_join [c] (y # zs)) = [x] @ (y # zs)"
    by (subst split_on_append_sep) (simp add: split_on_nosep_id)
  then show ?case by simp
qed (simp_all add: split_on_nosep_id)

lemma split_once_Some:
  "split_once c s = Some (a, b) \<longleftrightarrow> s = a @ c # b \<and> c \<notin> set a"
proof
  assume h: "split_once c s = Some (a, b)"
  then have a: "a = takeWhile (\<lambda>x. x \<noteq> c) s" and l: "length a < length s"
    and b: "b = drop (Suc (length a)) s"
    by (auto simp: split_once_def Let_def split: if_splits)
  have "takeWhile (\<lambda>x. x \<noteq> c) s = take (length a) s"
    using a takeWhile_eq_take by metis
  moreover have "s ! length a = c" using l a nth_length_takeWhile by fastforce
  ultimately have "s = a @ c # b"
    using l b a by (metis append_take_drop_id Cons_nth_drop_Suc)
  moreover have "c \<notin> set a" using a set_takeWhileD by fastforce
  ultimately show "s = a @ c # b \<and> c \<notin> set a" by blast
next
  assume h: "s = a @ c # b \<and> c \<notin> set a"
  then have "\<And>x. x \<in> set a \<Longrightarrow> x \<noteq> c" by blast
  then have "takeWhile (\<lambda>x. x \<noteq> c) (a @ c # b) = a" by (simp add: takeWhile_append2)
  with h have "takeWhile (\<lambda>x. x \<noteq> c) s = a" by simp
  with h show "split_once c s = Some (a, b)" by (simp add: split_once_def)
qed

lemma split_once_None: "split_once c s = None \<longleftrightarrow> c \<notin> set s"
proof -
  have "split_once c s = None \<longleftrightarrow> \<not> (\<exists>a b. split_once c s = Some (a, b))"
    by (cases "split_once c s") auto
  also have "\<dots> \<longleftrightarrow> c \<notin> set s"
    using split_once_Some by (metis in_set_conv_decomp_first split_list_first)
  finally show ?thesis .
qed

lemma trim_end_char_idem [simp]: "trim_end_char c (trim_end_char c s) = trim_end_char c s"
  by (simp add: trim_end_char_def)

lemma trim_end_char_last: "trim_end_char c s = [] \<or> last (trim_end_char c s) \<noteq> c"
proof (cases "dropWhile (\<lambda>x. x = c) (rev s)")
  case (Cons y ys)
  then have "y \<noteq> c" by (metis (mono_tags) hd_dropWhile list.distinct(1) list.sel(1))
  then show ?thesis using Cons by (simp add: trim_end_char_def)
qed (simp add: trim_end_char_def)

section \<open>Lines and white space\<close>

abbreviation newline :: char where "newline \<equiv> CHR 0x0A"
abbreviation carriage :: char where "carriage \<equiv> CHR 0x0D"
abbreviation dquote :: char where "dquote \<equiv> CHR 0x22"

definition strip_cr :: "string \<Rightarrow> string" where
  "strip_cr s = unwrap_or s (strip_suffix [carriage] s)"

text \<open>\<open>str::lines\<close>: a line ends in \<open>\n\<close> or \<open>\r\n\<close>; the last one may lack it.\<close>

definition str_lines :: "string \<Rightarrow> string list" where
  "str_lines s =
     (let ps = split_on newline s
      in map strip_cr (butlast ps) @ (if last ps = [] then [] else [last ps]))"

text \<open>
  \<open>str::trim\<close> removes the code points with the Unicode property White\_Space; here are
  their UTF-8 encodings, U+0009--U+000D, U+0020, U+0085, U+00A0, U+1680, U+2000--U+200A,
  U+2028, U+2029, U+202F, U+205F and U+3000.
\<close>

definition white_space :: "string list" where
  "white_space =
     [[CHR 0x09], [CHR 0x0A], [CHR 0x0B], [CHR 0x0C], [CHR 0x0D], [CHR 0x20],
      [CHR 0xC2, CHR 0x85], [CHR 0xC2, CHR 0xA0], [CHR 0xE1, CHR 0x9A, CHR 0x80],
      [CHR 0xE2, CHR 0x80, CHR 0x80], [CHR 0xE2, CHR 0x80, CHR 0x81],
      [CHR 0xE2, CHR 0x80, CHR 0x82], [CHR 0xE2, CHR 0x80, CHR 0x83],
      [CHR 0xE2, CHR 0x80, CHR 0x84], [CHR 0xE2, CHR 0x80, CHR 0x85],
      [CHR 0xE2, CHR 0x80, CHR 0x86], [CHR 0xE2, CHR 0x80, CHR 0x87],
      [CHR 0xE2, CHR 0x80, CHR 0x88], [CHR 0xE2, CHR 0x80, CHR 0x89],
      [CHR 0xE2, CHR 0x80, CHR 0x8A], [CHR 0xE2, CHR 0x80, CHR 0xA8],
      [CHR 0xE2, CHR 0x80, CHR 0xA9], [CHR 0xE2, CHR 0x80, CHR 0xAF],
      [CHR 0xE2, CHR 0x81, CHR 0x9F], [CHR 0xE3, CHR 0x80, CHR 0x80]]"

function drop_leading :: "string list \<Rightarrow> string \<Rightarrow> string" where
  "drop_leading ws s =
     (case find (\<lambda>w. w \<noteq> [] \<and> starts_with s w) ws of
        None \<Rightarrow> s
      | Some w \<Rightarrow> drop_leading ws (drop (length w) s))"
  by pat_completeness auto
termination
proof (relation "measure (\<lambda>(ws, s). length s)")
  fix ws s w
  assume "find (\<lambda>w. w \<noteq> [] \<and> starts_with s w) ws = Some w"
  then have "w \<noteq> []" "starts_with s w" by (auto simp: find_Some_iff)
  then show "((ws, drop (length w) s), ws, s) \<in> measure (\<lambda>(ws, s). length s)"
    by (auto simp: starts_with_iff)
qed simp

declare drop_leading.simps [simp del]

definition trim_start :: "string \<Rightarrow> string" where
  "trim_start s = drop_leading white_space s"

definition trim_end :: "string \<Rightarrow> string" where
  "trim_end s = rev (drop_leading (map rev white_space) (rev s))"

definition trim :: "string \<Rightarrow> string" where
  "trim s = trim_end (trim_start s)"

lemma drop_leading_idem [simp]: "drop_leading ws (drop_leading ws s) = drop_leading ws s"
proof (induction ws s rule: drop_leading.induct)
  case (1 ws s)
  show ?case
  proof (cases "find (\<lambda>w. w \<noteq> [] \<and> starts_with s w) ws")
    case None
    then show ?thesis by (simp add: drop_leading.simps [of ws s])
  next
    case (Some w)
    then show ?thesis using "1.IH" [OF Some] by (simp add: drop_leading.simps [of ws s])
  qed
qed

lemma drop_leading_suffix: "\<exists>p. s = p @ drop_leading ws s"
proof (induction ws s rule: drop_leading.induct)
  case (1 ws s)
  show ?case
  proof (cases "find (\<lambda>w. w \<noteq> [] \<and> starts_with s w) ws")
    case None
    then show ?thesis by (simp add: drop_leading.simps [of ws s])
  next
    case (Some w)
    then obtain p where "drop (length w) s = p @ drop_leading ws (drop (length w) s)"
      using "1.IH" by blast
    then have "s = (take (length w) s @ p) @ drop_leading ws (drop (length w) s)"
      by (metis append.assoc append_take_drop_id)
    moreover have "drop_leading ws s = drop_leading ws (drop (length w) s)"
      using Some by (simp add: drop_leading.simps [of ws s])
    ultimately show ?thesis by metis
  qed
qed

lemma trim_Nil [simp]: "trim [] = []"
  by (simp add: trim_def trim_start_def trim_end_def drop_leading.simps white_space_def
      starts_with_def)

text \<open>Trimming only shortens: what remains is a contiguous part of the string.\<close>

lemma trim_part: "\<exists>a b. s = a @ trim s @ b"
proof -
  obtain a where "s = a @ trim_start s"
    using drop_leading_suffix [of s white_space] by (auto simp: trim_start_def)
  moreover obtain b where "rev (trim_start s) = b @ rev (trim s)"
    using drop_leading_suffix [of "rev (trim_start s)" "map rev white_space"]
    by (auto simp: trim_def trim_end_def)
  then have "trim_start s = trim s @ rev b"
    by (metis rev_append rev_rev_ident)
  ultimately show ?thesis by metis
qed

text \<open>\<open>chars().take(n).collect()\<close>: a continuation byte belongs to the character before it.\<close>

definition is_continuation :: "char \<Rightarrow> bool" where
  "is_continuation c \<longleftrightarrow> 128 \<le> byte c \<and> byte c < 192"

fun utf8_take :: "nat \<Rightarrow> string \<Rightarrow> string" where
  "utf8_take n [] = []"
| "utf8_take n (c # cs) =
     (if is_continuation c then c # utf8_take n cs
      else (case n of 0 \<Rightarrow> [] | Suc m \<Rightarrow> c # utf8_take m cs))"

section \<open>Numbers as text\<close>

lemma unat_lt2p_64: "unat (w :: u64) < 2 ^ 64"
  using unsigned_less [of w] by simp

lemma unat_power_lower_u64: "n < 64 \<Longrightarrow> unat (2 ^ n :: u64) = 2 ^ n"
proof -
  assume "n < 64"
  then have "(2 :: nat) ^ n < 2 ^ 64" by (intro power_strict_increasing) simp_all
  then have "unat (of_nat (2 ^ n) :: u64) = 2 ^ n"
    by (simp add: unat_of_nat del: of_nat_power)
  then show ?thesis by simp
qed


fun dec :: "nat \<Rightarrow> string" where
  "dec n = (if n < 10 then [char_of (48 + n)] else dec (n div 10) @ [char_of (48 + n mod 10)])"

declare dec.simps [simp del]

definition dec_u64 :: "u64 \<Rightarrow> string" where
  "dec_u64 w = dec (unat w)"

definition digits_value :: "string \<Rightarrow> nat" where
  "digits_value s = foldl (\<lambda>n c. 10 * n + (byte c - 48)) 0 s"

definition parse_digits :: "string \<Rightarrow> nat option" where
  "parse_digits s = (if s \<noteq> [] \<and> list_all is_digit s then Some (digits_value s) else None)"

text \<open>\<open>str::parse::<u64>\<close>: an optional \<open>+\<close>, then digits, no overflow.\<close>

definition parse_u64 :: "string \<Rightarrow> u64 option" where
  "parse_u64 s =
     (case parse_digits (unwrap_or s (strip_prefix ''+'' s)) of
        None \<Rightarrow> None
      | Some n \<Rightarrow> if n < 2 ^ 64 then Some (of_nat n) else None)"

text \<open>\<open>str::parse::<i64>\<close>: an optional sign, then digits, within \<open>[-2^63, 2^63)\<close>.\<close>

definition parse_i64 :: "string \<Rightarrow> int option" where
  "parse_i64 s =
     (case strip_prefix ''-'' s of
        Some r \<Rightarrow> (case parse_digits r of
            None \<Rightarrow> None
          | Some n \<Rightarrow> if n \<le> 2 ^ 63 then Some (- int n) else None)
      | None \<Rightarrow> (case parse_digits (unwrap_or s (strip_prefix ''+'' s)) of
            None \<Rightarrow> None
          | Some n \<Rightarrow> if n < 2 ^ 63 then Some (int n) else None))"

lemma byte_digit: "(n :: nat) < 10 \<Longrightarrow> byte (char_of (48 + n)) = 48 + n"
  by (simp add: byte_char_of)

lemma is_digit_char: "(n :: nat) < 10 \<Longrightarrow> is_digit (char_of (48 + n))"
  by (simp add: is_digit_def byte_digit)

lemma dec_digits: "dec n \<noteq> [] \<and> list_all is_digit (dec n) \<and> digits_value (dec n) = n"
proof (induction n rule: dec.induct)
  case (1 n)
  show ?case
  proof (cases "n < 10")
    case True
    then show ?thesis
      by (simp add: dec.simps [of n] is_digit_char digits_value_def byte_digit)
  next
    case False
    then have "dec (n div 10) \<noteq> [] \<and> list_all is_digit (dec (n div 10))
        \<and> digits_value (dec (n div 10)) = n div 10"
      using "1.IH" by simp
    with False show ?thesis
      by (simp add: dec.simps [of n] is_digit_char digits_value_def byte_digit)
  qed
qed

lemma strip_prefix_dec: "\<not> is_digit c \<Longrightarrow> strip_prefix [c] (dec n) = None"
  using dec_digits [of n] by (cases "dec n") (auto simp: strip_prefix_def starts_with_def)

lemma parse_u64_dec: "parse_u64 (dec_u64 w) = Some w"
proof -
  have "strip_prefix ''+'' (dec (unat w)) = None"
    by (rule strip_prefix_dec) (simp add: is_digit_def byte_def)
  moreover have "parse_digits (dec (unat w)) = Some (unat w)"
    using dec_digits [of "unat w"] by (simp add: parse_digits_def)
  moreover have "unat w < 2 ^ 64" using unat_lt2p_64 by simp
  ultimately show ?thesis by (simp add: parse_u64_def dec_u64_def)
qed

section \<open>Machine arithmetic\<close>

definition saturating_sub :: "u64 \<Rightarrow> u64 \<Rightarrow> u64" where
  "saturating_sub a b = (if a < b then 0 else a - b)"

definition saturating_mul :: "u64 \<Rightarrow> u64 \<Rightarrow> u64" where
  "saturating_mul a b = (if unat a * unat b < 2 ^ 64 then a * b else - 1)"

text \<open>\<open>1u64.checked_shl(n)\<close>: \<open>None\<close> when the shift is not below the width.\<close>

definition checked_shl1 :: "u32 \<Rightarrow> u64 option" where
  "checked_shl1 n = (if unat n < 64 then Some (push_bit (unat n) 1) else None)"

lemma unat_saturating_sub: "unat (saturating_sub a b) = unat a - unat b"
  by (auto simp: saturating_sub_def word_less_nat_alt unat_sub_if')

lemma unat_saturating_mul: "unat (saturating_mul a b) = min (unat a * unat b) (2 ^ 64 - 1)"
proof (cases "unat a * unat b < 2 ^ 64")
  case True
  then show ?thesis by (simp add: saturating_mul_def unat_mult_lem min_def unat_word_ariths)
next
  case False
  moreover have "unat (- 1 :: u64) = 2 ^ 64 - 1" by (simp add: unsigned_minus_1_eq_mask mask_eq_exp_minus_1)
  ultimately show ?thesis by (simp add: saturating_mul_def min_def)
qed

lemma checked_shl1_Some: "checked_shl1 n = Some w \<Longrightarrow> unat w = 2 ^ unat n"
proof -
  assume "checked_shl1 n = Some w"
  then have n: "unat n < 64" and w: "w = push_bit (unat n) 1"
    by (auto simp: checked_shl1_def split: if_splits)
  then have "w = 2 ^ unat n" by (simp add: push_bit_eq_mult)
  moreover have "unat (2 ^ unat n :: u64) = 2 ^ unat n"
    using n unat_power_lower_u64 by blast
  ultimately show ?thesis by simp
qed

end
