(* ===== verification/Json.thy ===== *)
theory Json
  imports Prelude
begin

text \<open>
  JSON values as the program handles them through \<open>serde_json::Value\<close>. The crate is built
  without its \<open>preserve_order\<close> feature, so an object is a \<open>BTreeMap\<close>: keys in
  ascending byte order, no key twice. It is modelled as an association list kept in that
  order. A number is an unsigned or a negative integer or a 64-bit float; floats are kept as
  their IEEE 754 bit pattern, because the program passes them through and only asks whether
  one equals zero. Parsing and printing text belong to the crate: the definitions that need
  them take them as arguments (see \<open>json_codec\<close>).
\<close>

section \<open>Tables with lookup, insertion and removal\<close>

text \<open>
  The contract shared by every keyed store of the program: JSON objects, the tables of the
  database, the round-robin counters, the rate-limit tracker.
\<close>

locale keyed_store =
  fixes get :: "'k \<Rightarrow> 'm \<Rightarrow> 'v option"
    and put :: "'k \<Rightarrow> 'v \<Rightarrow> 'm \<Rightarrow> 'm"
    and del :: "'k \<Rightarrow> 'm \<Rightarrow> 'm"
  assumes get_put: "get k (put j v m) = (if k = j then Some v else get k m)"
    and get_del: "get k (del j m) = (if k = j then None else get k m)"
begin

lemma get_put_same: "get k (put k v m) = Some v"
  by (simp add: get_put)

lemma get_put_other: "k \<noteq> j \<Longrightarrow> get k (put j v m) = get k m"
  by (simp add: get_put)

lemma put_put_lookup: "get k (put j v (put j w m)) = get k (put j v m)"
  by (simp add: get_put)

lemma put_comm_lookup:
  "i \<noteq> j \<Longrightarrow> get k (put i v (put j w m)) = get k (put j w (put i v m))"
  by (simp add: get_put)

lemma del_put_lookup: "get k (del j (put j v m)) = get k (del j m)"
  by (simp add: get_put get_del)

lemma get_fold_put:
  "get k (fold (\<lambda>(j, v). put j v) kvs m) = or_else (map_of (rev kvs) k) (get k m)"
proof (induction kvs arbitrary: m)
  case Nil
  show ?case by simp
next
  case (Cons a kvs)
  obtain j v where "a = (j, v)" by (cases a)
  with Cons.IH show ?case
    by (cases "map_of (rev kvs) k") (auto simp: get_put map_add_Some_iff map_add_def
        split: option.splits)
qed

lemma get_fold_put_notin:
  "k \<notin> fst ` set kvs \<Longrightarrow> get k (fold (\<lambda>(j, v). put j v) kvs m) = get k m"
  by (simp add: get_fold_put) (metis map_of_eq_None_iff or_else.simps(1) set_rev)

end

section \<open>Objects\<close>

fun obj_insert :: "string \<Rightarrow> 'v \<Rightarrow> (string \<times> 'v) list \<Rightarrow> (string \<times> 'v) list" where
  "obj_insert k v [] = [(k, v)]"
| "obj_insert k v ((j, w) # r) =
     (if k = j then (k, v) # r
      else if k < j then (k, v) # (j, w) # r
      else (j, w) # obj_insert k v r)"

definition obj_get :: "string \<Rightarrow> (string \<times> 'v) list \<Rightarrow> 'v option" where
  "obj_get k ob = map_of ob k"

definition obj_remove :: "string \<Rightarrow> (string \<times> 'v) list \<Rightarrow> (string \<times> 'v) list" where
  "obj_remove k ob = filter (\<lambda>kv. fst kv \<noteq> k) ob"

definition obj_sorted :: "(string \<times> 'v) list \<Rightarrow> bool" where
  "obj_sorted ob \<longleftrightarrow> sorted_wrt (<) (map fst ob)"

text \<open>\<open>entry(k).or_insert(v)\<close>\<close>

definition obj_or_insert :: "string \<Rightarrow> 'v \<Rightarrow> (string \<times> 'v) list \<Rightarrow> (string \<times> 'v) list" where
  "obj_or_insert k v ob = (if obj_get k ob = None then obj_insert k v ob else ob)"

lemma obj_get_insert [simp]:
  "obj_get k (obj_insert j v ob) = (if k = j then Some v else obj_get k ob)"
proof (induction ob)
  case (Cons a r)
  then show ?case by (cases a) (auto simp: obj_get_def)
qed (simp add: obj_get_def)

lemma obj_get_remove [simp]:
  "obj_get k (obj_remove j ob) = (if k = j then None else obj_get k ob)"
  by (induction ob) (auto simp: obj_get_def obj_remove_def)

interpretation objects: keyed_store obj_get obj_insert obj_remove
  by unfold_locales simp_all

lemma obj_get_or_insert [simp]:
  "obj_get k (obj_or_insert j v ob)
     = (if k = j then Some (unwrap_or v (obj_get j ob)) else obj_get k ob)"
  by (cases "obj_get j ob") (auto simp: obj_or_insert_def)

lemma obj_get_Nil [simp]: "obj_get k [] = None"
  by (simp add: obj_get_def)

lemma fst_obj_insert: "fst ` set (obj_insert k v ob) = insert k (fst ` set ob)"
  by (induction ob rule: obj_insert.induct) auto

lemma obj_sorted_insert: "obj_sorted ob \<Longrightarrow> obj_sorted (obj_insert k v ob)"
proof (induction ob)
  case (Cons a r)
  obtain j w where a: "a = (j, w)" by (cases a)
  show ?case
  proof (cases "k = j \<or> k < j")
    case True
    with Cons.prems a show ?thesis by (auto simp: obj_sorted_def)
  next
    case False
    with Cons a have "obj_sorted (obj_insert k v r)" by (simp add: obj_sorted_def)
    moreover have "\<forall>x \<in> fst ` set (obj_insert k v r). j < x"
      using Cons.prems a False by (auto simp: fst_obj_insert obj_sorted_def)
    ultimately show ?thesis using False a by (simp add: obj_sorted_def)
  qed
qed (simp add: obj_sorted_def)

lemma obj_sorted_remove: "obj_sorted ob \<Longrightarrow> obj_sorted (obj_remove k ob)"
  unfolding obj_sorted_def obj_remove_def
  by (induction ob) auto

lemma obj_sorted_distinct: "obj_sorted ob \<Longrightarrow> distinct (map fst ob)"
  unfolding obj_sorted_def by (induction ob) auto

section \<open>Values\<close>

datatype num = PosInt u64 | NegInt int | Float u64

datatype json =
    JNull
  | JBool bool
  | JNum num
  | JStr string
  | JArr "json list"
  | JObj "(string \<times> json) list"

type_synonym obj = "(string \<times> json) list"

text \<open>\<open>json!({k: v, \<dots>})\<close> with literal keys, and \<open>json!(n)\<close> of an unsigned integer.\<close>

definition mk_obj :: "(string \<times> json) list \<Rightarrow> obj" where
  "mk_obj kvs = fold (\<lambda>(k, v). obj_insert k v) kvs []"

definition json_obj :: "(string \<times> json) list \<Rightarrow> json" where
  "json_obj kvs = JObj (mk_obj kvs)"

abbreviation jnat :: "u64 \<Rightarrow> json" where
  "jnat n \<equiv> JNum (PosInt n)"

lemma obj_get_mk_obj [simp]: "obj_get k (mk_obj kvs) = map_of (rev kvs) k"
  by (simp add: mk_obj_def objects.get_fold_put)

lemma obj_sorted_mk_obj: "obj_sorted (mk_obj kvs)"
proof -
  have "obj_sorted ob \<Longrightarrow> obj_sorted (fold (\<lambda>(k, v). obj_insert k v) kvs ob)" for ob
    by (induction kvs arbitrary: ob) (auto simp: obj_sorted_insert)
  then show ?thesis by (simp add: mk_obj_def obj_sorted_def)
qed

section \<open>Accessors\<close>

fun jget :: "string \<Rightarrow> json \<Rightarrow> json option" where
  "jget k (JObj ob) = obj_get k ob"
| "jget k _ = None"

text \<open>\<open>v[k]\<close> read: \<open>Null\<close> where there is no such entry.\<close>

definition jindex :: "string \<Rightarrow> json \<Rightarrow> json" where
  "jindex k v = unwrap_or JNull (jget k v)"

text \<open>\<open>v[k] = w\<close>: \<open>Null\<close> becomes an object, any other non-object panics (\<open>None\<close>).\<close>

fun jset :: "string \<Rightarrow> json \<Rightarrow> json \<Rightarrow> json option" where
  "jset k w (JObj ob) = Some (JObj (obj_insert k w ob))"
| "jset k w JNull = Some (JObj [(k, w)])"
| "jset k w _ = None"

fun as_str :: "json \<Rightarrow> string option" where
  "as_str (JStr s) = Some s"
| "as_str _ = None"

fun as_array :: "json \<Rightarrow> json list option" where
  "as_array (JArr xs) = Some xs"
| "as_array _ = None"

fun as_object :: "json \<Rightarrow> obj option" where
  "as_object (JObj ob) = Some ob"
| "as_object _ = None"

fun as_bool :: "json \<Rightarrow> bool option" where
  "as_bool (JBool b) = Some b"
| "as_bool _ = None"

fun as_u64 :: "json \<Rightarrow> u64 option" where
  "as_u64 (JNum (PosInt n)) = Some n"
| "as_u64 _ = None"

fun is_null :: "json \<Rightarrow> bool" where
  "is_null JNull = True"
| "is_null _ = False"

text \<open>\<open>as_f64() == Some(0.0)\<close>: an integer zero or either of the two float zeros.\<close>

fun is_zero_number :: "json \<Rightarrow> bool" where
  "is_zero_number (JNum (PosInt n)) = (n = 0)"
| "is_zero_number (JNum (NegInt i)) = (i = 0)"
| "is_zero_number (JNum (Float b)) = (b = 0 \<or> b = 0x8000000000000000)"
| "is_zero_number _ = False"

definition get_str :: "string \<Rightarrow> json \<Rightarrow> string option" where
  "get_str k v = Option.bind (jget k v) as_str"

definition get_array :: "string \<Rightarrow> json \<Rightarrow> json list option" where
  "get_array k v = Option.bind (jget k v) as_array"

definition get_u64 :: "string \<Rightarrow> json \<Rightarrow> u64 option" where
  "get_u64 k v = Option.bind (jget k v) as_u64"

definition get_bool :: "string \<Rightarrow> json \<Rightarrow> bool option" where
  "get_bool k v = Option.bind (jget k v) as_bool"

text \<open>\<open>Value::pointer\<close>: object keys and array indices along a path.\<close>

definition jstep :: "string \<Rightarrow> json \<Rightarrow> json option" where
  "jstep tok v = (case v of
     JObj ob \<Rightarrow> obj_get tok ob
   | JArr xs \<Rightarrow>
       (if starts_with tok ''+'' \<or> (starts_with tok ''0'' \<and> length tok \<noteq> 1) then None
        else (case parse_u64 tok of
                None \<Rightarrow> None
              | Some n \<Rightarrow> if unat n < length xs then Some (xs ! unat n) else None))
   | _ \<Rightarrow> None)"

fun jpointer :: "string list \<Rightarrow> json \<Rightarrow> json option" where
  "jpointer [] v = Some v"
| "jpointer (t # ts) v = Option.bind (jstep t v) (jpointer ts)"

lemma jget_json_obj [simp]: "jget k (json_obj kvs) = map_of (rev kvs) k"
  by (simp add: json_obj_def)

lemma as_object_json_obj [simp]: "as_object (json_obj kvs) = Some (mk_obj kvs)"
  by (simp add: json_obj_def)

lemma jget_Some_obj: "jget k v = Some w \<Longrightarrow> \<exists>ob. v = JObj ob \<and> obj_get k ob = Some w"
  by (cases v) auto

lemma jget_jset: "jset k w v = Some v' \<Longrightarrow> jget j v' = (if j = k then Some w else jget j v)"
proof (cases v)
  case (JObj ob)
  assume "jset k w v = Some v'"
  with JObj have "v' = JObj (obj_insert k w ob)" by simp
  with JObj show ?thesis by (simp only: jget.simps obj_get_insert)
qed (auto simp: obj_get_def)

lemma as_str_Some [simp]: "as_str v = Some s \<longleftrightarrow> v = JStr s"
  by (cases v) auto

lemma as_array_Some [simp]: "as_array v = Some xs \<longleftrightarrow> v = JArr xs"
  by (cases v) auto

lemma as_u64_Some [simp]: "as_u64 v = Some n \<longleftrightarrow> v = JNum (PosInt n)"
  by (cases v rule: as_u64.cases) auto

lemma json_obj_not_null [simp]: "json_obj kvs \<noteq> JNull" "\<not> is_null (json_obj kvs)"
  by (simp_all add: json_obj_def)

lemmas json_access = jindex_def get_str_def get_array_def get_u64_def get_bool_def

declare json_access [kou_simps]

section \<open>What the program takes from crates\<close>

text \<open>
  \<open>serde_json::from_str\<close> (an error text or a value), \<open>Value::to_string\<close> and
  \<open>serde_json::to_string\<close> (one compact rendering), and \<open>Uuid::new_v4().to_string()\<close>:
  \<open>new_uuid i\<close> is the \<open>i\<close>-th identifier drawn by a call.
\<close>

record codec =
  json_parse :: "string \<Rightarrow> string + json"
  json_print :: "json \<Rightarrow> string"
  new_uuid :: "nat \<Rightarrow> string"

definition parse_or :: "'a codec_scheme \<Rightarrow> json \<Rightarrow> string \<Rightarrow> json" where
  "parse_or c d s = (case json_parse c s of Inl e \<Rightarrow> d | Inr v \<Rightarrow> v)"

section \<open>Well-formed values\<close>

fun json_wf :: "json \<Rightarrow> bool" where
  "json_wf (JArr xs) = list_all json_wf xs"
| "json_wf (JObj ob) = (obj_sorted ob \<and> list_all (\<lambda>kv. json_wf (snd kv)) ob)"
| "json_wf (JNum (NegInt i)) = (- (2 ^ 63) \<le> i \<and> i < 0)"
| "json_wf _ = True"

lemma json_wf_insert:
  "json_wf (JObj ob) \<Longrightarrow> json_wf v \<Longrightarrow> json_wf (JObj (obj_insert k v ob))"
proof -
  have "list_all (\<lambda>kv. json_wf (snd kv)) ob \<Longrightarrow> json_wf v
      \<Longrightarrow> list_all (\<lambda>kv. json_wf (snd kv)) (obj_insert k v ob)"
    by (induction ob rule: obj_insert.induct) auto
  then show "json_wf (JObj ob) \<Longrightarrow> json_wf v \<Longrightarrow> json_wf (JObj (obj_insert k v ob))"
    by (simp add: obj_sorted_insert)
qed

lemma json_wf_remove: "json_wf (JObj ob) \<Longrightarrow> json_wf (JObj (obj_remove k ob))"
  using obj_sorted_remove [of ob k] by (auto simp: obj_remove_def list_all_iff)

lemma json_wf_get: "json_wf v \<Longrightarrow> jget k v = Some w \<Longrightarrow> json_wf w"
  by (cases v) (auto simp: obj_get_def list_all_iff dest!: map_of_SomeD)

lemma json_wf_json_obj: "list_all (\<lambda>kv. json_wf (snd kv)) kvs \<Longrightarrow> json_wf (json_obj kvs)"
proof -
  have "json_wf (JObj ob) \<Longrightarrow> list_all (\<lambda>kv. json_wf (snd kv)) kvs
      \<Longrightarrow> json_wf (JObj (fold (\<lambda>(k, v). obj_insert k v) kvs ob))" for ob
  proof (induction kvs arbitrary: ob)
    case (Cons a kvs)
    obtain k v where a: "a = (k, v)" by (cases a)
    with Cons.prems have "json_wf (JObj (obj_insert k v ob))" by (intro json_wf_insert) auto
    from Cons.IH [OF this] Cons.prems a show ?case by simp
  qed simp
  from this [of "[]"] show "list_all (\<lambda>kv. json_wf (snd kv)) kvs \<Longrightarrow> json_wf (json_obj kvs)"
    by (simp add: json_obj_def mk_obj_def obj_sorted_def)
qed

end
