(* ===== verification/Models.thy ===== *)
theory Models
  imports Json
begin

text \<open>
  The shared data types of \<open>src/models.rs\<close>: provider connections, their accounts, combos,
  OAuth sessions, the endpoint kinds and the test of an endpoint against a list of
  capabilities. A \<open>DateTime<Utc>\<close> is an integer number of nanoseconds since the epoch;
  an \<open>i64\<close> column of the database is an \<open>int\<close>; a \<open>BTreeMap<String, String>\<close> is a
  sorted association list handled with the operations on objects of \<open>Json\<close>.
\<close>

type_synonym timestamp = int
type_synonym headers_map = "(string \<times> string) list"
type_synonym headers = "(string \<times> string) list"

section \<open>Enumerations stored as text\<close>

datatype auth_mode = ApiKeyMode | OAuthMode

fun auth_mode_as_str :: "auth_mode \<Rightarrow> string" where
  "auth_mode_as_str ApiKeyMode = ''api_key''"
| "auth_mode_as_str OAuthMode = ''oauth''"

definition auth_mode_from_str :: "string \<Rightarrow> auth_mode option" where
  "auth_mode_from_str s =
     (if s = ''api_key'' \<or> s = ''apikey'' then Some ApiKeyMode
      else if s = ''oauth'' then Some OAuthMode
      else None)"

datatype routing_strategy = ByPriority | RoundRobin

fun routing_strategy_as_str :: "routing_strategy \<Rightarrow> string" where
  "routing_strategy_as_str ByPriority = ''priority''"
| "routing_strategy_as_str RoundRobin = ''round-robin''"

definition routing_strategy_from_str :: "string \<Rightarrow> routing_strategy option" where
  "routing_strategy_from_str s =
     (if s = ''priority'' then Some ByPriority
      else if s = ''round-robin'' \<or> s = ''round_robin'' then Some RoundRobin
      else None)"

datatype combo_strategy = ComboPriority | ComboRoundRobin

lemma auth_mode_round_trip [simp]: "auth_mode_from_str (auth_mode_as_str m) = Some m"
  by (cases m) (simp_all add: auth_mode_from_str_def)

lemma routing_strategy_round_trip [simp]:
  "routing_strategy_from_str (routing_strategy_as_str s) = Some s"
  by (cases s) (simp_all add: routing_strategy_from_str_def)

section \<open>Records\<close>

text \<open>\<open>ProviderConnection\<close> and its creation request\<close>

record provider =
  p_id :: string
  p_provider :: string
  p_base_url :: string
  p_api_key :: "string option"
  p_auth_type :: string
  p_auth_header :: string
  p_auth_prefix :: "string option"
  p_extra_headers :: headers_map
  p_endpoint_paths :: headers_map
  p_stream_endpoint_paths :: headers_map
  p_model_prefix :: string
  p_name :: "string option"
  p_enabled :: bool
  p_priority :: int
  p_default_model :: "string option"
  p_supported_endpoints :: "string list"
  p_rate_limit_protection :: bool
  p_last_error :: "string option"
  p_last_error_at :: "timestamp option"
  p_last_error_type :: "string option"
  p_last_error_source :: "string option"
  p_rate_limited_until :: "timestamp option"
  p_circuit_open_until :: "timestamp option"
  p_last_used_at :: "timestamp option"
  p_backoff_level :: int
  p_consecutive_use_count :: int
  p_test_status :: "string option"
  p_created_at :: timestamp
  p_updated_at :: timestamp
  p_protocol_format :: "string option"

record new_provider =
  np_provider :: string
  np_base_url :: string
  np_api_key :: "string option"
  np_auth_type :: string
  np_auth_header :: string
  np_auth_prefix :: "string option"
  np_extra_headers :: headers_map
  np_endpoint_paths :: "headers_map option"
  np_stream_endpoint_paths :: "headers_map option"
  np_model_prefix :: "string option"
  np_name :: "string option"
  np_enabled :: bool
  np_priority :: "int option"
  np_default_model :: "string option"
  np_supported_endpoints :: "string list option"
  np_rate_limit_protection :: bool
  np_protocol_format :: "string option"

text \<open>\<open>ProviderAccount\<close> and its creation request\<close>

record account =
  a_id :: string
  a_provider_connection_id :: string
  a_label :: "string option"
  a_auth_mode :: auth_mode
  a_api_key :: "string option"
  a_access_token :: "string option"
  a_refresh_token :: "string option"
  a_expires_at :: "timestamp option"
  a_scopes :: "string list"
  a_remote_account_id :: "string option"
  a_remote_email :: "string option"
  a_is_fedramp :: bool
  a_enabled :: bool
  a_priority :: int
  a_last_used_at :: "timestamp option"
  a_rate_limited_until :: "timestamp option"
  a_circuit_open_until :: "timestamp option"
  a_last_error :: "string option"
  a_last_error_type :: "string option"
  a_last_refresh_at :: "timestamp option"
  a_refresh_error :: "string option"
  a_backoff_level :: int
  a_consecutive_use_count :: int
  a_proxy_url :: "string option"
  a_base_url :: "string option"
  a_protocol_format :: "string option"
  a_supported_endpoints :: "string list option"
  a_created_at :: timestamp
  a_updated_at :: timestamp

record new_account =
  na_provider_connection_id :: string
  na_label :: "string option"
  na_auth_mode :: auth_mode
  na_api_key :: "string option"
  na_access_token :: "string option"
  na_refresh_token :: "string option"
  na_expires_at :: "timestamp option"
  na_scopes :: "string list option"
  na_remote_account_id :: "string option"
  na_remote_email :: "string option"
  na_is_fedramp :: bool
  na_enabled :: bool
  na_priority :: "int option"
  na_proxy_url :: "string option"
  na_base_url :: "string option"
  na_protocol_format :: "string option"
  na_supported_endpoints :: "string list option"

text \<open>\<open>OAuthSession\<close>, \<open>Combo\<close> and their creation requests\<close>

record oauth_session =
  s_id :: string
  s_state :: string
  s_provider_connection_id :: string
  s_provider_account_id :: "string option"
  s_redirect_uri :: string
  s_code_verifier :: string
  s_scopes :: "string list"
  s_proxy_url :: "string option"
  s_created_at :: timestamp
  s_expires_at :: timestamp
  s_consumed_at :: "timestamp option"

record new_oauth_session =
  ns_state :: string
  ns_provider_connection_id :: string
  ns_provider_account_id :: "string option"
  ns_redirect_uri :: string
  ns_code_verifier :: string
  ns_scopes :: "string list option"
  ns_proxy_url :: "string option"
  ns_expires_at :: timestamp

record combo =
  c_id :: string
  c_name :: string
  c_strategy :: combo_strategy
  c_models :: "string list"
  c_enabled :: bool
  c_created_at :: timestamp
  c_updated_at :: timestamp

record new_combo =
  nc_name :: string
  nc_strategy :: combo_strategy
  nc_models :: "string list"
  nc_enabled :: bool

text \<open>The verified identity of a request, \<open>AuthContext\<close> of \<open>src/auth/models.rs\<close>\<close>

datatype auth_context =
    ApiKeyContext string string "string list"
  | AdminContext string
  | Anonymous

section \<open>Endpoints\<close>

datatype endpoint =
    ChatCompletions
  | Completions
  | Messages
  | Responses
  | Files
  | OllamaChat
  | Embeddings
  | ImagesGenerations
  | Moderations
  | Rerank
  | Search
  | AudioSpeech
  | AudioTranscriptions
  | MusicGenerations
  | VideosGenerations

fun endpoint_as_str :: "endpoint \<Rightarrow> string" where
  "endpoint_as_str ChatCompletions = ''chat.completions''"
| "endpoint_as_str Completions = ''completions''"
| "endpoint_as_str Messages = ''messages''"
| "endpoint_as_str Responses = ''responses''"
| "endpoint_as_str Files = ''files''"
| "endpoint_as_str OllamaChat = ''ollama.chat''"
| "endpoint_as_str Embeddings = ''embeddings''"
| "endpoint_as_str ImagesGenerations = ''images.generations''"
| "endpoint_as_str Moderations = ''moderations''"
| "endpoint_as_str Rerank = ''rerank''"
| "endpoint_as_str Search = ''search''"
| "endpoint_as_str AudioSpeech = ''audio.speech''"
| "endpoint_as_str AudioTranscriptions = ''audio.transcriptions''"
| "endpoint_as_str MusicGenerations = ''music.generations''"
| "endpoint_as_str VideosGenerations = ''videos.generations''"

fun endpoint_capability :: "endpoint \<Rightarrow> string" where
  "endpoint_capability ChatCompletions = ''chat''"
| "endpoint_capability Completions = ''chat''"
| "endpoint_capability Messages = ''messages''"
| "endpoint_capability Responses = ''responses''"
| "endpoint_capability Files = ''files''"
| "endpoint_capability OllamaChat = ''ollama.chat''"
| "endpoint_capability Embeddings = ''embeddings''"
| "endpoint_capability ImagesGenerations = ''images''"
| "endpoint_capability Moderations = ''moderations''"
| "endpoint_capability Rerank = ''rerank''"
| "endpoint_capability Search = ''search''"
| "endpoint_capability AudioSpeech = ''audio.speech''"
| "endpoint_capability AudioTranscriptions = ''audio.transcriptions''"
| "endpoint_capability MusicGenerations = ''music''"
| "endpoint_capability VideosGenerations = ''video''"

definition is_chat_family :: "endpoint \<Rightarrow> bool" where
  "is_chat_family e \<longleftrightarrow> e \<in> {ChatCompletions, Completions, Messages, Responses, OllamaChat}"

definition default_supported_endpoints :: "string list" where
  "default_supported_endpoints =
     [''chat'', ''messages'', ''responses'', ''files'', ''ollama.chat'', ''embeddings'',
      ''images'', ''moderations'', ''rerank'', ''search'', ''audio.speech'',
      ''audio.transcriptions'', ''music'', ''video'']"

definition normalize_capability :: "string \<Rightarrow> string" where
  "normalize_capability v = to_ascii_lowercase (trim v)"

definition supports_endpoint :: "string list \<Rightarrow> endpoint \<Rightarrow> bool" where
  "supports_endpoint capabilities e =
     (if capabilities = [] then True
      else let normalized = map normalize_capability capabilities;
               has = (\<lambda>c. c \<in> set normalized)
           in has (endpoint_capability e)
              \<or> (is_chat_family e \<and> has ''chat'')
              \<or> (e = ImagesGenerations \<and> has ''images.generations'')
              \<or> ((e = AudioSpeech \<or> e = AudioTranscriptions) \<and> has ''audio'')
              \<or> (e = MusicGenerations \<and> has ''music.generations'')
              \<or> (e = VideosGenerations \<and> (has ''videos'' \<or> has ''videos.generations''))
              \<or> (e = VideosGenerations \<and> has ''video.generations'')
              \<or> (e = VideosGenerations \<and> has ''video''))"

text \<open>A reference table: the capability names that grant an endpoint.\<close>

definition granting_names :: "endpoint \<Rightarrow> string list" where
  "granting_names e =
     [endpoint_capability e]
     @ (if is_chat_family e then [''chat''] else [])
     @ (if e = ImagesGenerations then [''images.generations''] else [])
     @ (if e = AudioSpeech \<or> e = AudioTranscriptions then [''audio''] else [])
     @ (if e = MusicGenerations then [''music.generations''] else [])
     @ (if e = VideosGenerations
        then [''videos'', ''videos.generations'', ''video.generations''] else [])"

lemma endpoint_as_str_inject: "endpoint_as_str e = endpoint_as_str f \<Longrightarrow> e = f"
  by (cases e; cases f) simp_all

lemma supports_endpoint_Nil [simp]: "supports_endpoint [] e"
  by (simp add: supports_endpoint_def)

lemma supports_endpoint_granting:
  assumes "caps \<noteq> []"
  shows "supports_endpoint caps e
     \<longleftrightarrow> (\<exists>c \<in> set caps. normalize_capability c \<in> set (granting_names e))"
proof -
  have "(\<exists>c \<in> set caps. normalize_capability c \<in> set (granting_names e))
      \<longleftrightarrow> (\<exists>n \<in> set (granting_names e). n \<in> normalize_capability ` set caps)"
    by blast
  with assms show ?thesis
    by (cases e) (auto simp: supports_endpoint_def granting_names_def is_chat_family_def Let_def)
qed

lemma supports_endpoint_mono:
  "supports_endpoint caps e \<Longrightarrow> caps \<noteq> [] \<Longrightarrow> set caps \<subseteq> set caps' \<Longrightarrow> supports_endpoint caps' e"
  by (subst supports_endpoint_granting) (auto simp: supports_endpoint_granting)

end
