(* ===== verification/Errors.thy ===== *)
theory Errors
  imports Models
begin

text \<open>
  The error type of the program and the classification of upstream failures
  (\<open>src/error.rs\<close>), with the test that decides whether the router goes on to the next
  account or provider (\<open>fallback_error\<close> of \<open>src/upstream.rs\<close>). A status code is a
  natural number. The payload of a database, HTTP or JSON error is its display text.
\<close>

section \<open>The error type\<close>

datatype app_error =
    NotFound string
  | BadRequest string
  | Upstream string
  | ClassifiedUpstream nat json
  | Database string
  | Http string
  | JsonError string

type_synonym 'a app_result = "app_error + 'a"

fun error_text :: "app_error \<Rightarrow> string" where
  "error_text (NotFound m) = ''not found: '' @ m"
| "error_text (BadRequest m) = ''bad request: '' @ m"
| "error_text (Upstream m) = ''upstream error: '' @ m"
| "error_text (ClassifiedUpstream s b) = ''classified upstream error''"
| "error_text (Database m) = ''database error: '' @ m"
| "error_text (Http m) = ''http error: '' @ m"
| "error_text (JsonError m) = ''json error: '' @ m"

fun status_code :: "app_error \<Rightarrow> nat" where
  "status_code (ClassifiedUpstream s b) = s"
| "status_code (NotFound m) = 404"
| "status_code (BadRequest m) = 400"
| "status_code (Upstream m) = 502"
| "status_code _ = 500"

text \<open>\<open>IntoResponse\<close>: the status and the JSON body the client gets.\<close>

fun into_response :: "app_error \<Rightarrow> nat \<times> json" where
  "into_response (ClassifiedUpstream s b) = (s, b)"
| "into_response e =
     (case e of NotFound m \<Rightarrow> 404 | BadRequest m \<Rightarrow> 400 | Upstream m \<Rightarrow> 502 | _ \<Rightarrow> 500,
      json_obj [(''error'', json_obj [(''message'', JStr (error_text e)),
                                      (''type'', JStr ''kou_router_error'')])])"

lemma into_response_status: "fst (into_response e) = status_code e"
  by (cases e) simp_all

section \<open>Classification of upstream failures\<close>

datatype error_kind =
    RateLimit | Overloaded | PromptTooLong | InvalidRequest | AuthenticationFailed
  | ModelNotFound | ContentFiltered | Timeout | ServerError | ConnectionError | Unknown

definition is_retriable :: "error_kind \<Rightarrow> bool" where
  "is_retriable k \<longleftrightarrow> k \<in> {RateLimit, Overloaded, Timeout, ServerError, ConnectionError}"

fun http_status :: "error_kind \<Rightarrow> nat" where
  "http_status RateLimit = 429"
| "http_status Overloaded = 503"
| "http_status PromptTooLong = 400"
| "http_status InvalidRequest = 400"
| "http_status AuthenticationFailed = 401"
| "http_status ModelNotFound = 404"
| "http_status ContentFiltered = 400"
| "http_status Timeout = 504"
| "http_status ServerError = 502"
| "http_status ConnectionError = 502"
| "http_status Unknown = 502"

definition is_server_error :: "nat \<Rightarrow> bool" where
  "is_server_error s \<longleftrightarrow> 500 \<le> s \<and> s < 600"

definition is_success :: "nat \<Rightarrow> bool" where
  "is_success s \<longleftrightarrow> 200 \<le> s \<and> s < 300"

definition contains_any :: "string \<Rightarrow> string list \<Rightarrow> bool" where
  "contains_any s ps \<longleftrightarrow> list_ex (str_contains s) ps"

definition prompt_patterns :: "string list" where
  "prompt_patterns = [''prompt is too long'', ''context_length_exceeded'', ''max_tokens'',
     ''maximum context length'', ''too many tokens'']"

definition rate_patterns :: "string list" where
  "rate_patterns = [''rate limit'', ''rate_limit'', ''quota'', ''too many requests'']"

definition overload_patterns :: "string list" where
  "overload_patterns = [''overloaded'', ''capacity'', ''temporarily unavailable'']"

definition filter_patterns :: "string list" where
  "filter_patterns = [''content_filter'', ''content filter'', ''safety'', ''blocked'',
     ''content_policy'']"

definition auth_patterns :: "string list" where
  "auth_patterns = [''authentication'', ''invalid.*key'', ''unauthorized'', ''invalid api key'',
     ''incorrect api key'']"

definition classify_upstream_error :: "nat \<Rightarrow> string \<Rightarrow> error_kind" where
  "classify_upstream_error status body =
     (let lower = to_ascii_lowercase body in
      if status = 429 then RateLimit
      else if status = 401 \<or> status = 403 then AuthenticationFailed
      else if status = 404 then
        (if str_contains lower ''model'' then ModelNotFound else ModelNotFound)
      else if status = 408 then Timeout
      else if status = 529 then Overloaded
      else if contains_any lower prompt_patterns then PromptTooLong
      else if contains_any lower rate_patterns then RateLimit
      else if contains_any lower overload_patterns then Overloaded
      else if contains_any lower filter_patterns then ContentFiltered
      else if contains_any lower auth_patterns then AuthenticationFailed
      else if status = 400 then InvalidRequest
      else if status = 500 \<or> status = 502 \<or> status = 503 then ServerError
      else if is_server_error status then ServerError
      else Unknown)"

definition fallback_error :: "nat \<Rightarrow> string \<Rightarrow> bool" where
  "fallback_error status body \<longleftrightarrow>
     status = 429 \<or> is_server_error status
     \<or> str_contains (to_ascii_lowercase body) ''rate limit''
     \<or> str_contains (to_ascii_lowercase body) ''quota''"

section \<open>The error object sent to the client\<close>

fun kind_name :: "error_kind \<Rightarrow> string" where
  "kind_name RateLimit = ''rate_limit''"
| "kind_name Overloaded = ''overloaded''"
| "kind_name PromptTooLong = ''prompt_too_long''"
| "kind_name InvalidRequest = ''invalid_request''"
| "kind_name AuthenticationFailed = ''authentication_failed''"
| "kind_name ModelNotFound = ''model_not_found''"
| "kind_name ContentFiltered = ''content_filtered''"
| "kind_name Timeout = ''timeout''"
| "kind_name ServerError = ''server_error''"
| "kind_name ConnectionError = ''connection_error''"
| "kind_name Unknown = ''unknown''"

fun kind_label :: "error_kind \<Rightarrow> string" where
  "kind_label RateLimit = ''rate limit''"
| "kind_label Overloaded = ''overloaded''"
| "kind_label PromptTooLong = ''prompt too long''"
| "kind_label InvalidRequest = ''invalid request''"
| "kind_label AuthenticationFailed = ''authentication''"
| "kind_label ModelNotFound = ''model not found''"
| "kind_label ContentFiltered = ''content filtered''"
| "kind_label Timeout = ''timeout''"
| "kind_label ServerError = ''server''"
| "kind_label ConnectionError = ''connection''"
| "kind_label Unknown = ''unknown''"

text \<open>\<open>parse\<close> stands for \<open>serde_json::from_str\<close>.\<close>

definition extract_upstream_error_text ::
  "(string \<Rightarrow> json option) \<Rightarrow> string \<Rightarrow> string option" where
  "extract_upstream_error_text parse body =
     (let trimmed = trim body in
      if trimmed = [] then None
      else or_else
        (Option.bind (parse trimmed) (\<lambda>v.
           or_else (Option.bind (jget ''error'' v) (get_str ''message''))
             (or_else (get_str ''error'' v) (get_str ''message'' v))))
        (Some trimmed))"

definition classified_upstream_message ::
  "(string \<Rightarrow> json option) \<Rightarrow> error_kind \<Rightarrow> string \<Rightarrow> string" where
  "classified_upstream_message parse kind body =
     (let classified = ''upstream provider returned '' @ kind_label kind @ '' error'' in
      case extract_upstream_error_text parse body of
        Some text \<Rightarrow> classified @ '': '' @ text
      | None \<Rightarrow> classified)"

definition enriched_error_response ::
  "(string \<Rightarrow> json option) \<Rightarrow> error_kind \<Rightarrow> nat \<Rightarrow> string \<Rightarrow> string \<Rightarrow> u64 option \<Rightarrow> json" where
  "enriched_error_response parse kind status body provider_id retry_after_secs =
     (let err = mk_obj
            [(''message'', JStr (classified_upstream_message parse kind body)),
             (''type'', JStr (kind_name kind)),
             (''upstream_status'', jnat (of_nat status)),
             (''provider_id'', JStr provider_id),
             (''retriable'', JBool (is_retriable kind))];
          err = (case retry_after_secs of
                   None \<Rightarrow> err
                 | Some secs \<Rightarrow> obj_insert ''retry_after_secs'' (jnat secs) err)
      in json_obj [(''error'', JObj err)])"

section \<open>What the classification guarantees\<close>

lemma retriable_status:
  "is_retriable k \<Longrightarrow> http_status k \<in> {429, 502, 503, 504}"
  by (cases k) (simp_all add: is_retriable_def)

lemma classify_by_status:
  "classify_upstream_error 429 body = RateLimit"
  "classify_upstream_error 401 body = AuthenticationFailed"
  "classify_upstream_error 403 body = AuthenticationFailed"
  "classify_upstream_error 404 body = ModelNotFound"
  "classify_upstream_error 408 body = Timeout"
  "classify_upstream_error 529 body = Overloaded"
  by (simp_all add: classify_upstream_error_def Let_def)

lemma classify_never_connection: "classify_upstream_error status body \<noteq> ConnectionError"
  by (simp add: classify_upstream_error_def Let_def)

lemma classify_case_insensitive:
  "classify_upstream_error status (to_ascii_lowercase body) = classify_upstream_error status body"
  by (simp add: classify_upstream_error_def)

lemma classify_server_error_falls_back:
  "classify_upstream_error status body = ServerError \<Longrightarrow> fallback_error status body"
  by (auto simp: classify_upstream_error_def Let_def fallback_error_def is_server_error_def
      split: if_splits)

lemma enriched_error_fields:
  assumes "jget ''error'' (enriched_error_response parse kind status body pid ra) = Some e"
  shows "get_bool ''retriable'' e = Some (is_retriable kind)"
    and "get_str ''type'' e = Some (kind_name kind)"
    and "get_str ''provider_id'' e = Some pid"
    and "get_u64 ''retry_after_secs'' e = ra"
  using assms
  by (auto simp: enriched_error_response_def Let_def kou_simps split: option.splits)

lemma extract_upstream_error_text_None:
  "extract_upstream_error_text parse body = None \<longleftrightarrow> trim body = []"
  by (simp add: extract_upstream_error_text_def Let_def)

end
