(* ===== verification/F64.thy ===== *)
theory F64
  imports Complex_Main Prelude
begin

text \<open>
  The 64-bit floats the program computes with or parses from headers: finite values are the
  rationals they denote (\<open>-0.0\<close> and \<open>0.0\<close> are one value), rounding is IEEE 754
  round-to-nearest, ties to even, with subnormals and overflow to infinity. Parsing follows
  the grammar of \<open>str::parse::<f64>\<close>.
\<close>

datatype f64 = Fin rat | Inf bool | NaN

fun bitlen :: "nat \<Rightarrow> nat" where
  "bitlen n = (if n = 0 then 0 else Suc (bitlen (n div 2)))"

declare bitlen.simps [simp del]

definition pow2 :: "int \<Rightarrow> rat" where
  "pow2 k = (if 0 \<le> k then 2 ^ nat k else 1 / 2 ^ nat (- k))"

definition round_half_even :: "rat \<Rightarrow> int" where
  "round_half_even q =
     (let f = \<lfloor>q\<rfloor>; r = q - of_int f in
      if r < 1 / 2 then f else if 1 / 2 < r then f + 1 else if even f then f else f + 1)"

text \<open>The exponent of the last place: 53 significant bits, at least \<open>-1074\<close>.\<close>

definition ulp_exponent :: "rat \<Rightarrow> int" where
  "ulp_exponent q =
     (let (a, b) = quotient_of q;
          k = int (bitlen (nat a)) - int (bitlen (nat b)) - 53;
          k = (if q / pow2 k < 2 ^ 53 then k else k + 1)
      in max k (- 1074))"

definition f64_round :: "rat \<Rightarrow> f64" where
  "f64_round q =
     (if q = 0 then Fin 0
      else let k = ulp_exponent \<bar>q\<bar>;
               v = of_int (round_half_even (\<bar>q\<bar> / pow2 k)) * pow2 k
           in if 2 ^ 1024 \<le> v then Inf (q < 0) else Fin (sgn q * v))"

text \<open>\<open>f64::ceil\<close> followed by \<open>as u64\<close>, which saturates and sends NaN to 0.\<close>

fun ceil_as_u64 :: "f64 \<Rightarrow> u64" where
  "ceil_as_u64 (Fin q) =
     (let c = \<lceil>q\<rceil> in if c \<le> 0 then 0 else if 2 ^ 64 \<le> c then - 1 else of_int c)"
| "ceil_as_u64 (Inf neg) = (if neg then 0 else - 1)"
| "ceil_as_u64 NaN = 0"

section \<open>Arithmetic and comparison\<close>

fun f64_add :: "f64 \<Rightarrow> f64 \<Rightarrow> f64" where
  "f64_add (Fin a) (Fin b) = f64_round (a + b)"
| "f64_add (Inf s) (Inf t) = (if s = t then Inf s else NaN)"
| "f64_add (Inf s) (Fin b) = Inf s"
| "f64_add (Fin a) (Inf t) = Inf t"
| "f64_add _ _ = NaN"

fun f64_mul :: "f64 \<Rightarrow> f64 \<Rightarrow> f64" where
  "f64_mul (Fin a) (Fin b) = f64_round (a * b)"
| "f64_mul (Inf s) (Inf t) = Inf (s \<noteq> t)"
| "f64_mul (Inf s) (Fin b) = (if b = 0 then NaN else Inf (s \<noteq> (b < 0)))"
| "f64_mul (Fin a) (Inf t) = (if a = 0 then NaN else Inf (t \<noteq> (a < 0)))"
| "f64_mul _ _ = NaN"

text \<open>Division; the divisors of the program are positive.\<close>

fun f64_div :: "f64 \<Rightarrow> f64 \<Rightarrow> f64" where
  "f64_div (Fin a) (Fin b) =
     (if b = 0 then (if a = 0 then NaN else Inf (a < 0)) else f64_round (a / b))"
| "f64_div (Inf s) (Fin b) = Inf (s \<noteq> (b < 0))"
| "f64_div (Fin a) (Inf t) = Fin 0"
| "f64_div _ _ = NaN"

fun f64_le :: "f64 \<Rightarrow> f64 \<Rightarrow> bool" where
  "f64_le (Fin a) (Fin b) = (a \<le> b)"
| "f64_le (Inf s) (Inf t) = (s \<or> \<not> t)"
| "f64_le (Inf s) (Fin b) = s"
| "f64_le (Fin a) (Inf t) = (\<not> t)"
| "f64_le _ _ = False"

definition f64_of_u64 :: "u64 \<Rightarrow> f64" where
  "f64_of_u64 w = f64_round (of_nat (unat w))"

section \<open>Parsing\<close>

text \<open>An exponent: \<open>e\<close> (already lower-case), an optional sign, digits; or nothing.\<close>

definition parse_exponent :: "string \<Rightarrow> int option" where
  "parse_exponent s =
     (if s = [] then Some 0
      else case strip_prefix ''e'' s of
        None \<Rightarrow> None
      | Some r \<Rightarrow> (case strip_prefix ''-'' r of
            Some d \<Rightarrow> map_option (\<lambda>n. - int n) (parse_digits d)
          | None \<Rightarrow> map_option int (parse_digits (unwrap_or r (strip_prefix ''+'' r)))))"

definition parse_decimal :: "string \<Rightarrow> rat option" where
  "parse_decimal s =
     (let i = takeWhile is_digit s; r = dropWhile is_digit s;
          (f, t) = (case strip_prefix ''.'' r of
                      None \<Rightarrow> ([], r)
                    | Some u \<Rightarrow> (takeWhile is_digit u, dropWhile is_digit u))
      in if i = [] \<and> f = [] then None
         else map_option
           (\<lambda>e. let k = e - int (length f); m = of_nat (digits_value (i @ f)) in
                if 0 \<le> k then m * 10 ^ nat k else m / 10 ^ nat (- k))
           (parse_exponent t))"

definition parse_f64 :: "string \<Rightarrow> f64 option" where
  "parse_f64 s =
     (let neg = starts_with s ''-'';
          body = to_ascii_lowercase
            (if starts_with s ''-'' \<or> starts_with s ''+'' then drop 1 s else s)
      in if body = ''nan'' then Some NaN
         else if body = ''inf'' \<or> body = ''infinity'' then Some (Inf neg)
         else map_option (\<lambda>q. f64_round (if neg then - q else q)) (parse_decimal body))"

section \<open>Facts\<close>

lemma pow2_pos: "0 < pow2 k"
  by (simp add: pow2_def)

lemma round_half_even_nonneg: "0 \<le> q \<Longrightarrow> 0 \<le> round_half_even q"
  by (auto simp: round_half_even_def Let_def)

lemma f64_round_0 [simp]: "f64_round 0 = Fin 0"
  by (simp add: f64_round_def)

lemma f64_round_nonneg: "0 \<le> q \<Longrightarrow> f64_round q = Fin v \<Longrightarrow> 0 \<le> v"
proof -
  assume q: "0 \<le> q" and r: "f64_round q = Fin v"
  show "0 \<le> v"
  proof (cases "q = 0")
    case True
    with r show ?thesis by simp
  next
    case False
    with q have "sgn q = 1" by simp
    with r False q have "v = of_int (round_half_even (q / pow2 (ulp_exponent q)))
        * pow2 (ulp_exponent q)"
      by (auto simp: f64_round_def Let_def split: if_splits)
    moreover have "0 \<le> round_half_even (q / pow2 (ulp_exponent q))"
      using q pow2_pos less_imp_le by (intro round_half_even_nonneg) (simp add: pow2_pos less_imp_le)
    ultimately show ?thesis using pow2_pos [of "ulp_exponent q"] by (simp add: less_imp_le)
  qed
qed

lemma f64_round_not_NaN: "f64_round q \<noteq> NaN"
  by (simp add: f64_round_def Let_def)

end
