(* ===== verification/Upstream.thy ===== *)
theory Upstream
  imports Errors
begin

text \<open>
  Building a request to a provider (\<open>src/upstream.rs\<close>): the headers taken over from the
  client, the credentials and headers of the provider, the path and URL, the body, and the
  handling of the response: which headers go back, whether it is a stream, the copy kept of a
  stream and its idle timeout. A header map is a list of pairs in iteration order, its names in
  lower case; a header value is a byte string. The outgoing request is the list of
  \<open>builder.header(name, value)\<close> calls; which names and values the HTTP library accepts is an
  argument.
\<close>

section \<open>Header collections keyed without regard to case\<close>

definition header_has :: "string \<Rightarrow> headers \<Rightarrow> bool" where
  "header_has name hs \<longleftrightarrow> list_ex (\<lambda>(n, _). eq_ignore_ascii_case n name) hs"

definition header_find :: "string \<Rightarrow> headers \<Rightarrow> string option" where
  "header_find name hs = map_option snd (find (\<lambda>(n, _). eq_ignore_ascii_case n name) hs)"

fun headers_distinct :: "headers \<Rightarrow> bool" where
  "headers_distinct [] = True"
| "headers_distinct ((n, v) # hs) = (\<not> header_has n hs \<and> headers_distinct hs)"

definition passthrough_names :: "string list" where
  "passthrough_names =
     [''anthropic-beta'', ''anthropic-version'', ''x-request-id'', ''x-client-request-id'',
      ''x-app'', ''user-agent'', ''x-claude-code-session-id'', ''x-claude-code-agent-id'',
      ''x-claude-code-parent-agent-id'', ''x-claude-remote-container-id'',
      ''x-claude-remote-session-id'', ''x-client-app'', ''x-anthropic-additional-protection'',
      ''anthropic-client-platform'', ''openai-beta'', ''originator'', ''session-id'',
      ''thread-id'', ''traceparent'', ''tracestate'', ''x-codex-beta-features'',
      ''x-codex-installation-id'', ''x-codex-parent-thread-id'', ''x-codex-turn-metadata'',
      ''x-codex-turn-state'', ''x-codex-window-id'', ''x-oai-attestation'',
      ''x-openai-internal-codex-responses-lite'', ''x-openai-memgen-request'',
      ''x-openai-subagent'', ''x-responsesapi-include-timing-metrics'']"

text \<open>\<open>HeaderValue::to_str\<close>: visible ASCII, space and tab only.\<close>

definition header_to_str :: "string \<Rightarrow> string option" where
  "header_to_str v =
     (if list_all (\<lambda>c. (32 \<le> byte c \<and> byte c < 127) \<or> byte c = 9) v then Some v else None)"

definition header_map_get :: "string \<Rightarrow> headers \<Rightarrow> string option" where
  "header_map_get name hs = map_of hs name"

definition from_header_map :: "headers \<Rightarrow> headers" where
  "from_header_map hs =
     List.map_filter
       (\<lambda>name. case Option.bind (header_map_get name hs) header_to_str of
          None \<Rightarrow> None
        | Some v \<Rightarrow> Some (name, v))
       passthrough_names"

definition set_if_missing :: "string \<Rightarrow> string \<Rightarrow> headers \<Rightarrow> headers" where
  "set_if_missing name v hs = (if header_has name hs then hs else hs @ [(name, v)])"

fun merge_headers :: "headers \<Rightarrow> headers \<Rightarrow> headers" where
  "merge_headers hs [] = hs"
| "merge_headers hs ((name, v) # extra) =
     merge_headers (if header_has name hs then hs else hs @ [(name, v)]) extra"

definition csv_items :: "string \<Rightarrow> string list" where
  "csv_items v = filter (\<lambda>i. i \<noteq> []) (map trim (split_on CHR '','' v))"

definition csv_merge :: "string \<Rightarrow> string \<Rightarrow> string" where
  "csv_merge existing vals =
     str_join '',''
       (foldl (\<lambda>merged v. if v \<in> set merged then merged else merged @ [v])
          (csv_items existing) (csv_items vals))"

fun header_update_first :: "string \<Rightarrow> (string \<Rightarrow> string) \<Rightarrow> headers \<Rightarrow> headers" where
  "header_update_first name f [] = []"
| "header_update_first name f ((n, v) # hs) =
     (if eq_ignore_ascii_case n name then (n, f v) # hs
      else (n, v) # header_update_first name f hs)"

definition merge_csv_header :: "string \<Rightarrow> string \<Rightarrow> headers \<Rightarrow> headers" where
  "merge_csv_header name vals hs =
     (if trim vals = [] then hs
      else if header_has name hs
      then header_update_first name (\<lambda>existing. csv_merge existing vals) hs
      else hs @ [(name, vals)])"

definition ensure_claude_files_api_defaults :: "headers \<Rightarrow> headers" where
  "ensure_claude_files_api_defaults hs =
     merge_csv_header ''anthropic-beta'' ''files-api-2025-04-14,oauth-2025-04-20''
       (set_if_missing ''anthropic-version'' ''2023-06-01'' hs)"

lemma header_has_Nil [simp]: "\<not> header_has name []"
  by (simp add: header_has_def)

lemma header_has_Cons [simp]:
  "header_has name ((n, v) # hs) \<longleftrightarrow> eq_ignore_ascii_case n name \<or> header_has name hs"
  by (simp add: header_has_def)

lemma header_has_append [simp]:
  "header_has name (hs @ hs') \<longleftrightarrow> header_has name hs \<or> header_has name hs'"
  by (simp add: header_has_def)

lemma header_has_cong:
  "eq_ignore_ascii_case n n' \<Longrightarrow> header_has n hs \<longleftrightarrow> header_has n' hs"
  by (auto simp: header_has_def eq_ignore_ascii_case_def list_ex_iff)

lemma header_find_None: "header_find name hs = None \<longleftrightarrow> \<not> header_has name hs"
  by (auto simp: header_find_def header_has_def find_None_iff list_ex_iff)

lemma header_find_Nil [simp]: "header_find name [] = None"
  by (simp add: header_find_def)

lemma header_find_Cons [simp]:
  "header_find name ((n, v) # hs)
     = (if eq_ignore_ascii_case n name then Some v else header_find name hs)"
  by (simp add: header_find_def)

lemma header_find_append [simp]:
  "header_find name (hs @ hs') = or_else (header_find name hs) (header_find name hs')"
  by (induction hs) auto

lemma headers_distinct_append:
  "headers_distinct (hs @ hs') \<longleftrightarrow> headers_distinct hs \<and> headers_distinct hs'
     \<and> (\<forall>n. header_has n hs \<longrightarrow> \<not> header_has n hs')"
proof (induction hs)
  case (Cons a hs)
  obtain n v where a: "a = (n, v)" by (cases a)
  have "(\<forall>m. eq_ignore_ascii_case n m \<longrightarrow> \<not> header_has m hs') \<longleftrightarrow> \<not> header_has n hs'"
    using header_has_cong [of n] eq_ignore_ascii_case_refl by metis
  with Cons a show ?case by auto
qed simp

section \<open>A store of headers: what adding one guarantees\<close>

text \<open>
  The contract the fingerprint and the router rely on when they complete the client's headers:
  what was there stays, what was missing is added, and no name occurs twice.
\<close>

locale header_store =
  fixes look :: "string \<Rightarrow> 'h \<Rightarrow> string option"
    and add :: "string \<Rightarrow> string \<Rightarrow> 'h \<Rightarrow> 'h"
    and ok :: "'h \<Rightarrow> bool"
  assumes look_add: "look n (add m v h)
      = or_else (look n h) (if eq_ignore_ascii_case m n then Some v else None)"
    and ok_add: "ok h \<Longrightarrow> ok (add m v h)"
begin

definition add_all :: "headers \<Rightarrow> 'h \<Rightarrow> 'h" where
  "add_all hs h = foldl (\<lambda>h (n, v). add n v h) h hs"

lemma look_add_all: "look n (add_all hs h) = or_else (look n h) (header_find n hs)"
  unfolding add_all_def
proof (induction hs arbitrary: h)
  case (Cons a hs)
  then show ?case by (cases a) (simp add: look_add or_else_assoc)
qed simp

lemma add_all_keeps: "look n h = Some v \<Longrightarrow> look n (add_all hs h) = Some v"
  by (simp add: look_add_all)

lemma ok_add_all: "ok h \<Longrightarrow> ok (add_all hs h)"
  unfolding add_all_def by (induction hs arbitrary: h) (auto simp: ok_add)

end

lemma set_if_missing_find:
  "header_find n (set_if_missing m v hs)
     = or_else (header_find n hs) (if eq_ignore_ascii_case m n then Some v else None)"
proof (cases "eq_ignore_ascii_case m n")
  case True
  then have "header_has m hs \<longleftrightarrow> header_has n hs" by (rule header_has_cong)
  with True show ?thesis
    using header_find_None [of n hs] by (auto simp: set_if_missing_def)
qed (simp add: set_if_missing_def)

lemma set_if_missing_distinct:
  "headers_distinct hs \<Longrightarrow> headers_distinct (set_if_missing m v hs)"
  using header_has_cong [of m] by (auto simp: set_if_missing_def headers_distinct_append)

interpretation hstore: header_store header_find set_if_missing headers_distinct
  by unfold_locales (simp_all add: set_if_missing_find set_if_missing_distinct)

lemma merge_headers_add_all: "merge_headers hs extra = hstore.add_all extra hs"
  unfolding hstore.add_all_def
  by (induction extra arbitrary: hs) (auto simp: set_if_missing_def)

lemmas merge_headers_find = hstore.look_add_all [folded merge_headers_add_all]
lemmas merge_headers_distinct = hstore.ok_add_all [folded merge_headers_add_all]

lemma merge_headers_prefix: "\<exists>t. merge_headers hs extra = hs @ t"
  by (induction extra arbitrary: hs) (auto, metis append.assoc)

lemma header_update_first_has [simp]:
  "header_has n (header_update_first name f hs) = header_has n hs"
  by (induction hs) (auto split: if_splits)

lemma header_update_first_find:
  "header_find n (header_update_first name f hs)
     = (if eq_ignore_ascii_case name n then map_option f (header_find n hs)
        else header_find n hs)"
  by (induction hs) (auto simp: eq_ignore_ascii_case_def)

lemma header_update_first_distinct [simp]:
  "headers_distinct (header_update_first name f hs) = headers_distinct hs"
  by (induction hs) (auto split: if_splits)

lemma merge_csv_header_distinct:
  "headers_distinct hs \<Longrightarrow> headers_distinct (merge_csv_header name vals hs)"
  using header_has_cong [of name] by (auto simp: merge_csv_header_def headers_distinct_append)

lemma merge_csv_header_other:
  "\<not> eq_ignore_ascii_case name n
     \<Longrightarrow> header_find n (merge_csv_header name vals hs) = header_find n hs"
  by (simp add: merge_csv_header_def header_update_first_find)

lemma from_header_map_distinct: "headers_distinct (from_header_map hs)"
proof -
  have "headers_distinct (List.map_filter
      (\<lambda>name. case Option.bind (header_map_get name hs) header_to_str of
          None \<Rightarrow> None | Some v \<Rightarrow> Some (name, v)) ns)"
    if "distinct (map to_ascii_lowercase ns)" for ns
    using that
  proof (induction ns)
    case (Cons a ns)
    have "header_has a (List.map_filter
      (\<lambda>name. case Option.bind (header_map_get name hs) header_to_str of
          None \<Rightarrow> None | Some v \<Rightarrow> Some (name, v)) ns)
      \<Longrightarrow> to_ascii_lowercase a \<in> to_ascii_lowercase ` set ns"
      by (auto simp: header_has_def list_ex_iff List.map_filter_def eq_ignore_ascii_case_def
          split: option.splits intro: rev_image_eqI)
    with Cons show ?case by (auto simp: map_filter_simps split: option.splits)
  qed (simp add: List.map_filter_def)
  moreover have "distinct (map to_ascii_lowercase passthrough_names)"
    by code_simp
  ultimately show ?thesis by (simp add: from_header_map_def)
qed

section \<open>The credentials of an account on its provider\<close>

definition is_codex_responses_provider :: "provider \<Rightarrow> bool" where
  "is_codex_responses_provider p \<longleftrightarrow>
     eq_ignore_ascii_case (p_provider p) ''codex''
     \<or> eq_ignore_ascii_case (p_model_prefix p) ''codex''
     \<or> str_contains (p_base_url p) ''/backend-api/codex''"

definition codex_account_headers :: "account \<Rightarrow> headers_map \<Rightarrow> headers_map" where
  "codex_account_headers a hs =
     (let hs = obj_or_insert ''ChatGPT-Account-ID'' (unwrap_or [] (a_remote_account_id a)) hs;
          hs = (if obj_get ''ChatGPT-Account-ID'' hs = Some []
                then obj_remove ''ChatGPT-Account-ID'' hs else hs)
      in if a_is_fedramp a then obj_or_insert ''X-OpenAI-Fedramp'' ''true'' hs else hs)"

definition nonblank :: "string option \<Rightarrow> string option" where
  "nonblank v = opt_filter (\<lambda>s. s \<noteq> []) (map_option trim v)"

definition provider_with_account_auth :: "provider \<Rightarrow> account \<Rightarrow> string \<Rightarrow> provider" where
  "provider_with_account_auth p a provider_id =
     (let r = (case a_auth_mode a of
                 ApiKeyMode \<Rightarrow> p\<lparr>p_api_key := a_api_key a\<rparr>
               | OAuthMode \<Rightarrow>
                   (let q = p\<lparr>p_api_key := a_access_token a\<rparr> in
                    if eq_ignore_ascii_case provider_id ''codex''
                    then q\<lparr>p_extra_headers := codex_account_headers a (p_extra_headers q)\<rparr>
                    else q));
          r = (case nonblank (a_base_url a) of
                 None \<Rightarrow> r
               | Some u \<Rightarrow> r\<lparr>p_base_url := trim_end_char CHR ''/'' u\<rparr>);
          r = (case nonblank (a_protocol_format a) of
                 None \<Rightarrow> r
               | Some f \<Rightarrow> r\<lparr>p_protocol_format := Some f\<rparr>);
          r = (case opt_filter (\<lambda>vs. vs \<noteq> []) (a_supported_endpoints a) of
                 None \<Rightarrow> r
               | Some vs \<Rightarrow> r\<lparr>p_supported_endpoints := vs\<rparr>)
      in r)"

lemma provider_with_account_auth_key:
  "p_api_key (provider_with_account_auth p a pid)
     = (case a_auth_mode a of ApiKeyMode \<Rightarrow> a_api_key a | OAuthMode \<Rightarrow> a_access_token a)"
  by (simp add: provider_with_account_auth_def Let_def split: option.splits auth_mode.splits)

lemma provider_with_account_auth_identity:
  "p_id (provider_with_account_auth p a pid) = p_id p"
  "p_provider (provider_with_account_auth p a pid) = p_provider p"
  "p_model_prefix (provider_with_account_auth p a pid) = p_model_prefix p"
  by (simp_all add: provider_with_account_auth_def Let_def split: option.splits auth_mode.splits)

lemma codex_account_headers_get:
  "obj_get k (codex_account_headers a hs)
     = (if k = ''ChatGPT-Account-ID''
        then opt_filter (\<lambda>v. v \<noteq> [])
               (or_else (obj_get k hs) (a_remote_account_id a))
        else if k = ''X-OpenAI-Fedramp'' \<and> a_is_fedramp a
        then or_else (obj_get k hs) (Some ''true'')
        else obj_get k hs)"
  by (cases "obj_get ''ChatGPT-Account-ID'' hs"; cases "a_remote_account_id a";
      cases "obj_get ''X-OpenAI-Fedramp'' hs")
    (auto simp: codex_account_headers_def Let_def)

section \<open>Paths, URL and body of a request\<close>

function str_replace :: "string \<Rightarrow> string \<Rightarrow> string \<Rightarrow> string" where
  "str_replace p w [] = []"
| "str_replace p w (c # cs) =
     (if p \<noteq> [] \<and> starts_with (c # cs) p
      then w @ str_replace p w (drop (length p) (c # cs))
      else c # str_replace p w cs)"
  by pat_completeness auto
termination
  by (relation "measure (\<lambda>(p, w, s). length s)") auto

definition append_path_suffix :: "string \<Rightarrow> string \<Rightarrow> string" where
  "append_path_suffix base_path suff =
     (if suff = [] then base_path
      else if starts_with suff ''/'' then base_path @ suff
      else base_path @ ''/'' @ suff)"

definition append_suffix_if_needed :: "endpoint \<Rightarrow> string \<Rightarrow> string option \<Rightarrow> string" where
  "append_suffix_if_needed e base_path suff =
     (if e = Responses then
        (if str_contains base_path ''{suffix}''
         then str_replace ''{suffix}'' (unwrap_or [] suff) base_path
         else append_path_suffix base_path (unwrap_or [] suff))
      else base_path)"

definition chat_family_override_key :: "endpoint \<Rightarrow> string option" where
  "chat_family_override_key e = (if is_chat_family e then Some ''chat'' else None)"

definition provider_path_override ::
  "headers_map \<Rightarrow> endpoint \<Rightarrow> string option \<Rightarrow> string option" where
  "provider_path_override overrides e suff =
     (case List.map_filter (\<lambda>k. obj_get k overrides)
             (List.map_filter id [Some (endpoint_as_str e), Some (endpoint_capability e),
                                  chat_family_override_key e]) of
        [] \<Rightarrow> None
      | path # _ \<Rightarrow> Some (append_suffix_if_needed e path suff))"

fun default_path :: "endpoint \<Rightarrow> string" where
  "default_path ChatCompletions = ''/chat/completions''"
| "default_path Completions = ''/chat/completions''"
| "default_path Messages = ''/messages''"
| "default_path Responses = ''/responses''"
| "default_path Files = ''/files''"
| "default_path OllamaChat = ''/api/chat''"
| "default_path Embeddings = ''/embeddings''"
| "default_path ImagesGenerations = ''/images/generations''"
| "default_path MusicGenerations = ''/music/generations''"
| "default_path VideosGenerations = ''/videos/generations''"
| "default_path Moderations = ''/moderations''"
| "default_path Rerank = ''/rerank''"
| "default_path Search = ''/search''"
| "default_path AudioSpeech = ''/audio/speech''"
| "default_path AudioTranscriptions = ''/audio/transcriptions''"

definition endpoint_path :: "provider \<Rightarrow> endpoint \<Rightarrow> string option \<Rightarrow> bool \<Rightarrow> string" where
  "endpoint_path p e suff stream_requested =
     (case (if stream_requested then provider_path_override (p_stream_endpoint_paths p) e suff
            else None) of
        Some path \<Rightarrow> path
      | None \<Rightarrow> (case provider_path_override (p_endpoint_paths p) e suff of
            Some path \<Rightarrow> path
          | None \<Rightarrow> append_suffix_if_needed e (default_path e) suff))"

definition build_url :: "string \<Rightarrow> string \<Rightarrow> string" where
  "build_url base_url path =
     (if starts_with path ''http://'' \<or> starts_with path ''https://'' then path
      else trim_end_char CHR ''/'' base_url @ path)"

record prepared_request =
  request_body :: json
  req_path :: string
  req_url :: string

fun force_codex_responses_stream :: "provider \<Rightarrow> endpoint \<Rightarrow> json \<Rightarrow> json" where
  "force_codex_responses_stream p e body =
     (if e \<noteq> Responses \<or> \<not> is_codex_responses_provider p then body
      else (case body of JObj ob \<Rightarrow> JObj (obj_insert ''stream'' (JBool True) ob) | _ \<Rightarrow> body))"

text \<open>\<open>None\<close> is the panic of \<open>request_body["model"] = \<dots>\<close> on a payload that is neither
  an object nor null.\<close>

definition prepare_upstream_request ::
  "provider \<Rightarrow> endpoint \<Rightarrow> string option \<Rightarrow> string \<Rightarrow> json \<Rightarrow> bool \<Rightarrow> prepared_request option" where
  "prepare_upstream_request p e suff model payload inject_model =
     map_option
       (\<lambda>body.
          let body = force_codex_responses_stream p e body;
              stream_requested = unwrap_or False (get_bool ''stream'' body);
              path = endpoint_path p e suff stream_requested
          in \<lparr>request_body = body, req_path = path, req_url = build_url (p_base_url p) path\<rparr>)
       (if inject_model then jset ''model'' (JStr model) payload else Some payload)"

lemma str_replace_nomatch: "\<not> str_contains s p \<Longrightarrow> str_replace p w s = s"
  by (induction s) auto

lemma provider_path_override_None:
  "provider_path_override overrides e suff = None
     \<longleftrightarrow> obj_get (endpoint_as_str e) overrides = None
       \<and> obj_get (endpoint_capability e) overrides = None
       \<and> (is_chat_family e \<longrightarrow> obj_get ''chat'' overrides = None)"
  by (auto simp: provider_path_override_def List.map_filter_def chat_family_override_key_def
      split: list.splits if_splits)

lemma endpoint_path_default:
  assumes "provider_path_override (p_stream_endpoint_paths p) e suff = None"
    and "provider_path_override (p_endpoint_paths p) e suff = None"
  shows "endpoint_path p e suff b = append_suffix_if_needed e (default_path e) suff"
  using assms by (simp add: endpoint_path_def)

lemma build_url_absolute:
  "starts_with path ''http://'' \<or> starts_with path ''https://'' \<Longrightarrow> build_url base path = path"
  by (auto simp: build_url_def)

lemma build_url_trailing_slash: "build_url (base @ ''/'') path = build_url base path"
  by (simp add: build_url_def trim_end_char_def)

lemma prepare_model:
  assumes "prepare_upstream_request p e suff model payload True = Some r"
  shows "jget ''model'' (request_body r) = Some (JStr model)"
proof -
  obtain body where b: "jset ''model'' (JStr model) payload = Some body"
    and r: "request_body r = force_codex_responses_stream p e body"
    using assms by (auto simp: prepare_upstream_request_def Let_def)
  have "jget ''model'' body = Some (JStr model)" using jget_jset [OF b, of "''model''"] by simp
  with r show ?thesis by (auto split: json.splits)
qed

lemma prepare_url:
  "prepare_upstream_request p e suff model payload b = Some r
     \<Longrightarrow> req_url r = build_url (p_base_url p) (req_path r)"
  by (auto simp: prepare_upstream_request_def Let_def)

section \<open>Headers sent\<close>

definition passthrough_contains :: "headers option \<Rightarrow> string \<Rightarrow> bool" where
  "passthrough_contains hs name = (case hs of None \<Rightarrow> False | Some h \<Rightarrow> header_has name h)"

definition provider_extra_contains :: "provider \<Rightarrow> string \<Rightarrow> bool" where
  "provider_extra_contains p name = header_has name (p_extra_headers p)"

definition skip_codex_extra_header :: "provider \<Rightarrow> string \<Rightarrow> string \<Rightarrow> bool" where
  "skip_codex_extra_header p name v \<longleftrightarrow>
     is_codex_responses_provider p
     \<and> (eq_ignore_ascii_case name ''version''
        \<or> eq_ignore_ascii_case name ''user-agent'' \<and> starts_with v ''codex_cli_rs/0.124.0 '')"

text \<open>\<open>ok_name\<close> and \<open>ok_value\<close> are \<open>HeaderName::from_bytes\<close> and \<open>HeaderValue::from_str\<close>.\<close>

definition apply_passthrough_headers ::
  "(string \<Rightarrow> bool) \<Rightarrow> (string \<Rightarrow> bool) \<Rightarrow> headers option \<Rightarrow> headers \<Rightarrow> headers" where
  "apply_passthrough_headers ok_name ok_value hs builder =
     (case hs of
        None \<Rightarrow> builder
      | Some h \<Rightarrow> builder @ filter (\<lambda>(n, v). ok_name n \<and> ok_value v) h)"

definition auth_headers :: "(string \<Rightarrow> bool) \<Rightarrow> (string \<Rightarrow> bool) \<Rightarrow> provider \<Rightarrow> headers" where
  "auth_headers ok_name ok_value p =
     (case p_api_key p of
        None \<Rightarrow> []
      | Some api_key \<Rightarrow>
          (let header = to_ascii_lowercase (trim (p_auth_header p)) in
           if header = ''none'' then []
           else if header = ''bearer'' \<or> header = ''authorization'' then
             [(''authorization'', unwrap_or ''Bearer'' (p_auth_prefix p) @ '' '' @ api_key)]
           else if header = ''token'' then [(''authorization'', ''Token '' @ api_key)]
           else if header = ''basic'' then [(''authorization'', ''Basic '' @ api_key)]
           else if header \<in> {''x-api-key'', ''xi-api-key'', ''x-goog-api-key'',
                             ''x-subscription-token''} then [(header, api_key)]
           else if ok_name header then
             (let v = (case p_auth_prefix p of
                         None \<Rightarrow> api_key
                       | Some pre \<Rightarrow> pre @ '' '' @ api_key)
              in if ok_value v then [(header, v)] else [])
           else []))"

definition codex_default_header :: "provider \<Rightarrow> headers option \<Rightarrow> string \<Rightarrow> string \<Rightarrow> headers" where
  "codex_default_header p pass name v =
     (if \<not> provider_extra_contains p name \<and> \<not> passthrough_contains pass name
      then [(name, v)] else [])"

definition apply_provider_headers ::
  "(string \<Rightarrow> bool) \<Rightarrow> (string \<Rightarrow> bool) \<Rightarrow> provider \<Rightarrow> headers option \<Rightarrow> headers \<Rightarrow> headers" where
  "apply_provider_headers ok_name ok_value p pass builder =
     builder
     @ auth_headers ok_name ok_value p
     @ (if is_codex_responses_provider p
        then codex_default_header p pass ''originator'' ''codex_cli_rs''
             @ codex_default_header p pass ''OpenAI-Beta'' ''responses=experimental''
        else [])
     @ filter (\<lambda>(n, v). ok_name n \<and> ok_value v)
         (filter (\<lambda>(n, v). \<not> (passthrough_contains pass n \<or> skip_codex_extra_header p n v))
            (p_extra_headers p))"

lemma extra_header_sent_once:
  assumes "(n, v) \<in> set (filter (\<lambda>(n, v). \<not> (passthrough_contains (Some h) n
      \<or> skip_codex_extra_header p n v)) (p_extra_headers p))"
  shows "\<not> header_has n h"
  using assms by (auto simp: passthrough_contains_def)

section \<open>Responses\<close>

definition forward_exact :: "string list" where
  "forward_exact = [''retry-after'', ''request-id'', ''x-request-id'', ''openai-model'',
     ''x-reasoning-included'']"

definition forward_prefixes :: "string list" where
  "forward_prefixes = [''anthropic-ratelimit-'', ''x-ratelimit-'', ''x-codex-'']"

definition extract_response_headers :: "headers \<Rightarrow> headers" where
  "extract_response_headers hs =
     List.map_filter
       (\<lambda>(n, v).
          if n \<in> set forward_exact \<or> list_ex (starts_with n) forward_prefixes
          then map_option (Pair n) (header_to_str v) else None)
       hs"

definition is_streaming_response :: "endpoint \<Rightarrow> string option \<Rightarrow> bool" where
  "is_streaming_response e content_type =
     (case nonblank content_type of
        None \<Rightarrow> False
      | Some ct \<Rightarrow>
          (let ct = to_ascii_lowercase ct in
           if str_contains ct ''text/event-stream'' \<or> str_contains ct ''event-stream'' then True
           else e = Responses \<and> \<not> str_contains ct ''application/json''
                \<and> \<not> str_contains ct ''application/problem+json''))"

text \<open>\<open>openai_error\<close>\<close>

definition openai_error :: "string \<Rightarrow> json" where
  "openai_error message =
     json_obj [(''error'', json_obj [(''message'', JStr message), (''type'', JStr ''upstream_error'')])]"

text \<open>
  A byte stream is the list of what polling it gives. \<open>Idle\<close> is a poll that did not complete
  within the idle timeout.
\<close>

datatype poll = Chunk string | Fail string | Idle

fun idle_event :: "nat \<Rightarrow> string" where
  "idle_event secs =
     ''data: {'' @ [dquote] @ ''error'' @ [dquote] @ '': {'' @ [dquote] @ ''message'' @ [dquote]
     @ '': '' @ [dquote] @ ''stream idle timeout after '' @ dec secs @ ''s'' @ [dquote] @ '', ''
     @ [dquote] @ ''type'' @ [dquote] @ '': '' @ [dquote] @ ''stream_timeout'' @ [dquote]
     @ ''}}'' @ [newline, newline]"

fun watchdog_stream :: "nat \<Rightarrow> poll list \<Rightarrow> (string + string) list" where
  "watchdog_stream secs [] = []"
| "watchdog_stream secs (Chunk b # ps) = Inr b # watchdog_stream secs ps"
| "watchdog_stream secs (Fail e # ps) = [Inl e]"
| "watchdog_stream secs (Idle # ps) = [Inr (idle_event secs)]"

text \<open>\<open>tee_stream\<close>: what passes through, and what the shared buffer holds after it.\<close>

fun tee_stream :: "(string + string) list \<Rightarrow> string \<Rightarrow> (string + string) list \<times> string" where
  "tee_stream [] buf = ([], buf)"
| "tee_stream (Inr b # xs) buf = (let (ys, buf') = tee_stream xs (buf @ b) in (Inr b # ys, buf'))"
| "tee_stream (Inl e # xs) buf = (let (ys, buf') = tee_stream xs buf in (Inl e # ys, buf'))"

fun stream_bytes :: "(string + string) list \<Rightarrow> string" where
  "stream_bytes [] = []"
| "stream_bytes (Inr b # xs) = b @ stream_bytes xs"
| "stream_bytes (Inl e # xs) = stream_bytes xs"

lemma tee_stream_transparent: "tee_stream xs buf = (xs, buf @ stream_bytes xs)"
  by (induction xs buf rule: tee_stream.induct) auto

lemma watchdog_ends: "length (watchdog_stream secs ps) \<le> length ps"
  by (induction secs ps rule: watchdog_stream.induct) auto

lemma watchdog_complete:
  "(\<And>p. p \<in> set ps \<Longrightarrow> \<exists>b. p = Chunk b)
     \<Longrightarrow> watchdog_stream secs ps = map (\<lambda>p. case p of Chunk b \<Rightarrow> Inr b | Fail e \<Rightarrow> Inl e
           | Idle \<Rightarrow> Inr []) ps"
proof (induction secs ps rule: watchdog_stream.induct)
  case (3 secs e ps)
  then show ?case by (metis list.set_intros(1) poll.distinct(1))
next
  case (4 secs ps)
  then show ?case by (metis list.set_intros(1) poll.distinct(3))
qed auto

lemma watchdog_error_last:
  "i < length (watchdog_stream secs ps) \<Longrightarrow> watchdog_stream secs ps ! i = Inl e
     \<Longrightarrow> i = length (watchdog_stream secs ps) - 1"
proof (induction secs ps arbitrary: i rule: watchdog_stream.induct)
  case (2 secs b ps)
  show ?case
  proof (cases i)
    case (Suc j)
    with "2.prems" "2.IH" [of j] show ?thesis by auto
  qed (use "2.prems" in auto)
qed auto

end
