(* ===== verification/Search.thy ===== *)
theory Search
  imports Upstream
begin

text \<open>
  The adapters to the search providers (\<open>src/search.rs\<close>): the request each of them gets and
  the common shape their answers are brought into, with the percent-encoding of query strings.
\<close>

section \<open>Query strings and URLs\<close>

definition is_unreserved :: "char \<Rightarrow> bool" where
  "is_unreserved c \<longleftrightarrow>
     is_upper c \<or> (97 \<le> byte c \<and> byte c \<le> 122) \<or> is_digit c
     \<or> c \<in> {CHR ''-'', CHR ''_'', CHR ''.'', CHR ''~''}"

definition hex_digit :: "nat \<Rightarrow> char" where
  "hex_digit n = (if n < 10 then char_of (48 + n) else char_of (55 + n))"

definition encode_byte :: "char \<Rightarrow> string" where
  "encode_byte c =
     (if is_unreserved c then [c]
      else if c = CHR '' '' then ''%20''
      else [CHR ''%'', hex_digit (byte c div 16), hex_digit (byte c mod 16)])"

definition encode_query_component :: "string \<Rightarrow> string" where
  "encode_query_component v = concat (map encode_byte v)"

text \<open>A reference decoder, the inverse of the encoding.\<close>

definition hex_value :: "char \<Rightarrow> nat" where
  "hex_value c = (if is_digit c then byte c - 48 else byte c - 55)"

fun decode_query_component :: "string \<Rightarrow> string" where
  "decode_query_component [] = []"
| "decode_query_component (c # cs) =
     (if c = CHR ''%'' then
        (case cs of
           a # b # r \<Rightarrow> char_of (16 * hex_value a + hex_value b) # decode_query_component r
         | _ \<Rightarrow> c # decode_query_component cs)
      else c # decode_query_component cs)"

definition normalize_url :: "string \<Rightarrow> string" where
  "normalize_url v = trim_end_char CHR ''/'' v"

definition search_url_is_overridden :: "provider \<Rightarrow> string \<Rightarrow> bool" where
  "search_url_is_overridden p fallback_url \<longleftrightarrow>
     normalize_url fallback_url \<noteq> normalize_url (p_base_url p)"

definition absolute_or_join :: "string \<Rightarrow> string \<Rightarrow> string" where
  "absolute_or_join base path =
     (if starts_with path ''http://'' \<or> starts_with path ''https://'' then path
      else trim_end_char CHR ''/'' base @ path)"

lemma hex_value_digit: "n < 16 \<Longrightarrow> hex_value (hex_digit n) = n"
  by (auto simp: hex_value_def hex_digit_def is_digit_def byte_char_of)

lemma percent_reserved: "\<not> is_unreserved CHR ''%''"
  by (simp add: is_unreserved_def is_upper_def is_digit_def byte_def)

lemma decode_encode: "decode_query_component (encode_query_component v) = v"
proof (induction v)
  case (Cons c v)
  have e: "encode_query_component (c # v) = encode_byte c @ encode_query_component v"
    by (simp add: encode_query_component_def)
  consider "is_unreserved c" | "\<not> is_unreserved c" "c = CHR '' ''"
    | "\<not> is_unreserved c" "c \<noteq> CHR '' ''" by blast
  then show ?case
  proof cases
    case 1
    then have "c \<noteq> CHR ''%''" using percent_reserved by auto
    with 1 e Cons show ?thesis by (simp add: encode_byte_def)
  next
    case 2
    have "(char_of (16 * hex_value CHR ''2'' + hex_value CHR ''0'') :: char) = CHR '' ''"
      by code_simp
    with 2 e Cons show ?thesis by (simp add: encode_byte_def)
  next
    case 3
    have "byte c div 16 < 16" using byte_lt [of c] by (simp add: div_less)
    then have "16 * hex_value (hex_digit (byte c div 16)) + hex_value (hex_digit (byte c mod 16))
        = byte c"
      by (simp add: hex_value_digit)
    moreover have "char_of (byte c) = c" by (simp add: byte_def)
    ultimately show ?thesis using 3 e Cons by (simp add: encode_byte_def)
  qed
qed (simp add: encode_query_component_def)

lemma encode_inject: "encode_query_component a = encode_query_component b \<Longrightarrow> a = b"
  by (metis decode_encode)

section \<open>The request to a search provider\<close>

datatype search_method = SearchGet | SearchPost

record search_spec =
  sp_method :: search_method
  sp_url :: string
  sp_body :: "json option"

definition split_domain_filters :: "string list \<Rightarrow> string list \<times> string list" where
  "split_domain_filters vs =
     (filter (\<lambda>v. \<not> starts_with v ''-'') vs, List.map_filter (strip_prefix ''-'') vs)"

definition clamp :: "u64 \<Rightarrow> u64 \<Rightarrow> u64 \<Rightarrow> u64" where
  "clamp lo hi n = (if n < lo then lo else if hi < n then hi else n)"

text \<open>\<open>body[k] = v\<close> on an object under construction, when \<open>v\<close> is there.\<close>

definition obj_set_opt :: "string \<Rightarrow> json option \<Rightarrow> obj \<Rightarrow> obj" where
  "obj_set_opt k v ob = (case v of None \<Rightarrow> ob | Some w \<Rightarrow> obj_insert k w ob)"

definition jstrs :: "string list \<Rightarrow> json" where
  "jstrs ss = JArr (map JStr ss)"

definition nonempty_jstrs :: "string list \<Rightarrow> json option" where
  "nonempty_jstrs ss = (if ss = [] then None else Some (jstrs ss))"

definition search_type_of :: "json \<Rightarrow> string" where
  "search_type_of payload =
     unwrap_or ''web''
       (Option.bind (or_else (jget ''search_type'' payload) (jget ''provider'' payload)) as_str)"

definition max_results_of :: "json \<Rightarrow> u64" where
  "max_results_of payload =
     clamp 1 100 (unwrap_or 5
       (Option.bind (or_else (jget ''max_results'' payload) (jget ''top_k'' payload)) as_u64))"

definition domain_filter_of :: "json \<Rightarrow> string list" where
  "domain_filter_of payload =
     List.map_filter as_str (unwrap_or [] (get_array ''domain_filter'' payload))"

definition build_search_request ::
  "provider \<Rightarrow> json \<Rightarrow> string \<Rightarrow> search_spec app_result" where
  "build_search_request p payload fallback_url =
     rbind (ok_or (BadRequest ''search request requires query'') (get_str ''query'' payload))
     (\<lambda>query.
       let news = search_type_of payload = ''news'';
           max_results = jnat (max_results_of payload);
           country = get_str ''country'' payload;
           language = get_str ''language'' payload;
           domain_filter = domain_filter_of payload;
           overridden = search_url_is_overridden p fallback_url;
           post = (\<lambda>url body. \<lparr>sp_method = SearchPost, sp_url = url, sp_body = Some (JObj body)\<rparr>)
       in Inr
         (if p_provider p = ''serper-search'' then
            post (if overridden then fallback_url
                  else absolute_or_join fallback_url (if news then ''/news'' else ''/search''))
              (obj_set_opt ''hl'' (map_option JStr language)
                (obj_set_opt ''gl'' (map_option (JStr \<circ> to_ascii_lowercase) country)
                  (mk_obj [(''q'', JStr query), (''num'', max_results)])))
          else if p_provider p = ''brave-search'' then
            (let qp = [(''q'', query), (''count'', dec_u64 (max_results_of payload))]
                   @ (case country of None \<Rightarrow> [] | Some c \<Rightarrow> [(''country'', c)])
                   @ (case language of None \<Rightarrow> [] | Some l \<Rightarrow> [(''search_lang'', l)]);
                 query_string = str_join ''&''
                   (map (\<lambda>(k, v). encode_query_component k @ ''='' @ encode_query_component v) qp);
                 base = (if overridden then fallback_url
                         else absolute_or_join fallback_url
                           (if news then ''/res/v1/news/search'' else ''/res/v1/web/search''))
             in \<lparr>sp_method = SearchGet, sp_url = base @ ''?'' @ query_string, sp_body = None\<rparr>)
          else if p_provider p = ''perplexity-search'' then
            post fallback_url
              (obj_set_opt ''search_domain_filter'' (nonempty_jstrs domain_filter)
                (obj_set_opt ''search_language_filter'' (map_option (\<lambda>l. jstrs [l]) language)
                  (obj_set_opt ''country'' (map_option JStr country)
                    (mk_obj [(''query'', JStr query), (''max_results'', max_results)]))))
          else if p_provider p = ''exa-search'' then
            (let (includes, excludes) = split_domain_filters domain_filter in
             post fallback_url
               (obj_set_opt ''category'' (if news then Some (JStr ''news'') else None)
                 (obj_set_opt ''excludeDomains'' (nonempty_jstrs excludes)
                   (obj_set_opt ''includeDomains'' (nonempty_jstrs includes)
                     (mk_obj [(''query'', JStr query), (''numResults'', max_results),
                        (''type'', JStr ''auto''), (''text'', JBool True),
                        (''highlights'', JBool True)])))))
          else if p_provider p = ''tavily-search'' then
            (let (includes, excludes) = split_domain_filters domain_filter in
             post fallback_url
               (obj_set_opt ''country'' (map_option JStr country)
                 (obj_set_opt ''exclude_domains'' (nonempty_jstrs excludes)
                   (obj_set_opt ''include_domains'' (nonempty_jstrs includes)
                     (mk_obj [(''query'', JStr query), (''max_results'', max_results),
                        (''topic'', JStr (if news then ''news'' else ''general''))])))))
          else \<lparr>sp_method = SearchPost, sp_url = fallback_url, sp_body = Some payload\<rparr>))"

section \<open>The common shape of the answers\<close>

definition jget_or :: "string \<Rightarrow> json \<Rightarrow> json \<Rightarrow> json" where
  "jget_or k d v = unwrap_or d (jget k v)"

definition result_items :: "json option \<Rightarrow> json list" where
  "result_items v = unwrap_or [] (Option.bind v as_array)"

definition ranked :: "(nat \<Rightarrow> json \<Rightarrow> json) \<Rightarrow> json list \<Rightarrow> json" where
  "ranked f items = JArr (map (\<lambda>(idx, item). f (idx + 1) item) (List.enumerate 0 items))"

definition citation :: "string \<Rightarrow> nat \<Rightarrow> json" where
  "citation p rank = json_obj [(''provider'', JStr p), (''rank'', jnat (of_nat rank))]"

definition normalize_serper :: "json \<Rightarrow> string \<Rightarrow> json" where
  "normalize_serper raw search_type =
     ranked (\<lambda>rank item. json_obj
        [(''title'', jget_or ''title'' (JStr []) item),
         (''url'', jget_or ''link'' (JStr []) item),
         (''snippet'', unwrap_or (JStr [])
            (or_else (jget ''snippet'' item) (jget ''description'' item))),
         (''position'', jnat (of_nat rank)),
         (''score'', JNull),
         (''published_at'', jget_or ''date'' JNull item),
         (''favicon_url'', JNull), (''content'', JNull), (''metadata'', JNull),
         (''citation'', citation ''serper-search'' rank)])
       (result_items (if search_type = ''news'' then jget ''news'' raw else jget ''organic'' raw))"

definition normalize_brave :: "json \<Rightarrow> string \<Rightarrow> json" where
  "normalize_brave raw search_type =
     (let container = (if search_type = ''news'' then or_else (jget ''news'' raw) (Some raw)
                       else jget ''web'' raw)
      in ranked (\<lambda>rank item. json_obj
        [(''title'', jget_or ''title'' (JStr []) item),
         (''url'', jget_or ''url'' (JStr []) item),
         (''snippet'', jget_or ''description'' (JStr []) item),
         (''position'', jnat (of_nat rank)),
         (''score'', JNull),
         (''published_at'', unwrap_or JNull (or_else (jget ''page_age'' item) (jget ''age'' item))),
         (''favicon_url'', unwrap_or JNull
            (or_else (Option.bind (jget ''meta_url'' item) (jget ''favicon''))
               (jget ''favicon'' item))),
         (''content'', JNull), (''metadata'', JNull),
         (''citation'', citation ''brave-search'' rank)])
       (result_items (Option.bind container (jget ''results''))))"

definition normalize_perplexity :: "json \<Rightarrow> json" where
  "normalize_perplexity raw =
     ranked (\<lambda>rank item. json_obj
        [(''title'', jget_or ''title'' (JStr []) item),
         (''url'', jget_or ''url'' (JStr []) item),
         (''snippet'', jget_or ''snippet'' (JStr []) item),
         (''position'', jnat (of_nat rank)),
         (''score'', JNull),
         (''published_at'', unwrap_or JNull
            (or_else (jget ''date'' item) (jget ''last_updated'' item))),
         (''favicon_url'', JNull), (''content'', JNull), (''metadata'', JNull),
         (''citation'', citation ''perplexity-search'' rank)])
       (result_items (jget ''results'' raw))"

definition text_content :: "json option \<Rightarrow> json" where
  "text_content v =
     (case v of
        None \<Rightarrow> JNull
      | Some t \<Rightarrow> json_obj
          [(''format'', JStr ''text''), (''text'', t),
           (''length'', jnat (of_nat (unwrap_or 0 (map_option length (as_str t)))))])"

definition exa_snippet :: "json \<Rightarrow> json" where
  "exa_snippet item =
     unwrap_or (JStr [])
       (or_else
          (Option.bind (get_array ''highlights'' item)
             (\<lambda>hs. case hs of [] \<Rightarrow> None | h # _ \<Rightarrow> Some h))
          (map_option (\<lambda>t. JStr (utf8_take 300 t)) (get_str ''text'' item)))"

definition normalize_exa :: "json \<Rightarrow> json" where
  "normalize_exa raw =
     ranked (\<lambda>rank item. json_obj
        [(''title'', jget_or ''title'' (JStr []) item),
         (''url'', jget_or ''url'' (JStr []) item),
         (''snippet'', exa_snippet item),
         (''position'', jnat (of_nat rank)),
         (''score'', jget_or ''score'' JNull item),
         (''published_at'', jget_or ''publishedDate'' JNull item),
         (''favicon_url'', jget_or ''favicon'' JNull item),
         (''content'', text_content (jget ''text'' item)),
         (''metadata'', json_obj
            [(''author'', jget_or ''author'' JNull item), (''language'', JNull),
             (''source_type'', JNull), (''image_url'', jget_or ''image'' JNull item)]),
         (''citation'', citation ''exa-search'' rank)])
       (result_items (jget ''results'' raw))"

definition normalize_tavily :: "json \<Rightarrow> json" where
  "normalize_tavily raw =
     ranked (\<lambda>rank item. json_obj
        [(''title'', jget_or ''title'' (JStr []) item),
         (''url'', jget_or ''url'' (JStr []) item),
         (''snippet'', jget_or ''content'' (JStr []) item),
         (''position'', jnat (of_nat rank)),
         (''score'', jget_or ''score'' JNull item),
         (''published_at'', jget_or ''published_date'' JNull item),
         (''favicon_url'', JNull),
         (''content'', text_content (jget ''raw_content'' item)),
         (''metadata'', JNull),
         (''citation'', citation ''tavily-search'' rank)])
       (result_items (jget ''results'' raw))"

text \<open>The prices are the bit patterns of 0.001, 0.005, 0.005, 0.007, 0.008 and 0.0.\<close>

definition search_cost :: "string \<Rightarrow> json" where
  "search_cost provider_id = JNum (Float
     (if provider_id = ''serper-search'' then 0x3F50624DD2F1A9FC
      else if provider_id = ''brave-search'' then 0x3F747AE147AE147B
      else if provider_id = ''perplexity-search'' then 0x3F747AE147AE147B
      else if provider_id = ''exa-search'' then 0x3F7CAC083126E979
      else if provider_id = ''tavily-search'' then 0x3F80624DD2F1A9FC
      else 0))"

definition search_results :: "string \<Rightarrow> string \<Rightarrow> json \<Rightarrow> json" where
  "search_results provider_id search_type raw =
     (if provider_id = ''serper-search'' then normalize_serper raw search_type
      else if provider_id = ''brave-search'' then normalize_brave raw search_type
      else if provider_id = ''perplexity-search'' then normalize_perplexity raw
      else if provider_id = ''exa-search'' then normalize_exa raw
      else if provider_id = ''tavily-search'' then normalize_tavily raw
      else jget_or ''results'' (JArr []) raw)"

definition normalize_search_response ::
  "string \<Rightarrow> string \<Rightarrow> string \<Rightarrow> json \<Rightarrow> json" where
  "normalize_search_response provider_id query search_type raw =
     JObj (obj_set_opt ''auth_seen'' (jget ''auth_seen'' raw)
       (obj_set_opt ''upstream_provider'' (jget ''provider'' raw)
         (mk_obj
           [(''provider'', JStr provider_id),
            (''query'', JStr query),
            (''results'', search_results provider_id search_type raw),
            (''answer'', JNull),
            (''usage'', json_obj [(''queries_used'', jnat 1),
                                  (''search_cost_usd'', search_cost provider_id)]),
            (''metrics'', json_obj
               [(''response_time_ms'', jnat 0), (''upstream_latency_ms'', jnat 0),
                (''total_results_available'', unwrap_or JNull
                   (Option.bind (jget ''searchParameters'' raw) (jget ''totalResults'')))]),
            (''errors'', JArr [])])))"

section \<open>Facts\<close>

lemma clamp_bounds: "1 \<le> clamp 1 100 n \<and> clamp 1 100 n \<le> 100"
  by (simp add: clamp_def word_le_nat_alt word_less_nat_alt)

lemma obj_get_set_opt [simp]:
  "obj_get k (obj_set_opt j v ob) = (if k = j then or_else v (obj_get k ob) else obj_get k ob)"
  by (cases v) (auto simp: obj_set_opt_def)

lemma split_domain_filters_complete:
  assumes "split_domain_filters vs = (inc, exc)"
  shows "set vs = set inc \<union> (\<lambda>v. CHR ''-'' # v) ` set exc"
proof -
  have "set inc = {v \<in> set vs. \<not> starts_with v ''-''}"
    and "set exc = {r. ''-'' @ r \<in> set vs}"
    using assms by (auto simp: split_domain_filters_def mem_map_filter strip_prefix_Some)
  then show ?thesis by (auto simp: starts_with_iff image_iff)
qed

lemma ranked_nth:
  assumes "ranked f items = JArr rs" and "i < length items"
  shows "length rs = length items \<and> rs ! i = f (i + 1) (items ! i)"
  using assms by (auto simp: ranked_def nth_enumerate_eq)

lemma build_search_request_error:
  "build_search_request p payload url = Inl e \<longleftrightarrow>
     get_str ''query'' payload = None \<and> e = BadRequest ''search request requires query''"
  by (cases "get_str ''query'' payload") (auto simp: build_search_request_def Let_def)

end
