(* ===== verification/Execute.thy ===== *)
theory Execute
  imports Search
begin

text \<open>
  One attempt against a provider (\<open>UpstreamClient::execute_prepared\<close> and
  \<open>execute_raw_proxy\<close> of \<open>src/upstream.rs\<close>). The HTTP exchange is an argument: a function
  from the outgoing request to a transport error or a response with its status, headers, and
  body, the body both as decoded text and as the chunks a stream of it yields.
\<close>

record outgoing =
  out_method :: string
  out_url :: string
  out_body :: "json option"
  out_headers :: headers

record http_response =
  hr_status :: nat
  hr_headers :: headers
  hr_text :: "app_error + string"
  hr_chunks :: "(app_error + string) list"

record provider_response =
  r_status :: nat
  r_body :: string
  r_is_stream :: bool
  r_headers :: headers

record streaming_response =
  st_status :: nat
  st_provider_id :: string
  st_model :: string
  st_stream :: "(app_error + string) list"
  st_headers :: headers

datatype upstream_result = Buffered provider_response | Streaming streaming_response

text \<open>What the definitions below take from the HTTP and JSON crates.\<close>

record http_lib = codec +
  ok_name :: "string \<Rightarrow> bool"
  ok_value :: "string \<Rightarrow> bool"
  utf8_lossy :: "string \<Rightarrow> string"

fun collect_chunks :: "http_lib \<Rightarrow> (app_error + string) list \<Rightarrow> string \<Rightarrow> string app_result" where
  "collect_chunks lib [] acc = Inr acc"
| "collect_chunks lib (Inl e # cs) acc = Inl e"
| "collect_chunks lib (Inr b # cs) acc = collect_chunks lib cs (acc @ utf8_lossy lib b)"

definition search_body :: "http_lib \<Rightarrow> provider \<Rightarrow> json \<Rightarrow> nat \<Rightarrow> string \<Rightarrow> string app_result" where
  "search_body lib p body status raw =
     (if 200 \<le> status \<and> status < 300 then
        (case json_parse lib raw of
           Inl e \<Rightarrow> Inl (JsonError e)
         | Inr v \<Rightarrow> Inr (json_print lib
             (normalize_search_response (p_provider p)
                (unwrap_or [] (get_str ''query'' body)) (search_type_of body) v)))
      else Inr raw)"

definition sent_headers :: "http_lib \<Rightarrow> provider \<Rightarrow> headers option \<Rightarrow> headers" where
  "sent_headers lib p pass =
     apply_passthrough_headers (ok_name lib) (ok_value lib) pass
       (apply_provider_headers (ok_name lib) (ok_value lib) p pass [])"

definition execute_prepared ::
  "http_lib \<Rightarrow> 'c app_result \<Rightarrow> ('c \<Rightarrow> outgoing \<Rightarrow> http_response app_result) \<Rightarrow> provider \<Rightarrow> endpoint
     \<Rightarrow> string \<Rightarrow> prepared_request \<Rightarrow> headers option \<Rightarrow> upstream_result app_result" where
  "execute_prepared lib client send p e model prepared pass =
     rbind client (\<lambda>c.
       let body = request_body prepared in
       if e = Search then
         rbind (build_search_request p body (req_url prepared)) (\<lambda>spec.
         rbind (send c \<lparr>out_method = (case sp_method spec of SearchGet \<Rightarrow> ''GET'' | SearchPost \<Rightarrow> ''POST''),
                        out_url = sp_url spec,
                        out_body = (case sp_method spec of SearchGet \<Rightarrow> None
                                    | SearchPost \<Rightarrow> sp_body spec),
                        out_headers = sent_headers lib p pass\<rparr>) (\<lambda>resp.
         rbind (hr_text resp) (\<lambda>raw.
         rbind (search_body lib p body (hr_status resp) raw) (\<lambda>out.
           Inr (Buffered \<lparr>r_status = hr_status resp, r_body = out, r_is_stream = False,
                          r_headers = extract_response_headers (hr_headers resp)\<rparr>)))))
       else
         rbind (send c \<lparr>out_method = ''POST'', out_url = req_url prepared, out_body = Some body,
                        out_headers = sent_headers lib p pass\<rparr>) (\<lambda>resp.
         let is_stream = is_streaming_response e
               (Option.bind (header_map_get ''content-type'' (hr_headers resp)) header_to_str);
             hs = extract_response_headers (hr_headers resp)
         in if is_stream \<and> is_success (hr_status resp) then
              Inr (Streaming \<lparr>st_status = hr_status resp, st_provider_id = p_id p,
                              st_model = model, st_stream = hr_chunks resp, st_headers = hs\<rparr>)
            else if is_stream then
              rbind (collect_chunks lib (hr_chunks resp) []) (\<lambda>b.
                Inr (Buffered \<lparr>r_status = hr_status resp, r_body = b, r_is_stream = True,
                               r_headers = hs\<rparr>))
            else
              rbind (hr_text resp) (\<lambda>b.
                Inr (Buffered \<lparr>r_status = hr_status resp, r_body = b, r_is_stream = False,
                               r_headers = hs\<rparr>))))"

text \<open>\<open>execute_raw_proxy\<close>: the response's status, forwarded headers, content type and body.\<close>

definition execute_raw_proxy ::
  "http_lib \<Rightarrow> 'c app_result \<Rightarrow> ('c \<Rightarrow> outgoing \<Rightarrow> http_response app_result) \<Rightarrow> provider \<Rightarrow> string
     \<Rightarrow> string \<Rightarrow> json option \<Rightarrow> headers option
     \<Rightarrow> (nat \<times> headers \<times> string option \<times> string) app_result" where
  "execute_raw_proxy lib client send p http_method path payload pass =
     rbind client (\<lambda>c.
     rbind (send c \<lparr>out_method = http_method, out_url = build_url (p_base_url p) path,
                    out_body = payload, out_headers = sent_headers lib p pass\<rparr>) (\<lambda>resp.
     rbind (hr_text resp) (\<lambda>bytes.
       Inr (hr_status resp, extract_response_headers (hr_headers resp),
            Option.bind (header_map_get ''content-type'' (hr_headers resp)) header_to_str, bytes))))"

section \<open>Facts\<close>

lemma collect_chunks_Inr:
  "collect_chunks lib cs acc = Inr out
     \<Longrightarrow> out = acc @ concat (map (\<lambda>c. case c of Inr b \<Rightarrow> utf8_lossy lib b | Inl e \<Rightarrow> []) cs)
         \<and> (\<forall>c \<in> set cs. \<exists>b. c = Inr b)"
  by (induction lib cs acc rule: collect_chunks.induct) auto

lemma execute_streaming_success:
  "execute_prepared lib client send p e model prep pass = Inr (Streaming s)
     \<Longrightarrow> is_success (st_status s) \<and> e \<noteq> Search \<and> st_provider_id s = p_id p \<and> st_model s = model"
  by (auto simp: execute_prepared_def rbind_Inr Let_def split: if_splits)

end
