(* ===== verification/Retry.thy ===== *)
theory Retry
  imports Execute F64
begin

text \<open>
  The retry loop around one provider (\<open>src/retry.rs\<close>). What an attempt returns is an
  argument \<open>exec\<close>, indexed by the number of attempts made before it; the random draw of the
  jitter is an argument \<open>rnd\<close>, where \<open>rnd i n\<close> is the draw of attempt \<open>i\<close> from \<open>0..n\<close>.
  The attempt counter is a \<open>u32\<close> and the delays are \<open>u64\<close> with Rust's release-mode wrap-around.
  The loop is bounded by fuel; \<open>Suc (unat (max_retries cfg))\<close> rounds are enough unless
  \<open>max_retries\<close> is \<open>u32::MAX\<close>. The list of sleeps records the calls of \<open>tokio::time::sleep\<close>.
\<close>

section \<open>Configuration\<close>

record retry_config =
  max_retries :: u32
  base_delay_ms :: u64
  max_delay_ms :: u64
  respect_retry_after :: bool

definition retry_default :: retry_config where
  "retry_default = \<lparr>max_retries = 3, base_delay_ms = 500, max_delay_ms = 16000,
     respect_retry_after = True\<rparr>"

definition parse_u32 :: "string \<Rightarrow> u32 option" where
  "parse_u32 s =
     (case parse_digits (unwrap_or s (strip_prefix ''+'' s)) of
        None \<Rightarrow> None
      | Some n \<Rightarrow> if n < 2 ^ 32 then Some (of_nat n) else None)"

definition retry_from_env :: "(string \<Rightarrow> string option) \<Rightarrow> retry_config" where
  "retry_from_env env =
     \<lparr>max_retries = unwrap_or 3 (Option.bind (env ''KOU_MAX_RETRIES'') parse_u32),
      base_delay_ms = unwrap_or 500 (Option.bind (env ''KOU_RETRY_BASE_DELAY_MS'') parse_u64),
      max_delay_ms = unwrap_or 16000 (Option.bind (env ''KOU_RETRY_MAX_DELAY_MS'') parse_u64),
      respect_retry_after = True\<rparr>"

section \<open>Delays\<close>

definition delay_base :: "retry_config \<Rightarrow> error_kind \<Rightarrow> u64" where
  "delay_base cfg kind = (if kind = Timeout then base_delay_ms cfg div 2 else base_delay_ms cfg)"

definition calculate_delay ::
  "retry_config \<Rightarrow> u32 \<Rightarrow> u64 option \<Rightarrow> error_kind \<Rightarrow> (u64 \<Rightarrow> u64) \<Rightarrow> u64" where
  "calculate_delay cfg attempt retry_after kind draw =
     (case (if kind = RateLimit then retry_after else None) of
        Some retry_secs \<Rightarrow> min (retry_secs * 1000) (max_delay_ms cfg)
      | None \<Rightarrow>
          (let base = delay_base cfg kind;
               exp_delay = saturating_mul base (unwrap_or (- 1) (checked_shl1 (attempt - 1)));
               jitter = draw (max base 2 div 2)
           in min (exp_delay + jitter) (max_delay_ms cfg)))"

fun parse_retry_after :: "headers \<Rightarrow> u64 option" where
  "parse_retry_after [] = None"
| "parse_retry_after ((name, v) # hs) =
     (if eq_ignore_ascii_case name ''retry-after'' then
        (case parse_u64 v of
           Some secs \<Rightarrow> Some secs
         | None \<Rightarrow> (case parse_f64 v of
               Some f \<Rightarrow> Some (ceil_as_u64 f)
             | None \<Rightarrow> parse_retry_after hs))
      else parse_retry_after hs)"

section \<open>The loop\<close>

record retry_outcome =
  ro_result :: upstream_result
  ro_attempts :: u32
  ro_total_delay_ms :: u64
  ro_retry_after_secs :: "u64 option"

definition axum_status :: "nat \<Rightarrow> nat" where
  "axum_status s = (if 100 \<le> s \<and> s < 1000 then s else 502)"

definition response_kind :: "provider_response \<Rightarrow> error_kind" where
  "response_kind r = classify_upstream_error (axum_status (r_status r)) (r_body r)"

definition response_retry_after :: "retry_config \<Rightarrow> provider_response \<Rightarrow> u64 option" where
  "response_retry_after cfg r =
     (if respect_retry_after cfg then parse_retry_after (r_headers r) else None)"

fun retry_loop ::
  "nat \<Rightarrow> retry_config \<Rightarrow> (nat \<Rightarrow> upstream_result app_result) \<Rightarrow> (nat \<Rightarrow> u64 \<Rightarrow> u64)
     \<Rightarrow> nat \<Rightarrow> u32 \<Rightarrow> u64 \<Rightarrow> u64 list \<Rightarrow> (retry_outcome app_result \<times> u64 list) option" where
  "retry_loop 0 cfg exec rnd i attempts tot sleeps = None"
| "retry_loop (Suc fuel) cfg exec rnd i attempts tot sleeps =
     (let attempts = attempts + 1 in
      case exec i of
        Inr (Streaming s) \<Rightarrow>
          Some (Inr \<lparr>ro_result = Streaming s, ro_attempts = attempts,
                     ro_total_delay_ms = tot, ro_retry_after_secs = None\<rparr>, sleeps)
      | Inr (Buffered r) \<Rightarrow>
          (if is_success (r_status r) then
             Some (Inr \<lparr>ro_result = Buffered r, ro_attempts = attempts,
                        ro_total_delay_ms = tot, ro_retry_after_secs = None\<rparr>, sleeps)
           else
             (let kind = response_kind r; ra = response_retry_after cfg r in
              if max_retries cfg < attempts \<or> \<not> is_retriable kind then
                Some (Inr \<lparr>ro_result = Buffered r, ro_attempts = attempts,
                           ro_total_delay_ms = tot, ro_retry_after_secs = ra\<rparr>, sleeps)
              else
                (let d = calculate_delay cfg attempts ra kind (rnd i) in
                 retry_loop fuel cfg exec rnd (Suc i) attempts (tot + d) (sleeps @ [d]))))
      | Inl err \<Rightarrow>
          (if max_retries cfg < attempts then Some (Inl err, sleeps)
           else
             (let d = calculate_delay cfg attempts None ConnectionError (rnd i) in
              retry_loop fuel cfg exec rnd (Suc i) attempts (tot + d) (sleeps @ [d]))))"

definition execute_with_retry ::
  "nat \<Rightarrow> retry_config \<Rightarrow> (nat \<Rightarrow> upstream_result app_result) \<Rightarrow> (nat \<Rightarrow> u64 \<Rightarrow> u64)
     \<Rightarrow> (retry_outcome app_result \<times> u64 list) option" where
  "execute_with_retry fuel cfg exec rnd = retry_loop fuel cfg exec rnd 0 0 0 []"

section \<open>What it should do\<close>

text \<open>
  An attempt is worth repeating when the connection failed or the buffered answer is a failure
  of a retriable kind. The attempt that decides is the first that is not, or the last allowed.
\<close>

definition retriable_outcome :: "upstream_result app_result \<Rightarrow> bool" where
  "retriable_outcome x = (case x of
     Inl err \<Rightarrow> True
   | Inr (Streaming s) \<Rightarrow> False
   | Inr (Buffered r) \<Rightarrow> \<not> is_success (r_status r) \<and> is_retriable (response_kind r))"

definition deciding_attempt :: "(nat \<Rightarrow> upstream_result app_result) \<Rightarrow> nat \<Rightarrow> nat" where
  "deciding_attempt exec m = length (takeWhile (\<lambda>i. retriable_outcome (exec i)) [0..<m])"

definition attempt_delay ::
  "retry_config \<Rightarrow> (nat \<Rightarrow> upstream_result app_result) \<Rightarrow> (nat \<Rightarrow> u64 \<Rightarrow> u64) \<Rightarrow> nat \<Rightarrow> u64" where
  "attempt_delay cfg exec rnd i = (case exec i of
     Inr (Buffered r) \<Rightarrow> calculate_delay cfg (of_nat (Suc i)) (response_retry_after cfg r)
                           (response_kind r) (rnd i)
   | _ \<Rightarrow> calculate_delay cfg (of_nat (Suc i)) None ConnectionError (rnd i))"

definition retry_answer ::
  "retry_config \<Rightarrow> upstream_result app_result \<Rightarrow> nat \<Rightarrow> u64 \<Rightarrow> retry_outcome app_result" where
  "retry_answer cfg x n tot = (case x of
     Inl err \<Rightarrow> Inl err
   | Inr u \<Rightarrow> Inr \<lparr>ro_result = u, ro_attempts = of_nat (Suc n), ro_total_delay_ms = tot,
       ro_retry_after_secs = (case u of
          Buffered r \<Rightarrow> if is_success (r_status r) then None else response_retry_after cfg r
        | Streaming s \<Rightarrow> None)\<rparr>)"

section \<open>Facts\<close>

lemma calculate_delay_le_max: "calculate_delay cfg attempt ra kind draw \<le> max_delay_ms cfg"
  unfolding calculate_delay_def Let_def
  by (cases "if kind = RateLimit then ra else None") (simp_all only: option.case min.cobounded2)

text \<open>Where nothing overflows, the delay is the documented formula over the naturals.\<close>

lemma calculate_delay_backoff:
  assumes ra: "kind = RateLimit \<longrightarrow> ra = None"
    and att: "1 \<le> attempt" "unat attempt \<le> 64"
    and draw: "\<And>n. 0 < n \<Longrightarrow> draw n < n"
    and fits: "unat (delay_base cfg kind) * 2 ^ (unat attempt - 1)
       + unat (max (delay_base cfg kind) 2) div 2 < 2 ^ 64"
  shows "unat (calculate_delay cfg attempt ra kind draw)
     = min (unat (delay_base cfg kind) * 2 ^ (unat attempt - 1)
              + unat (draw (max (delay_base cfg kind) 2 div 2)))
           (unat (max_delay_ms cfg))"
proof -
  let ?b = "delay_base cfg kind"
  let ?n = "max ?b 2 div 2"
  have a1: "unat (attempt - 1) = unat attempt - 1"
    using att by (simp add: unat_sub word_le_nat_alt)
  then have lt: "unat (attempt - 1) < 64" using att by simp
  obtain sh where sh: "checked_shl1 (attempt - 1) = Some sh"
    using lt by (simp add: checked_shl1_def)
  have usc: "unat sh = 2 ^ (unat attempt - 1)" using checked_shl1_Some [OF sh] a1 by simp
  have un: "unat ?n = unat (max ?b 2) div 2" by (simp add: unat_div)
  have "2 \<le> unat (max ?b 2)" by (simp add: max_def word_le_nat_alt)
  then have "0 < unat ?n" using un by simp
  then have "?n \<noteq> 0" by auto
  then have "0 < ?n" by (simp only: word_gt_0)
  then have dn: "draw ?n < ?n" by (rule draw)
  then have ud: "unat (draw ?n) < unat (max ?b 2) div 2" using un by (simp add: word_less_nat_alt)
  have ue: "unat (saturating_mul ?b sh) = unat ?b * 2 ^ (unat attempt - 1)"
    using fits usc by (simp add: unat_saturating_mul)
  have "unat (saturating_mul ?b sh + draw ?n) = unat (saturating_mul ?b sh) + unat (draw ?n)"
    using fits ud ue by (simp add: unat_word_ariths)
  moreover have "calculate_delay cfg attempt ra kind draw
      = min (saturating_mul ?b sh + draw ?n) (max_delay_ms cfg)"
    using ra sh by (auto simp: calculate_delay_def Let_def)
  ultimately show ?thesis using ue by (simp add: min_def word_le_nat_alt)
qed

lemma deciding_attempt_le: "deciding_attempt exec m \<le> m"
  unfolding deciding_attempt_def by (metis diff_zero length_takeWhile_le length_upt)

lemma deciding_attempt_before: "i < deciding_attempt exec m \<Longrightarrow> retriable_outcome (exec i)"
proof -
  assume i: "i < deciding_attempt exec m"
  let ?t = "takeWhile (\<lambda>i. retriable_outcome (exec i)) [0..<m]"
  have "?t ! i \<in> set ?t" using i by (simp add: deciding_attempt_def)
  moreover have "?t ! i = i"
    using i deciding_attempt_le [of exec m]
    by (simp add: takeWhile_nth deciding_attempt_def)
  ultimately show ?thesis by (metis set_takeWhileD)
qed

lemma deciding_attempt_at: "deciding_attempt exec m < m
     \<Longrightarrow> \<not> retriable_outcome (exec (deciding_attempt exec m))"
proof -
  assume l: "deciding_attempt exec m < m"
  let ?P = "\<lambda>i. retriable_outcome (exec i)"
  have "length (takeWhile ?P [0..<m]) < length [0..<m]"
    using l by (simp add: deciding_attempt_def)
  from nth_length_takeWhile [OF this] l show ?thesis by (simp add: deciding_attempt_def)
qed

lemma retry_loop_step:
  assumes "unat (max_retries cfg) < 2 ^ 32 - 1" and "i \<le> unat (max_retries cfg)"
  shows "retry_loop (Suc fuel) cfg exec rnd i (of_nat i) tot sleeps
     = (if retriable_outcome (exec i) \<and> i < unat (max_retries cfg)
        then retry_loop fuel cfg exec rnd (Suc i) (of_nat (Suc i))
               (tot + attempt_delay cfg exec rnd i) (sleeps @ [attempt_delay cfg exec rnd i])
        else Some (retry_answer cfg (exec i) i tot, sleeps))"
proof -
  have "Suc i < 2 ^ 32" using assms by linarith
  then have u: "unat (of_nat (Suc i) :: u32) = Suc i"
    by (simp add: unat_of_nat del: of_nat_Suc)
  have c: "of_nat i + 1 = (of_nat (Suc i) :: u32)" by simp
  have l: "max_retries cfg < (of_nat (Suc i) :: u32) \<longleftrightarrow> unat (max_retries cfg) < Suc i"
    unfolding word_less_nat_alt u ..
  show ?thesis
    unfolding retry_loop.simps Let_def c l
    by (auto simp: retriable_outcome_def attempt_delay_def retry_answer_def
        simp del: of_nat_Suc split: sum.splits upstream_result.splits)
qed

lemma retry_loop_runs:
  assumes "unat (max_retries cfg) < 2 ^ 32 - 1" and "i + k \<le> unat (max_retries cfg)"
    and "\<And>j. i \<le> j \<Longrightarrow> j < i + k \<Longrightarrow> retriable_outcome (exec j)"
    and "\<not> (retriable_outcome (exec (i + k)) \<and> i + k < unat (max_retries cfg))"
    and "k < fuel"
  shows "retry_loop fuel cfg exec rnd i (of_nat i) tot sleeps
     = Some (retry_answer cfg (exec (i + k)) (i + k)
               (tot + sum_list (map (attempt_delay cfg exec rnd) [i..<i + k])),
             sleeps @ map (attempt_delay cfg exec rnd) [i..<i + k])"
  using assms(2-5)
proof (induction k arbitrary: i fuel tot sleeps)
  case 0
  then obtain f where "fuel = Suc f" by (cases fuel) auto
  with 0 assms(1) show ?case by (auto simp: retry_loop_step simp del: retry_loop.simps)
next
  case (Suc k)
  then obtain f where f: "fuel = Suc f" by (cases fuel) auto
  have r: "retriable_outcome (exec i)" and l: "i < unat (max_retries cfg)" using Suc.prems by auto
  have "[i..<i + Suc k] = i # [Suc i..<Suc i + k]" by (simp add: upt_conv_Cons)
  moreover have "retry_loop f cfg exec rnd (Suc i) (of_nat (Suc i))
        (tot + attempt_delay cfg exec rnd i) (sleeps @ [attempt_delay cfg exec rnd i])
      = Some (retry_answer cfg (exec (Suc i + k)) (Suc i + k)
               (tot + attempt_delay cfg exec rnd i
                 + sum_list (map (attempt_delay cfg exec rnd) [Suc i..<Suc i + k])),
             (sleeps @ [attempt_delay cfg exec rnd i])
               @ map (attempt_delay cfg exec rnd) [Suc i..<Suc i + k])"
    using Suc.prems f by (intro Suc.IH) auto
  ultimately show ?case
    using f r l assms(1)
    by (simp add: retry_loop_step add.assoc del: retry_loop.simps of_nat_Suc)
qed

lemma attempt_delay_le_max: "attempt_delay cfg exec rnd i \<le> max_delay_ms cfg"
  by (simp add: attempt_delay_def calculate_delay_le_max split: sum.splits upstream_result.splits)

lemma execute_with_retry_runs:
  assumes "unat (max_retries cfg) < 2 ^ 32 - 1" and "unat (max_retries cfg) < fuel"
    and "n = deciding_attempt exec (unat (max_retries cfg))"
  shows "execute_with_retry fuel cfg exec rnd
     = Some (retry_answer cfg (exec n) n (sum_list (map (attempt_delay cfg exec rnd) [0..<n])),
             map (attempt_delay cfg exec rnd) [0..<n])"
proof -
  have le: "n \<le> unat (max_retries cfg)" using assms(3) deciding_attempt_le by simp
  have "retry_loop fuel cfg exec rnd 0 (of_nat 0) 0 []
     = Some (retry_answer cfg (exec (0 + n)) (0 + n)
               (0 + sum_list (map (attempt_delay cfg exec rnd) [0..<0 + n])),
             [] @ map (attempt_delay cfg exec rnd) [0..<0 + n])"
  proof (rule retry_loop_runs)
    show "\<not> (retriable_outcome (exec (0 + n)) \<and> 0 + n < unat (max_retries cfg))"
      using deciding_attempt_at [of exec "unat (max_retries cfg)"] assms(3) by auto
    show "retriable_outcome (exec j)" if "j < 0 + n" for j
      using deciding_attempt_before that assms(3) by simp
  qed (use assms le in auto)
  then show ?thesis by (simp add: execute_with_retry_def)
qed

end
