(* ===== verification/Trans_Common.thy ===== *)
theory Trans_Common
  imports Errors
begin

text \<open>
  The protocol formats the router speaks (\<open>src/translate/format.rs\<close>) and the conversions of
  content, tools and stop reasons its translators share (\<open>src/translate/common.rs\<close>).
\<close>

section \<open>Protocol formats\<close>

datatype protocol = OpenAI | OpenAIResponses | Claude | Gemini | Ollama

fun protocol_as_str :: "protocol \<Rightarrow> string" where
  "protocol_as_str OpenAI = ''openai''"
| "protocol_as_str OpenAIResponses = ''openai-responses''"
| "protocol_as_str Claude = ''claude''"
| "protocol_as_str Gemini = ''gemini''"
| "protocol_as_str Ollama = ''ollama''"

definition detect_source :: "endpoint \<Rightarrow> json \<Rightarrow> protocol" where
  "detect_source e body =
     (case e of
        Messages \<Rightarrow> Claude
      | Responses \<Rightarrow>
          (if jget ''messages'' body \<noteq> None \<and> jget ''input'' body = None then OpenAI
           else OpenAIResponses)
      | OllamaChat \<Rightarrow> Ollama
      | _ \<Rightarrow> OpenAI)"

definition from_provider :: "provider \<Rightarrow> protocol" where
  "from_provider p =
     (case p_protocol_format p of
        Some fmt \<Rightarrow>
          (if fmt = ''claude'' \<or> fmt = ''anthropic'' then Claude
           else if fmt = ''gemini'' \<or> fmt = ''vertex'' then Gemini
           else if fmt = ''ollama'' then Ollama
           else if fmt = ''openai-responses'' then OpenAIResponses
           else OpenAI)
      | None \<Rightarrow>
          (if p_provider p = ''anthropic'' then Claude
           else if p_provider p = ''vertex'' \<or> p_provider p = ''gemini'' then Gemini
           else if p_provider p = ''ollama'' then Ollama
           else OpenAI))"

lemma from_provider_as_str:
  "p_protocol_format p = Some (protocol_as_str f) \<Longrightarrow> from_provider p = f"
  by (cases f) (simp_all add: from_provider_def)

section \<open>Stop reasons\<close>

definition openai_finish_to_claude_stop :: "string \<Rightarrow> string" where
  "openai_finish_to_claude_stop r =
     (if r = ''stop'' then ''end_turn''
      else if r = ''length'' then ''max_tokens''
      else if r = ''tool_calls'' \<or> r = ''function_call'' then ''tool_use''
      else if r = ''content_filter'' then ''end_turn''
      else ''end_turn'')"

definition claude_stop_to_openai_finish :: "string \<Rightarrow> string" where
  "claude_stop_to_openai_finish r =
     (if r = ''end_turn'' then ''stop''
      else if r = ''max_tokens'' then ''length''
      else if r = ''tool_use'' then ''tool_calls''
      else if r = ''stop_sequence'' then ''stop''
      else ''stop'')"

definition gemini_finish_to_openai :: "string \<Rightarrow> string" where
  "gemini_finish_to_openai r =
     (if r = ''STOP'' then ''stop''
      else if r = ''MAX_TOKENS'' then ''length''
      else if r = ''SAFETY'' then ''content_filter''
      else if r = ''RECITATION'' then ''content_filter''
      else ''stop'')"

definition openai_finish_to_gemini :: "string \<Rightarrow> string" where
  "openai_finish_to_gemini r =
     (if r = ''stop'' then ''STOP''
      else if r = ''length'' then ''MAX_TOKENS''
      else if r = ''content_filter'' then ''SAFETY''
      else ''STOP'')"

lemma claude_stop_round_trip:
  "r \<in> {''stop'', ''length'', ''tool_calls''}
     \<Longrightarrow> claude_stop_to_openai_finish (openai_finish_to_claude_stop r) = r"
  by (auto simp: claude_stop_to_openai_finish_def openai_finish_to_claude_stop_def)

lemma gemini_finish_round_trip:
  "r \<in> {''stop'', ''length'', ''content_filter''}
     \<Longrightarrow> gemini_finish_to_openai (openai_finish_to_gemini r) = r"
  by (auto simp: gemini_finish_to_openai_def openai_finish_to_gemini_def)

lemma claude_finish_range:
  "claude_stop_to_openai_finish r \<in> {''stop'', ''length'', ''tool_calls''}"
  by (simp add: claude_stop_to_openai_finish_def)

section \<open>Content blocks\<close>

definition text_block :: "string \<Rightarrow> json" where
  "text_block t = json_obj [(''type'', JStr ''text''), (''text'', JStr t)]"

definition copy_cache_control :: "json \<Rightarrow> json \<Rightarrow> json" where
  "copy_cache_control source target =
     (case (jget ''cache_control'' source, target) of
        (Some c, JObj ob) \<Rightarrow> JObj (obj_insert ''cache_control'' c ob)
      | _ \<Rightarrow> target)"

text \<open>The media type and the payload of a \<open>data:\<close> URL.\<close>

definition data_url :: "string \<Rightarrow> (string \<times> string) option" where
  "data_url url =
     map_option
       (\<lambda>(meta, data).
          (unwrap_or ''image/png''
             (map_option (\<lambda>s. hd (split_on CHR '';'' s)) (strip_prefix ''data:'' meta)), data))
       (split_once CHR '','' url)"

definition image_url_of :: "json \<Rightarrow> string option" where
  "image_url_of item = Option.bind (jget ''image_url'' item) (get_str ''url'')"

definition claude_image_block :: "string \<Rightarrow> json option" where
  "claude_image_block url =
     (if starts_with url ''data:'' then
        map_option (\<lambda>(media_type, data). json_obj
           [(''type'', JStr ''image''),
            (''source'', json_obj [(''type'', JStr ''base64''), (''media_type'', JStr media_type),
                                   (''data'', JStr data)])])
          (data_url url)
      else Some (json_obj
           [(''type'', JStr ''image''),
            (''source'', json_obj [(''type'', JStr ''url''), (''url'', JStr url)])]))"

definition claude_block_of_item :: "json \<Rightarrow> json option" where
  "claude_block_of_item item =
     Option.bind (get_str ''type'' item) (\<lambda>item_type.
       map_option (copy_cache_control item)
         (if item_type = ''text'' then Some (text_block (unwrap_or [] (get_str ''text'' item)))
          else if item_type = ''image_url''
          then claude_image_block (unwrap_or [] (image_url_of item))
          else Some item))"

definition openai_content_to_claude_blocks :: "'a codec_scheme \<Rightarrow> json \<Rightarrow> json" where
  "openai_content_to_claude_blocks c content =
     (case content of
        JStr text \<Rightarrow> JArr [text_block text]
      | JArr items \<Rightarrow> JArr (List.map_filter claude_block_of_item items)
      | JNull \<Rightarrow> JArr []
      | _ \<Rightarrow> JArr [text_block (json_print c content)])"

definition text_of_block :: "json \<Rightarrow> string option" where
  "text_of_block b =
     Option.bind (get_str ''type'' b) (\<lambda>t. if t = ''text'' then get_str ''text'' b else None)"

definition claude_blocks_to_text :: "json \<Rightarrow> string" where
  "claude_blocks_to_text content =
     (case content of
        JArr blocks \<Rightarrow> concat (List.map_filter text_of_block blocks)
      | JStr s \<Rightarrow> s
      | _ \<Rightarrow> [])"

section \<open>Tools\<close>

definition tool_use_block :: "string \<Rightarrow> string \<Rightarrow> json \<Rightarrow> json" where
  "tool_use_block i n v =
     json_obj [(''type'', JStr ''tool_use''), (''id'', JStr i), (''name'', JStr n), (''input'', v)]"

definition claude_of_tool_call :: "'a codec_scheme \<Rightarrow> json \<Rightarrow> json option" where
  "claude_of_tool_call c call =
     Option.bind (jget ''function'' call) (\<lambda>func.
     Option.bind (get_str ''name'' func) (\<lambda>name.
     Option.bind (jget ''arguments'' func) (\<lambda>args.
       Some (tool_use_block (unwrap_or [] (get_str ''id'' call)) name
         (parse_or c (json_obj []) (unwrap_or ''{}'' (as_str args)))))))"

definition openai_tool_calls_to_claude :: "'a codec_scheme \<Rightarrow> json \<Rightarrow> json list" where
  "openai_tool_calls_to_claude c tool_calls =
     List.map_filter (claude_of_tool_call c) (unwrap_or [] (as_array tool_calls))"

definition tool_call_of_claude :: "'a codec_scheme \<Rightarrow> json \<Rightarrow> json option" where
  "tool_call_of_claude c block =
     Option.bind (get_str ''type'' block) (\<lambda>t.
       if t \<noteq> ''tool_use'' then None
       else Some (json_obj
         [(''id'', unwrap_or (JStr []) (jget ''id'' block)),
          (''type'', JStr ''function''),
          (''function'', json_obj
             [(''name'', JStr (unwrap_or [] (get_str ''name'' block))),
              (''arguments'', JStr (json_print c (unwrap_or (json_obj []) (jget ''input'' block))))])]))"

definition claude_tool_use_to_openai :: "'a codec_scheme \<Rightarrow> json \<Rightarrow> json list" where
  "claude_tool_use_to_openai c content =
     List.map_filter (tool_call_of_claude c) (unwrap_or [] (as_array content))"

definition object_schema :: json where
  "object_schema = json_obj [(''type'', JStr ''object'')]"

definition claude_tool_of :: "json \<Rightarrow> json option" where
  "claude_tool_of tool =
     map_option (\<lambda>func. copy_cache_control tool (json_obj
        [(''name'', unwrap_or (JStr []) (jget ''name'' func)),
         (''description'', unwrap_or (JStr []) (jget ''description'' func)),
         (''input_schema'', unwrap_or object_schema (jget ''parameters'' func))]))
       (jget ''function'' tool)"

definition openai_tools_to_claude :: "json \<Rightarrow> json" where
  "openai_tools_to_claude tools =
     (case as_array tools of
        Some ts \<Rightarrow> JArr (List.map_filter claude_tool_of ts)
      | None \<Rightarrow> JArr [])"

definition openai_tool_of :: "json \<Rightarrow> json" where
  "openai_tool_of tool = json_obj
     [(''type'', JStr ''function''),
      (''function'', json_obj
        [(''name'', unwrap_or (JStr []) (jget ''name'' tool)),
         (''description'', unwrap_or (JStr []) (jget ''description'' tool)),
         (''parameters'', unwrap_or object_schema (jget ''input_schema'' tool))])]"

definition claude_tools_to_openai :: "json \<Rightarrow> json" where
  "claude_tools_to_openai tools =
     (case as_array tools of Some ts \<Rightarrow> JArr (map openai_tool_of ts) | None \<Rightarrow> JArr [])"

section \<open>Facts\<close>

lemma jget_copy_cache_control:
  "k \<noteq> ''cache_control'' \<Longrightarrow> jget k (copy_cache_control s t) = jget k t"
  by (cases t) (auto simp: copy_cache_control_def split: option.splits)

lemma copy_cache_control_none:
  "jget ''cache_control'' s = None \<Longrightarrow> copy_cache_control s t = t"
  by (simp add: copy_cache_control_def)

text \<open>A tool use survives the way to the OpenAI form and back, given what the JSON crate
  documents: the text it prints parses back.\<close>

lemma tool_use_round_trip:
  assumes "json_parse c (json_print c v) = Inr v"
  shows "Option.bind (tool_call_of_claude c (tool_use_block i n v)) (claude_of_tool_call c)
     = Some (tool_use_block i n v)"
  using assms
  by (simp add: tool_use_block_def tool_call_of_claude_def claude_of_tool_call_def kou_simps
      parse_or_def)

lemma map_filter_compose:
  "List.map_filter g (List.map_filter f xs) = List.map_filter (\<lambda>x. Option.bind (f x) g) xs"
  by (induction xs) (auto simp: List.map_filter_simps split: option.splits)

lemma map_filter_all_Some:
  "(\<And>x. x \<in> set xs \<Longrightarrow> f x = Some (g x)) \<Longrightarrow> List.map_filter f xs = map g xs"
  by (induction xs) (auto simp: List.map_filter_simps)

lemma tool_uses_round_trip:
  assumes "\<And>i n v. (i, n, v) \<in> set uses \<Longrightarrow> json_parse c (json_print c v) = Inr v"
  shows "openai_tool_calls_to_claude c
       (JArr (claude_tool_use_to_openai c (JArr (map (\<lambda>(i, n, v). tool_use_block i n v) uses))))
     = map (\<lambda>(i, n, v). tool_use_block i n v) uses"
proof -
  let ?bs = "map (\<lambda>(i, n, v). tool_use_block i n v) uses"
  have "List.map_filter (\<lambda>x. Option.bind (tool_call_of_claude c x) (claude_of_tool_call c)) ?bs
      = map (\<lambda>x. x) ?bs"
    using assms tool_use_round_trip by (intro map_filter_all_Some) fastforce
  then show ?thesis
    by (simp add: openai_tool_calls_to_claude_def claude_tool_use_to_openai_def
        map_filter_compose)
qed

definition claude_tool :: "json \<Rightarrow> json \<Rightarrow> json \<Rightarrow> json" where
  "claude_tool n d s = json_obj [(''name'', n), (''description'', d), (''input_schema'', s)]"

lemma tools_round_trip:
  "openai_tools_to_claude (claude_tools_to_openai (JArr (map (\<lambda>(n, d, s). claude_tool n d s) ts)))
     = JArr (map (\<lambda>(n, d, s). claude_tool n d s) ts)"
proof -
  have "claude_tool_of (openai_tool_of (claude_tool n d s)) = Some (claude_tool n d s)" for n d s
    by (simp add: claude_tool_of_def openai_tool_of_def claude_tool_def copy_cache_control_none)
  then have "List.map_filter claude_tool_of
      (map openai_tool_of (map (\<lambda>(n, d, s). claude_tool n d s) ts))
      = map (\<lambda>(n, d, s). claude_tool n d s) ts"
    by (induction ts) (auto simp: List.map_filter_simps)
  then show ?thesis
    by (simp add: openai_tools_to_claude_def claude_tools_to_openai_def)
qed

end
