(* ===== verification/Trans_Claude.thy ===== *)
theory Trans_Claude
  imports Trans_Common
begin

text \<open>
  OpenAI chat requests to the Claude Messages API (\<open>src/translate/openai_to_claude.rs\<close>) and
  Claude responses to OpenAI chat completions (\<open>src/translate/claude_to_openai.rs\<close>). The
  loop over the messages is a fold whose state is the pair of system blocks and messages.
\<close>

section \<open>Requests\<close>

definition request_cache_control :: "json \<Rightarrow> json option" where
  "request_cache_control body =
     or_else (or_else (or_else (jget ''cache_control'' body) (jget ''anthropic_cache_control'' body))
                (jget ''claude_cache_control'' body))
       (case jget ''prompt_cache'' body of
          Some (JBool b) \<Rightarrow> if b then Some (json_obj [(''type'', JStr ''ephemeral'')]) else None
        | Some (JObj ob) \<Rightarrow>
            (case obj_get ''cache_control'' ob of
               Some v \<Rightarrow> Some v
             | None \<Rightarrow>
                 if obj_get ''type'' ob \<noteq> None \<or> obj_get ''ttl'' ob \<noteq> None then Some (JObj ob)
                 else None)
        | _ \<Rightarrow> None)"

definition openai_system_message_to_claude_blocks :: "'a codec_scheme \<Rightarrow> json \<Rightarrow> json list" where
  "openai_system_message_to_claude_blocks c message =
     (let content = jindex ''content'' message;
          blocks = (case content of
             JStr text \<Rightarrow> [text_block text]
           | JArr items \<Rightarrow>
               unwrap_or [] (as_array (openai_content_to_claude_blocks c (JArr items)))
           | JNull \<Rightarrow> []
           | other \<Rightarrow> [text_block (json_print c other)])
      in if jget ''cache_control'' message \<noteq> None
            \<and> \<not> list_ex (\<lambda>b. jget ''cache_control'' b \<noteq> None) blocks \<and> blocks \<noteq> []
         then butlast blocks @ [copy_cache_control message (last blocks)]
         else blocks)"

definition claude_message :: "string \<Rightarrow> json \<Rightarrow> json" where
  "claude_message role content = json_obj [(''role'', JStr role), (''content'', content)]"

definition assistant_blocks :: "'a codec_scheme \<Rightarrow> json \<Rightarrow> json list" where
  "assistant_blocks c msg =
     (let blocks = (case as_str (jindex ''content'' msg) of
                      Some text \<Rightarrow> if text \<noteq> [] then [text_block text] else []
                    | None \<Rightarrow> []);
          blocks = (if \<not> is_null (jindex ''tool_calls'' msg)
                    then blocks @ openai_tool_calls_to_claude c (jindex ''tool_calls'' msg)
                    else blocks)
      in if blocks = [] then [text_block []] else blocks)"

definition claude_step ::
  "'a codec_scheme \<Rightarrow> json \<Rightarrow> json list \<times> json list \<Rightarrow> json list \<times> json list" where
  "claude_step c msg st =
     (let (sys, ms) = st; role = unwrap_or [] (as_str (jindex ''role'' msg)) in
      if role = ''system'' then (sys @ openai_system_message_to_claude_blocks c msg, ms)
      else if role = ''user'' then
        (sys, ms @ [claude_message ''user''
                      (openai_content_to_claude_blocks c (jindex ''content'' msg))])
      else if role = ''assistant'' then
        (sys, ms @ [claude_message ''assistant'' (JArr (assistant_blocks c msg))])
      else if role = ''tool'' then
        (sys, ms @ [claude_message ''user'' (JArr [json_obj
           [(''type'', JStr ''tool_result''),
            (''tool_use_id'', jindex ''tool_call_id'' msg),
            (''content'', jindex ''content'' msg)]])])
      else (sys, ms))"

definition copy_nonnull :: "string list \<Rightarrow> json \<Rightarrow> obj \<Rightarrow> obj" where
  "copy_nonnull ks body out =
     fold (\<lambda>k ob. case jget k body of
                    Some v \<Rightarrow> if is_null v then ob else obj_insert k v ob
                  | None \<Rightarrow> ob) ks out"

definition add_claude_tools :: "json \<Rightarrow> obj \<Rightarrow> obj" where
  "add_claude_tools body out =
     (case jget ''tools'' body of
        Some tools \<Rightarrow>
          (if is_null tools then out
           else if openai_tools_to_claude tools = JArr [] then out
           else obj_insert ''tools'' (openai_tools_to_claude tools) out)
      | None \<Rightarrow> out)"

definition add_claude_tool_choice :: "json \<Rightarrow> obj \<Rightarrow> obj" where
  "add_claude_tool_choice body out =
     (case jget ''tool_choice'' body of
        Some tc \<Rightarrow>
          (if is_null tc then out
           else if as_str tc = Some ''auto''
             then obj_insert ''tool_choice'' (json_obj [(''type'', JStr ''auto'')]) out
           else if as_str tc = Some ''required''
             then obj_insert ''tool_choice'' (json_obj [(''type'', JStr ''any'')]) out
           else if as_str tc = Some ''none''
             then obj_remove ''tool_choice''
                    (obj_insert ''tool_choice'' JNull (obj_remove ''tools'' out))
           else (case Option.bind (jget ''function'' tc) (\<lambda>f. as_str (jindex ''name'' f)) of
                   Some name \<Rightarrow> obj_insert ''tool_choice''
                     (json_obj [(''type'', JStr ''tool''), (''name'', JStr name)]) out
                 | None \<Rightarrow> obj_insert ''tool_choice'' (json_obj [(''type'', JStr ''auto'')]) out))
      | None \<Rightarrow> out)"

definition json_mode_blocks :: "json \<Rightarrow> json list" where
  "json_mode_blocks body =
     (if as_str (jindex ''type'' (jindex ''response_format'' body)) = Some ''json_object''
      then [text_block ''Respond only with valid JSON.''] else [])"

definition openai_to_claude_request ::
  "'a codec_scheme \<Rightarrow> string \<Rightarrow> json \<Rightarrow> bool \<Rightarrow> json app_result" where
  "openai_to_claude_request c model body stream =
     rbind (ok_or (BadRequest ''messages array is required and must not be empty'')
              (opt_filter (\<lambda>m. m \<noteq> []) (as_array (jindex ''messages'' body))))
     (\<lambda>messages.
       let (sys, ms) = fold (claude_step c) messages ([], []);
           sys = sys @ json_mode_blocks body;
           out = mk_obj [(''model'', JStr model), (''messages'', JArr ms),
                   (''max_tokens'', jnat (unwrap_or 8192 (as_u64 (jindex ''max_tokens'' body)))),
                   (''stream'', JBool stream)];
           out = (if sys \<noteq> [] then obj_insert ''system'' (JArr sys) out else out);
           out = (case request_cache_control body of
                    Some v \<Rightarrow> obj_insert ''cache_control'' v out
                  | None \<Rightarrow> out);
           out = copy_nonnull [''temperature'', ''top_p'', ''top_k''] body out
       in Inr (JObj (add_claude_tool_choice body (add_claude_tools body out))))"

section \<open>Responses\<close>

definition claude_text_of_block :: "json \<Rightarrow> string option" where
  "claude_text_of_block b =
     Option.bind (get_str ''type'' b) (\<lambda>t.
       if t = ''text'' then map_option (\<lambda>v. unwrap_or [] (as_str v)) (jget ''text'' b) else None)"

text \<open>The message of a completion: text wins, else the empty string, or null beside tool calls.\<close>

definition openai_message :: "string option \<Rightarrow> json list \<Rightarrow> json" where
  "openai_message text tool_calls =
     json_obj ([(''role'', JStr ''assistant''),
        (''content'', case text of
           Some t \<Rightarrow> JStr t
         | None \<Rightarrow> if tool_calls = [] then JStr [] else JNull)]
        @ (if tool_calls = [] then [] else [(''tool_calls'', JArr tool_calls)]))"

definition chat_completion ::
  "string \<Rightarrow> string \<Rightarrow> json \<Rightarrow> json \<Rightarrow> u64 \<Rightarrow> u64 \<Rightarrow> u64 \<Rightarrow> json" where
  "chat_completion i model message finish_reason prompt completion total_tokens =
     json_obj
       [(''id'', JStr i), (''object'', JStr ''chat.completion''), (''model'', JStr model),
        (''choices'', JArr [json_obj [(''index'', jnat 0), (''message'', message),
                                      (''finish_reason'', finish_reason)]]),
        (''usage'', json_obj [(''prompt_tokens'', jnat prompt),
                              (''completion_tokens'', jnat completion),
                              (''total_tokens'', jnat total_tokens)])]"

definition claude_to_openai_response :: "'a codec_scheme \<Rightarrow> json \<Rightarrow> json app_result" where
  "claude_to_openai_response c body =
     (let text = concat (List.map_filter claude_text_of_block
                   (unwrap_or [] (get_array ''content'' body)));
          tool_calls = claude_tool_use_to_openai c (jindex ''content'' body);
          finish = unwrap_or ''stop''
                     (map_option claude_stop_to_openai_finish (get_str ''stop_reason'' body));
          prompt = unwrap_or 0 (Option.bind (jget ''usage'' body) (get_u64 ''input_tokens''));
          completion = unwrap_or 0 (Option.bind (jget ''usage'' body) (get_u64 ''output_tokens''));
          raw_id = unwrap_or [] (get_str ''id'' body);
          i = (if starts_with raw_id ''chatcmpl-'' then raw_id else ''chatcmpl-'' @ raw_id);
          model = unwrap_or [] (get_str ''model'' body)
      in Inr (chat_completion i model
                (openai_message (if text \<noteq> [] then Some text else None) tool_calls)
                (JStr finish) prompt completion (prompt + completion)))"

section \<open>What the request translation guarantees\<close>

definition role_of :: "json \<Rightarrow> string" where
  "role_of msg = unwrap_or [] (as_str (jindex ''role'' msg))"

definition system_part :: "'a codec_scheme \<Rightarrow> json list \<Rightarrow> json list" where
  "system_part c messages =
     concat (map (openai_system_message_to_claude_blocks c)
       (filter (\<lambda>m. role_of m = ''system'') messages))"

definition conversation :: "json list \<Rightarrow> json list" where
  "conversation messages =
     filter (\<lambda>m. role_of m \<in> {''user'', ''assistant'', ''tool''}) messages"

definition claude_turn :: "'a codec_scheme \<Rightarrow> json \<Rightarrow> json" where
  "claude_turn c m = hd (snd (claude_step c m ([], [])))"

lemma claude_step_parts:
  "claude_step c m (sys, ms) = (sys @ system_part c [m], ms @ map (claude_turn c) (conversation [m]))"
  by (simp add: claude_step_def system_part_def conversation_def claude_turn_def role_of_def
      Let_def)

lemma claude_fold_parts:
  "fold (claude_step c) msgs (sys, ms)
     = (sys @ system_part c msgs, ms @ map (claude_turn c) (conversation msgs))"
proof (induction msgs arbitrary: sys ms)
  case (Cons m msgs)
  have "system_part c (m # msgs) = system_part c [m] @ system_part c msgs"
    and "conversation (m # msgs) = conversation [m] @ conversation msgs"
    by (simp_all add: system_part_def conversation_def)
  with Cons show ?case by (simp add: claude_step_parts)
qed (simp add: system_part_def conversation_def)

lemma claude_turn_role:
  "m \<in> set (conversation msgs)
     \<Longrightarrow> get_str ''role'' (claude_turn c m)
         = Some (if role_of m = ''assistant'' then ''assistant'' else ''user'')"
  by (auto simp: conversation_def claude_turn_def claude_step_def role_of_def Let_def
      claude_message_def kou_simps)

lemma copy_nonnull_get:
  "k \<notin> set ks \<Longrightarrow> obj_get k (copy_nonnull ks body out) = obj_get k out"
  unfolding copy_nonnull_def
  by (induction ks arbitrary: out) (auto split: option.splits)

lemma add_claude_tools_get:
  "k \<noteq> ''tools'' \<Longrightarrow> obj_get k (add_claude_tools body out) = obj_get k out"
  by (simp add: add_claude_tools_def split: option.splits)

lemma add_claude_tool_choice_get:
  "k \<noteq> ''tools'' \<Longrightarrow> k \<noteq> ''tool_choice''
     \<Longrightarrow> obj_get k (add_claude_tool_choice body out) = obj_get k out"
  by (simp add: add_claude_tool_choice_def split: option.splits)

lemmas claude_out_get = copy_nonnull_get add_claude_tools_get add_claude_tool_choice_get

lemma openai_to_claude_Inr:
  assumes "openai_to_claude_request c model body stream = Inr r"
  obtains messages where "jget ''messages'' body = Some (JArr messages)" and "messages \<noteq> []"
    and "jget ''messages'' r = Some (JArr (map (claude_turn c) (conversation messages)))"
    and "jget ''system'' r = (let sys = system_part c messages @ json_mode_blocks body in
           if sys = [] then None else Some (JArr sys))"
    and "jget ''model'' r = Some (JStr model)" and "jget ''stream'' r = Some (JBool stream)"
    and "jget ''max_tokens'' r
           = Some (jnat (unwrap_or 8192 (as_u64 (jindex ''max_tokens'' body))))"
proof -
  obtain messages where m: "as_array (jindex ''messages'' body) = Some messages" "messages \<noteq> []"
    using assms by (auto simp: openai_to_claude_request_def rbind_Inr
        elim!: ok_or.elims)
  then have j: "jget ''messages'' body = Some (JArr messages)"
    by (cases "jget ''messages'' body") (auto simp: jindex_def)
  show ?thesis
    using assms m j
    by (intro that [OF j m(2)])
      (auto simp: openai_to_claude_request_def claude_fold_parts Let_def claude_out_get
        split: option.splits)
qed

lemma openai_to_claude_error:
  "openai_to_claude_request c model body stream = Inl e
     \<longleftrightarrow> e = BadRequest ''messages array is required and must not be empty''
       \<and> get_array ''messages'' body \<in> {None, Some []}"
proof -
  have a: "as_array (jindex ''messages'' body) = get_array ''messages'' body"
    by (cases "jget ''messages'' body") (simp_all add: kou_simps)
  show ?thesis
    by (cases "get_array ''messages'' body")
      (auto simp: openai_to_claude_request_def a claude_fold_parts Let_def)
qed

end
