(* ===== verification/Trans_Gemini.thy ===== *)
theory Trans_Gemini
  imports Trans_Claude
begin

text \<open>
  OpenAI chat requests to Gemini's \<open>generateContent\<close>
  (\<open>src/translate/openai_to_gemini.rs\<close>) and its responses back
  (\<open>src/translate/gemini_to_openai.rs\<close>).
\<close>

section \<open>Requests\<close>

definition text_part :: "string \<Rightarrow> json" where
  "text_part t = json_obj [(''text'', JStr t)]"

definition extract_text_content :: "json \<Rightarrow> string" where
  "extract_text_content msg =
     (case jget ''content'' msg of
        Some (JStr s) \<Rightarrow> s
      | Some (JArr parts) \<Rightarrow> concat (List.map_filter text_of_block parts)
      | _ \<Rightarrow> [])"

definition image_url_to_gemini_part :: "string \<Rightarrow> json option" where
  "image_url_to_gemini_part url =
     (if starts_with url ''data:'' then
        map_option (\<lambda>(mime, data). json_obj
          [(''inlineData'', json_obj [(''mimeType'', JStr mime), (''data'', JStr data)])])
          (data_url url)
      else Some (json_obj
        [(''fileData'', json_obj [(''mimeType'', JStr ''image/png''), (''fileUri'', JStr url)])]))"

definition gemini_part_of_item :: "json \<Rightarrow> json option" where
  "gemini_part_of_item item =
     Option.bind (get_str ''type'' item) (\<lambda>t.
       if t = ''text'' then Some (text_part (unwrap_or [] (get_str ''text'' item)))
       else if t = ''image_url''
       then Option.bind (image_url_of item) image_url_to_gemini_part
       else None)"

definition openai_content_to_gemini_parts :: "'a codec_scheme \<Rightarrow> json \<Rightarrow> json list" where
  "openai_content_to_gemini_parts c content =
     (case content of
        JStr text \<Rightarrow> [text_part text]
      | JArr items \<Rightarrow> List.map_filter gemini_part_of_item items
      | JNull \<Rightarrow> [text_part []]
      | _ \<Rightarrow> [text_part (json_print c content)])"

definition tool_call_to_function_call :: "'a codec_scheme \<Rightarrow> json \<Rightarrow> json option" where
  "tool_call_to_function_call c call =
     Option.bind (jget ''function'' call) (\<lambda>func.
     Option.bind (get_str ''name'' func) (\<lambda>name.
       Some (json_obj [(''functionCall'', json_obj
         [(''name'', JStr name),
          (''args'', parse_or c (json_obj []) (unwrap_or ''{}'' (get_str ''arguments'' func)))])])))"

definition tool_msg_to_function_response :: "'a codec_scheme \<Rightarrow> json \<Rightarrow> json" where
  "tool_msg_to_function_response c msg =
     (let raw = unwrap_or ''{}'' (get_str ''content'' msg) in
      json_obj [(''functionResponse'', json_obj
        [(''name'', JStr (unwrap_or ''unknown'' (get_str ''name'' msg))),
         (''response'', parse_or c (json_obj [(''result'', JStr raw)]) raw)])])"

definition gemini_content :: "string \<Rightarrow> json list \<Rightarrow> json" where
  "gemini_content role parts = json_obj [(''role'', JStr role), (''parts'', JArr parts)]"

definition push_part :: "json \<Rightarrow> json \<Rightarrow> json" where
  "push_part part content =
     (case content of
        JObj ob \<Rightarrow>
          (case obj_get ''parts'' ob of
             Some (JArr ps) \<Rightarrow> JObj (obj_insert ''parts'' (JArr (ps @ [part])) ob)
           | _ \<Rightarrow> content)
      | _ \<Rightarrow> content)"

definition is_function :: "json \<Rightarrow> bool" where
  "is_function content \<longleftrightarrow> get_str ''role'' content = Some ''function''"

definition gemini_step ::
  "'a codec_scheme \<Rightarrow> json \<Rightarrow> json list \<times> json list \<Rightarrow> json list \<times> json list" where
  "gemini_step c msg st =
     (let (sys, cs) = st; role = unwrap_or [] (get_str ''role'' msg) in
      if role = ''system'' then
        (let text = extract_text_content msg in
         (if text \<noteq> [] then sys @ [text_part text] else sys, cs))
      else if role = ''user'' then
        (sys, cs @ [gemini_content ''user''
                      (openai_content_to_gemini_parts c (jindex ''content'' msg))])
      else if role = ''assistant'' then
        (let text = extract_text_content msg;
             parts = (if text \<noteq> [] then [text_part text] else [])
               @ List.map_filter (tool_call_to_function_call c)
                   (unwrap_or [] (get_array ''tool_calls'' msg))
         in (sys, if parts \<noteq> [] then cs @ [gemini_content ''model'' parts] else cs))
      else if role = ''tool'' then
        (let part = tool_msg_to_function_response c msg in
         (sys, if cs \<noteq> [] \<and> is_function (last cs)
               then butlast cs @ [push_part part (last cs)]
               else cs @ [gemini_content ''function'' [part]]))
      else (sys, cs))"

definition function_declaration :: "json \<Rightarrow> json option" where
  "function_declaration t =
     map_option (\<lambda>func. json_obj
        [(''name'', unwrap_or (JStr []) (jget ''name'' func)),
         (''description'', unwrap_or (JStr []) (jget ''description'' func)),
         (''parameters'', unwrap_or object_schema (jget ''parameters'' func))])
       (jget ''function'' t)"

definition calling_config :: "(string \<times> json) list \<Rightarrow> json" where
  "calling_config kvs = json_obj [(''functionCallingConfig'', json_obj kvs)]"

definition translate_tool_choice :: "json \<Rightarrow> json option" where
  "translate_tool_choice tc =
     (case tc of
        JStr s \<Rightarrow>
          (if s = ''auto'' then Some (calling_config [(''mode'', JStr ''AUTO'')])
           else if s = ''none'' then Some (calling_config [(''mode'', JStr ''NONE'')])
           else if s = ''required'' then Some (calling_config [(''mode'', JStr ''ANY'')])
           else None)
      | JObj ob \<Rightarrow>
          map_option (\<lambda>name. calling_config
             [(''mode'', JStr ''ANY''), (''allowedFunctionNames'', JArr [JStr name])])
            (Option.bind (obj_get ''function'' ob) (get_str ''name''))
      | _ \<Rightarrow> None)"

definition insert_opt :: "string \<Rightarrow> json option \<Rightarrow> obj \<Rightarrow> obj" where
  "insert_opt k v ob = (case v of None \<Rightarrow> ob | Some w \<Rightarrow> obj_insert k w ob)"

definition build_generation_config :: "json \<Rightarrow> obj" where
  "build_generation_config body =
     insert_opt ''stopSequences''
       (case jget ''stop'' body of
          Some (JStr s) \<Rightarrow> Some (JArr [JStr s])
        | Some (JArr ss) \<Rightarrow> Some (JArr ss)
        | _ \<Rightarrow> None)
       (insert_opt ''topP'' (jget ''top_p'' body)
         (insert_opt ''temperature'' (jget ''temperature'' body)
           (insert_opt ''maxOutputTokens''
              (or_else (jget ''max_tokens'' body) (jget ''max_completion_tokens'' body)) [])))"

definition openai_to_gemini_request :: "'a codec_scheme \<Rightarrow> json \<Rightarrow> json app_result" where
  "openai_to_gemini_request c body =
     rbind (ok_or (BadRequest ''missing messages array'') (get_array ''messages'' body))
     (\<lambda>messages.
       let (sys, cs) = fold (gemini_step c) messages ([], []);
           out = mk_obj [(''contents'', JArr cs)];
           out = (if sys \<noteq> [] then obj_insert ''systemInstruction'' (json_obj [(''parts'', JArr sys)]) out
                  else out);
           decls = List.map_filter function_declaration (unwrap_or [] (get_array ''tools'' body));
           out = (if decls \<noteq> [] then obj_insert ''tools''
                    (JArr [json_obj [(''functionDeclarations'', JArr decls)]]) out else out);
           out = insert_opt ''toolConfig''
                   (Option.bind (jget ''tool_choice'' body) translate_tool_choice) out;
           cfg = build_generation_config body
       in Inr (JObj (if cfg \<noteq> [] then obj_insert ''generationConfig'' (JObj cfg) out else out)))"

section \<open>Responses\<close>

definition gemini_part_step ::
  "'a codec_scheme \<Rightarrow> json \<Rightarrow> string list \<times> json list \<Rightarrow> string list \<times> json list" where
  "gemini_part_step c part st =
     (let (pieces, calls) = st in
      case get_str ''text'' part of
        Some text \<Rightarrow> (pieces @ [text], calls)
      | None \<Rightarrow>
          (case jget ''functionCall'' part of
             Some fc \<Rightarrow>
               (pieces, calls @ [json_obj
                  [(''id'', JStr (''call_'' @ new_uuid c (length calls))),
                   (''type'', JStr ''function''),
                   (''function'', json_obj
                      [(''name'', JStr (unwrap_or [] (get_str ''name'' fc))),
                       (''arguments'', JStr (json_print c (unwrap_or (json_obj []) (jget ''args'' fc))))])]])
           | None \<Rightarrow> (pieces, calls)))"

definition gemini_to_openai_response :: "'a codec_scheme \<Rightarrow> json \<Rightarrow> json app_result" where
  "gemini_to_openai_response c body =
     rbind (ok_or (BadRequest ''gemini response missing candidates'')
              (opt_filter (\<lambda>a. a \<noteq> []) (get_array ''candidates'' body)))
     (\<lambda>candidates.
       let candidate = hd candidates;
           parts = unwrap_or [] (Option.bind (jget ''content'' candidate) (get_array ''parts''));
           (pieces, calls) = fold (gemini_part_step c) parts ([], []);
           finish = unwrap_or ''stop''
             (map_option gemini_finish_to_openai (get_str ''finishReason'' candidate));
           usage = jget ''usageMetadata'' body;
           prompt = unwrap_or 0 (Option.bind usage (get_u64 ''promptTokenCount''));
           completion = unwrap_or 0 (Option.bind usage (get_u64 ''candidatesTokenCount''));
           tot = unwrap_or (prompt + completion) (Option.bind usage (get_u64 ''totalTokenCount''));
           model = unwrap_or ''gemini'' (get_str ''modelVersion'' body);
           i = ''chatcmpl-gemini-'' @ new_uuid c (length calls)
       in Inr (chat_completion i model
                 (openai_message (if pieces \<noteq> [] then Some (concat pieces) else None) calls)
                 (JStr finish) prompt completion tot))"

section \<open>Facts\<close>

lemma get_str_gemini_content [simp]: "get_str ''role'' (gemini_content r ps) = Some r"
  by (simp add: gemini_content_def get_str_def)

lemma is_function_content [simp]: "is_function (gemini_content r ps) \<longleftrightarrow> r = ''function''"
  by (simp add: is_function_def)

definition content_parts :: "json \<Rightarrow> json list" where
  "content_parts content = unwrap_or [] (get_array ''parts'' content)"

lemma content_parts_content [simp]: "content_parts (gemini_content r ps) = ps"
  by (simp add: content_parts_def gemini_content_def get_array_def)

lemma role_push_part [simp]: "get_str ''role'' (push_part p content) = get_str ''role'' content"
  by (cases content) (auto simp: push_part_def get_str_def split: option.splits json.splits)

lemma is_function_push_part [simp]: "is_function (push_part p content) = is_function content"
  by (simp add: is_function_def)

text \<open>Contents under construction: a known role, and the parts of a tool turn as an array.\<close>

definition content_ok :: "json \<Rightarrow> bool" where
  "content_ok content \<longleftrightarrow>
     get_str ''role'' content \<in> {Some ''user'', Some ''model'', Some ''function''}
     \<and> get_array ''parts'' content \<noteq> None"

lemma content_ok_content [simp]:
  "content_ok (gemini_content r ps) \<longleftrightarrow> r \<in> {''user'', ''model'', ''function''}"
  by (simp add: content_ok_def gemini_content_def get_str_def get_array_def)

lemma push_part_parts:
  assumes "content_ok content"
  shows "content_parts (push_part p content) = content_parts content @ [p]"
    and "content_ok (push_part p content)"
proof -
  obtain ps ob where o: "content = JObj ob" "obj_get ''parts'' ob = Some (JArr ps)"
    using assms by (cases content) (auto simp: content_ok_def get_array_def bind_eq_Some_conv)
  then show "content_parts (push_part p content) = content_parts content @ [p]"
    by (simp add: push_part_def content_parts_def get_array_def)
  show "content_ok (push_part p content)"
    using assms o by (simp add: content_ok_def push_part_def get_array_def get_str_def)
qed

definition no_adjacent_function :: "json list \<Rightarrow> bool" where
  "no_adjacent_function cs \<longleftrightarrow> successively (\<lambda>a b. \<not> (is_function a \<and> is_function b)) cs"

definition function_parts :: "json list \<Rightarrow> json list" where
  "function_parts cs = concat (map content_parts (filter is_function cs))"

lemma no_adjacent_simps [simp]:
  "no_adjacent_function []"
  "no_adjacent_function [x]"
  "no_adjacent_function (x # y # cs)
     \<longleftrightarrow> \<not> (is_function x \<and> is_function y) \<and> no_adjacent_function (y # cs)"
  by (simp_all add: no_adjacent_function_def)

lemma no_adjacent_snoc:
  "no_adjacent_function (cs @ [x])
     \<longleftrightarrow> no_adjacent_function cs \<and> (cs \<noteq> [] \<longrightarrow> \<not> (is_function (last cs) \<and> is_function x))"
  by (auto simp: no_adjacent_function_def successively_append_iff)

lemma no_adjacent_snoc2:
  "no_adjacent_function (cs @ [x, y])
     \<longleftrightarrow> no_adjacent_function (cs @ [x]) \<and> \<not> (is_function x \<and> is_function y)"
  using no_adjacent_snoc [of "cs @ [x]" y] by simp

definition gemini_inv :: "json list \<Rightarrow> bool" where
  "gemini_inv cs \<longleftrightarrow> list_all content_ok cs \<and> no_adjacent_function cs"

lemma gemini_step_inv: "gemini_inv cs \<Longrightarrow> gemini_inv (snd (gemini_step c m (sys, cs)))"
proof (cases cs rule: rev_cases)
  case Nil
  assume "gemini_inv cs"
  with Nil show ?thesis
    by (simp add: gemini_step_def gemini_inv_def Let_def no_adjacent_function_def)
next
  case (snoc ys y)
  assume "gemini_inv cs"
  with snoc show ?thesis
    by (auto simp: gemini_step_def gemini_inv_def Let_def no_adjacent_snoc no_adjacent_snoc2
        push_part_parts)
qed

lemma gemini_step_function_parts:
  assumes "gemini_inv cs"
  shows "function_parts (snd (gemini_step c m (sys, cs))) = function_parts cs
     @ (if get_str ''role'' m = Some ''tool'' then [tool_msg_to_function_response c m] else [])"
proof (cases cs rule: rev_cases)
  case Nil
  then show ?thesis
    by (cases "get_str ''role'' m") (auto simp: gemini_step_def Let_def function_parts_def)
next
  case (snoc ys y)
  with assms have "content_ok y" by (simp add: gemini_inv_def)
  with snoc show ?thesis
    by (cases "get_str ''role'' m")
      (auto simp: gemini_step_def Let_def function_parts_def push_part_parts)
qed

lemma gemini_fold:
  assumes "gemini_inv cs"
  shows "gemini_inv (snd (fold (gemini_step c) msgs (sys, cs)))
     \<and> function_parts (snd (fold (gemini_step c) msgs (sys, cs))) = function_parts cs
         @ map (tool_msg_to_function_response c)
             (filter (\<lambda>m. get_str ''role'' m = Some ''tool'') msgs)"
  using assms
proof (induction msgs arbitrary: sys cs)
  case (Cons m msgs)
  obtain sys' cs' where s: "gemini_step c m (sys, cs) = (sys', cs')" by fastforce
  then have "gemini_inv cs'" and "function_parts cs' = function_parts cs
     @ (if get_str ''role'' m = Some ''tool'' then [tool_msg_to_function_response c m] else [])"
    using gemini_step_inv [OF Cons.prems, of c m sys]
      gemini_step_function_parts [OF Cons.prems, of c m sys] by simp_all
  with s Cons.IH [of cs' sys'] show ?case by simp
qed simp

lemma insert_opt_get [simp]:
  "obj_get k (insert_opt j v ob) = (if k = j then or_else v (obj_get k ob) else obj_get k ob)"
  by (cases v) (auto simp: insert_opt_def)

lemma openai_to_gemini_Inr:
  assumes "openai_to_gemini_request c body = Inr r"
  obtains messages cs where "get_array ''messages'' body = Some messages"
    and "jget ''contents'' r = Some (JArr cs)"
    and "cs = snd (fold (gemini_step c) messages ([], []))"
proof -
  obtain messages where m: "get_array ''messages'' body = Some messages"
    using assms by (cases "get_array ''messages'' body") (auto simp: openai_to_gemini_request_def)
  obtain sys cs where f: "fold (gemini_step c) messages ([], []) = (sys, cs)" by fastforce
  have "jget ''contents'' r = Some (JArr cs)"
    using assms m f by (auto simp: openai_to_gemini_request_def Let_def)
  with m f that show ?thesis by simp
qed

lemma gemini_to_openai_error:
  "gemini_to_openai_response c body = Inl e
     \<longleftrightarrow> e = BadRequest ''gemini response missing candidates''
       \<and> get_array ''candidates'' body \<in> {None, Some []}"
  by (cases "get_array ''candidates'' body")
    (auto simp: gemini_to_openai_response_def Let_def split: prod.splits)

end
