(* ===== verification/Trans_Hub.thy ===== *)
theory Trans_Hub
  imports Trans_Gemini
begin

text \<open>
  The remaining translators -- Ollama (\<open>src/translate/ollama.rs\<close>), OpenAI Responses
  (\<open>src/translate/openai_responses.rs\<close>), single stream chunks
  (\<open>src/translate/stream.rs\<close>) -- and the registry that chooses between them
  (\<open>src/translate/registry.rs\<close>).
\<close>

section \<open>Ollama\<close>

definition ollama_options :: "json \<Rightarrow> obj" where
  "ollama_options body =
     insert_opt ''stop'' (jget ''stop'' body)
       (insert_opt ''num_predict'' (jget ''max_tokens'' body)
         (insert_opt ''top_p'' (jget ''top_p'' body)
           (insert_opt ''temperature'' (jget ''temperature'' body) [])))"

definition openai_to_ollama_request :: "string \<Rightarrow> json \<Rightarrow> bool \<Rightarrow> json app_result" where
  "openai_to_ollama_request model body stream =
     (let out = mk_obj [(''model'', JStr model), (''stream'', JBool stream)];
          out = insert_opt ''messages'' (jget ''messages'' body) out;
          out = insert_opt ''tools'' (jget ''tools'' body) out;
          opts = ollama_options body
      in Inr (JObj (if opts \<noteq> [] then obj_insert ''options'' (JObj opts) out else out)))"

definition ollama_to_openai_response :: "'a codec_scheme \<Rightarrow> json \<Rightarrow> json app_result" where
  "ollama_to_openai_response c body =
     (let message = unwrap_or (json_obj []) (jget ''message'' body);
          content = unwrap_or (JStr []) (jget ''content'' message);
          role = unwrap_or ''assistant'' (get_str ''role'' message);
          finish = (if unwrap_or False (get_bool ''done'' body) then JStr ''stop'' else JNull);
          oai = insert_opt ''tool_calls'' (jget ''tool_calls'' message)
                  (mk_obj [(''role'', JStr role), (''content'', content)]);
          model = unwrap_or ''unknown'' (get_str ''model'' body);
          prompt = unwrap_or 0 (get_u64 ''prompt_eval_count'' body);
          completion = unwrap_or 0 (get_u64 ''eval_count'' body)
      in Inr (chat_completion (''chatcmpl-ollama-'' @ new_uuid c 0) model (JObj oai) finish
                prompt completion (prompt + completion)))"

section \<open>OpenAI Responses\<close>

definition copy_if_present :: "string list \<Rightarrow> json \<Rightarrow> obj \<Rightarrow> obj" where
  "copy_if_present ks body out = fold (\<lambda>k. insert_opt k (jget k body)) ks out"

definition item_text :: "json \<Rightarrow> string option" where
  "item_text item = or_else (get_str ''text'' item) (as_str item)"

definition message_text :: "'a codec_scheme \<Rightarrow> json \<Rightarrow> string option" where
  "message_text c content =
     (case content of
        JStr text \<Rightarrow> Some text
      | JArr items \<Rightarrow>
          (let text = str_join [newline] (List.map_filter item_text items) in
           if text \<noteq> [] then Some text else None)
      | JNull \<Rightarrow> None
      | _ \<Rightarrow> Some (json_print c content))"

definition response_input_item :: "json \<Rightarrow> json" where
  "response_input_item item =
     (if get_str ''type'' item = Some ''text'' then
        (case get_str ''text'' item of
           Some t \<Rightarrow> json_obj [(''type'', JStr ''input_text''), (''text'', JStr t)]
         | None \<Rightarrow> item)
      else item)"

definition response_input_content :: "'a codec_scheme \<Rightarrow> json \<Rightarrow> json" where
  "response_input_content c content =
     (case content of
        JStr text \<Rightarrow> JArr [json_obj [(''type'', JStr ''input_text''), (''text'', JStr text)]]
      | JArr items \<Rightarrow> JArr (map response_input_item items)
      | JNull \<Rightarrow> JArr []
      | _ \<Rightarrow> JArr [json_obj [(''type'', JStr ''input_text''),
                            (''text'', JStr (json_print c content))]])"

definition input_message :: "'a codec_scheme \<Rightarrow> json \<Rightarrow> json" where
  "input_message c message = json_obj
     [(''type'', JStr ''message''),
      (''role'', JStr (unwrap_or ''user'' (get_str ''role'' message))),
      (''content'', response_input_content c (jindex ''content'' message))]"

definition openai_messages_to_responses_input :: "'a codec_scheme \<Rightarrow> json \<Rightarrow> json" where
  "openai_messages_to_responses_input c messages =
     (case messages of
        JArr ms \<Rightarrow> JArr (map (input_message c)
                        (filter (\<lambda>m. get_str ''role'' m \<noteq> Some ''system'') ms))
      | _ \<Rightarrow> messages)"

definition claude_messages_to_responses_input :: "'a codec_scheme \<Rightarrow> json \<Rightarrow> json" where
  "claude_messages_to_responses_input c messages =
     (case messages of JArr ms \<Rightarrow> JArr (map (input_message c) ms) | _ \<Rightarrow> messages)"

definition system_messages_to_instructions :: "'a codec_scheme \<Rightarrow> json list \<Rightarrow> string" where
  "system_messages_to_instructions c messages =
     str_join [newline, newline]
       (List.map_filter (\<lambda>m. message_text c (jindex ''content'' m))
         (filter (\<lambda>m. get_str ''role'' m = Some ''system'') messages))"

definition claude_system_to_instructions :: "'a codec_scheme \<Rightarrow> json \<Rightarrow> json" where
  "claude_system_to_instructions c system =
     (case system of
        JStr s \<Rightarrow> system
      | JArr _ \<Rightarrow> JStr (unwrap_or [] (message_text c system))
      | _ \<Rightarrow> JStr (json_print c system))"

definition openai_request_to_responses ::
  "'a codec_scheme \<Rightarrow> string \<Rightarrow> json \<Rightarrow> bool \<Rightarrow> json app_result" where
  "openai_request_to_responses c model body stream =
     (let out = mk_obj [(''model'', JStr model), (''stream'', JBool stream)];
          out = insert_opt ''instructions''
            (or_else (jget ''instructions'' body)
               (map_option JStr (opt_filter (\<lambda>t. trim t \<noteq> [])
                  (map_option (system_messages_to_instructions c) (get_array ''messages'' body)))))
            out;
          out = obj_insert ''input''
            (unwrap_or (JArr [])
               (or_else (jget ''input'' body)
                  (map_option (openai_messages_to_responses_input c) (jget ''messages'' body))))
            out;
          out = copy_if_present [''temperature'', ''top_p'', ''tools'', ''tool_choice'',
                  ''parallel_tool_calls'', ''prompt_cache_key'', ''prompt_cache_retention'',
                  ''reasoning'', ''metadata'', ''store''] body out
      in Inr (JObj (insert_opt ''max_output_tokens''
           (or_else (or_else (jget ''max_output_tokens'' body) (jget ''max_completion_tokens'' body))
              (jget ''max_tokens'' body)) out)))"

definition claude_request_to_responses ::
  "'a codec_scheme \<Rightarrow> string \<Rightarrow> json \<Rightarrow> bool \<Rightarrow> json app_result" where
  "claude_request_to_responses c model body stream =
     (let out = mk_obj [(''model'', JStr model), (''stream'', JBool stream)];
          out = insert_opt ''instructions''
            (map_option (claude_system_to_instructions c) (jget ''system'' body)) out;
          out = obj_insert ''input''
            (unwrap_or (JArr [])
               (map_option (claude_messages_to_responses_input c) (jget ''messages'' body))) out;
          out = copy_if_present [''temperature'', ''top_p'', ''tools'', ''tool_choice'',
                  ''metadata'', ''prompt_cache_key'', ''prompt_cache_retention''] body out
      in Inr (JObj (insert_opt ''max_output_tokens'' (jget ''max_tokens'' body) out)))"

definition responses_output_text :: "json \<Rightarrow> string" where
  "responses_output_text body =
     concat (List.map_filter (\<lambda>t. or_else (get_str ''text'' t) (get_str ''delta'' t))
       (concat (map (\<lambda>item. unwrap_or [] (get_array ''content'' item))
          (unwrap_or [] (get_array ''output'' body)))))"

definition responses_usage_to_openai :: "json \<Rightarrow> json" where
  "responses_usage_to_openai usage = json_obj
     [(''prompt_tokens'', unwrap_or (jnat 0)
        (or_else (jget ''prompt_tokens'' usage) (jget ''input_tokens'' usage))),
      (''completion_tokens'', unwrap_or (jnat 0)
        (or_else (jget ''completion_tokens'' usage) (jget ''output_tokens'' usage))),
      (''total_tokens'', unwrap_or (jnat 0) (jget ''total_tokens'' usage))]"

definition responses_finish :: "string option \<Rightarrow> string" where
  "responses_finish status =
     (if status = Some ''completed'' \<or> status = None then ''stop''
      else if status = Some ''incomplete'' then ''length''
      else if status = Some ''failed'' then ''error''
      else ''stop'')"

definition responses_response_to_openai :: "json \<Rightarrow> json app_result" where
  "responses_response_to_openai body =
     (if jget ''choices'' body \<noteq> None then Inr body
      else
        (let out = mk_obj
               [(''id'', unwrap_or (JStr ''chatcmpl_kou_router'') (jget ''id'' body)),
                (''object'', JStr ''chat.completion'')];
             out = insert_opt ''model'' (jget ''model'' body) out;
             out = insert_opt ''created''
               (or_else (jget ''created'' body) (jget ''created_at'' body)) out;
             out = obj_insert ''choices''
               (JArr [json_obj
                  [(''index'', jnat 0),
                   (''message'', json_obj [(''role'', JStr ''assistant''),
                      (''content'', JStr (responses_output_text body))]),
                   (''finish_reason'', JStr (responses_finish (get_str ''status'' body)))]]) out;
             out = insert_opt ''usage''
               (map_option responses_usage_to_openai (jget ''usage'' body)) out
         in Inr (JObj (obj_insert ''raw_openai_responses'' body out))))"

section \<open>Stream chunks\<close>

definition sse_field_step :: "string \<Rightarrow> string option \<times> string option \<Rightarrow> string option \<times> string option"
where
  "sse_field_step raw st =
     (let line = trim raw; (ev, data) = st in
      case strip_prefix ''event:'' line of
        Some rest \<Rightarrow> (Some (trim rest), data)
      | None \<Rightarrow> (case strip_prefix ''data:'' line of
            Some rest \<Rightarrow> (ev, Some (trim rest))
          | None \<Rightarrow> (ev, data)))"

definition chunk_completion :: "string \<Rightarrow> json \<Rightarrow> json \<Rightarrow> json" where
  "chunk_completion i delta finish = json_obj
     [(''id'', JStr (''chatcmpl-'' @ i)), (''object'', JStr ''chat.completion.chunk''),
      (''choices'', JArr [json_obj [(''index'', jnat 0), (''delta'', delta),
                                    (''finish_reason'', finish)]])]"

definition sse_data :: "'a codec_scheme \<Rightarrow> json \<Rightarrow> string" where
  "sse_data c v = ''data: '' @ json_print c v @ [newline, newline]"

definition sse_done :: string where
  "sse_done = ''data: [DONE]'' @ [newline, newline]"

definition parse_data :: "'a codec_scheme \<Rightarrow> string \<Rightarrow> json app_result" where
  "parse_data c s = (case json_parse c s of Inl e \<Rightarrow> Inl (JsonError e) | Inr v \<Rightarrow> Inr v)"

definition claude_chunk_to_openai :: "'a codec_scheme \<Rightarrow> string \<Rightarrow> string option app_result" where
  "claude_chunk_to_openai c chunk =
     (let (event, data) = fold sse_field_step (str_lines chunk) (None, None); i = new_uuid c 0 in
      if event = Some ''content_block_delta'' then
        rbind (ok_or (BadRequest ''content_block_delta missing data'') data) (\<lambda>s.
        rbind (parse_data c s) (\<lambda>v.
          if unwrap_or [] (Option.bind (jpointer [''delta'', ''type''] v) as_str) \<noteq> ''text_delta''
          then Inr None
          else Inr (Some (sse_data c (chunk_completion i
            (json_obj [(''content'', JStr (unwrap_or []
               (Option.bind (jpointer [''delta'', ''text''] v) as_str)))]) JNull)))))
      else if event = Some ''message_delta'' then
        rbind (ok_or (BadRequest ''message_delta missing data'') data) (\<lambda>s.
        rbind (parse_data c s) (\<lambda>v.
          case Option.bind (jpointer [''delta'', ''stop_reason''] v) as_str of
            Some r \<Rightarrow> Inr (Some (sse_data c (chunk_completion i (json_obj [])
              (JStr (claude_stop_to_openai_finish r)))))
          | None \<Rightarrow> Inr None))
      else if event = Some ''message_stop'' then
        Inr (Some (sse_data c (chunk_completion i (json_obj []) (JStr ''stop'')) @ sse_done))
      else Inr None)"

definition gemini_chunk_to_openai :: "'a codec_scheme \<Rightarrow> string \<Rightarrow> string option app_result" where
  "gemini_chunk_to_openai c chunk =
     (let s = (case List.map_filter (\<lambda>l. map_option trim (strip_prefix ''data:'' (trim l)))
                     (str_lines chunk) of
                 d # _ \<Rightarrow> d
               | [] \<Rightarrow> trim chunk)
      in if s = [] \<or> s = ''[DONE]'' then Inr None
         else rbind (parse_data c s) (\<lambda>v.
           let text = Option.bind
                 (jpointer [''candidates'', ''0'', ''content'', ''parts'', ''0'', ''text''] v) as_str;
               finish = Option.bind (jpointer [''candidates'', ''0'', ''finishReason''] v) as_str
           in if text = None \<and> finish = None then Inr None
              else Inr (Some
                (sse_data c (chunk_completion (new_uuid c 0)
                   (case text of Some t \<Rightarrow> json_obj [(''content'', JStr t)] | None \<Rightarrow> json_obj [])
                   (case finish of Some f \<Rightarrow> JStr (gemini_finish_to_openai f) | None \<Rightarrow> JNull))
                 @ (if finish \<noteq> None then sse_done else [])))))"

section \<open>The registry\<close>

text \<open>The tables \<open>register_all\<close> fills.\<close>

definition request_translator ::
  "'a codec_scheme \<Rightarrow> protocol \<Rightarrow> protocol \<Rightarrow> (string \<Rightarrow> json \<Rightarrow> bool \<Rightarrow> json app_result) option" where
  "request_translator c source target =
     (if source = OpenAI \<and> target = Claude then Some (openai_to_claude_request c)
      else if source = OpenAI \<and> target = Gemini then
        Some (\<lambda>model body stream. openai_to_gemini_request c body)
      else if source = OpenAI \<and> target = Ollama then Some openai_to_ollama_request
      else if source = OpenAI \<and> target = OpenAIResponses then Some (openai_request_to_responses c)
      else if source = Claude \<and> target = OpenAIResponses then Some (claude_request_to_responses c)
      else None)"

definition response_translator ::
  "'a codec_scheme \<Rightarrow> protocol \<Rightarrow> protocol \<Rightarrow> (json \<Rightarrow> json app_result) option" where
  "response_translator c source target =
     (if source = Claude \<and> target = OpenAI then Some (claude_to_openai_response c)
      else if source = Gemini \<and> target = OpenAI then Some (gemini_to_openai_response c)
      else if source = Ollama \<and> target = OpenAI then Some (ollama_to_openai_response c)
      else if source = OpenAIResponses \<and> target = OpenAI then Some responses_response_to_openai
      else None)"

definition get_stream_chunk_translator ::
  "'a codec_scheme \<Rightarrow> protocol \<Rightarrow> protocol \<Rightarrow> (string \<Rightarrow> string option app_result) option" where
  "get_stream_chunk_translator c source target =
     (if source = target then None
      else if source = Claude \<and> target = OpenAI then Some (claude_chunk_to_openai c)
      else if source = Gemini \<and> target = OpenAI then Some (gemini_chunk_to_openai c)
      else None)"

definition translate_request ::
  "'a codec_scheme \<Rightarrow> protocol \<Rightarrow> protocol \<Rightarrow> string \<Rightarrow> json \<Rightarrow> bool \<Rightarrow> json app_result" where
  "translate_request c source target model body stream =
     (if source = target then Inr body
      else (case request_translator c source target of
        Some f \<Rightarrow> f model body stream
      | None \<Rightarrow>
          (if source \<noteq> OpenAI \<and> target \<noteq> OpenAI then
             (case response_translator c source OpenAI of
                Some to_openai \<Rightarrow>
                  rbind (to_openai body) (\<lambda>openai_body.
                    case request_translator c OpenAI target of
                      Some from_openai \<Rightarrow> from_openai model openai_body stream
                    | None \<Rightarrow> Inr body)
              | None \<Rightarrow> Inr body)
           else Inr body)))"

definition translate_response ::
  "'a codec_scheme \<Rightarrow> protocol \<Rightarrow> protocol \<Rightarrow> json \<Rightarrow> json app_result" where
  "translate_response c source target body =
     (if source = target then Inr body
      else (case response_translator c source target of
        Some f \<Rightarrow> f body
      | None \<Rightarrow>
          (if source \<noteq> OpenAI \<and> target \<noteq> OpenAI then
             (case response_translator c source OpenAI of
                Some to_openai \<Rightarrow>
                  rbind (to_openai body) (\<lambda>openai_body.
                    case response_translator c OpenAI target of
                      Some from_openai \<Rightarrow> from_openai openai_body
                    | None \<Rightarrow> Inr openai_body)
              | None \<Rightarrow> Inr body)
           else Inr body)))"

section \<open>Facts\<close>

lemma translate_request_same [simp]: "translate_request c f f model body stream = Inr body"
  by (simp add: translate_request_def)

lemma translate_response_same [simp]: "translate_response c f f body = Inr body"
  by (simp add: translate_response_def)

lemma translate_request_to_openai: "translate_request c source OpenAI model body stream = Inr body"
  by (simp add: translate_request_def request_translator_def)

text \<open>What every direct translation to another vendor's format sends as the model.\<close>

lemma copy_if_present_get:
  "k \<notin> set ks \<Longrightarrow> obj_get k (copy_if_present ks body out) = obj_get k out"
  unfolding copy_if_present_def by (induction ks arbitrary: out) auto

lemma responses_request_fields:
  assumes "openai_request_to_responses c model body stream = Inr r"
  shows "jget ''model'' r = Some (JStr model)" and "jget ''stream'' r = Some (JBool stream)"
    and "jget ''input'' r = Some (unwrap_or (JArr [])
          (or_else (jget ''input'' body)
             (map_option (openai_messages_to_responses_input c) (jget ''messages'' body))))"
  using assms
  by (auto simp: openai_request_to_responses_def Let_def copy_if_present_get)

lemma ollama_request_fields:
  assumes "openai_to_ollama_request model body stream = Inr r"
  shows "jget ''model'' r = Some (JStr model)" and "jget ''stream'' r = Some (JBool stream)"
    and "jget ''messages'' r = jget ''messages'' body"
  using assms by (auto simp: openai_to_ollama_request_def Let_def)

text \<open>
  Requests between two formats other than OpenAI go through the response translators, so a
  Claude body never reaches Gemini: the detour loses its messages.
\<close>

lemma claude_to_openai_no_messages:
  "claude_to_openai_response c body = Inr r \<Longrightarrow> jget ''messages'' r = None"
  by (auto simp: claude_to_openai_response_def Let_def chat_completion_def)

lemma claude_to_gemini_request_fails:
  "translate_request c Claude Gemini model body stream = Inl (BadRequest ''missing messages array'')"
proof -
  obtain r where r: "claude_to_openai_response c body = Inr r"
    by (simp add: claude_to_openai_response_def Let_def)
  from claude_to_openai_no_messages [OF r] have "get_array ''messages'' r = None"
    by (simp add: get_array_def)
  with r show ?thesis
    by (simp add: translate_request_def request_translator_def response_translator_def
        openai_to_gemini_request_def)
qed

lemma sse_step_event:
  "strip_prefix ''event:'' (trim l) = Some r \<Longrightarrow> sse_field_step l (e, d) = (Some (trim r), d)"
  by (simp add: sse_field_step_def Let_def)

end
