(* ===== verification/Cost.thy ===== *)
theory Cost
  imports Errors F64
begin

text \<open>
  Token usage and its price (\<open>src/cost.rs\<close>): the usage block of a response in the three
  vendors' shapes, the usage collected over a streamed transcript, the price list and the cost.
  Sums of tokens are \<open>u64\<close> and wrap; prices and costs are 64-bit floats.
\<close>

section \<open>Prices\<close>

record model_pricing =
  input_per_million :: f64
  output_per_million :: f64
  cache_read_per_million :: "f64 option"
  cache_write_per_million :: "f64 option"

definition price :: "rat \<Rightarrow> rat \<Rightarrow> rat option \<Rightarrow> rat option \<Rightarrow> model_pricing" where
  "price i out r w = \<lparr>input_per_million = f64_round i, output_per_million = f64_round out,
     cache_read_per_million = map_option f64_round r,
     cache_write_per_million = map_option f64_round w\<rparr>"

definition starts_any :: "string \<Rightarrow> string list \<Rightarrow> bool" where
  "starts_any s ps \<longleftrightarrow> list_ex (starts_with s) ps"

definition pricing_of_name :: "string \<Rightarrow> model_pricing" where
  "pricing_of_name name =
     (if starts_any name [''claude-sonnet-4'', ''claude-3-5-sonnet'', ''claude-3.5-sonnet'']
        then price 3 15 (Some (3 / 10)) (Some (15 / 4))
      else if starts_any name [''claude-opus-4'', ''claude-3-opus'', ''claude-3.5-opus'']
        then price 15 75 (Some (3 / 2)) (Some (75 / 4))
      else if starts_any name [''claude-3-haiku'', ''claude-3.5-haiku'']
        then price (8 / 10) 4 (Some (8 / 100)) (Some 1)
      else if starts_with name ''gpt-4o-mini''
        then price (15 / 100) (6 / 10) (Some (75 / 1000)) None
      else if starts_any name [''gpt-4o'', ''chatgpt-4o''] then price (5 / 2) 10 (Some (5 / 4)) None
      else if starts_with name ''gpt-4-turbo'' then price 10 30 None None
      else if starts_any name [''o1-mini'', ''o3-mini'']
        then price (11 / 10) (44 / 10) (Some (55 / 100)) None
      else if starts_any name [''o1'', ''o3'', ''o4-mini''] then price 15 60 (Some (15 / 2)) None
      else if starts_any name [''gemini-2.0-flash'', ''gemini-2.5-flash'']
        then price (75 / 1000) (3 / 10) None None
      else if starts_any name [''gemini-2.0-pro'', ''gemini-2.5-pro'', ''gemini-1.5-pro'']
        then price (5 / 4) 5 None None
      else if starts_any name [''deepseek-chat'', ''deepseek-v'']
        then price (14 / 100) (28 / 100) (Some (14 / 1000)) None
      else if starts_with name ''deepseek-reasoner''
        then price (55 / 100) (219 / 100) (Some (14 / 100)) None
      else if starts_any name [''mistral-large'', ''mistral-medium''] then price 2 6 None None
      else if starts_any name [''mistral-small'', ''codestral'']
        then price (1 / 10) (3 / 10) None None
      else price 3 15 None None)"

definition get_model_pricing :: "string \<Rightarrow> model_pricing" where
  "get_model_pricing model = pricing_of_name (after_last CHR ''/'' (to_ascii_lowercase model))"

section \<open>Usage\<close>

record usage_info =
  input_tokens :: u64
  output_tokens :: u64
  cache_read_tokens :: "u64 option"
  cache_creation_tokens :: "u64 option"
  total_tokens :: u64

definition usage_block :: "json \<Rightarrow> usage_info option" where
  "usage_block usage =
     (let inp = unwrap_or 0 (Option.bind
            (or_else (jget ''prompt_tokens'' usage) (jget ''input_tokens'' usage)) as_u64);
          out = unwrap_or 0 (Option.bind
            (or_else (jget ''completion_tokens'' usage) (jget ''output_tokens'' usage)) as_u64);
          cache_read = or_else (or_else (get_u64 ''cache_read_input_tokens'' usage)
              (Option.bind (jget ''prompt_tokens_details'' usage) (get_u64 ''cached_tokens'')))
              (Option.bind (jget ''input_tokens_details'' usage) (get_u64 ''cached_tokens''));
          tot = unwrap_or (inp + out) (get_u64 ''total_tokens'' usage)
      in if inp = 0 \<and> out = 0 then None
         else Some \<lparr>input_tokens = inp, output_tokens = out, cache_read_tokens = cache_read,
                cache_creation_tokens = get_u64 ''cache_creation_input_tokens'' usage,
                total_tokens = tot\<rparr>)"

definition gemini_usage :: "json \<Rightarrow> usage_info option" where
  "gemini_usage meta =
     (let inp = unwrap_or 0 (get_u64 ''promptTokenCount'' meta);
          out = unwrap_or 0 (get_u64 ''candidatesTokenCount'' meta);
          tot = unwrap_or (inp + out) (get_u64 ''totalTokenCount'' meta)
      in if inp = 0 \<and> out = 0 then None
         else Some \<lparr>input_tokens = inp, output_tokens = out, cache_read_tokens = None,
                cache_creation_tokens = None, total_tokens = tot\<rparr>)"

definition extract_usage :: "json \<Rightarrow> usage_info option" where
  "extract_usage body =
     (case jget ''usage'' body of
        Some usage \<Rightarrow> usage_block usage
      | None \<Rightarrow> Option.bind (jget ''usageMetadata'' body) gemini_usage)"

text \<open>The running totals of a transcript and what one event contributes to them.\<close>

record usage_acc =
  acc_input :: u64
  acc_output :: u64
  acc_cache_read :: "u64 option"
  acc_cache_creation :: "u64 option"

definition usage_step :: "json \<Rightarrow> usage_acc \<Rightarrow> usage_acc" where
  "usage_step candidate st =
     (case extract_usage candidate of
        None \<Rightarrow> st
      | Some u \<Rightarrow>
          \<lparr>acc_input = (if 0 < input_tokens u then input_tokens u else acc_input st),
           acc_output = (if 0 < output_tokens u then output_tokens u else acc_output st),
           acc_cache_read = (if cache_read_tokens u \<noteq> None then cache_read_tokens u
                             else acc_cache_read st),
           acc_cache_creation = (if cache_creation_tokens u \<noteq> None then cache_creation_tokens u
                                 else acc_cache_creation st)\<rparr>)"

definition sse_json :: "'a codec_scheme \<Rightarrow> string \<Rightarrow> json option" where
  "sse_json c line =
     (case strip_prefix ''data:'' line of
        None \<Rightarrow> None
      | Some d \<Rightarrow>
          (let data = trim d in
           if data = [] \<or> data = ''[DONE]'' then None
           else (case json_parse c data of Inl e \<Rightarrow> None | Inr v \<Rightarrow> Some v)))"

definition usage_candidates :: "json \<Rightarrow> json list" where
  "usage_candidates v =
     List.map_filter id [Some v, jget ''response'' v, jget ''message'' v]"

definition extract_usage_from_sse :: "'a codec_scheme \<Rightarrow> string \<Rightarrow> usage_info option" where
  "extract_usage_from_sse c transcript =
     (let st = fold (\<lambda>line st. case sse_json c line of
                       None \<Rightarrow> st
                     | Some v \<Rightarrow> fold usage_step (usage_candidates v) st)
                 (str_lines transcript)
                 \<lparr>acc_input = 0, acc_output = 0, acc_cache_read = None, acc_cache_creation = None\<rparr>
      in if acc_input st = 0 \<and> acc_output st = 0 then None
         else Some \<lparr>input_tokens = acc_input st, output_tokens = acc_output st,
                cache_read_tokens = acc_cache_read st,
                cache_creation_tokens = acc_cache_creation st,
                total_tokens = acc_input st + acc_output st\<rparr>)"

section \<open>Cost\<close>

definition token_cost :: "u64 \<Rightarrow> f64 \<Rightarrow> f64" where
  "token_cost tokens p = f64_mul (f64_div (f64_of_u64 tokens) (Fin 1000000)) p"

definition optional_cost :: "u64 option \<Rightarrow> f64 option \<Rightarrow> f64" where
  "optional_cost tokens p =
     (case (tokens, p) of (Some t, Some q) \<Rightarrow> token_cost t q | _ \<Rightarrow> Fin 0)"

definition calculate_cost :: "string \<Rightarrow> usage_info \<Rightarrow> f64" where
  "calculate_cost model usage =
     (let pricing = get_model_pricing model in
      f64_add (f64_add (f64_add (token_cost (input_tokens usage) (input_per_million pricing))
                          (token_cost (output_tokens usage) (output_per_million pricing)))
                 (optional_cost (cache_read_tokens usage) (cache_read_per_million pricing)))
        (optional_cost (cache_creation_tokens usage) (cache_write_per_million pricing)))"

section \<open>Facts\<close>

lemma after_last_prefix:
  "c \<notin> set s \<Longrightarrow> after_last c (p @ c # s) = s"
proof -
  assume "c \<notin> set s"
  then have "takeWhile (\<lambda>x. x \<noteq> c) (rev s @ c # rev p) = rev s"
    by (subst takeWhile_append2) auto
  then show ?thesis by (simp add: after_last_def)
qed

lemma after_last_none: "c \<notin> set s \<Longrightarrow> after_last c s = s"
proof -
  assume "c \<notin> set s"
  then have "takeWhile (\<lambda>x. x \<noteq> c) (rev s) = rev s"
    by (subst takeWhile_eq_all_conv) auto
  then show ?thesis by (simp only: after_last_def rev_rev_ident)
qed

lemma byte_slash: "byte CHR ''/'' = 47"
  by (simp add: byte_def)

lemma slash_lower: "lower_byte x = CHR ''/'' \<longleftrightarrow> x = CHR ''/''"
proof (cases "is_upper x")
  case True
  then have "byte (lower_byte x) = byte x + 32" and "65 \<le> byte x"
    by (auto simp: lower_byte_def byte_char_of is_upper_def)
  then have "byte (lower_byte x) \<noteq> byte CHR ''/''" and "byte x \<noteq> byte CHR ''/''"
    unfolding byte_slash by linarith+
  then show ?thesis by metis
next
  case False
  then show ?thesis by (simp add: lower_byte_def)
qed

lemma pricing_ignores_prefix:
  assumes "CHR ''/'' \<notin> set name"
  shows "get_model_pricing (provider @ ''/'' @ name) = get_model_pricing name"
proof -
  have n: "CHR ''/'' \<notin> set (to_ascii_lowercase name)"
  proof
    assume "CHR ''/'' \<in> set (to_ascii_lowercase name)"
    then obtain x where "x \<in> set name" and "lower_byte x = CHR ''/''"
      unfolding to_ascii_lowercase_def set_map by (metis imageE)
    with assms show False unfolding slash_lower by metis
  qed
  have l: "lower_byte CHR ''/'' = CHR ''/''" unfolding slash_lower by (rule refl)
  have "to_ascii_lowercase (provider @ ''/'' @ name)
      = to_ascii_lowercase provider @ CHR ''/'' # to_ascii_lowercase name"
    unfolding to_ascii_lowercase_def map_append list.map l by simp
  moreover have "after_last CHR ''/'' (to_ascii_lowercase name) = to_ascii_lowercase name"
    using n by (rule after_last_none)
  ultimately show ?thesis
    using n by (simp add: get_model_pricing_def after_last_prefix)
qed

lemma extract_usage_nonzero:
  "extract_usage body = Some u \<Longrightarrow> input_tokens u \<noteq> 0 \<or> output_tokens u \<noteq> 0"
  by (auto simp: extract_usage_def usage_block_def gemini_usage_def Let_def bind_eq_Some_conv
      split: option.splits if_splits)

lemma extract_usage_from_sse_nonzero:
  "extract_usage_from_sse c t = Some u
     \<Longrightarrow> (input_tokens u \<noteq> 0 \<or> output_tokens u \<noteq> 0)
       \<and> total_tokens u = input_tokens u + output_tokens u"
  by (auto simp: extract_usage_from_sse_def Let_def split: if_splits)

text \<open>The candidates of a transcript in order, and the last positive count among them.\<close>

definition sse_candidates :: "'a codec_scheme \<Rightarrow> string \<Rightarrow> usage_info list" where
  "sse_candidates c transcript =
     List.map_filter extract_usage
       (concat (map usage_candidates (List.map_filter (sse_json c) (str_lines transcript))))"

definition last_positive :: "u64 list \<Rightarrow> u64" where
  "last_positive ns = (case filter (\<lambda>n. 0 < n) (rev ns) of [] \<Rightarrow> 0 | n # _ \<Rightarrow> n)"

lemma last_positive_snoc: "last_positive (ns @ [n]) = (if 0 < n then n else last_positive ns)"
  by (simp add: last_positive_def)

lemma usage_fold:
  "acc_input (fold usage_step vs st) = (let m = last_positive (map input_tokens
       (List.map_filter extract_usage vs)) in if 0 < m then m else acc_input st)
   \<and> acc_output (fold usage_step vs st) = (let m = last_positive (map output_tokens
       (List.map_filter extract_usage vs)) in if 0 < m then m else acc_output st)"
proof (induction vs rule: rev_induct)
  case Nil
  show ?case by (simp add: last_positive_def List.map_filter_simps)
next
  case (snoc v vs)
  have "List.map_filter extract_usage (vs @ [v])
      = List.map_filter extract_usage vs @ List.map_filter extract_usage [v]"
    by (simp add: List.map_filter_def)
  with snoc show ?case
    by (cases "extract_usage v")
      (simp_all add: usage_step_def last_positive_snoc List.map_filter_simps Let_def)
qed

lemma sse_fold_concat:
  "fold (\<lambda>line st. case sse_json c line of None \<Rightarrow> st
       | Some v \<Rightarrow> fold usage_step (usage_candidates v) st) ls st
   = fold usage_step (concat (map usage_candidates (List.map_filter (sse_json c) ls))) st"
  by (induction ls arbitrary: st) (auto simp: List.map_filter_simps split: option.splits)

lemma extract_usage_from_sse_last:
  "extract_usage_from_sse c t = Some u
     \<Longrightarrow> input_tokens u = last_positive (map input_tokens (sse_candidates c t))
       \<and> output_tokens u = last_positive (map output_tokens (sse_candidates c t))"
  by (auto simp: extract_usage_from_sse_def sse_fold_concat usage_fold sse_candidates_def Let_def
      word_gt_0 split: if_splits)

end
