(* ===== verification/RateLimits.thy ===== *)
theory RateLimits
  imports Upstream F64
begin

text \<open>
  Rate-limit headers and the in-memory tracker (\<open>src/ratelimit.rs\<close>). Dates belong to the
  chrono crate: \<open>from_epoch\<close> is \<open>DateTime::from_timestamp\<close> and \<open>parse_date\<close> its
  parser. The tracker's hash map is a sorted association list.
\<close>

record rate_limit_info =
  rl_remaining :: "u64 option"
  rl_limit :: "u64 option"
  rl_reset_at :: "timestamp option"
  rl_utilization_pct :: "f64 option"
  rl_retry_after_secs :: "u64 option"

definition find_first :: "string list \<Rightarrow> headers \<Rightarrow> string option" where
  "find_first names hs = fold (\<lambda>n found. or_else found (header_find n hs)) names None"

definition utilization :: "u64 option \<Rightarrow> u64 option \<Rightarrow> f64 option" where
  "utilization remaining limit =
     (case (remaining, limit) of
        (Some r, Some l) \<Rightarrow>
          (if 0 < l then
             Some (f64_mul (f64_div (f64_of_u64 (saturating_sub l r)) (f64_of_u64 l)) (Fin 100))
           else None)
      | _ \<Rightarrow> None)"

definition parse_seconds :: "string \<Rightarrow> u64 option" where
  "parse_seconds v =
     (case parse_u64 v of Some n \<Rightarrow> Some n | None \<Rightarrow> map_option ceil_as_u64 (parse_f64 v))"

definition remaining_headers :: "string list" where
  "remaining_headers = [''anthropic-ratelimit-requests-remaining'',
     ''anthropic-ratelimit-tokens-remaining'', ''x-ratelimit-remaining-requests'',
     ''x-ratelimit-remaining-tokens'', ''x-ratelimit-remaining'']"

definition limit_headers :: "string list" where
  "limit_headers = [''anthropic-ratelimit-requests-limit'', ''anthropic-ratelimit-tokens-limit'',
     ''x-ratelimit-limit-requests'', ''x-ratelimit-limit-tokens'', ''x-ratelimit-limit'']"

definition reset_headers :: "string list" where
  "reset_headers = [''anthropic-ratelimit-requests-reset'', ''anthropic-ratelimit-tokens-reset'',
     ''x-ratelimit-reset-requests'', ''x-ratelimit-reset-tokens'', ''x-ratelimit-reset'']"

definition parse_rate_limit_headers ::
  "(int \<Rightarrow> timestamp option) \<Rightarrow> (string \<Rightarrow> timestamp option) \<Rightarrow> headers \<Rightarrow> rate_limit_info" where
  "parse_rate_limit_headers from_epoch parse_date hs =
     (let remaining = Option.bind (find_first remaining_headers hs) parse_u64;
          limit = Option.bind (find_first limit_headers hs) parse_u64
      in \<lparr>rl_remaining = remaining, rl_limit = limit,
          rl_reset_at = Option.bind (find_first reset_headers hs)
            (\<lambda>v. case parse_i64 v of Some e \<Rightarrow> from_epoch e | None \<Rightarrow> parse_date v),
          rl_utilization_pct = utilization remaining limit,
          rl_retry_after_secs = Option.bind (header_find ''retry-after'' hs) parse_seconds\<rparr>)"

section \<open>Unified headers\<close>

record unified_info =
  un_status :: "string option"
  un_reset_at :: "timestamp option"
  un_fallback_available :: bool
  un_representative_claim :: "string option"
  un_utilization_5h :: "f64 option"
  un_utilization_7d :: "f64 option"
  un_reset_5h :: "timestamp option"
  un_reset_7d :: "timestamp option"
  un_surpassed_5h :: bool
  un_surpassed_7d :: bool
  un_overage_status :: "string option"
  un_overage_reset :: "timestamp option"
  un_overage_disabled_reason :: "string option"
  un_is_using_overage :: bool

definition parse_unified_rate_limit_headers ::
  "(string \<Rightarrow> timestamp option) \<Rightarrow> headers \<Rightarrow> unified_info option" where
  "parse_unified_rate_limit_headers parse_date hs =
     (let look = (\<lambda>n. header_find (''anthropic-ratelimit-unified-'' @ n) hs) in
      map_option (\<lambda>status.
        \<lparr>un_status = Some status,
         un_reset_at = Option.bind (look ''reset'') parse_date,
         un_fallback_available = (look ''fallback'' = Some ''available''),
         un_representative_claim = look ''representative-claim'',
         un_utilization_5h = Option.bind (look ''5h-utilization'') parse_f64,
         un_utilization_7d = Option.bind (look ''7d-utilization'') parse_f64,
         un_reset_5h = Option.bind (look ''5h-reset'') parse_date,
         un_reset_7d = Option.bind (look ''7d-reset'') parse_date,
         un_surpassed_5h = (look ''5h-surpassed-threshold'' = Some ''true''),
         un_surpassed_7d = (look ''7d-surpassed-threshold'' = Some ''true''),
         un_overage_status = look ''overage-status'',
         un_overage_reset = Option.bind (look ''overage-reset'') parse_date,
         un_overage_disabled_reason = look ''overage-disabled-reason'',
         un_is_using_overage = (look ''is-using-overage'' = Some ''true'')\<rparr>)
        (look ''status''))"

definition enrich_with_unified ::
  "(string \<Rightarrow> timestamp option) \<Rightarrow> headers \<Rightarrow> rate_limit_info \<Rightarrow> rate_limit_info" where
  "enrich_with_unified parse_date hs info =
     (case parse_unified_rate_limit_headers parse_date hs of
        None \<Rightarrow> info
      | Some u \<Rightarrow>
          (let info = (if rl_utilization_pct info = None
                       then info\<lparr>rl_utilization_pct := un_utilization_5h u\<rparr> else info);
               info = (if un_status u = Some ''exceeded''
                       then info\<lparr>rl_utilization_pct := Some (Fin 100)\<rparr> else info)
           in if rl_reset_at info = None then info\<lparr>rl_reset_at := un_reset_at u\<rparr> else info))"

section \<open>The tracker\<close>

record rate_limit_state =
  ps_provider_id :: string
  ps_last_remaining :: "u64 option"
  ps_last_limit :: "u64 option"
  ps_last_utilization_pct :: "f64 option"
  ps_last_reset_at :: "timestamp option"
  ps_updated_at :: timestamp

record tracker =
  tr_state :: "(string \<times> rate_limit_state) list"
  tr_warn_threshold :: f64

definition tracker_new :: "(string \<Rightarrow> string option) \<Rightarrow> tracker" where
  "tracker_new env =
     \<lparr>tr_state = [],
      tr_warn_threshold =
        unwrap_or (Fin 85) (Option.bind (env ''KOU_RATELIMIT_WARN_THRESHOLD'') parse_f64)\<rparr>"

definition tracker_update :: "timestamp \<Rightarrow> string \<Rightarrow> rate_limit_info \<Rightarrow> tracker \<Rightarrow> tracker" where
  "tracker_update now pid info t =
     (if rl_remaining info = None \<and> rl_limit info = None then t
      else
        (let entry = unwrap_or
               \<lparr>ps_provider_id = pid, ps_last_remaining = None, ps_last_limit = None,
                ps_last_utilization_pct = None, ps_last_reset_at = None, ps_updated_at = now\<rparr>
               (obj_get pid (tr_state t));
             entry = entry
               \<lparr>ps_last_remaining := or_else (rl_remaining info) (ps_last_remaining entry),
                ps_last_limit := or_else (rl_limit info) (ps_last_limit entry),
                ps_last_utilization_pct := rl_utilization_pct info,
                ps_last_reset_at := rl_reset_at info,
                ps_updated_at := now\<rparr>
         in t\<lparr>tr_state := obj_insert pid entry (tr_state t)\<rparr>))"

definition is_near_limit :: "string \<Rightarrow> tracker \<Rightarrow> bool" where
  "is_near_limit pid t =
     (case Option.bind (obj_get pid (tr_state t)) ps_last_utilization_pct of
        None \<Rightarrow> False
      | Some pct \<Rightarrow> f64_le (tr_warn_threshold t) pct)"

definition get_all_states :: "tracker \<Rightarrow> rate_limit_state list" where
  "get_all_states t = map snd (tr_state t)"

section \<open>Facts\<close>

lemma enrich_exceeded:
  assumes "header_find ''anthropic-ratelimit-unified-status'' hs = Some ''exceeded''"
  shows "rl_utilization_pct (enrich_with_unified pd hs info) = Some (Fin 100)"
  using assms
  by (simp add: enrich_with_unified_def parse_unified_rate_limit_headers_def Let_def)

lemma enrich_other_fields:
  "rl_remaining (enrich_with_unified pd hs info) = rl_remaining info"
  "rl_limit (enrich_with_unified pd hs info) = rl_limit info"
  "rl_retry_after_secs (enrich_with_unified pd hs info) = rl_retry_after_secs info"
  by (simp_all add: enrich_with_unified_def Let_def split: option.splits)

lemma enrich_keeps_reset:
  "rl_reset_at info = Some r \<Longrightarrow> rl_reset_at (enrich_with_unified pd hs info) = Some r"
  by (simp add: enrich_with_unified_def Let_def split: option.splits)

definition tracked :: "rate_limit_info \<Rightarrow> bool" where
  "tracked info \<longleftrightarrow> rl_remaining info \<noteq> None \<or> rl_limit info \<noteq> None"

lemma near_limit_update:
  "is_near_limit q (tracker_update now p info t)
     = (if q = p \<and> tracked info
        then (case rl_utilization_pct info of None \<Rightarrow> False | Some pct \<Rightarrow> f64_le (tr_warn_threshold t) pct)
        else is_near_limit q t)"
  by (auto simp: is_near_limit_def tracker_update_def tracked_def Let_def split: option.splits)

definition tracker_ok :: "tracker \<Rightarrow> bool" where
  "tracker_ok t \<longleftrightarrow> obj_sorted (tr_state t)
     \<and> list_all (\<lambda>(k, s). ps_provider_id s = k) (tr_state t)"

lemma obj_insert_all:
  "list_all P ob \<Longrightarrow> P (k, v) \<Longrightarrow> list_all P (obj_insert k v ob)"
  by (induction k v ob rule: obj_insert.induct) auto

lemma tracker_update_ok: "tracker_ok t \<Longrightarrow> tracker_ok (tracker_update now p info t)"
proof -
  assume ok: "tracker_ok t"
  have "ps_provider_id s = p" if "obj_get p (tr_state t) = Some s" for s
    using ok that by (auto simp: tracker_ok_def list_all_iff obj_get_def dest!: map_of_SomeD)
  then have "ps_provider_id (unwrap_or
      \<lparr>ps_provider_id = p, ps_last_remaining = None, ps_last_limit = None,
       ps_last_utilization_pct = None, ps_last_reset_at = None, ps_updated_at = now\<rparr>
      (obj_get p (tr_state t))) = p"
    by (cases "obj_get p (tr_state t)") auto
  with ok show ?thesis
    by (auto simp: tracker_ok_def tracker_update_def Let_def obj_sorted_insert
        intro!: obj_insert_all)
qed

lemma saturating_used_le: "unat (saturating_sub l r) \<le> unat l"
  by (simp add: unat_saturating_sub)

end
