(* ===== verification/Cache.thy ===== *)
theory Cache
  imports Upstream Cost "HOL-Library.Multiset"
begin

text \<open>
  The opt-in response cache (\<open>src/response_cache.rs\<close>): what a client asks for in its
  headers, which requests may be cached at all, and the identity under which a response is
  stored. SHA-256 in hexadecimal is an argument; printing a number or a string as JSON is the
  codec's. A time to live is a number of seconds.
\<close>

section \<open>What the client asks for\<close>

record cache_ctx =
  cc_read :: bool
  cc_write :: bool
  cc_ttl :: "int option"
  cc_namespace :: string
  cc_allow_nondeterministic :: bool

definition header_value :: "headers \<Rightarrow> string \<Rightarrow> string option" where
  "header_value hs name = Option.bind (header_map_get name hs) header_to_str"

definition saturate_i64 :: "int \<Rightarrow> int" where
  "saturate_i64 n = max (- (2 ^ 63)) (min n (2 ^ 63 - 1))"

definition ttl_parts :: "string \<Rightarrow> string \<times> int" where
  "ttl_parts v =
     (case strip_suffix ''s'' v of
        Some raw \<Rightarrow> (raw, 1)
      | None \<Rightarrow> (case strip_suffix ''m'' v of
            Some raw \<Rightarrow> (raw, 60)
          | None \<Rightarrow> (case strip_suffix ''h'' v of
                Some raw \<Rightarrow> (raw, 3600)
              | None \<Rightarrow> (v, 1))))"

definition parse_ttl :: "string \<Rightarrow> int app_result" where
  "parse_ttl raw =
     (let v = trim raw; (number, multiplier) = ttl_parts v in
      case parse_i64 number of
        None \<Rightarrow> Inl (BadRequest (''invalid x-kou-response-cache-ttl value '' @ [CHR 0x27] @ v @ [CHR 0x27]))
      | Some amount \<Rightarrow>
          (let seconds = saturate_i64 (amount * multiplier) in
           if seconds \<le> 0 \<or> 3600 < seconds then
             Inl (BadRequest ''x-kou-response-cache-ttl must be between 1s and 3600s'')
           else Inr seconds))"

definition parse_bool_header :: "string \<Rightarrow> bool app_result" where
  "parse_bool_header raw =
     (let v = to_ascii_lowercase (trim raw) in
      if v \<in> {''1'', ''true'', ''yes'', ''on''} then Inr True
      else if v \<in> {''0'', ''false'', ''no'', ''off''} then Inr False
      else Inl (BadRequest (''invalid x-kou-response-cache-allow-nondeterministic value ''
             @ [CHR 0x27] @ v @ [CHR 0x27])))"

definition auth_base :: "auth_context \<Rightarrow> string" where
  "auth_base auth =
     (case auth of
        ApiKeyContext key_id _ _ \<Rightarrow> ''api_key:'' @ key_id
      | AdminContext username \<Rightarrow> ''admin:'' @ username
      | Anonymous \<Rightarrow> ''anonymous'')"

definition auth_namespace :: "auth_context \<Rightarrow> string option \<Rightarrow> string" where
  "auth_namespace auth ov =
     (case ov of None \<Rightarrow> auth_base auth | Some n \<Rightarrow> auth_base auth @ '':'' @ n)"

definition cache_mode :: "string \<Rightarrow> (bool \<times> bool) app_result" where
  "cache_mode mode =
     (if mode \<in> {'''', ''0'', ''false'', ''off'', ''none'', ''no''} then Inr (False, False)
      else if mode \<in> {''1'', ''true'', ''on'', ''read-write'', ''readwrite'', ''rw''}
        then Inr (True, True)
      else if mode \<in> {''read'', ''read-only'', ''readonly''} then Inr (True, False)
      else if mode \<in> {''write'', ''write-only'', ''writeonly''} then Inr (False, True)
      else Inl (BadRequest (''invalid x-kou-response-cache value '' @ [CHR 0x27] @ mode @ [CHR 0x27])))"

fun transpose :: "('e + 'a) option \<Rightarrow> 'e + 'a option" where
  "transpose None = Inr None"
| "transpose (Some (Inl e)) = Inl e"
| "transpose (Some (Inr a)) = Inr (Some a)"

definition cache_from_headers :: "headers \<Rightarrow> auth_context \<Rightarrow> cache_ctx app_result" where
  "cache_from_headers hs auth =
     (case map_option (\<lambda>v. to_ascii_lowercase (trim v)) (header_value hs ''x-kou-response-cache'') of
        None \<Rightarrow> Inr \<lparr>cc_read = False, cc_write = False, cc_ttl = None,
                     cc_namespace = auth_namespace auth None,
                     cc_allow_nondeterministic = False\<rparr>
      | Some mode \<Rightarrow>
          rbind (cache_mode mode) (\<lambda>(r, w).
          rbind (transpose (map_option parse_ttl (header_value hs ''x-kou-response-cache-ttl'')))
            (\<lambda>ttl.
          rbind (transpose (map_option parse_bool_header
              (header_value hs ''x-kou-response-cache-allow-nondeterministic''))) (\<lambda>allow.
            Inr \<lparr>cc_read = r, cc_write = w, cc_ttl = ttl,
                 cc_namespace = auth_namespace auth
                   (nonblank (header_value hs ''x-kou-response-cache-namespace'')),
                 cc_allow_nondeterministic = unwrap_or False allow\<rparr>))))"

definition cache_enabled :: "cache_ctx \<Rightarrow> bool" where
  "cache_enabled ctx \<longleftrightarrow> cc_read ctx \<or> cc_write ctx"

section \<open>Which requests may be cached\<close>

definition cacheable_endpoint :: "endpoint \<Rightarrow> bool" where
  "cacheable_endpoint e \<longleftrightarrow> e \<in> {ChatCompletions, Completions, Messages, Responses, OllamaChat,
     Embeddings, Moderations, Rerank}"

definition temperature_is_zero :: "json \<Rightarrow> bool" where
  "temperature_is_zero body =
     (case jget ''temperature'' body of None \<Rightarrow> False | Some v \<Rightarrow> is_zero_number v)"

definition truthy_field :: "json \<Rightarrow> string \<Rightarrow> bool" where
  "truthy_field body k = unwrap_or False (get_bool k body)"

definition non_empty_field :: "json \<Rightarrow> string \<Rightarrow> bool" where
  "non_empty_field body k =
     (case jget k body of
        None \<Rightarrow> False
      | Some v \<Rightarrow> (case v of
            JNull \<Rightarrow> False
          | JBool b \<Rightarrow> b
          | JStr s \<Rightarrow> trim s \<noteq> [] \<and> s \<noteq> ''none''
          | JArr vs \<Rightarrow> vs \<noteq> []
          | JObj ob \<Rightarrow> ob \<noteq> []
          | JNum n \<Rightarrow> True))"

fun contains_key_recursive :: "string \<Rightarrow> json \<Rightarrow> bool" where
  "contains_key_recursive k (JObj ob) =
     list_ex (\<lambda>kv. fst kv = k \<or> contains_key_recursive k (snd kv)) ob"
| "contains_key_recursive k (JArr vs) = list_ex (contains_key_recursive k) vs"
| "contains_key_recursive k _ = False"

definition is_live_header :: "string \<Rightarrow> bool" where
  "is_live_header name \<longleftrightarrow>
     (let l = to_ascii_lowercase name in
      l \<in> {''session-id'', ''thread-id'', ''traceparent'', ''tracestate''}
      \<or> starts_with l ''x-codex-'' \<or> starts_with l ''x-claude-'' \<or> starts_with l ''x-openai-''
      \<or> l = ''anthropic-beta'' \<or> l = ''anthropic-version'')"

definition live_passthrough_header :: "headers option \<Rightarrow> string option" where
  "live_passthrough_header pass =
     (case pass of
        None \<Rightarrow> None
      | Some hs \<Rightarrow> map_option fst (find (\<lambda>(n, v). is_live_header n) hs))"

definition dynamic_fields :: "string list" where
  "dynamic_fields = [''tools'', ''tool_choice'', ''parallel_tool_calls'', ''web_search_options'',
     ''file_search'', ''files'', ''attachments'', ''previous_response_id'']"

definition media_fields :: "string list" where
  "media_fields = [''image_url'', ''input_image'', ''input_audio'', ''modalities'', ''audio'',
     ''video'']"

text \<open>The policy: \<open>None\<close> to allow, or the reason to deny.\<close>

definition evaluate_policy :: "endpoint \<Rightarrow> json \<Rightarrow> headers option \<Rightarrow> bool \<Rightarrow> string option" where
  "evaluate_policy e body pass allow_nondeterministic =
     (if \<not> cacheable_endpoint e then Some ''endpoint is not response-cacheable''
      else if is_chat_family e \<and> \<not> allow_nondeterministic \<and> \<not> temperature_is_zero body
        then Some ''chat-family requests require temperature: 0''
      else if truthy_field body ''store'' then Some ''store:true is not response-cacheable''
      else (case find (non_empty_field body) dynamic_fields of
        Some f \<Rightarrow> Some (f @ '' is not response-cacheable'')
      | None \<Rightarrow> (case find (\<lambda>k. contains_key_recursive k body) media_fields of
          Some f \<Rightarrow> Some (f @ '' content is not response-cacheable'')
        | None \<Rightarrow> map_option (\<lambda>h. h @ '' passthrough header is live context'')
                    (live_passthrough_header pass))))"

definition cacheable_response_headers :: "headers \<Rightarrow> headers" where
  "cacheable_response_headers hs =
     filter (\<lambda>(n, v). to_ascii_lowercase n \<in> {''openai-model'', ''x-reasoning-included''}) hs"

section \<open>The identity of a cached response\<close>

function canonical_json :: "'a codec_scheme \<Rightarrow> json \<Rightarrow> string" where
  "canonical_json c (JArr vs) = ''['' @ str_join '','' (map (canonical_json c) vs) @ '']''"
| "canonical_json c (JObj ob) =
     ''{'' @ str_join '','' (map (\<lambda>kv. json_print c (JStr (fst kv)) @ '':'' @ canonical_json c (snd kv))
       (sort_key fst ob)) @ ''}''"
| "canonical_json c JNull = ''null''"
| "canonical_json c (JBool b) = (if b then ''true'' else ''false'')"
| "canonical_json c (JNum n) = json_print c (JNum n)"
| "canonical_json c (JStr s) = json_print c (JStr s)"
  by pat_completeness auto
termination
proof (relation "measure (\<lambda>(c, v). size v)")
  fix ob :: obj and kv
  assume "kv \<in> set (sort_key fst ob)"
  then have "kv \<in> set ob" by simp
  then have "size (snd kv) < Suc (size_list (size_prod (\<lambda>_. 0) size) ob)"
    by (induction ob) (auto split: prod.splits)
  then show "((c, snd kv), c, JObj ob) \<in> measure (\<lambda>(c, v). size v)" for c :: "'a codec_scheme"
    by simp
qed (auto simp: less_Suc_eq_le dest: size_list_estimation')

record cache_identity =
  ci_cache_key :: string
  ci_request_body_hash :: string

definition key_material ::
  "endpoint \<Rightarrow> endpoint \<Rightarrow> string \<Rightarrow> string \<Rightarrow> string \<Rightarrow> string option \<Rightarrow> string \<Rightarrow> string \<Rightarrow> bool
     \<Rightarrow> string \<Rightarrow> string" where
  "key_material e ue requested resolved provider_id account namespace path client_stream hash =
     str_join [newline]
       [''v1'',
        ''endpoint='' @ endpoint_as_str e,
        ''upstream_endpoint='' @ endpoint_as_str ue,
        ''requested_model='' @ requested,
        ''resolved_model='' @ resolved,
        ''provider_id='' @ provider_id,
        ''provider_account_id='' @ unwrap_or [] account,
        ''namespace='' @ namespace,
        ''path='' @ path,
        ''client_stream='' @ (if client_stream then ''true'' else ''false''),
        ''body='' @ hash]"

definition canonical_json_hash :: "(string \<Rightarrow> string) \<Rightarrow> 'a codec_scheme \<Rightarrow> json \<Rightarrow> string" where
  "canonical_json_hash sha c v = sha (canonical_json c v)"

definition build_identity ::
  "(string \<Rightarrow> string) \<Rightarrow> 'a codec_scheme \<Rightarrow> endpoint \<Rightarrow> endpoint \<Rightarrow> string \<Rightarrow> string \<Rightarrow> string
     \<Rightarrow> string option \<Rightarrow> string \<Rightarrow> prepared_request \<Rightarrow> bool \<Rightarrow> cache_identity" where
  "build_identity sha c e ue requested resolved provider_id account namespace prepared client_stream =
     (let hash = canonical_json_hash sha c (request_body prepared) in
      \<lparr>ci_cache_key = sha (key_material e ue requested resolved provider_id account namespace
                             (req_path prepared) client_stream hash),
       ci_request_body_hash = hash\<rparr>)"

section \<open>Facts\<close>

lemma parse_ttl_range: "parse_ttl v = Inr s \<Longrightarrow> 1 \<le> s \<and> s \<le> 3600"
  by (auto simp: parse_ttl_def Let_def split: option.splits if_splits prod.splits)

lemma transpose_Inr: "transpose x = Inr y \<longleftrightarrow> (case x of None \<Rightarrow> y = None
    | Some r \<Rightarrow> \<exists>a. r = Inr a \<and> y = Some a)"
  by (cases x rule: transpose.cases) auto

lemma cache_from_headers_ttl:
  "cache_from_headers hs auth = Inr ctx \<Longrightarrow> cc_ttl ctx = Some s \<Longrightarrow> 1 \<le> s \<and> s \<le> 3600"
  using parse_ttl_range
  by (auto simp: cache_from_headers_def rbind_Inr transpose_Inr split: option.splits)

lemma cache_off_without_header:
  "header_value hs ''x-kou-response-cache'' = None
     \<Longrightarrow> cache_from_headers hs auth = Inr ctx \<Longrightarrow> \<not> cache_enabled ctx"
  by (auto simp: cache_from_headers_def cache_enabled_def)

lemma evaluate_policy_allows:
  "evaluate_policy e body pass allow = None \<longleftrightarrow>
     cacheable_endpoint e
     \<and> (is_chat_family e \<longrightarrow> allow \<or> temperature_is_zero body)
     \<and> \<not> truthy_field body ''store''
     \<and> (\<forall>f \<in> set dynamic_fields. \<not> non_empty_field body f)
     \<and> (\<forall>k \<in> set media_fields. \<not> contains_key_recursive k body)
     \<and> (\<forall>hs. pass = Some hs \<longrightarrow> (\<forall>(n, v) \<in> set hs. \<not> is_live_header n))"
  by (auto simp: evaluate_policy_def live_passthrough_header_def find_None_ball
      split: option.splits dest!: find_SomeD)

text \<open>The text that is hashed tells its fields apart as long as none of them has a newline.\<close>

lemma key_material_inject:
  assumes eq: "key_material e ue rq rs p a n path b h = key_material e' ue' rq' rs' p' a' n' path' b' h'"
    and nl: "\<forall>s \<in> {rq, rs, p, unwrap_or [] a, n, path, h, rq', rs', p', unwrap_or [] a', n', path', h'}.
               newline \<notin> set s"
  shows "e = e' \<and> ue = ue' \<and> rq = rq' \<and> rs = rs' \<and> p = p' \<and> unwrap_or [] a = unwrap_or [] a'
     \<and> n = n' \<and> path = path' \<and> b = b' \<and> h = h'"
proof -
  have en: "newline \<notin> set (endpoint_as_str x)" for x by (cases x) simp_all
  have bn: "newline \<notin> set (if x then ''true'' else ''false'')" for x by simp
  let ?ls = "\<lambda>e ue rq rs p a n path b h. [''v1'', ''endpoint='' @ endpoint_as_str e,
        ''upstream_endpoint='' @ endpoint_as_str ue, ''requested_model='' @ rq,
        ''resolved_model='' @ rs, ''provider_id='' @ p, ''provider_account_id='' @ unwrap_or [] a,
        ''namespace='' @ n, ''path='' @ path,
        ''client_stream='' @ (if b then ''true'' else ''false''), ''body='' @ h]"
  have "split_on newline (key_material e ue rq rs p a n path b h) = ?ls e ue rq rs p a n path b h"
    unfolding key_material_def using nl en bn by (intro split_on_join) auto
  moreover have "split_on newline (key_material e' ue' rq' rs' p' a' n' path' b' h')
      = ?ls e' ue' rq' rs' p' a' n' path' b' h'"
    unfolding key_material_def using nl en bn by (intro split_on_join) auto
  ultimately have "?ls e ue rq rs p a n path b h = ?ls e' ue' rq' rs' p' a' n' path' b' h'"
    using eq by simp
  then show ?thesis by (auto dest: endpoint_as_str_inject split: if_splits)
qed

text \<open>Two callers never share a namespace, whatever namespace each of them asks for, as long as
  identifiers have no colon.\<close>

fun principal :: "auth_context \<Rightarrow> auth_context" where
  "principal (ApiKeyContext i _ _) = ApiKeyContext i [] []"
| "principal a = a"

fun principal_name :: "auth_context \<Rightarrow> string" where
  "principal_name (ApiKeyContext i _ _) = i"
| "principal_name (AdminContext u) = u"
| "principal_name Anonymous = []"

lemma append_colon_inject:
  "CHR '':'' \<notin> set a \<Longrightarrow> CHR '':'' \<notin> set b
     \<Longrightarrow> a @ CHR '':'' # x = b @ CHR '':'' # y \<longleftrightarrow> a = b \<and> x = y"
  using split_once_Some [of "CHR '':''" "a @ CHR '':'' # x" a x]
    split_once_Some [of "CHR '':''" "a @ CHR '':'' # x" b y] by auto

lemma append_colon_none: "CHR '':'' \<notin> set a \<Longrightarrow> a \<noteq> b @ CHR '':'' # x"
  by auto

lemma auth_namespace_inject:
  assumes eq: "auth_namespace a ov = auth_namespace b ov'"
    and "CHR '':'' \<notin> set (principal_name a)" and "CHR '':'' \<notin> set (principal_name b)"
  shows "principal a = principal b \<and> ov = ov'"
  using assms append_colon_inject append_colon_none
  by (cases a; cases b; cases ov; cases ov')
    (auto simp: auth_namespace_def auth_base_def dest: sym)

text \<open>The hash does not depend on the order of an object's entries.\<close>

lemma canonical_json_order:
  assumes "mset xs = mset ys" and "distinct (map fst xs)"
  shows "canonical_json c (JObj xs) = canonical_json c (JObj ys)"
proof -
  have "inj_on fst (set xs)" using assms(2) by (simp add: distinct_map)
  then have "sort_key fst xs = sort_key fst ys"
    using assms(1) by (intro sort_key_inj_key_eq) simp_all
  then show ?thesis by simp
qed

end
