(* ===== verification/Repository.thy ===== *)
theory Repository
  imports Cache
begin

text \<open>
  The repository (\<open>src/repository.rs\<close>) over its SQLite tables. A table is the list of its
  rows in insertion order; a statement is a function on the list. \<open>ORDER BY\<close> is a stable sort
  of that list. Instants are compared as integers: the program compares RFC 3339 texts in UTC,
  whose byte order is the order of the instants for the four-digit years SQLite stores. The
  foreign keys and their \<open>ON DELETE\<close> actions (\<open>src/db.rs\<close>) are written out. \<open>now\<close> and fresh
  identifiers are arguments. Connections lost or a full disk are not modelled: the only database
  errors here are violated uniqueness and foreign key constraints, whose texts are arguments.
\<close>

record cache_entry =
  ce_cache_key :: string
  ce_endpoint :: string
  ce_upstream_endpoint :: string
  ce_requested_model :: string
  ce_resolved_model :: string
  ce_provider_id :: string
  ce_provider_account_id :: "string option"
  ce_namespace :: string
  ce_request_body_hash :: string
  ce_response_body :: string
  ce_response_headers :: headers
  ce_status :: int
  ce_is_stream :: bool
  ce_usage :: "usage_info option"
  ce_expires_at :: timestamp

record cache_row = cache_entry +
  ce_hit_count :: int
  ce_created_at :: timestamp
  ce_updated_at :: timestamp
  ce_last_hit_at :: "timestamp option"

record api_key_row =
  k_id :: string
  k_name :: string
  k_key_hash :: string
  k_key_prefix :: string
  k_allowed_models :: "string list"
  k_is_active :: bool
  k_last_used_at :: "timestamp option"
  k_usage_count :: int
  k_created_at :: timestamp
  k_updated_at :: timestamp

text \<open>
  The request log: a client request with its outcome, and the raw bodies sent to and received
  from the upstream.
\<close>

record new_request_log =
  rl_id :: string
  rl_endpoint :: string
  rl_requested_model :: string
  rl_resolved_model :: string
  rl_provider_id :: "string option"
  rl_provider_account_id :: "string option"
  rl_account_label :: "string option"
  rl_api_key_name :: "string option"
  rl_status :: int
  rl_error :: "string option"
  rl_attempts :: int
  rl_is_stream :: bool
  rl_input_tokens :: "int option"
  rl_output_tokens :: "int option"
  rl_cache_read_tokens :: "int option"
  rl_cost_usd :: "f64 option"
  rl_duration_ms :: int
  rl_client_body :: "string option"

record request_log = new_request_log +
  rl_created_at :: timestamp

record new_request_debug_log =
  dq_request_id :: string
  dq_provider_id :: string
  dq_provider_account_id :: "string option"
  dq_model :: string
  dq_endpoint :: string
  dq_sequence_no :: int
  dq_raw_body :: string

record request_debug_log = new_request_debug_log +
  dq_id :: string
  dq_created_at :: timestamp

record new_response_debug_log =
  dr_request_id :: string
  dr_provider_id :: string
  dr_provider_account_id :: "string option"
  dr_model :: string
  dr_endpoint :: string
  dr_sequence_no :: int
  dr_upstream_status :: int
  dr_raw_body :: string
  dr_reasoning_summary_json :: "string option"
  dr_obfuscation_count :: int

record response_debug_log = new_response_debug_log +
  dr_id :: string
  dr_created_at :: timestamp

record db =
  db_providers :: "(provider \<times> string) list"
  db_accounts :: "account list"
  db_sessions :: "oauth_session list"
  db_combos :: "combo list"
  db_aliases :: "(string \<times> string) list"
  db_settings :: "(string \<times> string) list"
  db_api_keys :: "api_key_row list"
  db_cache :: "(string \<times> cache_row) list"
  db_request_logs :: "request_log list"
  db_request_debug :: "request_debug_log list"
  db_response_debug :: "response_debug_log list"

section \<open>Rows\<close>

definition update_rows :: "('r \<Rightarrow> bool) \<Rightarrow> ('r \<Rightarrow> 'r) \<Rightarrow> 'r list \<Rightarrow> 'r list" where
  "update_rows p f rows = map (\<lambda>r. if p r then f r else r) rows"

lemma find_update_rows:
  "(\<And>r. q (f r) \<longleftrightarrow> q r) \<Longrightarrow> find q (update_rows p f rows)
     = map_option (\<lambda>r. if p r then f r else r) (find q rows)"
  by (induction rows) (auto simp: update_rows_def)

lemma set_update_rows:
  "x \<in> set (update_rows p f rows) \<longleftrightarrow> (\<exists>r \<in> set rows. x = (if p r then f r else r))"
  by (auto simp: update_rows_def)

section \<open>Tables that refer to connections and accounts\<close>

text \<open>
  \<open>provider_id ... ON DELETE CASCADE\<close> and \<open>provider_account_id ... ON DELETE SET NULL\<close>: what
  happens to the rows of such a table when a connection and its accounts, or one account, go.
\<close>

definition drop_connection ::
  "('r \<Rightarrow> string) \<Rightarrow> ('r \<Rightarrow> string option) \<Rightarrow> ('r \<Rightarrow> 'r) \<Rightarrow> string \<Rightarrow> string list \<Rightarrow> 'r list \<Rightarrow> 'r list" where
  "drop_connection owner acc clear i gone rows =
     update_rows (\<lambda>r. list_ex (\<lambda>j. acc r = Some j) gone) clear (filter (\<lambda>r. owner r \<noteq> i) rows)"

definition drop_account :: "('r \<Rightarrow> string option) \<Rightarrow> ('r \<Rightarrow> 'r) \<Rightarrow> string \<Rightarrow> 'r list \<Rightarrow> 'r list" where
  "drop_account acc clear i rows = update_rows (\<lambda>r. acc r = Some i) clear rows"

definition links_ok ::
  "string set \<Rightarrow> string set \<Rightarrow> ('r \<Rightarrow> string) \<Rightarrow> ('r \<Rightarrow> string option) \<Rightarrow> 'r list \<Rightarrow> bool" where
  "links_ok P A owner acc rows \<longleftrightarrow>
     (\<forall>r \<in> set rows. owner r \<in> P \<and> (\<forall>j. acc r = Some j \<longrightarrow> j \<in> A))"

locale owned_table =
  fixes owner :: "'r \<Rightarrow> string" and acc :: "'r \<Rightarrow> string option" and clear :: "'r \<Rightarrow> 'r"
  assumes owner_clear: "owner (clear r) = owner r" and acc_clear: "acc (clear r) = None"
begin

lemma clear_if [simp]:
  "owner (if b then clear r else r) = owner r"
  "acc (if b then clear r else r) = (if b then None else acc r)"
  by (simp_all add: owner_clear acc_clear)

lemma drop_connection_links:
  assumes "links_ok P A owner acc rows"
  shows "links_ok (P - {i}) (A - set gone) owner acc (drop_connection owner acc clear i gone rows)"
  unfolding links_ok_def
proof
  fix x
  assume "x \<in> set (drop_connection owner acc clear i gone rows)"
  then obtain r where r: "r \<in> set rows" "owner r \<noteq> i"
    and x: "x = (if list_ex (\<lambda>j. acc r = Some j) gone then clear r else r)"
    by (auto simp only: drop_connection_def set_update_rows set_filter mem_Collect_eq)
  show "owner x \<in> P - {i} \<and> (\<forall>j. acc x = Some j \<longrightarrow> j \<in> A - set gone)"
    using assms r by (simp add: x links_ok_def list_ex_iff) blast
qed

lemma drop_account_links:
  assumes "links_ok P A owner acc rows"
  shows "links_ok P (A - {i}) owner acc (drop_account acc clear i rows)"
  unfolding links_ok_def
proof
  fix x
  assume "x \<in> set (drop_account acc clear i rows)"
  then obtain r where r: "r \<in> set rows" and x: "x = (if acc r = Some i then clear r else r)"
    by (auto simp only: drop_account_def set_update_rows)
  show "owner x \<in> P \<and> (\<forall>j. acc x = Some j \<longrightarrow> j \<in> A - {i})"
    using assms r by (simp add: x links_ok_def) blast
qed

lemma drop_connection_keeps:
  assumes "\<And>r. f (clear r) = f r"
  shows "map f (drop_connection owner acc clear i gone rows) = map f (filter (\<lambda>r. owner r \<noteq> i) rows)"
  using assms by (simp add: drop_connection_def update_rows_def)

lemma drop_account_keeps:
  assumes "\<And>r. f (clear r) = f r"
  shows "map f (drop_account acc clear i rows) = map f rows"
  using assms by (simp add: drop_account_def update_rows_def)

end

definition clear_session :: "oauth_session \<Rightarrow> oauth_session" where
  "clear_session s = s\<lparr>s_provider_account_id := None\<rparr>"

definition cache_owner :: "string \<times> cache_row \<Rightarrow> string" where
  "cache_owner kr = ce_provider_id (snd kr)"

definition cache_account :: "string \<times> cache_row \<Rightarrow> string option" where
  "cache_account kr = ce_provider_account_id (snd kr)"

definition clear_cache :: "string \<times> cache_row \<Rightarrow> string \<times> cache_row" where
  "clear_cache kr = (fst kr, (snd kr)\<lparr>ce_provider_account_id := None\<rparr>)"

definition clear_request_debug :: "request_debug_log \<Rightarrow> request_debug_log" where
  "clear_request_debug r = r\<lparr>dq_provider_account_id := None\<rparr>"

definition clear_response_debug :: "response_debug_log \<Rightarrow> response_debug_log" where
  "clear_response_debug r = r\<lparr>dr_provider_account_id := None\<rparr>"

interpretation sessions: owned_table s_provider_connection_id s_provider_account_id clear_session
  by unfold_locales (simp_all add: clear_session_def)

interpretation cached: owned_table cache_owner cache_account clear_cache
  by unfold_locales (simp_all add: cache_owner_def cache_account_def clear_cache_def)

interpretation sent_bodies: owned_table dq_provider_id dq_provider_account_id clear_request_debug
  by unfold_locales (simp_all add: clear_request_debug_def)

interpretation got_bodies: owned_table dr_provider_id dr_provider_account_id clear_response_debug
  by unfold_locales (simp_all add: clear_response_debug_def)

section \<open>Provider connections\<close>

text \<open>A provider row carries the column \<open>account_routing_strategy\<close> besides the connection.\<close>

definition list_provider_connections :: "db \<Rightarrow> provider list" where
  "list_provider_connections d =
     sort_key p_priority (sort_key p_provider (map fst (db_providers d)))"

definition find_provider_connection_by_id :: "string \<Rightarrow> db \<Rightarrow> provider option" where
  "find_provider_connection_by_id i d = find (\<lambda>p. p_id p = i) (map fst (db_providers d))"

definition list_provider_connections_by_provider :: "string \<Rightarrow> db \<Rightarrow> provider list" where
  "list_provider_connections_by_provider name d =
     sort_key p_priority (sort_key p_created_at
       (filter (\<lambda>p. p_provider p = name) (map fst (db_providers d))))"

definition find_provider_connection_by_provider :: "string \<Rightarrow> db \<Rightarrow> provider option" where
  "find_provider_connection_by_provider name d =
     (case list_provider_connections_by_provider name d of [] \<Rightarrow> None | p # _ \<Rightarrow> Some p)"

definition next_priority :: "int list \<Rightarrow> int" where
  "next_priority ps = (if ps = [] then - 1 else Max (set ps)) + 1"

definition next_provider_priority :: "string \<Rightarrow> db \<Rightarrow> int" where
  "next_provider_priority name d =
     next_priority (map p_priority (filter (\<lambda>p. p_provider p = name) (map fst (db_providers d))))"

definition create_provider_connection ::
  "timestamp \<Rightarrow> string \<Rightarrow> new_provider \<Rightarrow> db \<Rightarrow> provider \<times> db" where
  "create_provider_connection now fresh np d =
     (let p = \<lparr>p_id = fresh, p_provider = np_provider np, p_base_url = np_base_url np,
            p_api_key = np_api_key np, p_auth_type = np_auth_type np,
            p_auth_header = np_auth_header np, p_auth_prefix = np_auth_prefix np,
            p_extra_headers = np_extra_headers np,
            p_endpoint_paths = unwrap_or [] (np_endpoint_paths np),
            p_stream_endpoint_paths = unwrap_or [] (np_stream_endpoint_paths np),
            p_model_prefix = unwrap_or (np_provider np) (np_model_prefix np),
            p_name = np_name np, p_enabled = np_enabled np,
            p_priority = unwrap_or (next_provider_priority (np_provider np) d) (np_priority np),
            p_default_model = np_default_model np,
            p_supported_endpoints =
              unwrap_or default_supported_endpoints (np_supported_endpoints np),
            p_rate_limit_protection = np_rate_limit_protection np,
            p_last_error = None, p_last_error_at = None, p_last_error_type = None,
            p_last_error_source = None, p_rate_limited_until = None, p_circuit_open_until = None,
            p_last_used_at = None, p_backoff_level = 0, p_consecutive_use_count = 0,
            p_test_status = None, p_created_at = now, p_updated_at = now,
            p_protocol_format = np_protocol_format np\<rparr>
      in (p, d\<lparr>db_providers := db_providers d @ [(p, ''priority'')]\<rparr>))"

definition update_provider_rows :: "string \<Rightarrow> (provider \<Rightarrow> provider) \<Rightarrow> db \<Rightarrow> db" where
  "update_provider_rows i f d =
     d\<lparr>db_providers := update_rows (\<lambda>(p, s). p_id p = i) (\<lambda>(p, s). (f p, s)) (db_providers d)\<rparr>"

definition update_provider_connection_base_url :: "timestamp \<Rightarrow> string \<Rightarrow> string \<Rightarrow> db \<Rightarrow> bool \<times> db" where
  "update_provider_connection_base_url now i u d =
     (find_provider_connection_by_id i d \<noteq> None,
      update_provider_rows i (\<lambda>p. p\<lparr>p_base_url := u, p_updated_at := now\<rparr>) d)"

definition update_provider_connection_name :: "timestamp \<Rightarrow> string \<Rightarrow> string \<Rightarrow> db \<Rightarrow> bool \<times> db" where
  "update_provider_connection_name now i n d =
     (find_provider_connection_by_id i d \<noteq> None,
      update_provider_rows i (\<lambda>p. p\<lparr>p_name := Some n, p_updated_at := now\<rparr>) d)"

definition delete_provider_connection :: "string \<Rightarrow> db \<Rightarrow> bool \<times> db" where
  "delete_provider_connection i d =
     (let gone = map a_id (filter (\<lambda>a. a_provider_connection_id a = i) (db_accounts d)) in
      (find_provider_connection_by_id i d \<noteq> None,
       d\<lparr>db_providers := filter (\<lambda>(p, s). p_id p \<noteq> i) (db_providers d),
         db_accounts := filter (\<lambda>a. a_provider_connection_id a \<noteq> i) (db_accounts d),
         db_sessions := drop_connection s_provider_connection_id s_provider_account_id
           clear_session i gone (db_sessions d),
         db_cache := drop_connection cache_owner cache_account clear_cache i gone (db_cache d),
         db_request_debug := drop_connection dq_provider_id dq_provider_account_id
           clear_request_debug i gone (db_request_debug d),
         db_response_debug := drop_connection dr_provider_id dr_provider_account_id
           clear_response_debug i gone (db_response_debug d)\<rparr>))"

section \<open>Failure and success\<close>

definition second :: timestamp where "second = 1000000000"

definition is_rate_limit_message :: "string \<Rightarrow> bool" where
  "is_rate_limit_message m \<longleftrightarrow>
     (let l = to_ascii_lowercase m in
      str_contains l ''rate limit'' \<or> str_contains l ''quota'' \<or> str_contains l ''429'')"

definition fail_provider :: "timestamp \<Rightarrow> string \<Rightarrow> provider \<Rightarrow> provider" where
  "fail_provider now m p =
     p\<lparr>p_last_error := Some m, p_last_error_at := Some now,
       p_last_error_type := Some (if is_rate_limit_message m then ''rate_limit'' else ''upstream_error''),
       p_last_error_source := Some ''gateway'',
       p_rate_limited_until := or_else
         (if is_rate_limit_message m then Some (now + 30 * second) else None) (p_rate_limited_until p),
       p_circuit_open_until := Some (now + 15 * second),
       p_test_status := Some ''error'', p_updated_at := now,
       p_backoff_level := p_backoff_level p + 1, p_consecutive_use_count := 0\<rparr>"

definition mark_provider_failure :: "timestamp \<Rightarrow> string \<Rightarrow> string \<Rightarrow> db \<Rightarrow> db" where
  "mark_provider_failure now i m d = update_provider_rows i (fail_provider now m) d"

definition succeed_provider :: "timestamp \<Rightarrow> provider \<Rightarrow> provider" where
  "succeed_provider now p =
     p\<lparr>p_last_error := None, p_last_error_at := None, p_last_error_type := None,
       p_last_error_source := None, p_rate_limited_until := None, p_circuit_open_until := None,
       p_test_status := Some ''ok'', p_updated_at := now, p_last_used_at := Some now,
       p_backoff_level := 0, p_consecutive_use_count := p_consecutive_use_count p + 1\<rparr>"

definition mark_provider_success :: "timestamp \<Rightarrow> string \<Rightarrow> db \<Rightarrow> db" where
  "mark_provider_success now i d = update_provider_rows i (succeed_provider now) d"

section \<open>Accounts\<close>

definition get_account_routing_strategy :: "string \<Rightarrow> db \<Rightarrow> routing_strategy app_result" where
  "get_account_routing_strategy i d =
     (case find (\<lambda>(p, s). p_id p = i) (db_providers d) of
        None \<Rightarrow> Inl (NotFound (''provider connection '' @ [CHR 0x27] @ i @ [CHR 0x27] @ '' not found''))
      | Some (p, s) \<Rightarrow> Inr (unwrap_or ByPriority (routing_strategy_from_str s)))"

definition list_provider_accounts :: "string \<Rightarrow> db \<Rightarrow> account list" where
  "list_provider_accounts i d =
     sort_key a_priority (sort_key a_created_at
       (filter (\<lambda>a. a_provider_connection_id a = i) (db_accounts d)))"

fun elapsed :: "timestamp \<Rightarrow> timestamp option \<Rightarrow> bool" where
  "elapsed now None = True"
| "elapsed now (Some t) = (t \<le> now)"

definition account_selectable :: "timestamp \<Rightarrow> account \<Rightarrow> bool" where
  "account_selectable now a \<longleftrightarrow>
     a_enabled a \<and> elapsed now (a_rate_limited_until a) \<and> elapsed now (a_circuit_open_until a)"

definition list_selectable_provider_accounts :: "timestamp \<Rightarrow> string \<Rightarrow> db \<Rightarrow> account list" where
  "list_selectable_provider_accounts now i d =
     sort_key a_priority (sort_key a_created_at
       (filter (\<lambda>a. a_provider_connection_id a = i \<and> account_selectable now a) (db_accounts d)))"

definition get_provider_account :: "string \<Rightarrow> db \<Rightarrow> account option" where
  "get_provider_account i d = find (\<lambda>a. a_id a = i) (db_accounts d)"

definition has_usable_secret :: "string option \<Rightarrow> bool" where
  "has_usable_secret v = (case v of None \<Rightarrow> False | Some s \<Rightarrow> trim s \<noteq> [])"

definition quoted :: "string \<Rightarrow> string" where
  "quoted s = [CHR 0x27] @ s @ [CHR 0x27]"

definition normalize_optional_url :: "string option \<Rightarrow> string option app_result" where
  "normalize_optional_url raw =
     (case nonblank raw of
        None \<Rightarrow> Inr None
      | Some v \<Rightarrow>
          (if starts_with v ''http://'' \<or> starts_with v ''https://''
           then Inr (Some (trim_end_char CHR ''/'' v))
           else Inl (BadRequest (''base_url must be an http(s) URL, got '' @ quoted v))))"

text \<open>\<open>valid_proxy\<close> is \<open>reqwest::Proxy::all\<close>: an error text, or nothing.\<close>

definition parse_and_validate_proxy :: "(string \<Rightarrow> string option) \<Rightarrow> string \<Rightarrow> unit app_result" where
  "parse_and_validate_proxy proxy_error raw =
     (let t = trim raw in
      if t = [] then Inl (BadRequest ''proxy_url is empty'')
      else (case proxy_error t of
              None \<Rightarrow> Inr ()
            | Some err \<Rightarrow> Inl (BadRequest (''invalid proxy_url '' @ quoted t @ '': '' @ err))))"

definition normalize_proxy_url ::
  "(string \<Rightarrow> string option) \<Rightarrow> string option \<Rightarrow> string option app_result" where
  "normalize_proxy_url proxy_error raw =
     (case nonblank raw of
        None \<Rightarrow> Inr None
      | Some v \<Rightarrow> rbind (parse_and_validate_proxy proxy_error v) (\<lambda>_. Inr (Some v)))"

definition next_provider_account_priority :: "string \<Rightarrow> db \<Rightarrow> int" where
  "next_provider_account_priority i d =
     next_priority (map a_priority (filter (\<lambda>a. a_provider_connection_id a = i) (db_accounts d)))"

definition check_account_secret :: "new_account \<Rightarrow> string option \<Rightarrow> unit app_result" where
  "check_account_secret na base_url =
     (case na_auth_mode na of
        ApiKeyMode \<Rightarrow>
          (if \<not> has_usable_secret (na_api_key na) \<and> base_url = None then
             Inl (BadRequest (''provider account auth_mode '' @ quoted ''api_key''
               @ '' requires a non-empty api_key (or base_url for custom endpoints)''))
           else Inr ())
      | OAuthMode \<Rightarrow>
          (if \<not> has_usable_secret (na_access_token na) \<and> \<not> has_usable_secret (na_refresh_token na) then
             Inl (BadRequest (''provider account auth_mode '' @ quoted ''oauth''
               @ '' requires a non-empty access_token or refresh_token''))
           else Inr ()))"

definition create_provider_account ::
  "timestamp \<Rightarrow> string \<Rightarrow> (string \<Rightarrow> string option) \<Rightarrow> new_account \<Rightarrow> db \<Rightarrow> (account \<times> db) app_result" where
  "create_provider_account now fresh proxy_error na d =
     (if find_provider_connection_by_id (na_provider_connection_id na) d = None then
        Inl (BadRequest (''provider connection '' @ quoted (na_provider_connection_id na)
          @ '' does not exist''))
      else
        rbind (normalize_optional_url (na_base_url na)) (\<lambda>base_url.
        rbind (check_account_secret na base_url) (\<lambda>_.
        rbind (normalize_proxy_url proxy_error (na_proxy_url na)) (\<lambda>proxy_url.
          let a = \<lparr>a_id = fresh, a_provider_connection_id = na_provider_connection_id na,
                a_label = na_label na, a_auth_mode = na_auth_mode na, a_api_key = na_api_key na,
                a_access_token = na_access_token na, a_refresh_token = na_refresh_token na,
                a_expires_at = na_expires_at na, a_scopes = unwrap_or [] (na_scopes na),
                a_remote_account_id = na_remote_account_id na,
                a_remote_email = na_remote_email na, a_is_fedramp = na_is_fedramp na,
                a_enabled = na_enabled na,
                a_priority = unwrap_or
                  (next_provider_account_priority (na_provider_connection_id na) d) (na_priority na),
                a_last_used_at = None, a_rate_limited_until = None, a_circuit_open_until = None,
                a_last_error = None, a_last_error_type = None, a_last_refresh_at = None,
                a_refresh_error = None, a_backoff_level = 0, a_consecutive_use_count = 0,
                a_proxy_url = proxy_url, a_base_url = base_url,
                a_protocol_format = nonblank (na_protocol_format na),
                a_supported_endpoints = opt_filter (\<lambda>v. v \<noteq> []) (na_supported_endpoints na),
                a_created_at = now, a_updated_at = now\<rparr>
          in Inr (a, d\<lparr>db_accounts := db_accounts d @ [a]\<rparr>)))))"

definition update_account_rows :: "string \<Rightarrow> (account \<Rightarrow> account) \<Rightarrow> db \<Rightarrow> db" where
  "update_account_rows i f d = d\<lparr>db_accounts := update_rows (\<lambda>a. a_id a = i) f (db_accounts d)\<rparr>"

definition update_account :: "string \<Rightarrow> (account \<Rightarrow> account) \<Rightarrow> db \<Rightarrow> bool \<times> db" where
  "update_account i f d = (get_provider_account i d \<noteq> None, update_account_rows i f d)"

definition update_provider_account_proxy ::
  "timestamp \<Rightarrow> (string \<Rightarrow> string option) \<Rightarrow> string \<Rightarrow> string option \<Rightarrow> db \<Rightarrow> (bool \<times> db) app_result" where
  "update_provider_account_proxy now proxy_error i url d =
     rbind (normalize_proxy_url proxy_error url) (\<lambda>u.
       Inr (update_account i (\<lambda>a. a\<lparr>a_proxy_url := u, a_updated_at := now\<rparr>) d))"

definition update_provider_account_api_key ::
  "timestamp \<Rightarrow> string \<Rightarrow> string option \<Rightarrow> db \<Rightarrow> bool \<times> db" where
  "update_provider_account_api_key now i k d =
     update_account i (\<lambda>a. a\<lparr>a_api_key := k, a_updated_at := now\<rparr>) d"

definition update_provider_account_oauth_credentials ::
  "timestamp \<Rightarrow> string \<Rightarrow> string \<Rightarrow> string option \<Rightarrow> timestamp option \<Rightarrow> string list
     \<Rightarrow> string option \<Rightarrow> string option \<Rightarrow> bool \<Rightarrow> string option \<Rightarrow> db \<Rightarrow> bool \<times> db" where
  "update_provider_account_oauth_credentials now i access refresh expires scopes remote_id
       remote_email fedramp api_key d =
     update_account i
       (\<lambda>a. a\<lparr>a_access_token := Some access,
              a_refresh_token := or_else refresh (a_refresh_token a),
              a_expires_at := expires, a_scopes := scopes, a_remote_account_id := remote_id,
              a_remote_email := remote_email, a_is_fedramp := fedramp,
              a_api_key := or_else api_key (a_api_key a), a_last_refresh_at := Some now,
              a_refresh_error := None, a_updated_at := now\<rparr>) d"

definition record_provider_account_refresh_error ::
  "timestamp \<Rightarrow> string \<Rightarrow> string \<Rightarrow> db \<Rightarrow> bool \<times> db" where
  "record_provider_account_refresh_error now i m d =
     update_account i (\<lambda>a. a\<lparr>a_refresh_error := Some m, a_updated_at := now\<rparr>) d"

definition set_provider_account_enabled :: "timestamp \<Rightarrow> string \<Rightarrow> bool \<Rightarrow> db \<Rightarrow> bool \<times> db" where
  "set_provider_account_enabled now i b d =
     update_account i (\<lambda>a. a\<lparr>a_enabled := b, a_updated_at := now\<rparr>) d"

definition delete_provider_account :: "string \<Rightarrow> db \<Rightarrow> bool \<times> db" where
  "delete_provider_account i d =
     (get_provider_account i d \<noteq> None,
      d\<lparr>db_accounts := filter (\<lambda>a. a_id a \<noteq> i) (db_accounts d),
        db_sessions := drop_account s_provider_account_id clear_session i (db_sessions d),
        db_cache := drop_account cache_account clear_cache i (db_cache d),
        db_request_debug :=
          drop_account dq_provider_account_id clear_request_debug i (db_request_debug d),
        db_response_debug :=
          drop_account dr_provider_account_id clear_response_debug i (db_response_debug d)\<rparr>)"

text \<open>The foreign keys of a new row that names a connection and maybe an account.\<close>

definition refers_ok :: "string \<Rightarrow> string option \<Rightarrow> db \<Rightarrow> bool" where
  "refers_ok p a d \<longleftrightarrow>
     find_provider_connection_by_id p d \<noteq> None
     \<and> (case a of None \<Rightarrow> True | Some i \<Rightarrow> get_provider_account i d \<noteq> None)"

definition fail_account :: "timestamp \<Rightarrow> string \<Rightarrow> account \<Rightarrow> account" where
  "fail_account now m a =
     a\<lparr>a_last_error := Some m,
       a_last_error_type := Some (if is_rate_limit_message m then ''rate_limit'' else ''upstream_error''),
       a_rate_limited_until := or_else
         (if is_rate_limit_message m then Some (now + 30 * second) else None) (a_rate_limited_until a),
       a_circuit_open_until := Some (now + 15 * second), a_updated_at := now,
       a_backoff_level := a_backoff_level a + 1, a_consecutive_use_count := 0\<rparr>"

definition mark_provider_account_failure :: "timestamp \<Rightarrow> string \<Rightarrow> string \<Rightarrow> db \<Rightarrow> db" where
  "mark_provider_account_failure now i m d = update_account_rows i (fail_account now m) d"

definition succeed_account :: "timestamp \<Rightarrow> account \<Rightarrow> account" where
  "succeed_account now a =
     a\<lparr>a_last_error := None, a_last_error_type := None, a_rate_limited_until := None,
       a_circuit_open_until := None, a_last_used_at := Some now, a_updated_at := now,
       a_backoff_level := 0, a_consecutive_use_count := a_consecutive_use_count a + 1\<rparr>"

definition mark_provider_account_success :: "timestamp \<Rightarrow> string \<Rightarrow> db \<Rightarrow> db" where
  "mark_provider_account_success now i d = update_account_rows i (succeed_account now) d"

section \<open>OAuth sessions\<close>

definition check_session_account :: "new_oauth_session \<Rightarrow> db \<Rightarrow> unit app_result" where
  "check_session_account ns d =
     (case ns_provider_account_id ns of
        None \<Rightarrow> Inr ()
      | Some i \<Rightarrow>
          rbind (ok_or (BadRequest (''provider account '' @ quoted i @ '' does not exist''))
                   (get_provider_account i d)) (\<lambda>a.
            if a_provider_connection_id a \<noteq> ns_provider_connection_id ns then
              Inl (BadRequest (''provider account '' @ quoted i
                @ '' does not belong to provider connection '' @ quoted (ns_provider_connection_id ns)))
            else if a_auth_mode a \<noteq> OAuthMode then
              Inl (BadRequest (''provider account '' @ quoted i @ '' must use auth_mode '' @ quoted ''oauth''))
            else Inr ()))"

definition create_oauth_session ::
  "timestamp \<Rightarrow> string \<Rightarrow> string \<Rightarrow> new_oauth_session \<Rightarrow> db \<Rightarrow> (oauth_session \<times> db) app_result" where
  "create_oauth_session now fresh conflict ns d =
     (if find_provider_connection_by_id (ns_provider_connection_id ns) d = None then
        Inl (BadRequest (''provider connection '' @ quoted (ns_provider_connection_id ns)
          @ '' does not exist''))
      else
        rbind (check_session_account ns d) (\<lambda>_.
          if list_ex (\<lambda>s. s_state s = ns_state ns) (db_sessions d) then Inl (Database conflict)
          else
            (let s = \<lparr>s_id = fresh, s_state = ns_state ns,
                  s_provider_connection_id = ns_provider_connection_id ns,
                  s_provider_account_id = ns_provider_account_id ns,
                  s_redirect_uri = ns_redirect_uri ns, s_code_verifier = ns_code_verifier ns,
                  s_scopes = unwrap_or [] (ns_scopes ns), s_proxy_url = ns_proxy_url ns,
                  s_created_at = now, s_expires_at = ns_expires_at ns, s_consumed_at = None\<rparr>
             in Inr (s, d\<lparr>db_sessions := db_sessions d @ [s]\<rparr>))))"

definition list_oauth_sessions :: "string \<Rightarrow> db \<Rightarrow> oauth_session list" where
  "list_oauth_sessions i d =
     sort_key (\<lambda>s. - s_created_at s)
       (filter (\<lambda>s. s_provider_connection_id s = i) (db_sessions d))"

definition get_oauth_session :: "string \<Rightarrow> db \<Rightarrow> oauth_session option" where
  "get_oauth_session i d = find (\<lambda>s. s_id s = i) (db_sessions d)"

definition get_oauth_session_by_state :: "string \<Rightarrow> db \<Rightarrow> oauth_session option" where
  "get_oauth_session_by_state st d = find (\<lambda>s. s_state s = st) (db_sessions d)"

definition unconsumed :: "string \<Rightarrow> oauth_session \<Rightarrow> bool" where
  "unconsumed i s \<longleftrightarrow> s_id s = i \<and> s_consumed_at s = None"

definition mark_oauth_session_consumed :: "timestamp \<Rightarrow> string \<Rightarrow> db \<Rightarrow> bool \<times> db" where
  "mark_oauth_session_consumed now i d =
     (list_ex (unconsumed i) (db_sessions d),
      d\<lparr>db_sessions := update_rows (unconsumed i) (\<lambda>s. s\<lparr>s_consumed_at := Some now\<rparr>)
          (db_sessions d)\<rparr>)"

definition delete_oauth_session :: "string \<Rightarrow> db \<Rightarrow> bool \<times> db" where
  "delete_oauth_session i d =
     (get_oauth_session i d \<noteq> None, d\<lparr>db_sessions := filter (\<lambda>s. s_id s \<noteq> i) (db_sessions d)\<rparr>)"

definition delete_expired_oauth_sessions :: "timestamp \<Rightarrow> db \<Rightarrow> nat \<times> db" where
  "delete_expired_oauth_sessions now d =
     (length (filter (\<lambda>s. s_expires_at s < now) (db_sessions d)),
      d\<lparr>db_sessions := filter (\<lambda>s. \<not> s_expires_at s < now) (db_sessions d)\<rparr>)"

section \<open>Combos, aliases, settings, keys\<close>

definition list_combos :: "db \<Rightarrow> combo list" where
  "list_combos d = sort_key c_name (db_combos d)"

definition create_combo ::
  "timestamp \<Rightarrow> string \<Rightarrow> string \<Rightarrow> new_combo \<Rightarrow> db \<Rightarrow> (combo \<times> db) app_result" where
  "create_combo now fresh conflict nc d =
     (if nc_models nc = [] then Inl (BadRequest ''combo must include at least one model'')
      else if list_ex (\<lambda>c. c_name c = nc_name nc) (db_combos d) then Inl (Database conflict)
      else
        (let c = \<lparr>c_id = fresh, c_name = nc_name nc, c_strategy = nc_strategy nc,
              c_models = nc_models nc, c_enabled = nc_enabled nc, c_created_at = now,
              c_updated_at = now\<rparr>
         in Inr (c, d\<lparr>db_combos := db_combos d @ [c]\<rparr>)))"

definition find_combo_by_name :: "string \<Rightarrow> db \<Rightarrow> combo option" where
  "find_combo_by_name n d = find (\<lambda>c. c_name c = n) (db_combos d)"

definition upsert_alias :: "string \<Rightarrow> string \<Rightarrow> db \<Rightarrow> db" where
  "upsert_alias alias target d = d\<lparr>db_aliases := obj_insert alias target (db_aliases d)\<rparr>"

definition delete_alias :: "string \<Rightarrow> db \<Rightarrow> bool \<times> db" where
  "delete_alias alias d =
     (obj_get alias (db_aliases d) \<noteq> None, d\<lparr>db_aliases := obj_remove alias (db_aliases d)\<rparr>)"

definition resolve_alias :: "string \<Rightarrow> db \<Rightarrow> string" where
  "resolve_alias model d = unwrap_or model (obj_get model (db_aliases d))"

definition set_setting :: "string \<Rightarrow> string \<Rightarrow> db \<Rightarrow> db" where
  "set_setting k v d = d\<lparr>db_settings := obj_insert k v (db_settings d)\<rparr>"

definition get_setting_bool :: "string \<Rightarrow> db \<Rightarrow> bool" where
  "get_setting_bool k d =
     (case obj_get k (db_settings d) of None \<Rightarrow> False | Some raw \<Rightarrow> raw = ''true'' \<or> raw = ''1'')"

definition trim_matches :: "char \<Rightarrow> string \<Rightarrow> string" where
  "trim_matches c s = trim_end_char c (dropWhile (\<lambda>x. x = c) s)"

definition get_setting_string :: "'a codec_scheme \<Rightarrow> string \<Rightarrow> db \<Rightarrow> string app_result" where
  "get_setting_string c k d =
     (case obj_get k (db_settings d) of
        None \<Rightarrow> Inl (NotFound (''setting '' @ quoted k @ '' not found''))
      | Some raw \<Rightarrow>
          (case json_parse c raw of
             Inl e \<Rightarrow> Inl (JsonError e)
           | Inr v \<Rightarrow> Inr (unwrap_or (trim_matches dquote raw) (as_str v))))"

definition put_settings :: "'a codec_scheme \<Rightarrow> json \<Rightarrow> db \<Rightarrow> db app_result" where
  "put_settings c payload d =
     (case payload of
        JObj ob \<Rightarrow> Inr (fold (\<lambda>(k, v). set_setting k (json_print c v)) ob d)
      | _ \<Rightarrow> Inl (BadRequest ''settings payload must be a JSON object''))"

definition create_api_key ::
  "timestamp \<Rightarrow> string \<Rightarrow> string \<Rightarrow> string \<Rightarrow> string \<Rightarrow> string \<Rightarrow> string list \<Rightarrow> db \<Rightarrow> db app_result" where
  "create_api_key now conflict i name key_hash key_prefix allowed d =
     (if list_ex (\<lambda>k. k_id k = i) (db_api_keys d)
      then Inl (Database conflict)
      else Inr (d\<lparr>db_api_keys := db_api_keys d
        @ [\<lparr>k_id = i, k_name = name, k_key_hash = key_hash, k_key_prefix = key_prefix,
            k_allowed_models = allowed, k_is_active = True, k_last_used_at = None,
            k_usage_count = 0, k_created_at = now, k_updated_at = now\<rparr>]\<rparr>))"

definition find_api_key_by_hash :: "string \<Rightarrow> db \<Rightarrow> api_key_row option" where
  "find_api_key_by_hash h d = find (\<lambda>k. k_key_hash k = h) (db_api_keys d)"

definition touch_api_key_usage :: "timestamp \<Rightarrow> string \<Rightarrow> db \<Rightarrow> db" where
  "touch_api_key_usage now i d =
     d\<lparr>db_api_keys := update_rows (\<lambda>k. k_id k = i)
        (\<lambda>k. k\<lparr>k_last_used_at := Some now, k_usage_count := k_usage_count k + 1,
               k_updated_at := now\<rparr>) (db_api_keys d)\<rparr>"

definition revoke_api_key :: "string \<Rightarrow> db \<Rightarrow> bool \<times> db" where
  "revoke_api_key i d =
     (list_ex (\<lambda>k. k_id k = i) (db_api_keys d),
      d\<lparr>db_api_keys := filter (\<lambda>k. k_id k \<noteq> i) (db_api_keys d)\<rparr>)"

section \<open>The response cache\<close>

definition find_response_cache_entry ::
  "timestamp \<Rightarrow> string \<Rightarrow> string \<Rightarrow> string \<Rightarrow> db \<Rightarrow> cache_row option \<times> db" where
  "find_response_cache_entry now k namespace hash d =
     (case opt_filter (\<lambda>r. ce_namespace r = namespace \<and> ce_request_body_hash r = hash
                            \<and> now < ce_expires_at r) (obj_get k (db_cache d)) of
        None \<Rightarrow> (None, d)
      | Some r \<Rightarrow>
          (Some r, d\<lparr>db_cache := obj_insert k
             (r\<lparr>ce_hit_count := ce_hit_count r + 1, ce_last_hit_at := Some now, ce_updated_at := now\<rparr>)
             (db_cache d)\<rparr>))"

definition store_cache_row :: "timestamp \<Rightarrow> cache_entry \<Rightarrow> db \<Rightarrow> db" where
  "store_cache_row now e d =
     (let old = obj_get (ce_cache_key e) (db_cache d);
          row = cache_entry.extend e
            (case old of
               None \<Rightarrow> cache_row.fields 0 now now None
             | Some r \<Rightarrow> cache_row.fields (ce_hit_count r) (ce_created_at r) now (ce_last_hit_at r))
      in d\<lparr>db_cache := obj_insert (ce_cache_key e) row (db_cache d)\<rparr>)"

definition upsert_response_cache_entry ::
  "timestamp \<Rightarrow> string \<Rightarrow> cache_entry \<Rightarrow> db \<Rightarrow> db app_result" where
  "upsert_response_cache_entry now conflict e d =
     (if refers_ok (ce_provider_id e) (ce_provider_account_id e) d
      then Inr (store_cache_row now e d) else Inl (Database conflict))"

definition purge_expired_response_cache_entries :: "timestamp \<Rightarrow> db \<Rightarrow> nat \<times> db" where
  "purge_expired_response_cache_entries now d =
     (length (filter (\<lambda>(k, r). ce_expires_at r \<le> now) (db_cache d)),
      d\<lparr>db_cache := filter (\<lambda>(k, r). \<not> ce_expires_at r \<le> now) (db_cache d)\<rparr>)"

section \<open>Circuit breaker\<close>

lemma failed_not_selectable:
  "t < now + 15 * second \<Longrightarrow> \<not> account_selectable t (fail_account now m a)"
  by (simp add: account_selectable_def fail_account_def)

lemma failed_selectable_again:
  assumes "a_enabled a" and "now + 15 * second \<le> t"
    and "if is_rate_limit_message m then now + 30 * second \<le> t else elapsed t (a_rate_limited_until a)"
  shows "account_selectable t (fail_account now m a)"
  using assms by (auto simp: account_selectable_def fail_account_def split: if_splits)

lemma succeeded_selectable: "account_selectable t (succeed_account now a) \<longleftrightarrow> a_enabled a"
  by (simp add: account_selectable_def succeed_account_def)

lemma fail_account_keeps [simp]:
  "a_id (fail_account now m a) = a_id a"
  "a_provider_connection_id (fail_account now m a) = a_provider_connection_id a"
  "a_enabled (fail_account now m a) = a_enabled a"
  by (simp_all add: fail_account_def)

lemma succeed_account_keeps [simp]:
  "a_id (succeed_account now a) = a_id a"
  "a_provider_connection_id (succeed_account now a) = a_provider_connection_id a"
  by (simp_all add: succeed_account_def)

lemma selectable_set:
  "set (list_selectable_provider_accounts now i d)
     = {a \<in> set (db_accounts d). a_provider_connection_id a = i \<and> account_selectable now a}"
  by (auto simp: list_selectable_provider_accounts_def)

lemma mark_failure_unselectable:
  assumes "t < now + 15 * second"
  shows "\<forall>a \<in> set (list_selectable_provider_accounts t p
           (mark_provider_account_failure now i m d)). a_id a \<noteq> i"
  using assms failed_not_selectable
  by (auto simp: selectable_set mark_provider_account_failure_def update_account_rows_def
      set_update_rows split: if_splits)

lemma mark_failure_others:
  "a_id a \<noteq> i \<Longrightarrow> a \<in> set (list_selectable_provider_accounts t p
       (mark_provider_account_failure now i m d))
     \<longleftrightarrow> a \<in> set (list_selectable_provider_accounts t p d)"
  by (auto simp: selectable_set mark_provider_account_failure_def update_account_rows_def
      set_update_rows split: if_splits)

lemma sort_key_twice_sorted:
  "sorted_wrt (\<lambda>x y. f x < f y \<or> (f x = f y \<and> g x \<le> g y)) (sort_key f (sort_key g xs))"
proof -
  have st: "sorted (map f (sort_key f (sort_key g xs)))" by simp
  have "sorted (map g (filter (\<lambda>x. f x = k) (sort_key f (sort_key g xs))))" for k
    by (simp add: sort_key_stable sorted_filter)
  then have g: "g ((sort_key f (sort_key g xs)) ! i) \<le> g ((sort_key f (sort_key g xs)) ! j)"
    if "i < j" "j < length xs" "f ((sort_key f (sort_key g xs)) ! i) = f ((sort_key f (sort_key g xs)) ! j)"
    for i j
  proof -
    let ?ys = "sort_key f (sort_key g xs)"
    have l: "j < length ?ys" using that by simp
    have "?ys = take j ?ys @ ?ys ! j # drop (Suc j) ?ys" using l by (rule id_take_nth_drop)
    then have "filter (\<lambda>x. f x = f (?ys ! j)) ?ys
        = filter (\<lambda>x. f x = f (?ys ! j)) (take j ?ys) @ ?ys ! j
          # filter (\<lambda>x. f x = f (?ys ! j)) (drop (Suc j) ?ys)"
      by (metis (mono_tags, lifting) filter.simps(2) filter_append)
    moreover have "?ys ! i \<in> set (filter (\<lambda>x. f x = f (?ys ! j)) (take j ?ys))"
      using that l by (auto simp: in_set_conv_nth intro!: exI [of _ i])
    ultimately show ?thesis
      using \<open>\<And>k. sorted (map g (filter (\<lambda>x. f x = k) ?ys))\<close> [of "f (?ys ! j)"]
      by (auto simp: sorted_append)
  qed
  show ?thesis
    unfolding sorted_wrt_iff_nth_less
  proof (intro allI impI)
    fix i j
    assume "i < j" "j < length (sort_key f (sort_key g xs))"
    then show "f (sort_key f (sort_key g xs) ! i) < f (sort_key f (sort_key g xs) ! j)
        \<or> f (sort_key f (sort_key g xs) ! i) = f (sort_key f (sort_key g xs) ! j)
          \<and> g (sort_key f (sort_key g xs) ! i) \<le> g (sort_key f (sort_key g xs) ! j)"
      using sorted_nth_mono [OF st, of i j] g [of i j] by (auto simp: order_le_less)
  qed
qed

section \<open>The cache table\<close>

lemma upsert_Inr:
  "upsert_response_cache_entry now conflict e d = Inr d' \<longleftrightarrow>
     refers_ok (ce_provider_id e) (ce_provider_account_id e) d \<and> d' = store_cache_row now e d"
  by (auto simp: upsert_response_cache_entry_def)

lemma cache_find_after_store:
  "now < ce_expires_at e \<Longrightarrow>
   \<exists>r. fst (find_response_cache_entry now (ce_cache_key e) (ce_namespace e)
              (ce_request_body_hash e) (store_cache_row now' e d)) = Some r
     \<and> cache_entry.truncate r = e"
  by (cases "obj_get (ce_cache_key e) (db_cache d)")
    (simp_all add: store_cache_row_def find_response_cache_entry_def Let_def
      cache_entry.defs cache_row.defs)

lemma cache_find_after_upsert:
  "upsert_response_cache_entry now' conflict e d = Inr d' \<Longrightarrow> now < ce_expires_at e \<Longrightarrow>
   \<exists>r. fst (find_response_cache_entry now (ce_cache_key e) (ce_namespace e)
              (ce_request_body_hash e) d') = Some r
     \<and> cache_entry.truncate r = e"
  by (simp add: upsert_Inr cache_find_after_store)

lemma cache_find_fresh:
  "fst (find_response_cache_entry now k ns h d) = Some r
     \<Longrightarrow> now < ce_expires_at r \<and> ce_namespace r = ns \<and> ce_request_body_hash r = h"
  by (auto simp: find_response_cache_entry_def split: option.splits)

end
