(* ===== verification/Logs.thy ===== *)
theory Logs
  imports Repository
begin

text \<open>
  The statements on the request log and the debug logs (\<open>src/repository.rs\<close>): one summary row
  per request identifier, and the raw bodies of every exchange, which go away with their
  connection.
\<close>

section \<open>Debug logs\<close>

definition insert_request_debug_log ::
  "timestamp \<Rightarrow> string \<Rightarrow> string \<Rightarrow> new_request_debug_log \<Rightarrow> db
     \<Rightarrow> (request_debug_log \<times> db) app_result" where
  "insert_request_debug_log now fresh conflict input d =
     (if refers_ok (dq_provider_id input) (dq_provider_account_id input) d
      then (let row = new_request_debug_log.extend input (request_debug_log.fields fresh now)
            in Inr (row, d\<lparr>db_request_debug := db_request_debug d @ [row]\<rparr>))
      else Inl (Database conflict))"

definition insert_response_debug_log ::
  "timestamp \<Rightarrow> string \<Rightarrow> string \<Rightarrow> new_response_debug_log \<Rightarrow> db
     \<Rightarrow> (response_debug_log \<times> db) app_result" where
  "insert_response_debug_log now fresh conflict input d =
     (if refers_ok (dr_provider_id input) (dr_provider_account_id input) d
      then (let row = new_response_debug_log.extend input (response_debug_log.fields fresh now)
            in Inr (row, d\<lparr>db_response_debug := db_response_debug d @ [row]\<rparr>))
      else Inl (Database conflict))"

definition list_request_debug_logs_for_request :: "string \<Rightarrow> db \<Rightarrow> request_debug_log list" where
  "list_request_debug_logs_for_request i d =
     sort_key dq_sequence_no (sort_key dq_created_at
       (filter (\<lambda>r. dq_request_id r = i) (db_request_debug d)))"

definition list_response_debug_logs_for_request :: "string \<Rightarrow> db \<Rightarrow> response_debug_log list" where
  "list_response_debug_logs_for_request i d =
     sort_key dr_sequence_no (sort_key dr_created_at
       (filter (\<lambda>r. dr_request_id r = i) (db_response_debug d)))"

section \<open>Summary rows\<close>

text \<open>The identifier is the request's own, so a repeated one violates the primary key.\<close>

definition insert_request_log ::
  "timestamp \<Rightarrow> string \<Rightarrow> new_request_log \<Rightarrow> db \<Rightarrow> db app_result" where
  "insert_request_log now conflict input d =
     (if list_ex (\<lambda>r. rl_id r = rl_id input) (db_request_logs d) then Inl (Database conflict)
      else Inr (d\<lparr>db_request_logs := db_request_logs d
        @ [new_request_log.extend input (request_log.fields now)]\<rparr>))"

definition finalize_stream_request_log ::
  "string \<Rightarrow> int option \<Rightarrow> int option \<Rightarrow> int option \<Rightarrow> f64 option \<Rightarrow> int \<Rightarrow> db \<Rightarrow> db" where
  "finalize_stream_request_log i inp outp cached cost duration d =
     d\<lparr>db_request_logs := update_rows (\<lambda>r. rl_id r = i)
        (\<lambda>r. r\<lparr>rl_input_tokens := or_else inp (rl_input_tokens r),
               rl_output_tokens := or_else outp (rl_output_tokens r),
               rl_cache_read_tokens := or_else cached (rl_cache_read_tokens r),
               rl_cost_usd := or_else cost (rl_cost_usd r),
               rl_duration_ms := duration\<rparr>) (db_request_logs d)\<rparr>"

text \<open>The listing leaves the client's body out.\<close>

definition list_request_logs :: "nat \<Rightarrow> db \<Rightarrow> request_log list" where
  "list_request_logs limit d =
     take limit (map (\<lambda>r. r\<lparr>rl_client_body := None\<rparr>)
       (sort_key (\<lambda>r. - rl_created_at r) (db_request_logs d)))"

definition get_request_log :: "string \<Rightarrow> db \<Rightarrow> request_log option" where
  "get_request_log i d = find (\<lambda>r. rl_id r = i) (db_request_logs d)"

definition clear_request_logs :: "db \<Rightarrow> nat \<times> db" where
  "clear_request_logs d =
     (length (db_request_logs d),
      d\<lparr>db_request_logs := [], db_request_debug := [], db_response_debug := []\<rparr>)"

section \<open>Facts\<close>

lemma insert_request_log_found:
  assumes "insert_request_log now conflict input d = Inr d'"
  shows "get_request_log (rl_id input) d' = Some (new_request_log.extend input (request_log.fields now))"
    and "i \<noteq> rl_id input \<Longrightarrow> get_request_log i d' = get_request_log i d"
proof -
  have d': "db_request_logs d' = db_request_logs d
        @ [new_request_log.extend input (request_log.fields now)]"
    and new: "\<not> list_ex (\<lambda>r. rl_id r = rl_id input) (db_request_logs d)"
    using assms by (auto simp: insert_request_log_def split: if_splits)
  have none: "find (\<lambda>r. rl_id r = rl_id input) (db_request_logs d) = None"
    using new by (simp add: find_None_iff list_ex_iff)
  have app: "find P (xs @ [x]) = (case find P xs of None \<Rightarrow> if P x then Some x else None | Some y \<Rightarrow> Some y)"
    for P and xs :: "request_log list" and x
    by (induction xs) auto
  show "get_request_log (rl_id input) d' = Some (new_request_log.extend input (request_log.fields now))"
    using none by (simp add: get_request_log_def d' app new_request_log.defs request_log.defs)
  show "i \<noteq> rl_id input \<Longrightarrow> get_request_log i d' = get_request_log i d"
    by (auto simp: get_request_log_def d' app new_request_log.defs request_log.defs
        split: option.splits)
qed

text \<open>Backfilling a streamed request touches its own row only, and never loses a count.\<close>

lemma finalize_get:
  "get_request_log i (finalize_stream_request_log j inp outp cached cost duration d) =
     map_option (\<lambda>r. if i = j then
        r\<lparr>rl_input_tokens := or_else inp (rl_input_tokens r),
          rl_output_tokens := or_else outp (rl_output_tokens r),
          rl_cache_read_tokens := or_else cached (rl_cache_read_tokens r),
          rl_cost_usd := or_else cost (rl_cost_usd r), rl_duration_ms := duration\<rparr> else r)
       (get_request_log i d)"
proof -
  have "rl_id r = i" if "find (\<lambda>r. rl_id r = i) rows = Some r" for rows :: "request_log list" and r
    using that by (auto dest: find_SomeD)
  then show ?thesis
    by (auto simp: get_request_log_def finalize_stream_request_log_def find_update_rows
        intro!: option.map_cong)
qed

end
