(* ===== verification/Db_Invariant.thy ===== *)
theory Db_Invariant
  imports Logs
begin

text \<open>
  The repository as a state machine: a step is one statement group of a repository method, with
  the set of identifiers handed out so far beside the database (UUIDs do not repeat). The
  referential integrity the routing code relies on is an invariant of it, and an OAuth session
  is consumed at most once.
\<close>

record world =
  w_used :: "string set"
  w_db :: db

inductive db_step :: "world \<Rightarrow> world \<Rightarrow> bool" where
  step_create_provider:
    "i \<notin> u \<Longrightarrow> create_provider_connection now i np d = (p, d')
       \<Longrightarrow> db_step \<lparr>w_used = u, w_db = d\<rparr> \<lparr>w_used = insert i u, w_db = d'\<rparr>"
| step_base_url:
    "update_provider_connection_base_url now i url d = (b, d')
       \<Longrightarrow> db_step \<lparr>w_used = u, w_db = d\<rparr> \<lparr>w_used = u, w_db = d'\<rparr>"
| step_name:
    "update_provider_connection_name now i n d = (b, d')
       \<Longrightarrow> db_step \<lparr>w_used = u, w_db = d\<rparr> \<lparr>w_used = u, w_db = d'\<rparr>"
| step_delete_provider:
    "delete_provider_connection i d = (b, d')
       \<Longrightarrow> db_step \<lparr>w_used = u, w_db = d\<rparr> \<lparr>w_used = u, w_db = d'\<rparr>"
| step_provider_failure:
    "db_step \<lparr>w_used = u, w_db = d\<rparr> \<lparr>w_used = u, w_db = mark_provider_failure now i m d\<rparr>"
| step_provider_success:
    "db_step \<lparr>w_used = u, w_db = d\<rparr> \<lparr>w_used = u, w_db = mark_provider_success now i d\<rparr>"
| step_create_account:
    "i \<notin> u \<Longrightarrow> create_provider_account now i proxy_error na d = Inr (a, d')
       \<Longrightarrow> db_step \<lparr>w_used = u, w_db = d\<rparr> \<lparr>w_used = insert i u, w_db = d'\<rparr>"
| step_account_proxy:
    "update_provider_account_proxy now proxy_error i url d = Inr (b, d')
       \<Longrightarrow> db_step \<lparr>w_used = u, w_db = d\<rparr> \<lparr>w_used = u, w_db = d'\<rparr>"
| step_account_key:
    "update_provider_account_api_key now i k d = (b, d')
       \<Longrightarrow> db_step \<lparr>w_used = u, w_db = d\<rparr> \<lparr>w_used = u, w_db = d'\<rparr>"
| step_account_oauth:
    "update_provider_account_oauth_credentials now i acc ref ex sc ri re fed k d = (b, d')
       \<Longrightarrow> db_step \<lparr>w_used = u, w_db = d\<rparr> \<lparr>w_used = u, w_db = d'\<rparr>"
| step_account_refresh_error:
    "record_provider_account_refresh_error now i m d = (b, d')
       \<Longrightarrow> db_step \<lparr>w_used = u, w_db = d\<rparr> \<lparr>w_used = u, w_db = d'\<rparr>"
| step_account_enabled:
    "set_provider_account_enabled now i e d = (b, d')
       \<Longrightarrow> db_step \<lparr>w_used = u, w_db = d\<rparr> \<lparr>w_used = u, w_db = d'\<rparr>"
| step_delete_account:
    "delete_provider_account i d = (b, d')
       \<Longrightarrow> db_step \<lparr>w_used = u, w_db = d\<rparr> \<lparr>w_used = u, w_db = d'\<rparr>"
| step_account_failure:
    "db_step \<lparr>w_used = u, w_db = d\<rparr> \<lparr>w_used = u, w_db = mark_provider_account_failure now i m d\<rparr>"
| step_account_success:
    "db_step \<lparr>w_used = u, w_db = d\<rparr> \<lparr>w_used = u, w_db = mark_provider_account_success now i d\<rparr>"
| step_create_session:
    "i \<notin> u \<Longrightarrow> create_oauth_session now i conflict ns d = Inr (s, d')
       \<Longrightarrow> db_step \<lparr>w_used = u, w_db = d\<rparr> \<lparr>w_used = insert i u, w_db = d'\<rparr>"
| step_consume:
    "mark_oauth_session_consumed now i d = (b, d')
       \<Longrightarrow> db_step \<lparr>w_used = u, w_db = d\<rparr> \<lparr>w_used = u, w_db = d'\<rparr>"
| step_delete_session:
    "delete_oauth_session i d = (b, d')
       \<Longrightarrow> db_step \<lparr>w_used = u, w_db = d\<rparr> \<lparr>w_used = u, w_db = d'\<rparr>"
| step_expire_sessions:
    "delete_expired_oauth_sessions now d = (n, d')
       \<Longrightarrow> db_step \<lparr>w_used = u, w_db = d\<rparr> \<lparr>w_used = u, w_db = d'\<rparr>"
| step_create_combo:
    "create_combo now i conflict nc d = Inr (c, d')
       \<Longrightarrow> db_step \<lparr>w_used = u, w_db = d\<rparr> \<lparr>w_used = insert i u, w_db = d'\<rparr>"
| step_upsert_alias:
    "db_step \<lparr>w_used = u, w_db = d\<rparr> \<lparr>w_used = u, w_db = upsert_alias alias target d\<rparr>"
| step_delete_alias:
    "delete_alias alias d = (b, d')
       \<Longrightarrow> db_step \<lparr>w_used = u, w_db = d\<rparr> \<lparr>w_used = u, w_db = d'\<rparr>"
| step_set_setting:
    "db_step \<lparr>w_used = u, w_db = d\<rparr> \<lparr>w_used = u, w_db = set_setting k v d\<rparr>"
| step_touch_key:
    "db_step \<lparr>w_used = u, w_db = d\<rparr> \<lparr>w_used = u, w_db = touch_api_key_usage now i d\<rparr>"
| step_create_key:
    "create_api_key now conflict i n h pre allowed d = Inr d'
       \<Longrightarrow> db_step \<lparr>w_used = u, w_db = d\<rparr> \<lparr>w_used = insert i u, w_db = d'\<rparr>"
| step_revoke_key:
    "revoke_api_key i d = (b, d')
       \<Longrightarrow> db_step \<lparr>w_used = u, w_db = d\<rparr> \<lparr>w_used = u, w_db = d'\<rparr>"
| step_cache_find:
    "find_response_cache_entry now k ns h d = (r, d')
       \<Longrightarrow> db_step \<lparr>w_used = u, w_db = d\<rparr> \<lparr>w_used = u, w_db = d'\<rparr>"
| step_cache_upsert:
    "upsert_response_cache_entry now conflict e d = Inr d'
       \<Longrightarrow> db_step \<lparr>w_used = u, w_db = d\<rparr> \<lparr>w_used = u, w_db = d'\<rparr>"
| step_cache_purge:
    "purge_expired_response_cache_entries now d = (n, d')
       \<Longrightarrow> db_step \<lparr>w_used = u, w_db = d\<rparr> \<lparr>w_used = u, w_db = d'\<rparr>"
| step_request_debug:
    "insert_request_debug_log now i conflict inp d = Inr (r, d')
       \<Longrightarrow> db_step \<lparr>w_used = u, w_db = d\<rparr> \<lparr>w_used = insert i u, w_db = d'\<rparr>"
| step_response_debug:
    "insert_response_debug_log now i conflict inp d = Inr (r, d')
       \<Longrightarrow> db_step \<lparr>w_used = u, w_db = d\<rparr> \<lparr>w_used = insert i u, w_db = d'\<rparr>"
| step_request_log:
    "insert_request_log now conflict inp d = Inr d'
       \<Longrightarrow> db_step \<lparr>w_used = u, w_db = d\<rparr> \<lparr>w_used = u, w_db = d'\<rparr>"
| step_finalize_log:
    "db_step \<lparr>w_used = u, w_db = d\<rparr>
       \<lparr>w_used = u, w_db = finalize_stream_request_log i inp outp cached cost duration d\<rparr>"
| step_clear_logs:
    "clear_request_logs d = (n, d') \<Longrightarrow> db_step \<lparr>w_used = u, w_db = d\<rparr> \<lparr>w_used = u, w_db = d'\<rparr>"

section \<open>Referential integrity\<close>

definition provider_ids :: "db \<Rightarrow> string list" where
  "provider_ids d = map (\<lambda>(p, s). p_id p) (db_providers d)"

definition account_ids :: "db \<Rightarrow> string list" where
  "account_ids d = map a_id (db_accounts d)"

definition session_ids :: "db \<Rightarrow> string list" where
  "session_ids d = map s_id (db_sessions d)"

definition log_ids :: "db \<Rightarrow> string list" where
  "log_ids d = map rl_id (db_request_logs d)"

definition session_links :: "db \<Rightarrow> bool" where
  "session_links d \<longleftrightarrow> links_ok (set (provider_ids d)) (set (account_ids d))
     s_provider_connection_id s_provider_account_id (db_sessions d)"

definition cache_links :: "db \<Rightarrow> bool" where
  "cache_links d \<longleftrightarrow> links_ok (set (provider_ids d)) (set (account_ids d))
     cache_owner cache_account (db_cache d)"

definition debug_links :: "db \<Rightarrow> bool" where
  "debug_links d \<longleftrightarrow>
     links_ok (set (provider_ids d)) (set (account_ids d))
       dq_provider_id dq_provider_account_id (db_request_debug d)
     \<and> links_ok (set (provider_ids d)) (set (account_ids d))
         dr_provider_id dr_provider_account_id (db_response_debug d)"

definition db_ok :: "world \<Rightarrow> bool" where
  "db_ok w \<longleftrightarrow>
     (let d = w_db w in
      distinct (provider_ids d) \<and> distinct (account_ids d) \<and> distinct (session_ids d)
      \<and> distinct (map s_state (db_sessions d)) \<and> distinct (log_ids d)
      \<and> set (provider_ids d) \<union> set (account_ids d) \<union> set (session_ids d) \<subseteq> w_used w
      \<and> (\<forall>a \<in> set (db_accounts d). a_provider_connection_id a \<in> set (provider_ids d))
      \<and> session_links d \<and> cache_links d \<and> debug_links d)"

lemmas links_defs = session_links_def cache_links_def debug_links_def

lemma links_mono:
  "links_ok P A owner acc rows \<Longrightarrow> P \<subseteq> P' \<Longrightarrow> A \<subseteq> A' \<Longrightarrow> links_ok P' A' owner acc rows"
  by (auto simp: links_ok_def)

lemma links_ok_append [simp]:
  "links_ok P A owner acc (rows @ rows') \<longleftrightarrow> links_ok P A owner acc rows \<and> links_ok P A owner acc rows'"
  by (auto simp: links_ok_def)

lemma links_ok_Nil [simp]: "links_ok P A owner acc []"
  by (simp add: links_ok_def)

lemma links_ok_single [simp]:
  "links_ok P A owner acc [r] \<longleftrightarrow> owner r \<in> P \<and> (\<forall>j. acc r = Some j \<longrightarrow> j \<in> A)"
  by (simp add: links_ok_def)

lemma links_ok_filter: "links_ok P A owner acc rows \<Longrightarrow> links_ok P A owner acc (filter q rows)"
  by (auto simp: links_ok_def)

lemma links_ok_cong:
  "map (\<lambda>r. (owner r, acc r)) rows' = map (\<lambda>r. (owner r, acc r)) rows
     \<Longrightarrow> links_ok P A owner acc rows' = links_ok P A owner acc rows"
proof -
  assume e: "map (\<lambda>r. (owner r, acc r)) rows' = map (\<lambda>r. (owner r, acc r)) rows"
  have "links_ok P A owner acc rs
      \<longleftrightarrow> (\<forall>x \<in> set (map (\<lambda>r. (owner r, acc r)) rs). fst x \<in> P \<and> (\<forall>j. snd x = Some j \<longrightarrow> j \<in> A))" for rs
    by (auto simp: links_ok_def)
  then show ?thesis by (simp only: e)
qed

lemma find_provider_mem:
  "find_provider_connection_by_id i d \<noteq> None \<longleftrightarrow> i \<in> set (provider_ids d)"
  by (force simp: find_provider_connection_by_id_def provider_ids_def find_None_iff)

lemma find_account_mem: "get_provider_account i d \<noteq> None \<longleftrightarrow> i \<in> set (account_ids d)"
  by (force simp: get_provider_account_def account_ids_def find_None_iff)

lemma refers_ok_iff:
  "refers_ok p a d \<longleftrightarrow> p \<in> set (provider_ids d) \<and> (\<forall>j. a = Some j \<longrightarrow> j \<in> set (account_ids d))"
  unfolding refers_ok_def find_provider_mem find_account_mem by (simp split: option.split)

text \<open>A database is unchanged where the invariant looks.\<close>

definition same_shape :: "db \<Rightarrow> db \<Rightarrow> bool" where
  "same_shape d d' \<longleftrightarrow>
     provider_ids d' = provider_ids d
     \<and> map (\<lambda>a. (a_id a, a_provider_connection_id a)) (db_accounts d')
         = map (\<lambda>a. (a_id a, a_provider_connection_id a)) (db_accounts d)
     \<and> map (\<lambda>s. (s_id s, s_state s, s_provider_connection_id s, s_provider_account_id s)) (db_sessions d')
         = map (\<lambda>s. (s_id s, s_state s, s_provider_connection_id s, s_provider_account_id s)) (db_sessions d)
     \<and> db_cache d' = db_cache d \<and> db_request_logs d' = db_request_logs d
     \<and> db_request_debug d' = db_request_debug d \<and> db_response_debug d' = db_response_debug d"

definition same_core :: "db \<Rightarrow> db \<Rightarrow> bool" where
  "same_core d d' \<longleftrightarrow> db_providers d' = db_providers d \<and> db_accounts d' = db_accounts d
     \<and> db_sessions d' = db_sessions d"

text \<open>Statements on the cache and the logs only have to keep their own tables in order.\<close>

lemma same_core_ok:
  assumes "same_core d d'" and "db_ok \<lparr>w_used = u, w_db = d\<rparr>" and "u \<subseteq> u'"
    and "cache_links d'" and "debug_links d'" and "distinct (log_ids d')"
  shows "db_ok \<lparr>w_used = u', w_db = d'\<rparr>"
  using assms
  by (auto simp: db_ok_def same_core_def Let_def provider_ids_def account_ids_def session_ids_def
      session_links_def)

lemma same_core_links:
  assumes "same_core d d'"
  shows "provider_ids d' = provider_ids d" and "account_ids d' = account_ids d"
  using assms by (simp_all add: same_core_def provider_ids_def account_ids_def)

lemma untouched_ok:
  assumes "db_providers d' = db_providers d \<and> db_accounts d' = db_accounts d
      \<and> db_sessions d' = db_sessions d \<and> db_cache d' = db_cache d
      \<and> db_request_logs d' = db_request_logs d \<and> db_request_debug d' = db_request_debug d
      \<and> db_response_debug d' = db_response_debug d"
    and "db_ok \<lparr>w_used = u, w_db = d\<rparr>"
  shows "db_ok \<lparr>w_used = u, w_db = d'\<rparr>" and "db_ok \<lparr>w_used = insert i u, w_db = d'\<rparr>"
  using assms
  by (auto simp: db_ok_def Let_def provider_ids_def account_ids_def session_ids_def log_ids_def
      links_defs)

lemma map_update_rows: "(\<And>r. g (f r) = g r) \<Longrightarrow> map g (update_rows p f rows) = map g rows"
  by (simp add: update_rows_def)

lemma same_shape_provider:
  "(\<And>p. p_id (f p) = p_id p) \<Longrightarrow> same_shape d (update_provider_rows i f d)"
  by (auto simp: same_shape_def update_provider_rows_def provider_ids_def update_rows_def)

lemma same_shape_account:
  "(\<And>a. a_id (f a) = a_id a) \<Longrightarrow> (\<And>a. a_provider_connection_id (f a) = a_provider_connection_id a)
     \<Longrightarrow> same_shape d (update_account_rows i f d)"
  by (auto simp: same_shape_def update_account_rows_def provider_ids_def map_update_rows)

lemma same_shape_ok:
  assumes s: "same_shape d d'" and ok: "db_ok \<lparr>w_used = u, w_db = d\<rparr>" and u: "u \<subseteq> u'"
  shows "db_ok \<lparr>w_used = u', w_db = d'\<rparr>"
proof -
  have p: "provider_ids d' = provider_ids d" using s by (simp add: same_shape_def)
  have am: "map (\<lambda>a. (a_id a, a_provider_connection_id a)) (db_accounts d')
      = map (\<lambda>a. (a_id a, a_provider_connection_id a)) (db_accounts d)"
    using s by (simp add: same_shape_def)
  have sm: "map (\<lambda>s. (s_id s, s_state s, s_provider_connection_id s, s_provider_account_id s)) (db_sessions d')
      = map (\<lambda>s. (s_id s, s_state s, s_provider_connection_id s, s_provider_account_id s)) (db_sessions d)"
    using s by (simp add: same_shape_def)
  have a: "account_ids d' = account_ids d"
    using arg_cong [OF am, of "map fst"] by (simp add: account_ids_def comp_def)
  have si: "session_ids d' = session_ids d"
    using arg_cong [OF sm, of "map fst"] by (simp add: session_ids_def comp_def)
  have st: "map s_state (db_sessions d') = map s_state (db_sessions d)"
    using arg_cong [OF sm, of "map (\<lambda>x. fst (snd x))"] by (simp add: comp_def)
  have as: "(\<lambda>a. (a_id a, a_provider_connection_id a)) ` set (db_accounts d')
      = (\<lambda>a. (a_id a, a_provider_connection_id a)) ` set (db_accounts d)"
    using arg_cong [OF am, of set] by (simp only: set_map)
  have "\<forall>x \<in> set (db_accounts d'). a_provider_connection_id x \<in> set (provider_ids d)"
  proof
    fix x
    assume x: "x \<in> set (db_accounts d')"
    have "(a_id x, a_provider_connection_id x)
        \<in> (\<lambda>a. (a_id a, a_provider_connection_id a)) ` set (db_accounts d)"
      unfolding as [symmetric] using x by (rule imageI)
    then obtain y where "y \<in> set (db_accounts d)"
        "a_provider_connection_id x = a_provider_connection_id y" by auto
    then show "a_provider_connection_id x \<in> set (provider_ids d)"
      using ok by (auto simp: db_ok_def Let_def)
  qed
  moreover have "session_links d'"
  proof -
    have "map (\<lambda>s. (s_provider_connection_id s, s_provider_account_id s)) (db_sessions d')
        = map (\<lambda>s. (s_provider_connection_id s, s_provider_account_id s)) (db_sessions d)"
      using arg_cong [OF sm, of "map (\<lambda>x. snd (snd x))"] by (simp add: comp_def)
    from links_ok_cong [OF this] show ?thesis
      using ok by (simp add: session_links_def db_ok_def Let_def p a)
  qed
  moreover have "cache_links d'" "debug_links d'" "log_ids d' = log_ids d"
    using s ok by (simp_all add: same_shape_def links_defs log_ids_def db_ok_def Let_def p a)
  ultimately show ?thesis
    using ok u by (auto simp: db_ok_def Let_def p a si st)
qed

text \<open>The steps that change the shape.\<close>

lemmas ids_defs = provider_ids_def account_ids_def session_ids_def log_ids_def

lemma create_provider_ok:
  assumes "db_ok \<lparr>w_used = u, w_db = d\<rparr>" and "i \<notin> u"
    and "create_provider_connection now i np d = (p, d')"
  shows "db_ok \<lparr>w_used = insert i u, w_db = d'\<rparr>"
proof -
  obtain row where d': "d' = d\<lparr>db_providers := db_providers d @ [row]\<rparr>" and "p_id (fst row) = i"
    using assms(3) by (auto simp: create_provider_connection_def Let_def)
  then have ids: "provider_ids d' = provider_ids d @ [i]" "account_ids d' = account_ids d"
      "session_ids d' = session_ids d" "log_ids d' = log_ids d"
    by (auto simp: ids_defs split: prod.splits)
  have tables: "db_accounts d' = db_accounts d" "db_sessions d' = db_sessions d"
      "db_cache d' = db_cache d" "db_request_debug d' = db_request_debug d"
      "db_response_debug d' = db_response_debug d"
    by (simp_all add: d')
  have "set (provider_ids d) \<subseteq> set (provider_ids d')" using ids by auto
  then have "session_links d'" "cache_links d'" "debug_links d'"
    using assms(1)
    by (auto simp: links_defs db_ok_def Let_def ids(2) tables intro: links_mono [OF _ _ subset_refl])
  then show ?thesis using assms by (auto simp: db_ok_def Let_def ids tables)
qed

lemma create_account_ok:
  assumes "db_ok \<lparr>w_used = u, w_db = d\<rparr>" and "i \<notin> u"
    and "create_provider_account now i proxy_error na d = Inr (a, d')"
  shows "db_ok \<lparr>w_used = insert i u, w_db = d'\<rparr>"
proof -
  have d': "d' = d\<lparr>db_accounts := db_accounts d @ [a]\<rparr>" and i: "a_id a = i"
    and p: "find_provider_connection_by_id (a_provider_connection_id a) d \<noteq> None"
    using assms(3) by (auto simp: create_provider_account_def rbind_Inr Let_def split: if_splits)
  have ids: "provider_ids d' = provider_ids d" "account_ids d' = account_ids d @ [i]"
      "session_ids d' = session_ids d" "log_ids d' = log_ids d"
    using i by (simp_all add: ids_defs d')
  have tables: "db_accounts d' = db_accounts d @ [a]" "db_sessions d' = db_sessions d"
      "db_cache d' = db_cache d" "db_request_debug d' = db_request_debug d"
      "db_response_debug d' = db_response_debug d"
    by (simp_all add: d')
  have "set (account_ids d) \<subseteq> set (account_ids d')" using ids by auto
  then have "session_links d'" "cache_links d'" "debug_links d'"
    using assms(1)
    by (auto simp: links_defs db_ok_def Let_def ids(1) tables intro: links_mono [OF _ subset_refl])
  moreover have "a_provider_connection_id a \<in> set (provider_ids d)"
    using p by (simp only: find_provider_mem)
  ultimately show ?thesis using assms by (auto simp: db_ok_def Let_def ids tables)
qed

lemma check_session_account_refers:
  "check_session_account ns d = Inr () \<Longrightarrow> ns_provider_account_id ns = Some j \<Longrightarrow> j \<in> set (account_ids d)"
  by (cases "get_provider_account j d")
    (auto simp: check_session_account_def find_account_mem [symmetric])

lemma create_session_ok:
  assumes "db_ok \<lparr>w_used = u, w_db = d\<rparr>" and "i \<notin> u"
    and "create_oauth_session now i conflict ns d = Inr (s, d')"
  shows "db_ok \<lparr>w_used = insert i u, w_db = d'\<rparr>"
proof -
  have d': "d' = d\<lparr>db_sessions := db_sessions d @ [s]\<rparr>" and i: "s_id s = i"
    and p: "find_provider_connection_by_id (s_provider_connection_id s) d \<noteq> None"
    and st: "s_state s \<notin> set (map s_state (db_sessions d))"
    and acc: "check_session_account ns d = Inr ()"
      "s_provider_account_id s = ns_provider_account_id ns"
    using assms(3)
    by (auto simp: create_oauth_session_def rbind_Inr Let_def list_ex_iff split: if_splits)
  have ids: "provider_ids d' = provider_ids d" "account_ids d' = account_ids d"
      "session_ids d' = session_ids d @ [i]" "log_ids d' = log_ids d"
    using i by (simp_all add: ids_defs d')
  have tables: "db_accounts d' = db_accounts d" "db_sessions d' = db_sessions d @ [s]"
      "db_cache d' = db_cache d" "db_request_debug d' = db_request_debug d"
      "db_response_debug d' = db_response_debug d"
    by (simp_all add: d')
  have "session_links d'"
    using assms(1) p check_session_account_refers [OF acc(1)]
    unfolding find_provider_mem
    by (simp add: db_ok_def Let_def session_links_def ids tables acc(2))
  moreover have "cache_links d'" "debug_links d'"
    using assms(1) by (simp_all add: db_ok_def Let_def links_defs ids tables)
  ultimately show ?thesis using assms st by (auto simp: db_ok_def Let_def ids tables)
qed

lemma delete_sessions_ok:
  assumes "db_ok \<lparr>w_used = u, w_db = d\<rparr>" and "d' = d\<lparr>db_sessions := filter P (db_sessions d)\<rparr>"
  shows "db_ok \<lparr>w_used = u, w_db = d'\<rparr>"
  using assms
  by (auto simp: db_ok_def Let_def ids_defs links_defs intro: distinct_map_filter links_ok_filter)

lemma delete_account_ok:
  assumes ok: "db_ok \<lparr>w_used = u, w_db = d\<rparr>" and "delete_provider_account i d = (b, d')"
  shows "db_ok \<lparr>w_used = u, w_db = d'\<rparr>"
proof -
  have d': "db_accounts d' = filter (\<lambda>a. a_id a \<noteq> i) (db_accounts d)"
      "db_sessions d' = drop_account s_provider_account_id clear_session i (db_sessions d)"
      "db_cache d' = drop_account cache_account clear_cache i (db_cache d)"
      "db_request_debug d' = drop_account dq_provider_account_id clear_request_debug i (db_request_debug d)"
      "db_response_debug d' = drop_account dr_provider_account_id clear_response_debug i (db_response_debug d)"
      "provider_ids d' = provider_ids d" "log_ids d' = log_ids d"
    using assms(2) by (auto simp: delete_provider_account_def ids_defs)
  have ids: "set (account_ids d') = set (account_ids d) - {i}" "session_ids d' = session_ids d"
      "map s_state (db_sessions d') = map s_state (db_sessions d)"
    by (auto simp: account_ids_def session_ids_def d' sessions.drop_account_keeps clear_session_def)
  have "session_links d'" "cache_links d'" "debug_links d'"
    using ok sessions.drop_account_links cached.drop_account_links sent_bodies.drop_account_links
      got_bodies.drop_account_links
    by (simp_all add: db_ok_def Let_def links_defs d' ids)
  moreover have "distinct (account_ids d')"
    using ok by (simp add: account_ids_def d' db_ok_def Let_def distinct_map_filter)
  ultimately show ?thesis using ok ids by (auto simp: db_ok_def Let_def d'(1,6,7))
qed

lemma delete_provider_ok:
  assumes ok: "db_ok \<lparr>w_used = u, w_db = d\<rparr>" and "delete_provider_connection i d = (b, d')"
  shows "db_ok \<lparr>w_used = u, w_db = d'\<rparr>"
proof -
  let ?gone = "map a_id (filter (\<lambda>a. a_provider_connection_id a = i) (db_accounts d))"
  let ?kept = "filter (\<lambda>s. s_provider_connection_id s \<noteq> i) (db_sessions d)"
  have d': "db_accounts d' = filter (\<lambda>a. a_provider_connection_id a \<noteq> i) (db_accounts d)"
      "db_sessions d' = drop_connection s_provider_connection_id s_provider_account_id clear_session
         i ?gone (db_sessions d)"
      "db_cache d' = drop_connection cache_owner cache_account clear_cache i ?gone (db_cache d)"
      "db_request_debug d' = drop_connection dq_provider_id dq_provider_account_id
         clear_request_debug i ?gone (db_request_debug d)"
      "db_response_debug d' = drop_connection dr_provider_id dr_provider_account_id
         clear_response_debug i ?gone (db_response_debug d)"
      "provider_ids d' = filter (\<lambda>x. x \<noteq> i) (provider_ids d)" "log_ids d' = log_ids d"
    using assms(2)
    by (auto simp: delete_provider_connection_def provider_ids_def log_ids_def filter_map comp_def
        case_prod_unfold Let_def)
  have pids: "set (provider_ids d') = set (provider_ids d) - {i}" by (auto simp: d')
  have dist: "distinct (account_ids d)" using ok by (simp add: db_ok_def Let_def)
  have aids: "set (account_ids d') = set (account_ids d) - set ?gone"
    using dist by (auto simp: account_ids_def d' distinct_map inj_on_def)
  have sids: "session_ids d' = map s_id ?kept" "map s_state (db_sessions d') = map s_state ?kept"
    by (simp_all add: session_ids_def d' sessions.drop_connection_keeps clear_session_def)
  have links: "session_links d'" "cache_links d'" "debug_links d'"
    using ok sessions.drop_connection_links cached.drop_connection_links
      sent_bodies.drop_connection_links got_bodies.drop_connection_links
    by (simp_all only: db_ok_def Let_def links_defs d'(2-5) pids aids world.simps)
  have accs: "\<forall>a \<in> set (db_accounts d'). a_provider_connection_id a \<in> set (provider_ids d')"
    using ok by (auto simp: db_ok_def Let_def pids d'(1))
  have "distinct (account_ids d')" "distinct (provider_ids d')"
    using ok by (simp_all add: account_ids_def d' db_ok_def Let_def distinct_map_filter)
  moreover have "distinct (session_ids d')" "distinct (map s_state (db_sessions d'))"
    using ok unfolding sids by (simp_all add: db_ok_def Let_def session_ids_def distinct_map_filter)
  moreover have "set (session_ids d') \<subseteq> u"
    using ok unfolding sids by (auto simp: db_ok_def Let_def session_ids_def)
  moreover have "set (account_ids d') \<subseteq> u" "set (provider_ids d') \<subseteq> u"
    using ok by (auto simp: db_ok_def Let_def aids pids)
  ultimately show ?thesis
    using ok links accs by (simp add: db_ok_def Let_def d'(7))
qed

lemma consume_same_shape: "mark_oauth_session_consumed now i d = (b, d') \<Longrightarrow> same_shape d d'"
  by (auto simp: mark_oauth_session_consumed_def same_shape_def provider_ids_def map_update_rows)

lemma update_account_same_shape:
  assumes "update_account i f d = (b, d')" and "\<And>a. a_id (f a) = a_id a"
    and "\<And>a. a_provider_connection_id (f a) = a_provider_connection_id a"
  shows "same_shape d d'"
  using assms same_shape_account [of f d i] by (auto simp: update_account_def)

lemmas account_updates = update_provider_account_api_key_def
  update_provider_account_oauth_credentials_def record_provider_account_refresh_error_def
  set_provider_account_enabled_def

text \<open>The steps on the cache and the logs.\<close>

lemma obj_insert_set: "set (obj_insert k v ob) \<subseteq> insert (k, v) (set ob)"
  by (induction ob rule: obj_insert.induct) auto

lemma cache_insert_links:
  assumes "cache_links d" and "ce_provider_id row \<in> set (provider_ids d)"
    and "\<And>j. ce_provider_account_id row = Some j \<Longrightarrow> j \<in> set (account_ids d)"
  shows "cache_links (d\<lparr>db_cache := obj_insert k row (db_cache d)\<rparr>)"
  using assms obj_insert_set [of k row "db_cache d"]
  by (auto simp: cache_links_def links_ok_def cache_owner_def cache_account_def provider_ids_def
      account_ids_def dest!: subsetD)

lemma cache_row_links:
  assumes "cache_links d" and "obj_get k (db_cache d) = Some r"
  shows "ce_provider_id r \<in> set (provider_ids d)"
    and "ce_provider_account_id r = Some j \<Longrightarrow> j \<in> set (account_ids d)"
  using assms by (auto simp: cache_links_def links_ok_def cache_owner_def cache_account_def
      obj_get_def dest!: map_of_SomeD)

lemma cache_find_ok:
  assumes ok: "db_ok \<lparr>w_used = u, w_db = d\<rparr>" and "find_response_cache_entry now k ns h d = (r, d')"
  shows "db_ok \<lparr>w_used = u, w_db = d'\<rparr>"
proof -
  have links: "cache_links d" using ok by (simp add: db_ok_def Let_def)
  have "same_core d d'" "debug_links d'" "log_ids d' = log_ids d"
    using assms by (auto simp: find_response_cache_entry_def same_core_def db_ok_def Let_def
        links_defs ids_defs split: option.splits)
  moreover have "cache_links d'"
  proof (cases "fst (find_response_cache_entry now k ns h d)")
    case None
    then show ?thesis using assms(2) links
      by (auto simp: find_response_cache_entry_def split: option.splits)
  next
    case (Some row)
    then have row: "obj_get k (db_cache d) = Some row"
      and d': "d' = d\<lparr>db_cache := obj_insert k
             (row\<lparr>ce_hit_count := ce_hit_count row + 1, ce_last_hit_at := Some now,
                  ce_updated_at := now\<rparr>) (db_cache d)\<rparr>"
      using assms(2) by (auto simp: find_response_cache_entry_def split: option.splits if_splits)
    show ?thesis
      unfolding d' using cache_row_links [OF links row]
      by (intro cache_insert_links [OF links]) simp_all
  qed
  ultimately show ?thesis
    using ok same_core_ok [OF _ ok subset_refl] by (simp add: db_ok_def Let_def)
qed

lemma cache_upsert_ok:
  assumes ok: "db_ok \<lparr>w_used = u, w_db = d\<rparr>" and "upsert_response_cache_entry now conflict e d = Inr d'"
  shows "db_ok \<lparr>w_used = u, w_db = d'\<rparr>"
proof -
  have refers: "refers_ok (ce_provider_id e) (ce_provider_account_id e) d"
    and d': "d' = store_cache_row now e d" using assms(2) by (auto simp: upsert_Inr)
  have links: "cache_links d" using ok by (simp add: db_ok_def Let_def)
  have "cache_links d'"
    using refers unfolding d' store_cache_row_def Let_def
    by (intro cache_insert_links [OF links])
      (auto simp: refers_ok_iff cache_entry.defs cache_row.defs split: option.split)
  moreover have "same_core d d'" "debug_links d'" "log_ids d' = log_ids d"
    using ok by (auto simp: d' store_cache_row_def same_core_def db_ok_def Let_def links_defs ids_defs)
  ultimately show ?thesis
    using ok same_core_ok [OF _ ok subset_refl] by (simp add: db_ok_def Let_def)
qed

lemma request_debug_ok:
  assumes ok: "db_ok \<lparr>w_used = u, w_db = d\<rparr>"
    and "insert_request_debug_log now i conflict inp d = Inr (r, d')"
  shows "db_ok \<lparr>w_used = insert i u, w_db = d'\<rparr>"
proof -
  have d': "d' = d\<lparr>db_request_debug := db_request_debug d @ [r]\<rparr>"
    and r: "refers_ok (dq_provider_id r) (dq_provider_account_id r) d"
    using assms(2) by (auto simp: insert_request_debug_log_def Let_def new_request_debug_log.defs
        request_debug_log.defs split: if_splits)
  have "same_core d d'" by (simp add: same_core_def d')
  moreover have "debug_links d'"
    using ok r by (simp add: d' debug_links_def db_ok_def Let_def refers_ok_iff provider_ids_def
        account_ids_def)
  moreover have "cache_links d'" "log_ids d' = log_ids d"
    using ok by (simp_all add: d' db_ok_def Let_def cache_links_def ids_defs)
  ultimately show ?thesis
    using ok same_core_ok [OF _ ok subset_insertI] by (simp add: db_ok_def Let_def)
qed

lemma response_debug_ok:
  assumes ok: "db_ok \<lparr>w_used = u, w_db = d\<rparr>"
    and "insert_response_debug_log now i conflict inp d = Inr (r, d')"
  shows "db_ok \<lparr>w_used = insert i u, w_db = d'\<rparr>"
proof -
  have d': "d' = d\<lparr>db_response_debug := db_response_debug d @ [r]\<rparr>"
    and r: "refers_ok (dr_provider_id r) (dr_provider_account_id r) d"
    using assms(2) by (auto simp: insert_response_debug_log_def Let_def new_response_debug_log.defs
        response_debug_log.defs split: if_splits)
  have "same_core d d'" by (simp add: same_core_def d')
  moreover have "debug_links d'"
    using ok r by (simp add: d' debug_links_def db_ok_def Let_def refers_ok_iff provider_ids_def
        account_ids_def)
  moreover have "cache_links d'" "log_ids d' = log_ids d"
    using ok by (simp_all add: d' db_ok_def Let_def cache_links_def ids_defs)
  ultimately show ?thesis
    using ok same_core_ok [OF _ ok subset_insertI] by (simp add: db_ok_def Let_def)
qed

lemma request_log_ok:
  assumes ok: "db_ok \<lparr>w_used = u, w_db = d\<rparr>" and "insert_request_log now conflict inp d = Inr d'"
  shows "db_ok \<lparr>w_used = u, w_db = d'\<rparr>"
proof -
  have d': "d' = d\<lparr>db_request_logs := db_request_logs d
        @ [new_request_log.extend inp (request_log.fields now)]\<rparr>"
    and new: "rl_id inp \<notin> set (log_ids d)"
    using assms(2) by (auto simp: insert_request_log_def log_ids_def list_ex_iff split: if_splits)
  have "same_core d d'" by (simp add: same_core_def d')
  moreover have "distinct (log_ids d')"
    using ok new by (simp add: log_ids_def d' db_ok_def Let_def new_request_log.defs request_log.defs)
  moreover have "cache_links d'" "debug_links d'"
    using ok by (simp_all add: d' db_ok_def Let_def links_defs ids_defs)
  ultimately show ?thesis
    using ok same_core_ok [OF _ ok subset_refl] by (simp add: db_ok_def Let_def)
qed

lemma finalize_log_ok:
  assumes ok: "db_ok \<lparr>w_used = u, w_db = d\<rparr>"
  shows "db_ok \<lparr>w_used = u, w_db = finalize_stream_request_log i inp outp cached cost duration d\<rparr>"
proof -
  let ?d = "finalize_stream_request_log i inp outp cached cost duration d"
  have same: "db_cache ?d = db_cache d" "db_request_debug ?d = db_request_debug d"
      "db_response_debug ?d = db_response_debug d" "same_core d ?d"
    by (simp_all add: finalize_stream_request_log_def same_core_def)
  have "log_ids ?d = log_ids d"
    by (simp add: log_ids_def finalize_stream_request_log_def map_update_rows)
  moreover have "cache_links ?d" "debug_links ?d"
    using ok same_core_links [OF same(4)] by (simp_all add: db_ok_def Let_def links_defs same)
  ultimately show ?thesis
    using ok same_core_ok [OF same(4) ok subset_refl] by (simp add: db_ok_def Let_def)
qed

theorem db_step_ok: "db_step w w' \<Longrightarrow> db_ok w \<Longrightarrow> db_ok w'"
proof (induction rule: db_step.induct)
  case (step_create_provider i u now np d p d')
  then show ?case by (blast intro: create_provider_ok)
next
  case (step_base_url now i url d b d' u)
  then show ?case
    by (auto simp: update_provider_connection_base_url_def
        intro!: same_shape_ok [OF same_shape_provider])
next
  case (step_name now i n d b d' u)
  then show ?case
    by (auto simp: update_provider_connection_name_def
        intro!: same_shape_ok [OF same_shape_provider])
next
  case (step_delete_provider i d b d' u)
  then show ?case by (blast intro: delete_provider_ok)
next
  case (step_provider_failure u d now i m)
  then show ?case
    by (auto simp: mark_provider_failure_def fail_provider_def
        intro!: same_shape_ok [OF same_shape_provider])
next
  case (step_provider_success u d now i)
  then show ?case
    by (auto simp: mark_provider_success_def succeed_provider_def
        intro!: same_shape_ok [OF same_shape_provider])
next
  case (step_create_account i u now proxy_error na d a d')
  then show ?case by (blast intro: create_account_ok)
next
  case (step_account_proxy now proxy_error i url d b d' u)
  then obtain v where "update_account i (\<lambda>a. a\<lparr>a_proxy_url := v, a_updated_at := now\<rparr>) d = (b, d')"
    by (auto simp: update_provider_account_proxy_def rbind_Inr)
  then have "same_shape d d'" by (rule update_account_same_shape) simp_all
  with step_account_proxy show ?case by (blast intro: same_shape_ok)
next
  case (step_account_key now i k d b d' u)
  then have "same_shape d d'" unfolding account_updates
    by (elim update_account_same_shape) simp_all
  with step_account_key show ?case by (blast intro: same_shape_ok)
next
  case (step_account_oauth now i acc ref ex sc ri re fed k d b d' u)
  then have "same_shape d d'" unfolding account_updates
    by (elim update_account_same_shape) simp_all
  with step_account_oauth show ?case by (blast intro: same_shape_ok)
next
  case (step_account_refresh_error now i m d b d' u)
  then have "same_shape d d'" unfolding account_updates
    by (elim update_account_same_shape) simp_all
  with step_account_refresh_error show ?case by (blast intro: same_shape_ok)
next
  case (step_account_enabled now i e d b d' u)
  then have "same_shape d d'" unfolding account_updates
    by (elim update_account_same_shape) simp_all
  with step_account_enabled show ?case by (blast intro: same_shape_ok)
next
  case (step_delete_account i d b d' u)
  then show ?case by (blast intro: delete_account_ok)
next
  case (step_account_failure u d now i m)
  then show ?case
    by (auto simp: mark_provider_account_failure_def
        intro!: same_shape_ok [OF same_shape_account])
next
  case (step_account_success u d now i)
  then show ?case
    by (auto simp: mark_provider_account_success_def
        intro!: same_shape_ok [OF same_shape_account])
next
  case (step_create_session i u now conflict ns d s d')
  then show ?case by (blast intro: create_session_ok)
next
  case (step_consume now i d b d' u)
  then show ?case by (blast intro: consume_same_shape same_shape_ok)
next
  case (step_delete_session i d b d' u)
  then show ?case by (auto simp: delete_oauth_session_def intro: delete_sessions_ok)
next
  case (step_expire_sessions now d n d' u)
  then show ?case by (auto simp: delete_expired_oauth_sessions_def intro: delete_sessions_ok)
next
  case (step_create_combo now i conflict nc d c d' u)
  then show ?case
    by (intro untouched_ok(2) [of d' d]) (auto simp: create_combo_def Let_def split: if_splits)
next
  case (step_upsert_alias u d al target)
  then show ?case by (rule untouched_ok(1) [of _ d, rotated]) (simp_all add: upsert_alias_def)
next
  case (step_delete_alias al d b d' u)
  then show ?case by (intro untouched_ok(1) [of d' d]) (auto simp: delete_alias_def)
next
  case (step_set_setting u d k v)
  then show ?case by (rule untouched_ok(1) [of _ d, rotated]) (simp_all add: set_setting_def)
next
  case (step_touch_key u d now i)
  then show ?case by (rule untouched_ok(1) [of _ d, rotated]) (simp_all add: touch_api_key_usage_def)
next
  case (step_create_key now conflict i n h pre allowed d d' u)
  then show ?case
    by (intro untouched_ok(2) [of d' d]) (auto simp: create_api_key_def split: if_splits)
next
  case (step_revoke_key i d b d' u)
  then show ?case by (intro untouched_ok(1) [of d' d]) (auto simp: revoke_api_key_def)
next
  case (step_cache_find now k ns h d r d' u)
  then show ?case by (blast intro: cache_find_ok)
next
  case (step_cache_upsert now conflict e d d' u)
  then show ?case by (blast intro: cache_upsert_ok)
next
  case (step_cache_purge now d n d' u)
  then show ?case
    by (intro same_core_ok [of d d' u])
      (auto simp: same_core_def purge_expired_response_cache_entries_def db_ok_def Let_def links_defs
        ids_defs intro: links_ok_filter)
next
  case (step_request_debug now i conflict inp d r d' u)
  then show ?case by (blast intro: request_debug_ok)
next
  case (step_response_debug now i conflict inp d r d' u)
  then show ?case by (blast intro: response_debug_ok)
next
  case (step_request_log now conflict inp d d' u)
  then show ?case by (blast intro: request_log_ok)
next
  case (step_finalize_log u d i inp outp cached cost duration)
  then show ?case by (blast intro: finalize_log_ok)
next
  case (step_clear_logs d n d' u)
  then show ?case
    by (intro same_core_ok [of d d' u])
      (auto simp: same_core_def clear_request_logs_def db_ok_def Let_def links_defs ids_defs)
qed

section \<open>Sessions are consumed at most once\<close>

definition spent :: "string \<Rightarrow> world \<Rightarrow> bool" where
  "spent i w \<longleftrightarrow> i \<in> w_used w \<and> \<not> list_ex (unconsumed i) (db_sessions (w_db w))"

lemma unconsumed_updates [simp]:
  "unconsumed i (s\<lparr>s_provider_account_id := x\<rparr>) = unconsumed i s"
  "\<not> unconsumed i (s\<lparr>s_consumed_at := Some now\<rparr>)"
  by (simp_all add: unconsumed_def)

lemma list_ex_unconsumed_update:
  "(\<And>s. unconsumed i (f s) \<Longrightarrow> unconsumed i s)
     \<Longrightarrow> list_ex (unconsumed i) (update_rows p f ss) \<Longrightarrow> list_ex (unconsumed i) ss"
  by (induction ss) (auto simp: update_rows_def split: if_splits)

lemma list_ex_filter: "list_ex q (filter p ss) \<Longrightarrow> list_ex q ss"
  by (induction ss) (auto split: if_splits)

lemmas session_effects = create_provider_connection_def update_provider_connection_base_url_def
  update_provider_connection_name_def update_provider_rows_def mark_provider_failure_def
  mark_provider_success_def create_provider_account_def update_provider_account_proxy_def
  account_updates update_account_def update_account_rows_def mark_provider_account_failure_def
  mark_provider_account_success_def create_combo_def upsert_alias_def delete_alias_def
  set_setting_def touch_api_key_usage_def create_api_key_def revoke_api_key_def
  find_response_cache_entry_def upsert_Inr store_cache_row_def
  purge_expired_response_cache_entries_def insert_request_debug_log_def
  insert_response_debug_log_def insert_request_log_def finalize_stream_request_log_def
  clear_request_logs_def

lemma unconsumed_step:
  "db_step w w' \<Longrightarrow> list_ex (unconsumed i) (db_sessions (w_db w')) \<Longrightarrow> i \<in> w_used w
     \<Longrightarrow> list_ex (unconsumed i) (db_sessions (w_db w))"
proof (induction rule: db_step.induct)
  case (step_delete_provider j d b d' u)
  then show ?case
    by (auto simp: delete_provider_connection_def drop_connection_def clear_session_def Let_def
        dest!: list_ex_unconsumed_update [rotated] list_ex_filter)
next
  case (step_delete_account j d b d' u)
  then show ?case
    by (auto simp: delete_provider_account_def drop_account_def clear_session_def
        dest!: list_ex_unconsumed_update [rotated])
next
  case (step_create_session j u now conflict ns d s d')
  then show ?case
    by (auto simp: create_oauth_session_def rbind_Inr Let_def unconsumed_def split: if_splits)
next
  case (step_consume now j d b d' u)
  then show ?case
    by (auto simp: mark_oauth_session_consumed_def
        dest!: list_ex_unconsumed_update [rotated])
next
  case (step_delete_session j d b d' u)
  then show ?case by (auto simp: delete_oauth_session_def dest!: list_ex_filter)
next
  case (step_expire_sessions now d n d' u)
  then show ?case by (auto simp: delete_expired_oauth_sessions_def dest!: list_ex_filter)
next
  case (step_cache_find now k ns h d r d' u)
  then show ?case by (auto simp: find_response_cache_entry_def split: option.splits)
qed (auto simp: session_effects rbind_Inr Let_def split: if_splits)

lemma used_step: "db_step w w' \<Longrightarrow> w_used w \<subseteq> w_used w'"
  by (induction rule: db_step.induct) auto

lemma spent_step: "db_step w w' \<Longrightarrow> spent i w \<Longrightarrow> spent i w'"
  using unconsumed_step [of w w' i] used_step [of w w'] by (auto simp: spent_def)

lemma spent_steps: "db_step\<^sup>*\<^sup>* w w' \<Longrightarrow> spent i w \<Longrightarrow> spent i w'"
  by (induction rule: rtranclp_induct) (auto intro: spent_step)

lemma db_steps_ok: "db_step\<^sup>*\<^sup>* w w' \<Longrightarrow> db_ok w \<Longrightarrow> db_ok w'"
  by (induction rule: rtranclp_induct) (auto intro: db_step_ok)

lemma consume_spends:
  assumes "mark_oauth_session_consumed now i d = (True, d')" and "db_ok \<lparr>w_used = u, w_db = d\<rparr>"
  shows "spent i \<lparr>w_used = u, w_db = d'\<rparr>"
proof -
  obtain s where "s \<in> set (db_sessions d)" and "s_id s = i"
    using assms(1) by (auto simp: mark_oauth_session_consumed_def list_ex_iff unconsumed_def)
  then have "i \<in> set (session_ids d)" by (auto simp: session_ids_def)
  then have "i \<in> u" using assms(2) by (auto simp: db_ok_def Let_def)
  moreover have "\<not> list_ex (unconsumed i) (db_sessions d')"
    using assms(1)
    by (auto simp: mark_oauth_session_consumed_def list_ex_iff set_update_rows split: if_splits)
      (metis unconsumed_updates(2))
  ultimately show ?thesis by (simp add: spent_def)
qed

lemma spent_not_consumed: "spent i \<lparr>w_used = u, w_db = d\<rparr> \<Longrightarrow> \<not> fst (mark_oauth_session_consumed now i d)"
  by (simp add: spent_def mark_oauth_session_consumed_def)

definition empty_db :: db where
  "empty_db = \<lparr>db_providers = [], db_accounts = [], db_sessions = [], db_combos = [],
     db_aliases = [], db_settings = [], db_api_keys = [], db_cache = [],
     db_request_logs = [], db_request_debug = [], db_response_debug = []\<rparr>"

lemma empty_db_ok: "db_ok \<lparr>w_used = {}, w_db = empty_db\<rparr>"
  by (simp add: db_ok_def empty_db_def ids_defs links_defs)

end
