(* ===== verification/Requests.thy ===== *)
theory Requests
  imports Trans_Hub
begin

text \<open>
  What the router does to bodies on its own account (\<open>src/service.rs\<close>): normalising a
  client's request for its endpoint, rewriting it for a Codex provider, shaping a successful
  answer for the endpoint the client called, and reading a model identifier.
\<close>

section \<open>Normalising a request\<close>

record normalized_request =
  nr_model :: string
  nr_stream :: bool
  nr_body :: json
  nr_inject_model :: bool

definition user_message :: "json \<Rightarrow> json" where
  "user_message content = json_obj [(''role'', JStr ''user''), (''content'', content)]"

definition prompt_text :: "'a codec_scheme \<Rightarrow> json \<Rightarrow> string" where
  "prompt_text c prompt =
     (case prompt of
        JArr vs \<Rightarrow> str_join [newline] (map (\<lambda>v. unwrap_or [] (as_str v)) vs)
      | JStr t \<Rightarrow> t
      | _ \<Rightarrow> json_print c prompt)"

definition input_messages :: "json \<Rightarrow> json" where
  "input_messages inp =
     (case inp of
        JStr t \<Rightarrow> JArr [user_message (JStr t)]
      | JArr items \<Rightarrow> JArr (map (\<lambda>i. if jget ''role'' i \<noteq> None then i else user_message i) items)
      | _ \<Rightarrow> JArr [user_message inp])"

definition require :: "string \<Rightarrow> string \<Rightarrow> obj \<Rightarrow> obj app_result" where
  "require k err ob = (if obj_get k ob = None then Inl (BadRequest err) else Inr ob)"

definition normalize_completions :: "'a codec_scheme \<Rightarrow> obj \<Rightarrow> obj app_result" where
  "normalize_completions c ob =
     (if obj_get ''messages'' ob \<noteq> None then Inr ob
      else rbind (ok_or (BadRequest ''missing prompt'') (obj_get ''prompt'' ob)) (\<lambda>prompt.
        Inr (obj_insert ''messages'' (JArr [user_message (JStr (prompt_text c prompt))])
               (obj_remove ''prompt'' ob))))"

definition normalize_messages :: "obj \<Rightarrow> obj" where
  "normalize_messages ob =
     obj_or_insert ''stream'' (JBool False)
       (case (obj_get ''messages'' ob, obj_get ''input'' ob) of
          (None, Some inp) \<Rightarrow> obj_insert ''messages'' inp ob
        | _ \<Rightarrow> ob)"

definition normalize_responses :: "obj \<Rightarrow> obj" where
  "normalize_responses ob =
     (case (obj_get ''messages'' ob, obj_get ''input'' ob) of
        (None, Some inp) \<Rightarrow> obj_insert ''messages'' (input_messages inp) ob
      | _ \<Rightarrow> ob)"

definition normalize_rerank :: "obj \<Rightarrow> obj app_result" where
  "normalize_rerank ob =
     rbind (require ''query'' ''rerank request requires query'' ob) (\<lambda>ob.
     rbind (ok_or (BadRequest ''rerank request requires documents array'')
              (Option.bind (obj_get ''documents'' ob) as_array)) (\<lambda>documents.
       if documents = [] then Inl (BadRequest ''rerank request requires at least one document'')
       else Inr ob))"

definition normalize_search :: "obj \<Rightarrow> obj app_result" where
  "normalize_search ob =
     rbind (require ''query'' ''search request requires query'' ob) (\<lambda>ob.
       let ob = obj_or_insert ''provider'' (JStr ''web'')
                  (obj_or_insert ''model'' (JStr ''search/web'') ob)
       in Inr (obj_or_insert ''search_type'' (unwrap_or (JStr ''web'') (obj_get ''provider'' ob)) ob))"

definition normalize_endpoint :: "'a codec_scheme \<Rightarrow> endpoint \<Rightarrow> obj \<Rightarrow> obj app_result" where
  "normalize_endpoint c e ob =
     (case e of
        Completions \<Rightarrow> normalize_completions c ob
      | Messages \<Rightarrow> Inr (normalize_messages ob)
      | Responses \<Rightarrow> Inr (normalize_responses ob)
      | Files \<Rightarrow> Inl (BadRequest ''files endpoints should use raw proxy routing'')
      | OllamaChat \<Rightarrow> require ''messages'' ''ollama chat requires messages'' ob
      | Embeddings \<Rightarrow> require ''input'' ''embeddings request requires input'' ob
      | ImagesGenerations \<Rightarrow> require ''prompt'' ''image generation request requires prompt'' ob
      | MusicGenerations \<Rightarrow> require ''prompt'' ''music generation request requires prompt'' ob
      | VideosGenerations \<Rightarrow> require ''prompt'' ''video generation request requires prompt'' ob
      | Moderations \<Rightarrow>
          rbind (require ''input'' ''moderation request requires input'' ob) (\<lambda>ob.
            Inr (obj_or_insert ''model'' (JStr ''openai/omni-moderation-latest'') ob))
      | Rerank \<Rightarrow> normalize_rerank ob
      | Search \<Rightarrow> normalize_search ob
      | AudioSpeech \<Rightarrow>
          rbind (require ''input'' ''audio speech request requires input'' ob) (\<lambda>ob.
            Inr (obj_or_insert ''voice'' (JStr ''alloy'') ob))
      | AudioTranscriptions \<Rightarrow>
          Inl (BadRequest ''audio transcriptions require multipart/form-data'')
      | ChatCompletions \<Rightarrow> Inr ob)"

definition normalize_request :: "'a codec_scheme \<Rightarrow> endpoint \<Rightarrow> json \<Rightarrow> normalized_request app_result" where
  "normalize_request c e payload =
     rbind (ok_or (BadRequest ''request body must be a JSON object'') (as_object payload)) (\<lambda>ob.
     rbind (normalize_endpoint c e ob) (\<lambda>ob.
     rbind (ok_or (BadRequest ''missing model'') (Option.bind (obj_get ''model'' ob) as_str)) (\<lambda>model.
       Inr \<lparr>nr_model = model,
            nr_stream = unwrap_or False (Option.bind (obj_get ''stream'' ob) as_bool),
            nr_body = JObj ob,
            nr_inject_model = (e \<noteq> Search)\<rparr>)))"

section \<open>Rewriting for Codex\<close>

definition is_codex_provider :: "provider \<Rightarrow> bool" where
  "is_codex_provider p \<longleftrightarrow> eq_ignore_ascii_case (p_provider p) ''codex''"

definition codex_item_text :: "json \<Rightarrow> string option" where
  "codex_item_text item =
     (if get_str ''type'' item \<in> {Some ''text'', Some ''input_text'', Some ''output_text''}
      then get_str ''text'' item else as_str item)"

definition codex_message_text :: "'a codec_scheme \<Rightarrow> json \<Rightarrow> string option" where
  "codex_message_text c content =
     (case content of
        JStr t \<Rightarrow> Some t
      | JArr items \<Rightarrow>
          (let text = str_join [newline] (List.map_filter codex_item_text items) in
           if text = [] then None else Some text)
      | JNull \<Rightarrow> None
      | _ \<Rightarrow> Some (json_print c content))"

definition codex_response_instructions :: "'a codec_scheme \<Rightarrow> json \<Rightarrow> json \<Rightarrow> string" where
  "codex_response_instructions c body normalized =
     unwrap_or [] (or_else (get_str ''instructions'' body)
       (map_option (\<lambda>ms. str_join [newline, newline]
           (filter (\<lambda>t. trim t \<noteq> [])
             (List.map_filter (\<lambda>m. codex_message_text c (jindex ''content'' m))
               (filter (\<lambda>m. get_str ''role'' m = Some ''system'') ms))))
          (get_array ''messages'' normalized)))"

definition codex_response_message_item :: "'a codec_scheme \<Rightarrow> string \<Rightarrow> json \<Rightarrow> json" where
  "codex_response_message_item c role content = json_obj
     [(''type'', JStr ''message''), (''role'', JStr role),
      (''content'', response_input_content c content)]"

definition codex_response_input_from_messages :: "'a codec_scheme \<Rightarrow> json list \<Rightarrow> json list" where
  "codex_response_input_from_messages c ms =
     List.map_filter (\<lambda>m.
       let role = unwrap_or ''user'' (get_str ''role'' m) in
       if role = ''system'' then None
       else Some (codex_response_message_item c role (jindex ''content'' m))) ms"

definition codex_input_is_response_items :: "json option \<Rightarrow> bool" where
  "codex_input_is_response_items v =
     (case v of
        Some (JArr items) \<Rightarrow> list_all (\<lambda>i. jget ''type'' i \<noteq> None) items
      | Some (JObj ob) \<Rightarrow> obj_get ''type'' ob \<noteq> None
      | _ \<Rightarrow> False)"

definition codex_response_input :: "'a codec_scheme \<Rightarrow> json \<Rightarrow> json \<Rightarrow> json" where
  "codex_response_input c body normalized =
     (case opt_filter (\<lambda>items. items \<noteq> [])
             (map_option (codex_response_input_from_messages c)
               (Option.bind (or_else (jget ''messages'' body) (jget ''messages'' normalized)) as_array)) of
        Some items \<Rightarrow> JArr items
      | None \<Rightarrow> JArr [codex_response_message_item c ''user'' (jindex ''input'' body)])"

definition maybe_adapt_codex_responses_request ::
  "'a codec_scheme \<Rightarrow> endpoint \<Rightarrow> provider \<Rightarrow> json \<Rightarrow> json \<Rightarrow> json" where
  "maybe_adapt_codex_responses_request c e p body normalized =
     (if e \<noteq> Responses \<or> \<not> is_codex_provider p then body
      else (case body of
        JObj ob \<Rightarrow>
          (let instructions = (if jget ''instructions'' body = None
                 then Some (codex_response_instructions c body normalized) else None);
               rewritten = (if codex_input_is_response_items (jget ''input'' body) then None
                 else Some (codex_response_input c body normalized));
               ob = insert_opt ''instructions'' (map_option JStr instructions) ob;
               ob = insert_opt ''input'' rewritten ob;
               ob = fold obj_remove [''max_tokens'', ''max_output_tokens'', ''max_completion_tokens''] ob;
               ob = obj_insert ''stream'' (JBool True) ob;
               ob = obj_remove ''messages'' ob
           in JObj (obj_insert ''store'' (JBool False) ob))
      | _ \<Rightarrow> body))"

section \<open>Shaping a successful answer\<close>

definition first_choice :: "json \<Rightarrow> json option" where
  "first_choice body =
     Option.bind (get_array ''choices'' body) (\<lambda>cs. case cs of [] \<Rightarrow> None | c # _ \<Rightarrow> Some c)"

definition extract_assistant_text :: "json \<Rightarrow> string" where
  "extract_assistant_text body =
     unwrap_or [] (Option.bind (Option.bind (first_choice body) (jget ''message''))
       (get_str ''content''))"

definition adapt_to_responses :: "json \<Rightarrow> json" where
  "adapt_to_responses body =
     (if jget ''output'' body \<noteq> None then body
      else json_obj
        [(''id'', unwrap_or (JStr ''resp_kou_router'') (jget ''id'' body)),
         (''object'', JStr ''response''),
         (''model'', unwrap_or JNull (jget ''model'' body)),
         (''output'', JArr [json_obj
            [(''type'', JStr ''message''), (''role'', JStr ''assistant''),
             (''content'', JArr [json_obj [(''type'', JStr ''output_text''),
                                           (''text'', JStr (extract_assistant_text body))]])]]),
         (''raw_openai_chat'', body)])"

definition openai_finish_to_messages_stop_reason :: "string \<Rightarrow> string" where
  "openai_finish_to_messages_stop_reason r =
     (if r = ''length'' then ''max_tokens''
      else if r = ''tool_calls'' \<or> r = ''function_call'' then ''tool_use''
      else ''end_turn'')"

definition openai_usage_to_messages_usage :: "json \<Rightarrow> json" where
  "openai_usage_to_messages_usage usage = json_obj
     [(''input_tokens'', unwrap_or (jnat 0)
        (or_else (jget ''input_tokens'' usage) (jget ''prompt_tokens'' usage))),
      (''output_tokens'', unwrap_or (jnat 0)
        (or_else (jget ''output_tokens'' usage) (jget ''completion_tokens'' usage)))]"

definition adapt_to_messages :: "json \<Rightarrow> json" where
  "adapt_to_messages body =
     JObj (insert_opt ''usage'' (map_option openai_usage_to_messages_usage (jget ''usage'' body))
       (mk_obj
         [(''id'', unwrap_or (JStr ''msg_kou_router'') (jget ''id'' body)),
          (''type'', JStr ''message''),
          (''role'', JStr ''assistant''),
          (''model'', unwrap_or JNull (jget ''model'' body)),
          (''content'', JArr [text_block (extract_assistant_text body)]),
          (''stop_reason'', JStr (unwrap_or ''end_turn''
             (map_option openai_finish_to_messages_stop_reason
               (Option.bind (first_choice body) (get_str ''finish_reason''))))),
          (''raw_openai_chat'', body)]))"

definition adapt_to_ollama :: "json \<Rightarrow> json" where
  "adapt_to_ollama body = json_obj
     [(''model'', unwrap_or (JStr ''unknown'') (jget ''model'' body)),
      (''message'', json_obj [(''role'', JStr ''assistant''),
                              (''content'', JStr (extract_assistant_text body))]),
      (''done'', JBool True),
      (''raw_openai_chat'', body)]"

definition adapt_success_body ::
  "'a codec_scheme \<Rightarrow> endpoint \<Rightarrow> string \<Rightarrow> bool \<Rightarrow> bool \<Rightarrow> json app_result" where
  "adapt_success_body c e body stream_requested upstream_stream =
     (if upstream_stream \<or> stream_requested then
        Inr (json_obj [(''object'', JStr ''stream.capture''), (''stream'', JBool True),
                       (''raw'', JStr body)])
      else rbind (parse_data c body) (\<lambda>v.
        case e of
          Responses \<Rightarrow> Inr (adapt_to_responses v)
        | Messages \<Rightarrow> Inr (adapt_to_messages v)
        | OllamaChat \<Rightarrow> Inr (adapt_to_ollama v)
        | Files \<Rightarrow> Inl (BadRequest ''files endpoints should not use JSON success adapter'')
        | AudioSpeech \<Rightarrow> Inl (BadRequest ''audio endpoints should not use JSON success adapter'')
        | AudioTranscriptions \<Rightarrow>
            Inl (BadRequest ''audio endpoints should not use JSON success adapter'')
        | _ \<Rightarrow> Inr v))"

section \<open>Model identifiers\<close>

definition split_model :: "string \<Rightarrow> (string \<times> string) app_result" where
  "split_model v =
     (case split_once CHR ''/'' v of
        Some (p, m) \<Rightarrow>
          (if p = [] \<or> m = [] then Inl (BadRequest (''invalid model identifier: '' @ v))
           else Inr (p, m))
      | None \<Rightarrow> Inr ([], v))"

section \<open>Facts\<close>

lemma require_Inr [simp]: "require k err ob = Inr ob' \<longleftrightarrow> ob' = ob \<and> obj_get k ob \<noteq> None"
  by (auto simp: require_def)

lemma ok_or_Inr [simp]: "ok_or e x = Inr a \<longleftrightarrow> x = Some a"
  by (cases x) auto

lemma ok_or_Inl [simp]: "ok_or e x = Inl f \<longleftrightarrow> x = None \<and> f = e"
  by (cases x) auto

lemma normalize_request_model:
  "normalize_request c e payload = Inr r
     \<Longrightarrow> get_str ''model'' (nr_body r) = Some (nr_model r)"
  by (auto simp: normalize_request_def rbind_Inr get_str_def)

lemma normalize_request_never:
  "normalize_request c Files payload \<noteq> Inr r" "normalize_request c AudioTranscriptions payload \<noteq> Inr r"
  by (auto simp: normalize_request_def normalize_endpoint_def rbind_Inr)

text \<open>After normalisation a chat-like body has its messages, whichever field they came in.\<close>

lemma normalize_request_messages:
  assumes "normalize_request c e payload = Inr r"
    and "e = Completions \<or> e = OllamaChat
      \<or> (e \<in> {Messages, Responses} \<and> (jget ''messages'' payload \<noteq> None \<or> jget ''input'' payload \<noteq> None))"
  shows "jget ''messages'' (nr_body r) \<noteq> None"
  using assms
  by (cases payload)
    (auto simp: normalize_request_def normalize_endpoint_def rbind_Inr normalize_completions_def
      normalize_messages_def normalize_responses_def split: option.splits if_splits)

lemma split_model_Inr:
  "split_model v = Inr (p, m) \<longleftrightarrow>
     (p = [] \<and> m = v \<and> CHR ''/'' \<notin> set v)
     \<or> (p \<noteq> [] \<and> m \<noteq> [] \<and> v = p @ CHR ''/'' # m \<and> CHR ''/'' \<notin> set p)"
proof -
  have "split_model v = Inr (p, m) \<longleftrightarrow>
     (p = [] \<and> m = v \<and> split_once CHR ''/'' v = None)
     \<or> (p \<noteq> [] \<and> m \<noteq> [] \<and> split_once CHR ''/'' v = Some (p, m))"
    by (auto simp: split_model_def split: option.splits if_splits)
  then show ?thesis by (simp only: split_once_Some split_once_None conj_assoc)
qed

lemma split_model_Inl:
  "split_model v = Inl e \<longleftrightarrow>
     e = BadRequest (''invalid model identifier: '' @ v)
     \<and> (\<exists>p m. v = p @ CHR ''/'' # m \<and> CHR ''/'' \<notin> set p \<and> (p = [] \<or> m = []))"
proof -
  have "split_model v = Inl e \<longleftrightarrow>
     e = BadRequest (''invalid model identifier: '' @ v)
     \<and> (\<exists>p m. split_once CHR ''/'' v = Some (p, m) \<and> (p = [] \<or> m = []))"
    by (auto simp: split_model_def split: option.splits if_splits)
  then show ?thesis by (simp only: split_once_Some conj_assoc)
qed

lemma codex_request_fields:
  assumes "is_codex_provider p"
    and "maybe_adapt_codex_responses_request c Responses p (JObj ob) normalized = r"
  shows "jget ''stream'' r = Some (JBool True)" and "jget ''store'' r = Some (JBool False)"
    and "jget ''messages'' r = None" and "jget ''max_tokens'' r = None"
    and "jget ''max_output_tokens'' r = None" and "jget ''max_completion_tokens'' r = None"
    and "jget ''instructions'' r \<noteq> None" and "jget ''input'' r \<noteq> None"
  using assms
  by (auto simp: maybe_adapt_codex_responses_request_def Let_def codex_input_is_response_items_def
      split: if_splits option.splits)

lemma adapt_to_messages_content:
  "jget ''content'' (adapt_to_messages body) = Some (JArr [text_block (extract_assistant_text body)])"
  by (simp add: adapt_to_messages_def)

end
