(* ===== verification/Responses_Sse.thy ===== *)
theory Responses_Sse
  imports Requests Execute
begin

text \<open>
  Server-sent events of the Responses API (\<open>src/service.rs\<close>): parsing a transcript into
  events, translating them for chat and Messages clients, on a stream of chunks and on a whole
  transcript, and reconstructing one response from a transcript. The mutable
  \<open>ResponsesStreamState\<close> is passed along; a translator returns its text and the new state.
\<close>

section \<open>Parsing\<close>

definition is_sse_transcript :: "string \<Rightarrow> bool" where
  "is_sse_transcript body =
     list_ex (\<lambda>l. starts_with (trim_start l) ''event:'' \<or> starts_with (trim_start l) ''data:'')
       (str_lines body)"

type_synonym sse_event = "string option \<times> string"
type_synonym sse_acc = "sse_event list \<times> string option \<times> string list"

definition sse_flush :: "sse_acc \<Rightarrow> sse_acc" where
  "sse_flush acc = (let (events, name, data) = acc in
     if name = None \<and> data = [] then acc
     else (events @ [(name, str_join [newline] data)], None, []))"

definition sse_line :: "string \<Rightarrow> sse_acc \<Rightarrow> sse_acc" where
  "sse_line raw acc =
     (let line = trim_end_char carriage raw; (events, name, data) = acc in
      if line = [] then sse_flush acc
      else (case strip_prefix ''event:'' line of
              Some rest \<Rightarrow> (events, Some (trim rest), data)
            | None \<Rightarrow> (case strip_prefix ''data:'' line of
                Some rest \<Rightarrow> (events, name, data @ [trim_start rest])
              | None \<Rightarrow> acc)))"

definition parse_sse_events :: "string \<Rightarrow> sse_event list" where
  "parse_sse_events body = fst (sse_flush (fold sse_line (str_lines body) ([], None, [])))"

definition real_payload :: "string \<Rightarrow> bool" where
  "real_payload payload \<longleftrightarrow> payload \<noteq> [] \<and> payload \<noteq> ''[DONE]''"

definition response_sse_payload :: "'a codec_scheme \<Rightarrow> string \<Rightarrow> (string option \<times> json) option" where
  "response_sse_payload c event =
     (case List.map_filter (\<lambda>(name, payload).
             if real_payload payload then
               (case json_parse c payload of Inl e \<Rightarrow> None | Inr v \<Rightarrow> Some (name, v))
             else None) (parse_sse_events event) of
        [] \<Rightarrow> None
      | x # _ \<Rightarrow> Some x)"

section \<open>The stream state\<close>

record stream_state =
  ss_id :: "string option"
  ss_model :: "string option"
  ss_started :: bool
  ss_done :: bool

definition stream_state_default :: stream_state where
  "stream_state_default = \<lparr>ss_id = None, ss_model = None, ss_started = False, ss_done = False\<rparr>"

definition update_responses_stream_state :: "json \<Rightarrow> stream_state \<Rightarrow> stream_state" where
  "update_responses_stream_state value st =
     (let response = unwrap_or value (jget ''response'' value);
          st = (case get_str ''id'' response of Some i \<Rightarrow> st\<lparr>ss_id := Some i\<rparr> | None \<Rightarrow> st)
      in case get_str ''model'' response of Some m \<Rightarrow> st\<lparr>ss_model := Some m\<rparr> | None \<Rightarrow> st)"

definition response_error_to_openai_error :: "json \<Rightarrow> json" where
  "response_error_to_openai_error value = json_obj
     [(''error'', unwrap_or (json_obj [(''message'', JStr ''responses stream failed'')])
        (or_else (jget ''error'' value) (jpointer [''response'', ''error''] value)))]"

definition stream_failed :: "json \<Rightarrow> bool" where
  "stream_failed value \<longleftrightarrow> jget ''error'' value \<noteq> None
     \<or> Option.bind (jpointer [''response'', ''status''] value) as_str = Some ''failed''"

definition name_ends :: "string option \<Rightarrow> string \<Rightarrow> bool" where
  "name_ends name suff = (case name of Some n \<Rightarrow> ends_with n suff | None \<Rightarrow> False)"

definition text_delta :: "string option \<Rightarrow> json \<Rightarrow> string option" where
  "text_delta name value =
     (if name_ends name ''output_text.delta'' then get_str ''delta'' value else None)"

section \<open>Chat clients\<close>

definition chat_chunk :: "'a codec_scheme \<Rightarrow> stream_state \<Rightarrow> json \<Rightarrow> json \<Rightarrow> string" where
  "chat_chunk c st delta finish = sse_data c (json_obj
     [(''id'', JStr (unwrap_or ''chatcmpl_kou_router'' (ss_id st))),
      (''object'', JStr ''chat.completion.chunk''),
      (''model'', JStr (unwrap_or [] (ss_model st))),
      (''choices'', JArr [json_obj [(''index'', jnat 0), (''delta'', delta),
                                    (''finish_reason'', finish)]])])"

definition responses_sse_event_to_chat_event ::
  "'a codec_scheme \<Rightarrow> string \<Rightarrow> stream_state \<Rightarrow> string option \<times> stream_state" where
  "responses_sse_event_to_chat_event c event st =
     (case response_sse_payload c event of
        None \<Rightarrow> (None, st)
      | Some (name, value) \<Rightarrow>
          (let st = update_responses_stream_state value st in
           if stream_failed value then
             (Some (sse_data c (response_error_to_openai_error value)), st\<lparr>ss_done := True\<rparr>)
           else (case text_delta name value of
             Some delta \<Rightarrow> (Some (chat_chunk c st (json_obj [(''content'', JStr delta)]) JNull), st)
           | None \<Rightarrow>
               if name_ends name ''completed'' then
                 (Some (chat_chunk c st (json_obj []) (JStr ''stop'') @ sse_done),
                  st\<lparr>ss_done := True\<rparr>)
               else (None, st))))"

section \<open>Messages clients\<close>

definition sse_frame :: "string \<Rightarrow> string \<Rightarrow> string" where
  "sse_frame name data =
     ''event: '' @ name @ [newline] @ ''data: '' @ data @ [newline, newline]"

definition message_start :: "'a codec_scheme \<Rightarrow> stream_state \<Rightarrow> string" where
  "message_start c st = sse_frame ''message_start'' (json_print c (json_obj
     [(''type'', JStr ''message_start''),
      (''message'', json_obj
         [(''id'', JStr (unwrap_or ''msg_kou_router'' (ss_id st))),
          (''type'', JStr ''message''),
          (''role'', JStr ''assistant''),
          (''model'', JStr (unwrap_or [] (ss_model st))),
          (''content'', JArr []),
          (''stop_reason'', JNull),
          (''stop_sequence'', JNull),
          (''usage'', json_obj [(''input_tokens'', jnat 0), (''output_tokens'', jnat 0)])])]))"

definition content_block_start :: string where
  \<open>content_block_start = sse_frame ''content_block_start''
     ''{"type":"content_block_start","index":0,"content_block":{"type":"text","text":""}}''\<close>

definition content_block_delta :: "'a codec_scheme \<Rightarrow> string \<Rightarrow> string" where
  "content_block_delta c delta = sse_frame ''content_block_delta'' (json_print c (json_obj
     [(''type'', JStr ''content_block_delta''), (''index'', jnat 0),
      (''delta'', json_obj [(''type'', JStr ''text_delta''), (''text'', JStr delta)])]))"

definition message_end :: string where
  \<open>message_end =
     sse_frame ''content_block_stop'' ''{"type":"content_block_stop","index":0}''
     @ sse_frame ''message_delta''
         (''{"type":"message_delta","delta":{"stop_reason":"end_turn","stop_sequence":null},''
          @ ''"usage":{"output_tokens":0}}'')
     @ sse_frame ''message_stop'' ''{"type":"message_stop"}''\<close>

definition responses_messages_stop_event ::
  "'a codec_scheme \<Rightarrow> stream_state \<Rightarrow> string \<times> stream_state" where
  "responses_messages_stop_event c st =
     ((if ss_started st then [] else message_start c st) @ message_end,
      st\<lparr>ss_done := True, ss_started := True\<rparr>)"

definition responses_sse_event_to_messages_event ::
  "'a codec_scheme \<Rightarrow> string \<Rightarrow> stream_state \<Rightarrow> string option \<times> stream_state" where
  "responses_sse_event_to_messages_event c event st =
     (case response_sse_payload c event of
        None \<Rightarrow> (None, st)
      | Some (name, value) \<Rightarrow>
          (let st = update_responses_stream_state value st in
           if stream_failed value then
             (Some (sse_frame ''error'' (json_print c (response_error_to_openai_error value))),
              st\<lparr>ss_done := True\<rparr>)
           else (case text_delta name value of
             Some delta \<Rightarrow>
               (Some ((if ss_started st then [] else message_start c st @ content_block_start)
                      @ content_block_delta c delta),
                st\<lparr>ss_started := True\<rparr>)
           | None \<Rightarrow>
               if name_ends name ''completed'' then
                 (let (out, st) = responses_messages_stop_event c st in (Some out, st))
               else (None, st))))"

definition responses_sse_event_to_endpoint_event ::
  "'a codec_scheme \<Rightarrow> endpoint \<Rightarrow> string \<Rightarrow> stream_state \<Rightarrow> string option \<times> stream_state" where
  "responses_sse_event_to_endpoint_event c e event st =
     (case e of
        ChatCompletions \<Rightarrow> responses_sse_event_to_chat_event c event st
      | Messages \<Rightarrow> responses_sse_event_to_messages_event c event st
      | _ \<Rightarrow> (Some event, st))"

definition stream_tail ::
  "'a codec_scheme \<Rightarrow> endpoint \<Rightarrow> stream_state \<Rightarrow> string" where
  "stream_tail c e st =
     (if ss_done st then []
      else if e = Messages then fst (responses_messages_stop_event c st)
      else sse_done)"

section \<open>Streams of chunks\<close>

text \<open>The text before and after the first blank line.\<close>

fun split_event :: "string \<Rightarrow> (string \<times> string) option" where
  "split_event [] = None"
| "split_event (a # s) =
     (if starts_with (a # s) [newline, newline] then Some ([], tl s)
      else map_option (\<lambda>(x, y). (a # x, y)) (split_event s))"

lemma split_event_append:
  "split_event s = Some (x, y) \<Longrightarrow> s = x @ newline # newline # y"
  by (induction s arbitrary: x) (auto simp: starts_with_iff split: if_splits)

lemma split_event_length [termination_simp]:
  "split_event s = Some (x, y) \<Longrightarrow> length y < length s"
  by (drule split_event_append) simp

text \<open>The events complete so far, translated, with what is left of the pending text.\<close>

fun drain_events ::
  "(string \<Rightarrow> 's \<Rightarrow> string option \<times> 's) \<Rightarrow> string \<Rightarrow> 's \<Rightarrow> string list \<times> string \<times> 's" where
  "drain_events step pending st =
     (case split_event pending of
        None \<Rightarrow> ([], pending, st)
      | Some (event, rest) \<Rightarrow>
          (let (translated, st) = step event st;
               (outs, left, st) = drain_events step rest st
           in ((case translated of Some t \<Rightarrow> if t \<noteq> [] then [t] else [] | None \<Rightarrow> [])
               @ outs, left, st)))"

declare drain_events.simps [simp del]

definition finish_stream ::
  "http_lib \<Rightarrow> endpoint \<Rightarrow> string \<Rightarrow> stream_state \<Rightarrow> string list" where
  "finish_stream lib e pending st =
     (let (translated, st) =
            (if trim pending \<noteq> [] then responses_sse_event_to_endpoint_event lib e pending st
             else (None, st));
          outs = (case translated of Some t \<Rightarrow> if t \<noteq> [] then [t] else [] | None \<Rightarrow> [])
      in outs @ (if ss_done st then [] else [stream_tail lib e st]))"

fun responses_sse_loop ::
  "http_lib \<Rightarrow> endpoint \<Rightarrow> (string + string) list \<Rightarrow> string \<Rightarrow> stream_state \<Rightarrow> (string + string) list"
where
  "responses_sse_loop lib e [] pending st = map Inr (finish_stream lib e pending st)"
| "responses_sse_loop lib e (Inl err # chunks) pending st = [Inl err]"
| "responses_sse_loop lib e (Inr bytes # chunks) pending st =
     (let (outs, left, st) =
            drain_events (responses_sse_event_to_endpoint_event lib e)
              (pending @ utf8_lossy lib bytes) st
      in map Inr outs @ responses_sse_loop lib e chunks left st)"

definition responses_sse_to_endpoint_stream ::
  "http_lib \<Rightarrow> endpoint \<Rightarrow> (string + string) list \<Rightarrow> (string + string) list" where
  "responses_sse_to_endpoint_stream lib e chunks =
     responses_sse_loop lib e chunks [] stream_state_default"

section \<open>Whole transcripts\<close>

definition rebuild_event :: "string option \<Rightarrow> string \<Rightarrow> string" where
  "rebuild_event name payload =
     (case name of Some n \<Rightarrow> ''event: '' @ n @ [newline] | None \<Rightarrow> [])
     @ concat (map (\<lambda>l. ''data: '' @ l @ [newline]) (str_lines payload)) @ [newline]"

definition transcript_step ::
  "'a codec_scheme \<Rightarrow> endpoint \<Rightarrow> sse_event \<Rightarrow> string \<times> stream_state \<Rightarrow> string \<times> stream_state" where
  "transcript_step c e ev acc =
     (let (name, payload) = ev; (out, st) = acc in
      if real_payload payload then
        (let (translated, st) =
               responses_sse_event_to_endpoint_event c e (rebuild_event name payload) st
         in (out @ unwrap_or [] translated, st))
      else acc)"

definition responses_sse_transcript_to_endpoint_stream_text ::
  "'a codec_scheme \<Rightarrow> endpoint \<Rightarrow> string \<Rightarrow> string" where
  "responses_sse_transcript_to_endpoint_stream_text c e body =
     (let (out, st) = fold (transcript_step c e) (parse_sse_events body) ([], stream_state_default)
      in out @ stream_tail c e st)"

section \<open>Reconstructing a response\<close>

definition merged_fields :: "string list" where
  "merged_fields = [''id'', ''object'', ''model'', ''status'', ''usage'', ''error'', ''output'',
     ''created_at'']"

definition merge_response_fields :: "json \<Rightarrow> obj \<Rightarrow> obj" where
  "merge_response_fields value target =
     (case value of
        JObj ob \<Rightarrow> fold (\<lambda>(k, v) t. if k \<in> set merged_fields then obj_insert k v t else t) ob target
      | _ \<Rightarrow> target)"

record rebuilt =
  rb_response :: obj
  rb_items :: "json list"
  rb_text :: string

definition merge_event :: "json \<Rightarrow> obj \<Rightarrow> obj" where
  "merge_event value response =
     (case jget ''response'' value of
        Some r \<Rightarrow> merge_response_fields r response
      | None \<Rightarrow>
          if jget ''id'' value \<noteq> None \<or> jget ''status'' value \<noteq> None \<or> jget ''output'' value \<noteq> None
          then merge_response_fields value response else response)"

definition rebuild_step :: "'a codec_scheme \<Rightarrow> sse_event \<Rightarrow> rebuilt \<Rightarrow> rebuilt" where
  "rebuild_step c ev acc =
     (let (name, payload) = ev in
      if \<not> real_payload payload then acc
      else (case json_parse c payload of
        Inl e \<Rightarrow> acc
      | Inr value \<Rightarrow>
          \<lparr>rb_response = merge_event value (rb_response acc),
           rb_items = rb_items acc @
             (if name_ends name ''output_item.done'' then
                (case jget ''item'' value of Some item \<Rightarrow> [item] | None \<Rightarrow> [])
              else []),
           rb_text = (case get_str ''delta'' value of
               Some delta \<Rightarrow> rb_text acc @ delta
             | None \<Rightarrow>
                 if rb_text acc = [] then unwrap_or [] (get_str ''text'' value)
                 else rb_text acc)\<rparr>))"

definition output_is_empty :: "obj \<Rightarrow> bool" where
  "output_is_empty response =
     (case Option.bind (obj_get ''output'' response) as_array of None \<Rightarrow> True | Some xs \<Rightarrow> xs = [])"

definition output_text_message :: "string \<Rightarrow> json" where
  "output_text_message text = json_obj
     [(''type'', JStr ''message''), (''role'', JStr ''assistant''),
      (''content'', JArr [json_obj [(''type'', JStr ''output_text''), (''text'', JStr text)]])]"

definition fill_output :: "rebuilt \<Rightarrow> obj" where
  "fill_output acc =
     (let response = rb_response acc in
      if output_is_empty response then
        (if rb_items acc \<noteq> [] then obj_insert ''output'' (JArr (rb_items acc)) response
         else if obj_get ''output'' response = None \<or> rb_text acc \<noteq> [] then
           obj_insert ''output'' (JArr [output_text_message (rb_text acc)]) response
         else response)
      else response)"

definition reconstruct_responses_from_sse :: "'a codec_scheme \<Rightarrow> string \<Rightarrow> json app_result" where
  "reconstruct_responses_from_sse c body =
     (let acc = fold (rebuild_step c) (parse_sse_events body)
                  \<lparr>rb_response = [(''object'', JStr ''response'')], rb_items = [], rb_text = []\<rparr>
      in Inr (JObj
           (obj_or_insert ''error'' JNull
             (obj_or_insert ''usage'' JNull
               (obj_or_insert ''status'' (JStr ''completed'')
                 (obj_or_insert ''model'' JNull
                   (obj_or_insert ''id'' (JStr ''resp_kou_router'') (fill_output acc))))))))"

definition adapt_responses_success_body ::
  "'a codec_scheme \<Rightarrow> string \<Rightarrow> bool \<Rightarrow> (json \<times> bool) app_result" where
  "adapt_responses_success_body c body stream_requested =
     (if is_sse_transcript body then
        (if stream_requested then Inr (json_obj [(''raw'', JStr body)], True)
         else rbind (reconstruct_responses_from_sse c body) (\<lambda>v. Inr (v, False)))
      else rbind (parse_data c body) (\<lambda>v. Inr (adapt_to_responses v, False)))"

definition responses_stream_error_message :: "json \<Rightarrow> string option" where
  "responses_stream_error_message body =
     (if get_str ''status'' body \<noteq> Some ''failed'' then None
      else Option.bind (jget ''error'' body) (\<lambda>err.
        if is_null err then Some ''responses stream failed''
        else or_else (get_str ''message'' err)
               (or_else (as_str err) (Some ''responses stream failed''))))"

definition cacheable_stream_transcript_complete :: "string \<Rightarrow> bool" where
  \<open>cacheable_stream_transcript_complete t \<longleftrightarrow>
     str_contains t ''data: [DONE]'' \<or> str_contains t ''event: response.completed''
     \<or> str_contains t ''"type":"response.completed"'' \<or> str_contains t ''event: message_stop''
     \<or> str_contains t ''"type":"message_stop"''\<close>

section \<open>Chunk boundaries do not matter\<close>

text \<open>The complete events of a text and the rest, and what a run of events produces.\<close>

fun cut_events :: "string \<Rightarrow> string list \<times> string" where
  "cut_events p =
     (case split_event p of
        None \<Rightarrow> ([], p)
      | Some (event, rest) \<Rightarrow> (let (evs, left) = cut_events rest in (event # evs, left)))"

declare cut_events.simps [simp del]

definition emitted :: "string option \<Rightarrow> string list" where
  "emitted translated = (case translated of Some t \<Rightarrow> if t \<noteq> [] then [t] else [] | None \<Rightarrow> [])"

fun run_events ::
  "(string \<Rightarrow> 's \<Rightarrow> string option \<times> 's) \<Rightarrow> string list \<Rightarrow> 's \<Rightarrow> string list \<times> 's" where
  "run_events step [] st = ([], st)"
| "run_events step (ev # evs) st =
     (let (translated, st) = step ev st; (outs, st) = run_events step evs st
      in (emitted translated @ outs, st))"

lemma split_event_extend:
  "split_event p = Some (x, y) \<Longrightarrow> split_event (p @ q) = Some (x, y @ q)"
proof (induction p arbitrary: x)
  case (Cons a p)
  show ?case
  proof (cases "starts_with (a # p) [newline, newline]")
    case True
    then show ?thesis using Cons.prems by (auto simp: starts_with_iff)
  next
    case False
    then obtain x' where "x = a # x'" "split_event p = Some (x', y)"
      using Cons.prems by auto
    moreover from this have "\<not> starts_with (a # p @ q) [newline, newline]"
      using False by (cases p) (auto simp: starts_with_iff)
    ultimately show ?thesis using Cons.IH by simp
  qed
qed simp

lemma cut_events_append:
  "cut_events (p @ q)
     = (let (evs, left) = cut_events p; (evs', left') = cut_events (left @ q) in (evs @ evs', left'))"
proof (induction p rule: cut_events.induct)
  case (1 p)
  show ?case
  proof (cases "split_event p")
    case None
    then show ?thesis by (simp add: cut_events.simps [of p])
  next
    case (Some er)
    obtain x y where er: "er = (x, y)" by (cases er)
    then have "split_event (p @ q) = Some (x, y @ q)"
      using Some split_event_extend by blast
    then show ?thesis
      using 1 Some er by (simp add: cut_events.simps [of p] cut_events.simps [of "p @ q"]
          split: prod.splits)
  qed
qed

lemma run_events_append:
  "run_events step (xs @ ys) st
     = (let (o1, st1) = run_events step xs st; (o2, st2) = run_events step ys st1 in (o1 @ o2, st2))"
  by (induction xs arbitrary: st) (simp_all split: prod.splits)

lemma drain_runs:
  "drain_events step p st
     = (let (evs, left) = cut_events p; (outs, st') = run_events step evs st in (outs, left, st'))"
proof (induction step p st rule: drain_events.induct)
  case (1 step p st)
  show ?case
  proof (cases "split_event p")
    case None
    then show ?thesis by (simp add: drain_events.simps [of step p] cut_events.simps [of p])
  next
    case (Some er)
    obtain x y where er: "er = (x, y)" by (cases er)
    obtain t st1 where s: "step x st = (t, st1)" by (cases "step x st")
    show ?thesis
      using 1 [OF Some er [symmetric] s [symmetric] refl] Some er s
      by (simp add: drain_events.simps [of step p] cut_events.simps [of p] emitted_def
          split: prod.splits)
  qed
qed

definition stream_events :: "string \<Rightarrow> string list" where
  "stream_events text =
     (let (evs, left) = cut_events text in evs @ (if trim left \<noteq> [] then [left] else []))"

definition stream_output :: "'a codec_scheme \<Rightarrow> endpoint \<Rightarrow> string list \<Rightarrow> string list" where
  "stream_output c e evs =
     (let (outs, st) = run_events (responses_sse_event_to_endpoint_event c e) evs stream_state_default
      in outs @ (if ss_done st then [] else [stream_tail c e st]))"

lemma finish_stream_runs:
  "finish_stream lib e left st =
     (let (outs, st) = run_events (responses_sse_event_to_endpoint_event lib e)
                         (if trim left \<noteq> [] then [left] else []) st
      in outs @ (if ss_done st then [] else [stream_tail lib e st]))"
  by (simp add: finish_stream_def emitted_def split: prod.splits)

lemma sse_loop_runs:
  "cut_events p = ([], p) \<Longrightarrow>
   responses_sse_loop lib e (map Inr bs) p st =
     map Inr (let (evs, left) = cut_events (p @ concat (map (utf8_lossy lib) bs));
                  (outs, st) = run_events (responses_sse_event_to_endpoint_event lib e) evs st
              in outs @ finish_stream lib e left st)"
proof (induction bs arbitrary: p st)
  case Nil
  then show ?case by simp
next
  case (Cons b bs)
  obtain evs left where cut: "cut_events (p @ utf8_lossy lib b) = (evs, left)"
    by (cases "cut_events (p @ utf8_lossy lib b)")
  have idem: "cut_events left = ([], left)"
    using cut_events_append [of "p @ utf8_lossy lib b" "[]"] cut
    by (cases "cut_events left") (auto simp: Let_def split: prod.splits)
  obtain outs st1 where r: "run_events (responses_sse_event_to_endpoint_event lib e) evs st = (outs, st1)"
    by (cases "run_events (responses_sse_event_to_endpoint_event lib e) evs st")
  have "cut_events (p @ concat (map (utf8_lossy lib) (b # bs)))
     = (let (evs', left') = cut_events (left @ concat (map (utf8_lossy lib) bs)) in (evs @ evs', left'))"
    using cut_events_append [of "p @ utf8_lossy lib b" "concat (map (utf8_lossy lib) bs)"] cut by simp
  then show ?case
    using Cons.IH [OF idem, of st1] cut r
    by (simp add: drain_runs run_events_append split: prod.splits)
qed

lemma sse_stream_output:
  "responses_sse_to_endpoint_stream lib e (map Inr bs)
     = map Inr (stream_output lib e (stream_events (concat (map (utf8_lossy lib) bs))))"
proof -
  have "cut_events [] = ([], [])" by (simp add: cut_events.simps [of "[]"])
  then show ?thesis
    by (simp add: responses_sse_to_endpoint_stream_def sse_loop_runs stream_output_def
        stream_events_def finish_stream_runs run_events_append split: prod.splits)
qed

section \<open>The frames of a Messages stream\<close>

text \<open>
  A Messages client must see \<open>message_start\<close> once and before anything else but an error, and a
  \<open>message_stop\<close> or an error in the end. The abstract translation produces named frames, and the
  code's text is their rendering.
\<close>

type_synonym frame = "string \<times> string"

definition render_frames :: "frame list \<Rightarrow> string" where
  "render_frames fs = concat (map (\<lambda>(n, d). sse_frame n d) fs)"

definition start_frame :: "'a codec_scheme \<Rightarrow> stream_state \<Rightarrow> frame" where
  "start_frame c st = (''message_start'',
     drop (length ''event: message_start.data: '')
       (butlast (butlast (message_start c st))))"

definition end_frames :: "frame list" where
  \<open>end_frames =
     [(''content_block_stop'', ''{"type":"content_block_stop","index":0}''),
      (''message_delta'',
         ''{"type":"message_delta","delta":{"stop_reason":"end_turn","stop_sequence":null},''
          @ ''"usage":{"output_tokens":0}}''),
      (''message_stop'', ''{"type":"message_stop"}'')]\<close>

definition block_start_frame :: frame where
  \<open>block_start_frame = (''content_block_start'',
     ''{"type":"content_block_start","index":0,"content_block":{"type":"text","text":""}}'')\<close>

definition delta_frame :: "'a codec_scheme \<Rightarrow> string \<Rightarrow> frame" where
  "delta_frame c delta = (''content_block_delta'', json_print c (json_obj
     [(''type'', JStr ''content_block_delta''), (''index'', jnat 0),
      (''delta'', json_obj [(''type'', JStr ''text_delta''), (''text'', JStr delta)])]))"

definition closing_frames :: "'a codec_scheme \<Rightarrow> stream_state \<Rightarrow> frame list" where
  "closing_frames c st = (if ss_started st then [] else [start_frame c st]) @ end_frames"

definition messages_frames ::
  "'a codec_scheme \<Rightarrow> string \<Rightarrow> stream_state \<Rightarrow> frame list \<times> stream_state" where
  "messages_frames c event st =
     (case response_sse_payload c event of
        None \<Rightarrow> ([], st)
      | Some (name, value) \<Rightarrow>
          (let st = update_responses_stream_state value st in
           if stream_failed value then
             ([(''error'', json_print c (response_error_to_openai_error value))], st\<lparr>ss_done := True\<rparr>)
           else (case text_delta name value of
             Some delta \<Rightarrow>
               ((if ss_started st then [] else [start_frame c st, block_start_frame])
                @ [delta_frame c delta], st\<lparr>ss_started := True\<rparr>)
           | None \<Rightarrow>
               if name_ends name ''completed'' then
                 (closing_frames c st, st\<lparr>ss_done := True, ss_started := True\<rparr>)
               else ([], st))))"

fun well_opened :: "bool \<Rightarrow> string list \<Rightarrow> bool" where
  "well_opened started [] = True"
| "well_opened started (n # ns) =
     (if n = ''message_start'' then \<not> started \<and> well_opened True ns
      else if n = ''error'' then well_opened started ns
      else started \<and> well_opened started ns)"

lemma well_opened_append:
  "well_opened b (xs @ ys)
     \<longleftrightarrow> well_opened b xs \<and> well_opened (b \<or> ''message_start'' \<in> set xs) ys"
  by (induction xs arbitrary: b) auto

lemma render_simps [simp]:
  "render_frames [] = []"
  "render_frames ((n, d) # fs) = sse_frame n d @ render_frames fs"
  "render_frames (fs @ gs) = render_frames fs @ render_frames gs"
  by (simp_all add: render_frames_def)

lemma start_frame_render: "(case start_frame c st of (n, d) \<Rightarrow> sse_frame n d) = message_start c st"
  by (simp add: start_frame_def message_start_def sse_frame_def butlast_append)

lemma start_frame_Cons [simp]: "render_frames (start_frame c st # fs) = message_start c st @ render_frames fs"
  using start_frame_render [of c st] by (cases "start_frame c st") (simp add: render_frames_def)

lemma frame_texts [simp]:
  "render_frames (block_start_frame # fs) = content_block_start @ render_frames fs"
  "render_frames (delta_frame c delta # fs) = content_block_delta c delta @ render_frames fs"
  "render_frames end_frames = message_end"
  by (simp_all add: block_start_frame_def content_block_start_def delta_frame_def
      content_block_delta_def end_frames_def message_end_def)

lemma frame_names [simp]:
  "fst (start_frame c st) = ''message_start''" "fst block_start_frame = ''content_block_start''"
  "fst (delta_frame c delta) = ''content_block_delta''"
  "map fst end_frames = [''content_block_stop'', ''message_delta'', ''message_stop'']"
  by (simp_all add: start_frame_def block_start_frame_def delta_frame_def end_frames_def)

lemma stop_event_frames:
  "responses_messages_stop_event c st
     = (render_frames (closing_frames c st), st\<lparr>ss_done := True, ss_started := True\<rparr>)"
  by (simp add: responses_messages_stop_event_def closing_frames_def)

lemma update_state_flags [simp]:
  "ss_started (update_responses_stream_state v st) = ss_started st"
  "ss_done (update_responses_stream_state v st) = ss_done st"
  by (simp_all add: update_responses_stream_state_def Let_def split: option.splits)

lemma messages_event_frames:
  "responses_sse_event_to_messages_event c event st
     = (let (fs, st') = messages_frames c event st
        in (if fs = [] then None else Some (render_frames fs), st'))"
  by (simp add: responses_sse_event_to_messages_event_def messages_frames_def stop_event_frames
      closing_frames_def end_frames_def Let_def split: option.splits)

lemma concat_emitted: "concat (emitted t) = unwrap_or [] t"
  by (simp add: emitted_def split: option.splits)

definition stream_closed :: "string list \<Rightarrow> bool" where
  "stream_closed ns \<longleftrightarrow> ''message_stop'' \<in> set ns \<or> ''error'' \<in> set ns"

lemma messages_frames_shape:
  assumes "messages_frames c event st = (fs, st')"
  shows "well_opened (ss_started st) (map fst fs)
     \<and> ss_started st' = (ss_started st \<or> ''message_start'' \<in> set (map fst fs))
     \<and> (ss_done st' \<longrightarrow> ss_done st \<or> stream_closed (map fst fs))"
proof (cases "response_sse_payload c event")
  case None
  then show ?thesis using assms by (simp add: messages_frames_def)
next
  case (Some nv)
  obtain nm v where nv: "nv = (nm, v)" by (cases nv)
  consider (failed) "stream_failed v"
    | (delta) d where "\<not> stream_failed v" and "text_delta nm v = Some d"
    | (other) "\<not> stream_failed v" and "text_delta nm v = None"
    by (cases "text_delta nm v") auto
  then show ?thesis
    by cases (use assms Some nv in \<open>auto simp: messages_frames_def stream_closed_def
        closing_frames_def Let_def simp flip: set_map split: if_splits\<close>)
qed

lemma run_messages_frames:
  assumes "run_events (responses_sse_event_to_endpoint_event c Messages) evs st = (outs, st')"
  shows "\<exists>fs. concat outs = render_frames fs \<and> well_opened (ss_started st) (map fst fs)
     \<and> ss_started st' = (ss_started st \<or> ''message_start'' \<in> set (map fst fs))
     \<and> (ss_done st' \<longrightarrow> ss_done st \<or> stream_closed (map fst fs))"
  using assms
proof (induction evs arbitrary: st outs)
  case Nil
  then show ?case by (intro exI [of _ "[]"]) simp
next
  case (Cons ev evs)
  obtain fs1 st1 where s: "messages_frames c ev st = (fs1, st1)" by (cases "messages_frames c ev st")
  have step: "responses_sse_event_to_endpoint_event c Messages ev st
      = (if fs1 = [] then None else Some (render_frames fs1), st1)"
    using s by (simp add: responses_sse_event_to_endpoint_event_def messages_event_frames)
  obtain outs2 where r: "run_events (responses_sse_event_to_endpoint_event c Messages) evs st1 = (outs2, st')"
    and outs: "concat outs = render_frames fs1 @ concat outs2"
    using Cons.prems step by (auto simp: concat_emitted split: prod.splits if_splits)
  obtain fs2 where "concat outs2 = render_frames fs2" "well_opened (ss_started st1) (map fst fs2)"
    "ss_started st' = (ss_started st1 \<or> ''message_start'' \<in> set (map fst fs2))"
    "ss_done st' \<longrightarrow> ss_done st1 \<or> stream_closed (map fst fs2)"
    using Cons.IH [OF r] by blast
  then show ?case
    using messages_frames_shape [OF s] outs
    by (intro exI [of _ "fs1 @ fs2"]) (auto simp: well_opened_append stream_closed_def)
qed

lemma messages_stream_frames:
  "\<exists>fs. concat (stream_output c Messages evs) = render_frames fs
     \<and> well_opened False (map fst fs) \<and> stream_closed (map fst fs)"
proof -
  obtain outs st where r: "run_events (responses_sse_event_to_endpoint_event c Messages) evs
      stream_state_default = (outs, st)"
    by (cases "run_events (responses_sse_event_to_endpoint_event c Messages) evs stream_state_default")
  obtain fs where fs: "concat outs = render_frames fs" "well_opened False (map fst fs)"
    "ss_started st = (''message_start'' \<in> set (map fst fs))" "ss_done st \<longrightarrow> stream_closed (map fst fs)"
    using run_messages_frames [OF r] by (auto simp: stream_state_default_def)
  show ?thesis
  proof (cases "ss_done st")
    case True
    then show ?thesis using r fs by (auto simp: stream_output_def)
  next
    case False
    have "concat (stream_output c Messages evs) = render_frames (fs @ closing_frames c st)"
      using r fs(1) False by (simp add: stream_output_def stream_tail_def stop_event_frames)
    moreover have "well_opened False (map fst (fs @ closing_frames c st))"
      using fs by (simp add: closing_frames_def well_opened_append)
    moreover have "stream_closed (map fst (fs @ closing_frames c st))"
      by (simp add: stream_closed_def closing_frames_def flip: set_map)
    ultimately show ?thesis by blast
  qed
qed

section \<open>What a reconstructed response holds\<close>

lemma reconstruct_fields:
  assumes "reconstruct_responses_from_sse c body = Inr r"
  shows "jget ''id'' r \<noteq> None \<and> jget ''model'' r \<noteq> None \<and> jget ''status'' r \<noteq> None
     \<and> jget ''usage'' r \<noteq> None \<and> jget ''error'' r \<noteq> None \<and> jget ''output'' r \<noteq> None"
proof -
  have "obj_get ''output'' (fill_output acc) \<noteq> None" for acc
    by (auto simp: fill_output_def output_is_empty_def Let_def split: option.splits bind_splits)
  then show ?thesis
    using assms by (auto simp: reconstruct_responses_from_sse_def Let_def)
qed

end
