(* ===== verification/Auth.thy ===== *)
theory Auth
  imports Db_Invariant
begin

text \<open>
  Identities of requests (\<open>src/auth/\<close>): credentials in headers, API keys, the admin password
  and the extractors \<open>ProxyAuth\<close>, \<open>ProxyIdentity\<close> and \<open>ManagementAuth\<close>, with the login routes
  of \<open>src/routes.rs\<close>. SHA-256, Argon2 and the JWT library are arguments; \<open>check_token\<close> gives
  the subject of a token valid under a secret.
\<close>

record auth_lib = codec +
  sha256_hex :: "string \<Rightarrow> string"
  hash_password :: "string \<Rightarrow> string app_result"
  check_password :: "string \<Rightarrow> string \<Rightarrow> bool app_result"
  sign_token :: "string \<Rightarrow> string \<Rightarrow> string app_result"
  check_token :: "string \<Rightarrow> string \<Rightarrow> string option"

section \<open>Credentials in headers\<close>

definition unauthorized :: "string \<Rightarrow> app_error" where
  "unauthorized m = BadRequest (''unauthorized: '' @ m)"

definition is_auth_required :: "db \<Rightarrow> bool" where
  "is_auth_required d = get_setting_bool ''require_auth'' d"

definition get_jwt_secret :: "'a codec_scheme \<Rightarrow> db \<Rightarrow> string option" where
  "get_jwt_secret c d =
     (case get_setting_string c ''jwt_secret'' d of Inl e \<Rightarrow> None | Inr s \<Rightarrow> Some s)"

definition header_text :: "string \<Rightarrow> headers \<Rightarrow> string option" where
  "header_text name hs = Option.bind (header_map_get name hs) header_to_str"

definition extract_bearer_token :: "headers \<Rightarrow> string option" where
  "extract_bearer_token hs = Option.bind (header_text ''authorization'' hs) (strip_prefix ''Bearer '')"

definition extract_api_key_header :: "headers \<Rightarrow> string option" where
  "extract_api_key_header hs = header_text ''x-api-key'' hs"

fun first_cookie :: "string list \<Rightarrow> string option" where
  "first_cookie [] = None"
| "first_cookie (ck # cks) = or_else (strip_prefix ''kou_auth='' (trim ck)) (first_cookie cks)"

definition extract_jwt_cookie :: "headers \<Rightarrow> string option" where
  "extract_jwt_cookie hs =
     Option.bind (header_text ''cookie'' hs) (\<lambda>cookies. first_cookie (split_on CHR '';'' cookies))"

definition presented_key :: "headers \<Rightarrow> string option" where
  "presented_key hs = or_else (extract_bearer_token hs) (extract_api_key_header hs)"

definition cookie_subject :: "auth_lib \<Rightarrow> headers \<Rightarrow> db \<Rightarrow> string option" where
  "cookie_subject lib hs d =
     Option.bind (extract_jwt_cookie hs) (\<lambda>token.
     Option.bind (get_jwt_secret lib d) (\<lambda>secret. check_token lib secret token))"

definition has_valid_admin_cookie :: "auth_lib \<Rightarrow> headers \<Rightarrow> db \<Rightarrow> bool" where
  "has_valid_admin_cookie lib hs d \<longleftrightarrow> cookie_subject lib hs d \<noteq> None"

section \<open>API keys\<close>

definition hash_api_key :: "auth_lib \<Rightarrow> string \<Rightarrow> string" where
  "hash_api_key lib key = sha256_hex lib key"

definition hex_lower :: "nat \<Rightarrow> char" where
  "hex_lower n = (if n < 10 then char_of (48 + n) else char_of (87 + n))"

definition hex_bytes :: "char list \<Rightarrow> string" where
  "hex_bytes bs = concat (map (\<lambda>b. [hex_lower (byte b div 16), hex_lower (byte b mod 16)]) bs)"

record api_key_created =
  kc_id :: string
  kc_name :: string
  kc_key :: string
  kc_key_prefix :: string

definition generate_api_key :: "string \<Rightarrow> char list \<Rightarrow> string \<Rightarrow> api_key_created" where
  "generate_api_key fresh random name =
     (let key = ''kou_sk_'' @ hex_bytes random
      in \<lparr>kc_id = fresh, kc_name = name, kc_key = key, kc_key_prefix = take 12 key @ ''...''\<rparr>)"

definition is_valid_key_format :: "string \<Rightarrow> bool" where
  "is_valid_key_format key \<longleftrightarrow> starts_with key ''kou_sk_'' \<and> length ''kou_sk_'' + 16 \<le> length key"

definition validate_api_key ::
  "timestamp \<Rightarrow> auth_lib \<Rightarrow> string \<Rightarrow> db \<Rightarrow> auth_context app_result \<times> db" where
  "validate_api_key now lib key d =
     (case find_api_key_by_hash (hash_api_key lib key) d of
        Some k \<Rightarrow>
          (if k_is_active k
           then (Inr (ApiKeyContext (k_id k) (k_name k) (k_allowed_models k)),
                 touch_api_key_usage now (k_id k) d)
           else (Inl (unauthorized ''API key is disabled''), d))
      | None \<Rightarrow> (Inl (unauthorized ''invalid API key''), d))"

definition issue_api_key ::
  "timestamp \<Rightarrow> string \<Rightarrow> auth_lib \<Rightarrow> string \<Rightarrow> char list \<Rightarrow> string \<Rightarrow> string list \<Rightarrow> db
     \<Rightarrow> (api_key_created \<times> db) app_result" where
  "issue_api_key now conflict lib fresh random name allowed d =
     (let created = generate_api_key fresh random name in
      rbind (create_api_key now conflict (kc_id created) (kc_name created)
               (hash_api_key lib (kc_key created)) (kc_key_prefix created) allowed d)
        (\<lambda>d'. Inr (created, d')))"

section \<open>Extractors\<close>

definition proxy_auth ::
  "timestamp \<Rightarrow> auth_lib \<Rightarrow> headers \<Rightarrow> db \<Rightarrow> auth_context app_result \<times> db" where
  "proxy_auth now lib hs d =
     (if \<not> is_auth_required d then (Inr Anonymous, d)
      else (case presented_key hs of
              None \<Rightarrow> (Inl (unauthorized ''missing Authorization or x-api-key header''), d)
            | Some token \<Rightarrow> validate_api_key now lib token d))"

definition proxy_identity :: "timestamp \<Rightarrow> auth_lib \<Rightarrow> headers \<Rightarrow> db \<Rightarrow> auth_context \<times> db" where
  "proxy_identity now lib hs d =
     (case presented_key hs of
        None \<Rightarrow> (Anonymous, d)
      | Some token \<Rightarrow>
          (case validate_api_key now lib token d of
             (Inr ctx, d') \<Rightarrow> (ctx, d')
           | (Inl e, d') \<Rightarrow> (Anonymous, d')))"

definition management_auth ::
  "timestamp \<Rightarrow> auth_lib \<Rightarrow> headers \<Rightarrow> db \<Rightarrow> auth_context app_result \<times> db" where
  "management_auth now lib hs d =
     (if \<not> is_auth_required d then (Inr Anonymous, d)
      else (case cookie_subject lib hs d of
              Some sub \<Rightarrow> (Inr (AdminContext sub), d)
            | None \<Rightarrow>
                (case presented_key hs of
                   Some token \<Rightarrow> validate_api_key now lib token d
                 | None \<Rightarrow> (Inl (unauthorized ''no valid credentials provided''), d))))"

section \<open>The admin password\<close>

definition is_admin_configured :: "'a codec_scheme \<Rightarrow> db \<Rightarrow> bool" where
  "is_admin_configured c d =
     (case get_setting_string c ''admin_password_hash'' d of Inl e \<Rightarrow> False | Inr h \<Rightarrow> True)"

definition json_quoted :: "string \<Rightarrow> string" where
  "json_quoted s = [dquote] @ s @ [dquote]"

text \<open>Every statement commits on its own, so an error leaves what was written before it.\<close>

definition set_admin_password ::
  "auth_lib \<Rightarrow> string \<Rightarrow> string \<Rightarrow> db \<Rightarrow> unit app_result \<times> db" where
  "set_admin_password lib new_secret password d =
     (if length password < 8 then
        (Inl (BadRequest ''password must be at least 8 characters''), d)
      else (case hash_password lib password of
        Inl e \<Rightarrow> (Inl e, d)
      | Inr hash \<Rightarrow>
          (let d = set_setting ''admin_password_hash'' (json_quoted hash) d;
               d = (case get_setting_string lib ''jwt_secret'' d of
                      Inl e \<Rightarrow> set_setting ''jwt_secret'' (json_quoted new_secret) d
                    | Inr s \<Rightarrow> d)
           in (Inr (), set_setting ''require_auth'' ''true'' d))))"

definition auth_setup :: "auth_lib \<Rightarrow> string \<Rightarrow> string \<Rightarrow> db \<Rightarrow> unit app_result \<times> db" where
  "auth_setup lib new_secret password d =
     (if is_admin_configured lib d then (Inl (BadRequest ''admin password already configured''), d)
      else set_admin_password lib new_secret password d)"

definition auth_login :: "auth_lib \<Rightarrow> string \<Rightarrow> db \<Rightarrow> string app_result" where
  "auth_login lib password d =
     (case get_setting_string lib ''admin_password_hash'' d of
        Inl e \<Rightarrow> Inl (BadRequest ''auth not configured, run setup first'')
      | Inr hash \<Rightarrow>
          rbind (check_password lib password hash) (\<lambda>ok.
            if \<not> ok then Inl (BadRequest ''unauthorized: invalid password'')
            else (case get_setting_string lib ''jwt_secret'' d of
                Inl e \<Rightarrow> Inl (BadRequest ''JWT secret not configured'')
              | Inr secret \<Rightarrow>
                  rbind (sign_token lib secret ''admin'') (\<lambda>token.
                    Inr (''kou_auth='' @ token @ ''; Path=/; HttpOnly; SameSite=Lax; Max-Age=86400'')))))"

text \<open>\<open>get_settings\<close>: every row, parsed; one unreadable row fails the whole listing.\<close>

fun settings_rows :: "'a codec_scheme \<Rightarrow> (string \<times> string) list \<Rightarrow> obj \<Rightarrow> obj app_result" where
  "settings_rows c [] ob = Inr ob"
| "settings_rows c ((k, raw) # rows) ob =
     (case json_parse c raw of
        Inl e \<Rightarrow> Inl (JsonError e)
      | Inr v \<Rightarrow> settings_rows c rows (obj_insert k v ob))"

definition get_settings :: "'a codec_scheme \<Rightarrow> db \<Rightarrow> json app_result" where
  "get_settings c d = rbind (settings_rows c (db_settings d) []) (\<lambda>ob. Inr (JObj ob))"

section \<open>Who gets in\<close>

lemma validate_api_key_Inr:
  "validate_api_key now lib key d = (Inr ctx, d') \<longleftrightarrow>
     (\<exists>k. find_api_key_by_hash (hash_api_key lib key) d = Some k \<and> k_is_active k
        \<and> ctx = ApiKeyContext (k_id k) (k_name k) (k_allowed_models k)
        \<and> d' = touch_api_key_usage now (k_id k) d)"
  by (auto simp: validate_api_key_def split: option.splits if_splits)

lemma management_auth_Inr:
  assumes "management_auth now lib hs d = (Inr ctx, d')" and "is_auth_required d"
  shows "(\<exists>sub. ctx = AdminContext sub \<and> cookie_subject lib hs d = Some sub)
     \<or> (\<exists>token k. presented_key hs = Some token \<and> k \<in> set (db_api_keys d)
          \<and> k_key_hash k = hash_api_key lib token \<and> k_is_active k
          \<and> ctx = ApiKeyContext (k_id k) (k_name k) (k_allowed_models k))"
  using assms
  by (auto simp: management_auth_def validate_api_key_Inr find_api_key_by_hash_def
      dest: find_SomeD split: option.splits)

lemma proxy_auth_Inr:
  assumes "proxy_auth now lib hs d = (Inr ctx, d')" and "is_auth_required d"
  shows "\<exists>token k. presented_key hs = Some token \<and> k \<in> set (db_api_keys d)
     \<and> k_key_hash k = hash_api_key lib token \<and> k_is_active k
     \<and> ctx = ApiKeyContext (k_id k) (k_name k) (k_allowed_models k)"
  using assms
  by (auto simp: proxy_auth_def validate_api_key_Inr find_api_key_by_hash_def
      dest: find_SomeD split: option.splits)

lemma get_setting_set [simp]:
  "obj_get k (db_settings (set_setting j v d)) = (if k = j then Some v else obj_get k (db_settings d))"
  by (simp add: set_setting_def)

lemma get_setting_bool_set [simp]:
  "get_setting_bool k (set_setting j v d)
     = (if k = j then v = ''true'' \<or> v = ''1'' else get_setting_bool k d)"
  by (simp add: get_setting_bool_def)

lemma get_setting_string_set_other [simp]:
  "k \<noteq> j \<Longrightarrow> get_setting_string c k (set_setting j v d) = get_setting_string c k d"
  by (simp add: get_setting_string_def)

lemma set_admin_password_Inr:
  assumes "set_admin_password lib sec pw d = (Inr (), d')"
  shows "8 \<le> length pw \<and> is_auth_required d'
     \<and> (\<exists>hash. hash_password lib pw = Inr hash
          \<and> obj_get ''admin_password_hash'' (db_settings d') = Some (json_quoted hash))
     \<and> (\<forall>s. get_setting_string lib ''jwt_secret'' d = Inr s
          \<longrightarrow> get_setting_string lib ''jwt_secret'' d' = Inr s)"
  using assms
  by (auto simp: set_admin_password_def is_auth_required_def Let_def split: if_splits sum.splits)

lemma length_hex_bytes: "length (hex_bytes bs) = 2 * length bs"
  by (induction bs) (auto simp: hex_bytes_def)

lemma generated_key_format:
  "length random = 16 \<Longrightarrow> is_valid_key_format (kc_key (generate_api_key fresh random name))"
  by (simp add: generate_api_key_def is_valid_key_format_def length_hex_bytes Let_def
      starts_with_iff)

lemma settings_rows_get:
  "settings_rows c rows ob = Inr ob' \<Longrightarrow> distinct (map fst rows) \<Longrightarrow>
     obj_get k ob' = (case map_of rows k of
        Some raw \<Rightarrow> (case json_parse c raw of Inl e \<Rightarrow> None | Inr v \<Rightarrow> Some v)
      | None \<Rightarrow> obj_get k ob)"
proof (induction c rows ob rule: settings_rows.induct)
  case (2 c k' raw rows ob)
  then show ?case
    by (auto split: sum.splits option.splits dest: map_of_SomeD)
      (force dest: map_of_SomeD)+
qed simp

end
