(* ===== verification/OAuth.thy ===== *)
theory OAuth
  imports Db_Invariant Search
begin

text \<open>
  OAuth accounts (\<open>src/oauth/service.rs\<close>, \<open>mod.rs\<close>, \<open>codex.rs\<close>): starting and completing an
  authorization and refreshing an account. The token endpoints, the clock, the HTTP client and
  the random generator are arguments. Completing an authorization waits for the token endpoint
  in the middle, so it is modelled in two halves, which may see different databases.
\<close>

datatype oauth_provider = CodexOAuth | ClaudeOAuth

definition oauth_provider_from_id :: "string \<Rightarrow> oauth_provider app_result" where
  "oauth_provider_from_id i =
     (let l = to_ascii_lowercase i in
      if l = ''codex'' then Inr CodexOAuth
      else if l \<in> {''claude-oauth'', ''claude'', ''anthropic-oauth''} then Inr ClaudeOAuth
      else Inl (BadRequest (''provider '' @ quoted l @ '' does not support oauth'')))"

record token_grant =
  tg_access_token :: string
  tg_refresh_token :: "string option"
  tg_expires_at :: "timestamp option"
  tg_scopes :: "string list option"
  tg_remote_account_id :: "string option"
  tg_remote_email :: "string option"
  tg_is_fedramp :: bool
  tg_api_key :: "string option"

fun default_scopes :: "oauth_provider \<Rightarrow> string list" where
  "default_scopes CodexOAuth = [''openid'', ''profile'', ''email'', ''offline_access'',
     ''api.connectors.read'', ''api.connectors.invoke'']"
| "default_scopes ClaudeOAuth = [''org:create_api_key'', ''user:profile'', ''user:inference'',
     ''user:sessions:claude_code'', ''user:mcp_servers'', ''user:file_upload'']"

section \<open>The Codex authorization URL\<close>

definition percent_encode :: "string \<Rightarrow> string" where
  "percent_encode v = concat (map (\<lambda>c.
     if is_unreserved c then [c]
     else [CHR ''%'', hex_digit (byte c div 16), hex_digit (byte c mod 16)]) v)"

definition query_string :: "(string \<times> string) list \<Rightarrow> string" where
  "query_string kvs = str_join ''&'' (map (\<lambda>(k, v). k @ ''='' @ percent_encode v) kvs)"

definition build_authorization_url ::
  "string \<Rightarrow> string \<Rightarrow> string \<Rightarrow> string \<Rightarrow> string \<Rightarrow> string list \<Rightarrow> string" where
  "build_authorization_url issuer originator redirect_uri state challenge scopes =
     (let scope = str_join '' '' (if scopes = [] then default_scopes CodexOAuth else scopes) in
      trim_end_char CHR ''/'' issuer @ ''/oauth/authorize?'' @ query_string
        [(''response_type'', ''code''), (''client_id'', ''app_EMoamEEZ73f0CkXaXp7hrann''),
         (''redirect_uri'', redirect_uri), (''scope'', scope), (''code_challenge'', challenge),
         (''code_challenge_method'', ''S256''), (''id_token_add_organizations'', ''true''),
         (''codex_cli_simplified_flow'', ''true''), (''state'', state),
         (''originator'', originator)])"

section \<open>Token endpoint errors\<close>

definition summarize_oauth_error :: "'a codec_scheme \<Rightarrow> string \<Rightarrow> string \<Rightarrow> string" where
  "summarize_oauth_error c status body =
     (let message = (case json_parse c body of
        Inl e \<Rightarrow> None
      | Inr v \<Rightarrow>
          or_else (get_str ''error_description'' v)
          (or_else (Option.bind (jget ''error'' v) (get_str ''message''))
          (or_else (get_str ''message'' v) (get_str ''error'' v))))
      in ''status '' @ status @ '': '' @ unwrap_or ''request failed'' message)"

definition extract_refresh_token_error_code :: "'a codec_scheme \<Rightarrow> string \<Rightarrow> string option" where
  "extract_refresh_token_error_code c body =
     (if trim body = [] then None
      else (case json_parse c body of
        Inr (JObj ob) \<Rightarrow>
          (case obj_get ''error'' ob of
             Some (JObj err) \<Rightarrow>
               (case Option.bind (obj_get ''code'' err) as_str of
                  Some code \<Rightarrow> Some code
                | None \<Rightarrow> Option.bind (obj_get ''code'' ob) as_str)
           | Some (JStr code) \<Rightarrow> Some code
           | _ \<Rightarrow> Option.bind (obj_get ''code'' ob) as_str)
      | _ \<Rightarrow> None))"

definition not_refreshed :: "string \<Rightarrow> string" where
  "not_refreshed reason =
     ''Your access token could not be refreshed'' @ reason @ ''. Please log out and sign in again.''"

definition classify_refresh_token_failure :: "'a codec_scheme \<Rightarrow> string \<Rightarrow> string" where
  "classify_refresh_token_failure c body =
     (let code = map_option to_ascii_lowercase (extract_refresh_token_error_code c body) in
      if code = Some ''refresh_token_expired''
      then not_refreshed '' because your refresh token has expired''
      else if code = Some ''refresh_token_reused''
      then not_refreshed '' because your refresh token was already used''
      else if code = Some ''refresh_token_invalidated''
      then not_refreshed '' because your refresh token was revoked''
      else not_refreshed [])"

section \<open>Starting an authorization\<close>

definition minute :: timestamp where "minute = 60 * second"

text \<open>
  \<open>proxy_error\<close> is the proxy check of the HTTP crate, \<open>authorize_url\<close> the provider's URL
  builder on redirect URI, state and scopes, \<open>fresh\<close>, \<open>state\<close> and \<open>verifier\<close> the drawn values.
\<close>

definition start_authorization ::
  "timestamp \<Rightarrow> (string \<Rightarrow> string option)
     \<Rightarrow> (oauth_provider \<Rightarrow> string \<Rightarrow> string \<Rightarrow> string list \<Rightarrow> string app_result)
     \<Rightarrow> string \<Rightarrow> string \<Rightarrow> string \<Rightarrow> string \<Rightarrow> string \<Rightarrow> string option \<Rightarrow> string \<Rightarrow> string option
     \<Rightarrow> db \<Rightarrow> (oauth_session \<times> string) app_result \<times> db" where
  "start_authorization now proxy_error authorize_url fresh conflict state verifier
       connection account redirect_uri proxy d =
     (let d = snd (delete_expired_oauth_sessions now d) in
      case find_provider_connection_by_id connection d of
        None \<Rightarrow> (Inl (BadRequest (''provider connection '' @ quoted connection @ '' does not exist'')), d)
      | Some p \<Rightarrow>
     (case oauth_provider_from_id (p_provider p) of
        Inl e \<Rightarrow> (Inl e, d)
      | Inr prov \<Rightarrow>
     (case normalize_proxy_url proxy_error proxy of
        Inl e \<Rightarrow> (Inl e, d)
      | Inr proxy \<Rightarrow>
     (case (case account of
              None \<Rightarrow> Inr d
            | Some a \<Rightarrow> rbind (update_provider_account_proxy now proxy_error a proxy d) (\<lambda>r. Inr (snd r))) of
        Inl e \<Rightarrow> (Inl e, d)
      | Inr d \<Rightarrow>
     (case authorize_url prov redirect_uri state (default_scopes prov) of
        Inl e \<Rightarrow> (Inl e, d)
      | Inr url \<Rightarrow>
     (case create_oauth_session now fresh conflict
             \<lparr>ns_state = state, ns_provider_connection_id = p_id p, ns_provider_account_id = account,
              ns_redirect_uri = redirect_uri, ns_code_verifier = verifier,
              ns_scopes = Some (default_scopes prov), ns_proxy_url = proxy,
              ns_expires_at = now + 10 * minute\<rparr> d of
        Inl e \<Rightarrow> (Inl e, d)
      | Inr (s, d) \<Rightarrow> (Inr (s, url), d)))))))"

section \<open>Completing an authorization\<close>

text \<open>What is checked before the token endpoint is asked.\<close>

definition complete_begin ::
  "timestamp \<Rightarrow> string \<Rightarrow> db \<Rightarrow> (oauth_session \<times> oauth_provider) app_result \<times> db" where
  "complete_begin now state d =
     (case get_oauth_session_by_state state d of
        None \<Rightarrow> (Inl (BadRequest ''oauth session not found''), d)
      | Some s \<Rightarrow>
          if s_consumed_at s \<noteq> None then
            (Inl (BadRequest ''oauth session has already been consumed''), d)
          else if s_expires_at s \<le> now then
            (Inl (BadRequest ''oauth session has expired''), snd (delete_oauth_session (s_id s) d))
          else
            (case find_provider_connection_by_id (s_provider_connection_id s) d of
               None \<Rightarrow> (Inl (BadRequest (''provider connection ''
                   @ quoted (s_provider_connection_id s) @ '' does not exist'')), d)
             | Some p \<Rightarrow>
                 (rbind (oauth_provider_from_id (p_provider p)) (\<lambda>prov. Inr (s, prov)), d)))"

definition granted_account :: "oauth_session \<Rightarrow> token_grant \<Rightarrow> new_account" where
  "granted_account s g =
     \<lparr>na_provider_connection_id = s_provider_connection_id s,
      na_label = or_else (tg_remote_email g) (tg_remote_account_id g), na_auth_mode = OAuthMode,
      na_api_key = tg_api_key g, na_access_token = Some (tg_access_token g),
      na_refresh_token = tg_refresh_token g, na_expires_at = tg_expires_at g,
      na_scopes = Some (unwrap_or (s_scopes s) (tg_scopes g)),
      na_remote_account_id = tg_remote_account_id g, na_remote_email = tg_remote_email g,
      na_is_fedramp = tg_is_fedramp g, na_enabled = True, na_priority = None,
      na_proxy_url = s_proxy_url s, na_base_url = None, na_protocol_format = None,
      na_supported_endpoints = None\<rparr>"

definition account_missing :: "string \<Rightarrow> app_error" where
  "account_missing i = NotFound (''provider account '' @ i)"

definition store_grant ::
  "timestamp \<Rightarrow> (string \<Rightarrow> string option) \<Rightarrow> string \<Rightarrow> oauth_session \<Rightarrow> token_grant \<Rightarrow> db
     \<Rightarrow> account app_result \<times> db" where
  "store_grant now proxy_error fresh s g d =
     (case s_provider_account_id s of
        Some i \<Rightarrow>
          (let (updated, d) = update_provider_account_oauth_credentials now i (tg_access_token g)
                 (tg_refresh_token g) (tg_expires_at g) (unwrap_or (s_scopes s) (tg_scopes g))
                 (tg_remote_account_id g) (tg_remote_email g) (tg_is_fedramp g) (tg_api_key g) d
           in if \<not> updated then (Inl (account_missing i), d)
              else (case update_provider_account_proxy now proxy_error i (s_proxy_url s) d of
                      Inl e \<Rightarrow> (Inl e, d)
                    | Inr (b, d) \<Rightarrow> (ok_or (account_missing i) (get_provider_account i d), d)))
      | None \<Rightarrow>
          (case create_provider_account now fresh proxy_error (granted_account s g) d of
             Inl e \<Rightarrow> (Inl e, d)
           | Inr (a, d) \<Rightarrow> (Inr a, d)))"

definition complete_finish ::
  "timestamp \<Rightarrow> (string \<Rightarrow> string option) \<Rightarrow> string \<Rightarrow> oauth_session \<Rightarrow> token_grant \<Rightarrow> db
     \<Rightarrow> account app_result \<times> db" where
  "complete_finish now proxy_error fresh s g d =
     (let (consumed, d) = mark_oauth_session_consumed now (s_id s) d in
      if \<not> consumed then (Inl (BadRequest ''oauth session has already been consumed''), d)
      else (case store_grant now proxy_error fresh s g d of
              (Inl e, d) \<Rightarrow> (Inl e, d)
            | (Inr a, d) \<Rightarrow> (Inr a, snd (delete_oauth_session (s_id s) d))))"

text \<open>
  The whole handler when nothing else runs meanwhile: \<open>client\<close> is the client cache and
  \<open>exchange\<close> the token endpoint.
\<close>

definition complete_authorization ::
  "timestamp \<Rightarrow> (string \<Rightarrow> string option) \<Rightarrow> (string option \<Rightarrow> unit app_result)
     \<Rightarrow> (oauth_provider \<Rightarrow> oauth_session \<Rightarrow> string \<Rightarrow> token_grant app_result)
     \<Rightarrow> string \<Rightarrow> string \<Rightarrow> string \<Rightarrow> db \<Rightarrow> account app_result \<times> db" where
  "complete_authorization now proxy_error client exchange fresh state code d =
     (case complete_begin now state d of
        (Inl e, d) \<Rightarrow> (Inl e, d)
      | (Inr (s, prov), d) \<Rightarrow>
          (case rbind (client (s_proxy_url s)) (\<lambda>_. exchange prov s code) of
             Inl e \<Rightarrow> (Inl e, d)
           | Inr g \<Rightarrow> complete_finish now proxy_error fresh s g d))"

section \<open>Refreshing an account\<close>

definition refresh_provider_account ::
  "timestamp \<Rightarrow> (string option \<Rightarrow> unit app_result)
     \<Rightarrow> (oauth_provider \<Rightarrow> string \<Rightarrow> token_grant app_result) \<Rightarrow> string \<Rightarrow> db
     \<Rightarrow> account app_result \<times> db" where
  "refresh_provider_account now client refresh i d =
     (case get_provider_account i d of
        None \<Rightarrow> (Inl (account_missing i), d)
      | Some a \<Rightarrow>
     (if a_auth_mode a \<noteq> OAuthMode then
        (Inl (BadRequest (''provider account '' @ quoted i @ '' does not use oauth'')), d)
      else (case a_refresh_token a of
        None \<Rightarrow> (Inl (BadRequest (''provider account '' @ quoted i @ '' has no refresh token'')), d)
      | Some token \<Rightarrow>
     (case find_provider_connection_by_id (a_provider_connection_id a) d of
        None \<Rightarrow> (Inl (BadRequest (''provider connection ''
            @ quoted (a_provider_connection_id a) @ '' does not exist'')), d)
      | Some p \<Rightarrow>
     (case rbind (oauth_provider_from_id (p_provider p))
             (\<lambda>prov. rbind (client (a_proxy_url a)) (\<lambda>_. Inr prov)) of
        Inl e \<Rightarrow> (Inl e, d)
      | Inr prov \<Rightarrow>
     (case refresh prov token of
        Inl e \<Rightarrow> (Inl e, snd (record_provider_account_refresh_error now i (error_text e) d))
      | Inr g \<Rightarrow>
          (let d = snd (update_provider_account_oauth_credentials now i (tg_access_token g)
                 (tg_refresh_token g) (tg_expires_at g) (unwrap_or (a_scopes a) (tg_scopes g))
                 (or_else (tg_remote_account_id g) (a_remote_account_id a))
                 (or_else (tg_remote_email g) (a_remote_email a))
                 (tg_is_fedramp g \<or> a_is_fedramp a) (tg_api_key g) d)
           in (ok_or (account_missing i) (get_provider_account i d), d))))))))"

section \<open>Facts\<close>

lemma percent_encode_byte:
  "(if is_unreserved c then [c]
    else [CHR ''%'', hex_digit (byte c div 16), hex_digit (byte c mod 16)]) = encode_byte c"
proof (cases "c = CHR '' ''")
  case True
  have "(if is_unreserved CHR '' '' then [CHR '' '']
      else [CHR ''%'', hex_digit (byte CHR '' '' div 16), hex_digit (byte CHR '' '' mod 16)])
    = encode_byte CHR '' ''" by code_simp
  then show ?thesis unfolding True .
next
  case False
  then show ?thesis by (simp add: encode_byte_def)
qed

lemma percent_encode_eq: "percent_encode v = encode_query_component v"
  unfolding percent_encode_def encode_query_component_def percent_encode_byte ..

text \<open>Every half of the handlers is a sequence of repository statements.\<close>

lemma step_steps: "db_step w w' \<Longrightarrow> db_step\<^sup>*\<^sup>* w w'"
  by (rule r_into_rtranclp)

lemma complete_begin_steps:
  "complete_begin now state d = (r, d')
     \<Longrightarrow> db_step\<^sup>*\<^sup>* \<lparr>w_used = u, w_db = d\<rparr> \<lparr>w_used = u, w_db = d'\<rparr>"
  by (auto simp: complete_begin_def split: option.splits if_splits
      intro!: step_steps step_delete_session [OF surjective_pairing])

lemma store_grant_steps:
  assumes "store_grant now proxy_error fresh s g d = (r, d')" and "fresh \<notin> u"
  shows "\<exists>u'. u' \<subseteq> insert fresh u
     \<and> db_step\<^sup>*\<^sup>* \<lparr>w_used = u, w_db = d\<rparr> \<lparr>w_used = u', w_db = d'\<rparr>"
proof (cases "s_provider_account_id s")
  case None
  show ?thesis
  proof (cases "create_provider_account now fresh proxy_error (granted_account s g) d")
    case (Inl e)
    then show ?thesis using assms None by (auto simp: store_grant_def)
  next
    case (Inr ad)
    obtain a d1 where ad: "ad = (a, d1)" by (cases ad)
    have "db_step \<lparr>w_used = u, w_db = d\<rparr> \<lparr>w_used = insert fresh u, w_db = d1\<rparr>"
      by (rule step_create_account [OF assms(2) Inr [unfolded ad]])
    moreover have "d' = d1" using assms(1) None Inr ad by (simp add: store_grant_def)
    ultimately show ?thesis by blast
  qed
next
  case (Some i)
  obtain b d1 where up: "update_provider_account_oauth_credentials now i (tg_access_token g)
      (tg_refresh_token g) (tg_expires_at g) (unwrap_or (s_scopes s) (tg_scopes g))
      (tg_remote_account_id g) (tg_remote_email g) (tg_is_fedramp g) (tg_api_key g) d = (b, d1)"
    by fastforce
  have one: "db_step\<^sup>*\<^sup>* \<lparr>w_used = u, w_db = d\<rparr> \<lparr>w_used = u, w_db = d1\<rparr>"
    by (rule step_steps [OF step_account_oauth [OF up]])
  show ?thesis
  proof (cases "update_provider_account_proxy now proxy_error i (s_proxy_url s) d1")
    case (Inl e)
    then have "d' = d1" using assms Some up by (auto simp: store_grant_def split: if_splits)
    then show ?thesis using one by blast
  next
    case (Inr bd)
    obtain b2 d2 where bd: "bd = (b2, d2)" by (cases bd)
    then have "db_step\<^sup>*\<^sup>* \<lparr>w_used = u, w_db = d\<rparr> \<lparr>w_used = u, w_db = d2\<rparr>"
      using one Inr step_account_proxy rtranclp.rtrancl_into_rtrancl by metis
    moreover have "d' = d1 \<or> d' = d2"
      using assms Some up Inr bd by (auto simp: store_grant_def split: if_splits)
    ultimately show ?thesis using one by blast
  qed
qed

lemma complete_finish_consumed:
  assumes "complete_finish now proxy_error fresh s g d = (Inr a, d')"
  shows "\<exists>d1 d2. mark_oauth_session_consumed now (s_id s) d = (True, d1)
     \<and> store_grant now proxy_error fresh s g d1 = (Inr a, d2)
     \<and> d' = snd (delete_oauth_session (s_id s) d2)"
  using assms by (auto simp: complete_finish_def split: prod.splits if_splits sum.splits)

text \<open>
  A completed authorization spends its session: whatever happened in the meantime, another
  completion of the same session fails.
\<close>

lemma complete_finish_spends:
  assumes fin: "complete_finish now proxy_error fresh s g d = (Inr a, d')"
    and ok: "db_ok \<lparr>w_used = u, w_db = d\<rparr>" and fresh: "fresh \<notin> u"
  shows "\<exists>u'. db_step\<^sup>*\<^sup>* \<lparr>w_used = u, w_db = d\<rparr> \<lparr>w_used = u', w_db = d'\<rparr>
     \<and> spent (s_id s) \<lparr>w_used = u', w_db = d'\<rparr>"
proof -
  obtain d1 d2 where m: "mark_oauth_session_consumed now (s_id s) d = (True, d1)"
    and st: "store_grant now proxy_error fresh s g d1 = (Inr a, d2)"
    and d': "d' = snd (delete_oauth_session (s_id s) d2)"
    using complete_finish_consumed [OF fin] by blast
  obtain u' where s2: "db_step\<^sup>*\<^sup>* \<lparr>w_used = u, w_db = d1\<rparr> \<lparr>w_used = u', w_db = d2\<rparr>"
    using store_grant_steps [OF st fresh] by blast
  have s3: "db_step \<lparr>w_used = u', w_db = d2\<rparr> \<lparr>w_used = u', w_db = d'\<rparr>"
    unfolding d' by (rule step_delete_session [OF surjective_pairing])
  have "spent (s_id s) \<lparr>w_used = u', w_db = d'\<rparr>"
    by (rule spent_step [OF s3 spent_steps [OF s2 consume_spends [OF m ok]]])
  moreover have "db_step\<^sup>*\<^sup>* \<lparr>w_used = u, w_db = d\<rparr> \<lparr>w_used = u', w_db = d'\<rparr>"
    using step_consume [OF m] s2 s3 by (meson converse_rtranclp_into_rtranclp rtranclp.rtrancl_into_rtrancl)
  ultimately show ?thesis by blast
qed

lemma spent_complete_finish:
  "spent (s_id s) \<lparr>w_used = u, w_db = d\<rparr>
     \<Longrightarrow> fst (complete_finish now proxy_error fresh s g d)
         = Inl (BadRequest ''oauth session has already been consumed'')"
  using spent_not_consumed [of "s_id s" u d now]
  by (cases "mark_oauth_session_consumed now (s_id s) d") (simp add: complete_finish_def)

lemma complete_begin_Inr:
  "complete_begin now state d = (Inr (s, prov), d') \<Longrightarrow>
     s \<in> set (db_sessions d) \<and> s_state s = state \<and> s_consumed_at s = None \<and> now < s_expires_at s
     \<and> d' = d"
  by (auto simp: complete_begin_def get_oauth_session_by_state_def rbind_Inr
      dest: find_SomeD split: option.splits if_splits)

lemma start_authorization_Inr:
  assumes "start_authorization now proxy_error authorize_url fresh conflict state verifier
      connection account redirect_uri proxy d = (Inr (s, url), d')"
  shows "s \<in> set (db_sessions d') \<and> s_state s = state \<and> s_code_verifier s = verifier
     \<and> s_provider_connection_id s = connection \<and> s_consumed_at s = None
     \<and> s_expires_at s = now + 10 * minute"
  using assms
  by (auto simp: start_authorization_def Let_def create_oauth_session_def rbind_Inr
      find_provider_connection_by_id_def dest!: find_SomeD split: option.splits sum.splits if_splits)

lemma get_updated_account:
  assumes "\<And>a. a_id (f a) = a_id a"
  shows "get_provider_account i (update_account_rows i f d) = map_option f (get_provider_account i d)"
proof -
  have "find (\<lambda>a. a_id a = i) (update_rows (\<lambda>a. a_id a = i) f rows)
      = map_option f (find (\<lambda>a. a_id a = i) rows)" for rows
    by (induction rows) (simp_all add: update_rows_def assms)
  then show ?thesis by (simp add: get_provider_account_def update_account_rows_def)
qed

lemma get_provider_account_id: "get_provider_account i d = Some a \<Longrightarrow> a_id a = i"
  by (auto simp: get_provider_account_def dest: find_SomeD)

lemma or_else_defined [simp]: "\<exists>z. or_else x (Some y) = Some z"
  by (cases x) auto

lemma refresh_keeps_identity:
  assumes "refresh_provider_account now client refresh i d = (Inr a, d')"
    and b: "get_provider_account i d = Some b"
  shows "a_id a = i \<and> (a_is_fedramp b \<longrightarrow> a_is_fedramp a)
     \<and> (a_refresh_token b \<noteq> None \<longrightarrow> a_refresh_token a \<noteq> None)
     \<and> (a_remote_account_id b \<noteq> None \<longrightarrow> a_remote_account_id a \<noteq> None)
     \<and> a_refresh_error a = None"
proof -
  have "a_id b = i"
    by (rule get_provider_account_id [OF b])
  then show ?thesis
    using assms
    by (auto simp: refresh_provider_account_def Let_def get_updated_account
        update_provider_account_oauth_credentials_def update_account_def
        split: option.splits sum.splits if_splits)
qed

end
