(* ===== verification/Routing.thy ===== *)
theory Routing
  imports OAuth Retry RateLimits Requests Trans_Hub
begin

text \<open>
  The decisions of the routing service (\<open>src/service.rs\<close>): which connections may serve a
  request and in which order, the candidates of a model or combo, round robin, the accounts
  and credentials to try, and one exchange with its OAuth retry.

  The state is the database, the round-robin counters, the rate-limit tracker and the number
  of exchanges so far. The environment is what the service takes from outside: the clock and
  the answers of the upstream and of the token endpoints, each a function of the number of
  exchanges, the HTTP client of a proxy URL, and the retry configuration.
\<close>

record router =
  rt_db :: db
  rt_rr :: "(string \<times> u64) list"
  rt_tracker :: tracker
  rt_sent :: nat

record 'c env =
  ev_lib :: http_lib
  ev_clock :: "nat \<Rightarrow> timestamp"
  ev_client :: "string option \<Rightarrow> 'c app_result"
  ev_refresh :: "nat \<Rightarrow> oauth_provider \<Rightarrow> string \<Rightarrow> token_grant app_result"
  ev_send :: "nat \<Rightarrow> nat \<Rightarrow> 'c \<Rightarrow> outgoing \<Rightarrow> http_response app_result"
  ev_random :: "nat \<Rightarrow> nat \<Rightarrow> u64 \<Rightarrow> u64"
  ev_retry :: retry_config

definition now_of :: "'c env \<Rightarrow> router \<Rightarrow> timestamp" where
  "now_of ev st = ev_clock ev (rt_sent st)"

definition map_db :: "(db \<Rightarrow> db) \<Rightarrow> router \<Rightarrow> router" where
  "map_db f st = st\<lparr>rt_db := f (rt_db st)\<rparr>"

section \<open>Connections that may serve a request\<close>

definition endpoint_translates_to_claude_messages :: "endpoint \<Rightarrow> bool" where
  "endpoint_translates_to_claude_messages e \<longleftrightarrow>
     e \<in> {ChatCompletions, Completions, Responses, Messages}"

definition provider_supports_routed_endpoint :: "provider \<Rightarrow> endpoint \<Rightarrow> bool" where
  "provider_supports_routed_endpoint p e \<longleftrightarrow>
     supports_endpoint (p_supported_endpoints p) e
     \<or> (endpoint_translates_to_claude_messages e \<and> from_provider p = Claude
        \<and> supports_endpoint (p_supported_endpoints p) Messages)
     \<or> (is_chat_family e \<and> from_provider p = OpenAIResponses
        \<and> supports_endpoint (p_supported_endpoints p) Responses)"

definition upstream_endpoint_for_provider :: "endpoint \<Rightarrow> protocol \<Rightarrow> endpoint" where
  "upstream_endpoint_for_provider e target =
     (if endpoint_translates_to_claude_messages e \<and> target = Claude then Messages
      else if is_chat_family e \<and> target = OpenAIResponses then Responses
      else e)"

fun passed :: "timestamp \<Rightarrow> timestamp option \<Rightarrow> bool" where
  "passed now None = True"
| "passed now (Some t) = (t < now)"

definition provider_available :: "timestamp \<Rightarrow> provider \<Rightarrow> bool" where
  "provider_available now p \<longleftrightarrow>
     p_enabled p \<and> passed now (p_rate_limited_until p) \<and> passed now (p_circuit_open_until p)"

definition available_providers :: "timestamp \<Rightarrow> endpoint \<Rightarrow> db \<Rightarrow> provider list" where
  "available_providers now e d =
     filter (\<lambda>p. provider_available now p \<and> provider_supports_routed_endpoint p e)
       (list_provider_connections d)"

section \<open>Connections that match a model\<close>

definition well_known_prefixes :: "(string \<times> string) list" where
  "well_known_prefixes =
     [(''claude-'', ''anthropic''), (''gpt-'', ''openai''), (''o1-'', ''openai''),
      (''o3-'', ''openai''), (''o4-'', ''openai''), (''chatgpt-'', ''openai''),
      (''gemini-'', ''gemini''), (''gemma-'', ''gemini''), (''llama-'', ''meta''),
      (''mistral-'', ''mistral''), (''codestral-'', ''mistral''), (''command-'', ''cohere''),
      (''deepseek-'', ''deepseek'')]"

definition infer_provider_from_model_name :: "string \<Rightarrow> string option" where
  "infer_provider_from_model_name model =
     map_option snd (find (\<lambda>(pre, prov). starts_with model pre) well_known_prefixes)"

definition is_anthropic_compatible_provider :: "provider \<Rightarrow> bool" where
  "is_anthropic_compatible_provider p \<longleftrightarrow> from_provider p = Claude"

definition matches_bare_model :: "string \<Rightarrow> provider \<Rightarrow> bool" where
  "matches_bare_model model p \<longleftrightarrow>
     (case infer_provider_from_model_name model of
        Some inferred \<Rightarrow> p_provider p = inferred \<or> p_model_prefix p = inferred
          \<or> (inferred = ''anthropic'' \<and> is_anthropic_compatible_provider p)
      | None \<Rightarrow> False)
     \<or> (case p_default_model p of
          Some m \<Rightarrow> m = model \<or> ends_with m (''/'' @ model)
        | None \<Rightarrow> False)"

definition find_providers_for_bare_model :: "provider list \<Rightarrow> string \<Rightarrow> provider list" where
  "find_providers_for_bare_model providers model =
     (let matching = filter (matches_bare_model model) providers in
      if matching = [] \<and> infer_provider_from_model_name model = None then providers
      else matching)"

definition matching_providers :: "provider list \<Rightarrow> string \<Rightarrow> string \<Rightarrow> provider list" where
  "matching_providers providers model_prefix raw_model =
     (if model_prefix = [] then find_providers_for_bare_model providers raw_model
      else filter (\<lambda>p. p_model_prefix p = model_prefix \<or> p_provider p = model_prefix) providers)"

definition near_limit_last :: "tracker \<Rightarrow> provider \<Rightarrow> bool" where
  "near_limit_last t p \<longleftrightarrow> p_rate_limit_protection p \<and> is_near_limit (p_id p) t"

definition order_providers :: "tracker \<Rightarrow> provider list \<Rightarrow> provider list" where
  "order_providers t ps = sort_key (near_limit_last t) (sort_key p_priority ps)"

datatype provider_kind = FirstParty | Foundry | Vertex | Bedrock | OtherKind

definition classify_provider :: "provider \<Rightarrow> provider_kind" where
  "classify_provider p =
     (let name = to_ascii_lowercase (p_provider p); url = to_ascii_lowercase (p_base_url p) in
      if name \<in> {''anthropic'', ''claude-oauth'', ''anthropic-oauth'', ''claude''}
         \<or> str_contains url ''api.anthropic.com'' then FirstParty
      else if name = ''foundry'' \<or> str_contains url ''services.ai.azure.com'' then Foundry
      else if name = ''vertex'' \<or> str_contains url ''aiplatform.googleapis.com'' then Vertex
      else if name = ''bedrock'' \<or> str_contains url ''amazonaws.com'' then Bedrock
      else OtherKind)"

record oauth_context =
  oc_account_uuid :: "string option"
  oc_is_oauth_subscriber :: bool

definition build_oauth_context :: "account option \<Rightarrow> provider_kind \<Rightarrow> oauth_context option" where
  "build_oauth_context acc kind =
     (case acc of
        None \<Rightarrow> None
      | Some a \<Rightarrow>
          if a_auth_mode a \<noteq> OAuthMode then None
          else Some \<lparr>oc_account_uuid = a_remote_account_id a,
                     oc_is_oauth_subscriber = (kind = FirstParty)\<rparr>)"

section \<open>Round robin\<close>

text \<open>
  One shared table of counters: a turn takes the counter modulo the number of alternatives and
  advances it with wrap-around.
\<close>

definition rr_turn :: "string \<Rightarrow> nat \<Rightarrow> (string \<times> u64) list \<Rightarrow> nat \<times> (string \<times> u64) list" where
  "rr_turn key n rr =
     (let next = unwrap_or 0 (obj_get key rr)
      in (unat next mod n, obj_insert key (next + 1) rr))"

definition account_key :: "string \<Rightarrow> string" where
  "account_key connection = ''provider-account:'' @ connection"

definition order_provider_accounts ::
  "string \<Rightarrow> account list \<Rightarrow> routing_strategy \<Rightarrow> (string \<times> u64) list
     \<Rightarrow> account list \<times> (string \<times> u64) list" where
  "order_provider_accounts connection accounts strategy rr =
     (if strategy = RoundRobin \<and> 1 < length accounts then
        (let (idx, rr) = rr_turn (account_key connection) (length accounts) rr
         in (rotate idx accounts, rr))
      else (accounts, rr))"

definition pick_round_robin ::
  "string \<Rightarrow> string list \<Rightarrow> (string \<times> u64) list \<Rightarrow> string app_result \<times> (string \<times> u64) list" where
  "pick_round_robin name models rr =
     (if models = [] then (Inl (BadRequest ''combo must include at least one model''), rr)
      else (let (idx, rr) = rr_turn name (length models) rr in (Inr (models ! idx), rr)))"

definition expand_candidates ::
  "endpoint \<Rightarrow> string \<Rightarrow> db \<Rightarrow> (string \<times> u64) list
     \<Rightarrow> string list app_result \<times> (string \<times> u64) list" where
  "expand_candidates e model d rr =
     (if \<not> is_chat_family e then (Inr [model], rr)
      else (case find_combo_by_name model d of
        None \<Rightarrow> (Inr [model], rr)
      | Some c \<Rightarrow>
          if \<not> c_enabled c then
            (Inl (BadRequest (''combo '' @ c_name c @ '' is disabled'')), rr)
          else (case c_strategy c of
            ComboPriority \<Rightarrow> (Inr (c_models c), rr)
          | ComboRoundRobin \<Rightarrow>
              (case pick_round_robin (c_name c) (c_models c) rr of
                 (Inl err, rr) \<Rightarrow> (Inl err, rr)
               | (Inr picked, rr) \<Rightarrow>
                   (Inr (picked # filter (\<lambda>m. m \<noteq> picked) (c_models c)), rr)))))"

section \<open>Accounts and credentials\<close>

definition has_secret :: "string option \<Rightarrow> bool" where
  "has_secret v = (case v of None \<Rightarrow> False | Some s \<Rightarrow> trim s \<noteq> [])"

definition needs_refresh :: "timestamp \<Rightarrow> account \<Rightarrow> bool" where
  "needs_refresh now a =
     (case a_expires_at a of
        Some t \<Rightarrow> t \<le> now + 5 * minute
      | None \<Rightarrow> \<not> has_secret (a_access_token a))"

definition refresh_account ::
  "'c env \<Rightarrow> string \<Rightarrow> router \<Rightarrow> account app_result \<times> router" where
  "refresh_account ev i st =
     (let (r, d) = refresh_provider_account (now_of ev st)
                     (\<lambda>proxy. rbind (ev_client ev proxy) (\<lambda>_. Inr ()))
                     (ev_refresh ev (rt_sent st)) i (rt_db st)
      in (r, st\<lparr>rt_db := d\<rparr>))"

definition prepare_provider_account ::
  "'c env \<Rightarrow> account \<Rightarrow> router \<Rightarrow> account option \<times> router" where
  "prepare_provider_account ev a st =
     (case a_auth_mode a of
        ApiKeyMode \<Rightarrow>
          (if has_secret (a_api_key a) \<or> has_secret (a_base_url a) then Some a else None, st)
      | OAuthMode \<Rightarrow>
          (case (if needs_refresh (now_of ev st) a then refresh_account ev (a_id a) st
                 else (Inr a, st)) of
             (Inl e, st) \<Rightarrow>
               (None, map_db (\<lambda>d. snd (record_provider_account_refresh_error (now_of ev st)
                                         (a_id a) (error_text e) d)) st)
           | (Inr b, st) \<Rightarrow>
               (if has_secret (a_access_token b) then (Some b, st)
                else (None, map_db (\<lambda>d. snd (record_provider_account_refresh_error (now_of ev st)
                              (a_id b) ''provider account has no access token after refresh'' d)) st))))"

type_synonym exec_target = "provider \<times> account option"

fun prepare_targets ::
  "'c env \<Rightarrow> provider \<Rightarrow> endpoint \<Rightarrow> account list \<Rightarrow> router \<Rightarrow> exec_target list \<times> router" where
  "prepare_targets ev p e [] st = ([], st)"
| "prepare_targets ev p e (a # accounts) st =
     (let (prepared, st) = prepare_provider_account ev a st;
          (targets, st) = prepare_targets ev p e accounts st
      in (case prepared of
            None \<Rightarrow> (targets, st)
          | Some b \<Rightarrow>
              (let resolved = provider_with_account_auth p b (p_provider p) in
               if supports_endpoint (p_supported_endpoints resolved) e
               then ((resolved, Some b) # targets, st) else (targets, st))))"

definition execution_targets ::
  "'c env \<Rightarrow> provider \<Rightarrow> endpoint \<Rightarrow> router \<Rightarrow> exec_target list app_result \<times> router" where
  "execution_targets ev p e st =
     (case list_selectable_provider_accounts (now_of ev st) (p_id p) (rt_db st) of
        [] \<Rightarrow>
          (if eq_ignore_ascii_case (p_auth_type p) ''oauth''
              \<or> eq_ignore_ascii_case (p_provider p) ''custom''
              \<or> list_provider_accounts (p_id p) (rt_db st) \<noteq> []
              \<or> \<not> supports_endpoint (p_supported_endpoints p) e
           then (Inr [], st) else (Inr [(p, None)], st))
      | a # accounts \<Rightarrow>
          (case get_account_routing_strategy (p_id p) (rt_db st) of
             Inl err \<Rightarrow> (Inl err, st)
           | Inr strategy \<Rightarrow>
               (let (ordered, rr) = order_provider_accounts (p_id p) (a # accounts) strategy (rt_rr st);
                    (targets, st) = prepare_targets ev p e ordered (st\<lparr>rt_rr := rr\<rparr>)
                in (Inr targets, st))))"

section \<open>One exchange\<close>

text \<open>
  \<open>run_retry\<close> is \<open>execute_with_retry\<close> on the environment; it counts as one exchange. Its fuel
  is one more than the configured retries; \<open>None\<close> is a run that does not end, which only the
  largest possible \<open>max_retries\<close> allows.
\<close>

definition run_retry ::
  "'c env \<Rightarrow> provider \<Rightarrow> endpoint \<Rightarrow> string \<Rightarrow> prepared_request \<Rightarrow> headers option
     \<Rightarrow> string option \<Rightarrow> router \<Rightarrow> (retry_outcome app_result \<times> router) option" where
  "run_retry ev p e model prepared pass proxy st =
     map_option (\<lambda>(r, sleeps). (r, st\<lparr>rt_sent := Suc (rt_sent st)\<rparr>))
       (execute_with_retry (Suc (unat (max_retries (ev_retry ev)))) (ev_retry ev)
          (\<lambda>i. execute_prepared (ev_lib ev) (ev_client ev proxy) (ev_send ev (rt_sent st) i)
                 p e model prepared pass)
          (ev_random ev (rt_sent st)))"

definition needs_oauth_refresh :: "account option \<Rightarrow> retry_outcome \<Rightarrow> bool" where
  "needs_oauth_refresh acc out =
     (case (acc, ro_result out) of
        (Some a, Buffered r) \<Rightarrow> a_auth_mode a = OAuthMode \<and> r_status r = 401
      | _ \<Rightarrow> False)"

definition execute_with_oauth_retry ::
  "'c env \<Rightarrow> provider \<Rightarrow> provider \<Rightarrow> account option \<Rightarrow> endpoint \<Rightarrow> string \<Rightarrow> prepared_request
     \<Rightarrow> headers option \<Rightarrow> string option \<Rightarrow> router \<Rightarrow> (retry_outcome app_result \<times> router) option" where
  "execute_with_oauth_retry ev base resolved acc e model prepared pass proxy st =
     (case run_retry ev resolved e model prepared pass proxy st of
        None \<Rightarrow> None
      | Some (Inl err, st) \<Rightarrow> Some (Inl err, st)
      | Some (Inr out, st) \<Rightarrow>
          (case (if needs_oauth_refresh acc out then acc else None) of
             None \<Rightarrow> Some (Inr out, st)
           | Some a \<Rightarrow>
               (case refresh_account ev (a_id a) st of
                  (Inl err, st) \<Rightarrow> Some (Inr out, st)
                | (Inr fresh, st) \<Rightarrow>
                    run_retry ev (provider_with_account_auth base fresh (p_provider base)) e model
                      prepared pass proxy st)))"

section \<open>Round robin is fair\<close>

text \<open>
  What a client of a round-robin table relies on: a turn names the counter modulo the number of
  alternatives and advances that counter only. Until a counter reaches the bound, \<open>n\<close>
  consecutive turns over \<open>n\<close> alternatives visit each of them exactly once.
\<close>

locale turn_table =
  fixes count :: "'k \<Rightarrow> 's \<Rightarrow> nat"
    and turn :: "'k \<Rightarrow> nat \<Rightarrow> 's \<Rightarrow> nat \<times> 's"
    and bound :: nat
  assumes turn_index: "fst (turn k n s) = count k s mod n"
    and turn_count: "count k s + 1 < bound \<Longrightarrow> count k (snd (turn k n s)) = count k s + 1"
    and turn_other: "j \<noteq> k \<Longrightarrow> count j (snd (turn k n s)) = count j s"
begin

fun turns :: "'k \<Rightarrow> nat \<Rightarrow> nat \<Rightarrow> 's \<Rightarrow> nat list" where
  "turns k n 0 s = []"
| "turns k n (Suc m) s = fst (turn k n s) # turns k n m (snd (turn k n s))"

lemma turns_indices:
  "count k s + m < bound \<Longrightarrow> turns k n m s = map (\<lambda>i. (count k s + i) mod n) [0..<m]"
proof (induction m arbitrary: s)
  case (Suc m)
  then have "turns k n (Suc m) s
      = count k s mod n # map (\<lambda>i. (count k s + 1 + i) mod n) [0..<m]"
    by (simp add: turn_index turn_count)
  then show ?case by (simp add: upt_conv_Cons map_Suc_upt [symmetric] comp_def del: upt_Suc)
qed simp

lemma turns_visit_all:
  assumes "0 < n" and "count k s + n < bound"
  shows "distinct (turns k n n s) \<and> set (turns k n n s) = {0..<n}"
proof -
  have t: "turns k n n s = map (\<lambda>i. (count k s + i) mod n) [0..<n]"
    by (rule turns_indices [OF assms(2)])
  have le: "i \<le> j \<Longrightarrow> j < n \<Longrightarrow> (count k s + i) mod n = (count k s + j) mod n \<Longrightarrow> i = j" for i j
    using mod_eq_dvd_iff_nat [of "count k s + i" "count k s + j" n] dvd_imp_le [of n "j - i"]
    by fastforce
  have inj: "inj_on (\<lambda>i. (count k s + i) mod n) {0..<n}"
  proof (rule inj_onI)
    fix i j assume "i \<in> {0..<n}" "j \<in> {0..<n}" "(count k s + i) mod n = (count k s + j) mod n"
    then show "i = j" using le [of i j] le [of j i] by (cases "i \<le> j") simp_all
  qed
  have "(\<lambda>i. (count k s + i) mod n) ` {0..<n} \<subseteq> {0..<n}" using assms(1) by auto
  then have "(\<lambda>i. (count k s + i) mod n) ` {0..<n} = {0..<n}"
    using inj by (simp add: endo_inj_surj)
  then show ?thesis using inj by (simp add: t distinct_map)
qed

end

definition rr_count :: "string \<Rightarrow> (string \<times> u64) list \<Rightarrow> nat" where
  "rr_count key rr = unat (unwrap_or 0 (obj_get key rr))"

lemma unat_Suc_small: "unat (w :: u64) + 1 < 2 ^ 64 \<Longrightarrow> unat (w + 1) = unat w + 1"
  by (simp add: unat_word_ariths)

interpretation rr: turn_table rr_count rr_turn "2 ^ 64"
  by unfold_locales (simp_all add: rr_count_def rr_turn_def Let_def unat_Suc_small)

text \<open>The accounts that consecutive requests to a connection try first.\<close>

fun first_accounts ::
  "string \<Rightarrow> account list \<Rightarrow> nat \<Rightarrow> (string \<times> u64) list \<Rightarrow> account list" where
  "first_accounts i accounts 0 rr = []"
| "first_accounts i accounts (Suc m) rr =
     (let (ordered, rr) = order_provider_accounts i accounts RoundRobin rr
      in hd ordered # first_accounts i accounts m rr)"

lemma first_accounts_turns:
  assumes "1 < length accounts"
  shows "first_accounts i accounts m rr
     = map (\<lambda>idx. accounts ! idx) (rr.turns (account_key i) (length accounts) m rr)"
proof (induction m arbitrary: rr)
  case (Suc m)
  obtain idx rr' where t: "rr_turn (account_key i) (length accounts) rr = (idx, rr')"
    by fastforce
  have "idx = rr_count (account_key i) rr mod length accounts"
    using rr.turn_index [of "account_key i" "length accounts" rr] t by simp
  then have "hd (rotate idx accounts) = accounts ! idx"
    using assms by (subst hd_rotate_conv_nth) (auto simp: mod_mod_trivial)
  then show ?case
    using Suc t assms by (simp add: order_provider_accounts_def)
qed simp

lemma first_accounts_fair:
  assumes "1 < length accounts" and "distinct accounts"
    and "rr_count (account_key i) rr + length accounts < 2 ^ 64"
  shows "distinct (first_accounts i accounts (length accounts) rr)
     \<and> set (first_accounts i accounts (length accounts) rr) = set accounts"
proof -
  let ?turns = "rr.turns (account_key i) (length accounts) (length accounts) rr"
  have all: "distinct ?turns" "set ?turns = {0..<length accounts}"
    using rr.turns_visit_all [OF _ assms(3)] assms(1) by (metis less_trans zero_less_one)+
  have "(!) accounts ` {0..<length accounts} = set accounts"
    by (auto simp: set_conv_nth image_def)
  moreover have "inj_on ((!) accounts) {0..<length accounts}"
    using assms(2) by (auto intro!: inj_on_nth)
  ultimately show ?thesis
    using all by (simp add: first_accounts_turns [OF assms(1)] distinct_map)
qed

lemma mset_rotate_list: "mset (rotate n xs) = mset xs"
  by (metis append_take_drop_id mset_append rotate_drop_take union_commute)

lemma order_provider_accounts_mset:
  "order_provider_accounts i accounts strategy rr = (ordered, rr')
     \<Longrightarrow> mset ordered = mset accounts \<and> set ordered = set accounts"
  by (auto simp: mset_rotate_list order_provider_accounts_def split: if_splits prod.splits)

section \<open>Candidates and order\<close>

lemma expand_candidates_Inr:
  assumes "expand_candidates e model d rr = (Inr cs, rr')"
  shows "(\<exists>c. find_combo_by_name model d = Some c \<and> is_chat_family e \<and> c_enabled c \<and> set cs = set (c_models c))
     \<or> cs = [model]"
  using assms
  by (auto simp: expand_candidates_def pick_round_robin_def rr_turn_def Let_def
      split: if_splits option.splits combo_strategy.splits sum.splits)

lemma order_providers_mset: "mset (order_providers t ps) = mset ps"
  by (simp add: order_providers_def)

lemma order_providers_set [simp]: "set (order_providers t ps) = set ps"
  by (simp add: order_providers_def)

lemma order_providers_sorted:
  "sorted_wrt (\<lambda>p q. near_limit_last t p < near_limit_last t q
       \<or> (near_limit_last t p = near_limit_last t q \<and> p_priority p \<le> p_priority q))
     (order_providers t ps)"
  unfolding order_providers_def by (rule sort_key_twice_sorted)

lemma available_providers_iff:
  "p \<in> set (available_providers now e d) \<longleftrightarrow>
     p \<in> set (list_provider_connections d) \<and> provider_available now p
     \<and> provider_supports_routed_endpoint p e"
  by (auto simp: available_providers_def)

lemma matching_providers_subset: "set (matching_providers ps pre raw) \<subseteq> set ps"
  by (auto simp: matching_providers_def find_providers_for_bare_model_def Let_def split: if_splits)

section \<open>Targets carry the credentials of a selectable account\<close>

definition target_ok :: "provider \<Rightarrow> endpoint \<Rightarrow> exec_target \<Rightarrow> bool" where
  "target_ok p e target = (case target of
     (resolved, None) \<Rightarrow> resolved = p
       \<and> \<not> eq_ignore_ascii_case (p_auth_type p) ''oauth'' \<and> supports_endpoint (p_supported_endpoints p) e
   | (resolved, Some a) \<Rightarrow> resolved = provider_with_account_auth p a (p_provider p)
       \<and> supports_endpoint (p_supported_endpoints resolved) e
       \<and> (a_auth_mode a = OAuthMode \<longrightarrow> has_secret (p_api_key resolved))
       \<and> (a_auth_mode a = ApiKeyMode \<longrightarrow> has_secret (a_api_key a) \<or> has_secret (a_base_url a)))"

lemma refresh_provider_account_mode:
  "refresh_provider_account now client refresh i d = (Inr b, d') \<Longrightarrow> a_id b = i \<and> a_auth_mode b = OAuthMode"
  by (auto simp: refresh_provider_account_def Let_def get_updated_account
      update_provider_account_oauth_credentials_def update_account_def
      dest: get_provider_account_id split: option.splits sum.splits if_splits)

lemma prepare_provider_account_Some:
  assumes "prepare_provider_account ev a st = (Some b, st')"
  shows "a_id b = a_id a \<and> a_auth_mode b = a_auth_mode a
     \<and> (a_auth_mode b = OAuthMode \<longrightarrow> has_secret (a_access_token b))
     \<and> (a_auth_mode b = ApiKeyMode \<longrightarrow> has_secret (a_api_key b) \<or> has_secret (a_base_url b))"
  using assms
  by (cases "a_auth_mode a")
    (auto simp: prepare_provider_account_def refresh_account_def
      dest: refresh_provider_account_mode split: if_splits prod.splits sum.splits)

lemma prepare_targets_ok:
  "prepare_targets ev p e accounts st = (targets, st') \<Longrightarrow>
     (\<forall>t \<in> set targets. target_ok p e t
        \<and> (\<exists>a \<in> set accounts. map_option a_id (snd t) = Some (a_id a)))"
proof (induction accounts arbitrary: st st' targets)
  case (Cons a accounts)
  obtain r st1 where pr: "prepare_provider_account ev a st = (r, st1)" by fastforce
  obtain ts st2 where rec: "prepare_targets ev p e accounts st1 = (ts, st2)" by fastforce
  show ?case
  proof (cases r)
    case None
    then show ?thesis using Cons.IH [OF rec] Cons.prems pr rec by simp
  next
    case (Some b)
    let ?q = "provider_with_account_auth p b (p_provider p)"
    have "target_ok p e (?q, Some b)" if "supports_endpoint (p_supported_endpoints ?q) e"
      using that prepare_provider_account_Some [OF pr [unfolded Some]]
      by (auto simp: target_ok_def provider_with_account_auth_key)
    moreover have "a_id b = a_id a"
      using prepare_provider_account_Some [OF pr [unfolded Some]] by simp
    moreover have "targets = (if supports_endpoint (p_supported_endpoints ?q) e
        then [(?q, Some b)] else []) @ ts"
      using Cons.prems pr rec Some by (auto simp: Let_def split: if_splits)
    moreover have "\<forall>t \<in> set ts. target_ok p e t
        \<and> (\<exists>a \<in> set (a # accounts). map_option a_id (snd t) = Some (a_id a))"
      using Cons.IH [OF rec] by (meson list.set_intros(2))
    ultimately show ?thesis by (cases "supports_endpoint (p_supported_endpoints ?q) e") simp_all
  qed
qed simp

lemma execution_targets_ok:
  assumes "execution_targets ev p e st = (Inr targets, st')" and "t \<in> set targets"
  shows "target_ok p e t
     \<and> (\<forall>a. snd t = Some a \<longrightarrow> (\<exists>b \<in> set (list_selectable_provider_accounts (now_of ev st) (p_id p) (rt_db st)).
           a_id a = a_id b))"
proof (cases "list_selectable_provider_accounts (now_of ev st) (p_id p) (rt_db st)")
  case Nil
  then show ?thesis using assms by (auto simp: execution_targets_def target_ok_def split: if_splits)
next
  case (Cons a accounts)
  then obtain ordered strategy rr' st1 where
    o: "order_provider_accounts (p_id p) (a # accounts) strategy (rt_rr st) = (ordered, rr')"
    and pt: "prepare_targets ev p e ordered (st\<lparr>rt_rr := rr'\<rparr>) = (targets, st1)"
    using assms(1) by (auto simp: execution_targets_def split: sum.splits prod.splits)
  show ?thesis
    using prepare_targets_ok [OF pt] order_provider_accounts_mset [OF o] assms(2) Cons by force
qed

section \<open>An exchange is repeated at most once\<close>

lemma run_retry_sent:
  "run_retry ev p e model prep pass proxy st = Some (r, st') \<Longrightarrow> st' = st\<lparr>rt_sent := Suc (rt_sent st)\<rparr>"
  by (auto simp: run_retry_def)

lemma run_retry_total:
  assumes "unat (max_retries (ev_retry ev)) < 2 ^ 32 - 1"
  shows "run_retry ev p e model prep pass proxy st \<noteq> None"
  using execute_with_retry_runs [OF assms, of "Suc (unat (max_retries (ev_retry ev)))"]
  by (simp add: run_retry_def)

lemma refresh_account_state:
  "refresh_account ev i st = (r, st') \<Longrightarrow>
     rt_sent st' = rt_sent st \<and> rt_rr st' = rt_rr st \<and> rt_tracker st' = rt_tracker st"
  by (auto simp: refresh_account_def split: prod.splits)

lemma oauth_retry_total:
  assumes "unat (max_retries (ev_retry ev)) < 2 ^ 32 - 1"
  shows "execute_with_oauth_retry ev base res acc e model prep pass proxy st \<noteq> None"
  using run_retry_total [OF assms]
  by (auto simp: execute_with_oauth_retry_def split: option.splits sum.splits prod.splits)

lemma oauth_retry_sent:
  assumes "execute_with_oauth_retry ev base res acc e model prep pass proxy st = Some (r, st')"
  shows "rt_sent st' \<in> {rt_sent st + 1, rt_sent st + 2}
     \<and> (rt_sent st' = rt_sent st + 2 \<longrightarrow>
          (\<exists>a out st1. acc = Some a \<and> a_auth_mode a = OAuthMode
             \<and> run_retry ev res e model prep pass proxy st = Some (Inr out, st1)
             \<and> (\<exists>resp. ro_result out = Buffered resp \<and> r_status resp = 401)))
     \<and> (rt_sent st' = rt_sent st + 1 \<longrightarrow>
          map_option fst (run_retry ev res e model prep pass proxy st) = Some r)"
proof -
  obtain r1 st1 where run: "run_retry ev res e model prep pass proxy st = Some (r1, st1)"
    using assms by (cases "run_retry ev res e model prep pass proxy st")
      (auto simp: execute_with_oauth_retry_def)
  have sent1: "rt_sent st1 = rt_sent st + 1" using run_retry_sent [OF run] by simp
  show ?thesis
  proof (cases r1)
    case (Inl err)
    then show ?thesis using assms run sent1 by (auto simp: execute_with_oauth_retry_def)
  next
    case (Inr out)
    show ?thesis
    proof (cases "if needs_oauth_refresh acc out then acc else None")
      case None
      then show ?thesis using assms run sent1 Inr by (auto simp: execute_with_oauth_retry_def)
    next
      case (Some a)
      then have acc: "acc = Some a" and need: "needs_oauth_refresh acc out"
        by (auto split: if_splits)
      obtain fr st2 where ref: "refresh_account ev (a_id a) st1 = (fr, st2)" by fastforce
      note keep = refresh_account_state [OF ref]
      show ?thesis
      proof (cases fr)
        case (Inl err)
        then show ?thesis using assms run sent1 Inr Some ref keep
          by (auto simp: execute_with_oauth_retry_def)
      next
        case (Inr fresh)
        have again: "run_retry ev (provider_with_account_auth base fresh (p_provider base)) e model
            prep pass proxy st2 = Some (r, st')"
          using assms run \<open>r1 = Inr out\<close> Some ref Inr by (simp add: execute_with_oauth_retry_def)
        have "rt_sent st' = rt_sent st + 2"
          using run_retry_sent [OF again] keep sent1 by simp
        moreover have "a_auth_mode a = OAuthMode
            \<and> (\<exists>resp. ro_result out = Buffered resp \<and> r_status resp = 401)"
          using need acc by (auto simp: needs_oauth_refresh_def split: upstream_result.splits)
        ultimately show ?thesis using acc run \<open>r1 = Inr out\<close> by auto
      qed
    qed
  qed
qed

end
