(* ===== verification/Fingerprint.thy ===== *)
theory Fingerprint
  imports Routing Auth
begin

text \<open>
  The Claude Code fingerprint (\<open>src/fingerprint.rs\<close>): the headers and body fields a request to
  a Claude provider gets when the client is not Claude Code itself. Process environment, file
  contents, random bytes, SHA-256 and Unicode lower-casing are arguments. A body operation
  returns \<open>None\<close> where the code panics (indexing a value that is not an object).
\<close>

type_synonym environment = "string \<Rightarrow> string option"

record fp_lib = codec +
  fl_sha256_hex :: "string \<Rightarrow> string"
  fl_lowercase :: "string \<Rightarrow> string"

record fingerprint =
  fp_version :: string
  fp_device_id :: string
  fp_session_id :: string
  fp_enabled :: bool
  fp_entrypoint :: string
  fp_user_type :: string
  fp_workload :: "string option"
  fp_agent_sdk_version :: "string option"
  fp_client_app :: "string option"
  fp_agent_id :: "string option"
  fp_parent_agent_id :: "string option"
  fp_additional_protection :: bool
  fp_remote_container_id :: "string option"
  fp_remote_session_id :: "string option"
  fp_custom_headers :: headers

section \<open>Configuration\<close>

fun read_env_first :: "environment \<Rightarrow> string list \<Rightarrow> string option" where
  "read_env_first env [] = None"
| "read_env_first env (name # names) = or_else (nonblank (env name)) (read_env_first env names)"

definition read_env_bool :: "environment \<Rightarrow> string list \<Rightarrow> bool" where
  "read_env_bool env names =
     (case read_env_first env names of
        None \<Rightarrow> False
      | Some v \<Rightarrow> to_ascii_lowercase v \<notin> {''0'', ''false'', ''no'', ''off''})"

definition parse_custom_header :: "string \<Rightarrow> (string \<times> string) option" where
  "parse_custom_header raw =
     (let line = trim raw in
      if line = [] then None
      else Option.bind (split_once CHR '':'' line) (\<lambda>(name, v).
        if trim name = [] \<or> trim v = [] then None else Some (trim name, trim v)))"

definition parse_custom_headers :: "string \<Rightarrow> headers" where
  "parse_custom_headers raw = List.map_filter parse_custom_header (str_lines raw)"

definition is_hex_digit :: "char \<Rightarrow> bool" where
  "is_hex_digit c \<longleftrightarrow> is_digit c \<or> (65 \<le> byte c \<and> byte c \<le> 70) \<or> (97 \<le> byte c \<and> byte c \<le> 102)"

definition device_id_ok :: "string \<Rightarrow> bool" where
  "device_id_ok s \<longleftrightarrow> length s = 64 \<and> list_all is_hex_digit s"

text \<open>The identifier and, when a new one is made, the contents to persist.\<close>

definition get_or_create_device_id ::
  "environment \<Rightarrow> string option \<Rightarrow> char list \<Rightarrow> string \<times> string option" where
  "get_or_create_device_id env stored random =
     (case opt_filter device_id_ok (env ''KOU_CC_DEVICE_ID'') of
        Some i \<Rightarrow> (i, None)
      | None \<Rightarrow>
          (case opt_filter device_id_ok (map_option trim stored) of
             Some i \<Rightarrow> (i, None)
           | None \<Rightarrow> (hex_bytes random, Some (hex_bytes random))))"

definition fingerprint_new ::
  "environment \<Rightarrow> string option \<Rightarrow> char list \<Rightarrow> string \<Rightarrow> fingerprint" where
  "fingerprint_new env stored random session =
     \<lparr>fp_version = unwrap_or ''2.1.173'' (read_env_first env [''KOU_CC_VERSION'', ''CLAUDE_CODE_VERSION'']),
      fp_device_id = fst (get_or_create_device_id env stored random),
      fp_session_id = session,
      fp_enabled = (case env ''KOU_CC_FINGERPRINT'' of
          None \<Rightarrow> True | Some v \<Rightarrow> v \<noteq> ''false'' \<and> v \<noteq> ''0''),
      fp_entrypoint = unwrap_or ''cli''
        (read_env_first env [''CLAUDE_CODE_ENTRYPOINT'', ''KOU_CC_ENTRYPOINT'']),
      fp_user_type = unwrap_or ''external'' (env ''KOU_CC_USER_TYPE''),
      fp_workload = opt_filter (\<lambda>v. v \<noteq> []) (env ''KOU_CC_WORKLOAD''),
      fp_agent_sdk_version =
        read_env_first env [''CLAUDE_AGENT_SDK_VERSION'', ''KOU_CC_AGENT_SDK_VERSION''],
      fp_client_app = read_env_first env
        [''CLAUDE_AGENT_SDK_CLIENT_APP'', ''CLAUDE_CODE_CLIENT_APP'', ''KOU_CC_CLIENT_APP''],
      fp_agent_id = read_env_first env [''CLAUDE_CODE_AGENT_ID'', ''KOU_CC_AGENT_ID''],
      fp_parent_agent_id =
        read_env_first env [''CLAUDE_CODE_PARENT_AGENT_ID'', ''KOU_CC_PARENT_AGENT_ID''],
      fp_additional_protection =
        read_env_bool env [''CLAUDE_CODE_ADDITIONAL_PROTECTION'', ''KOU_CC_ADDITIONAL_PROTECTION''],
      fp_remote_container_id =
        read_env_first env [''CLAUDE_CODE_CONTAINER_ID'', ''KOU_CC_REMOTE_CONTAINER_ID''],
      fp_remote_session_id =
        read_env_first env [''CLAUDE_CODE_REMOTE_SESSION_ID'', ''KOU_CC_REMOTE_SESSION_ID''],
      fp_custom_headers = unwrap_or [] (map_option parse_custom_headers
        (read_env_first env [''ANTHROPIC_CUSTOM_HEADERS'', ''KOU_CC_CUSTOM_HEADERS'']))\<rparr>"

section \<open>Model names\<close>

definition is_alnum :: "char \<Rightarrow> bool" where
  "is_alnum c \<longleftrightarrow> is_digit c \<or> is_upper c \<or> (97 \<le> byte c \<and> byte c \<le> 122)"

fun split_where :: "(char \<Rightarrow> bool) \<Rightarrow> string \<Rightarrow> string list" where
  "split_where p [] = [[]]"
| "split_where p (c # cs) =
     (if p c then [] # split_where p cs
      else (case split_where p cs of [] \<Rightarrow> [[c]] | w # ws \<Rightarrow> (c # w) # ws))"

definition alnum_tokens :: "string \<Rightarrow> string list" where
  "alnum_tokens s = filter (\<lambda>w. w \<noteq> []) (split_where (\<lambda>c. \<not> is_alnum c) s)"

definition is_claude4_or_newer :: "string \<Rightarrow> bool" where
  "is_claude4_or_newer m = list_ex (str_contains m)
     [''claude-4'', ''claude-5'', ''claude-6'', ''sonnet-4'', ''opus-4'', ''claude-sonnet-4'',
      ''claude-opus-4'', ''haiku-4'', ''claude-haiku-4'']"

definition parse_version_token :: "string \<Rightarrow> nat option" where
  "parse_version_token token =
     (if length token \<le> 2 \<and> list_all is_digit token then parse_digits token else None)"

definition version_at_least :: "nat option \<Rightarrow> nat option \<Rightarrow> nat \<Rightarrow> nat \<Rightarrow> bool" where
  "version_at_least major minor min_major min_minor =
     (case major of
        None \<Rightarrow> False
      | Some m \<Rightarrow> min_major < m \<or> (m = min_major \<and> min_minor \<le> unwrap_or 0 minor))"

definition token_version :: "string list \<Rightarrow> nat \<Rightarrow> nat option" where
  "token_version tokens i =
     (if i < length tokens then parse_version_token (tokens ! i) else None)"

definition family_at :: "string list \<Rightarrow> nat \<Rightarrow> nat \<Rightarrow> nat \<Rightarrow> bool" where
  "family_at tokens i min_major min_minor \<longleftrightarrow>
     version_at_least (token_version tokens (i + 1)) (token_version tokens (i + 2)) min_major min_minor
     \<or> (2 \<le> i \<and> version_at_least (token_version tokens (i - 2)) (token_version tokens (i - 1))
          min_major min_minor)
     \<or> (1 \<le> i \<and> (i < 2 \<or> token_version tokens (i - 2) = None)
        \<and> version_at_least (token_version tokens (i - 1)) None min_major min_minor)"

definition model_family_at_least :: "string \<Rightarrow> string \<Rightarrow> nat \<Rightarrow> nat \<Rightarrow> bool" where
  "model_family_at_least model family min_major min_minor =
     (let tokens = alnum_tokens model in
      list_ex (\<lambda>i. tokens ! i = family \<and> family_at tokens i min_major min_minor) [0..<length tokens])"

definition has_1m_context :: "environment \<Rightarrow> string \<Rightarrow> bool" where
  "has_1m_context env model \<longleftrightarrow>
     \<not> read_env_bool env [''CLAUDE_CODE_DISABLE_1M_CONTEXT'', ''KOU_CC_DISABLE_1M_CONTEXT'']
     \<and> (str_contains model ''[1m]'' \<or> model_family_at_least model ''sonnet'' 4 6
        \<or> model_family_at_least model ''opus'' 4 6)"

section \<open>Attribution\<close>

function utf8_chars :: "string \<Rightarrow> string list" where
  "utf8_chars [] = []"
| "utf8_chars (c # cs) = (c # takeWhile is_continuation cs) # utf8_chars (dropWhile is_continuation cs)"
  by pat_completeness auto

termination
  by (relation "measure length") (simp_all add: le_imp_less_Suc length_dropWhile_le)

definition block_text :: "json \<Rightarrow> string option" where
  "block_text b = get_str ''text'' b"

definition first_text :: "json \<Rightarrow> string option" where
  "first_text msg =
     (case get_str ''content'' msg of
        Some text \<Rightarrow> Some text
      | None \<Rightarrow>
          (case List.map_filter block_text (unwrap_or [] (get_array ''content'' msg)) of
             [] \<Rightarrow> None | t # ts \<Rightarrow> Some t))"

definition extract_first_user_message_text :: "json \<Rightarrow> string" where
  "extract_first_user_message_text messages =
     (case List.map_filter (\<lambda>m. if get_str ''role'' m = Some ''user'' then first_text m else None)
             (unwrap_or [] (as_array messages)) of
        [] \<Rightarrow> [] | t # ts \<Rightarrow> t)"

definition char_at :: "string list \<Rightarrow> nat \<Rightarrow> string" where
  "char_at cs i = (if i < length cs then cs ! i else ''0'')"

definition compute_fingerprint :: "'a fp_lib_scheme \<Rightarrow> fingerprint \<Rightarrow> json \<Rightarrow> string" where
  "compute_fingerprint lib fp messages =
     (let cs = utf8_chars (extract_first_user_message_text messages) in
      take 3 (fl_sha256_hex lib (''59cf53e54c78'' @ concat (map (char_at cs) [4, 7, 20]) @ fp_version fp)))"

definition attribution_header :: "'a fp_lib_scheme \<Rightarrow> fingerprint \<Rightarrow> json \<Rightarrow> string" where
  "attribution_header lib fp messages =
     ''x-anthropic-billing-header: cc_version='' @ fp_version fp @ ''.''
     @ compute_fingerprint lib fp messages @ ''; cc_entrypoint='' @ fp_entrypoint fp
     @ ''; cch=00000;''
     @ (case fp_workload fp of None \<Rightarrow> [] | Some w \<Rightarrow> '' cc_workload='' @ w @ '';'')"

definition metadata_user_id :: "'a fp_lib_scheme \<Rightarrow> fingerprint \<Rightarrow> string option \<Rightarrow> string" where
  "metadata_user_id lib fp uuid = json_print lib (json_obj
     [(''device_id'', JStr (fp_device_id fp)), (''account_uuid'', JStr (unwrap_or [] uuid)),
      (''session_id'', JStr (fp_session_id fp))])"

section \<open>Headers\<close>

definition is_first_party :: "provider_kind \<Rightarrow> bool" where
  "is_first_party kind \<longleftrightarrow> kind = FirstParty \<or> kind = Foundry"

definition beta_list ::
  "'a fp_lib_scheme \<Rightarrow> environment \<Rightarrow> fingerprint \<Rightarrow> string \<Rightarrow> provider_kind
     \<Rightarrow> oauth_context option \<Rightarrow> string list" where
  "beta_list lib env fp model kind oauth =
     (let m = fl_lowercase lib model in
      (if str_contains m ''haiku'' then [] else [''claude-code-20250219''])
      @ (if str_contains m ''claude-3-'' then [] else [''interleaved-thinking-2025-05-14''])
      @ [''effort-2025-11-24'']
      @ (if is_first_party kind then
           [''prompt-caching-scope-2026-01-05'']
           @ (if has_1m_context env m then [''context-1m-2025-08-07''] else [])
           @ (if fp_entrypoint fp = ''cli'' \<and> env ''KOU_CC_ANT_INTERNAL'' \<in> {Some ''true'', Some ''1''}
              then [''cli-internal-2026-02-09''] else [])
           @ (case oauth of
                Some oc \<Rightarrow> if oc_is_oauth_subscriber oc then [''oauth-2025-04-20''] else []
              | None \<Rightarrow> [])
         else
           [''tool-search-tool-2025-10-19'']
           @ (if kind = Vertex \<and> is_claude4_or_newer m then [''web-search-2025-03-05''] else [])))"

definition beta_headers ::
  "'a fp_lib_scheme \<Rightarrow> environment \<Rightarrow> fingerprint \<Rightarrow> string \<Rightarrow> provider_kind
     \<Rightarrow> oauth_context option \<Rightarrow> string" where
  "beta_headers lib env fp model kind oauth = str_join '','' (beta_list lib env fp model kind oauth)"

definition opt_header :: "string \<Rightarrow> string option \<Rightarrow> headers" where
  "opt_header name v = (case v of None \<Rightarrow> [] | Some s \<Rightarrow> [(name, s)])"

definition opt_suffix :: "string \<Rightarrow> string option \<Rightarrow> string" where
  "opt_suffix label v = (case v of None \<Rightarrow> [] | Some s \<Rightarrow> '', '' @ label @ ''/'' @ s)"

definition generate_headers ::
  "'a fp_lib_scheme \<Rightarrow> environment \<Rightarrow> fingerprint \<Rightarrow> string \<Rightarrow> provider_kind
     \<Rightarrow> oauth_context option \<Rightarrow> headers" where
  "generate_headers lib env fp model kind oauth =
     [(''x-app'', ''cli''),
      (''user-agent'', ''claude-cli/'' @ fp_version fp @ '' ('' @ fp_user_type fp @ '', ''
         @ fp_entrypoint fp @ opt_suffix ''agent-sdk'' (fp_agent_sdk_version fp)
         @ opt_suffix ''client-app'' (fp_client_app fp)
         @ opt_suffix ''workload'' (fp_workload fp) @ '')''),
      (''anthropic-version'', ''2023-06-01''),
      (''x-claude-code-session-id'', fp_session_id fp)]
     @ opt_header ''x-claude-code-agent-id'' (fp_agent_id fp)
     @ opt_header ''x-claude-code-parent-agent-id'' (fp_parent_agent_id fp)
     @ (if is_first_party kind then [(''x-client-request-id'', new_uuid lib 0)] else [])
     @ [(''anthropic-beta'', beta_headers lib env fp model kind oauth)]
     @ opt_header ''x-client-app'' (fp_client_app fp)
     @ (if fp_additional_protection fp
        then [(''x-anthropic-additional-protection'', ''true'')] else [])
     @ opt_header ''x-claude-remote-container-id'' (fp_remote_container_id fp)
     @ opt_header ''x-claude-remote-session-id'' (fp_remote_session_id fp)
     @ fp_custom_headers fp"

definition needs_injection :: "'a fp_lib_scheme \<Rightarrow> fingerprint \<Rightarrow> protocol \<Rightarrow> headers option \<Rightarrow> bool" where
  "needs_injection lib fp target pass \<longleftrightarrow>
     fp_enabled fp \<and> target = Claude
     \<and> \<not> list_ex (\<lambda>(n, v). fl_lowercase lib n = ''x-app'') (unwrap_or [] pass)"

section \<open>The body\<close>

definition inject_metadata ::
  "'a fp_lib_scheme \<Rightarrow> fingerprint \<Rightarrow> string option \<Rightarrow> json \<Rightarrow> json option" where
  "inject_metadata lib fp uuid body =
     (let user = JStr (metadata_user_id lib fp uuid) in
      case jget ''metadata'' body of
        None \<Rightarrow> jset ''metadata'' (json_obj [(''user_id'', user)]) body
      | Some meta \<Rightarrow>
          if jget ''user_id'' meta = None
          then Option.bind (jset ''user_id'' user meta) (\<lambda>m. jset ''metadata'' m body)
          else Some body)"

definition billing_text :: "string \<Rightarrow> bool" where
  "billing_text t \<longleftrightarrow> starts_with t ''x-anthropic-billing-header''"

definition has_attribution :: "json \<Rightarrow> bool" where
  "has_attribution body =
     (case jget ''system'' body of
        Some (JArr blocks) \<Rightarrow>
          list_ex (\<lambda>b. case get_str ''text'' b of Some t \<Rightarrow> billing_text t | None \<Rightarrow> False) blocks
      | Some (JStr t) \<Rightarrow> billing_text t
      | _ \<Rightarrow> False)"

definition inject_system :: "string \<Rightarrow> json \<Rightarrow> json option" where
  "inject_system attribution body =
     (case jget ''system'' body of
        Some (JArr blocks) \<Rightarrow> jset ''system'' (JArr (text_block attribution # blocks)) body
      | Some (JStr t) \<Rightarrow> jset ''system'' (JArr [text_block attribution, text_block t]) body
      | Some v \<Rightarrow> Some body
      | None \<Rightarrow> jset ''system'' (JArr [text_block attribution]) body)"

definition inject_body ::
  "'a fp_lib_scheme \<Rightarrow> fingerprint \<Rightarrow> json \<Rightarrow> oauth_context option \<Rightarrow> json \<Rightarrow> json option" where
  "inject_body lib fp source oauth body =
     (let uuid = Option.bind oauth oc_account_uuid;
          messages = (case jget ''messages'' source of
            Some ms \<Rightarrow> ms | None \<Rightarrow> jindex ''messages'' body)
      in if has_attribution body then inject_metadata lib fp uuid body
         else Option.bind (inject_system (attribution_header lib fp messages) body)
                (inject_metadata lib fp uuid))"

section \<open>Injection is done once and touches two fields\<close>

lemma first_party_beta:
  "''oauth-2025-04-20'' \<in> set (beta_list lib env fp model kind oauth) \<longleftrightarrow>
     is_first_party kind \<and> (\<exists>oc. oauth = Some oc \<and> oc_is_oauth_subscriber oc)"
  by (auto simp: beta_list_def Let_def split: option.splits)

lemma needs_injection_iff:
  "needs_injection lib fp target pass \<longleftrightarrow>
     fp_enabled fp \<and> target = Claude
     \<and> (\<forall>hs. pass = Some hs \<longrightarrow> (\<forall>(n, v) \<in> set hs. fl_lowercase lib n \<noteq> ''x-app''))"
  by (cases pass) (auto simp: needs_injection_def list_ex_iff)

lemma jsetD:
  "jset k w v = Some v' \<Longrightarrow> jget k v' = Some w \<and> (\<forall>j. j \<noteq> k \<longrightarrow> jget j v' = jget j v)"
  using jget_jset [of k w v v'] by simp

lemma inject_metadata_get:
  assumes "inject_metadata lib fp uuid body = Some b"
  shows "(\<forall>k. k \<noteq> ''metadata'' \<longrightarrow> jget k b = jget k body)
     \<and> (\<exists>meta. jget ''metadata'' b = Some meta \<and> jget ''user_id'' meta \<noteq> None
          \<and> (jget ''user_id'' (jindex ''metadata'' body) = None \<longrightarrow>
               jget ''user_id'' meta = Some (JStr (metadata_user_id lib fp uuid)))
          \<and> (\<forall>k. k \<noteq> ''user_id'' \<longrightarrow> jget k meta = jget k (jindex ''metadata'' body)))"
proof (cases "jget ''metadata'' body")
  case None
  then show ?thesis using assms
    by (auto simp: inject_metadata_def Let_def jindex_def dest!: jsetD)
next
  case (Some meta)
  then show ?thesis using assms
    by (cases "jget ''user_id'' meta = None")
      (auto simp: inject_metadata_def Let_def jindex_def bind_eq_Some_conv dest!: jsetD)
qed

lemma inject_metadata_again:
  "inject_metadata lib fp uuid body = Some b \<Longrightarrow> inject_metadata lib' fp' uuid' b = Some b"
  using inject_metadata_get [of lib fp uuid body b]
  by (auto simp: inject_metadata_def [of lib'] Let_def)

lemma has_attribution_cong:
  "jget ''system'' b = jget ''system'' body \<Longrightarrow> has_attribution b = has_attribution body"
  by (simp add: has_attribution_def)

lemma attribution_is_billing: "billing_text (attribution_header lib fp messages)"
  by (simp add: billing_text_def attribution_header_def starts_with_iff)

lemma has_attribution_blocks:
  "jget ''system'' b = Some (JArr (text_block attr # bs)) \<Longrightarrow> billing_text attr \<Longrightarrow> has_attribution b"
  by (simp add: has_attribution_def text_block_def get_str_def)

lemma inject_system_get:
  assumes "inject_system attr body = Some b" and "billing_text attr"
  shows "(\<forall>k. k \<noteq> ''system'' \<longrightarrow> jget k b = jget k body)
     \<and> (has_attribution b
        \<or> (\<exists>v. jget ''system'' b = Some v \<and> as_array v = None \<and> as_str v = None))"
proof -
  have set: "jset ''system'' (JArr (text_block attr # bs)) body = Some b
      \<Longrightarrow> (\<forall>k. k \<noteq> ''system'' \<longrightarrow> jget k b = jget k body) \<and> has_attribution b" for bs
    using assms(2) by (auto dest!: jsetD intro: has_attribution_blocks)
  show ?thesis
  proof (cases "jget ''system'' body")
    case None
    then show ?thesis using assms(1) set by (simp add: inject_system_def)
  next
    case (Some v)
    then show ?thesis using assms(1) set by (cases v) (auto simp: inject_system_def)
  qed
qed

lemma inject_body_cases:
  assumes "inject_body lib fp source oauth body = Some b"
  obtains mid where "inject_metadata lib fp (Option.bind oauth oc_account_uuid) mid = Some b"
    and "(has_attribution body \<and> mid = body)
       \<or> (\<exists>messages. inject_system (attribution_header lib fp messages) body = Some mid)"
  using assms by (auto simp: inject_body_def Let_def bind_eq_Some_conv split: if_splits)

lemma inject_system_odd:
  "jget ''system'' body = Some v \<Longrightarrow> as_array v = None \<Longrightarrow> as_str v = None
     \<Longrightarrow> inject_system attr body = Some body"
  by (cases v) (auto simp: inject_system_def)

lemma inject_body_effect:
  assumes "inject_body lib fp source oauth body = Some b"
  shows "(\<forall>k. k \<noteq> ''system'' \<and> k \<noteq> ''metadata'' \<longrightarrow> jget k b = jget k body)
     \<and> jget ''user_id'' (jindex ''metadata'' b) \<noteq> None
     \<and> inject_body lib fp source' oauth' b = Some b"
proof -
  obtain mid where meta: "inject_metadata lib fp (Option.bind oauth oc_account_uuid) mid = Some b"
    and mid: "(has_attribution body \<and> mid = body)
       \<or> (\<exists>messages. inject_system (attribution_header lib fp messages) body = Some mid)"
    using inject_body_cases [OF assms] by blast
  note got = inject_metadata_get [OF meta]
  have sys: "jget ''system'' b = jget ''system'' mid" using got by simp
  have "(\<forall>k. k \<noteq> ''system'' \<longrightarrow> jget k mid = jget k body) \<and> (has_attribution mid
       \<or> (\<exists>v. jget ''system'' mid = Some v \<and> as_array v = None \<and> as_str v = None))"
    using mid
  proof
    assume "\<exists>messages. inject_system (attribution_header lib fp messages) body = Some mid"
    then obtain messages where "inject_system (attribution_header lib fp messages) body = Some mid" ..
    from inject_system_get [OF this attribution_is_billing] show ?thesis .
  qed simp
  then have other: "\<forall>k. k \<noteq> ''system'' \<longrightarrow> jget k mid = jget k body"
    and settled: "has_attribution b \<or> (\<exists>v. jget ''system'' b = Some v \<and> as_array v = None \<and> as_str v = None)"
    using has_attribution_cong [OF sys] sys by auto
  have "inject_body lib fp source' oauth' b = inject_metadata lib fp (Option.bind oauth' oc_account_uuid) b"
    using settled
  proof
    assume "\<exists>v. jget ''system'' b = Some v \<and> as_array v = None \<and> as_str v = None"
    then have "inject_system attr b = Some b" for attr by (auto intro: inject_system_odd)
    then show ?thesis by (simp add: inject_body_def Let_def)
  qed (simp add: inject_body_def Let_def)
  moreover have "inject_metadata lib fp (Option.bind oauth' oc_account_uuid) b = Some b"
    by (rule inject_metadata_again [OF meta])
  moreover have "jget ''user_id'' (jindex ''metadata'' b) \<noteq> None"
    using got by (auto simp: jindex_def)
  ultimately show ?thesis using got other by simp
qed

text \<open>Identifiers of devices: 64 hexadecimal digits, whichever way they come about.\<close>

lemma hex_lower_digit: "n < 16 \<Longrightarrow> is_hex_digit (hex_lower n)"
  by (auto simp: hex_lower_def is_hex_digit_def is_digit_def byte_char_of)

lemma hex_bytes_digits: "list_all is_hex_digit (hex_bytes bs)"
proof (induction bs)
  case (Cons b bs)
  have "byte b div 16 < 16" using byte_lt [of b] by simp
  then show ?case using Cons by (simp add: hex_bytes_def hex_lower_digit)
qed (simp add: hex_bytes_def)

lemma drop_leading_fixed:
  assumes "\<And>w. w \<in> set ws \<Longrightarrow> w \<noteq> [] \<Longrightarrow> s \<noteq> [] \<Longrightarrow> hd w \<noteq> hd s"
  shows "drop_leading ws s = s"
proof -
  have "find (\<lambda>w. w \<noteq> [] \<and> starts_with s w) ws = None"
    using assms by (fastforce simp: find_None_iff starts_with_iff)
  then show ?thesis by (simp add: drop_leading.simps [of ws s])
qed

lemma hex_digit_no_space:
  "is_hex_digit c \<Longrightarrow> w \<in> set white_space \<Longrightarrow> hd w \<noteq> c \<and> last w \<noteq> c"
  by (auto simp: white_space_def is_hex_digit_def is_digit_def byte_def)

lemma trim_hex: "list_all is_hex_digit s \<Longrightarrow> trim s = s"
proof -
  assume hex: "list_all is_hex_digit s"
  then have "trim_start s = s"
    unfolding trim_start_def using hex_digit_no_space
    by (intro drop_leading_fixed) (metis list.set_sel(1) list_all_iff)
  moreover have "drop_leading (map rev white_space) (rev s) = rev s"
  proof (rule drop_leading_fixed)
    fix w assume w: "w \<in> set (map rev white_space)" "w \<noteq> []" "rev s \<noteq> []"
    then obtain v where v: "v \<in> set white_space" "w = rev v" "v \<noteq> []" by auto
    have "is_hex_digit (last s)" using hex w(3) by (simp add: list_all_iff)
    then show "hd w \<noteq> hd (rev s)"
      using hex_digit_no_space v w(3) by (simp add: hd_rev)
  qed
  ultimately show ?thesis by (simp add: trim_def trim_end_def)
qed

lemma get_or_create_device_id_ok:
  assumes "length random = 32" and "get_or_create_device_id env stored random = (i, w)"
  shows "device_id_ok i \<and> (\<forall>s. w = Some s \<longrightarrow> s = i \<and> get_or_create_device_id env w random' = (i, None))"
proof -
  have new: "device_id_ok (hex_bytes random)"
    using assms(1) by (simp add: device_id_ok_def length_hex_bytes hex_bytes_digits)
  note hex_bytes_digits [of random, THEN trim_hex, simp]
  show ?thesis using assms(2) new
    by (auto simp: get_or_create_device_id_def split: option.splits)
qed

end
