(* ===== verification/Route.thy ===== *)
theory Route
  imports Fingerprint Responses_Sse
begin

text \<open>
  The attempt loop of the routing service (\<open>RouterService::route\<close> of \<open>src/service.rs\<close>):
  for every candidate model, every matching connection and every usable account a request is
  prepared, looked up in the response cache, sent, and its answer either returned, remembered
  as a failed attempt, or turned into an error.

  A run ends in a value, in a panic of the code, or not at all; only the retry loop of an
  exchange may not end. Debug logs are written by detached tasks and are not modelled. A
  streamed answer is the list of all the chunks the client will read.
\<close>

datatype 'a outcome = Runs_on | Panics | Done 'a

record routed_account =
  ra_id :: string
  ra_label :: "string option"
  ra_auth_mode :: auth_mode
  ra_remote_account_id :: "string option"
  ra_remote_email :: "string option"

definition routed_account_of :: "account \<Rightarrow> routed_account" where
  "routed_account_of a =
     \<lparr>ra_id = a_id a, ra_label = a_label a, ra_auth_mode = a_auth_mode a,
      ra_remote_account_id = a_remote_account_id a, ra_remote_email = a_remote_email a\<rparr>"

record attempt =
  at_provider_id :: string
  at_model :: string
  at_status :: nat
  at_body :: string
  at_account :: "routed_account option"

record debug =
  rd_request_id :: string
  rd_requested_model :: string
  rd_resolved_model :: string
  rd_endpoint :: string
  rd_path_suffix :: "string option"
  rd_tried :: "attempt list"
  rd_usage :: "usage_info option"
  rd_cost_usd :: "f64 option"

record routed_response =
  rs_body :: json
  rs_debug :: debug
  rs_is_stream :: bool
  rs_headers :: headers

text \<open>A stream carries what its tee will hold at the end and the entry to cache, if any.\<close>

record routed_stream =
  ro_stream :: "(string + string) list"
  ro_debug :: debug
  ro_buffer :: string
  ro_headers :: headers
  ro_cache_write :: "(cache_entry \<times> string) option"

datatype routed = RoutedJson routed_response | RoutedStream routed_stream

text \<open>
  What the service is made of besides its state: the environment of the exchanges, the
  fingerprint with the process environment, hashing and lower-casing, the date functions, the
  idle timeout, after how many chunks of an exchange the upstream stalls, if it does, and the text
  of a violated constraint of the database.
\<close>

record 'c service =
  sv_env :: "'c env"
  sv_fp :: fingerprint
  sv_vars :: environment
  sv_sha256_hex :: "string \<Rightarrow> string"
  sv_lowercase :: "string \<Rightarrow> string"
  sv_from_epoch :: "int \<Rightarrow> timestamp option"
  sv_parse_date :: "string \<Rightarrow> timestamp option"
  sv_idle_secs :: nat
  sv_stall :: "nat \<Rightarrow> nat option"
  sv_conflict :: string

definition sv_lib :: "'c service \<Rightarrow> http_lib" where
  "sv_lib sv = ev_lib (sv_env sv)"

definition sv_fp_lib :: "'c service \<Rightarrow> fp_lib" where
  "sv_fp_lib sv = codec.extend (codec.truncate (sv_lib sv))
     (fp_lib.fields (sv_sha256_hex sv) (sv_lowercase sv))"

text \<open>One call, and one leg of it: an account of a connection for a candidate model.\<close>

record call =
  cl_endpoint :: endpoint
  cl_request :: normalized_request
  cl_resolved :: string
  cl_suffix :: "string option"
  cl_pass :: "headers option"
  cl_request_id :: string
  cl_cache :: cache_ctx

record leg =
  lg_candidate :: string
  lg_provider :: provider
  lg_account :: "account option"
  lg_source :: protocol
  lg_target :: protocol
  lg_upstream :: endpoint

record cache_plan =
  cp_identity :: cache_identity
  cp_cacheable :: bool
  cp_expires :: "timestamp option"

datatype flow = Continue "attempt list" | Return "routed app_result"

section \<open>Bookkeeping\<close>

definition new_attempt :: "leg \<Rightarrow> nat \<Rightarrow> string \<Rightarrow> attempt" where
  "new_attempt lg status body =
     \<lparr>at_provider_id = p_id (lg_provider lg), at_model = lg_candidate lg, at_status = status,
      at_body = body, at_account = map_option routed_account_of (lg_account lg)\<rparr>"

definition new_debug :: "call \<Rightarrow> attempt list \<Rightarrow> usage_info option \<Rightarrow> f64 option \<Rightarrow> debug" where
  "new_debug cl tried usage cost =
     \<lparr>rd_request_id = cl_request_id cl, rd_requested_model = nr_model (cl_request cl),
      rd_resolved_model = cl_resolved cl, rd_endpoint = endpoint_as_str (cl_endpoint cl),
      rd_path_suffix = cl_suffix cl, rd_tried = tried, rd_usage = usage, rd_cost_usd = cost\<rparr>"

definition on_target ::
  "(string \<Rightarrow> db \<Rightarrow> db) \<Rightarrow> (string \<Rightarrow> db \<Rightarrow> db) \<Rightarrow> provider \<Rightarrow> account option \<Rightarrow> router \<Rightarrow> router" where
  "on_target f g p acc st =
     map_db (\<lambda>d. case acc of None \<Rightarrow> f (p_id p) d | Some a \<Rightarrow> g (a_id a) (f (p_id p) d)) st"

definition mark_failure :: "'c env \<Rightarrow> provider \<Rightarrow> account option \<Rightarrow> string \<Rightarrow> router \<Rightarrow> router" where
  "mark_failure ev p acc m st =
     on_target (\<lambda>i. mark_provider_failure (now_of ev st) i m)
       (\<lambda>i. mark_provider_account_failure (now_of ev st) i m) p acc st"

definition mark_success :: "'c env \<Rightarrow> provider \<Rightarrow> account option \<Rightarrow> router \<Rightarrow> router" where
  "mark_success ev p acc st =
     on_target (mark_provider_success (now_of ev st)) (mark_provider_account_success (now_of ev st))
       p acc st"

definition mark_leg_failure :: "'c env \<Rightarrow> leg \<Rightarrow> string \<Rightarrow> router \<Rightarrow> router" where
  "mark_leg_failure ev lg m st = mark_failure ev (lg_provider lg) (lg_account lg) m st"

definition mark_leg_success :: "'c env \<Rightarrow> leg \<Rightarrow> router \<Rightarrow> router" where
  "mark_leg_success ev lg st = mark_success ev (lg_provider lg) (lg_account lg) st"

lemmas marks = mark_leg_failure_def mark_leg_success_def mark_failure_def mark_success_def on_target_def

definition update_tracker :: "'c service \<Rightarrow> leg \<Rightarrow> headers \<Rightarrow> router \<Rightarrow> router" where
  "update_tracker sv lg hs st =
     st\<lparr>rt_tracker := tracker_update (now_of (sv_env sv) st) (p_id (lg_provider lg))
          (parse_rate_limit_headers (sv_from_epoch sv) (sv_parse_date sv) hs) (rt_tracker st)\<rparr>"

definition raw_json :: "string \<Rightarrow> json" where
  "raw_json s = json_obj [(''raw'', JStr s)]"

definition parsed_body :: "'a codec_scheme \<Rightarrow> string \<Rightarrow> json option" where
  "parsed_body c s = (case json_parse c s of Inl e \<Rightarrow> None | Inr v \<Rightarrow> Some v)"

text \<open>The error of a refused attempt, classified and enriched.\<close>

definition classified_error :: "'a codec_scheme \<Rightarrow> nat \<Rightarrow> string \<Rightarrow> string \<Rightarrow> string \<Rightarrow> u64 option \<Rightarrow> app_error" where
  "classified_error c status judged body provider_id retry_after =
     (let kind = classify_upstream_error status judged in
      ClassifiedUpstream (http_status kind)
        (enriched_error_response (parsed_body c) kind status body provider_id retry_after))"

section \<open>Caching\<close>

definition plan_cache ::
  "'c service \<Rightarrow> call \<Rightarrow> leg \<Rightarrow> prepared_request \<Rightarrow> headers option \<Rightarrow> router \<Rightarrow> cache_plan" where
  "plan_cache sv cl lg prep pass st =
     (let ctx = cl_cache cl;
          ok = (\<not> cache_enabled ctx
                \<or> evaluate_policy (cl_endpoint cl) (request_body prep) pass
                    (cc_allow_nondeterministic ctx) = None)
      in \<lparr>cp_identity = build_identity (sv_sha256_hex sv) (sv_lib sv) (cl_endpoint cl)
             (lg_upstream lg) (nr_model (cl_request cl)) (cl_resolved cl) (p_id (lg_provider lg))
             (map_option a_id (lg_account lg)) (cc_namespace ctx) prep (nr_stream (cl_request cl)),
          cp_cacheable = ok,
          cp_expires = (if cc_write ctx \<and> ok
             then map_option (\<lambda>ttl. now_of (sv_env sv) st + ttl * second) (cc_ttl ctx) else None)\<rparr>)"

definition read_cache ::
  "'c service \<Rightarrow> call \<Rightarrow> cache_plan \<Rightarrow> router \<Rightarrow> cache_row option \<times> router" where
  "read_cache sv cl plan st =
     (if cc_read (cl_cache cl) \<and> cp_cacheable plan then
        (let (row, d) = find_response_cache_entry (now_of (sv_env sv) st)
               (ci_cache_key (cp_identity plan)) (cc_namespace (cl_cache cl))
               (ci_request_body_hash (cp_identity plan)) (rt_db st)
         in (row, st\<lparr>rt_db := d\<rparr>))
      else (None, st))"

definition usage_cost :: "leg \<Rightarrow> usage_info option \<Rightarrow> f64 option" where
  "usage_cost lg usage = map_option (calculate_cost (lg_candidate lg)) usage"

definition cached_answer ::
  "'a codec_scheme \<Rightarrow> call \<Rightarrow> leg \<Rightarrow> cache_row \<Rightarrow> attempt list \<Rightarrow> routed" where
  "cached_answer c cl lg row tried =
     (let hit = new_attempt lg (nat (ce_status row mod 65536)) ''[response-cache hit]'' in
      RoutedJson
       \<lparr>rs_body = parse_or c (raw_json (ce_response_body row)) (ce_response_body row),
        rs_debug = new_debug cl (tried @ [hit]) (ce_usage row) (usage_cost lg (ce_usage row)),
        rs_is_stream = ce_is_stream row,
        rs_headers = ce_response_headers row @ [(''x-kou-cache'', ''HIT'')]\<rparr>)"

definition new_entry ::
  "call \<Rightarrow> leg \<Rightarrow> cache_plan \<Rightarrow> string \<Rightarrow> headers \<Rightarrow> nat \<Rightarrow> bool \<Rightarrow> usage_info option
     \<Rightarrow> timestamp \<Rightarrow> cache_entry" where
  "new_entry cl lg plan body hs status is_stream usage expires =
     \<lparr>ce_cache_key = ci_cache_key (cp_identity plan),
      ce_endpoint = endpoint_as_str (cl_endpoint cl),
      ce_upstream_endpoint = endpoint_as_str (lg_upstream lg),
      ce_requested_model = nr_model (cl_request cl), ce_resolved_model = cl_resolved cl,
      ce_provider_id = p_id (lg_provider lg),
      ce_provider_account_id = map_option a_id (lg_account lg),
      ce_namespace = cc_namespace (cl_cache cl),
      ce_request_body_hash = ci_request_body_hash (cp_identity plan), ce_response_body = body,
      ce_response_headers = cacheable_response_headers hs, ce_status = int status,
      ce_is_stream = is_stream, ce_usage = usage, ce_expires_at = expires\<rparr>"

definition miss_header :: "call \<Rightarrow> cache_plan \<Rightarrow> headers \<Rightarrow> headers" where
  "miss_header cl plan hs =
     (if cc_read (cl_cache cl) \<and> cp_cacheable plan then hs @ [(''x-kou-cache'', ''MISS'')] else hs)"

section \<open>Answers of the upstream\<close>

text \<open>The body the client gets for a buffered success, and whether it counts as a stream.\<close>

definition body_for_adapt ::
  "'a codec_scheme \<Rightarrow> endpoint \<Rightarrow> protocol \<Rightarrow> bool \<Rightarrow> bool \<Rightarrow> string \<Rightarrow> (string \<times> bool) app_result" where
  "body_for_adapt c e target stream upstream_stream raw =
     (if target = OpenAIResponses then
        (if stream \<and> is_sse_transcript raw \<and> e \<in> {ChatCompletions, Messages} then
           Inr (responses_sse_transcript_to_endpoint_stream_text c e raw, True)
         else
           rbind (adapt_responses_success_body c raw stream) (\<lambda>(body, flag).
           rbind (translate_response c OpenAIResponses OpenAI body) (\<lambda>t.
             Inr (json_print c t, flag))))
      else if target \<noteq> OpenAI then
        rbind (translate_response c target OpenAI (parse_or c (raw_json raw) raw)) (\<lambda>t.
          Inr (json_print c t, upstream_stream))
      else Inr (raw, upstream_stream))"

definition capture_json :: "string \<Rightarrow> json" where
  "capture_json raw = json_obj
     [(''object'', JStr ''stream.capture''), (''stream'', JBool True), (''raw'', JStr raw)]"

definition routed_body ::
  "'a codec_scheme \<Rightarrow> endpoint \<Rightarrow> protocol \<Rightarrow> protocol \<Rightarrow> bool \<Rightarrow> bool \<Rightarrow> string
     \<Rightarrow> (json \<times> bool) app_result" where
  "routed_body c e source target stream upstream_stream raw =
     (if source = target then
        (if e = Responses then adapt_responses_success_body c raw stream
         else if upstream_stream \<or> stream then Inr (capture_json raw, upstream_stream)
         else Inr (parse_or c (raw_json raw) raw, upstream_stream))
      else
        rbind (body_for_adapt c e target stream upstream_stream raw) (\<lambda>(text, flag).
          if e = Responses then adapt_responses_success_body c text stream
          else rbind (adapt_success_body c e text stream upstream_stream) (\<lambda>body. Inr (body, flag))))"

text \<open>A success whose body reports a failed response is refused at once.\<close>

definition failed_body_error ::
  "'a codec_scheme \<Rightarrow> leg \<Rightarrow> string \<Rightarrow> json \<Rightarrow> u64 option \<Rightarrow> app_error" where
  "failed_body_error c lg m body retry_after =
     classified_error c 502 m
       (json_print c (json_obj [(''error'',
          unwrap_or (json_obj [(''message'', JStr m)]) (jget ''error'' body))]))
       (p_id (lg_provider lg)) retry_after"

text \<open>The common end of every buffered success.\<close>

definition answer_json ::
  "'c service \<Rightarrow> call \<Rightarrow> leg \<Rightarrow> cache_plan \<Rightarrow> attempt list \<Rightarrow> nat \<Rightarrow> string \<Rightarrow> headers \<Rightarrow> json
     \<Rightarrow> bool \<Rightarrow> router \<Rightarrow> flow \<times> router" where
  "answer_json sv cl lg plan tried status raw hs body is_stream st =
     (let ev = sv_env sv;
          usage = extract_usage body;
          st = mark_leg_success ev lg st;
          stored = (case cp_expires plan of
                  None \<Rightarrow> Inr (rt_db st)
                | Some expires \<Rightarrow> upsert_response_cache_entry (now_of ev st) (sv_conflict sv)
                    (new_entry cl lg plan (json_print (sv_lib sv) body) hs status is_stream usage
                       expires) (rt_db st))
      in case stored of
           Inl err \<Rightarrow> (Return (Inl err), st)
         | Inr d \<Rightarrow>
             (Return (Inr (RoutedJson
                \<lparr>rs_body = body,
                 rs_debug = new_debug cl (tried @ [new_attempt lg status raw]) usage (usage_cost lg usage),
                 rs_is_stream = is_stream, rs_headers = miss_header cl plan hs\<rparr>)), st\<lparr>rt_db := d\<rparr>))"

definition finish_json ::
  "'c service \<Rightarrow> call \<Rightarrow> leg \<Rightarrow> cache_plan \<Rightarrow> attempt list \<Rightarrow> u64 option \<Rightarrow> nat \<Rightarrow> string \<Rightarrow> headers
     \<Rightarrow> json \<Rightarrow> bool \<Rightarrow> router \<Rightarrow> flow \<times> router" where
  "finish_json sv cl lg plan tried retry_after status raw hs body is_stream st =
     (case responses_stream_error_message body of
        Some m \<Rightarrow> (Return (Inl (failed_body_error (sv_lib sv) lg m body retry_after)),
                  mark_leg_failure (sv_env sv) lg m st)
      | None \<Rightarrow> answer_json sv cl lg plan tried status raw hs body is_stream (update_tracker sv lg hs st))"

definition buffered_answer ::
  "'c service \<Rightarrow> call \<Rightarrow> leg \<Rightarrow> cache_plan \<Rightarrow> attempt list \<Rightarrow> u64 option \<Rightarrow> provider_response
     \<Rightarrow> router \<Rightarrow> flow \<times> router" where
  "buffered_answer sv cl lg plan tried retry_after r st =
     (if 200 \<le> r_status r \<and> r_status r < 300 then
        (case routed_body (sv_lib sv) (cl_endpoint cl) (lg_source lg) (lg_target lg)
                (nr_stream (cl_request cl)) (r_is_stream r) (r_body r) of
           Inl err \<Rightarrow> (Return (Inl err), st)
         | Inr (body, is_stream) \<Rightarrow>
             finish_json sv cl lg plan tried retry_after (r_status r) (r_body r) (r_headers r) body
               is_stream st)
      else
        (let st = mark_leg_failure (sv_env sv) lg (r_body r) st in
         if fallback_error (axum_status (r_status r)) (r_body r)
         then (Continue (tried @ [new_attempt lg (r_status r) (r_body r)]), st)
         else (Return (Inl (classified_error (sv_lib sv) (axum_status (r_status r)) (r_body r)
                 (r_body r) (p_id (lg_provider lg)) retry_after)), st)))"

section \<open>Streams\<close>

definition transport_text :: "app_error \<Rightarrow> string" where
  "transport_text e = (case e of Http m \<Rightarrow> m | _ \<Rightarrow> error_text e)"

fun polls :: "nat option \<Rightarrow> (app_error + string) list \<Rightarrow> poll list" where
  "polls (Some 0) cs = [Idle]"
| "polls stall [] = []"
| "polls stall (c # cs) =
     (case c of Inr b \<Rightarrow> Chunk b | Inl e \<Rightarrow> Fail (transport_text e))
       # polls (map_option (\<lambda>n. n - 1) stall) cs"

definition watched :: "'c service \<Rightarrow> streaming_response \<Rightarrow> router \<Rightarrow> (string + string) list" where
  "watched sv s st = watchdog_stream (sv_idle_secs sv) (polls (sv_stall sv (rt_sent st)) (st_stream s))"

fun collect_stream :: "http_lib \<Rightarrow> (string + string) list \<Rightarrow> string \<Rightarrow> string app_result" where
  "collect_stream lib [] acc = Inr acc"
| "collect_stream lib (Inl m # cs) acc = Inl (Upstream m)"
| "collect_stream lib (Inr b # cs) acc = collect_stream lib cs (acc @ utf8_lossy lib b)"

text \<open>A Codex connection always streams; a client that did not ask for it gets one body.\<close>

definition codex_body :: "'c service \<Rightarrow> call \<Rightarrow> json \<Rightarrow> json app_result" where
  "codex_body sv cl body =
     (if cl_endpoint cl = Responses then Inr body
      else rbind (translate_response (sv_lib sv) OpenAIResponses OpenAI body) (\<lambda>t.
             adapt_success_body (sv_lib sv) (cl_endpoint cl) (json_print (sv_lib sv) t)
               (nr_stream (cl_request cl)) False))"

definition codex_answer ::
  "'c service \<Rightarrow> call \<Rightarrow> leg \<Rightarrow> cache_plan \<Rightarrow> attempt list \<Rightarrow> u64 option \<Rightarrow> streaming_response
     \<Rightarrow> router \<Rightarrow> flow \<times> router" where
  "codex_answer sv cl lg plan tried retry_after s st =
     (let st = update_tracker sv lg (st_headers s) st in
      case rbind (collect_stream (sv_lib sv) (watched sv s st) []) (\<lambda>transcript.
           rbind (adapt_responses_success_body (sv_lib sv) transcript (nr_stream (cl_request cl)))
             (\<lambda>(body, is_stream). Inr (transcript, body, is_stream))) of
        Inl err \<Rightarrow> (Return (Inl err), st)
      | Inr (transcript, body, is_stream) \<Rightarrow>
          (case responses_stream_error_message body of
             Some m \<Rightarrow> (Return (Inl (failed_body_error (sv_lib sv) lg m body retry_after)),
                       mark_leg_failure (sv_env sv) lg m st)
           | None \<Rightarrow>
               (case codex_body sv cl body of
                  Inl err \<Rightarrow> (Return (Inl err), st)
                | Inr body \<Rightarrow> answer_json sv cl lg plan tried (st_status s) transcript (st_headers s)
                    body is_stream st)))"

definition stream_answer ::
  "'c service \<Rightarrow> call \<Rightarrow> leg \<Rightarrow> cache_plan \<Rightarrow> attempt list \<Rightarrow> streaming_response \<Rightarrow> router
     \<Rightarrow> flow \<times> router" where
  "stream_answer sv cl lg plan tried s st =
     (let (teed, buffer) = tee_stream (watched sv s st) [];
          e = cl_endpoint cl;
          client = (if lg_upstream lg = Responses \<and> lg_target lg = OpenAIResponses
                       \<and> e \<in> {ChatCompletions, Messages}
                    then responses_sse_to_endpoint_stream (sv_lib sv) e teed else teed);
          (client, write) = (case cp_expires plan of
             None \<Rightarrow> (client, None)
           | Some expires \<Rightarrow>
               (let (client, cached) = tee_stream client [] in
                (client, Some (new_entry cl lg plan [] (st_headers s) (st_status s) True None expires,
                               cached))));
          st = update_tracker sv lg (st_headers s) (mark_leg_success (sv_env sv) lg st)
      in (Return (Inr (RoutedStream
            \<lparr>ro_stream = client,
             ro_debug = new_debug cl (tried @ [new_attempt lg (st_status s) ''[streaming]'']) None None,
             ro_buffer = buffer, ro_headers = miss_header cl plan (st_headers s),
             ro_cache_write = write\<rparr>)), st))"

definition handle_outcome ::
  "'c service \<Rightarrow> call \<Rightarrow> leg \<Rightarrow> cache_plan \<Rightarrow> attempt list \<Rightarrow> retry_outcome \<Rightarrow> router \<Rightarrow> flow \<times> router" where
  "handle_outcome sv cl lg plan tried out st =
     (case ro_result out of
        Streaming s \<Rightarrow>
          (if lg_upstream lg = Responses \<and> is_codex_provider (lg_provider lg)
              \<and> \<not> nr_stream (cl_request cl)
           then codex_answer sv cl lg plan tried (ro_retry_after_secs out) s st
           else stream_answer sv cl lg plan tried s st)
      | Buffered r \<Rightarrow> buffered_answer sv cl lg plan tried (ro_retry_after_secs out) r st)"

section \<open>One target\<close>

text \<open>The request of a leg with the headers to send; \<open>None\<close> is a panic.\<close>

definition prepare_leg ::
  "'c service \<Rightarrow> call \<Rightarrow> leg \<Rightarrow> string \<Rightarrow> json \<Rightarrow> provider
     \<Rightarrow> (prepared_request \<times> headers option) option" where
  "prepare_leg sv cl lg raw_model body resolved =
     (let lib = sv_fp_lib sv; fp = sv_fp sv;
          kind = classify_provider (lg_provider lg);
          oauth = build_oauth_context (lg_account lg) kind
      in Option.bind
           (if needs_injection lib fp (lg_target lg) (cl_pass cl) then
              map_option (\<lambda>b. (b, Some (merge_headers (unwrap_or [] (cl_pass cl))
                  (generate_headers lib (sv_vars sv) fp raw_model kind oauth))))
                (inject_body lib fp (nr_body (cl_request cl)) oauth body)
            else Some (body, cl_pass cl))
           (\<lambda>(b, pass).
              map_option (\<lambda>prep. (prep, pass))
                (prepare_upstream_request resolved (lg_upstream lg) (cl_suffix cl) raw_model b
                   (nr_inject_model (cl_request cl)))))"

definition try_target ::
  "'c service \<Rightarrow> call \<Rightarrow> leg \<Rightarrow> string \<Rightarrow> json \<Rightarrow> exec_target \<Rightarrow> attempt list \<Rightarrow> router
     \<Rightarrow> (flow \<times> router) outcome" where
  "try_target sv cl lg0 raw_model body target tried st =
     (let (resolved, acc) = target; lg = lg0\<lparr>lg_account := acc\<rparr>; ev = sv_env sv in
      case prepare_leg sv cl lg raw_model body resolved of
        None \<Rightarrow> Panics
      | Some (prep, pass) \<Rightarrow>
          (let plan = plan_cache sv cl lg prep pass st in
           case read_cache sv cl plan st of
             (Some row, st) \<Rightarrow> Done (Return (Inr (cached_answer (sv_lib sv) cl lg row tried)), st)
           | (None, st) \<Rightarrow>
               (case execute_with_oauth_retry ev (lg_provider lg) resolved acc (lg_upstream lg)
                       raw_model prep pass (Option.bind acc a_proxy_url) st of
                  None \<Rightarrow> Runs_on
                | Some (Inl err, st) \<Rightarrow>
                    Done (Continue (tried @ [new_attempt lg 502 (error_text err)]),
                          mark_leg_failure ev lg (error_text err) st)
                | Some (Inr out, st) \<Rightarrow> Done (handle_outcome sv cl lg plan tried out st))))"

section \<open>The loops\<close>

fun each ::
  "('x \<Rightarrow> attempt list \<Rightarrow> router \<Rightarrow> (flow \<times> router) outcome) \<Rightarrow> 'x list \<Rightarrow> attempt list \<Rightarrow> router
     \<Rightarrow> (flow \<times> router) outcome" where
  "each f [] tried st = Done (Continue tried, st)"
| "each f (x # xs) tried st =
     (case f x tried st of
        Done (Continue tried, st) \<Rightarrow> each f xs tried st
      | r \<Rightarrow> r)"

definition try_provider ::
  "'c service \<Rightarrow> call \<Rightarrow> string \<Rightarrow> string \<Rightarrow> provider \<Rightarrow> attempt list \<Rightarrow> router
     \<Rightarrow> (flow \<times> router) outcome" where
  "try_provider sv cl candidate raw_model p tried st =
     (let nr = cl_request cl; lib = sv_lib sv;
          source = detect_source (cl_endpoint cl) (nr_body nr);
          target = from_provider p;
          upstream = upstream_endpoint_for_provider (cl_endpoint cl) target;
          lg = \<lparr>lg_candidate = candidate, lg_provider = p, lg_account = None, lg_source = source,
                lg_target = target, lg_upstream = upstream\<rparr>
      in case (if source \<noteq> target
               then translate_request lib source target raw_model (nr_body nr) (nr_stream nr)
               else Inr (nr_body nr)) of
           Inl err \<Rightarrow> Done (Return (Inl err), st)
         | Inr translated \<Rightarrow>
             (case execution_targets (sv_env sv) p upstream st of
                (Inl err, st) \<Rightarrow> Done (Return (Inl err), st)
              | (Inr targets, st) \<Rightarrow>
                  each (try_target sv cl lg raw_model
                          (maybe_adapt_codex_responses_request lib upstream p translated (nr_body nr)))
                    targets tried st))"

definition unresolved_attempt :: "endpoint \<Rightarrow> string \<Rightarrow> string \<Rightarrow> attempt" where
  "unresolved_attempt e model_prefix raw_model =
     \<lparr>at_provider_id = ''unresolved:'' @ (if model_prefix = [] then raw_model else model_prefix),
      at_model = raw_model, at_status = 404,
      at_body = ''no provider found for model prefix and endpoint '' @ endpoint_as_str e,
      at_account = None\<rparr>"

definition try_candidate ::
  "'c service \<Rightarrow> call \<Rightarrow> provider list \<Rightarrow> string \<Rightarrow> attempt list \<Rightarrow> router \<Rightarrow> (flow \<times> router) outcome" where
  "try_candidate sv cl providers candidate tried st =
     (case split_model candidate of
        Inl err \<Rightarrow> Done (Return (Inl err), st)
      | Inr (model_prefix, raw_model) \<Rightarrow>
          (case order_providers (rt_tracker st) (matching_providers providers model_prefix raw_model) of
             [] \<Rightarrow> Done (Continue (tried @ [unresolved_attempt (cl_endpoint cl) model_prefix raw_model]), st)
           | p # ps \<Rightarrow> each (try_provider sv cl candidate raw_model) (p # ps) tried st))"

definition final_error :: "'a codec_scheme \<Rightarrow> endpoint \<Rightarrow> attempt list \<Rightarrow> app_error" where
  "final_error c e tried =
     (if tried = [] then Upstream (''all providers/combo targets failed for '' @ endpoint_as_str e)
      else (let l = last tried in
            classified_error c (axum_status (at_status l)) (at_body l) (at_body l) (at_provider_id l) None))"

definition no_provider :: "endpoint \<Rightarrow> app_error" where
  "no_provider e = BadRequest (''no enabled providers configured for '' @ endpoint_as_str e)"

definition route ::
  "'c service \<Rightarrow> endpoint \<Rightarrow> json \<Rightarrow> string option \<Rightarrow> headers option \<Rightarrow> string \<Rightarrow> cache_ctx \<Rightarrow> router
     \<Rightarrow> (routed app_result \<times> router) outcome" where
  "route sv e payload suff pass request_id ctx st =
     (case normalize_request (sv_lib sv) e payload of
        Inl err \<Rightarrow> Done (Inl err, st)
      | Inr nr \<Rightarrow>
          (let resolved = resolve_alias (nr_model nr) (rt_db st);
               (candidates, rr) = expand_candidates e resolved (rt_db st) (rt_rr st);
               st = st\<lparr>rt_rr := rr\<rparr>
           in case candidates of
                Inl err \<Rightarrow> Done (Inl err, st)
              | Inr candidates \<Rightarrow>
                  (let providers = available_providers (now_of (sv_env sv) st) e (rt_db st);
                       cl = \<lparr>cl_endpoint = e, cl_request = nr, cl_resolved = resolved,
                             cl_suffix = suff, cl_pass = pass, cl_request_id = request_id,
                             cl_cache = ctx\<rparr>
                   in if providers = [] then Done (Inl (no_provider e), st)
                      else (case each (try_candidate sv cl providers) candidates [] st of
                              Runs_on \<Rightarrow> Runs_on
                            | Panics \<Rightarrow> Panics
                            | Done (Return r, st) \<Rightarrow> Done (r, st)
                            | Done (Continue tried, st) \<Rightarrow>
                                Done (Inl (final_error (sv_lib sv) e tried), st)))))"

section \<open>What the tee of a stream leaves in the cache\<close>

text \<open>
  \<open>spawn_stream_response_cache_write\<close>: the snapshots are the texts of the buffer at each poll.
  The last one seen when it has not grown for two polls, or after 240 polls, is stored when it
  shows the end of a stream.
\<close>

fun settle :: "string list \<Rightarrow> nat option \<Rightarrow> nat \<Rightarrow> string \<Rightarrow> string" where
  "settle [] last_len calm transcript = transcript"
| "settle (s # ss) last_len calm transcript =
     (if s = [] then settle ss last_len calm transcript
      else
        (let calm = (if last_len = Some (length s) then calm + 1 else 0)
         in if 2 \<le> calm then s else settle ss (Some (length s)) calm s))"

definition stream_cache_write ::
  "'a codec_scheme \<Rightarrow> timestamp \<Rightarrow> string \<Rightarrow> cache_entry \<Rightarrow> string list \<Rightarrow> db \<Rightarrow> db" where
  "stream_cache_write c now conflict entry snapshots d =
     (let transcript = settle (take 240 snapshots) None 0 [] in
      if transcript = [] \<or> \<not> cacheable_stream_transcript_complete transcript then d
      else (case upsert_response_cache_entry now conflict
                   (entry\<lparr>ce_usage := extract_usage_from_sse c transcript,
                          ce_response_body := json_print c (raw_json transcript)\<rparr>) d of
              Inl e \<Rightarrow> d | Inr d' \<Rightarrow> d'))"

end
