(* ===== verification/Route_Facts.thy ===== *)
theory Route_Facts
  imports Route
begin

text \<open>
  What the attempt loop guarantees. A run is judged by a condition on the attempts and the state
  whenever the loop goes on, and one on the answer and the state when it stops; both are carried
  through the three nested loops by one rule.
\<close>

section \<open>The rule of the loops\<close>

definition ends ::
  "(attempt list \<Rightarrow> router \<Rightarrow> bool) \<Rightarrow> (routed app_result \<Rightarrow> router \<Rightarrow> bool)
     \<Rightarrow> (flow \<times> router) outcome \<Rightarrow> bool" where
  "ends I Q out \<longleftrightarrow>
     (case out of
        Done (Continue tried, st) \<Rightarrow> I tried st
      | Done (Return r, st) \<Rightarrow> Q r st
      | _ \<Rightarrow> True)"

lemma ends_simps [simp]:
  "ends I Q (Done (Continue tried, st)) = I tried st"
  "ends I Q (Done (Return r, st)) = Q r st"
  "ends I Q Panics" "ends I Q Runs_on"
  by (simp_all add: ends_def)

lemma each_ends:
  assumes "\<And>x tried st. x \<in> set xs \<Longrightarrow> I tried st \<Longrightarrow> ends I Q (f x tried st)"
    and "I tried st"
  shows "ends I Q (each f xs tried st)"
  using assms
proof (induction xs arbitrary: tried st)
  case (Cons x xs)
  then have x: "ends I Q (f x tried st)" by simp
  show ?case
  proof (cases "f x tried st")
    case (Done out)
    then obtain fl st' where out: "out = (fl, st')" by (cases out)
    show ?thesis
      using Done out x Cons by (cases fl) auto
  qed simp_all
qed simp

lemma each_runs:
  assumes "\<And>x tried st. x \<in> set xs \<Longrightarrow> f x tried st \<noteq> Runs_on"
  shows "each f xs tried st \<noteq> Runs_on"
  using assms
proof (induction xs arbitrary: tried st)
  case (Cons x xs)
  then have "f x tried st \<noteq> Runs_on" "\<And>tried st. each f xs tried st \<noteq> Runs_on" by simp_all
  then show ?case by (auto split: outcome.splits flow.splits)
qed simp

text \<open>
  What has to hold of one target, and of the choice of targets, for a condition to hold of a
  whole run. The conditions may mention the connections and the state the run started with.
\<close>

locale attempt_contract =
  fixes sv :: "'c service" and cl :: call and ps :: "provider list"
    and I :: "attempt list \<Rightarrow> router \<Rightarrow> bool"
    and Q :: "routed app_result \<Rightarrow> router \<Rightarrow> bool"
  assumes refused: "I tried st \<Longrightarrow> Q (Inl err) st"
    and unresolved: "I tried st \<Longrightarrow> I (tried @ [unresolved_attempt (cl_endpoint cl) pre raw]) st"
    and targets: "I tried st \<Longrightarrow> execution_targets (sv_env sv) p up st = (ts, st') \<Longrightarrow> I tried st'"
    and target: "I tried st \<Longrightarrow> lg_provider lg \<in> set ps
       \<Longrightarrow> ends I Q (try_target sv cl lg raw body t tried st)"
begin

lemma provider:
  assumes "I tried st" and "p \<in> set ps"
  shows "ends I Q (try_provider sv cl candidate raw p tried st)"
proof -
  let ?source = "detect_source (cl_endpoint cl) (nr_body (cl_request cl))"
  let ?upstream = "upstream_endpoint_for_provider (cl_endpoint cl) (from_provider p)"
  let ?tr = "if ?source \<noteq> from_provider p
     then translate_request (sv_lib sv) ?source (from_provider p) raw (nr_body (cl_request cl))
            (nr_stream (cl_request cl))
     else Inr (nr_body (cl_request cl))"
  obtain ts st' where ex: "execution_targets (sv_env sv) p ?upstream st = (ts, st')" by fastforce
  have here: "I tried st'" by (rule targets [OF assms(1) ex])
  show ?thesis
  proof (cases ?tr)
    case (Inl e)
    then show ?thesis using assms(1) refused by (simp add: try_provider_def Let_def)
  next
    case (Inr translated)
    then show ?thesis
      using ex here refused target assms(2)
      by (cases ts) (auto simp: try_provider_def Let_def intro!: each_ends)
  qed
qed

lemma candidate:
  assumes "I tried st"
  shows "ends I Q (try_candidate sv cl ps candidate tried st)"
proof (cases "split_model candidate")
  case (Inl e)
  then show ?thesis using assms refused by (simp add: try_candidate_def)
next
  case (Inr pm)
  obtain pre raw where pm: "pm = (pre, raw)" by (cases pm)
  let ?m = "order_providers (rt_tracker st) (matching_providers ps pre raw)"
  have "set ?m \<subseteq> set ps" using matching_providers_subset by simp
  then have "ends I Q (each (try_provider sv cl candidate raw) ?m tried st)"
    using assms provider by (intro each_ends) auto
  then show ?thesis
    using Inr pm assms unresolved by (cases ?m) (simp_all add: try_candidate_def)
qed

lemma candidates:
  "I tried st \<Longrightarrow> ends I Q (each (try_candidate sv cl ps) cs tried st)"
  by (intro each_ends candidate)

lemma returned:
  "each (try_candidate sv cl ps) cs tried st = Done (Return r, st') \<Longrightarrow> I tried st \<Longrightarrow> Q r st'"
  using candidates [of tried st cs] by simp

lemma exhausted:
  "each (try_candidate sv cl ps) cs tried st = Done (Continue tried', st') \<Longrightarrow> I tried st \<Longrightarrow> I tried' st'"
  using candidates [of tried st cs] by simp

end

text \<open>How a run of \<open>route\<close> that answers comes out of the loops.\<close>

definition call_of ::
  "endpoint \<Rightarrow> normalized_request \<Rightarrow> string option \<Rightarrow> headers option \<Rightarrow> string \<Rightarrow> cache_ctx \<Rightarrow> db \<Rightarrow> call" where
  "call_of e nr suff pass request_id ctx d =
     \<lparr>cl_endpoint = e, cl_request = nr, cl_resolved = resolve_alias (nr_model nr) d,
      cl_suffix = suff, cl_pass = pass, cl_request_id = request_id, cl_cache = ctx\<rparr>"

lemma route_cases:
  assumes "route sv e payload suff pass request_id ctx st = Done (r, st')"
  obtains
    (invalid) err where "r = Inl err" "st' = st"
  | (candidates) err nr rr where "normalize_request (sv_lib sv) e payload = Inr nr"
      "expand_candidates e (resolve_alias (nr_model nr) (rt_db st)) (rt_db st) (rt_rr st) = (Inl err, rr)"
      "r = Inl err" "st' = st\<lparr>rt_rr := rr\<rparr>"
  | (nowhere) nr rr cs where "normalize_request (sv_lib sv) e payload = Inr nr"
      "available_providers (now_of (sv_env sv) st) e (rt_db st) = []"
      "r = Inl (no_provider e)" "st' = st\<lparr>rt_rr := rr\<rparr>"
  | (returned) nr rr cs where "normalize_request (sv_lib sv) e payload = Inr nr"
      "expand_candidates e (resolve_alias (nr_model nr) (rt_db st)) (rt_db st) (rt_rr st) = (Inr cs, rr)"
      "each (try_candidate sv (call_of e nr suff pass request_id ctx (rt_db st))
          (available_providers (now_of (sv_env sv) st) e (rt_db st))) cs [] (st\<lparr>rt_rr := rr\<rparr>)
        = Done (Return r, st')"
  | (exhausted) nr rr cs tried where "normalize_request (sv_lib sv) e payload = Inr nr"
      "expand_candidates e (resolve_alias (nr_model nr) (rt_db st)) (rt_db st) (rt_rr st) = (Inr cs, rr)"
      "each (try_candidate sv (call_of e nr suff pass request_id ctx (rt_db st))
          (available_providers (now_of (sv_env sv) st) e (rt_db st))) cs [] (st\<lparr>rt_rr := rr\<rparr>)
        = Done (Continue tried, st')"
      "r = Inl (final_error (sv_lib sv) e tried)"
proof (cases "normalize_request (sv_lib sv) e payload")
  case (Inl err)
  then show thesis using assms by (intro invalid) (auto simp: route_def)
next
  case (Inr nr)
  let ?resolved = "resolve_alias (nr_model nr) (rt_db st)"
  obtain c rr where ex: "expand_candidates e ?resolved (rt_db st) (rt_rr st) = (c, rr)" by fastforce
  show thesis
  proof (cases c)
    case Inl: (Inl err)
    have "r = Inl err" "st' = st\<lparr>rt_rr := rr\<rparr>" using assms \<open>normalize_request (sv_lib sv) e payload = Inr nr\<close> ex Inl
      by (auto simp: route_def)
    then show thesis using candidates [OF \<open>normalize_request (sv_lib sv) e payload = Inr nr\<close>] ex Inl by simp
  next
    case cs: (Inr cs)
    let ?ps = "available_providers (now_of (sv_env sv) st) e (rt_db st)"
    have now: "now_of (sv_env sv) (st\<lparr>rt_rr := rr\<rparr>) = now_of (sv_env sv) st" by (simp add: now_of_def)
    show thesis
    proof (cases "?ps = []")
      case True
      then have "r = Inl (no_provider e)" "st' = st\<lparr>rt_rr := rr\<rparr>"
        using assms Inr ex cs by (auto simp: route_def now)
      then show thesis using nowhere [OF Inr True] by simp
    next
      case False
      let ?out = "each (try_candidate sv (call_of e nr suff pass request_id ctx (rt_db st)) ?ps) cs []
        (st\<lparr>rt_rr := rr\<rparr>)"
      have "(case ?out of Runs_on \<Rightarrow> Runs_on | Panics \<Rightarrow> Panics
          | Done (Return r, st) \<Rightarrow> Done (r, st)
          | Done (Continue tried, st) \<Rightarrow> Done (Inl (final_error (sv_lib sv) e tried), st)) = Done (r, st')"
        using assms Inr ex cs False by (simp add: route_def now call_of_def)
      then show thesis
        using returned [OF Inr ex [unfolded cs]] exhausted [OF Inr ex [unfolded cs]]
        by (auto split: outcome.splits flow.splits)
    qed
  qed
qed

section \<open>A call is a sequence of repository statements\<close>

definition db_moves :: "db \<Rightarrow> db \<Rightarrow> bool" where
  "db_moves d d' \<longleftrightarrow> (\<forall>u. db_step\<^sup>*\<^sup>* \<lparr>w_used = u, w_db = d\<rparr> \<lparr>w_used = u, w_db = d'\<rparr>)"

lemma db_moves_refl [simp]: "db_moves d d"
  by (simp add: db_moves_def)

lemma db_moves_trans: "db_moves a b \<Longrightarrow> db_moves b c \<Longrightarrow> db_moves a c"
  unfolding db_moves_def by (meson rtranclp_trans)

lemma db_movesI:
  "(\<And>u. db_step \<lparr>w_used = u, w_db = d\<rparr> \<lparr>w_used = u, w_db = d'\<rparr>) \<Longrightarrow> db_moves d d'"
  by (simp add: db_moves_def r_into_rtranclp)

lemma moves_refresh_error: "db_moves d (snd (record_provider_account_refresh_error now i m d))"
  by (intro db_movesI step_account_refresh_error [OF surjective_pairing])

lemma moves_credentials:
  "db_moves d (snd (update_provider_account_oauth_credentials now i acc ref ex sc ri re fed k d))"
  by (intro db_movesI step_account_oauth [OF surjective_pairing])

lemma moves_cache_find: "db_moves d (snd (find_response_cache_entry now k ns h d))"
  by (intro db_movesI step_cache_find [OF surjective_pairing])

lemma moves_cache_upsert:
  "upsert_response_cache_entry now conflict e d = Inr d' \<Longrightarrow> db_moves d d'"
  by (intro db_movesI step_cache_upsert)

lemma moves_mark:
  "db_moves (rt_db st) (rt_db (mark_failure ev p acc m st))"
  "db_moves (rt_db st) (rt_db (mark_success ev p acc st))"
  by (auto simp: marks map_db_def
      intro: db_movesI step_provider_failure step_provider_success step_account_failure
        step_account_success db_moves_trans split: option.split)

lemma moves_leg:
  "db_moves (rt_db st) (rt_db (mark_leg_failure ev lg m st))"
  "db_moves (rt_db st) (rt_db (mark_leg_success ev lg st))"
  by (simp_all add: mark_leg_failure_def mark_leg_success_def moves_mark)

lemma moves_refresh:
  "refresh_provider_account now client refresh i d = (r, d') \<Longrightarrow> db_moves d d'"
  using moves_refresh_error moves_credentials
  by (auto simp: refresh_provider_account_def Let_def split: option.splits if_splits sum.splits)

lemma moves_refresh_account: "refresh_account ev i st = (r, st') \<Longrightarrow> db_moves (rt_db st) (rt_db st')"
  by (auto simp: refresh_account_def dest: moves_refresh split: prod.splits)

lemma moves_prepare:
  assumes "prepare_provider_account ev a st = (r, st')"
  shows "db_moves (rt_db st) (rt_db st')"
proof (cases "a_auth_mode a")
  case ApiKeyMode
  then show ?thesis using assms by (auto simp: prepare_provider_account_def)
next
  case OAuthMode
  obtain b st1 where rf: "(if needs_refresh (now_of ev st) a then refresh_account ev (a_id a) st
      else (Inr a, st)) = (b, st1)" by fastforce
  have "db_moves (rt_db st) (rt_db st1)"
    using rf moves_refresh_account by (auto split: if_splits)
  moreover have "db_moves (rt_db st1) (rt_db st')"
    using assms rf OAuthMode moves_refresh_error
    by (cases b) (auto simp: prepare_provider_account_def map_db_def split: if_splits)
  ultimately show ?thesis by (rule db_moves_trans)
qed

lemma moves_prepare_targets:
  "prepare_targets ev p e accounts st = (ts, st') \<Longrightarrow> db_moves (rt_db st) (rt_db st')"
proof (induction accounts arbitrary: st ts st')
  case (Cons a accounts)
  obtain r st1 where p: "prepare_provider_account ev a st = (r, st1)" by fastforce
  obtain ts1 st2 where rec: "prepare_targets ev p e accounts st1 = (ts1, st2)" by fastforce
  have "st' = st2" using Cons.prems p rec by (auto simp: Let_def split: option.splits if_splits)
  then show ?case using db_moves_trans [OF moves_prepare [OF p] Cons.IH [OF rec]] by simp
qed simp

lemma moves_execution_targets:
  assumes "execution_targets ev p e st = (ts, st')"
  shows "db_moves (rt_db st) (rt_db st')"
proof (cases "list_selectable_provider_accounts (now_of ev st) (p_id p) (rt_db st)")
  case Nil
  then show ?thesis using assms by (auto simp: execution_targets_def split: if_splits)
next
  case (Cons a accounts)
  then show ?thesis using assms moves_prepare_targets
    by (fastforce simp: execution_targets_def split: sum.splits prod.splits)
qed

lemma moves_oauth_retry:
  assumes "execute_with_oauth_retry ev base res acc e model prep pass proxy st = Some (r, st')"
  shows "db_moves (rt_db st) (rt_db st')"
  using assms
  by (auto simp: execute_with_oauth_retry_def dest!: run_retry_sent moves_refresh_account
      split: option.splits sum.splits prod.splits)

lemma moves_answer_json:
  "answer_json sv cl lg plan tried status raw hs body is_stream st = (fl, st')
     \<Longrightarrow> db_moves (rt_db st) (rt_db st')"
  by (auto simp: answer_json_def Let_def
      intro: moves_leg db_moves_trans [OF moves_leg(2) moves_cache_upsert]
      split: option.splits sum.splits)

lemma tracker_keeps_db [simp]: "rt_db (update_tracker sv lg hs st) = rt_db st"
  by (simp add: update_tracker_def)

lemma moves_tracked_leg:
  "db_moves (rt_db st) (rt_db (mark_leg_failure ev lg m (update_tracker sv lg' hs st)))"
  "db_moves (rt_db st) (rt_db (update_tracker sv lg' hs (mark_leg_success ev lg st)))"
  using moves_leg(1) [where st = "update_tracker sv lg' hs st"] moves_leg(2) by simp_all

lemma moves_handle_outcome:
  assumes "handle_outcome sv cl lg plan tried out st = (fl, st')"
  shows "db_moves (rt_db st) (rt_db st')"
proof (cases "ro_result out")
  case (Buffered r)
  then show ?thesis using assms moves_leg
    by (auto simp: handle_outcome_def buffered_answer_def finish_json_def Let_def
        dest!: moves_answer_json split: if_splits sum.splits prod.splits option.splits)
next
  case (Streaming s)
  then show ?thesis using assms moves_leg moves_tracked_leg
    by (auto simp: handle_outcome_def codex_answer_def stream_answer_def Let_def
        dest!: moves_answer_json split: if_splits sum.splits prod.splits option.splits)
qed

lemma moves_read_cache:
  "read_cache sv cl plan st = (row, st') \<Longrightarrow> db_moves (rt_db st) (rt_db st')"
  using moves_cache_find
  by (auto simp: read_cache_def split: if_splits prod.splits) (metis snd_conv)

text \<open>The ways one target ends.\<close>

lemma try_target_ends:
  assumes hit: "\<And>lg plan row st'. lg_provider lg = lg_provider lg0 \<Longrightarrow>
       read_cache sv cl plan st = (Some row, st') \<Longrightarrow> Q (Inr (cached_answer (sv_lib sv) cl lg row tried)) st'"
    and broken: "\<And>lg plan up prep pass acc resolved err st1 st2. lg_provider lg = lg_provider lg0 \<Longrightarrow>
       read_cache sv cl plan st = (None, st1) \<Longrightarrow>
       execute_with_oauth_retry (sv_env sv) (lg_provider lg) resolved acc up raw prep pass
         (Option.bind acc a_proxy_url) st1 = Some (Inl err, st2) \<Longrightarrow>
       I (tried @ [new_attempt lg 502 (error_text err)]) (mark_leg_failure (sv_env sv) lg (error_text err) st2)"
    and answered: "\<And>lg plan up prep pass acc resolved out st1 st2. lg_provider lg = lg_provider lg0 \<Longrightarrow>
       read_cache sv cl plan st = (None, st1) \<Longrightarrow>
       execute_with_oauth_retry (sv_env sv) (lg_provider lg) resolved acc up raw prep pass
         (Option.bind acc a_proxy_url) st1 = Some (Inr out, st2) \<Longrightarrow>
       ends I Q (Done (handle_outcome sv cl lg plan tried out st2))"
  shows "ends I Q (try_target sv cl lg0 raw body t tried st)"
proof -
  obtain resolved acc where t: "t = (resolved, acc)" by (cases t)
  let ?lg = "lg0\<lparr>lg_account := acc\<rparr>"
  have same: "lg_provider ?lg = lg_provider lg0" by simp
  show ?thesis
  proof (cases "prepare_leg sv cl ?lg raw body resolved")
    case None
    then show ?thesis by (simp add: try_target_def t Let_def)
  next
    case (Some pp)
    obtain prep pass where pp: "pp = (prep, pass)" by (cases pp)
    let ?plan = "plan_cache sv cl ?lg prep pass st"
    obtain row st1 where rc: "read_cache sv cl ?plan st = (row, st1)" by fastforce
    show ?thesis
    proof (cases row)
      case None
      let ?run = "execute_with_oauth_retry (sv_env sv) (lg_provider ?lg) resolved acc (lg_upstream ?lg)
        raw prep pass (Option.bind acc a_proxy_url) st1"
      show ?thesis
      proof (cases ?run)
        case None
        then show ?thesis using Some pp rc \<open>row = None\<close> by (simp add: try_target_def t Let_def)
      next
        case run: (Some rs)
        obtain r st2 where rs: "rs = (r, st2)" by (cases rs)
        show ?thesis
        proof (cases r)
          case (Inl err)
          then show ?thesis
            using broken [OF same rc [unfolded \<open>row = None\<close>], of resolved acc "lg_upstream lg0" prep pass]
              Some pp rc \<open>row = None\<close> run rs by (simp add: try_target_def t Let_def)
        next
          case (Inr out)
          then show ?thesis
            using answered [OF same rc [unfolded \<open>row = None\<close>], of resolved acc "lg_upstream lg0" prep pass]
              Some pp rc \<open>row = None\<close> run rs by (simp add: try_target_def t Let_def)
        qed
      qed
    next
      case row: (Some hit_row)
      then show ?thesis using hit [OF same rc [unfolded row]] Some pp rc
        by (simp add: try_target_def t Let_def)
    qed
  qed
qed

lemma moves_exchange:
  assumes "read_cache sv cl plan st = (row, st1)"
    and "execute_with_oauth_retry ev base res acc e model prep pass proxy st1 = Some (r, st2)"
    and "db_moves d (rt_db st)"
  shows "db_moves d (rt_db st2)"
  using db_moves_trans [OF db_moves_trans [OF assms(3) moves_read_cache [OF assms(1)]]
      moves_oauth_retry [OF assms(2)]] .

interpretation moves: attempt_contract sv cl ps
  "\<lambda>tried st. db_moves d0 (rt_db st)" "\<lambda>r st. db_moves d0 (rt_db st)" for sv cl ps d0
proof
  fix tried st p up ts st'
  assume "db_moves d0 (rt_db st)" "execution_targets (sv_env sv) p up st = (ts, st')"
  then show "db_moves d0 (rt_db st')" using moves_execution_targets db_moves_trans by blast
next
  fix tried and st :: router and lg raw body t
  assume start: "db_moves d0 (rt_db st)"
  show "ends (\<lambda>tried st. db_moves d0 (rt_db st)) (\<lambda>r st. db_moves d0 (rt_db st))
      (try_target sv cl lg raw body t tried st)"
  proof (rule try_target_ends)
    fix lg plan row and st' :: router
    assume "read_cache sv cl plan st = (Some row, st')"
    then show "db_moves d0 (rt_db st')" using start moves_read_cache db_moves_trans by blast
  next
    fix lg :: leg and plan up prep pass acc resolved err and st1 st2 :: router
    assume "read_cache sv cl plan st = (None, st1)"
      "execute_with_oauth_retry (sv_env sv) (lg_provider lg) resolved acc up raw prep pass
         (Option.bind acc a_proxy_url) st1 = Some (Inl err, st2)"
    then have "db_moves d0 (rt_db st2)" using start by (rule moves_exchange)
    then show "db_moves d0 (rt_db (mark_leg_failure (sv_env sv) lg (error_text err) st2))"
      using moves_leg db_moves_trans by blast
  next
    fix lg :: leg and plan up prep pass acc resolved out and st1 st2 :: router
    assume "read_cache sv cl plan st = (None, st1)"
      "execute_with_oauth_retry (sv_env sv) (lg_provider lg) resolved acc up raw prep pass
         (Option.bind acc a_proxy_url) st1 = Some (Inr out, st2)"
    then have two: "db_moves d0 (rt_db st2)" using start by (rule moves_exchange)
    obtain fl st3 where h: "handle_outcome sv cl lg plan tried out st2 = (fl, st3)" by fastforce
    then have "db_moves d0 (rt_db st3)" using two moves_handle_outcome db_moves_trans by blast
    then show "ends (\<lambda>tried st. db_moves d0 (rt_db st)) (\<lambda>r st. db_moves d0 (rt_db st))
        (Done (handle_outcome sv cl lg plan tried out st2))"
      unfolding h by (cases fl) simp_all
  qed
qed auto

lemma route_moves:
  assumes "route sv e payload suff pass request_id ctx st = Done (r, st')"
  shows "db_moves (rt_db st) (rt_db st')"
  using assms
proof (cases rule: route_cases)
  case (returned nr rr cs)
  then show ?thesis using moves.returned [OF returned(3), of "rt_db st"] by simp
next
  case (exhausted nr rr cs tried)
  then show ?thesis using moves.exhausted [OF exhausted(3), of "rt_db st"] by simp
qed simp_all

end
