(* ===== verification/Route_History.thy ===== *)
theory Route_History
  imports Route_Facts
begin

text \<open>
  What the attempts of a call say: who was tried and why the call went on, how many exchanges
  were made, that a call ends, and that a cached answer is the answer that was stored.
\<close>

section \<open>Streams are successes\<close>

lemma retry_loop_result:
  "retry_loop fuel cfg exec rnd i att tot sl = Some (Inr out, sl') \<Longrightarrow> \<exists>j. exec j = Inr (ro_result out)"
proof (induction fuel cfg exec rnd i att tot sl rule: retry_loop.induct)
  case (2 fuel cfg exec rnd i att tot sl)
  show ?case
  proof (cases "exec i")
    case (Inl err)
    then show ?thesis using 2 by (auto simp: Let_def split: if_splits)
  next
    case (Inr u)
    then show ?thesis using 2
      by (cases u) (auto simp: Let_def intro: exI [of _ i] split: if_splits)
  qed
qed simp

lemma run_retry_streaming:
  assumes "run_retry ev p e model prep pass proxy st = Some (Inr out, st')"
    and "ro_result out = Streaming s"
  shows "is_success (st_status s)"
proof -
  let ?exec = "\<lambda>i. execute_prepared (ev_lib ev) (ev_client ev proxy) (ev_send ev (rt_sent st) i)
      p e model prep pass"
  obtain sl where "retry_loop (Suc (unat (max_retries (ev_retry ev)))) (ev_retry ev) ?exec
      (ev_random ev (rt_sent st)) 0 0 0 [] = Some (Inr out, sl)"
    using assms(1) by (auto simp: run_retry_def execute_with_retry_def)
  from retry_loop_result [OF this] obtain j where "?exec j = Inr (Streaming s)"
    using assms(2) by auto
  then show ?thesis using execute_streaming_success by blast
qed

lemma oauth_retry_streaming:
  assumes "execute_with_oauth_retry ev base res acc e model prep pass proxy st = Some (Inr out, st')"
    and "ro_result out = Streaming s"
  shows "is_success (st_status s)"
  using assms run_retry_streaming
  by (auto simp: execute_with_oauth_retry_def split: option.splits sum.splits prod.splits)

section \<open>The trail of a call\<close>

fun routed_debug :: "routed \<Rightarrow> debug" where
  "routed_debug (RoutedJson r) = rs_debug r"
| "routed_debug (RoutedStream r) = ro_debug r"

definition from_connection :: "provider list \<Rightarrow> attempt \<Rightarrow> bool" where
  "from_connection ps a \<longleftrightarrow> (\<exists>p \<in> set ps. at_provider_id a = p_id p)"

definition failed_attempt :: "endpoint \<Rightarrow> provider list \<Rightarrow> attempt \<Rightarrow> bool" where
  "failed_attempt e ps a \<longleftrightarrow>
     (\<exists>pre raw. a = unresolved_attempt e pre raw)
     \<or> (from_connection ps a \<and> \<not> is_success (at_status a)
        \<and> fallback_error (axum_status (at_status a)) (at_body a))"

definition answering_attempt :: "provider list \<Rightarrow> attempt \<Rightarrow> bool" where
  "answering_attempt ps a \<longleftrightarrow> from_connection ps a
     \<and> (is_success (at_status a) \<or> at_body a = ''[response-cache hit]'')"

definition good_trail :: "endpoint \<Rightarrow> provider list \<Rightarrow> attempt list \<Rightarrow> bool" where
  "good_trail e ps tried \<longleftrightarrow>
     (\<exists>before a. tried = before @ [a] \<and> list_all (failed_attempt e ps) before \<and> answering_attempt ps a)"

text \<open>Every answer of the upstream either ends the call or adds one failed attempt.\<close>

lemma handle_outcome_cases:
  assumes "handle_outcome sv cl lg plan tried out st = (fl, st')"
    and "\<And>s. ro_result out = Streaming s \<Longrightarrow> is_success (st_status s)"
  shows "(\<exists>a. fl = Continue (tried @ [a]) \<and> at_provider_id a = p_id (lg_provider lg)
            \<and> \<not> is_success (at_status a) \<and> fallback_error (axum_status (at_status a)) (at_body a))
     \<or> (\<exists>err. fl = Return (Inl err))
     \<or> (\<exists>x a. fl = Return (Inr x) \<and> rd_tried (routed_debug x) = tried @ [a]
            \<and> at_provider_id a = p_id (lg_provider lg) \<and> is_success (at_status a))"
proof (cases "ro_result out")
  case (Buffered r)
  then show ?thesis using assms(1)
    by (auto simp: handle_outcome_def buffered_answer_def finish_json_def answer_json_def Let_def
        new_attempt_def new_debug_def is_success_def split: if_splits sum.splits prod.splits option.splits)
next
  case (Streaming s)
  then show ?thesis using assms
    by (auto simp: handle_outcome_def codex_answer_def stream_answer_def answer_json_def Let_def
        new_attempt_def new_debug_def split: if_splits sum.splits prod.splits option.splits)
qed

lemma handle_outcome_sent:
  "handle_outcome sv cl lg plan tried out st = (fl, st') \<Longrightarrow> rt_sent st' = rt_sent st"
  by (auto simp: handle_outcome_def buffered_answer_def finish_json_def answer_json_def
      codex_answer_def stream_answer_def Let_def marks
      map_db_def update_tracker_def
      split: if_splits sum.splits prod.splits option.splits upstream_result.splits)

lemma read_cache_sent: "read_cache sv cl plan st = (row, st') \<Longrightarrow> rt_sent st' = rt_sent st"
  by (auto simp: read_cache_def split: if_splits prod.splits)

lemma cached_answer_trail:
  "rd_tried (routed_debug (cached_answer c cl lg row tried))
     = tried @ [new_attempt lg (nat (ce_status row mod 65536)) ''[response-cache hit]'']"
  by (simp add: cached_answer_def new_debug_def Let_def)

lemma transport_failure:
  "failed_attempt e ps (new_attempt lg 502 body) \<longleftrightarrow> from_connection ps (new_attempt lg 502 body)
     \<or> (\<exists>pre raw. new_attempt lg 502 body = unresolved_attempt e pre raw)"
  by (auto simp: failed_attempt_def new_attempt_def is_success_def fallback_error_def
      axum_status_def is_server_error_def)

lemma from_leg: "lg_provider lg \<in> set ps \<Longrightarrow> at_provider_id a = p_id (lg_provider lg) \<Longrightarrow> from_connection ps a"
  by (auto simp: from_connection_def)

definition answer_trail :: "endpoint \<Rightarrow> provider list \<Rightarrow> routed app_result \<Rightarrow> bool" where
  "answer_trail e ps r = (case r of Inl err \<Rightarrow> True | Inr x \<Rightarrow> good_trail e ps (rd_tried (routed_debug x)))"

interpretation trail: attempt_contract sv cl ps
  "\<lambda>tried st. list_all (failed_attempt (cl_endpoint cl) ps) tried"
  "\<lambda>r st. answer_trail (cl_endpoint cl) ps r" for sv cl ps
proof
  fix tried :: "attempt list" and st :: router and lg :: leg and raw body t
  let ?e = "cl_endpoint cl"
  let ?I = "\<lambda>tried (st :: router). list_all (failed_attempt ?e ps) tried"
  let ?Q = "\<lambda>r (st :: router). answer_trail ?e ps r"
  assume start: "list_all (failed_attempt ?e ps) tried" and p: "lg_provider lg \<in> set ps"
  show "ends ?I ?Q (try_target sv cl lg raw body t tried st)"
  proof (rule try_target_ends)
    fix lg' :: leg and plan row and st' :: router
    assume "lg_provider lg' = lg_provider lg"
    then show "answer_trail ?e ps (Inr (cached_answer (sv_lib sv) cl lg' row tried))"
      using start p
      by (auto simp: answer_trail_def good_trail_def cached_answer_trail answering_attempt_def
          new_attempt_def intro!: from_leg [of lg'])
  next
    fix lg' :: leg and plan up prep pass acc resolved err and st1 st2 :: router
    assume "lg_provider lg' = lg_provider lg"
    then have "from_connection ps (new_attempt lg' 502 (error_text err))"
      using p by (auto simp: new_attempt_def intro: from_leg [of lg'])
    then show "list_all (failed_attempt ?e ps) (tried @ [new_attempt lg' 502 (error_text err)])"
      using start by (simp add: transport_failure)
  next
    fix lg' :: leg and plan up prep pass acc resolved out and st1 st2 :: router
    assume same: "lg_provider lg' = lg_provider lg"
      and run: "execute_with_oauth_retry (sv_env sv) (lg_provider lg') resolved acc up raw prep pass
         (Option.bind acc a_proxy_url) st1 = Some (Inr out, st2)"
    obtain fl st3 where h: "handle_outcome sv cl lg' plan tried out st2 = (fl, st3)" by fastforce
    note here = from_leg [of lg', unfolded same, OF p]
    from handle_outcome_cases [OF h oauth_retry_streaming [OF run]]
    show "ends ?I ?Q (Done (handle_outcome sv cl lg' plan tried out st2))"
      unfolding h using start here same
      by (auto simp: answer_trail_def good_trail_def failed_attempt_def answering_attempt_def)
  qed
qed (auto simp: answer_trail_def failed_attempt_def)

section \<open>How many exchanges a call makes\<close>

definition exchange_bound :: "nat \<Rightarrow> routed app_result \<Rightarrow> router \<Rightarrow> bool" where
  "exchange_bound n r st =
     (case r of Inl err \<Rightarrow> True | Inr x \<Rightarrow> rt_sent st \<le> n + 2 * length (rd_tried (routed_debug x)))"

lemma prepare_provider_account_sent:
  "prepare_provider_account ev a st = (r, st') \<Longrightarrow> rt_sent st' = rt_sent st"
  by (auto simp: prepare_provider_account_def map_db_def dest: refresh_account_state
      split: auth_mode.splits if_splits prod.splits sum.splits)

lemma prepare_targets_sent: "prepare_targets ev p e as st = (ts, st') \<Longrightarrow> rt_sent st' = rt_sent st"
  by (induction as arbitrary: st ts st')
    (fastforce simp: Let_def dest: prepare_provider_account_sent split: prod.splits option.splits if_splits)+

lemma execution_targets_sent: "execution_targets ev p e st = (ts, st') \<Longrightarrow> rt_sent st' = rt_sent st"
  by (auto simp: execution_targets_def dest!: prepare_targets_sent
      split: list.splits if_splits sum.splits prod.splits)

lemma exchange_sent:
  assumes "read_cache sv cl plan st = (row, st1)"
    and "execute_with_oauth_retry ev base res acc e model prep pass proxy st1 = Some (r, st2)"
  shows "rt_sent st2 \<le> rt_sent st + 2"
  using oauth_retry_sent [OF assms(2)] read_cache_sent [OF assms(1)] by auto

interpretation exchanges: attempt_contract sv cl ps
  "\<lambda>tried st. rt_sent st \<le> n + 2 * length tried" "exchange_bound n" for sv cl ps n
proof
  fix tried st p up ts st'
  assume "rt_sent st \<le> n + 2 * length tried" "execution_targets (sv_env sv) p up st = (ts, st')"
  then show "rt_sent st' \<le> n + 2 * length tried" by (simp add: execution_targets_sent)
next
  fix tried :: "attempt list" and st :: router and lg :: leg and raw body t
  let ?I = "\<lambda>tried (st :: router). rt_sent st \<le> n + 2 * length tried"
  assume start: "rt_sent st \<le> n + 2 * length tried"
  show "ends ?I (exchange_bound n) (try_target sv cl lg raw body t tried st)"
  proof (rule try_target_ends)
    fix lg' :: leg and plan row and st' :: router
    assume "read_cache sv cl plan st = (Some row, st')"
    then show "exchange_bound n (Inr (cached_answer (sv_lib sv) cl lg' row tried)) st'"
      using start by (simp add: exchange_bound_def cached_answer_trail read_cache_sent)
  next
    fix lg' :: leg and plan up prep pass acc resolved err and st1 st2 :: router
    assume "read_cache sv cl plan st = (None, st1)"
      "execute_with_oauth_retry (sv_env sv) (lg_provider lg') resolved acc up raw prep pass
         (Option.bind acc a_proxy_url) st1 = Some (Inl err, st2)"
    from exchange_sent [OF this] show "rt_sent (mark_leg_failure (sv_env sv) lg' (error_text err) st2)
        \<le> n + 2 * length (tried @ [new_attempt lg' 502 (error_text err)])"
      using start by (simp add: marks map_db_def)
  next
    fix lg' :: leg and plan up prep pass acc resolved out and st1 st2 :: router
    assume rc: "read_cache sv cl plan st = (None, st1)"
      and run: "execute_with_oauth_retry (sv_env sv) (lg_provider lg') resolved acc up raw prep pass
         (Option.bind acc a_proxy_url) st1 = Some (Inr out, st2)"
    obtain fl st3 where h: "handle_outcome sv cl lg' plan tried out st2 = (fl, st3)" by fastforce
    have "rt_sent st3 \<le> n + 2 * length tried + 2"
      using exchange_sent [OF rc run] handle_outcome_sent [OF h] start by simp
    with handle_outcome_cases [OF h oauth_retry_streaming [OF run]]
    show "ends ?I (exchange_bound n) (Done (handle_outcome sv cl lg' plan tried out st2))"
      unfolding h by (auto simp: exchange_bound_def)
  qed
qed (auto simp: exchange_bound_def)

lemma route_answer:
  assumes "route sv e payload suff pass request_id ctx st = Done (Inr x, st')"
  shows "good_trail e (available_providers (now_of (sv_env sv) st) e (rt_db st)) (rd_tried (routed_debug x))
     \<and> rt_sent st' \<le> rt_sent st + 2 * length (rd_tried (routed_debug x))"
  using assms
proof (cases rule: route_cases)
  case (returned nr rr cs)
  then show ?thesis
    using trail.returned [OF returned(3)] exchanges.returned [OF returned(3), of "rt_sent st"]
    by (simp add: answer_trail_def exchange_bound_def call_of_def)
qed simp_all

section \<open>A call ends\<close>

lemma try_target_runs:
  assumes "unat (max_retries (ev_retry (sv_env sv))) < 2 ^ 32 - 1"
  shows "try_target sv cl lg raw body t tried st \<noteq> Runs_on"
proof -
  have "execute_with_oauth_retry (sv_env sv) base res acc e model prep pass proxy st1 = None \<Longrightarrow> False"
    for base res acc e model prep pass proxy and st1 :: router
    using oauth_retry_total [OF assms] by simp
  then show ?thesis
    by (auto simp: try_target_def Let_def split: prod.splits option.splits sum.splits)
qed

lemma try_provider_runs:
  assumes "unat (max_retries (ev_retry (sv_env sv))) < 2 ^ 32 - 1"
  shows "try_provider sv cl candidate raw p tried st \<noteq> Runs_on"
  using each_runs [of _ "try_target sv cl _ raw _", OF try_target_runs [OF assms]]
  by (auto simp: try_provider_def Let_def split: prod.splits sum.splits)

lemma try_candidate_runs:
  assumes "unat (max_retries (ev_retry (sv_env sv))) < 2 ^ 32 - 1"
  shows "try_candidate sv cl ps candidate tried st \<noteq> Runs_on"
  using each_runs [of _ "try_provider sv cl candidate _", OF try_provider_runs [OF assms]]
  by (auto simp: try_candidate_def simp del: each.simps split: prod.splits sum.splits list.splits)

lemma route_runs:
  assumes "unat (max_retries (ev_retry (sv_env sv))) < 2 ^ 32 - 1"
  shows "route sv e payload suff pass request_id ctx st \<noteq> Runs_on"
  using each_runs [of _ "try_candidate sv _ _", OF try_candidate_runs [OF assms]]
  by (auto simp: route_def Let_def split: prod.splits sum.splits outcome.splits flow.splits)

section \<open>What was stored is what comes back\<close>

lemma handle_outcome_stores:
  assumes "handle_outcome sv cl lg plan tried out st = (Return (Inr (RoutedJson r)), st')"
    and "cp_expires plan = Some ex"
  shows "\<exists>now d e. upsert_response_cache_entry now (sv_conflict sv) e d = Inr (rt_db st')
     \<and> ce_cache_key e = ci_cache_key (cp_identity plan)
     \<and> ce_namespace e = cc_namespace (cl_cache cl)
     \<and> ce_request_body_hash e = ci_request_body_hash (cp_identity plan)
     \<and> ce_response_body e = json_print (sv_lib sv) (rs_body r) \<and> ce_expires_at e = ex"
proof -
  have stored: "answer_json sv cl lg plan tried status raw hs body is_stream st1
      = (Return (Inr (RoutedJson r)), st') \<Longrightarrow> ?thesis" for status raw hs body is_stream st1
    using assms(2)
    by (auto simp: answer_json_def Let_def new_entry_def intro!: exI
        split: sum.splits)
  show ?thesis
  proof (cases "ro_result out")
    case (Buffered b)
    then show ?thesis using assms(1)
      by (auto simp: handle_outcome_def buffered_answer_def finish_json_def Let_def intro: stored
          split: if_splits sum.splits prod.splits option.splits)
  next
    case (Streaming s)
    then show ?thesis using assms(1)
      by (auto simp: handle_outcome_def codex_answer_def stream_answer_def Let_def intro: stored
          split: if_splits sum.splits prod.splits option.splits)
  qed
qed

lemma cached_row_fields:
  "cache_entry.truncate row = e \<Longrightarrow> ce_response_body row = ce_response_body e"
  by (auto simp: cache_entry.defs)

lemma plan_identity:
  "cp_identity (plan_cache sv cl lg prep pass st') = cp_identity (plan_cache sv cl lg prep pass st)"
  "cp_cacheable (plan_cache sv cl lg prep pass st') = cp_cacheable (plan_cache sv cl lg prep pass st)"
  by (simp_all add: plan_cache_def Let_def)

text \<open>The leg's request is cacheable, and the client asks for both reading and writing.\<close>

definition leg_cacheable :: "'c service \<Rightarrow> call \<Rightarrow> leg \<Rightarrow> string \<Rightarrow> json \<Rightarrow> exec_target \<Rightarrow> bool" where
  "leg_cacheable sv cl lg raw body t =
     (case prepare_leg sv cl (lg\<lparr>lg_account := snd t\<rparr>) raw body (fst t) of
        None \<Rightarrow> False
      | Some (prep, pass) \<Rightarrow> evaluate_policy (cl_endpoint cl) (request_body prep) pass
          (cc_allow_nondeterministic (cl_cache cl)) = None)"

lemma cache_replay:
  assumes run: "try_target sv cl lg0 raw body t tried st = Done (Return (Inr (RoutedJson r)), st')"
    and fresh: "(''x-kou-cache'', ''HIT'') \<notin> set (rs_headers r)"
    and ctx: "cc_read (cl_cache cl)" "cc_write (cl_cache cl)" "cc_ttl (cl_cache cl) = Some ttl"
    and policy: "leg_cacheable sv cl lg0 raw body t"
    and codec: "json_parse (sv_lib sv) (json_print (sv_lib sv) (rs_body r)) = Inr (rs_body r)"
    and later: "rt_db st2 = rt_db st'" "now_of (sv_env sv) st2 < now_of (sv_env sv) st + ttl * second"
  shows "\<exists>x st3. try_target sv cl lg0 raw body t tried2 st2 = Done (Return (Inr (RoutedJson x)), st3)
     \<and> rs_body x = rs_body r \<and> rt_sent st3 = rt_sent st2"
proof -
  obtain resolved acc where t: "t = (resolved, acc)" by (cases t)
  let ?lg = "lg0\<lparr>lg_account := acc\<rparr>"
  obtain prep pass where pl: "prepare_leg sv cl ?lg raw body resolved = Some (prep, pass)"
    and ok: "evaluate_policy (cl_endpoint cl) (request_body prep) pass
          (cc_allow_nondeterministic (cl_cache cl)) = None"
    using policy by (auto simp: leg_cacheable_def t split: option.splits)
  let ?plan = "plan_cache sv cl ?lg prep pass st"
  have ex: "cp_expires ?plan = Some (now_of (sv_env sv) st + ttl * second)"
    using ctx ok by (simp add: plan_cache_def Let_def)
  have "\<exists>out st1. handle_outcome sv cl ?lg ?plan tried out st1 = (Return (Inr (RoutedJson r)), st')"
    using run pl fresh
    by (auto simp: try_target_def t Let_def cached_answer_def
        split: prod.splits option.splits sum.splits outcome.splits)
  from this [THEN exE] obtain now d e
    where db: "upsert_response_cache_entry now (sv_conflict sv) e d = Inr (rt_db st')"
    and e: "ce_cache_key e = ci_cache_key (cp_identity ?plan)"
      "ce_namespace e = cc_namespace (cl_cache cl)"
      "ce_request_body_hash e = ci_request_body_hash (cp_identity ?plan)"
      "ce_response_body e = json_print (sv_lib sv) (rs_body r)"
      "ce_expires_at e = now_of (sv_env sv) st + ttl * second"
    using handle_outcome_stores [OF _ ex] by metis
  obtain row where row: "fst (find_response_cache_entry (now_of (sv_env sv) st2) (ce_cache_key e)
      (ce_namespace e) (ce_request_body_hash e) (rt_db st2)) = Some row" "cache_entry.truncate row = e"
    using cache_find_after_upsert [OF db, of "now_of (sv_env sv) st2"] later e by auto
  have "read_cache sv cl (plan_cache sv cl ?lg prep pass st2) st2 = (Some row,
      st2\<lparr>rt_db := snd (find_response_cache_entry (now_of (sv_env sv) st2) (ce_cache_key e)
        (ce_namespace e) (ce_request_body_hash e) (rt_db st2))\<rparr>)"
    using row(1) e ctx ok
    by (auto simp: read_cache_def plan_identity [of sv cl ?lg prep pass st2 st] split: prod.splits)
      (simp add: plan_cache_def Let_def)
  then show ?thesis
    using pl codec e(4) cached_row_fields [OF row(2)]
    by (auto simp: try_target_def t Let_def cached_answer_def parse_or_def)
qed

section \<open>What is kept of a stream\<close>

lemma settle_seen:
  "settle ss last_len calm s0 = s0 \<or> settle ss last_len calm s0 \<in> set ss"
proof (induction ss last_len calm s0 rule: settle.induct)
  case (2 s ss last_len calm transcript)
  then show ?case by (auto simp: Let_def split: if_splits)
qed simp

lemma stream_cache_write_complete:
  assumes "stream_cache_write c now conflict entry snapshots d \<noteq> d"
  shows "\<exists>transcript \<in> set snapshots. cacheable_stream_transcript_complete transcript
     \<and> upsert_response_cache_entry now conflict
         (entry\<lparr>ce_usage := extract_usage_from_sse c transcript,
                ce_response_body := json_print c (raw_json transcript)\<rparr>) d
       = Inr (stream_cache_write c now conflict entry snapshots d)"
proof -
  let ?t = "settle (take 240 snapshots) None 0 []"
  have t: "?t \<noteq> []" "cacheable_stream_transcript_complete ?t"
    using assms by (auto simp: stream_cache_write_def Let_def split: if_splits)
  then have "?t \<in> set snapshots"
    using settle_seen [of "take 240 snapshots" None 0 "[]"] set_take_subset [of 240 snapshots] by auto
  then show ?thesis
    using t assms
    by (auto simp: stream_cache_write_def Let_def split: sum.splits)
qed

section \<open>Reading a run\<close>

fun answers :: "(routed \<Rightarrow> router \<Rightarrow> bool) \<Rightarrow> (routed app_result \<times> router) outcome \<Rightarrow> bool" where
  "answers P (Done (Inr x, st)) = P x st"
| "answers P _ = False"

lemma answersD: "answers P out \<Longrightarrow> \<exists>x st. out = Done (Inr x, st) \<and> P x st"
  by (cases "(P, out)" rule: answers.cases) auto

fun returns_json :: "(routed_response \<Rightarrow> router \<Rightarrow> bool) \<Rightarrow> (flow \<times> router) outcome \<Rightarrow> bool" where
  "returns_json P (Done (Return (Inr (RoutedJson r)), st)) = P r st"
| "returns_json P _ = False"

lemma returns_jsonD:
  "returns_json P out \<Longrightarrow> \<exists>r st. out = Done (Return (Inr (RoutedJson r)), st) \<and> P r st"
  by (cases "(P, out)" rule: returns_json.cases) auto

end
