(* ===== verification/Raw_Proxy.thy ===== *)
theory Raw_Proxy
  imports Route_Facts
begin

text \<open>
  Requests passed on without translation (\<open>RouterService::proxy_raw_to_provider\<close> of
  \<open>src/service.rs\<close>), the debug logs of their exchanges, and the two handlers of
  \<open>src/routes.rs\<close> that use them: token counting and file contents. The debug logs are written by
  detached tasks; a run gives the list of those it starts.
\<close>

section \<open>The debug log of a response\<close>

function count_matches :: "string \<Rightarrow> string \<Rightarrow> nat" where
  "count_matches p [] = 0"
| "count_matches p (c # cs) =
     (if p \<noteq> [] \<and> starts_with (c # cs) p
      then Suc (count_matches p (drop (length p) (c # cs)))
      else count_matches p cs)"
  by pat_completeness auto
termination
  by (relation "measure (\<lambda>(p, s). length s)") auto

definition count_obfuscation_occurrences :: "string \<Rightarrow> nat" where
  "count_obfuscation_occurrences s = count_matches (json_quoted ''obfuscation'') s"

fun collect_reasoning_summaries :: "json \<Rightarrow> json list" where
  "collect_reasoning_summaries (JObj ob) =
     (if Option.bind (obj_get ''type'' ob) as_str = Some ''reasoning''
      then (case obj_get ''summary'' ob of None \<Rightarrow> [] | Some v \<Rightarrow> [v]) else [])
     @ concat (map (\<lambda>kv. collect_reasoning_summaries (snd kv)) ob)"
| "collect_reasoning_summaries (JArr vs) = concat (map collect_reasoning_summaries vs)"
| "collect_reasoning_summaries _ = []"

definition event_summaries :: "'a codec_scheme \<Rightarrow> sse_event \<Rightarrow> json list" where
  "event_summaries c ev =
     (if snd ev = [] \<or> snd ev = ''[DONE]'' then []
      else (case json_parse c (snd ev) of Inl e \<Rightarrow> [] | Inr v \<Rightarrow> collect_reasoning_summaries v))"

definition extract_reasoning_summary_json :: "'a codec_scheme \<Rightarrow> string \<Rightarrow> json \<Rightarrow> string option" where
  "extract_reasoning_summary_json c raw body =
     (let direct = collect_reasoning_summaries body;
          found = (if direct = [] then concat (map (event_summaries c) (parse_sse_events raw))
                   else direct)
      in if found = [] then None else Some (json_print c (JArr found)))"

definition build_response_debug_log ::
  "'a codec_scheme \<Rightarrow> string \<Rightarrow> string \<Rightarrow> string option \<Rightarrow> string \<Rightarrow> int \<Rightarrow> int \<Rightarrow> string \<Rightarrow> json
     \<Rightarrow> endpoint \<Rightarrow> bool \<Rightarrow> new_response_debug_log" where
  "build_response_debug_log c request_id provider_id account_id model seq status raw body e codex =
     (let enriched = (e = Responses \<and> codex) in
      \<lparr>dr_request_id = request_id, dr_provider_id = provider_id, dr_provider_account_id = account_id,
       dr_model = model, dr_endpoint = endpoint_as_str e, dr_sequence_no = seq,
       dr_upstream_status = status, dr_raw_body = raw,
       dr_reasoning_summary_json =
         (if enriched then extract_reasoning_summary_json c raw body else None),
       dr_obfuscation_count = (if enriched then int (count_obfuscation_occurrences raw) else 0)\<rparr>)"

text \<open>\<open>persist_codex_stream_buffer_debug_log\<close>: the log of a stream, from its buffer's snapshots.\<close>

definition stream_debug_body :: "'a codec_scheme \<Rightarrow> string \<Rightarrow> json" where
  "stream_debug_body c raw =
     (if is_sse_transcript raw
      then (case reconstruct_responses_from_sse c raw of Inl e \<Rightarrow> raw_json raw | Inr v \<Rightarrow> v)
      else parse_or c (raw_json raw) raw)"

definition stream_debug_log ::
  "'a codec_scheme \<Rightarrow> string \<Rightarrow> string \<Rightarrow> string option \<Rightarrow> string \<Rightarrow> int \<Rightarrow> int \<Rightarrow> endpoint \<Rightarrow> bool
     \<Rightarrow> string list \<Rightarrow> new_response_debug_log option" where
  "stream_debug_log c request_id provider_id account_id model seq status e codex snapshots =
     (let raw = settle (take 240 snapshots) None 0 [] in
      if raw = [] then None
      else Some (build_response_debug_log c request_id provider_id account_id model seq status raw
                   (stream_debug_body c raw) e codex))"

section \<open>The loop\<close>

record raw_answer =
  rw_status :: nat
  rw_body :: string
  rw_content_type :: "string option"
  rw_headers :: headers

datatype debug_event = SentBody new_request_debug_log | GotBody new_response_debug_log

record raw_call =
  rc_request_id :: string
  rc_endpoint :: endpoint
  rc_method :: string
  rc_path :: string
  rc_payload :: "json option"
  rc_pass :: "headers option"
  rc_model :: string

text \<open>What the loop carries: the last refusal, the number of attempts, and the tasks started.\<close>

record raw_run =
  rr_last :: "raw_answer option"
  rr_seq :: int
  rr_spawned :: "debug_event list"

datatype raw_flow = RawNext | RawReturn "raw_answer app_result"

definition raw_matching :: "timestamp \<Rightarrow> endpoint \<Rightarrow> string \<Rightarrow> db \<Rightarrow> provider list app_result" where
  "raw_matching now e model d =
     (let providers = filter (provider_available now) (list_provider_connections d) in
      rbind (if model = [] then
               Inr (filter (\<lambda>p. supports_endpoint (p_supported_endpoints p) e
                      \<and> is_anthropic_compatible_provider p) providers)
             else rbind (split_model model) (\<lambda>(model_prefix, raw_model).
               Inr (matching_providers providers model_prefix raw_model)))
        (\<lambda>matching. Inr (sort_key p_priority matching)))"

definition raw_unmatched :: "endpoint \<Rightarrow> string \<Rightarrow> app_error" where
  "raw_unmatched e model = BadRequest
     (if model = [] then ''no provider found for endpoint '' @ quoted (endpoint_as_str e)
      else ''no provider found for model '' @ quoted model)"

definition sent_log :: "'a codec_scheme \<Rightarrow> raw_call \<Rightarrow> provider \<Rightarrow> account option \<Rightarrow> int \<Rightarrow> debug_event" where
  "sent_log c rc p acc seq = SentBody
     \<lparr>dq_request_id = rc_request_id rc, dq_provider_id = p_id p,
      dq_provider_account_id = map_option a_id acc, dq_model = rc_model rc,
      dq_endpoint = rc_path rc, dq_sequence_no = seq,
      dq_raw_body = json_print c (unwrap_or JNull (rc_payload rc))\<rparr>"

definition got_log ::
  "'a codec_scheme \<Rightarrow> raw_call \<Rightarrow> provider \<Rightarrow> account option \<Rightarrow> int \<Rightarrow> nat \<Rightarrow> string \<Rightarrow> string
     \<Rightarrow> debug_event" where
  "got_log c rc p acc seq status body text = GotBody
     (build_response_debug_log c (rc_request_id rc) (p_id p) (map_option a_id acc) (rc_model rc) seq
        (int status) text (parse_or c (raw_json text) body) (rc_endpoint rc) (is_codex_provider p))"

definition raw_exchange ::
  "'c env \<Rightarrow> raw_call \<Rightarrow> provider \<Rightarrow> account option \<Rightarrow> router
     \<Rightarrow> (nat \<times> headers \<times> string option \<times> string) app_result \<times> router" where
  "raw_exchange ev rc resolved acc st =
     (execute_raw_proxy (ev_lib ev) (ev_client ev (Option.bind acc a_proxy_url))
        (ev_send ev (rt_sent st) 0) resolved (rc_method rc) (rc_path rc) (rc_payload rc) (rc_pass rc),
      st\<lparr>rt_sent := Suc (rt_sent st)\<rparr>)"

definition transport_answer :: "app_error \<Rightarrow> raw_answer" where
  "transport_answer err = \<lparr>rw_status = 502, rw_body = error_text err,
     rw_content_type = Some ''text/plain'', rw_headers = []\<rparr>"

definition try_raw ::
  "'c env \<Rightarrow> raw_call \<Rightarrow> provider \<Rightarrow> exec_target \<Rightarrow> raw_run \<Rightarrow> router \<Rightarrow> raw_flow \<times> raw_run \<times> router" where
  "try_raw ev rc p target run st =
     (let (resolved, acc) = target;
          seq = rr_seq run + 1;
          run = run\<lparr>rr_seq := seq,
                    rr_spawned := rr_spawned run @ [sent_log (ev_lib ev) rc p acc seq]\<rparr>
      in case raw_exchange ev rc resolved acc st of
           (Inl err, st) \<Rightarrow>
             (RawNext, run\<lparr>rr_last := Some (transport_answer err)\<rparr>,
              mark_failure ev p acc (error_text err) st)
         | (Inr (status, hs, content_type, body), st) \<Rightarrow>
             (let text = utf8_lossy (ev_lib ev) body;
                  run = run\<lparr>rr_spawned := rr_spawned run
                    @ [got_log (ev_lib ev) rc p acc seq status body text]\<rparr>;
                  answer = \<lparr>rw_status = status, rw_body = body, rw_content_type = content_type,
                            rw_headers = hs\<rparr>
              in if is_success status then (RawReturn (Inr answer), run, mark_success ev p acc st)
                 else (if fallback_error status text then RawNext else RawReturn (Inr answer),
                       run\<lparr>rr_last := Some answer\<rparr>, mark_failure ev p acc text st)))"

fun each_raw ::
  "('x \<Rightarrow> raw_run \<Rightarrow> router \<Rightarrow> raw_flow \<times> raw_run \<times> router) \<Rightarrow> 'x list \<Rightarrow> raw_run \<Rightarrow> router
     \<Rightarrow> raw_flow \<times> raw_run \<times> router" where
  "each_raw f [] run st = (RawNext, run, st)"
| "each_raw f (x # xs) run st =
     (case f x run st of
        (RawNext, run, st) \<Rightarrow> each_raw f xs run st
      | r \<Rightarrow> r)"

definition try_raw_provider ::
  "'c env \<Rightarrow> raw_call \<Rightarrow> provider \<Rightarrow> raw_run \<Rightarrow> router \<Rightarrow> raw_flow \<times> raw_run \<times> router" where
  "try_raw_provider ev rc p run st =
     (case execution_targets ev p (rc_endpoint rc) st of
        (Inl err, st) \<Rightarrow> (RawReturn (Inl err), run, st)
      | (Inr targets, st) \<Rightarrow> each_raw (try_raw ev rc p) targets run st)"

definition payload_model :: "json option \<Rightarrow> string" where
  "payload_model payload = unwrap_or [] (Option.bind payload (get_str ''model''))"

definition proxy_raw_to_provider ::
  "'c env \<Rightarrow> string \<Rightarrow> endpoint \<Rightarrow> string \<Rightarrow> string \<Rightarrow> json option \<Rightarrow> headers option \<Rightarrow> router
     \<Rightarrow> raw_answer app_result \<times> debug_event list \<times> router" where
  "proxy_raw_to_provider ev request_id e http_method path payload pass st =
     (let model = payload_model payload;
          rc = \<lparr>rc_request_id = request_id, rc_endpoint = e, rc_method = http_method, rc_path = path,
                rc_payload = payload, rc_pass = pass, rc_model = model\<rparr>
      in case raw_matching (now_of ev st) e model (rt_db st) of
           Inl err \<Rightarrow> (Inl err, [], st)
         | Inr [] \<Rightarrow> (Inl (raw_unmatched e model), [], st)
         | Inr (p # ps) \<Rightarrow>
             (case each_raw (try_raw_provider ev rc) (p # ps)
                     \<lparr>rr_last = None, rr_seq = 0, rr_spawned = []\<rparr> st of
                (RawReturn r, run, st) \<Rightarrow> (r, rr_spawned run, st)
              | (RawNext, run, st) \<Rightarrow>
                  (ok_or (raw_unmatched e model) (rr_last run), rr_spawned run, st)))"

section \<open>The handlers\<close>

text \<open>A reply to a client: its body is complete, or the chunks of a stream.\<close>

datatype reply_body = Whole string | Chunks "(string + string) list"

record reply =
  rp_status :: nat
  rp_headers :: headers
  rp_body :: reply_body

definition request_id_of :: "headers \<Rightarrow> string \<Rightarrow> string" where
  "request_id_of hs fresh =
     unwrap_or fresh
       (Option.bind (or_else (header_map_get ''x-request-id'' hs)
                       (header_map_get ''x-client-request-id'' hs)) header_to_str)"

text \<open>Upstream headers the HTTP crate accepts, forwarded to the client.\<close>

definition forwarded :: "http_lib \<Rightarrow> headers \<Rightarrow> headers" where
  "forwarded lib hs = filter (\<lambda>(n, v). ok_name lib n \<and> ok_value lib v) hs"

definition count_tokens_reply :: "http_lib \<Rightarrow> raw_answer \<Rightarrow> reply" where
  "count_tokens_reply lib a =
     \<lparr>rp_status = rw_status a,
      rp_headers = forwarded lib (rw_headers a)
        @ [(''content-type'', unwrap_or ''application/json'' (rw_content_type a))],
      rp_body = Whole (rw_body a)\<rparr>"

definition messages_count_tokens ::
  "'c env \<Rightarrow> headers \<Rightarrow> string \<Rightarrow> json \<Rightarrow> router \<Rightarrow> reply app_result \<times> debug_event list \<times> router" where
  "messages_count_tokens ev hs fresh payload st =
     (let (r, spawned, st) = proxy_raw_to_provider ev (request_id_of hs fresh) Messages ''POST''
            ''/messages/count_tokens'' (Some payload) (Some (from_header_map hs)) st
      in (rbind r (\<lambda>a. Inr (count_tokens_reply (ev_lib ev) a)), spawned, st))"

definition file_reply :: "http_lib \<Rightarrow> string \<Rightarrow> raw_answer \<Rightarrow> reply" where
  "file_reply lib request_id a =
     \<lparr>rp_status = rw_status a,
      rp_headers = (''x-request-id'', request_id) # forwarded lib (rw_headers a)
        @ (case rw_content_type a of None \<Rightarrow> [] | Some t \<Rightarrow> [(''content-type'', t)]),
      rp_body = Whole (rw_body a)\<rparr>"

definition files_content ::
  "'c env \<Rightarrow> headers \<Rightarrow> string \<Rightarrow> string \<Rightarrow> router \<Rightarrow> reply app_result \<times> debug_event list \<times> router" where
  "files_content ev hs fresh file_id st =
     (let request_id = request_id_of hs fresh;
          (r, spawned, st) = proxy_raw_to_provider ev request_id Files ''GET''
            (''/files/'' @ file_id @ ''/content'') None
            (Some (ensure_claude_files_api_defaults (from_header_map hs))) st
      in (rbind r (\<lambda>a. Inr (file_reply (ev_lib ev) request_id a)), spawned, st))"

end
