(* ===== verification/Raw_Facts.thy ===== *)
theory Raw_Facts
  imports Raw_Proxy Route_History
begin

text \<open>
  What a request that is passed on without translation guarantees: every exchange is logged under
  consecutive numbers, the client gets the last exchange's answer byte for byte, a refusal is only
  final when it does not allow a fallback or nothing is left, and the database moves by repository
  statements.
\<close>

section \<open>The rule of the loops\<close>

definition raw_ends ::
  "(raw_run \<Rightarrow> router \<Rightarrow> bool) \<Rightarrow> (raw_answer app_result \<Rightarrow> raw_run \<Rightarrow> router \<Rightarrow> bool)
     \<Rightarrow> raw_flow \<times> raw_run \<times> router \<Rightarrow> bool" where
  "raw_ends I Q out \<longleftrightarrow>
     (case out of (RawNext, run, st) \<Rightarrow> I run st | (RawReturn r, run, st) \<Rightarrow> Q r run st)"

lemma raw_ends_simps [simp]:
  "raw_ends I Q (RawNext, run, st) = I run st"
  "raw_ends I Q (RawReturn r, run, st) = Q r run st"
  by (simp_all add: raw_ends_def)

lemma each_raw_ends:
  assumes "\<And>x run st. x \<in> set xs \<Longrightarrow> I run st \<Longrightarrow> raw_ends I Q (f x run st)" and "I run st"
  shows "raw_ends I Q (each_raw f xs run st)"
  using assms
proof (induction xs arbitrary: run st)
  case (Cons x xs)
  obtain fl run' st' where out: "f x run st = (fl, run', st')" by (cases "f x run st")
  have "raw_ends I Q (f x run st)" using Cons.prems by simp
  then show ?case using Cons out by (cases fl) auto
qed simp

locale raw_contract =
  fixes ev :: "'c env" and rc :: raw_call and ps :: "provider list"
    and I :: "raw_run \<Rightarrow> router \<Rightarrow> bool"
    and Q :: "raw_answer app_result \<Rightarrow> raw_run \<Rightarrow> router \<Rightarrow> bool"
  assumes refused: "I run st \<Longrightarrow> Q (Inl err) run st"
    and targets: "I run st \<Longrightarrow> execution_targets ev p (rc_endpoint rc) st = (ts, st') \<Longrightarrow> I run st'"
    and target: "p \<in> set ps \<Longrightarrow> target_ok p (rc_endpoint rc) t \<Longrightarrow> I run st
       \<Longrightarrow> raw_ends I Q (try_raw ev rc p t run st)"
begin

lemma connection:
  assumes "p \<in> set ps" and "I run st"
  shows "raw_ends I Q (try_raw_provider ev rc p run st)"
proof -
  obtain ts st' where ex: "execution_targets ev p (rc_endpoint rc) st = (ts, st')" by fastforce
  have here: "I run st'" by (rule targets [OF assms(2) ex])
  show ?thesis
  proof (cases ts)
    case (Inl err)
    then show ?thesis using ex refused here by (simp add: try_raw_provider_def)
  next
    case (Inr tl)
    then have "target_ok p (rc_endpoint rc) t" if "t \<in> set tl" for t
      using execution_targets_ok [of ev p "rc_endpoint rc" st tl st' t] ex that by simp
    then show ?thesis
      using Inr ex here target [OF assms(1)] by (auto simp: try_raw_provider_def intro!: each_raw_ends)
  qed
qed

lemma loop: "I run st \<Longrightarrow> raw_ends I Q (each_raw (try_raw_provider ev rc) ps run st)"
  by (intro each_raw_ends connection)

end

section \<open>One exchange\<close>

fun exchange_answer :: "(nat \<times> headers \<times> string option \<times> string) app_result \<Rightarrow> raw_answer" where
  "exchange_answer (Inl err) = transport_answer err"
| "exchange_answer (Inr (status, hs, content_type, body)) =
     \<lparr>rw_status = status, rw_body = body, rw_content_type = content_type, rw_headers = hs\<rparr>"

text \<open>A target's exchange, and when its refusal lets the loop go on.\<close>

definition goes_on :: "'c env \<Rightarrow> (nat \<times> headers \<times> string option \<times> string) app_result \<Rightarrow> bool" where
  "goes_on ev r =
     (case r of Inl err \<Rightarrow> True
      | Inr (status, hs, t, body) \<Rightarrow> \<not> is_success status \<and> fallback_error status (utf8_lossy (ev_lib ev) body))"

definition body_events ::
  "'c env \<Rightarrow> raw_call \<Rightarrow> provider \<Rightarrow> account option \<Rightarrow> int
     \<Rightarrow> (nat \<times> headers \<times> string option \<times> string) app_result \<Rightarrow> debug_event list" where
  "body_events ev rc p acc seq r =
     (case r of Inl err \<Rightarrow> []
      | Inr (status, hs, t, body) \<Rightarrow>
          [got_log (ev_lib ev) rc p acc seq status body (utf8_lossy (ev_lib ev) body)])"

lemma try_raw_cases:
  assumes "try_raw ev rc p (resolved, acc) run st = (fl, run', st')"
  defines "r \<equiv> fst (raw_exchange ev rc resolved acc st)"
  shows "fl = (if goes_on ev r then RawNext else RawReturn (Inr (exchange_answer r)))"
    and "rr_seq run' = rr_seq run + 1"
    and "rr_spawned run' = rr_spawned run @ sent_log (ev_lib ev) rc p acc (rr_seq run + 1)
           # body_events ev rc p acc (rr_seq run + 1) r"
    and "goes_on ev r \<Longrightarrow> rr_last run' = Some (exchange_answer r)"
    and "st' = mark_success ev p acc (st\<lparr>rt_sent := Suc (rt_sent st)\<rparr>)
       \<or> (\<exists>m. st' = mark_failure ev p acc m (st\<lparr>rt_sent := Suc (rt_sent st)\<rparr>))"
  using assms(1)
  by (auto simp: try_raw_def raw_exchange_def goes_on_def r_def Let_def body_events_def
      split: sum.splits prod.splits if_splits)

lemma marked_sent [simp]:
  "rt_sent (mark_failure ev p acc m st) = rt_sent st"
  "rt_sent (mark_success ev p acc st) = rt_sent st"
  by (simp_all add: marks map_db_def)

lemma try_raw_sent:
  assumes "try_raw ev rc p t run st = (fl, run', st')"
  shows "rt_sent st' = Suc (rt_sent st)"
proof -
  obtain resolved acc where t: "t = (resolved, acc)" by (cases t)
  show ?thesis using try_raw_cases(5) [OF assms [unfolded t]] by auto
qed

section \<open>The database\<close>

lemma try_raw_moves:
  assumes "try_raw ev rc p t run st = (fl, run', st')"
  shows "db_moves (rt_db st) (rt_db st')"
proof -
  obtain resolved acc where t: "t = (resolved, acc)" by (cases t)
  let ?st = "st\<lparr>rt_sent := Suc (rt_sent st)\<rparr>"
  have "db_moves (rt_db st) (rt_db (mark_failure ev p acc m ?st))"
      "db_moves (rt_db st) (rt_db (mark_success ev p acc ?st))" for m
    using moves_mark [where st = ?st and ev = ev and p = p and acc = acc] by simp_all
  then show ?thesis using try_raw_cases(5) [OF assms [unfolded t]] by auto
qed

interpretation raw_moves: raw_contract ev rc ps
  "\<lambda>run st. db_moves d0 (rt_db st)" "\<lambda>r run st. db_moves d0 (rt_db st)" for ev rc ps d0
proof
  fix run and st :: router and p ts st'
  assume "db_moves d0 (rt_db st)" "execution_targets ev p (rc_endpoint rc) st = (ts, st')"
  then show "db_moves d0 (rt_db st')" using moves_execution_targets db_moves_trans by blast
next
  fix p t run and st :: router
  assume "db_moves d0 (rt_db st)"
  moreover obtain fl run' st' where out: "try_raw ev rc p t run st = (fl, run', st')"
    by (cases "try_raw ev rc p t run st")
  ultimately have "db_moves d0 (rt_db st')" using try_raw_moves db_moves_trans by blast
  then show "raw_ends (\<lambda>run st. db_moves d0 (rt_db st)) (\<lambda>r run st. db_moves d0 (rt_db st))
      (try_raw ev rc p t run st)"
    unfolding out by (cases fl) simp_all
qed auto

section \<open>The debug logs\<close>

definition sent_numbers :: "debug_event list \<Rightarrow> int list" where
  "sent_numbers evs = concat (map (\<lambda>e. case e of SentBody l \<Rightarrow> [dq_sequence_no l] | GotBody l \<Rightarrow> []) evs)"

definition got_numbers :: "debug_event list \<Rightarrow> int list" where
  "got_numbers evs = concat (map (\<lambda>e. case e of SentBody l \<Rightarrow> [] | GotBody l \<Rightarrow> [dr_sequence_no l]) evs)"

lemma numbers_append [simp]:
  "sent_numbers (xs @ ys) = sent_numbers xs @ sent_numbers ys"
  "got_numbers (xs @ ys) = got_numbers xs @ got_numbers ys"
  by (simp_all add: sent_numbers_def got_numbers_def)

lemma numbers_events [simp]:
  "sent_numbers (sent_log c rc p acc seq # body_events ev rc' p' acc' seq' r) = [seq]"
  "set (got_numbers (sent_log c rc p acc seq # body_events ev rc' p' acc' seq' r)) \<subseteq> {seq'}"
  by (auto simp: sent_numbers_def got_numbers_def sent_log_def body_events_def got_log_def
      build_response_debug_log_def Let_def split: sum.splits prod.splits)

text \<open>Numbers so far, when \<open>n\<close> exchanges were made before the run.\<close>

definition logged :: "nat \<Rightarrow> raw_run \<Rightarrow> router \<Rightarrow> bool" where
  "logged n run st \<longleftrightarrow> n \<le> rt_sent st \<and> rr_seq run = int (rt_sent st - n)
     \<and> sent_numbers (rr_spawned run) = map int [1..<Suc (rt_sent st - n)]
     \<and> set (got_numbers (rr_spawned run)) \<subseteq> set (sent_numbers (rr_spawned run))"

lemma logged_cong: "rt_sent st' = rt_sent st \<Longrightarrow> logged n run st' = logged n run st"
  by (simp only: logged_def)

lemma try_raw_logged:
  assumes "try_raw ev rc p t run st = (fl, run', st')" and "logged n run st"
  shows "logged n run' st'"
proof -
  obtain resolved acc where t: "t = (resolved, acc)" by (cases t)
  note out = try_raw_cases [OF assms(1) [unfolded t]]
  let ?k = "rt_sent st - n"
  have sent: "rt_sent st' - n = Suc ?k" "n \<le> rt_sent st'"
    using try_raw_sent [OF assms(1)] assms(2) by (auto simp: logged_def)
  have "set (got_numbers (rr_spawned run')) \<subseteq> set (got_numbers (rr_spawned run)) \<union> {rr_seq run + 1}"
    using numbers_events(2) unfolding out(3) numbers_append set_append by blast
  moreover have "sent_numbers (rr_spawned run') = sent_numbers (rr_spawned run) @ [rr_seq run + 1]"
    by (simp add: out(3))
  ultimately show ?thesis
    using assms(2) sent by (auto simp: logged_def out(2))
qed

interpretation raw_log: raw_contract ev rc ps "logged n" "\<lambda>r run st. logged n run st" for ev rc ps n
proof
  fix run and st :: router and p ts st'
  assume "logged n run st" "execution_targets ev p (rc_endpoint rc) st = (ts, st')"
  then show "logged n run st'" using logged_cong [OF execution_targets_sent] by blast
next
  fix p t run and st :: router
  assume "logged n run st"
  moreover obtain fl run' st' where out: "try_raw ev rc p t run st = (fl, run', st')"
    by (cases "try_raw ev rc p t run st")
  ultimately have "logged n run' st'" using try_raw_logged by blast
  then show "raw_ends (logged n) (\<lambda>r run st. logged n run st) (try_raw ev rc p t run st)"
    unfolding out by (cases fl) simp_all
qed auto

section \<open>The answer\<close>

text \<open>
  The answer is that of the last exchange, with a target the connection's own credentials or a
  usable account's; it is final when it satisfies \<open>final\<close>.
\<close>

definition relayed ::
  "'c env \<Rightarrow> raw_call \<Rightarrow> provider list \<Rightarrow> bool \<Rightarrow> raw_answer \<Rightarrow> router \<Rightarrow> bool" where
  "relayed ev rc ps final a st \<longleftrightarrow>
     (\<exists>p \<in> set ps. \<exists>resolved acc st1. target_ok p (rc_endpoint rc) (resolved, acc)
        \<and> Suc (rt_sent st1) = rt_sent st
        \<and> a = exchange_answer (fst (raw_exchange ev rc resolved acc st1))
        \<and> (final \<longleftrightarrow> \<not> goes_on ev (fst (raw_exchange ev rc resolved acc st1))))"

interpretation raw_relay: raw_contract ev rc ps
  "\<lambda>run st. \<forall>a. rr_last run = Some a \<longrightarrow> relayed ev rc ps False a st"
  "\<lambda>r run st. \<forall>a. r = Inr a \<longrightarrow> relayed ev rc ps True a st" for ev rc ps
proof
  fix run and st :: router and p ts st'
  assume "\<forall>a. rr_last run = Some a \<longrightarrow> relayed ev rc ps False a st"
    and "execution_targets ev p (rc_endpoint rc) st = (ts, st')"
  then show "\<forall>a. rr_last run = Some a \<longrightarrow> relayed ev rc ps False a st'"
    by (simp add: relayed_def execution_targets_sent)
next
  fix p t run and st :: router
  assume p: "p \<in> set ps" and ok: "target_ok p (rc_endpoint rc) t"
  obtain resolved acc where t: "t = (resolved, acc)" by (cases t)
  obtain fl run' st' where out: "try_raw ev rc p t run st = (fl, run', st')"
    by (cases "try_raw ev rc p t run st")
  note step = try_raw_cases [OF out [unfolded t]]
  have sent: "rt_sent st' = Suc (rt_sent st)" by (rule try_raw_sent [OF out])
  let ?r = "fst (raw_exchange ev rc resolved acc st)"
  have rel: "relayed ev rc ps (\<not> goes_on ev ?r) (exchange_answer ?r) st'"
    unfolding relayed_def using p ok sent
    by (intro bexI [OF _ p] exI [of _ resolved] exI [of _ acc] exI [of _ st]) (simp add: t)
  show "raw_ends (\<lambda>run st. \<forall>a. rr_last run = Some a \<longrightarrow> relayed ev rc ps False a st)
      (\<lambda>r run st. \<forall>a. r = Inr a \<longrightarrow> relayed ev rc ps True a st) (try_raw ev rc p t run st)"
    unfolding out using rel step(1,4) by (cases "goes_on ev ?r") auto
qed auto

section \<open>The whole run\<close>

definition raw_call_of ::
  "string \<Rightarrow> endpoint \<Rightarrow> string \<Rightarrow> string \<Rightarrow> json option \<Rightarrow> headers option \<Rightarrow> raw_call" where
  "raw_call_of request_id e http_method path payload pass =
     \<lparr>rc_request_id = request_id, rc_endpoint = e, rc_method = http_method, rc_path = path,
      rc_payload = payload, rc_pass = pass, rc_model = payload_model payload\<rparr>"

lemma raw_matching_available:
  "raw_matching now e model d = Inr ps \<Longrightarrow> p \<in> set ps
     \<Longrightarrow> p \<in> set (list_provider_connections d) \<and> provider_available now p"
  using subsetD [OF matching_providers_subset]
  by (fastforce simp: raw_matching_def rbind_Inr Let_def split: if_splits)

lemma proxy_raw_runs:
  assumes "proxy_raw_to_provider ev request_id e http_method path payload pass st = (r, spawned, st')"
  obtains (unmatched) err where "r = Inl err" "spawned = []" "st' = st"
  | (ran) ps run fl where
      "raw_matching (now_of ev st) e (payload_model payload) (rt_db st) = Inr ps"
      "each_raw (try_raw_provider ev (raw_call_of request_id e http_method path payload pass)) ps
         \<lparr>rr_last = None, rr_seq = 0, rr_spawned = []\<rparr> st = (fl, run, st')"
      "spawned = rr_spawned run"
      "r = (case fl of RawReturn r \<Rightarrow> r
            | RawNext \<Rightarrow> ok_or (raw_unmatched e (payload_model payload)) (rr_last run))"
proof (cases "raw_matching (now_of ev st) e (payload_model payload) (rt_db st)")
  case (Inl err)
  then show ?thesis using assms unmatched [of err] by (simp add: proxy_raw_to_provider_def Let_def)
next
  case (Inr ps)
  show ?thesis
  proof (cases ps)
    case Nil
    then show ?thesis using assms Inr unmatched [of "raw_unmatched e (payload_model payload)"]
      by (simp add: proxy_raw_to_provider_def Let_def)
  next
    case (Cons p qs)
    obtain fl run st1 where out: "each_raw (try_raw_provider ev (raw_call_of request_id e http_method path payload pass)) ps
        \<lparr>rr_last = None, rr_seq = 0, rr_spawned = []\<rparr> st = (fl, run, st1)"
      by (cases "each_raw (try_raw_provider ev (raw_call_of request_id e http_method path payload pass)) ps
        \<lparr>rr_last = None, rr_seq = 0, rr_spawned = []\<rparr> st")
    then have "(r, spawned, st') = (case fl of RawReturn r \<Rightarrow> (r, rr_spawned run, st1)
        | RawNext \<Rightarrow> (ok_or (raw_unmatched e (payload_model payload)) (rr_last run), rr_spawned run, st1))"
      using assms Inr Cons
      by (cases fl) (simp_all add: proxy_raw_to_provider_def Let_def raw_call_of_def del: each_raw.simps)
    then have "st' = st1" "spawned = rr_spawned run" "r = (case fl of RawReturn r \<Rightarrow> r
        | RawNext \<Rightarrow> ok_or (raw_unmatched e (payload_model payload)) (rr_last run))"
      by (cases fl; simp)+
    then show ?thesis using ran [OF Inr] out by blast
  qed
qed

lemma proxy_raw_keeps:
  assumes "proxy_raw_to_provider ev request_id e http_method path payload pass st = (r, spawned, st')"
  shows "db_moves (rt_db st) (rt_db st') \<and> rt_sent st \<le> rt_sent st'
     \<and> sent_numbers spawned = map int [1..<Suc (rt_sent st' - rt_sent st)]
     \<and> set (got_numbers spawned) \<subseteq> set (sent_numbers spawned)"
  using assms
proof (cases rule: proxy_raw_runs)
  case (ran ps run fl)
  let ?rc = "raw_call_of request_id e http_method path payload pass"
  let ?run0 = "\<lparr>rr_last = None, rr_seq = 0, rr_spawned = []\<rparr>"
  have "db_moves (rt_db st) (rt_db st')"
    using raw_moves.loop [of "rt_db st" st ev ?rc ps ?run0] ran(2) by (cases fl) simp_all
  moreover have "logged (rt_sent st) ?run0 st" by (simp add: logged_def sent_numbers_def got_numbers_def)
  then have "raw_ends (logged (rt_sent st)) (\<lambda>r. logged (rt_sent st)) (fl, run, st')"
    using raw_log.loop [of "rt_sent st" ?run0 st ev ?rc ps] ran(2) by simp
  then have "logged (rt_sent st) run st'" by (cases fl) simp_all
  ultimately show ?thesis unfolding logged_def ran(3) by blast
qed (simp_all add: sent_numbers_def got_numbers_def)

lemma proxy_raw_relays:
  assumes "proxy_raw_to_provider ev request_id e http_method path payload pass st = (Inr a, spawned, st')"
  shows "\<exists>ps final. raw_matching (now_of ev st) e (payload_model payload) (rt_db st) = Inr ps
     \<and> relayed ev (raw_call_of request_id e http_method path payload pass) ps final a st'"
  using assms
proof (cases rule: proxy_raw_runs)
  case (ran ps run fl)
  show ?thesis
    using raw_relay.loop [of "\<lparr>rr_last = None, rr_seq = 0, rr_spawned = []\<rparr>" ev
        "raw_call_of request_id e http_method path payload pass" ps st] ran
    by (cases fl; cases "rr_last run") auto
qed simp

end
