(* ===== verification/Presets.thy ===== *)
theory Presets
  imports Db_Invariant
begin

text \<open>
  The built-in provider table and the lines that must always exist (\<open>src/presets.rs\<close>): listing
  the providers first creates the missing OAuth lines, folds every leftover custom connection
  into accounts of one Custom API line, and gives the built-in lines their names. The free-text
  notes of a preset, some of them not ASCII, and its constant source are left out. Identifiers
  are drawn from a supply: \<open>fresh n\<close> is the \<open>n\<close>th.
\<close>

section \<open>The table\<close>

record provider_preset =
  pr_id :: string
  pr_display_name :: string
  pr_base_url :: string
  pr_auth_type :: string
  pr_auth_header :: string
  pr_auth_prefix :: "string option"
  pr_extra_headers :: headers_map
  pr_endpoint_paths :: headers_map
  pr_stream_endpoint_paths :: headers_map
  pr_supported_endpoints :: "string list"
  pr_default_model :: "string option"

definition map_from_pairs :: "(string \<times> string) list \<Rightarrow> headers_map" where
  "map_from_pairs kvs = fold (\<lambda>(k, v). obj_insert k v) kvs []"

definition make_preset ::
  "string \<Rightarrow> string \<Rightarrow> string \<Rightarrow> string \<Rightarrow> string \<Rightarrow> string option \<Rightarrow> (string \<times> string) list
     \<Rightarrow> (string \<times> string) list \<Rightarrow> (string \<times> string) list \<Rightarrow> string list \<Rightarrow> string option
     \<Rightarrow> provider_preset" where
  "make_preset i display base auth_type auth_header auth_prefix extra paths stream_paths
       endpoints model =
     \<lparr>pr_id = i, pr_display_name = display, pr_base_url = base, pr_auth_type = auth_type,
      pr_auth_header = auth_header, pr_auth_prefix = auth_prefix,
      pr_extra_headers = map_from_pairs extra, pr_endpoint_paths = map_from_pairs paths,
      pr_stream_endpoint_paths = map_from_pairs stream_paths, pr_supported_endpoints = endpoints,
      pr_default_model = model\<rparr>"

definition presets_chat :: "provider_preset list" where
  "presets_chat =
     [make_preset ''openai'' ''OpenAI'' ''https://api.openai.com/v1'' ''apikey'' ''bearer'' None
        [] [] [] [''chat'', ''responses'', ''embeddings'', ''images'', ''moderations'',
        ''audio.speech'', ''audio.transcriptions''] (Some ''openai/gpt-4o-mini''),
      make_preset ''anthropic'' ''Anthropic API Key'' ''https://api.anthropic.com/v1''
        ''apikey'' ''x-api-key'' None [(''Anthropic-Version'', ''2023-06-01'')] [(''messages'',
        ''/messages'')] [] [''chat'', ''messages'', ''responses'', ''files''] (Some
        ''anthropic/claude-sonnet-4.6''),
      make_preset ''openrouter'' ''OpenRouter'' ''https://openrouter.ai/api/v1'' ''apikey''
        ''bearer'' None [] [] [] [''chat''] (Some ''openrouter/openai/gpt-4o-mini''),
      make_preset ''deepseek'' ''DeepSeek'' ''https://api.deepseek.com/v1'' ''apikey''
        ''bearer'' None [] [] [] [''chat''] (Some ''deepseek/deepseek-chat''),
      make_preset ''groq'' ''Groq'' ''https://api.groq.com/openai/v1'' ''apikey'' ''bearer''
        None [] [] [] [''chat''] (Some ''groq/llama-3.3-70b-versatile''),
      make_preset ''xai'' ''xAI'' ''https://api.x.ai/v1'' ''apikey'' ''bearer'' None [] [] []
        [''chat'', ''images''] (Some ''xai/grok-3-mini'')]"

definition presets_media :: "provider_preset list" where
  "presets_media =
     [make_preset ''mistral'' ''Mistral'' ''https://api.mistral.ai/v1'' ''apikey'' ''bearer''
        None [] [] [] [''chat'', ''embeddings''] (Some ''mistral/mistral-small-latest''),
      make_preset ''together'' ''Together'' ''https://api.together.xyz/v1'' ''apikey''
        ''bearer'' None [] [] [] [''chat'', ''images'', ''embeddings'', ''rerank''] (Some
        ''together/meta-llama/Llama-3.3-70B-Instruct-Turbo''),
      make_preset ''fireworks'' ''Fireworks'' ''https://api.fireworks.ai/inference/v1''
        ''apikey'' ''bearer'' None [] [(''images.generations'', ''/images/generations'')] []
        [''chat'', ''images'', ''embeddings'', ''rerank''] (Some
        ''fireworks/accounts/fireworks/models/llama-v3p1-70b-instruct''),
      make_preset ''cohere'' ''Cohere'' ''https://api.cohere.com/v2'' ''apikey'' ''bearer'' None
        [] [(''rerank'', ''/rerank'')] [] [''rerank''] (Some ''cohere/rerank-v3.5''),
      make_preset ''nvidia'' ''NVIDIA'' ''https://integrate.api.nvidia.com/v1'' ''apikey''
        ''bearer'' None [] [] [] [''chat'', ''rerank'', ''embeddings'', ''audio.speech'',
        ''audio.transcriptions''] (Some ''nvidia/meta/llama-3.1-70b-instruct''),
      make_preset ''nebius'' ''Nebius'' ''https://api.studio.nebius.com/v1'' ''apikey''
        ''bearer'' None [] [(''images.generations'',
        ''https://api.tokenfactory.nebius.com/v1/images/generations'')] [] [''chat'',
        ''embeddings'', ''images'', ''rerank''] (Some
        ''nebius/meta-llama/Meta-Llama-3.1-70B-Instruct''),
      make_preset ''hyperbolic'' ''Hyperbolic'' ''https://api.hyperbolic.xyz/v1'' ''apikey''
        ''bearer'' None [] [(''images.generations'',
        ''https://api.hyperbolic.xyz/v1/image/generation''), (''audio.speech'',
        ''https://api.hyperbolic.xyz/v1/audio/generation'')] [] [''chat'', ''images'',
        ''audio.speech''] (Some ''hyperbolic/meta-llama/Llama-3.1-70B-Instruct''),
      make_preset ''huggingface'' ''Hugging Face Inference''
        ''https://api-inference.huggingface.co'' ''apikey'' ''bearer'' None []
        [(''audio.transcriptions'', ''https://api-inference.huggingface.co/models''),
        (''audio.speech'', ''https://api-inference.huggingface.co/models'')] [] [''chat'',
        ''audio.speech'', ''audio.transcriptions''] (Some
        ''huggingface/meta-llama/Llama-3.1-8B-Instruct'')]"

definition presets_more :: "provider_preset list" where
  "presets_more =
     [make_preset ''vertex'' ''Google Vertex AI'' ''https://aiplatform.googleapis.com/v1''
        ''apikey'' ''bearer'' None [] [] [] [''chat''] (Some ''vertex/gemini-2.5-pro''),
      make_preset ''alibaba'' ''Alibaba''
        ''https://dashscope-intl.aliyuncs.com/compatible-mode/v1'' ''apikey'' ''bearer'' None []
        [] [] [''chat''] (Some ''alibaba/qwen-plus''),
      make_preset ''cloudflare-ai'' ''Cloudflare AI Gateway''
        ''https://api.cloudflare.com/client/v4/accounts'' ''apikey'' ''bearer'' None [] [] []
        [''chat''] (Some ''cloudflare-ai/@cf/meta/llama-3.1-8b-instruct''),
      make_preset ''aimlapi'' ''AIMLAPI'' ''https://api.aimlapi.com/v1'' ''apikey'' ''bearer''
        None [] [] [] [''chat''] (Some ''aimlapi/openai/gpt-4o-mini''),
      make_preset ''pollinations'' ''Pollinations'' ''https://text.pollinations.ai/openai''
        ''apikey'' ''bearer'' None [] [] [] [''chat''] (Some ''pollinations/openai-large''),
      make_preset ''glm'' ''GLM'' ''https://open.bigmodel.cn/api/paas/v4'' ''apikey''
        ''x-api-key'' None [] [] [] [''chat''] (Some ''glm/glm-4.5''),
      make_preset ''kimi'' ''Kimi'' ''https://api.moonshot.ai/v1'' ''apikey'' ''bearer'' None []
        [] [] [''chat''] (Some ''kimi/kimi-k2.5'')]"

definition presets_search :: "provider_preset list" where
  "presets_search =
     [make_preset ''serper-search'' ''Serper Search'' ''https://google.serper.dev'' ''apikey''
        ''x-api-key'' None [] [(''search'', ''https://google.serper.dev/search'')] [] [''search'']
        (Some ''serper-search/web''),
      make_preset ''brave-search'' ''Brave Search'' ''https://api.search.brave.com'' ''apikey''
        ''x-subscription-token'' None [] [(''search'',
        ''https://api.search.brave.com/res/v1/web/search'')] [] [''search''] (Some
        ''brave-search/web''),
      make_preset ''exa-search'' ''Exa Search'' ''https://api.exa.ai'' ''apikey'' ''x-api-key''
        None [] [(''search'', ''https://api.exa.ai/search'')] [] [''search''] (Some
        ''exa-search/web''),
      make_preset ''tavily-search'' ''Tavily Search'' ''https://api.tavily.com'' ''apikey''
        ''bearer'' None [] [(''search'', ''https://api.tavily.com/search'')] [] [''search''] (Some
        ''tavily-search/web''),
      make_preset ''perplexity-search'' ''Perplexity Search'' ''https://api.perplexity.ai''
        ''apikey'' ''bearer'' None [] [(''search'', ''https://api.perplexity.ai/search'')] []
        [''search''] (Some ''perplexity-search/web'')]"

definition presets_oauth :: "provider_preset list" where
  "presets_oauth =
     [make_preset ''claude-oauth'' ''Claude Code'' ''https://api.anthropic.com/v1'' ''oauth''
        ''bearer'' (Some ''Bearer'') [(''Anthropic-Version'', ''2023-06-01''),
        (''Anthropic-Beta'',
        ''claude-code-20250219,oauth-2025-04-20,interleaved-thinking-2025-05-14'')]
        [(''messages'', ''/messages'')] [] [''chat'', ''messages'', ''responses'', ''files'']
        (Some ''claude-oauth/claude-sonnet-4.6''),
      make_preset ''antigravity'' ''Antigravity OAuth Scaffold''
        ''https://cloudcode-pa.googleapis.com'' ''oauth'' ''bearer'' (Some ''Bearer'') []
        [(''chat'', ''https://cloudcode-pa.googleapis.com/v1internal:generateContent'')]
        [(''chat'',
        ''https://cloudcode-pa.googleapis.com/v1internal:streamGenerateContent?alt=sse'')]
        [''chat''] (Some ''antigravity/gemini-3.1-pro-high''),
      make_preset ''codex'' ''Codex'' ''https://chatgpt.com/backend-api/codex'' ''oauth''
        ''bearer'' (Some ''Bearer'') [(''OpenAI-Beta'', ''responses=experimental''),
        (''originator'', ''codex_cli_rs'')] [(''responses'',
        ''https://chatgpt.com/backend-api/codex/responses'')] [] [''responses''] (Some
        ''codex/gpt-5.5''),
      make_preset ''github-copilot'' ''GitHub Copilot OAuth Scaffold''
        ''https://api.githubcopilot.com'' ''oauth'' ''bearer'' (Some ''Bearer'')
        [(''copilot-integration-id'', ''vscode-chat''), (''editor-version'', ''vscode/1.110.0''),
        (''editor-plugin-version'', ''copilot-chat/0.38.0''), (''x-github-api-version'',
        ''2025-04-01'')] [(''chat'', ''https://api.githubcopilot.com/chat/completions''),
        (''responses'', ''https://api.githubcopilot.com/responses'')] [] [''chat'', ''responses'']
        (Some ''github-copilot/gpt-4.1'')]"

definition provider_presets :: "provider_preset list" where
  "provider_presets =
     presets_chat @ presets_media @ presets_more @ presets_search @ presets_oauth"

definition detect_preset_protocol :: "string \<Rightarrow> string option" where
  "detect_preset_protocol i =
     (if i = ''anthropic'' \<or> i = ''claude-oauth'' then Some ''claude''
      else if i = ''codex'' then Some ''openai-responses''
      else if i = ''vertex'' then Some ''gemini''
      else if i = ''ollama'' then Some ''ollama''
      else None)"

definition find_provider_preset :: "string \<Rightarrow> provider_preset option" where
  "find_provider_preset i = find (\<lambda>p. eq_ignore_ascii_case (pr_id p) i) provider_presets"

record import_request =
  im_preset_id :: string
  im_api_key :: "string option"
  im_model_prefix :: "string option"
  im_name :: "string option"
  im_enabled :: "bool option"
  im_priority :: "int option"
  im_rate_limit_protection :: "bool option"

definition import_request_to_provider :: "import_request \<Rightarrow> new_provider app_result" where
  "import_request_to_provider input =
     rbind (ok_or (NotFound (''provider preset '' @ im_preset_id input))
              (find_provider_preset (im_preset_id input))) (\<lambda>p.
       Inr \<lparr>np_provider = pr_id p, np_base_url = pr_base_url p, np_api_key = im_api_key input,
            np_auth_type = pr_auth_type p, np_auth_header = pr_auth_header p,
            np_auth_prefix = pr_auth_prefix p, np_extra_headers = pr_extra_headers p,
            np_endpoint_paths = Some (pr_endpoint_paths p),
            np_stream_endpoint_paths = Some (pr_stream_endpoint_paths p),
            np_model_prefix = Some (unwrap_or (pr_id p) (im_model_prefix input)),
            np_name = or_else (im_name input) (Some (pr_display_name p)),
            np_enabled = unwrap_or True (im_enabled input), np_priority = im_priority input,
            np_default_model = pr_default_model p,
            np_supported_endpoints = Some (pr_supported_endpoints p),
            np_rate_limit_protection = unwrap_or False (im_rate_limit_protection input),
            np_protocol_format = detect_preset_protocol (pr_id p)\<rparr>)"

definition custom_api_standard_config :: "string \<Rightarrow> (string option \<times> string list) app_result" where
  "custom_api_standard_config standard =
     (let s = to_ascii_lowercase (trim standard) in
      if s = ''openai-responses'' then Inr (Some ''openai-responses'', [''responses''])
      else if s = ''openai-completions'' then Inr (Some ''openai'', [''chat''])
      else if s = ''anthropic-messages'' then Inr (Some ''claude'', [''messages''])
      else Inl (BadRequest (''unsupported custom api standard '' @ quoted s
        @ '' (expected openai-responses, openai-completions, anthropic-messages)'')))"

section \<open>Statements in sequence\<close>

text \<open>
  The state is the database and the number of identifiers drawn. An error keeps what was written
  before it.
\<close>

type_synonym 'a minting = "db \<times> nat \<Rightarrow> 'a app_result \<times> db \<times> nat"

definition and_then :: "'a minting \<Rightarrow> ('a \<Rightarrow> 'b minting) \<Rightarrow> 'b minting" where
  "and_then m f s = (case m s of (Inl e, s) \<Rightarrow> (Inl e, s) | (Inr a, s) \<Rightarrow> f a s)"

fun each_in_turn :: "('x \<Rightarrow> unit minting) \<Rightarrow> 'x list \<Rightarrow> unit minting" where
  "each_in_turn f [] s = (Inr (), s)"
| "each_in_turn f (x # xs) s =
     (case f x s of (Inl e, s) \<Rightarrow> (Inl e, s) | (Inr u, s) \<Rightarrow> each_in_turn f xs s)"

definition mint_provider :: "timestamp \<Rightarrow> (nat \<Rightarrow> string) \<Rightarrow> new_provider \<Rightarrow> provider minting" where
  "mint_provider now fresh np s =
     (let (p, d) = create_provider_connection now (fresh (snd s)) np (fst s)
      in (Inr p, d, Suc (snd s)))"

definition mint_account ::
  "timestamp \<Rightarrow> (nat \<Rightarrow> string) \<Rightarrow> (string \<Rightarrow> string option) \<Rightarrow> new_account \<Rightarrow> unit minting" where
  "mint_account now fresh proxy_error na s =
     (case create_provider_account now (fresh (snd s)) proxy_error na (fst s) of
        Inl e \<Rightarrow> (Inl e, s)
      | Inr (a, d) \<Rightarrow> (Inr (), d, Suc (snd s)))"

section \<open>The lines that always exist\<close>

definition builtin_oauth_preset_ids :: "string list" where
  "builtin_oauth_preset_ids = [''codex'', ''claude-oauth'']"

definition host_from_base_url :: "string \<Rightarrow> string option" where
  "host_from_base_url base =
     (let trimmed = trim base;
          bare = unwrap_or trimmed
            (or_else (strip_prefix ''https://'' trimmed) (strip_prefix ''http://'' trimmed));
          host = trim (hd (split_on CHR ''/'' bare))
      in if host = [] \<or> host = ''custom.local'' then None else Some host)"

definition is_custom_shell_line :: "provider \<Rightarrow> bool" where
  "is_custom_shell_line p \<longleftrightarrow>
     eq_ignore_ascii_case (p_provider p) ''custom''
     \<and> (eq_ignore_ascii_case (trim (unwrap_or [] (p_name p))) ''Custom API''
        \<or> str_contains (trim (p_base_url p)) ''custom.local'' \<or> p_model_prefix p = ''custom'')"

definition custom_shell_connection :: new_provider where
  "custom_shell_connection =
     \<lparr>np_provider = ''custom'', np_base_url = [], np_api_key = None, np_auth_type = ''apikey'',
      np_auth_header = ''bearer'', np_auth_prefix = Some ''Bearer'', np_extra_headers = [],
      np_endpoint_paths = Some [], np_stream_endpoint_paths = Some [],
      np_model_prefix = Some ''custom'', np_name = Some ''Custom API'', np_enabled = True,
      np_priority = Some 100, np_default_model = None,
      np_supported_endpoints = Some [''chat'', ''messages'', ''responses''],
      np_rate_limit_protection = False, np_protocol_format = None\<rparr>"

definition canonical_line_name :: "string \<Rightarrow> string option \<Rightarrow> string option" where
  "canonical_line_name provider name =
     (let provider = to_ascii_lowercase provider; name = to_ascii_lowercase (unwrap_or [] name) in
      if provider = ''codex'' \<or> name = ''codex oauth'' \<or> name = ''codex'' then Some ''Codex''
      else if provider \<in> {''claude-oauth'', ''claude'', ''anthropic-oauth'', ''anthropic''}
              \<or> name = ''claude oauth'' \<or> name = ''claude code'' then Some ''Claude Code''
      else if provider = ''custom'' \<or> name = ''custom api'' then Some ''Custom API''
      else None)"

definition normalize_line_name :: "timestamp \<Rightarrow> provider \<Rightarrow> unit minting" where
  "normalize_line_name now p s =
     (case canonical_line_name (p_provider p) (p_name p) of
        None \<Rightarrow> (Inr (), s)
      | Some canonical \<Rightarrow>
          (if trim (unwrap_or [] (p_name p)) = canonical then (Inr (), s)
           else (Inr (), snd (update_provider_connection_name now (p_id p) canonical (fst s)), snd s)))"

definition normalize_builtin_line_names :: "timestamp \<Rightarrow> unit minting" where
  "normalize_builtin_line_names now s =
     each_in_turn (normalize_line_name now) (list_provider_connections (fst s)) s"

definition orphan_endpoints :: "provider \<Rightarrow> string list option" where
  "orphan_endpoints orphan =
     (if p_supported_endpoints orphan = [] then None else Some (p_supported_endpoints orphan))"

definition orphan_account :: "string \<Rightarrow> provider \<Rightarrow> new_account" where
  "orphan_account shell orphan =
     \<lparr>na_provider_connection_id = shell,
      na_label = Some (unwrap_or ''custom endpoint''
        (or_else (opt_filter (\<lambda>n. trim n \<noteq> []) (p_name orphan)) (host_from_base_url (p_base_url orphan)))),
      na_auth_mode = ApiKeyMode, na_api_key = p_api_key orphan, na_access_token = None,
      na_refresh_token = None, na_expires_at = None, na_scopes = None, na_remote_account_id = None,
      na_remote_email = None, na_is_fedramp = False, na_enabled = p_enabled orphan,
      na_priority = Some (p_priority orphan), na_proxy_url = None,
      na_base_url = Some (p_base_url orphan), na_protocol_format = p_protocol_format orphan,
      na_supported_endpoints = orphan_endpoints orphan\<rparr>"

definition moved_account :: "string \<Rightarrow> provider \<Rightarrow> account \<Rightarrow> new_account" where
  "moved_account shell orphan a =
     \<lparr>na_provider_connection_id = shell, na_label = a_label a, na_auth_mode = a_auth_mode a,
      na_api_key = a_api_key a, na_access_token = a_access_token a,
      na_refresh_token = a_refresh_token a, na_expires_at = a_expires_at a,
      na_scopes = Some (a_scopes a), na_remote_account_id = a_remote_account_id a,
      na_remote_email = a_remote_email a, na_is_fedramp = a_is_fedramp a, na_enabled = a_enabled a,
      na_priority = Some (a_priority a), na_proxy_url = a_proxy_url a,
      na_base_url = or_else (a_base_url a) (Some (p_base_url orphan)),
      na_protocol_format = or_else (a_protocol_format a) (p_protocol_format orphan),
      na_supported_endpoints = or_else (a_supported_endpoints a) (orphan_endpoints orphan)\<rparr>"

definition usable_base :: "provider \<Rightarrow> bool" where
  "usable_base p \<longleftrightarrow> trim (p_base_url p) \<noteq> [] \<and> \<not> str_contains (p_base_url p) ''custom.local''"

text \<open>One leftover connection: its endpoint and its accounts go to the shell, then it goes.\<close>

definition rehome ::
  "timestamp \<Rightarrow> (nat \<Rightarrow> string) \<Rightarrow> (string \<Rightarrow> string option) \<Rightarrow> string \<Rightarrow> provider \<Rightarrow> unit minting" where
  "rehome now fresh proxy_error shell orphan =
     and_then
       (\<lambda>s. if usable_base orphan then mint_account now fresh proxy_error (orphan_account shell orphan) s
            else (Inr (), s)) (\<lambda>_.
     and_then
       (\<lambda>s. each_in_turn (\<lambda>a. mint_account now fresh proxy_error (moved_account shell orphan a))
              (list_provider_accounts (p_id orphan) (fst s)) s) (\<lambda>_.
       (\<lambda>s. (Inr (), snd (delete_provider_connection (p_id orphan) (fst s)), snd s))))"

definition find_shell :: "timestamp \<Rightarrow> (nat \<Rightarrow> string) \<Rightarrow> provider list \<Rightarrow> provider minting" where
  "find_shell now fresh customs s =
     (case find is_custom_shell_line customs of
        Some p \<Rightarrow> (Inr p, s)
      | None \<Rightarrow> mint_provider now fresh custom_shell_connection s)"

definition hide_shell_url :: "timestamp \<Rightarrow> provider \<Rightarrow> unit minting" where
  "hide_shell_url now shell s =
     (if str_contains (p_base_url shell) ''custom.local''
      then (Inr (), snd (update_provider_connection_base_url now (p_id shell) [] (fst s)), snd s)
      else (Inr (), s))"

definition ensure_single_custom_api_line ::
  "timestamp \<Rightarrow> (nat \<Rightarrow> string) \<Rightarrow> (string \<Rightarrow> string option) \<Rightarrow> unit minting" where
  "ensure_single_custom_api_line now fresh proxy_error s =
     (let customs = list_provider_connections_by_provider ''custom'' (fst s) in
      and_then (find_shell now fresh customs) (\<lambda>shell.
      and_then (hide_shell_url now shell) (\<lambda>_.
        each_in_turn (rehome now fresh proxy_error (p_id shell))
          (filter (\<lambda>p. p_id p \<noteq> p_id shell) customs))) s)"

definition ensure_builtin_line :: "timestamp \<Rightarrow> (nat \<Rightarrow> string) \<Rightarrow> string \<Rightarrow> unit minting" where
  "ensure_builtin_line now fresh preset s =
     (if find_provider_connection_by_provider preset (fst s) \<noteq> None then (Inr (), s)
      else (case import_request_to_provider
                   \<lparr>im_preset_id = preset, im_api_key = None, im_model_prefix = None,
                    im_name = None, im_enabled = None, im_priority = None,
                    im_rate_limit_protection = None\<rparr> of
              Inl e \<Rightarrow> (Inl e, s)
            | Inr np \<Rightarrow> and_then (mint_provider now fresh np) (\<lambda>p s. (Inr (), s)) s))"

definition ensure_builtin_provider_connections ::
  "timestamp \<Rightarrow> (nat \<Rightarrow> string) \<Rightarrow> (string \<Rightarrow> string option) \<Rightarrow> unit minting" where
  "ensure_builtin_provider_connections now fresh proxy_error =
     and_then (each_in_turn (ensure_builtin_line now fresh) builtin_oauth_preset_ids) (\<lambda>_.
     and_then (ensure_single_custom_api_line now fresh proxy_error) (\<lambda>_.
       normalize_builtin_line_names now))"

section \<open>The table is usable\<close>

lemma builtin_presets_exist:
  "i \<in> set builtin_oauth_preset_ids \<Longrightarrow> \<exists>p. find_provider_preset i = Some p \<and> pr_id p = i"
proof -
  have "list_all (\<lambda>i. case find_provider_preset i of None \<Rightarrow> False | Some p \<Rightarrow> pr_id p = i)
      builtin_oauth_preset_ids" by code_simp
  then show "i \<in> set builtin_oauth_preset_ids \<Longrightarrow> ?thesis"
    by (auto simp: list_all_iff split: option.splits)
qed

lemma preset_ids_distinct: "distinct (map pr_id provider_presets)"
  by code_simp

lemma preset_capabilities_known:
  "p \<in> set provider_presets \<Longrightarrow> set (pr_supported_endpoints p) \<subseteq> set default_supported_endpoints"
proof -
  have "list_all (\<lambda>p. list_all (\<lambda>e. e \<in> set default_supported_endpoints) (pr_supported_endpoints p))
      provider_presets" by code_simp
  then show "p \<in> set provider_presets \<Longrightarrow> ?thesis" by (auto simp: list_all_iff)
qed

section \<open>Sequences\<close>

lemma and_then_Inr:
  "and_then m f s = (Inr b, s') \<longleftrightarrow> (\<exists>a s1. m s = (Inr a, s1) \<and> f a s1 = (Inr b, s'))"
  by (auto simp: and_then_def split: prod.splits sum.splits)

text \<open>What every statement of a sequence keeps, the sequence keeps.\<close>

lemma each_in_turn_keeps:
  assumes "\<And>x s r s'. x \<in> set xs \<Longrightarrow> f x s = (r, s') \<Longrightarrow> g (fst s') = g (fst s)"
    and "each_in_turn f xs s = (r, s')"
  shows "g (fst s') = g (fst s)"
  using assms
proof (induction xs arbitrary: s)
  case (Cons x xs)
  obtain r1 s1 where out: "f x s = (r1, s1)" by (cases "f x s")
  show ?case
  proof (cases r1)
    case (Inl e)
    then show ?thesis using Cons.prems(1) [OF _ out] Cons.prems(2) out by simp
  next
    case (Inr u)
    have rest: "each_in_turn f xs s1 = (r, s')" using Cons.prems(2) out Inr by simp
    have "g (fst s') = g (fst s1)"
      by (rule Cons.IH [OF _ rest]) (rule Cons.prems(1), simp_all)
    then show ?thesis using Cons.prems(1) [OF _ out] by simp
  qed
qed simp

lemma mint_account_rows:
  "mint_account now fresh pe na s = (r, s') \<Longrightarrow> db_providers (fst s') = db_providers (fst s)"
  by (auto simp: mint_account_def create_provider_account_def rbind_Inr Let_def
      split: sum.splits if_splits)

lemma rehome_rows:
  assumes "rehome now fresh pe shell orphan s = (Inr (), s')"
  shows "db_providers (fst s') = filter (\<lambda>(p, x). p_id p \<noteq> p_id orphan) (db_providers (fst s))"
proof -
  obtain s1 s2 where
    a: "(if usable_base orphan then mint_account now fresh pe (orphan_account shell orphan) s
         else (Inr (), s)) = (Inr (), s1)"
    and b: "each_in_turn (\<lambda>a. mint_account now fresh pe (moved_account shell orphan a))
        (list_provider_accounts (p_id orphan) (fst s1)) s1 = (Inr (), s2)"
    and c: "s' = (snd (delete_provider_connection (p_id orphan) (fst s2)), snd s2)"
    using assms by (auto simp: rehome_def and_then_Inr)
  have "db_providers (fst s1) = db_providers (fst s)"
    using a mint_account_rows by (auto split: if_splits)
  moreover have "db_providers (fst s2) = db_providers (fst s1)"
    by (rule each_in_turn_keeps [OF _ b]) (rule mint_account_rows)
  ultimately show ?thesis by (simp add: c delete_provider_connection_def Let_def)
qed

lemma rehome_all_rows:
  "each_in_turn (rehome now fresh pe shell) orphans s = (Inr (), s')
     \<Longrightarrow> db_providers (fst s')
       = filter (\<lambda>(p, x). p_id p \<notin> p_id ` set orphans) (db_providers (fst s))"
proof (induction orphans arbitrary: s)
  case (Cons orphan orphans)
  obtain r s1 where out: "rehome now fresh pe shell orphan s = (r, s1)"
    by (cases "rehome now fresh pe shell orphan s")
  then have "r = Inr ()" using Cons.prems by (cases r) auto
  then have "each_in_turn (rehome now fresh pe shell) orphans s1 = (Inr (), s')"
    using Cons.prems out by simp
  from Cons.IH [OF this] rehome_rows [OF out [unfolded \<open>r = Inr ()\<close>]]
  show ?case by (auto simp: case_prod_unfold intro!: filter_cong)
qed simp

section \<open>Names\<close>

definition canonical_line :: "timestamp \<Rightarrow> provider \<Rightarrow> provider" where
  "canonical_line now p =
     (case canonical_line_name (p_provider p) (p_name p) of
        None \<Rightarrow> p
      | Some c \<Rightarrow>
          if trim (unwrap_or [] (p_name p)) = c then p else p\<lparr>p_name := Some c, p_updated_at := now\<rparr>)"

definition well_named :: "provider \<Rightarrow> bool" where
  "well_named p \<longleftrightarrow> (\<forall>c. canonical_line_name (p_provider p) (p_name p) = Some c
     \<longrightarrow> trim (unwrap_or [] (p_name p)) = c)"

lemma canonical_line_simps [simp]:
  "p_id (canonical_line now p) = p_id p" "p_provider (canonical_line now p) = p_provider p"
  "p_base_url (canonical_line now p) = p_base_url p"
  "p_model_prefix (canonical_line now p) = p_model_prefix p"
  by (auto simp: canonical_line_def split: option.split)

lemma canonical_names:
  "canonical_line_name prov name = Some c \<Longrightarrow> c \<in> {''Codex'', ''Claude Code'', ''Custom API''}"
  by (auto simp: canonical_line_name_def Let_def split: if_splits)

lemma canonical_name_trim: "canonical_line_name prov name = Some c \<Longrightarrow> trim c = c"
proof -
  have "list_all (\<lambda>c. trim c = c) [''Codex'', ''Claude Code'', ''Custom API'']" by code_simp
  then show "canonical_line_name prov name = Some c \<Longrightarrow> ?thesis" using canonical_names by auto
qed

lemma canonical_names_lower:
  "to_ascii_lowercase ''Codex'' = ''codex'' \<and> to_ascii_lowercase ''Claude Code'' = ''claude code''
     \<and> to_ascii_lowercase ''Custom API'' = ''custom api''"
  by code_simp

lemma canonical_name_again:
  assumes "canonical_line_name prov name = Some c"
  shows "canonical_line_name prov (Some c) = Some c"
proof -
  from assms canonical_names consider "c = ''Codex''" | "c = ''Claude Code''" | "c = ''Custom API''"
    by blast
  then show ?thesis
    using assms unfolding canonical_line_name_def Let_def
    by cases (simp_all add: canonical_names_lower split: if_split_asm)
qed

lemma canonical_line_well_named: "well_named (canonical_line now p)"
proof (cases "canonical_line_name (p_provider p) (p_name p)")
  case None
  then show ?thesis by (simp add: well_named_def canonical_line_def)
next
  case (Some c)
  show ?thesis
    using canonical_name_again [OF Some] canonical_name_trim [OF Some] Some
    by (simp add: well_named_def canonical_line_def)
qed

lemma normalize_line_name_ok:
  "normalize_line_name now p s = (Inr (), fst s\<lparr>db_providers :=
     update_rows (\<lambda>(q, x). p_id q = p_id p \<and> \<not> well_named p)
       (\<lambda>(q, x). (q\<lparr>p_name := canonical_line_name (p_provider p) (p_name p), p_updated_at := now\<rparr>, x))
       (db_providers (fst s))\<rparr>, snd s)"
  by (cases s; cases "canonical_line_name (p_provider p) (p_name p)")
    (auto simp: normalize_line_name_def update_provider_connection_name_def update_provider_rows_def
      update_rows_def well_named_def case_prod_unfold)

lemma well_named_canonical: "well_named p \<Longrightarrow> canonical_line now p = p"
  by (auto simp: well_named_def canonical_line_def split: option.split)

lemma ill_named_canonical:
  "\<not> well_named p \<Longrightarrow> canonical_line now p
     = p\<lparr>p_name := canonical_line_name (p_provider p) (p_name p), p_updated_at := now\<rparr>"
  by (auto simp: well_named_def canonical_line_def)

abbreviation line_ids :: "db \<Rightarrow> string list" where
  "line_ids d \<equiv> map (\<lambda>(p, x). p_id p) (db_providers d)"

lemma normalize_names_rows:
  assumes "distinct (map (\<lambda>(p, x). p_id p) (db_providers d))"
    and "\<And>p. p \<in> set ps \<Longrightarrow> p \<in> fst ` set (db_providers d)" and "distinct (map p_id ps)"
  shows "each_in_turn (normalize_line_name now) ps (d, n) = (Inr (), d\<lparr>db_providers :=
     map (\<lambda>(p, x). (if p_id p \<in> p_id ` set ps then canonical_line now p else p, x))
       (db_providers d)\<rparr>, n)"
  using assms
proof (induction ps arbitrary: d)
  case Nil
  have "map (\<lambda>(p, x). (p, x)) (db_providers d) = db_providers d" by (simp add: case_prod_unfold)
  then show ?case by simp
next
  case (Cons q ps)
  let ?rows = "db_providers d"
  let ?d1 = "d\<lparr>db_providers := map (\<lambda>(p, x). (if p_id p = p_id q then canonical_line now p else p, x)) ?rows\<rparr>"
  have same: "p = q" if "(p, x) \<in> set ?rows" "p_id p = p_id q" for p x
  proof -
    obtain y where y: "(q, y) \<in> set ?rows" using Cons.prems(2) [of q] by auto
    have "(p, x) = (q, y)"
      using Cons.prems(1) that y by (auto simp: distinct_map inj_on_def)
    then show ?thesis by simp
  qed
  have "update_rows (\<lambda>(p, x). p_id p = p_id q \<and> \<not> well_named q)
       (\<lambda>(p, x). (p\<lparr>p_name := canonical_line_name (p_provider q) (p_name q), p_updated_at := now\<rparr>, x)) ?rows
     = map (\<lambda>(p, x). (if p_id p = p_id q then canonical_line now p else p, x)) ?rows"
    using same well_named_canonical [of q now] ill_named_canonical [of q now]
    by (force simp: update_rows_def intro!: map_cong)
  then have step: "normalize_line_name now q (d, n) = (Inr (), ?d1, n)"
    by (simp add: normalize_line_name_ok)
  have ids: "map (\<lambda>(p, x). p_id p) (db_providers ?d1) = map (\<lambda>(p, x). p_id p) ?rows"
    by (auto simp: case_prod_unfold)
  have "p \<in> fst ` set (db_providers ?d1)" if "p \<in> set ps" for p
  proof -
    have "p \<in> fst ` set ?rows" using Cons.prems(2) that by simp
    moreover have "p_id p \<noteq> p_id q" using Cons.prems(3) that by (auto simp: image_iff)
    ultimately show ?thesis by (force simp: case_prod_unfold image_iff)
  qed
  note inside = this
  have "distinct (line_ids ?d1)" using Cons.prems(1) by (simp only: ids)
  from Cons.IH [OF this inside] Cons.prems(3)
  have "each_in_turn (normalize_line_name now) ps (?d1, n)
      = (Inr (), ?d1\<lparr>db_providers :=
          map (\<lambda>(p, x). (if p_id p \<in> p_id ` set ps then canonical_line now p else p, x))
            (db_providers ?d1)\<rparr>, n)"
    by (simp only: distinct.simps list.map)
  moreover have "map (\<lambda>(p, x). (if p_id p \<in> p_id ` set ps then canonical_line now p else p, x))
      (db_providers ?d1)
    = map (\<lambda>(p, x). (if p_id p \<in> p_id ` set (q # ps) then canonical_line now p else p, x)) ?rows"
    using Cons.prems(3) by (auto simp: case_prod_unfold)
  ultimately show ?case by (simp add: step)
qed

section \<open>The lines settle\<close>

definition mint_ok :: "(nat \<Rightarrow> string) \<Rightarrow> db \<times> nat \<Rightarrow> bool" where
  "mint_ok fresh s \<longleftrightarrow> distinct (line_ids (fst s)) \<and> (\<forall>k \<ge> snd s. fresh k \<notin> set (line_ids (fst s)))"

lemma lines_named:
  "set (list_provider_connections_by_provider c d)
     = {p. p_provider p = c \<and> p \<in> fst ` set (db_providers d)}"
  "set (list_provider_connections d) = fst ` set (db_providers d)"
  by (auto simp: list_provider_connections_by_provider_def list_provider_connections_def)

lemma find_line_iff:
  "find_provider_connection_by_provider c d \<noteq> None
     \<longleftrightarrow> (\<exists>p. p_provider p = c \<and> p \<in> fst ` set (db_providers d))"
proof -
  have "find_provider_connection_by_provider c d \<noteq> None
      \<longleftrightarrow> set (list_provider_connections_by_provider c d) \<noteq> {}"
    by (auto simp: find_provider_connection_by_provider_def split: list.splits)
  then show ?thesis by (auto simp: lines_named)
qed

lemma mint_provider_rows:
  assumes "mint_provider now fresh np s = (r, s')" and "mint_ok fresh s" and "inj fresh"
  obtains p x where "r = Inr p" and "db_providers (fst s') = db_providers (fst s) @ [(p, x)]"
    and "p_id p = fresh (snd s)" and "p_provider p = np_provider np" and "p_base_url p = np_base_url np"
    and "p_name p = np_name np" and "mint_ok fresh s'"
proof -
  let ?out = "create_provider_connection now (fresh (snd s)) np (fst s)"
  have s': "s' = (snd ?out, Suc (snd s))" "r = Inr (fst ?out)"
    using assms(1) by (auto simp: mint_provider_def split: prod.splits)
  obtain x where rows: "db_providers (snd ?out) = db_providers (fst s) @ [(fst ?out, x)]"
    by (auto simp: create_provider_connection_def Let_def)
  have "mint_ok fresh s'"
    using assms(2,3) rows
    by (auto simp: mint_ok_def s' create_provider_connection_def Let_def inj_def Suc_le_eq)
  then show thesis
    by (intro that [of "fst ?out" x]) (simp_all add: s' rows, simp_all add: create_provider_connection_def Let_def)
qed

text \<open>A built-in line is there afterwards, and nothing else has changed.\<close>

lemma ensure_builtin_line_rows:
  assumes "ensure_builtin_line now fresh i s = (Inr (), s')" and "mint_ok fresh s" and "inj fresh"
    and "i \<in> set builtin_oauth_preset_ids"
  obtains new where "db_providers (fst s') = db_providers (fst s) @ new"
    and "\<forall>(p, x) \<in> set new. p_provider p = i" and "mint_ok fresh s'"
    and "find_provider_connection_by_provider i (fst s') \<noteq> None"
proof (cases "find_provider_connection_by_provider i (fst s) \<noteq> None")
  case True
  then show thesis using assms that [of "[]"] by (auto simp: ensure_builtin_line_def)
next
  case False
  obtain pr where pr: "find_provider_preset i = Some pr" "pr_id pr = i"
    using builtin_presets_exist [OF assms(4)] by auto
  obtain np where np: "import_request_to_provider
      \<lparr>im_preset_id = i, im_api_key = None, im_model_prefix = None, im_name = None,
       im_enabled = None, im_priority = None, im_rate_limit_protection = None\<rparr> = Inr np"
    "np_provider np = i"
    using pr by (auto simp: import_request_to_provider_def)
  obtain p s1 where m: "mint_provider now fresh np s = (Inr p, s1)" "s' = s1"
    using assms(1) False np(1) by (auto simp: ensure_builtin_line_def and_then_Inr)
  obtain q x where "db_providers (fst s') = db_providers (fst s) @ [(q, x)]"
    "p_provider q = i" "mint_ok fresh s'"
    using mint_provider_rows [OF m(1) assms(2,3)] m(2) np(2) by metis
  moreover from this have "find_provider_connection_by_provider i (fst s') \<noteq> None"
    unfolding find_line_iff by force
  ultimately show thesis by (intro that [of "[(q, x)]"]) auto
qed

lemma only_element:
  "distinct (map f xs) \<Longrightarrow> \<forall>x \<in> set xs. f x = c \<Longrightarrow> y \<in> set xs \<Longrightarrow> xs = [y]"
  by (cases xs; cases "tl xs") auto

lemma distinct_lines_named:
  "distinct (line_ids d) \<Longrightarrow> distinct (map p_id (list_provider_connections_by_provider c d))"
proof -
  assume d: "distinct (line_ids d)"
  let ?ps = "filter (\<lambda>p. p_provider p = c) (map fst (db_providers d))"
  have "distinct (map p_id (map fst (db_providers d)))" using d by (simp add: comp_def case_prod_unfold)
  then have "distinct (map p_id ?ps)" by (rule distinct_map_filter)
  then show ?thesis
    by (auto simp: list_provider_connections_by_provider_def distinct_map)
qed

lemma distinct_map_sort_key: "distinct (map f (sort_key g xs)) \<longleftrightarrow> distinct (map f xs)"
  by (simp add: distinct_map)

lemma distinct_lines: "distinct (line_ids d) \<Longrightarrow> distinct (map p_id (list_provider_connections d))"
  by (simp add: list_provider_connections_def distinct_map_sort_key comp_def case_prod_unfold)

lemma sole_line:
  assumes "distinct (line_ids d)" and "p \<in> fst ` set (db_providers d)" and "p_provider p = c"
    and "\<forall>q \<in> fst ` set (db_providers d). p_provider q = c \<longrightarrow> p_id q = i"
  shows "list_provider_connections_by_provider c d = [p]"
proof (rule only_element)
  show "distinct (map p_id (list_provider_connections_by_provider c d))"
    by (rule distinct_lines_named) (rule assms(1))
  show "\<forall>q \<in> set (list_provider_connections_by_provider c d). p_id q = i"
    unfolding lines_named(1) using assms(4) by blast
  show "p \<in> set (list_provider_connections_by_provider c d)"
    unfolding lines_named(1) using assms(2,3) by blast
qed

lemma no_custom_local: "\<not> str_contains [] ''custom.local''"
  by code_simp

text \<open>
  After the custom lines have been collapsed there is one of them, the shell, and every other
  connection is as it was.
\<close>

lemma ensure_single_rows:
  assumes run: "ensure_single_custom_api_line now fresh pe s = (Inr (), s')"
    and ok: "mint_ok fresh s" and inj: "inj fresh"
  obtains shell where
    "list_provider_connections_by_provider ''custom'' (fst s') = [shell]"
    and "\<not> str_contains (p_base_url shell) ''custom.local''"
    and "p_name shell = Some ''Custom API''
      \<or> p_name shell \<in> p_name ` set (list_provider_connections_by_provider ''custom'' (fst s))"
    and "distinct (line_ids (fst s'))"
    and "\<forall>p x. p_provider p \<noteq> ''custom'' \<longrightarrow>
      (p, x) \<in> set (db_providers (fst s')) \<longleftrightarrow> (p, x) \<in> set (db_providers (fst s))"
proof -
  let ?customs = "list_provider_connections_by_provider ''custom'' (fst s)"
  obtain shell s2 s3 where found: "find_shell now fresh ?customs s = (Inr shell, s2)"
    and hidden: "hide_shell_url now shell s2 = (Inr (), s3)"
    and moved: "each_in_turn (rehome now fresh pe (p_id shell))
        (filter (\<lambda>p. p_id p \<noteq> p_id shell) ?customs) s3 = (Inr (), s')"
    using run by (auto simp: ensure_single_custom_api_line_def and_then_Inr Let_def)
  have kept: "p_provider shell = ''custom'' \<and> shell \<in> fst ` set (db_providers (fst s2))
      \<and> distinct (line_ids (fst s2)) \<and> (p_name shell = Some ''Custom API'' \<or> p_name shell \<in> p_name ` set ?customs)
      \<and> (\<forall>p x. (p, x) \<in> set (db_providers (fst s2)) \<longrightarrow> (p, x) \<in> set (db_providers (fst s)) \<or> p = shell)
      \<and> set (db_providers (fst s)) \<subseteq> set (db_providers (fst s2))"
  proof (cases "find is_custom_shell_line ?customs")
    case None
    then have minted: "mint_provider now fresh custom_shell_connection s = (Inr shell, s2)"
      using found by (simp add: find_shell_def)
    show ?thesis
      by (rule mint_provider_rows [OF minted ok inj])
        (auto simp: custom_shell_connection_def mint_ok_def)
  next
    case (Some q)
    then have "shell = q" "s2 = s" using found by (simp_all add: find_shell_def)
    moreover have "q \<in> set ?customs" using Some by (auto simp: find_Some_iff)
    ultimately have "q \<in> set ?customs" "shell = q" "s2 = s" by simp_all
    then show ?thesis using ok lines_named(1) [of "''custom''" "fst s"] by (auto simp: mint_ok_def)
  qed
  define shown where "shown = (if str_contains (p_base_url shell) ''custom.local''
      then shell\<lparr>p_base_url := [], p_updated_at := now\<rparr> else shell)"
  have shown: "p_id shown = p_id shell" "p_provider shown = p_provider shell"
    "p_name shown = p_name shell" "\<not> str_contains (p_base_url shown) ''custom.local''"
    using no_custom_local by (auto simp: shown_def)
  have same: "p = q" if "(p, x) \<in> set (db_providers (fst s2))" "q \<in> fst ` set (db_providers (fst s2))"
      "p_id p = p_id q" for p q x
    using kept that by (force simp: distinct_map inj_on_def)
  have same_shell: "p_id p = p_id shell \<longleftrightarrow> p = shell" if "(p, x) \<in> set (db_providers (fst s2))" for p x
    using same [OF that] kept by blast
  have "db_providers (fst s3) = update_rows
      (\<lambda>(p, x). p_id p = p_id shell \<and> str_contains (p_base_url shell) ''custom.local'')
      (\<lambda>(p, x). (p\<lparr>p_base_url := [], p_updated_at := now\<rparr>, x)) (db_providers (fst s2))"
    using hidden by (auto simp: hide_shell_url_def update_provider_connection_base_url_def
        update_provider_rows_def update_rows_def case_prod_unfold split: if_splits)
  also have "\<dots> = map (\<lambda>(p, x). (if p = shell then shown else p, x)) (db_providers (fst s2))"
    unfolding update_rows_def by (rule map_cong) (auto simp: shown_def dest: same_shell)
  finally have rows: "db_providers (fst s') = filter
      (\<lambda>(p, x). p_id p \<notin> p_id ` {p \<in> set ?customs. p_id p \<noteq> p_id shell})
      (map (\<lambda>(p, x). (if p = shell then shown else p, x)) (db_providers (fst s2)))"
    using rehome_all_rows [OF moved] by simp
  have ids: "map (\<lambda>(p, x). p_id p) (map (\<lambda>(p, x). (if p = shell then shown else p, x)) (db_providers (fst s2)))
      = line_ids (fst s2)"
    by (auto simp: shown)
  have dist: "distinct (line_ids (fst s'))"
    unfolding rows by (rule distinct_map_filter, subst ids) (use kept in simp)
  have custom: "q \<in> set ?customs"
    if "(q, x) \<in> set (db_providers (fst s2))" "p_provider q = ''custom''" "q \<noteq> shell" for q x
    using kept that unfolding lines_named(1) by force
  have inside: "q \<in> fst ` set (db_providers (fst s2))" if "q \<in> set ?customs" for q
    using kept that unfolding lines_named(1) by auto
  show thesis
  proof (rule that [of shown])
    show "distinct (line_ids (fst s'))" by (rule dist)
    then show "list_provider_connections_by_provider ''custom'' (fst s') = [shown]"
    proof (rule sole_line [where i = "p_id shell"])
      show "shown \<in> fst ` set (db_providers (fst s'))"
      proof -
        obtain x where "(shell, x) \<in> set (db_providers (fst s2))" using kept by auto
        then have "(shown, x) \<in> set (db_providers (fst s'))" by (force simp: rows shown)
        then show ?thesis by force
      qed
      show "p_provider shown = ''custom''" using kept by (simp add: shown)
      show "\<forall>q \<in> fst ` set (db_providers (fst s')). p_provider q = ''custom'' \<longrightarrow> p_id q = p_id shell"
        using custom same_shell by (fastforce simp: rows shown)
    qed
    show "\<not> str_contains (p_base_url shown) ''custom.local''" by (rule shown)
    show "p_name shown = Some ''Custom API'' \<or> p_name shown \<in> p_name ` set ?customs"
      using kept by (simp add: shown)
    have "(p, x) \<in> set (db_providers (fst s')) \<longleftrightarrow> (p, x) \<in> set (db_providers (fst s))"
      if "p_provider p \<noteq> ''custom''" for p x
    proof -
      have "p_id p \<notin> p_id ` {q \<in> set ?customs. p_id q \<noteq> p_id shell}"
        if "(p, x) \<in> set (db_providers (fst s2))"
      proof
        assume "p_id p \<in> p_id ` {q \<in> set ?customs. p_id q \<noteq> p_id shell}"
        then obtain q where "p_id p = p_id q" "q \<in> set ?customs" by auto
        moreover from this have "p = q" using same [OF that] inside by blast
        ultimately show False using \<open>p_provider p \<noteq> _\<close> by (simp add: lines_named)
      qed
      moreover have "p \<noteq> shown \<and> p \<noteq> shell"
        using \<open>p_provider p \<noteq> _\<close> kept shown(2) by metis
      ultimately have "(p, x) \<in> set (db_providers (fst s')) \<longleftrightarrow> (p, x) \<in> set (db_providers (fst s2))"
        unfolding rows by (auto split: if_split_asm intro!: image_eqI [of _ _ "(p, x)"])
      also have "\<dots> \<longleftrightarrow> (p, x) \<in> set (db_providers (fst s))"
        using that kept by blast
      finally show ?thesis .
    qed
    then show "\<forall>p x. p_provider p \<noteq> ''custom'' \<longrightarrow>
      (p, x) \<in> set (db_providers (fst s')) \<longleftrightarrow> (p, x) \<in> set (db_providers (fst s))" by blast
  qed
qed

text \<open>A second run finds everything in place.\<close>

definition settled :: "db \<Rightarrow> bool" where
  "settled d \<longleftrightarrow>
     (\<forall>i \<in> set builtin_oauth_preset_ids. find_provider_connection_by_provider i d \<noteq> None)
     \<and> (\<exists>shell. list_provider_connections_by_provider ''custom'' d = [shell]
          \<and> is_custom_shell_line shell \<and> \<not> str_contains (p_base_url shell) ''custom.local'')
     \<and> (\<forall>p \<in> fst ` set (db_providers d). well_named p)"

lemma each_in_turn_idle: "(\<And>x. x \<in> set xs \<Longrightarrow> f x s = (Inr (), s)) \<Longrightarrow> each_in_turn f xs s = (Inr (), s)"
  by (induction xs) auto

lemma settled_idle:
  assumes "settled d"
  shows "ensure_builtin_provider_connections now fresh pe (d, n) = (Inr (), d, n)"
proof -
  have "each_in_turn (ensure_builtin_line now fresh) builtin_oauth_preset_ids (d, n) = (Inr (), d, n)"
    by (rule each_in_turn_idle) (use assms in \<open>simp add: settled_def ensure_builtin_line_def\<close>)
  moreover have "ensure_single_custom_api_line now fresh pe (d, n) = (Inr (), d, n)"
    using assms by (auto simp: settled_def ensure_single_custom_api_line_def find_shell_def
        hide_shell_url_def and_then_def)
  moreover have "normalize_builtin_line_names now (d, n) = (Inr (), d, n)"
    unfolding normalize_builtin_line_names_def
  proof (rule each_in_turn_idle)
    fix p
    assume "p \<in> set (list_provider_connections (fst (d, n)))"
    then have "p \<in> fst ` set (db_providers d)" by (simp only: lines_named fst_conv)
    then have "well_named p" using assms unfolding settled_def by blast
    then show "normalize_line_name now p (d, n) = (Inr (), d, n)"
      by (auto simp: well_named_def normalize_line_name_def split: option.split)
  qed
  ultimately show ?thesis by (simp add: ensure_builtin_provider_connections_def and_then_def)
qed

lemma normalize_builtin_rows:
  assumes "distinct (line_ids d)"
  shows "normalize_builtin_line_names now (d, n)
     = (Inr (), d\<lparr>db_providers := map (\<lambda>(p, x). (canonical_line now p, x)) (db_providers d)\<rparr>, n)"
proof -
  have "map (\<lambda>(p, x). (if p_id p \<in> p_id ` set (list_provider_connections d) then canonical_line now p else p, x))
      (db_providers d) = map (\<lambda>(p, x). (canonical_line now p, x)) (db_providers d)"
    by (rule map_cong) (force simp: lines_named)+
  then show ?thesis
    using normalize_names_rows [OF assms, of "list_provider_connections d" now n] distinct_lines [OF assms]
    by (simp add: normalize_builtin_line_names_def lines_named)
qed

text \<open>
  A run that reaches its end settles the lines, when no custom line bears the name of another
  built-in line.
\<close>

definition custom_lines_named :: "db \<Rightarrow> bool" where
  "custom_lines_named d \<longleftrightarrow> list_all
     (\<lambda>p. canonical_line_name ''custom'' (p_name p) = Some ''Custom API'')
     (list_provider_connections_by_provider ''custom'' d)"

lemma canonical_sole_custom:
  assumes custom: "list_provider_connections_by_provider ''custom'' d = [shell]"
    and name: "canonical_line_name ''custom'' (p_name shell) = Some ''Custom API''"
    and dist: "distinct (line_ids d)"
    and url: "\<not> str_contains (p_base_url shell) ''custom.local''"
    and d': "db_providers d' = map (\<lambda>(p, x). (canonical_line now p, x)) (db_providers d)"
  shows "\<exists>shell. list_provider_connections_by_provider ''custom'' d' = [shell]
    \<and> is_custom_shell_line shell \<and> \<not> str_contains (p_base_url shell) ''custom.local''"
proof (intro exI conjI)
  let ?shell = "canonical_line now shell"
  have "shell \<in> set (list_provider_connections_by_provider ''custom'' d)" using custom by simp
  then have shell: "p_provider shell = ''custom''" "shell \<in> fst ` set (db_providers d)"
    unfolding lines_named by auto
  show "list_provider_connections_by_provider ''custom'' d' = [?shell]"
  proof (rule sole_line [where i = "p_id shell"])
    have "line_ids d' = line_ids d" by (auto simp: d')
    then show "distinct (line_ids d')" using dist by (simp only:)
    show "?shell \<in> fst ` set (db_providers d')" using shell(2) by (force simp: d')
    show "p_provider ?shell = ''custom''" using shell(1) by simp
    have "q = shell" if "q \<in> fst ` set (db_providers d)" "p_provider q = ''custom''" for q
      using lines_named(1) [of "''custom''" d] custom that by auto
    then show "\<forall>q \<in> fst ` set (db_providers d'). p_provider q = ''custom'' \<longrightarrow> p_id q = p_id shell"
      by (auto simp: d') (metis fst_conv image_eqI)
  qed
  have "trim (unwrap_or [] (p_name ?shell)) = ''Custom API''"
    using name shell(1) canonical_name_trim [OF name] by (auto simp: canonical_line_def)
  then show "is_custom_shell_line ?shell" using shell(1) by (simp add: is_custom_shell_line_def)
  show "\<not> str_contains (p_base_url ?shell) ''custom.local''" using url by simp
qed

lemma ensure_settles:
  assumes run: "ensure_builtin_provider_connections now fresh pe s = (Inr (), s')"
    and ok: "mint_ok fresh s" and inj: "inj fresh" and named: "custom_lines_named (fst s)"
  shows "settled (fst s')"
proof -
  obtain s1 s2 s3 where codex: "ensure_builtin_line now fresh ''codex'' s = (Inr (), s1)"
    and claude: "ensure_builtin_line now fresh ''claude-oauth'' s1 = (Inr (), s2)"
    and single: "ensure_single_custom_api_line now fresh pe s2 = (Inr (), s3)"
    and last: "normalize_builtin_line_names now s3 = (Inr (), s')"
    using run by (auto simp: ensure_builtin_provider_connections_def and_then_Inr
        builtin_oauth_preset_ids_def split: prod.splits sum.splits)
  have known: "''codex'' \<in> set builtin_oauth_preset_ids" "''claude-oauth'' \<in> set builtin_oauth_preset_ids"
    by (simp_all add: builtin_oauth_preset_ids_def)
  obtain new1 where new1: "db_providers (fst s1) = db_providers (fst s) @ new1"
    "\<forall>(p, x) \<in> set new1. p_provider p = ''codex''" "mint_ok fresh s1"
    "find_provider_connection_by_provider ''codex'' (fst s1) \<noteq> None"
    by (rule ensure_builtin_line_rows [OF codex ok inj known(1)])
  obtain new2 where new2: "db_providers (fst s2) = db_providers (fst s1) @ new2"
    "\<forall>(p, x) \<in> set new2. p_provider p = ''claude-oauth''" "mint_ok fresh s2"
    "find_provider_connection_by_provider ''claude-oauth'' (fst s2) \<noteq> None"
    by (rule ensure_builtin_line_rows [OF claude new1(3) inj known(2)])
  obtain shell where shell:
    "list_provider_connections_by_provider ''custom'' (fst s3) = [shell]"
    "\<not> str_contains (p_base_url shell) ''custom.local''"
    "p_name shell = Some ''Custom API''
      \<or> p_name shell \<in> p_name ` set (list_provider_connections_by_provider ''custom'' (fst s2))"
    "distinct (line_ids (fst s3))"
    and others: "\<forall>p x. p_provider p \<noteq> ''custom'' \<longrightarrow>
      (p, x) \<in> set (db_providers (fst s3)) \<longleftrightarrow> (p, x) \<in> set (db_providers (fst s2))"
    by (rule ensure_single_rows [OF single new2(3) inj])
  have s': "db_providers (fst s') = map (\<lambda>(p, x). (canonical_line now p, x)) (db_providers (fst s3))"
    using last normalize_builtin_rows [OF shell(4), of now "snd s3"] by auto
  have "set (list_provider_connections_by_provider ''custom'' (fst s2))
      = set (list_provider_connections_by_provider ''custom'' (fst s))"
    using new1(1,2) new2(1,2) by (fastforce simp: lines_named)
  moreover have "canonical_line_name ''custom'' (Some ''Custom API'') = Some ''Custom API''" by code_simp
  ultimately have "canonical_line_name ''custom'' (p_name shell) = Some ''Custom API''"
    using shell(3) named by (auto simp: custom_lines_named_def list_all_iff)
  note sole = canonical_sole_custom [OF shell(1) this shell(4,2) s']
  have "find_provider_connection_by_provider i (fst s') \<noteq> None"
    if "i \<in> set builtin_oauth_preset_ids" for i
  proof -
    have "\<exists>p x. (p, x) \<in> set (db_providers (fst s2)) \<and> p_provider p = i"
    proof -
      have "\<exists>p. p_provider p = i \<and> p \<in> fst ` set (db_providers (fst s1) @ new2)"
        using that new1(4) [unfolded find_line_iff] new2(4) [unfolded find_line_iff new2(1)]
        by (auto simp: builtin_oauth_preset_ids_def image_Un)
      then show ?thesis unfolding new2(1) by auto
    qed
    moreover have "i \<noteq> ''custom''" using that by (auto simp: builtin_oauth_preset_ids_def)
    ultimately obtain p x where "(p, x) \<in> set (db_providers (fst s3))" "p_provider p = i"
      using others by metis
    then have "(canonical_line now p, x) \<in> set (db_providers (fst s'))" by (force simp: s')
    then show ?thesis
      unfolding find_line_iff using \<open>p_provider p = i\<close>
      by (intro exI [of _ "canonical_line now p"]) (force simp: image_iff)
  qed
  moreover have "\<forall>p \<in> fst ` set (db_providers (fst s')). well_named p"
    using canonical_line_well_named by (auto simp: s')
  ultimately show ?thesis using sole unfolding settled_def by blast
qed

end
