(* ===== verification/Proxy_Routes.thy ===== *)
theory Proxy_Routes
  imports Raw_Proxy Route_History Auth Logs
begin

text \<open>
  The client-facing handlers of \<open>src/routes.rs\<close>: who a request is attributed to, the call of the
  routing service, the row of the request log it leaves, and the reply. \<open>RoutedResult::Raw\<close> is
  never produced by \<open>RouterService::route\<close>, so its arm is left out. Log rows are written by
  detached tasks: a handler returns the task it starts, and the two statements of a task are
  operations of their own.
\<close>

section \<open>Doubles as JSON\<close>

text \<open>\<open>f64::to_bits\<close> of a double held as a rational; \<open>serde_json\<close> prints other doubles as null.\<close>

definition f64_bits :: "rat \<Rightarrow> u64" where
  "f64_bits q =
     (if q = 0 then 0
      else let k = ulp_exponent \<bar>q\<bar>; m = \<lfloor>\<bar>q\<bar> / pow2 k\<rfloor>;
               b = (if m < 2 ^ 52 then m else (k + 1075) * 2 ^ 52 + (m - 2 ^ 52))
           in of_int (if q < 0 then 2 ^ 63 + b else b))"

fun json_f64 :: "f64 \<Rightarrow> json" where
  "json_f64 (Fin q) = JNum (Float (f64_bits q))"
| "json_f64 _ = JNull"

section \<open>The routing debug as JSON\<close>

text \<open>
  \<open>to_string\<close> writes the fields of a struct in their order, \<open>to_value\<close> collects them in a map:
  \<open>mk\<close> is \<open>JObj\<close> for the first and \<open>json_obj\<close> for the second.
\<close>

definition opt_json :: "('x \<Rightarrow> json) \<Rightarrow> 'x option \<Rightarrow> json" where
  "opt_json f v = (case v of None \<Rightarrow> JNull | Some x \<Rightarrow> f x)"

definition json_u64 :: "u64 \<Rightarrow> json" where
  "json_u64 w = JNum (PosInt w)"

definition routed_account_json :: "(obj \<Rightarrow> json) \<Rightarrow> routed_account \<Rightarrow> json" where
  "routed_account_json mk a = mk
     [(''id'', JStr (ra_id a)), (''label'', opt_json JStr (ra_label a)),
      (''auth_mode'', JStr (auth_mode_as_str (ra_auth_mode a))),
      (''remote_account_id'', opt_json JStr (ra_remote_account_id a)),
      (''remote_email'', opt_json JStr (ra_remote_email a))]"

definition attempt_json :: "(obj \<Rightarrow> json) \<Rightarrow> attempt \<Rightarrow> json" where
  "attempt_json mk a = mk
     ([(''provider_id'', JStr (at_provider_id a)), (''model'', JStr (at_model a)),
       (''status'', json_u64 (of_nat (at_status a))), (''body'', JStr (at_body a))]
      @ (case at_account a of None \<Rightarrow> [] | Some x \<Rightarrow> [(''account'', routed_account_json mk x)]))"

definition usage_json :: "(obj \<Rightarrow> json) \<Rightarrow> usage_info \<Rightarrow> json" where
  "usage_json mk u = mk
     [(''input_tokens'', json_u64 (input_tokens u)), (''output_tokens'', json_u64 (output_tokens u)),
      (''cache_read_tokens'', opt_json json_u64 (cache_read_tokens u)),
      (''cache_creation_tokens'', opt_json json_u64 (cache_creation_tokens u)),
      (''total_tokens'', json_u64 (total_tokens u))]"

definition debug_json :: "(obj \<Rightarrow> json) \<Rightarrow> debug \<Rightarrow> json" where
  "debug_json mk d = mk
     ([(''request_id'', JStr (rd_request_id d)), (''requested_model'', JStr (rd_requested_model d)),
       (''resolved_model'', JStr (rd_resolved_model d)), (''endpoint'', JStr (rd_endpoint d)),
       (''path_suffix'', opt_json JStr (rd_path_suffix d)),
       (''tried'', JArr (map (attempt_json mk) (rd_tried d)))]
      @ (case rd_usage d of None \<Rightarrow> [] | Some u \<Rightarrow> [(''usage'', usage_json mk u)])
      @ (case rd_cost_usd d of None \<Rightarrow> [] | Some c \<Rightarrow> [(''cost_usd'', json_f64 c)]))"

section \<open>The row of the request log\<close>

definition account_display :: "routed_account \<Rightarrow> string" where
  "account_display a = unwrap_or (ra_id a) (or_else (ra_label a) (ra_remote_email a))"

fun error_log_message :: "'a codec_scheme \<Rightarrow> app_error \<Rightarrow> string" where
  "error_log_message c (ClassifiedUpstream s body) =
     (case Option.bind (jpointer [''error'', ''message''] body) as_str of
        Some m \<Rightarrow> m | None \<Rightarrow> json_print c body)"
| "error_log_message c err = error_text err"

text \<open>The connection a classified error names, unless no connection was resolved.\<close>

fun error_provider :: "app_error \<Rightarrow> string option" where
  "error_provider (ClassifiedUpstream s body) =
     opt_filter (\<lambda>i. \<not> starts_with i ''unresolved:'')
       (Option.bind (or_else (jpointer [''error'', ''provider_id''] body) (jget ''provider_id'' body)) as_str)"
| "error_provider err = None"

definition new_log ::
  "'a codec_scheme \<Rightarrow> string \<Rightarrow> endpoint \<Rightarrow> json \<Rightarrow> string option \<Rightarrow> int \<Rightarrow> int \<Rightarrow> string option
     \<Rightarrow> new_request_log" where
  "new_log c request_id e payload key_name took status err =
     \<lparr>rl_id = request_id, rl_endpoint = endpoint_as_str e,
      rl_requested_model = unwrap_or [] (get_str ''model'' payload),
      rl_resolved_model = unwrap_or [] (get_str ''model'' payload), rl_provider_id = None,
      rl_provider_account_id = None, rl_account_label = None, rl_api_key_name = key_name,
      rl_status = status, rl_error = err, rl_attempts = 0, rl_is_stream = False,
      rl_input_tokens = None, rl_output_tokens = None, rl_cache_read_tokens = None,
      rl_cost_usd = None, rl_duration_ms = took, rl_client_body = Some (json_print c payload)\<rparr>"

definition last_attempt :: "debug \<Rightarrow> attempt option" where
  "last_attempt d = (if rd_tried d = [] then None else Some (last (rd_tried d)))"

definition last_status :: "debug \<Rightarrow> int" where
  "last_status d = (case last_attempt d of None \<Rightarrow> 200 | Some a \<Rightarrow> int (at_status a))"

text \<open>What a routed reply adds: the last attempt's target and the number of attempts.\<close>

definition attempt_log :: "debug \<Rightarrow> new_request_log \<Rightarrow> new_request_log" where
  "attempt_log d l =
     (let acc = Option.bind (last_attempt d) at_account in
      l\<lparr>rl_resolved_model := rd_resolved_model d,
        rl_provider_id := map_option at_provider_id (last_attempt d),
        rl_provider_account_id := map_option ra_id acc,
        rl_account_label := map_option account_display acc,
        rl_attempts := int (length (rd_tried d))\<rparr>)"

text \<open>\<open>as i64\<close> reads the upper half of the unsigned range as negative.\<close>

definition usage_log :: "usage_info option \<Rightarrow> f64 option \<Rightarrow> new_request_log \<Rightarrow> new_request_log" where
  "usage_log u cost l =
     l\<lparr>rl_input_tokens := map_option (\<lambda>u. sint (input_tokens u)) u,
       rl_output_tokens := map_option (\<lambda>u. sint (output_tokens u)) u,
       rl_cache_read_tokens := map_option sint (Option.bind u cache_read_tokens),
       rl_cost_usd := cost\<rparr>"

datatype log_task = LogRow new_request_log | LogStream new_request_log string

fun task_log :: "log_task \<Rightarrow> new_request_log" where
  "task_log (LogRow l) = l"
| "task_log (LogStream l model) = l"

section \<open>Routing a request\<close>

definition passed_request_id :: "string \<Rightarrow> headers option \<Rightarrow> string" where
  "passed_request_id fresh pass =
     (case find (\<lambda>(n, v). to_ascii_lowercase n \<in> {''x-request-id'', ''x-client-request-id''})
             (unwrap_or [] pass) of
        None \<Rightarrow> fresh | Some (n, v) \<Rightarrow> v)"

fun key_name_of :: "auth_context \<Rightarrow> string option" where
  "key_name_of (ApiKeyContext i name models) = Some name"
| "key_name_of ctx = None"

definition with_debug :: "debug \<Rightarrow> json \<Rightarrow> json" where
  "with_debug d body =
     (case body of JObj ob \<Rightarrow> JObj (obj_insert ''_kou_router'' (debug_json json_obj d) ob) | v \<Rightarrow> v)"

definition json_reply :: "http_lib \<Rightarrow> string \<Rightarrow> routed_response \<Rightarrow> reply" where
  "json_reply lib request_id r =
     (let text = json_print lib (debug_json JObj (rs_debug r)) in
      if rs_is_stream r then
        \<lparr>rp_status = 200,
         rp_headers = (''x-request-id'', request_id)
           # (if ok_value lib text then [(''x-kou-debug'', text)] else [])
           @ forwarded lib (rs_headers r) @ [(''content-type'', ''text/event-stream'')],
         rp_body = Whole (unwrap_or [] (get_str ''raw'' (rs_body r)))\<rparr>
      else
        \<lparr>rp_status = 200,
         rp_headers = (''x-request-id'', request_id)
           # forwarded lib (rs_headers r) @ [(''content-type'', ''application/json'')],
         rp_body = Whole (json_print lib (with_debug (rs_debug r) (rs_body r)))\<rparr>)"

definition stream_reply :: "http_lib \<Rightarrow> string \<Rightarrow> routed_stream \<Rightarrow> reply" where
  "stream_reply lib request_id s =
     \<lparr>rp_status = 200,
      rp_headers = [(''content-type'', ''text/event-stream''), (''cache-control'', ''no-cache''),
          (''connection'', ''keep-alive''), (''x-request-id'', request_id)]
        @ forwarded lib (ro_headers s),
      rp_body = Chunks (ro_stream s)\<rparr>"

text \<open>
  \<open>took\<close> is what the clock of the request shows when its row is built. A refused cache header
  ends the request before anything is logged.
\<close>

definition route_json ::
  "'c service \<Rightarrow> string \<Rightarrow> int \<Rightarrow> endpoint \<Rightarrow> json \<Rightarrow> string option \<Rightarrow> headers \<Rightarrow> headers option
     \<Rightarrow> auth_context \<Rightarrow> router \<Rightarrow> (reply app_result \<times> log_task list \<times> router) outcome" where
  "route_json sv fresh took e payload suff hs pass auth st =
     (let request_id = passed_request_id fresh pass;
          log = new_log (sv_lib sv) request_id e payload (key_name_of auth) took
      in case cache_from_headers hs auth of
           Inl err \<Rightarrow> Done (Inl err, [], st)
         | Inr ctx \<Rightarrow>
             (case route sv e payload suff pass request_id ctx st of
                Runs_on \<Rightarrow> Runs_on
              | Panics \<Rightarrow> Panics
              | Done (Inl err, st) \<Rightarrow>
                  Done (Inl err,
                    [LogRow ((log (int (status_code err)) (Some (error_log_message (sv_lib sv) err)))
                       \<lparr>rl_provider_id := error_provider err\<rparr>)], st)
              | Done (Inr (RoutedJson r), st) \<Rightarrow>
                  Done (Inr (json_reply (sv_lib sv) request_id r),
                    [LogRow (usage_log (rd_usage (rs_debug r)) (rd_cost_usd (rs_debug r))
                       ((attempt_log (rs_debug r) (log (last_status (rs_debug r)) None))
                          \<lparr>rl_is_stream := rs_is_stream r\<rparr>))], st)
              | Done (Inr (RoutedStream s), st) \<Rightarrow>
                  Done (Inr (stream_reply (sv_lib sv) request_id s),
                    [LogStream ((attempt_log (ro_debug s) (log (last_status (ro_debug s)) None))
                       \<lparr>rl_is_stream := True\<rparr>) (rd_resolved_model (ro_debug s))], st)))"

section \<open>The endpoints\<close>

text \<open>
  Every translated endpoint is the same handler: identify the caller, which touches the key it
  presented, and route the payload under the endpoint's kind. Axum runs the extractors in the
  order of the arguments, so the key is touched before the routing starts.
\<close>

definition endpoint_handler ::
  "endpoint \<Rightarrow> 'c service \<Rightarrow> auth_lib \<Rightarrow> string \<Rightarrow> int \<Rightarrow> string option \<Rightarrow> headers \<Rightarrow> json \<Rightarrow> router
     \<Rightarrow> (reply app_result \<times> log_task list \<times> router) outcome" where
  "endpoint_handler e sv lib fresh took suff hs payload st =
     (let (auth, d) = proxy_identity (now_of (sv_env sv) st) lib hs (rt_db st)
      in route_json sv fresh took e payload suff hs (Some (from_header_map hs)) auth
           (st\<lparr>rt_db := d\<rparr>))"

type_synonym 'c handler =
  "'c service \<Rightarrow> auth_lib \<Rightarrow> string \<Rightarrow> int \<Rightarrow> headers \<Rightarrow> json \<Rightarrow> router
     \<Rightarrow> (reply app_result \<times> log_task list \<times> router) outcome"

definition chat_completions :: "'c handler" where
  "chat_completions sv lib fresh took = endpoint_handler ChatCompletions sv lib fresh took None"

definition completions :: "'c handler" where
  "completions sv lib fresh took = endpoint_handler Completions sv lib fresh took None"

definition messages :: "'c handler" where
  "messages sv lib fresh took = endpoint_handler Messages sv lib fresh took None"

definition responses :: "'c handler" where
  "responses sv lib fresh took = endpoint_handler Responses sv lib fresh took None"

definition ollama_chat :: "'c handler" where
  "ollama_chat sv lib fresh took = endpoint_handler OllamaChat sv lib fresh took None"

definition embeddings :: "'c handler" where
  "embeddings sv lib fresh took = endpoint_handler Embeddings sv lib fresh took None"

definition image_generations :: "'c handler" where
  "image_generations sv lib fresh took = endpoint_handler ImagesGenerations sv lib fresh took None"

definition music_generations :: "'c handler" where
  "music_generations sv lib fresh took = endpoint_handler MusicGenerations sv lib fresh took None"

definition video_generations :: "'c handler" where
  "video_generations sv lib fresh took = endpoint_handler VideosGenerations sv lib fresh took None"

definition moderations :: "'c handler" where
  "moderations sv lib fresh took = endpoint_handler Moderations sv lib fresh took None"

definition rerank :: "'c handler" where
  "rerank sv lib fresh took = endpoint_handler Rerank sv lib fresh took None"

definition search :: "'c handler" where
  "search sv lib fresh took = endpoint_handler Search sv lib fresh took None"

definition responses_with_suffix :: "string \<Rightarrow> 'c handler" where
  "responses_with_suffix path sv lib fresh took =
     endpoint_handler Responses sv lib fresh took (Some path)"

text \<open>The paths of \<open>router\<close> that take a payload and translate it.\<close>

definition v1_routes :: "(string \<times> 'c handler) list" where
  "v1_routes =
     [(''/v1/chat/completions'', chat_completions),
      (''/v1/completions'', completions),
      (''/v1/messages'', messages),
      (''/v1/responses'', responses),
      (''/v1/api/chat'', ollama_chat),
      (''/v1/embeddings'', embeddings),
      (''/v1/images/generations'', image_generations),
      (''/v1/music/generations'', music_generations),
      (''/v1/videos/generations'', video_generations),
      (''/v1/moderations'', moderations),
      (''/v1/rerank'', rerank),
      (''/v1/search'', search)]"

definition responses_prefix :: string where
  "responses_prefix = ''/v1/responses/''"

definition v1_post :: "string \<Rightarrow> 'c handler option" where
  "v1_post path =
     (case map_of v1_routes path of
        Some h \<Rightarrow> Some h
      | None \<Rightarrow>
          (case strip_prefix responses_prefix path of
             None \<Rightarrow> None
           | Some rest \<Rightarrow> if rest = [] then None else Some (responses_with_suffix rest)))"

section \<open>Writing the row\<close>

text \<open>
  \<open>persist_request_log\<close>, and the first statement of \<open>spawn_stream_request_log\<close>: an error is only
  logged. The second comes when the teed buffer has stopped growing: a poll is the buffer's
  length and the time since the request started; it has been calm for two polls, or 2400 polls
  have passed.
\<close>

definition persist_request_log :: "timestamp \<Rightarrow> string \<Rightarrow> new_request_log \<Rightarrow> db \<Rightarrow> db" where
  "persist_request_log now conflict l d =
     (case insert_request_log now conflict l d of Inl e \<Rightarrow> d | Inr d' \<Rightarrow> d')"

fun watch_growth :: "(nat \<times> int) list \<Rightarrow> nat \<Rightarrow> nat \<Rightarrow> int \<Rightarrow> nat \<times> int" where
  "watch_growth [] last_len calm changed = (last_len, changed)"
| "watch_growth ((len, t) # ps) last_len calm changed =
     (if len = 0 then watch_growth ps last_len calm changed
      else if len = last_len then
        (if 2 \<le> calm + 1 then (last_len, changed) else watch_growth ps last_len (calm + 1) changed)
      else watch_growth ps len 0 t)"

definition finish_stream_log ::
  "'a codec_scheme \<Rightarrow> string \<Rightarrow> string \<Rightarrow> (nat \<times> int) list \<Rightarrow> string \<Rightarrow> db \<Rightarrow> db" where
  "finish_stream_log c i model ps transcript d =
     (let (len, changed) = watch_growth (take 2400 ps) 0 0 0 in
      if len = 0 then d
      else (let u = extract_usage_from_sse c transcript in
            finalize_stream_request_log i (map_option (\<lambda>u. sint (input_tokens u)) u)
              (map_option (\<lambda>u. sint (output_tokens u)) u)
              (map_option sint (Option.bind u cache_read_tokens))
              (map_option (calculate_cost model) u) changed d))"

end
