(* ===== verification/Proxy_Facts.thy ===== *)
theory Proxy_Facts
  imports Proxy_Routes
begin

text \<open>
  What a handler leaves behind: one row of the request log for every request it lets through to
  the routing, under the identifier its reply carries.
\<close>

section \<open>The row of a request\<close>

definition names_request :: "string \<Rightarrow> reply \<Rightarrow> bool" where
  "names_request i r \<longleftrightarrow> (''x-request-id'', i) \<in> set (rp_headers r)"

lemma replies_named:
  "names_request i (json_reply lib i r)" "names_request i (stream_reply lib i s)"
  by (simp_all add: names_request_def json_reply_def stream_reply_def Let_def)

lemma log_fields [simp]:
  "rl_id (new_log c i e payload name took status err) = i"
  "rl_status (new_log c i e payload name took status err) = status"
  "rl_error (new_log c i e payload name took status err) = err"
  "rl_id (attempt_log d l) = rl_id l" "rl_status (attempt_log d l) = rl_status l"
  "rl_error (attempt_log d l) = rl_error l"
  "rl_attempts (attempt_log d l) = int (length (rd_tried d))"
  "rl_provider_id (attempt_log d l) = map_option at_provider_id (last_attempt d)"
  "rl_id (usage_log u cost l) = rl_id l" "rl_status (usage_log u cost l) = rl_status l"
  "rl_error (usage_log u cost l) = rl_error l" "rl_attempts (usage_log u cost l) = rl_attempts l"
  "rl_provider_id (usage_log u cost l) = rl_provider_id l"
  by (simp_all add: new_log_def attempt_log_def usage_log_def Let_def)

lemma good_trail_last:
  assumes "good_trail e ps (rd_tried d)"
  shows "\<exists>a. last_attempt d = Some a \<and> answering_attempt ps a"
  using assms by (auto simp: good_trail_def last_attempt_def)

text \<open>The row of an answered request shows the attempt that answered it.\<close>

definition logs_answer :: "provider list \<Rightarrow> new_request_log \<Rightarrow> bool" where
  "logs_answer ps l \<longleftrightarrow> rl_error l = None \<and> 1 \<le> rl_attempts l
     \<and> (\<exists>a. answering_attempt ps a \<and> rl_provider_id l = Some (at_provider_id a)
          \<and> rl_status l = int (at_status a))"

lemma logs_answerI:
  assumes "good_trail e ps (rd_tried d)"
  shows "logs_answer ps (attempt_log d (new_log c i e payload name took (last_status d) None))"
  using good_trail_last [OF assms] assms
  by (auto simp: logs_answer_def last_status_def good_trail_def)

lemma logs_answer_cong [simp]:
  "logs_answer ps (usage_log u cost l) = logs_answer ps l"
  "logs_answer ps (l\<lparr>rl_is_stream := b\<rparr>) = logs_answer ps l"
  by (simp_all add: logs_answer_def)

lemma route_json_logged:
  assumes "route_json sv fresh took e payload suff hs pass auth st = Done (r, tasks, st')"
    and ctx: "cache_from_headers hs auth = Inr ctx"
  defines "i \<equiv> passed_request_id fresh pass"
  shows "\<exists>t. tasks = [t] \<and> rl_id (task_log t) = i
     \<and> (case r of
          Inl err \<Rightarrow> rl_status (task_log t) = int (status_code err) \<and> rl_error (task_log t) \<noteq> None
        | Inr reply \<Rightarrow> names_request i reply
            \<and> logs_answer (available_providers (now_of (sv_env sv) st) e (rt_db st)) (task_log t))"
proof -
  let ?ps = "available_providers (now_of (sv_env sv) st) e (rt_db st)"
  obtain x st1 where run: "route sv e payload suff pass i ctx st = Done (x, st1)"
    using assms(1) ctx by (auto simp: route_json_def i_def Let_def split: outcome.splits)
  show ?thesis
  proof (cases x)
    case (Inl err)
    then show ?thesis using assms(1) ctx run by (auto simp: route_json_def i_def Let_def)
  next
    case (Inr answer)
    have "good_trail e ?ps (rd_tried (routed_debug answer))"
      using route_answer [OF run [unfolded Inr]] by blast
    note logged = logs_answerI [OF this, where c = "sv_lib sv" and i = i
        and payload = payload and name = "key_name_of auth" and took = took]
    show ?thesis
      using assms(1) ctx run Inr logged
      by (cases answer) (auto simp: route_json_def i_def Let_def replies_named)
  qed
qed

end
