(* ===== verification/Admin_Routes.thy ===== *)
theory Admin_Routes
  imports Presets OAuth Auth RateLimits
begin

text \<open>
  The management interface of \<open>src/routes.rs\<close>: the handlers under \<open>/api\<close>, the guard in front of
  them, and the views of accounts, sessions and keys that leave the router. A handler is a
  \<open>minting\<close>: it takes the database and the number of identifiers drawn, and what it wrote before
  an error stays.
\<close>

section \<open>Views\<close>

text \<open>\<open>ProviderAccountResponse\<close>: secrets are reduced to whether they are there.\<close>

record account_view =
  av_id :: string
  av_provider_connection_id :: string
  av_label :: "string option"
  av_auth_mode :: auth_mode
  av_has_api_key :: bool
  av_has_access_token :: bool
  av_has_refresh_token :: bool
  av_expires_at :: "timestamp option"
  av_scopes :: "string list"
  av_remote_account_id :: "string option"
  av_remote_email :: "string option"
  av_enabled :: bool
  av_priority :: int
  av_last_used_at :: "timestamp option"
  av_rate_limited_until :: "timestamp option"
  av_circuit_open_until :: "timestamp option"
  av_last_error :: "string option"
  av_last_error_type :: "string option"
  av_last_refresh_at :: "timestamp option"
  av_refresh_error :: "string option"
  av_backoff_level :: int
  av_consecutive_use_count :: int
  av_proxy_url :: "string option"
  av_base_url :: "string option"
  av_protocol_format :: "string option"
  av_supported_endpoints :: "string list option"
  av_created_at :: timestamp
  av_updated_at :: timestamp

definition account_view_of :: "account \<Rightarrow> account_view" where
  "account_view_of a =
     \<lparr>av_id = a_id a, av_provider_connection_id = a_provider_connection_id a, av_label = a_label a,
      av_auth_mode = a_auth_mode a, av_has_api_key = has_usable_secret (a_api_key a),
      av_has_access_token = has_usable_secret (a_access_token a),
      av_has_refresh_token = has_usable_secret (a_refresh_token a), av_expires_at = a_expires_at a,
      av_scopes = a_scopes a, av_remote_account_id = a_remote_account_id a,
      av_remote_email = a_remote_email a, av_enabled = a_enabled a, av_priority = a_priority a,
      av_last_used_at = a_last_used_at a, av_rate_limited_until = a_rate_limited_until a,
      av_circuit_open_until = a_circuit_open_until a, av_last_error = a_last_error a,
      av_last_error_type = a_last_error_type a, av_last_refresh_at = a_last_refresh_at a,
      av_refresh_error = a_refresh_error a, av_backoff_level = a_backoff_level a,
      av_consecutive_use_count = a_consecutive_use_count a, av_proxy_url = a_proxy_url a,
      av_base_url = a_base_url a, av_protocol_format = a_protocol_format a,
      av_supported_endpoints = a_supported_endpoints a, av_created_at = a_created_at a,
      av_updated_at = a_updated_at a\<rparr>"

text \<open>\<open>OAuthSessionResponse\<close>: everything but the code verifier.\<close>

record session_view =
  sw_id :: string
  sw_state :: string
  sw_provider_connection_id :: string
  sw_provider_account_id :: "string option"
  sw_redirect_uri :: string
  sw_scopes :: "string list"
  sw_proxy_url :: "string option"
  sw_created_at :: timestamp
  sw_expires_at :: timestamp
  sw_consumed_at :: "timestamp option"

definition session_view_of :: "oauth_session \<Rightarrow> session_view" where
  "session_view_of s =
     \<lparr>sw_id = s_id s, sw_state = s_state s, sw_provider_connection_id = s_provider_connection_id s,
      sw_provider_account_id = s_provider_account_id s, sw_redirect_uri = s_redirect_uri s,
      sw_scopes = s_scopes s, sw_proxy_url = s_proxy_url s, sw_created_at = s_created_at s,
      sw_expires_at = s_expires_at s, sw_consumed_at = s_consumed_at s\<rparr>"

text \<open>\<open>ApiKeyRecord\<close>: everything but the hash.\<close>

record key_view =
  kv_id :: string
  kv_name :: string
  kv_key_prefix :: string
  kv_allowed_models :: "string list"
  kv_is_active :: bool
  kv_last_used_at :: "timestamp option"
  kv_usage_count :: int
  kv_created_at :: timestamp
  kv_updated_at :: timestamp

definition key_view_of :: "api_key_row \<Rightarrow> key_view" where
  "key_view_of k =
     \<lparr>kv_id = k_id k, kv_name = k_name k, kv_key_prefix = k_key_prefix k,
      kv_allowed_models = k_allowed_models k, kv_is_active = k_is_active k,
      kv_last_used_at = k_last_used_at k, kv_usage_count = k_usage_count k,
      kv_created_at = k_created_at k, kv_updated_at = k_updated_at k\<rparr>"

section \<open>Listings\<close>

definition list_api_keys :: "db \<Rightarrow> key_view list" where
  "list_api_keys d = map key_view_of (sort_key (\<lambda>k. - k_created_at k) (db_api_keys d))"

definition list_aliases :: "db \<Rightarrow> (string \<times> string) list" where
  "list_aliases d = sort_key fst (db_aliases d)"

definition is_local_callback :: "string \<Rightarrow> bool" where
  "is_local_callback redirect_uri =
     (let uri = trim redirect_uri
      in starts_with uri ''http://localhost:1455'' \<or> starts_with uri ''http://127.0.0.1:1455'')"

section \<open>Requests and replies\<close>

text \<open>One constructor per route of \<open>router\<close> under \<open>/api\<close>, with what its path, query and body give.\<close>

datatype api_request =
    ListProviders
  | CreateProvider new_provider
  | ListPresets
  | ImportPreset import_request
  | ListAccounts string
  | CreateAccount new_account
  | StartOAuth string "string option" string "string option"
  | CompleteOAuth string string
  | RefreshAccount string
  | SetAccountProxy string "string option"
  | EnableAccount string bool
  | DeleteAccount string
  | ListCombos
  | CreateCombo new_combo
  | ListAliases
  | UpsertAlias string string
  | DeleteAlias string
  | GetSettings
  | PutSettings json
  | GetRatelimits
  | ListLogs "int option"
  | GetLog string
  | ClearLogs
  | ListKeys
  | CreateKey string "string list"
  | RevokeKey string

datatype api_reply =
    Providers "provider list"
  | ProviderRow provider
  | PresetList "provider_preset list"
  | Accounts "account_view list"
  | AccountRow account_view
  | OAuthStarted session_view string bool
  | Combos "combo list"
  | ComboRow combo
  | Aliases "(string \<times> string) list"
  | Ratelimits "rate_limit_state list"
  | LogRows "request_log list"
  | LogDetail request_log "request_debug_log list" "response_debug_log list"
  | Keys "key_view list"
  | KeyCreated api_key_created
  | Value json

text \<open>
  What a request draws on: the time, new identifiers, the text of a violated constraint, the proxy
  check and client cache, the OAuth endpoints, the values drawn at random, the tracked rate
  limits, and the authentication library.
\<close>

record api_env =
  ae_now :: timestamp
  ae_fresh :: "nat \<Rightarrow> string"
  ae_conflict :: string
  ae_proxy_error :: "string \<Rightarrow> string option"
  ae_client :: "string option \<Rightarrow> unit app_result"
  ae_authorize :: "oauth_provider \<Rightarrow> string \<Rightarrow> string \<Rightarrow> string list \<Rightarrow> string app_result"
  ae_exchange :: "oauth_provider \<Rightarrow> oauth_session \<Rightarrow> string \<Rightarrow> token_grant app_result"
  ae_refresh :: "oauth_provider \<Rightarrow> string \<Rightarrow> token_grant app_result"
  ae_state :: string
  ae_verifier :: string
  ae_random :: "char list"
  ae_ratelimits :: tracker
  ae_auth :: auth_lib

section \<open>Lifting repository operations\<close>

definition reply_with :: "'a app_result \<Rightarrow> 'a minting" where
  "reply_with r s = (r, s)"

text \<open>An operation on the database that draws nothing, and one that may draw an identifier.\<close>

definition on_db :: "(db \<Rightarrow> 'a app_result \<times> db) \<Rightarrow> 'a minting" where
  "on_db f s = (let (r, d) = f (fst s) in (r, d, snd s))"

definition drawing :: "(nat \<Rightarrow> string) \<Rightarrow> (string \<Rightarrow> db \<Rightarrow> 'a app_result \<times> db) \<Rightarrow> 'a minting" where
  "drawing fresh f s = (let (r, d) = f (fresh (snd s)) (fst s) in (r, d, Suc (snd s)))"

definition reading :: "(db \<Rightarrow> 'a app_result) \<Rightarrow> 'a minting" where
  "reading f s = (f (fst s), s)"

text \<open>A statement that fails as a whole leaves the database as it was.\<close>

definition atomic :: "(db \<Rightarrow> ('a \<times> db) app_result) \<Rightarrow> db \<Rightarrow> 'a app_result \<times> db" where
  "atomic f d = (case f d of Inl e \<Rightarrow> (Inl e, d) | Inr (a, d') \<Rightarrow> (Inr a, d'))"

text \<open>A statement that says whether it has changed a row; if not, there is none.\<close>

definition found_or :: "app_error \<Rightarrow> 'a \<Rightarrow> bool \<times> db \<Rightarrow> 'a app_result \<times> db" where
  "found_or e a r = (if fst r then Inr a else Inl e, snd r)"

section \<open>Handlers\<close>

definition list_providers :: "api_env \<Rightarrow> api_reply minting" where
  "list_providers ae =
     and_then (ensure_builtin_provider_connections (ae_now ae) (ae_fresh ae) (ae_proxy_error ae))
       (\<lambda>_. reading (\<lambda>d. Inr (Providers (list_provider_connections d))))"

definition create_provider :: "api_env \<Rightarrow> new_provider \<Rightarrow> api_reply minting" where
  "create_provider ae np =
     and_then (mint_provider (ae_now ae) (ae_fresh ae) np) (\<lambda>p. reply_with (Inr (ProviderRow p)))"

definition import_provider_preset :: "api_env \<Rightarrow> import_request \<Rightarrow> api_reply minting" where
  "import_provider_preset ae im =
     and_then (reply_with (import_request_to_provider im)) (create_provider ae)"

definition list_accounts_handler :: "string \<Rightarrow> api_reply minting" where
  "list_accounts_handler i =
     reading (\<lambda>d. rbind (ok_or (NotFound (''provider connection '' @ i)) (find_provider_connection_by_id i d))
       (\<lambda>_. Inr (Accounts (map account_view_of (list_provider_accounts i d)))))"

definition create_account_handler :: "api_env \<Rightarrow> new_account \<Rightarrow> api_reply minting" where
  "create_account_handler ae na =
     and_then (drawing (ae_fresh ae) (\<lambda>i. atomic (create_provider_account (ae_now ae) i (ae_proxy_error ae) na)))
       (\<lambda>a. reply_with (Inr (AccountRow (account_view_of a))))"

text \<open>An account to authorize again must belong to the connection named.\<close>

definition check_owner :: "string \<Rightarrow> string option \<Rightarrow> db \<Rightarrow> unit app_result" where
  "check_owner connection account d =
     (case account of None \<Rightarrow> Inr ()
      | Some i \<Rightarrow>
          rbind (ok_or (account_missing i) (get_provider_account i d)) (\<lambda>a.
            if a_provider_connection_id a = connection then Inr ()
            else Inl (BadRequest (''provider account '' @ quoted i
              @ '' does not belong to provider connection '' @ quoted connection))))"

definition start_provider_account_oauth ::
  "api_env \<Rightarrow> string \<Rightarrow> string option \<Rightarrow> string \<Rightarrow> string option \<Rightarrow> api_reply minting" where
  "start_provider_account_oauth ae connection account redirect_uri proxy_url =
     and_then (reading (check_owner connection account)) (\<lambda>_.
     and_then (drawing (ae_fresh ae) (\<lambda>i. start_authorization (ae_now ae) (ae_proxy_error ae)
         (ae_authorize ae) i (ae_conflict ae) (ae_state ae) (ae_verifier ae) connection account
         redirect_uri proxy_url)) (\<lambda>(s, url).
       reply_with (Inr (OAuthStarted (session_view_of s) url (is_local_callback redirect_uri)))))"

definition complete_provider_account_oauth :: "api_env \<Rightarrow> string \<Rightarrow> string \<Rightarrow> api_reply minting" where
  "complete_provider_account_oauth ae state code =
     and_then (drawing (ae_fresh ae) (\<lambda>i. complete_authorization (ae_now ae) (ae_proxy_error ae)
         (ae_client ae) (ae_exchange ae) i state code))
       (\<lambda>a. reply_with (Inr (AccountRow (account_view_of a))))"

definition refresh_account_handler :: "api_env \<Rightarrow> string \<Rightarrow> api_reply minting" where
  "refresh_account_handler ae i =
     and_then (on_db (refresh_provider_account (ae_now ae) (ae_client ae) (ae_refresh ae) i))
       (\<lambda>a. reply_with (Inr (AccountRow (account_view_of a))))"

definition set_provider_account_proxy :: "api_env \<Rightarrow> string \<Rightarrow> string option \<Rightarrow> api_reply minting" where
  "set_provider_account_proxy ae i url =
     and_then (reply_with (normalize_proxy_url (ae_proxy_error ae) url)) (\<lambda>url.
     and_then (on_db (atomic (update_provider_account_proxy (ae_now ae) (ae_proxy_error ae) i url))) (\<lambda>updated.
     and_then (reply_with (if updated then Inr () else Inl (account_missing i))) (\<lambda>_.
       reading (\<lambda>d. rbind (ok_or (account_missing i) (get_provider_account i d))
         (\<lambda>a. Inr (AccountRow (account_view_of a)))))))"

definition enable_provider_account :: "api_env \<Rightarrow> string \<Rightarrow> bool \<Rightarrow> api_reply minting" where
  "enable_provider_account ae i b =
     on_db (\<lambda>d. found_or (account_missing i)
       (Value (json_obj [(''status'', JStr ''ok''), (''id'', JStr i), (''enabled'', JBool b)]))
       (set_provider_account_enabled (ae_now ae) i b d))"

definition delete_account_handler :: "string \<Rightarrow> api_reply minting" where
  "delete_account_handler i =
     on_db (\<lambda>d. found_or (account_missing i)
       (Value (json_obj [(''status'', JStr ''ok''), (''id'', JStr i)])) (delete_provider_account i d))"

definition create_combo_handler :: "api_env \<Rightarrow> new_combo \<Rightarrow> api_reply minting" where
  "create_combo_handler ae nc =
     and_then (drawing (ae_fresh ae) (\<lambda>i. atomic (create_combo (ae_now ae) i (ae_conflict ae) nc)))
       (\<lambda>c. reply_with (Inr (ComboRow c)))"

definition upsert_alias_handler :: "string \<Rightarrow> string \<Rightarrow> api_reply minting" where
  "upsert_alias_handler alias_name target =
     on_db (\<lambda>d. (Inr (Value (json_obj [(''alias'', JStr alias_name), (''target'', JStr target)])),
       upsert_alias alias_name target d))"

definition delete_alias_handler :: "string \<Rightarrow> api_reply minting" where
  "delete_alias_handler alias_name =
     on_db (\<lambda>d. found_or (NotFound (''alias '' @ alias_name))
       (Value (json_obj [(''ok'', JBool True), (''alias'', JStr alias_name)])) (delete_alias alias_name d))"

text \<open>The settings are written one by one and then listed, which fails on an unreadable row.\<close>

definition put_settings_handler :: "api_env \<Rightarrow> json \<Rightarrow> api_reply minting" where
  "put_settings_handler ae payload =
     and_then (on_db (atomic (\<lambda>d. rbind (put_settings (ae_auth ae) payload d) (\<lambda>d'. Inr ((), d'))))) (\<lambda>_.
       reading (\<lambda>d. rbind (get_settings (ae_auth ae) d) (\<lambda>v. Inr (Value v))))"

definition log_limit :: "int option \<Rightarrow> nat" where
  "log_limit limit = nat (max 1 (min 1000 (unwrap_or 200 limit)))"

definition list_logs_handler :: "int option \<Rightarrow> api_reply minting" where
  "list_logs_handler limit =
     reading (\<lambda>d. Inr (LogRows (list_request_logs (log_limit limit) d)))"

definition get_request_log_detail :: "string \<Rightarrow> api_reply minting" where
  "get_request_log_detail i =
     reading (\<lambda>d. rbind (ok_or (NotFound (''request log '' @ i)) (get_request_log i d)) (\<lambda>l.
       Inr (LogDetail l (list_request_debug_logs_for_request i d)
         (list_response_debug_logs_for_request i d))))"

definition clear_logs_handler :: "api_reply minting" where
  "clear_logs_handler =
     on_db (\<lambda>d. let (n, d) = clear_request_logs d
       in (Inr (Value (json_obj [(''status'', JStr ''ok''), (''deleted'', JNum (PosInt (of_nat n)))])), d))"

definition create_key_handler :: "api_env \<Rightarrow> string \<Rightarrow> string list \<Rightarrow> api_reply minting" where
  "create_key_handler ae name allowed =
     and_then (drawing (ae_fresh ae) (\<lambda>i. atomic (issue_api_key (ae_now ae) (ae_conflict ae) (ae_auth ae) i
         (ae_random ae) name allowed)))
       (\<lambda>k. reply_with (Inr (KeyCreated k)))"

definition revoke_key_handler :: "string \<Rightarrow> api_reply minting" where
  "revoke_key_handler i =
     on_db (\<lambda>d. found_or (NotFound (''API key '' @ i))
       (Value (json_obj [(''status'', JStr ''ok''), (''id'', JStr i)])) (revoke_api_key i d))"

section \<open>The management interface\<close>

text \<open>Which handler a request reaches once it is past the guard.\<close>

fun api_handler :: "api_env \<Rightarrow> api_request \<Rightarrow> api_reply minting" where
  "api_handler ae ListProviders = list_providers ae"
| "api_handler ae (CreateProvider np) = create_provider ae np"
| "api_handler ae ListPresets = reply_with (Inr (PresetList provider_presets))"
| "api_handler ae (ImportPreset im) = import_provider_preset ae im"
| "api_handler ae (ListAccounts i) = list_accounts_handler i"
| "api_handler ae (CreateAccount na) = create_account_handler ae na"
| "api_handler ae (StartOAuth c a u p) = start_provider_account_oauth ae c a u p"
| "api_handler ae (CompleteOAuth s c) = complete_provider_account_oauth ae s c"
| "api_handler ae (RefreshAccount i) = refresh_account_handler ae i"
| "api_handler ae (SetAccountProxy i u) = set_provider_account_proxy ae i u"
| "api_handler ae (EnableAccount i b) = enable_provider_account ae i b"
| "api_handler ae (DeleteAccount i) = delete_account_handler i"
| "api_handler ae ListCombos = reading (\<lambda>d. Inr (Combos (list_combos d)))"
| "api_handler ae (CreateCombo nc) = create_combo_handler ae nc"
| "api_handler ae ListAliases = reading (\<lambda>d. Inr (Aliases (list_aliases d)))"
| "api_handler ae (UpsertAlias a t) = upsert_alias_handler a t"
| "api_handler ae (DeleteAlias a) = delete_alias_handler a"
| "api_handler ae GetSettings = reading (\<lambda>d. rbind (get_settings (ae_auth ae) d) (\<lambda>v. Inr (Value v)))"
| "api_handler ae (PutSettings v) = put_settings_handler ae v"
| "api_handler ae GetRatelimits = reply_with (Inr (Ratelimits (get_all_states (ae_ratelimits ae))))"
| "api_handler ae (ListLogs limit) = list_logs_handler limit"
| "api_handler ae (GetLog i) = get_request_log_detail i"
| "api_handler ae ClearLogs = clear_logs_handler"
| "api_handler ae ListKeys = reading (\<lambda>d. Inr (Keys (list_api_keys d)))"
| "api_handler ae (CreateKey name allowed) = create_key_handler ae name allowed"
| "api_handler ae (RevokeKey i) = revoke_key_handler i"

definition api :: "api_env \<Rightarrow> headers \<Rightarrow> api_request \<Rightarrow> api_reply minting" where
  "api ae hs req =
     and_then (on_db (management_auth (ae_now ae) (ae_auth ae) hs)) (\<lambda>ctx. api_handler ae req)"

section \<open>The public authentication routes\<close>

datatype auth_request = AuthStatus | AuthSetup string | AuthLogin string | AuthLogout

datatype auth_reply = Status bool bool | Done_Setup | Cookie string

definition auth_status :: "auth_lib \<Rightarrow> db \<Rightarrow> auth_reply" where
  "auth_status lib d = Status (get_setting_bool ''require_auth'' d) (is_admin_configured lib d)"

definition auth_logout :: auth_reply where
  "auth_logout = Cookie ''kou_auth=; Path=/; HttpOnly; SameSite=Lax; Max-Age=0''"

fun auth_api :: "auth_lib \<Rightarrow> string \<Rightarrow> auth_request \<Rightarrow> db \<Rightarrow> auth_reply app_result \<times> db" where
  "auth_api lib new_secret AuthStatus d = (Inr (auth_status lib d), d)"
| "auth_api lib new_secret (AuthSetup password) d =
     (case auth_setup lib new_secret password d of
        (Inl e, d) \<Rightarrow> (Inl e, d) | (Inr u, d) \<Rightarrow> (Inr Done_Setup, d))"
| "auth_api lib new_secret (AuthLogin password) d =
     (rbind (auth_login lib password d) (\<lambda>cookie. Inr (Cookie cookie)), d)"
| "auth_api lib new_secret AuthLogout d = (Inr auth_logout, d)"

end
