(* ===== verification/Admin_Facts.thy ===== *)
theory Admin_Facts
  imports Admin_Routes Route_Facts
begin

text \<open>
  Every management request, whatever it does, is a sequence of repository statements; what they
  keep, the interface keeps. Without a credential a request gets no further than the guard.
\<close>

section \<open>Sequences of statements\<close>

definition keeps :: "(db \<times> nat \<Rightarrow> db \<times> nat \<Rightarrow> bool) \<Rightarrow> 'a minting \<Rightarrow> bool" where
  "keeps R m \<longleftrightarrow> (\<forall>s. R s (snd (m s)))"

lemma keepsD: "keeps R m \<Longrightarrow> m s = (r, s') \<Longrightarrow> R s s'"
  by (metis keeps_def snd_conv)

locale progress =
  fixes R :: "db \<times> nat \<Rightarrow> db \<times> nat \<Rightarrow> bool"
  assumes stay: "R s s" and onward: "R s t \<Longrightarrow> R t v \<Longrightarrow> R s v"
begin

lemma reply_with: "keeps R (reply_with r)"
  by (simp add: keeps_def reply_with_def stay)

lemma reading: "keeps R (reading f)"
  by (simp add: keeps_def reading_def stay)

lemma and_then:
  assumes "keeps R m" and "\<And>a. keeps R (f a)"
  shows "keeps R (and_then m f)"
  unfolding keeps_def
proof
  fix s
  obtain r d n where out: "m s = (r, d, n)" by (cases "m s")
  then have "R s (d, n)" using assms(1) keepsD by blast
  then show "R s (snd (and_then m f s))"
    using assms(2) onward by (cases r) (auto simp: and_then_def out keeps_def)
qed

lemma each_in_turn:
  assumes "\<And>x. keeps R (f x)"
  shows "keeps R (each_in_turn f xs)"
proof (induction xs)
  case (Cons x xs)
  show ?case
    unfolding keeps_def
  proof
    fix s
    obtain r d n where out: "f x s = (r, d, n)" by (cases "f x s")
    then have "R s (d, n)" using assms keepsD by blast
    then show "R s (snd (each_in_turn f (x # xs) s))"
      using Cons onward by (cases r) (auto simp: out keeps_def)
  qed
qed (simp add: keeps_def stay)

end

section \<open>What was drawn stays new\<close>

definition unused :: "(nat \<Rightarrow> string) \<Rightarrow> nat \<Rightarrow> string set \<Rightarrow> bool" where
  "unused fresh n u \<longleftrightarrow> (\<forall>k \<ge> n. fresh k \<notin> u)"

definition minted :: "(nat \<Rightarrow> string) \<Rightarrow> db \<times> nat \<Rightarrow> db \<times> nat \<Rightarrow> bool" where
  "minted fresh s s' \<longleftrightarrow>
     (\<forall>u. unused fresh (snd s) u \<longrightarrow> (\<exists>u'. unused fresh (snd s') u'
        \<and> db_step\<^sup>*\<^sup>* \<lparr>w_used = u, w_db = fst s\<rparr> \<lparr>w_used = u', w_db = fst s'\<rparr>))"

interpretation statements: progress "minted fresh" for fresh
proof
  show "minted fresh s s" for s by (auto simp: minted_def)
  show "minted fresh s v" if "minted fresh s t" "minted fresh t v" for s t v
    using that unfolding minted_def by (meson rtranclp_trans)
qed

lemma keeps_on_db:
  assumes "\<And>d. db_moves d (snd (f d))"
  shows "keeps (minted fresh) (on_db f)"
  using assms by (auto simp: keeps_def minted_def on_db_def db_moves_def case_prod_unfold Let_def)

text \<open>A statement that takes one new identifier.\<close>

definition takes_new :: "(string \<Rightarrow> db \<Rightarrow> 'a app_result \<times> db) \<Rightarrow> bool" where
  "takes_new f \<longleftrightarrow> (\<forall>i d u. i \<notin> u \<longrightarrow> (\<exists>u'. u' \<subseteq> insert i u
     \<and> db_step\<^sup>*\<^sup>* \<lparr>w_used = u, w_db = d\<rparr> \<lparr>w_used = u', w_db = snd (f i d)\<rparr>))"

lemma keeps_drawing:
  assumes "inj fresh" and "takes_new f"
  shows "keeps (minted fresh) (drawing fresh f)"
  unfolding keeps_def minted_def
proof (intro allI impI)
  fix s :: "db \<times> nat" and u
  assume u: "unused fresh (snd s) u"
  then have new: "fresh (snd s) \<notin> u" by (simp add: unused_def)
  from assms(2) [unfolded takes_new_def, rule_format, OF new, of "fst s"] obtain u' where u': "u' \<subseteq> insert (fresh (snd s)) u"
    and steps: "db_step\<^sup>*\<^sup>* \<lparr>w_used = u, w_db = fst s\<rparr>
      \<lparr>w_used = u', w_db = snd (f (fresh (snd s)) (fst s))\<rparr>"
    by blast
  have "fresh k \<notin> u'" if "Suc (snd s) \<le> k" for k
  proof -
    have "fresh k \<noteq> fresh (snd s)" using that injD [OF assms(1)] by fastforce
    moreover have "fresh k \<notin> u" using u that by (simp add: unused_def)
    ultimately show ?thesis using u' by blast
  qed
  then show "\<exists>u'. unused fresh (snd (snd (drawing fresh f s))) u'
      \<and> db_step\<^sup>*\<^sup>* \<lparr>w_used = u, w_db = fst s\<rparr> \<lparr>w_used = u', w_db = fst (snd (drawing fresh f s))\<rparr>"
    using steps by (intro exI [of _ u']) (auto simp: drawing_def unused_def case_prod_unfold Let_def)
qed

section \<open>The handlers are sequences of statements\<close>

lemma db_moves_stepI:
  "(\<And>u. db_step \<lparr>w_used = u, w_db = d\<rparr> \<lparr>w_used = u, w_db = snd (f d)\<rparr>) \<Longrightarrow> db_moves d (snd (f d))"
  by (rule db_movesI)

lemma moves_atomic:
  "(\<And>a d'. f d = Inr (a, d') \<Longrightarrow> db_moves d d') \<Longrightarrow> db_moves d (snd (atomic f d))"
  by (auto simp: atomic_def split: sum.split)

lemma snd_found_or [simp]: "snd (found_or e a r) = snd r"
  by (simp add: found_or_def)

lemma takes_new_atomic:
  assumes "\<And>i d a d' u. i \<notin> u \<Longrightarrow> f i d = Inr (a, d')
     \<Longrightarrow> db_step \<lparr>w_used = u, w_db = d\<rparr> \<lparr>w_used = insert i u, w_db = d'\<rparr>"
  shows "takes_new (\<lambda>i. atomic (f i))"
  unfolding takes_new_def
proof (intro allI impI)
  fix i :: string and u and d :: db
  assume new: "i \<notin> u"
  show "\<exists>u'. u' \<subseteq> insert i u
      \<and> db_step\<^sup>*\<^sup>* \<lparr>w_used = u, w_db = d\<rparr> \<lparr>w_used = u', w_db = snd (atomic (f i) d)\<rparr>"
  proof (cases "f i d")
    case (Inl e)
    then show ?thesis by (auto simp: atomic_def)
  next
    case (Inr ad)
    obtain a d' where ad: "ad = (a, d')" by (cases ad)
    have "db_step \<lparr>w_used = u, w_db = d\<rparr> \<lparr>w_used = insert i u, w_db = d'\<rparr>"
      using assms [OF new] Inr ad by blast
    then show ?thesis
      by (intro exI [of _ "insert i u"]) (simp add: atomic_def Inr ad r_into_rtranclp)
  qed
qed

lemma moves_settings: "put_settings c payload d = Inr d' \<Longrightarrow> db_moves d d'"
proof -
  have "db_moves d (fold (\<lambda>(k, v). set_setting k (json_print c v)) ob d)" for ob
  proof (induction ob arbitrary: d)
    case (Cons kv ob)
    have "db_moves d (set_setting (fst kv) (json_print c (snd kv)) d)"
      by (intro db_movesI step_set_setting)
    then show ?case using Cons by (auto simp: case_prod_unfold intro: db_moves_trans)
  qed simp
  then show "put_settings c payload d = Inr d' \<Longrightarrow> ?thesis"
    by (auto simp: put_settings_def split: json.splits)
qed

lemma moves_management: "db_moves d (snd (management_auth now lib hs d))"
  by (auto simp: management_auth_def validate_api_key_def intro: db_movesI step_touch_key
      split: option.split)

lemma moves_account_proxy:
  "update_provider_account_proxy now pe i url d = Inr (b, d') \<Longrightarrow> db_moves d d'"
  by (intro db_movesI step_account_proxy)

lemma complete_begin_moves: "complete_begin now state d = (r, d') \<Longrightarrow> db_moves d d'"
  unfolding db_moves_def using complete_begin_steps by blast

lemma complete_finish_new:
  assumes "complete_finish now pe i s g d = (r, d')" and "i \<notin> u"
  shows "\<exists>u'. u' \<subseteq> insert i u \<and> db_step\<^sup>*\<^sup>* \<lparr>w_used = u, w_db = d\<rparr> \<lparr>w_used = u', w_db = d'\<rparr>"
proof -
  obtain consumed d1 where mark: "mark_oauth_session_consumed now (s_id s) d = (consumed, d1)"
    by fastforce
  have first: "db_step \<lparr>w_used = u, w_db = d\<rparr> \<lparr>w_used = u, w_db = d1\<rparr>" by (rule step_consume [OF mark])
  show ?thesis
  proof (cases consumed)
    case False
    then show ?thesis using assms(1) mark first by (auto simp: complete_finish_def)
  next
    case True
    obtain r2 d2 where store: "store_grant now pe i s g d1 = (r2, d2)" by fastforce
    obtain u' where u': "u' \<subseteq> insert i u"
      and steps: "db_step\<^sup>*\<^sup>* \<lparr>w_used = u, w_db = d1\<rparr> \<lparr>w_used = u', w_db = d2\<rparr>"
      using store_grant_steps [OF store assms(2)] by blast
    have "d' = d2 \<or> d' = snd (delete_oauth_session (s_id s) d2)"
      using assms(1) mark store True by (auto simp: complete_finish_def split: sum.splits)
    then have "db_step\<^sup>*\<^sup>* \<lparr>w_used = u', w_db = d2\<rparr> \<lparr>w_used = u', w_db = d'\<rparr>"
      using step_delete_session [OF surjective_pairing] by blast
    then show ?thesis
      using u' steps first by (meson converse_rtranclp_into_rtranclp rtranclp_trans)
  qed
qed

lemma takes_new_complete:
  "takes_new (\<lambda>i. complete_authorization now pe client exchange i state code)"
  unfolding takes_new_def
proof (intro allI impI)
  fix i :: string and d and u
  assume new: "i \<notin> u"
  let ?out = "complete_authorization now pe client exchange i state code d"
  obtain r1 d1 where begun: "complete_begin now state d = (r1, d1)" by fastforce
  then have "db_moves d d1" by (rule complete_begin_moves)
  then have first: "db_step\<^sup>*\<^sup>* \<lparr>w_used = u, w_db = d\<rparr> \<lparr>w_used = u, w_db = d1\<rparr>" by (simp add: db_moves_def)
  have "snd ?out = d1 \<or> (\<exists>s g. snd ?out = snd (complete_finish now pe i s g d1))"
    by (auto simp: complete_authorization_def begun split: sum.split)
  then show "\<exists>u'. u' \<subseteq> insert i u
      \<and> db_step\<^sup>*\<^sup>* \<lparr>w_used = u, w_db = d\<rparr> \<lparr>w_used = u', w_db = snd ?out\<rparr>"
  proof
    assume "snd ?out = d1"
    then show ?thesis using first by auto
  next
    assume "\<exists>s g. snd ?out = snd (complete_finish now pe i s g d1)"
    then obtain s g where out: "snd ?out = snd (complete_finish now pe i s g d1)" by blast
    show ?thesis
      using complete_finish_new [OF surjective_pairing new] first
      unfolding out by (meson rtranclp_trans)
  qed
qed

lemma takes_new_start:
  "takes_new (\<lambda>i. start_authorization now pe authorize i conflict state verifier c a uri proxy)"
  unfolding takes_new_def
proof (intro allI impI)
  fix i :: string and d and u
  assume new: "i \<notin> u"
  let ?out = "start_authorization now pe authorize i conflict state verifier c a uri proxy d"
  let ?d0 = "snd (delete_expired_oauth_sessions now d)"
  have "db_moves d ?d0" by (intro db_movesI step_expire_sessions [OF surjective_pairing])
  have proxied: "db_moves ?d0 d1"
    if "(case a of None \<Rightarrow> Inr ?d0
      | Some a \<Rightarrow> rbind (update_provider_account_proxy now pe a p ?d0) (\<lambda>r. Inr (snd r))) = Inr d1" for p d1
    using that by (auto simp: rbind_Inr dest: moves_account_proxy split: option.splits)
  have "snd ?out = ?d0 \<or> (\<exists>d1. db_moves ?d0 d1 \<and> (snd ?out = d1
      \<or> (\<exists>ns s. create_oauth_session now i conflict ns d1 = Inr (s, snd ?out))))"
  proof (cases "find_provider_connection_by_id c ?d0")
    case None
    then show ?thesis by (simp add: start_authorization_def Let_def)
  next
    case (Some p)
    show ?thesis
    proof (cases "oauth_provider_from_id (p_provider p)")
      case (Inl e)
      then show ?thesis using Some by (simp add: start_authorization_def Let_def)
    next
      case prov: (Inr prov)
      show ?thesis
      proof (cases "normalize_proxy_url pe proxy")
        case (Inl e)
        then show ?thesis using Some prov by (simp add: start_authorization_def Let_def)
      next
        case url: (Inr url)
        let ?proxied = "case a of None \<Rightarrow> Inr ?d0
          | Some a \<Rightarrow> rbind (update_provider_account_proxy now pe a url ?d0) (\<lambda>r. Inr (snd r))"
        show ?thesis
        proof (cases ?proxied)
          case (Inl e)
          then show ?thesis using Some prov url by (simp add: start_authorization_def Let_def)
        next
          case (Inr d1)
          note run = Some prov url Inr
          show ?thesis
          proof (rule disjI2, rule exI [of _ d1], rule conjI [OF proxied [OF Inr]])
            show "snd ?out = d1 \<or> (\<exists>ns s. create_oauth_session now i conflict ns d1 = Inr (s, snd ?out))"
              using run by (auto simp: start_authorization_def Let_def split: sum.split)
          qed
        qed
      qed
    qed
  qed
  then obtain d1 where "db_moves d d1" and "snd ?out = d1
      \<or> (\<exists>ns s. create_oauth_session now i conflict ns d1 = Inr (s, snd ?out))"
    using \<open>db_moves d ?d0\<close> db_moves_trans by blast
  then show "\<exists>u'. u' \<subseteq> insert i u
      \<and> db_step\<^sup>*\<^sup>* \<lparr>w_used = u, w_db = d\<rparr> \<lparr>w_used = u', w_db = snd ?out\<rparr>"
    using step_create_session [OF new]
    unfolding db_moves_def by (meson rtranclp.rtrancl_into_rtrancl subset_insertI order_refl)
qed

section \<open>Every request\<close>

lemmas statement_sequences =
  statements.reply_with statements.reading statements.and_then statements.each_in_turn

lemma keeps_mint_provider:
  assumes "inj fresh"
  shows "keeps (minted fresh) (mint_provider now fresh np)"
proof -
  have "takes_new (\<lambda>i d. (Inr (fst (create_provider_connection now i np d)),
      snd (create_provider_connection now i np d)))"
    unfolding takes_new_def using step_create_provider [OF _ surjective_pairing]
    by (metis r_into_rtranclp snd_conv subset_refl)
  from keeps_drawing [OF assms this] show ?thesis
    by (simp add: keeps_def drawing_def mint_provider_def case_prod_unfold Let_def)
qed

lemma keeps_mint_account:
  assumes "inj fresh"
  shows "keeps (minted fresh) (mint_account now fresh pe na)"
proof -
  have new: "takes_new (\<lambda>i. atomic (create_provider_account now i pe na))"
    by (rule takes_new_atomic) (rule step_create_account)
  show ?thesis
    unfolding keeps_def
  proof
    fix s
    show "minted fresh s (snd (mint_account now fresh pe na s))"
    proof (cases "create_provider_account now (fresh (snd s)) pe na (fst s)")
      case (Inl e)
      then show ?thesis by (simp add: mint_account_def statements.stay)
    next
      case (Inr ad)
      have "minted fresh s (snd (drawing fresh (\<lambda>i. atomic (create_provider_account now i pe na)) s))"
        using keeps_drawing [OF assms new] unfolding keeps_def by (rule spec)
      then show ?thesis
        using Inr by (cases ad) (simp add: mint_account_def drawing_def atomic_def)
    qed
  qed
qed

lemma keeps_branch: "keeps R m \<Longrightarrow> keeps R m' \<Longrightarrow> keeps R (\<lambda>s. if b then m s else m' s)"
  by (simp add: keeps_def)

lemma keeps_state: "(\<And>s. keeps R (m s)) \<Longrightarrow> keeps R (\<lambda>s. m s s)"
  by (simp add: keeps_def)

lemma keeps_unchanged: "keeps (minted fresh) (\<lambda>s. (r, s))"
  by (simp add: keeps_def statements.stay)

lemma keeps_step:
  "(\<And>d. db_moves d (g d)) \<Longrightarrow> keeps (minted fresh) (\<lambda>s. (r, g (fst s), snd s))"
  by (auto simp: keeps_def minted_def db_moves_def)

lemma keeps_rehome:
  assumes "inj fresh"
  shows "keeps (minted fresh) (rehome now fresh pe shell orphan)"
  unfolding rehome_def
proof (intro statements.and_then)
  show "keeps (minted fresh) (\<lambda>s. if usable_base orphan
      then mint_account now fresh pe (orphan_account shell orphan) s else (Inr (), s))"
    by (intro keeps_branch keeps_mint_account keeps_unchanged assms)
  show "keeps (minted fresh) (\<lambda>s. each_in_turn
      (\<lambda>a. mint_account now fresh pe (moved_account shell orphan a))
      (list_provider_accounts (p_id orphan) (fst s)) s)"
    by (rule keeps_state) (intro statements.each_in_turn keeps_mint_account assms)
  show "keeps (minted fresh) (\<lambda>s. (Inr (), snd (delete_provider_connection (p_id orphan) (fst s)), snd s))"
    by (intro keeps_step db_movesI step_delete_provider [OF surjective_pairing])
qed

lemma keeps_find_shell:
  "inj fresh \<Longrightarrow> keeps (minted fresh) (find_shell now fresh customs)"
  using keeps_mint_provider [of fresh now custom_shell_connection]
  by (auto simp: keeps_def find_shell_def statements.stay split: option.split)

lemma keeps_hide: "keeps (minted fresh) (hide_shell_url now shell)"
  unfolding hide_shell_url_def
  by (intro keeps_branch keeps_unchanged keeps_step db_movesI step_base_url [OF surjective_pairing])

lemma keeps_normalize: "keeps (minted fresh) (normalize_line_name now p)"
proof (cases "canonical_line_name (p_provider p) (p_name p)")
  case None
  then show ?thesis by (simp add: keeps_def normalize_line_name_def statements.stay)
next
  case (Some c)
  have "normalize_line_name now p = (\<lambda>s. if trim (unwrap_or [] (p_name p)) = c then (Inr (), s)
      else (Inr (), snd (update_provider_connection_name now (p_id p) c (fst s)), snd s))"
    using Some by (auto simp: normalize_line_name_def)
  then show ?thesis
    by (simp only:)
      (intro keeps_branch keeps_unchanged keeps_step db_movesI step_name [OF surjective_pairing])
qed

lemma keeps_builtin_line:
  assumes "inj fresh"
  shows "keeps (minted fresh) (ensure_builtin_line now fresh i)"
proof -
  have "keeps (minted fresh) (and_then (mint_provider now fresh np) (\<lambda>p s. (Inr (), s)))" for np
    by (intro statements.and_then keeps_mint_provider assms keeps_unchanged)
  then show ?thesis
    by (auto simp: keeps_def ensure_builtin_line_def statements.stay split: sum.split)
qed

lemma keeps_ensure:
  assumes "inj fresh"
  shows "keeps (minted fresh) (ensure_builtin_provider_connections now fresh pe)"
proof -
  have single: "keeps (minted fresh) (ensure_single_custom_api_line now fresh pe)"
    unfolding ensure_single_custom_api_line_def Let_def
    by (rule keeps_state)
      (intro statements.and_then keeps_find_shell keeps_hide statements.each_in_turn keeps_rehome assms)
  have names: "keeps (minted fresh) (normalize_builtin_line_names now)"
    unfolding normalize_builtin_line_names_def
    by (rule keeps_state) (intro statements.each_in_turn keeps_normalize)
  show ?thesis
    unfolding ensure_builtin_provider_connections_def
    by (intro statements.and_then statements.each_in_turn keeps_builtin_line single names assms)
qed

lemma on_db_keeps_step:
  "(\<And>d u. db_step \<lparr>w_used = u, w_db = d\<rparr> \<lparr>w_used = u, w_db = snd (f d)\<rparr>)
     \<Longrightarrow> keeps (minted fresh) (on_db f)"
  by (intro keeps_on_db db_movesI)

lemma keeps_create_provider: "inj (ae_fresh ae) \<Longrightarrow> keeps (minted (ae_fresh ae)) (create_provider ae np)"
  unfolding create_provider_def
  by (intro statements.and_then statements.reply_with keeps_mint_provider)

lemma keeps_drawn_atomic:
  assumes "inj fresh" and "takes_new (\<lambda>i. atomic (f i))"
    and "\<And>a. keeps (minted fresh) (g a)"
  shows "keeps (minted fresh) (and_then (drawing fresh (\<lambda>i. atomic (f i))) g)"
  by (intro statements.and_then keeps_drawing assms)

lemma takes_new_account: "takes_new (\<lambda>i. atomic (create_provider_account now i pe na))"
  by (rule takes_new_atomic) (rule step_create_account)

lemma takes_new_combo: "takes_new (\<lambda>i. atomic (create_combo now i conflict nc))"
  by (rule takes_new_atomic) (rule step_create_combo)

lemma takes_new_key: "takes_new (\<lambda>i. atomic (issue_api_key now conflict lib i random name allowed))"
  by (rule takes_new_atomic)
    (auto simp: issue_api_key_def rbind_Inr Let_def generate_api_key_def dest: step_create_key)

text \<open>The database and the draws of a management request, whatever it is and however it ends.\<close>

lemma api_handler_keeps:
  assumes "inj (ae_fresh ae)"
  shows "keeps (minted (ae_fresh ae)) (api_handler ae req)"
proof (cases req)
  case ListProviders
  then show ?thesis
    using assms by (simp add: list_providers_def statement_sequences keeps_ensure)
next
  case (ImportPreset im)
  then show ?thesis
    using assms by (simp add: import_provider_preset_def statement_sequences keeps_create_provider)
next
  case (StartOAuth c a u p)
  then show ?thesis
    using assms
    by (auto simp: start_provider_account_oauth_def case_prod_unfold
        intro!: statement_sequences keeps_drawing takes_new_start)
next
  case (CompleteOAuth st c)
  then show ?thesis
    using assms by (auto simp: complete_provider_account_oauth_def
        intro!: statement_sequences keeps_drawing takes_new_complete)
next
  case (RefreshAccount i)
  then show ?thesis
    by (auto simp: refresh_account_handler_def intro!: statement_sequences keeps_on_db
        moves_refresh [OF surjective_pairing])
next
  case (SetAccountProxy i u)
  then show ?thesis
    by (auto simp: set_provider_account_proxy_def dest: moves_account_proxy
        intro!: statement_sequences keeps_on_db moves_atomic)
next
  case (PutSettings v)
  then show ?thesis
    by (auto simp: put_settings_handler_def rbind_Inr dest: moves_settings
        intro!: statement_sequences keeps_on_db moves_atomic)
next
  case ClearLogs
  then show ?thesis
    by (auto simp: clear_logs_handler_def case_prod_unfold Let_def
        intro!: on_db_keeps_step step_clear_logs [OF surjective_pairing])
qed (use assms in \<open>auto simp: list_accounts_handler_def create_account_handler_def
    enable_provider_account_def delete_account_handler_def create_combo_handler_def
    upsert_alias_handler_def delete_alias_handler_def list_logs_handler_def
    get_request_log_detail_def create_key_handler_def revoke_key_handler_def
    intro!: statements.reply_with statements.reading keeps_create_provider keeps_drawn_atomic
      takes_new_account takes_new_combo takes_new_key on_db_keeps_step
      step_account_enabled [OF surjective_pairing] step_delete_account [OF surjective_pairing]
      step_upsert_alias step_delete_alias [OF surjective_pairing]
      step_revoke_key [OF surjective_pairing]\<close>)

lemma api_keeps:
  "inj (ae_fresh ae) \<Longrightarrow> keeps (minted (ae_fresh ae)) (api ae hs req)"
  unfolding api_def by (intro statements.and_then keeps_on_db moves_management api_handler_keeps)

lemma api_keeps_db:
  assumes "api ae hs req (d, n) = (r, d', n')" and "inj (ae_fresh ae)"
    and "unused (ae_fresh ae) n u" and "db_ok \<lparr>w_used = u, w_db = d\<rparr>"
  shows "\<exists>u'. unused (ae_fresh ae) n' u' \<and> db_ok \<lparr>w_used = u', w_db = d'\<rparr>
     \<and> db_step\<^sup>*\<^sup>* \<lparr>w_used = u, w_db = d\<rparr> \<lparr>w_used = u', w_db = d'\<rparr>"
proof -
  have "minted (ae_fresh ae) (d, n) (d', n')"
    by (rule keepsD [OF api_keeps [OF assms(2)] assms(1)])
  then show ?thesis using assms(3,4) db_steps_ok by (fastforce simp: minted_def)
qed

section \<open>The guard\<close>

text \<open>A credential that gets a request past the guard.\<close>

definition credential :: "auth_lib \<Rightarrow> headers \<Rightarrow> db \<Rightarrow> bool" where
  "credential lib hs d \<longleftrightarrow> cookie_subject lib hs d \<noteq> None
     \<or> (\<exists>token. presented_key hs = Some token
          \<and> (\<exists>k \<in> set (db_api_keys d). k_key_hash k = hash_api_key lib token \<and> k_is_active k))"

lemma api_refuses:
  assumes "is_auth_required d" and "\<not> credential (ae_auth ae) hs d"
  shows "\<exists>m. api ae hs req (d, n) = (Inl (unauthorized m), d, n)"
proof -
  have "\<exists>m. management_auth (ae_now ae) (ae_auth ae) hs d = (Inl (unauthorized m), d)"
  proof -
    have "cookie_subject (ae_auth ae) hs d = None" using assms(2) by (auto simp: credential_def)
    then show ?thesis
      using assms by (auto simp: management_auth_def validate_api_key_def credential_def
          find_api_key_by_hash_def dest: find_SomeD split: option.split)
  qed
  then show ?thesis by (auto simp: api_def and_then_def on_db_def)
qed

end
