(* ===== verification/Catalog.thy ===== *)
theory Catalog
  imports Repository Logs
begin

text \<open>
  The model catalogs a client can list: what the repository knows (\<open>get_openai_models_catalog\<close>,
  \<open>get_models_catalog_for_endpoint\<close> of \<open>src/repository.rs\<close>), the lists asked of the providers
  themselves (\<open>src/native_models.rs\<close>), and how the service joins and caches them
  (\<open>RouterService::list_models\<close> of \<open>src/service.rs\<close>). Times are seconds; the HTTP client and the
  way it shows a status are arguments. The answers are read as objects.
\<close>

section \<open>Entries\<close>

record model_entry =
  mo_id :: string
  mo_object :: string
  mo_owned_by :: string
  mo_created :: "int option"
  mo_kind :: "string option"
  mo_dimensions :: "int option"
  mo_sizes :: "string list option"

definition plain_entry :: "int \<Rightarrow> string \<Rightarrow> string \<Rightarrow> model_entry" where
  "plain_entry timestamp owner i =
     \<lparr>mo_id = i, mo_object = ''model'', mo_owned_by = owner, mo_created = Some timestamp,
      mo_kind = None, mo_dimensions = None, mo_sizes = None\<rparr>"

text \<open>\<open>dedup_by\<close> drops an entry whose identifier is that of the entry kept before it.\<close>

fun dedup_entries :: "model_entry list \<Rightarrow> model_entry list" where
  "dedup_entries [] = []"
| "dedup_entries [m] = [m]"
| "dedup_entries (m # m' # ms) =
     (if mo_id m = mo_id m' then dedup_entries (m # ms) else m # dedup_entries (m' # ms))"

definition sorted_entries :: "model_entry list \<Rightarrow> model_entry list" where
  "sorted_entries ms = dedup_entries (sort_key mo_id ms)"

section \<open>The catalogs of the repository\<close>

definition catalog_id :: "provider \<Rightarrow> string" where
  "catalog_id p = unwrap_or (p_model_prefix p @ ''/default'') (p_default_model p)"

definition get_openai_models_catalog :: "int \<Rightarrow> db \<Rightarrow> model_entry list" where
  "get_openai_models_catalog timestamp d = sorted_entries
     (map (\<lambda>c. plain_entry timestamp ''combo'' (c_name c)) (filter c_enabled (list_combos d))
      @ map (\<lambda>p. plain_entry timestamp (p_provider p) (catalog_id p))
          (filter p_enabled (list_provider_connections d)))"

definition embedding_dimensions :: "string \<Rightarrow> int option" where
  "embedding_dimensions i =
     (let l = to_ascii_lowercase i in
      if str_contains l ''3072'' then Some 3072
      else if str_contains l ''1536'' then Some 1536
      else if str_contains l ''1024'' then Some 1024
      else None)"

fun infer_model_metadata :: "endpoint \<Rightarrow> string \<Rightarrow> int option \<times> string list option" where
  "infer_model_metadata Embeddings i = (embedding_dimensions i, None)"
| "infer_model_metadata ImagesGenerations i = (None, Some [''256x256'', ''512x512'', ''1024x1024''])"
| "infer_model_metadata MusicGenerations i = (None, Some [''wav'', ''mp3''])"
| "infer_model_metadata VideosGenerations i = (None, Some [''mp4'', ''webp''])"
| "infer_model_metadata Search i = (None, Some [''web'', ''news'', ''academic''])"
| "infer_model_metadata AudioSpeech i = (None, Some [''mp3'', ''wav'', ''opus''])"
| "infer_model_metadata AudioTranscriptions i =
     (None, Some [''json'', ''text'', ''srt'', ''verbose_json''])"
| "infer_model_metadata e i = (None, None)"

definition kind_entry :: "int \<Rightarrow> endpoint \<Rightarrow> string \<Rightarrow> string \<Rightarrow> int option \<times> string list option \<Rightarrow> model_entry" where
  "kind_entry timestamp e owner i meta =
     (plain_entry timestamp owner i)\<lparr>mo_kind := Some (endpoint_capability e),
        mo_dimensions := fst meta, mo_sizes := snd meta\<rparr>"

definition get_models_catalog_for_endpoint :: "int \<Rightarrow> endpoint \<Rightarrow> db \<Rightarrow> model_entry list" where
  "get_models_catalog_for_endpoint timestamp e d = sorted_entries
     ((if is_chat_family e
       then map (\<lambda>c. kind_entry timestamp e ''combo'' (c_name c) (None, None))
              (filter c_enabled (list_combos d))
       else [])
      @ map (\<lambda>p. kind_entry timestamp e (p_provider p) (catalog_id p)
              (infer_model_metadata e (catalog_id p)))
          (filter (\<lambda>p. p_enabled p \<and> supports_endpoint (p_supported_endpoints p) e)
             (list_provider_connections d)))"

section \<open>The lists of the providers\<close>

definition native_supports :: "string \<Rightarrow> bool" where
  "native_supports provider \<longleftrightarrow>
     to_ascii_lowercase provider \<in> {''codex'', ''claude-oauth'', ''claude'', ''anthropic-oauth''}"

definition preset_slugs :: "string \<Rightarrow> string list" where
  "preset_slugs provider =
     (let l = to_ascii_lowercase provider in
      if l = ''codex'' then [''gpt-5.5'', ''gpt-5-codex'', ''gpt-5'', ''o4-mini'', ''codex-mini-latest'']
      else if l \<in> {''claude-oauth'', ''claude'', ''anthropic-oauth'', ''anthropic''}
      then [''claude-opus-4-1'', ''claude-sonnet-4-5'', ''claude-haiku-4-5'', ''claude-sonnet-4-20250514'']
      else [])"

text \<open>
  A request for a list: the client is chosen by proxy, then the URL, the bearer token and further
  headers; and what comes back, with the reading of its body. The parser's complaint about an
  answer of the wrong shape is left out of the error; every caller drops it.
\<close>

record models_request =
  mq_url :: string
  mq_bearer :: "string option"
  mq_headers :: headers

type_synonym models_send = "string option \<Rightarrow> models_request \<Rightarrow> string + nat \<times> string"

definition fetch_models ::
  "'a codec_scheme \<Rightarrow> (nat \<Rightarrow> string) \<Rightarrow> models_send \<Rightarrow> string option \<Rightarrow> string
     \<Rightarrow> (json \<Rightarrow> string list option) \<Rightarrow> models_request \<Rightarrow> string list app_result" where
  "fetch_models c show_status send proxy who names req =
     (case send proxy req of
        Inl err \<Rightarrow> Inl (Upstream (who @ '' models fetch failed: '' @ err))
      | Inr (status, body) \<Rightarrow>
          (if \<not> is_success status
           then Inl (Upstream (who @ '' models fetch failed: status '' @ show_status status))
           else (case Option.bind (case json_parse c body of Inl e \<Rightarrow> None | Inr v \<Rightarrow> Some v) names of
                   None \<Rightarrow> Inl (Upstream (who @ '' models response invalid''))
                 | Some ids \<Rightarrow> Inr ids)))"

text \<open>Every element must give a value; \<open>None\<close> is an answer of the wrong shape.\<close>

fun all_some :: "('x \<Rightarrow> 'y option) \<Rightarrow> 'x list \<Rightarrow> 'y list option" where
  "all_some f [] = Some []"
| "all_some f (x # xs) = Option.bind (f x) (\<lambda>y. map_option ((#) y) (all_some f xs))"

definition openai_names :: "json \<Rightarrow> string list option" where
  "openai_names v =
     (case v of
        JObj ob \<Rightarrow>
          (case obj_get ''data'' ob of
             None \<Rightarrow> Some []
           | Some (JArr ms) \<Rightarrow> map_option (filter (\<lambda>i. i \<noteq> [])) (all_some (get_str ''id'') ms)
           | Some w \<Rightarrow> None)
      | w \<Rightarrow> None)"

definition codex_model :: "json \<Rightarrow> (string \<times> string option) option" where
  "codex_model m =
     Option.bind (get_str ''slug'' m) (\<lambda>slug.
       (case jget ''visibility'' m of
          None \<Rightarrow> Some (slug, None)
        | Some JNull \<Rightarrow> Some (slug, None)
        | Some (JStr s) \<Rightarrow> Some (slug, Some s)
        | Some w \<Rightarrow> None))"

definition codex_names :: "json \<Rightarrow> string list option" where
  "codex_names v =
     Option.bind (get_array ''models'' v) (\<lambda>ms.
       map_option (\<lambda>ps. map fst (filter (\<lambda>p. snd p \<noteq> Some ''hide'') ps)) (all_some codex_model ms))"

definition claude_names :: "json \<Rightarrow> string list option" where
  "claude_names v = Option.bind (get_array ''data'' v) (all_some (get_str ''id''))"

definition openai_models_url :: "string \<Rightarrow> string" where
  "openai_models_url base_url =
     (let base = trim_end_char CHR ''/'' base_url in
      if ends_with base ''/models'' then base else base @ ''/models'')"

definition fetch_openai_compatible ::
  "'a codec_scheme \<Rightarrow> (nat \<Rightarrow> string) \<Rightarrow> models_send \<Rightarrow> string option \<Rightarrow> string \<Rightarrow> string option
     \<Rightarrow> string list app_result" where
  "fetch_openai_compatible c show_status send proxy base_url key =
     fetch_models c show_status send proxy ''custom'' openai_names
       \<lparr>mq_url = openai_models_url base_url, mq_bearer = opt_filter (\<lambda>k. k \<noteq> []) key, mq_headers = []\<rparr>"

definition codex_client_version :: "(string \<Rightarrow> string option) \<Rightarrow> string" where
  "codex_client_version vars = unwrap_or ''0.55.0'' (vars ''KOU_CODEX_CLIENT_VERSION'')"

definition fetch_codex ::
  "'a codec_scheme \<Rightarrow> (nat \<Rightarrow> string) \<Rightarrow> (string \<Rightarrow> string option) \<Rightarrow> models_send \<Rightarrow> string option
     \<Rightarrow> provider \<Rightarrow> string \<Rightarrow> string list app_result" where
  "fetch_codex c show_status vars send proxy p token =
     fetch_models c show_status send proxy ''codex'' codex_names
       \<lparr>mq_url = trim_end_char CHR ''/'' (p_base_url p) @ ''/models?client_version='' @ codex_client_version vars,
        mq_bearer = Some token,
        mq_headers = [(''originator'', ''codex_cli_rs''), (''OpenAI-Beta'', ''responses=experimental'')]\<rparr>"

definition fetch_claude ::
  "'a codec_scheme \<Rightarrow> (nat \<Rightarrow> string) \<Rightarrow> models_send \<Rightarrow> string option \<Rightarrow> provider \<Rightarrow> string
     \<Rightarrow> string list app_result" where
  "fetch_claude c show_status send proxy p token =
     fetch_models c show_status send proxy ''claude'' claude_names
       \<lparr>mq_url = trim_end_char CHR ''/'' (p_base_url p) @ ''/models?limit=1000'',
        mq_bearer = Some token, mq_headers = p_extra_headers p\<rparr>"

definition native_fetch ::
  "'a codec_scheme \<Rightarrow> (nat \<Rightarrow> string) \<Rightarrow> (string \<Rightarrow> string option) \<Rightarrow> models_send \<Rightarrow> string option
     \<Rightarrow> provider \<Rightarrow> string \<Rightarrow> string list app_result" where
  "native_fetch c show_status vars send proxy p token =
     (let l = to_ascii_lowercase (p_provider p) in
      if l = ''codex'' then fetch_codex c show_status vars send proxy p token
      else if l \<in> {''claude-oauth'', ''claude'', ''anthropic-oauth''}
      then fetch_claude c show_status send proxy p token
      else Inl (BadRequest (''provider '' @ quoted l @ '' has no native models route'')))"

section \<open>The joined catalog\<close>

text \<open>
  What listing models draws on: the parser, how a status is shown, the environment, the client
  cache (which may refuse a proxy), the sending of the \<open>n\<close>-th request, and the \<open>n\<close>-th reading of
  the clock.
\<close>

record catalog_env =
  ca_codec :: codec
  ca_show_status :: "nat \<Rightarrow> string"
  ca_vars :: "string \<Rightarrow> string option"
  ca_client :: "string option \<Rightarrow> unit app_result"
  ca_send :: "nat \<Rightarrow> models_send"
  ca_clock :: "nat \<Rightarrow> int"
  ca_timestamp :: int

record native_state =
  nm_cache :: "(string \<times> int \<times> model_entry list) list"
  nm_reads :: nat
  nm_sent :: nat

definition read_clock :: "catalog_env \<Rightarrow> native_state \<Rightarrow> int \<times> native_state" where
  "read_clock ca st = (ca_clock ca (nm_reads st), st\<lparr>nm_reads := Suc (nm_reads st)\<rparr>)"

definition preset_models_for_provider :: "catalog_env \<Rightarrow> provider \<Rightarrow> model_entry list" where
  "preset_models_for_provider ca p =
     map (\<lambda>slug. plain_entry (ca_timestamp ca) (p_provider p) (p_model_prefix p @ ''/'' @ slug))
       (preset_slugs (p_provider p))"

text \<open>The endpoints of the accounts of a custom line; one that does not answer is passed over.\<close>

fun custom_models ::
  "catalog_env \<Rightarrow> provider \<Rightarrow> account list \<Rightarrow> string list \<Rightarrow> native_state
     \<Rightarrow> model_entry list app_result \<times> native_state" where
  "custom_models ca p [] seen st = (Inr (map (plain_entry (ca_timestamp ca) (p_provider p)) seen), st)"
| "custom_models ca p (a # as) seen st =
     (case opt_filter (\<lambda>b. b \<noteq> []) (map_option trim (a_base_url a)) of
        None \<Rightarrow> custom_models ca p as seen st
      | Some base \<Rightarrow>
          (case ca_client ca (a_proxy_url a) of
             Inl e \<Rightarrow> (Inl e, st)
           | Inr u \<Rightarrow>
               (let r = fetch_openai_compatible (ca_codec ca) (ca_show_status ca)
                      (ca_send ca (nm_sent st)) (a_proxy_url a) base (a_api_key a);
                    seen = (case r of Inl e \<Rightarrow> seen
                            | Inr ids \<Rightarrow> fold (\<lambda>i s. if i \<in> set s then s else s @ [i]) ids seen)
                in custom_models ca p as seen (st\<lparr>nm_sent := Suc (nm_sent st)\<rparr>))))"

definition fetch_custom_models ::
  "catalog_env \<Rightarrow> provider \<Rightarrow> db \<Rightarrow> native_state \<Rightarrow> model_entry list app_result \<times> native_state" where
  "fetch_custom_models ca p d st =
     custom_models ca p (filter a_enabled (list_provider_accounts (p_id p) d)) [] st"

definition fetch_native_models ::
  "catalog_env \<Rightarrow> provider \<Rightarrow> db \<Rightarrow> native_state \<Rightarrow> model_entry list app_result \<times> native_state" where
  "fetch_native_models ca p d st =
     (case find (\<lambda>a. a_enabled a \<and> a_auth_mode a = OAuthMode \<and> a_access_token a \<noteq> None)
             (list_provider_accounts (p_id p) d) of
        None \<Rightarrow> (Inl (BadRequest ''no enabled oauth account with an access token''), st)
      | Some a \<Rightarrow>
          (case ca_client ca (a_proxy_url a) of
             Inl e \<Rightarrow> (Inl e, st)
           | Inr u \<Rightarrow>
               (rbind (native_fetch (ca_codec ca) (ca_show_status ca) (ca_vars ca)
                         (ca_send ca (nm_sent st)) (a_proxy_url a) p (unwrap_or [] (a_access_token a)))
                  (\<lambda>slugs. Inr (map (\<lambda>s. plain_entry (ca_timestamp ca) (p_provider p)
                     (p_model_prefix p @ ''/'' @ s)) slugs)),
                st\<lparr>nm_sent := Suc (nm_sent st)\<rparr>)))"

definition fetch_models_for_provider ::
  "catalog_env \<Rightarrow> provider \<Rightarrow> db \<Rightarrow> native_state \<Rightarrow> model_entry list app_result \<times> native_state" where
  "fetch_models_for_provider ca p d st =
     (if eq_ignore_ascii_case (p_provider p) ''custom'' then fetch_custom_models ca p d st
      else fetch_native_models ca p d st)"

definition has_native_list :: "provider \<Rightarrow> bool" where
  "has_native_list p \<longleftrightarrow> native_supports (p_provider p) \<or> eq_ignore_ascii_case (p_provider p) ''custom''"

text \<open>One connection: what is cached and still good, or a new list that is good for five minutes, or
  the preset one for one.\<close>

definition native_models_of ::
  "catalog_env \<Rightarrow> db \<Rightarrow> provider \<Rightarrow> native_state \<Rightarrow> model_entry list \<times> native_state" where
  "native_models_of ca d p st =
     (let (now, st1) = (case obj_get (p_id p) (nm_cache st) of
            None \<Rightarrow> (0, st) | Some e \<Rightarrow> read_clock ca st)
      in case opt_filter (\<lambda>e. now < fst e) (obj_get (p_id p) (nm_cache st)) of
           Some (expires, ms) \<Rightarrow> (ms, st1)
         | None \<Rightarrow>
             (let (r, st2) = fetch_models_for_provider ca p d st1;
                  (ttl, ms) = (case r of
                      Inl e \<Rightarrow> (60, preset_models_for_provider ca p)
                    | Inr ms \<Rightarrow> if ms = [] then (60, preset_models_for_provider ca p) else (300, ms));
                  (now, st3) = read_clock ca st2
              in (ms, st3\<lparr>nm_cache := obj_insert (p_id p) (now + ttl, ms) (nm_cache st3)\<rparr>)))"

fun native_models_of_all ::
  "catalog_env \<Rightarrow> db \<Rightarrow> provider list \<Rightarrow> native_state \<Rightarrow> model_entry list \<times> native_state" where
  "native_models_of_all ca d [] st = ([], st)"
| "native_models_of_all ca d (p # ps) st =
     (let (ms, st1) = native_models_of ca d p st;
          (rest, st2) = native_models_of_all ca d ps st1
      in (ms @ rest, st2))"

definition native_models_catalog ::
  "catalog_env \<Rightarrow> db \<Rightarrow> native_state \<Rightarrow> model_entry list \<times> native_state" where
  "native_models_catalog ca d st =
     native_models_of_all ca d
       (filter has_native_list (filter p_enabled (list_provider_connections d))) st"

definition list_models :: "catalog_env \<Rightarrow> db \<Rightarrow> native_state \<Rightarrow> model_entry list \<times> native_state" where
  "list_models ca d st =
     (let (ms, st) = native_models_catalog ca d st
      in (sorted_entries (get_openai_models_catalog (ca_timestamp ca) d @ ms), st))"

text \<open>The listings the router offers for single endpoints.\<close>

definition list_models_for_endpoint :: "catalog_env \<Rightarrow> endpoint \<Rightarrow> db \<Rightarrow> model_entry list" where
  "list_models_for_endpoint ca e d = get_models_catalog_for_endpoint (ca_timestamp ca) e d"

section \<open>Facts\<close>

lemma set_dedup: "set (dedup_entries ms) \<subseteq> set ms"
  by (induction ms rule: dedup_entries.induct) auto

lemma dedup_hd: "ms \<noteq> [] \<Longrightarrow> dedup_entries ms \<noteq> [] \<and> hd (dedup_entries ms) = hd ms"
  by (induction ms rule: dedup_entries.induct) auto

lemma dedup_strict:
  "sorted (map mo_id ms) \<Longrightarrow> sorted_wrt (<) (map mo_id (dedup_entries ms))"
proof (induction ms rule: dedup_entries.induct)
  case (3 m m' ms)
  show ?case
  proof (cases "mo_id m = mo_id m'")
    case True
    then show ?thesis using 3 by simp
  next
    case False
    have "mo_id m < mo_id x" if "x \<in> set (dedup_entries (m' # ms))" for x
    proof -
      have "x \<in> set (m' # ms)" using that set_dedup by blast
      then have "mo_id m' \<le> mo_id x" using 3(3) by auto
      moreover have "mo_id m \<le> mo_id m'" using 3(3) by simp
      then have "mo_id m < mo_id m'" using False by (rule le_neq_trans)
      ultimately show ?thesis by (rule less_le_trans [rotated])
    qed
    then show ?thesis using 3 False by auto
  qed
qed simp_all

lemma find_dedup: "find (\<lambda>m. mo_id m = i) (dedup_entries ms) = find (\<lambda>m. mo_id m = i) ms"
  by (induction ms rule: dedup_entries.induct) auto

lemma find_filter: "find q xs = (case filter q xs of [] \<Rightarrow> None | x # r \<Rightarrow> Some x)"
  by (induction xs) auto

lemma find_append: "find q (xs @ ys) = or_else (find q xs) (find q ys)"
  by (induction xs) auto

lemma find_sort_key: "find (\<lambda>m. f m = i) (sort_key f xs) = find (\<lambda>m. f m = i) xs"
  by (simp add: find_filter sort_key_stable)

lemma sorted_entries_spec:
  "sorted_wrt (<) (map mo_id (sorted_entries ms))"
  "find (\<lambda>m. mo_id m = i) (sorted_entries ms) = find (\<lambda>m. mo_id m = i) ms"
  by (simp_all add: sorted_entries_def dedup_strict find_dedup find_sort_key)

text \<open>Asking again soon finds every list in the cache.\<close>

definition same_lists :: "string list \<Rightarrow> native_state \<Rightarrow> native_state \<Rightarrow> bool" where
  "same_lists ids st st' \<longleftrightarrow> (\<forall>i \<in> set ids. obj_get i (nm_cache st') = obj_get i (nm_cache st))"

lemma custom_models_cache: "nm_cache (snd (custom_models ca p as seen st)) = nm_cache st"
  by (induction ca p as seen st rule: custom_models.induct) (auto simp: Let_def split: option.split sum.split)

lemma fetch_keeps_cache: "nm_cache (snd (fetch_models_for_provider ca p d st)) = nm_cache st"
  by (auto simp: fetch_models_for_provider_def fetch_custom_models_def fetch_native_models_def
      custom_models_cache split: option.split sum.split)

lemma native_models_of_new:
  assumes "native_models_of ca d p st = (ms, st')" and "obj_get (p_id p) (nm_cache st) = None"
    and "\<forall>j k. ca_clock ca k < ca_clock ca j + 60"
  shows "(\<exists>expires. obj_get (p_id p) (nm_cache st') = Some (expires, ms) \<and> (\<forall>k. ca_clock ca k < expires))
     \<and> (i \<noteq> p_id p \<longrightarrow> obj_get i (nm_cache st') = obj_get i (nm_cache st))"
proof -
  obtain r st2 where fetch: "fetch_models_for_provider ca p d st = (r, st2)" by fastforce
  have cache: "nm_cache st2 = nm_cache st" using fetch_keeps_cache [of ca p d st] fetch by simp
  define ttl :: int where "ttl = (case r of Inl e \<Rightarrow> 60 | Inr l \<Rightarrow> if l = [] then 60 else 300)"
  have "60 \<le> ttl" by (simp add: ttl_def split: sum.split)
  moreover have st': "st' = st2\<lparr>nm_reads := Suc (nm_reads st2),
      nm_cache := obj_insert (p_id p) (ca_clock ca (nm_reads st2) + ttl, ms) (nm_cache st2)\<rparr>"
    using assms(1,2) fetch
    by (auto simp: native_models_of_def read_clock_def Let_def ttl_def split: sum.splits if_splits)
  moreover have "ca_clock ca k < ca_clock ca (nm_reads st2) + ttl" for k
    using assms(3) \<open>60 \<le> ttl\<close> by (meson add_left_mono less_le_trans)
  ultimately show ?thesis by (simp add: cache)
qed

lemma native_models_of_cached:
  assumes "obj_get (p_id p) (nm_cache st) = Some (expires, ms)" and "\<forall>k. ca_clock ca k < expires"
  shows "native_models_of ca d p st = (ms, st\<lparr>nm_reads := Suc (nm_reads st)\<rparr>)"
  using assms by (simp add: native_models_of_def read_clock_def)

text \<open>
  A run that starts with an empty cache leaves every list it gives in the cache, so that a later
  run gives the same lists without asking anyone.
\<close>

lemma native_models_again:
  assumes "native_models_of_all ca d ps st = (ms, st1)" and "distinct (map p_id ps)"
    and "\<forall>p \<in> set ps. obj_get (p_id p) (nm_cache st) = None"
    and "\<forall>j k. ca_clock ca k < ca_clock ca j + 60"
  shows "(\<forall>st2. same_lists (map p_id ps) st1 st2 \<longrightarrow> (\<exists>st3. native_models_of_all ca d ps st2 = (ms, st3)
        \<and> nm_sent st3 = nm_sent st2 \<and> nm_cache st3 = nm_cache st2))
     \<and> (\<forall>i. i \<notin> p_id ` set ps \<longrightarrow> obj_get i (nm_cache st1) = obj_get i (nm_cache st))"
  using assms
proof (induction ps arbitrary: ms st)
  case (Cons p ps)
  obtain ms1 stp where first: "native_models_of ca d p st = (ms1, stp)" by fastforce
  obtain ms2 where rest: "native_models_of_all ca d ps stp = (ms2, st1)" and ms: "ms = ms1 @ ms2"
    using Cons.prems first by (auto split: prod.splits)
  have new: "obj_get (p_id p) (nm_cache st) = None" using Cons.prems by simp
  note clock = Cons.prems(4)
  note head = native_models_of_new [OF first new clock]
  have none: "\<forall>q \<in> set ps. obj_get (p_id q) (nm_cache stp) = None"
  proof
    fix q
    assume "q \<in> set ps"
    then have "p_id q \<noteq> p_id p" "obj_get (p_id q) (nm_cache st) = None"
      using Cons.prems by (auto simp: image_iff)
    then show "obj_get (p_id q) (nm_cache stp) = None" using head [of "p_id q"] by simp
  qed
  have dist: "distinct (map p_id ps)" "p_id p \<notin> p_id ` set ps" using Cons.prems by auto
  note IH = Cons.IH [OF rest dist(1) none clock]
  obtain expires where entry: "obj_get (p_id p) (nm_cache st1) = Some (expires, ms1)"
    "\<forall>k. ca_clock ca k < expires"
    using head [of "p_id p"] IH dist(2) by auto
  show ?case
  proof (intro conjI allI impI)
    fix st2
    assume same: "same_lists (map p_id (p # ps)) st1 st2"
    let ?st2 = "st2\<lparr>nm_reads := Suc (nm_reads st2)\<rparr>"
    have "obj_get (p_id p) (nm_cache st2) = Some (expires, ms1)"
      using same entry by (simp add: same_lists_def)
    from native_models_of_cached [OF this entry(2)]
    have run: "native_models_of ca d p st2 = (ms1, ?st2)" .
    have "same_lists (map p_id ps) st1 ?st2" using same by (simp add: same_lists_def)
    then obtain st3 where "native_models_of_all ca d ps ?st2 = (ms2, st3)"
      "nm_sent st3 = nm_sent ?st2" "nm_cache st3 = nm_cache ?st2"
      using IH by blast
    then show "\<exists>st3. native_models_of_all ca d (p # ps) st2 = (ms, st3)
        \<and> nm_sent st3 = nm_sent st2 \<and> nm_cache st3 = nm_cache st2"
      by (simp add: run ms)
  next
    fix i
    assume "i \<notin> p_id ` set (p # ps)"
    then show "obj_get i (nm_cache st1) = obj_get i (nm_cache st)" using head [of i] IH by simp
  qed
qed (auto simp: same_lists_def)

text \<open>A shared listing, once made, is made again without asking any provider.\<close>

lemma list_models_again:
  assumes "list_models ca d st = (ms, st1)" and "nm_cache st = []"
    and "distinct (map p_id (list_provider_connections d))"
    and "\<forall>j k. ca_clock ca k < ca_clock ca j + 60" and "nm_cache st2 = nm_cache st1"
  shows "fst (list_models ca d st2) = ms \<and> nm_sent (snd (list_models ca d st2)) = nm_sent st2"
proof -
  let ?ps = "filter has_native_list (filter p_enabled (list_provider_connections d))"
  obtain l where run: "native_models_of_all ca d ?ps st = (l, st1)"
    and ms: "ms = sorted_entries (get_openai_models_catalog (ca_timestamp ca) d @ l)"
    using assms(1) by (auto simp: list_models_def native_models_catalog_def split: prod.splits)
  have "distinct (map p_id ?ps)" using assms(3) by (intro distinct_map_filter)
  moreover have "\<forall>p \<in> set ?ps. obj_get (p_id p) (nm_cache st) = None"
    by (simp add: assms(2) obj_get_def)
  moreover have "same_lists (map p_id ?ps) st1 st2" by (simp only: same_lists_def assms(5) simp_thms ball_triv)
  ultimately obtain st3 where "native_models_of_all ca d ?ps st2 = (l, st3)" "nm_sent st3 = nm_sent st2"
    using native_models_again [OF run _ _ assms(4)] by blast
  then show ?thesis by (simp add: list_models_def native_models_catalog_def ms)
qed

lemma list_models_spec:
  assumes "list_models ca d st = (ms, st')"
  shows "sorted_wrt (<) (map mo_id ms)"
    and "find (\<lambda>m. mo_id m = i) ms
      = or_else (find (\<lambda>m. mo_id m = i) (get_openai_models_catalog (ca_timestamp ca) d))
          (find (\<lambda>m. mo_id m = i) (fst (native_models_catalog ca d st)))"
proof -
  show "sorted_wrt (<) (map mo_id ms)"
    "find (\<lambda>m. mo_id m = i) ms
      = or_else (find (\<lambda>m. mo_id m = i) (get_openai_models_catalog (ca_timestamp ca) d))
          (find (\<lambda>m. mo_id m = i) (fst (native_models_catalog ca d st)))"
    using assms by (auto simp: list_models_def sorted_entries_spec find_append split: prod.splits)
qed

text \<open>Every enabled combination is listed under its name, as a combination.\<close>

lemma combo_listed:
  assumes "c \<in> set (db_combos d)" and "c_enabled c"
  shows "\<exists>m. find (\<lambda>m. mo_id m = c_name c) (get_openai_models_catalog t d) = Some m
     \<and> mo_owned_by m = ''combo''"
proof -
  let ?combos = "map (\<lambda>c. plain_entry t ''combo'' (c_name c)) (filter c_enabled (list_combos d))"
  have "\<exists>m \<in> set ?combos. mo_id m = c_name c"
    using assms by (auto simp: list_combos_def plain_entry_def)
  then obtain m where m: "find (\<lambda>m. mo_id m = c_name c) ?combos = Some m"
    by (metis (mono_tags, lifting) find_None_iff not_None_eq)
  then have "m \<in> set ?combos" using find_SomeD by fastforce
  then have "mo_owned_by m = ''combo''" by (auto simp: plain_entry_def)
  then show ?thesis
    using m by (simp add: get_openai_models_catalog_def sorted_entries_spec find_append)
qed

end
