(* ===== verification/Oauth_Tokens.thy ===== *)
theory Oauth_Tokens
  imports OAuth
begin

text \<open>
  The token endpoints of the two OAuth providers (\<open>src/oauth/codex.rs\<close>, \<open>src/oauth/claude.rs\<close>,
  \<open>src/oauth/mod.rs\<close>): the requests sent to them and the grants read from their answers. Base64,
  SHA-256, the \<open>url\<close> crate, the HTTP client and the texts of failures are arguments. Answers
  are read as objects. A life time beyond the range of the calendar makes \<open>chrono\<close> panic, which
  is not modelled.
\<close>

section \<open>Requests and answers\<close>

datatype token_body = NoBody | Form "(string \<times> string) list" | JsonBody json

record token_request =
  tq_method :: string
  tq_url :: string
  tq_bearer :: "string option"
  tq_headers :: headers
  tq_body :: token_body

text \<open>
  A request fails with a text, or is answered with a status and a body that may not be readable.
  \<open>ol_wrong\<close> is what the deserializer says of a value of the wrong shape.
\<close>

record oauth_lib = codec +
  ol_vars :: "string \<Rightarrow> string option"
  ol_show_status :: "nat \<Rightarrow> string"
  ol_b64_encode :: "string \<Rightarrow> string"
  ol_b64_decode :: "string \<Rightarrow> string option"
  ol_sha256 :: "string \<Rightarrow> string"
  ol_wrong :: "json \<Rightarrow> string"
  ol_from_epoch :: "int \<Rightarrow> timestamp option"
  ol_append :: "string \<Rightarrow> (string \<times> string) list \<Rightarrow> string option"
  ol_send :: "token_request \<Rightarrow> string + nat \<times> (string + string)"

definition ask :: "oauth_lib \<Rightarrow> token_request \<Rightarrow> (nat \<times> string) app_result" where
  "ask lib req =
     (case ol_send lib req of
        Inl e \<Rightarrow> Inl (Http e)
      | Inr (status, Inl e) \<Rightarrow> Inl (Http e)
      | Inr (status, Inr body) \<Rightarrow> Inr (status, body))"

definition refused :: "oauth_lib \<Rightarrow> string \<Rightarrow> nat \<Rightarrow> string \<Rightarrow> app_error" where
  "refused lib what status body =
     Upstream (what @ '' failed: '' @ summarize_oauth_error lib (ol_show_status lib status) body)"

section \<open>Reading fields\<close>

text \<open>Fields of a struct with defaults: absent and null give \<open>None\<close>, another type is an error.\<close>

definition field :: "(json \<Rightarrow> 'v option) \<Rightarrow> string \<Rightarrow> obj \<Rightarrow> 'v option option" where
  "field f k ob =
     (case obj_get k ob of
        None \<Rightarrow> Some None
      | Some JNull \<Rightarrow> Some None
      | Some v \<Rightarrow> map_option Some (f v))"

definition str_field :: "string \<Rightarrow> obj \<Rightarrow> string option option" where
  "str_field = field as_str"

fun as_i64 :: "json \<Rightarrow> int option" where
  "as_i64 (JNum (PosInt w)) = (if unat w < 2 ^ 63 then Some (int (unat w)) else None)"
| "as_i64 (JNum (NegInt n)) = Some n"
| "as_i64 _ = None"

fun strings :: "json list \<Rightarrow> string list option" where
  "strings [] = Some []"
| "strings (v # vs) = Option.bind (as_str v) (\<lambda>s. map_option ((#) s) (strings vs))"

definition string_list :: "json \<Rightarrow> string list option" where
  "string_list v = Option.bind (as_array v) strings"

definition object :: "json \<Rightarrow> obj option" where
  "object v = (case v of JObj ob \<Rightarrow> Some ob | w \<Rightarrow> None)"

definition read_body :: "oauth_lib \<Rightarrow> (json \<Rightarrow> 'v option) \<Rightarrow> string \<Rightarrow> 'v app_result" where
  "read_body lib f body =
     (case json_parse lib body of
        Inl e \<Rightarrow> Inl (JsonError e)
      | Inr v \<Rightarrow> ok_or (JsonError (ol_wrong lib v)) (f v))"

section \<open>Shared helpers\<close>

definition generate_pkce :: "oauth_lib \<Rightarrow> string \<Rightarrow> string \<times> string" where
  "generate_pkce lib random =
     (let verifier = ol_b64_encode lib random
      in (verifier, ol_b64_encode lib (ol_sha256 lib verifier)))"

definition expires_at_from_now :: "timestamp \<Rightarrow> int option \<Rightarrow> timestamp option" where
  "expires_at_from_now now secs = map_option (\<lambda>s. now + max s 0 * second) secs"

text \<open>\<open>split_whitespace\<close>: the runs between white space, which may take several bytes.\<close>

function words_from :: "string \<Rightarrow> string \<Rightarrow> string list" where
  "words_from acc [] = (if acc = [] then [] else [acc])"
| "words_from acc (c # cs) =
     (case find (\<lambda>w. w \<noteq> [] \<and> starts_with (c # cs) w) white_space of
        None \<Rightarrow> words_from (acc @ [c]) cs
      | Some w \<Rightarrow> (if acc = [] then [] else [acc]) @ words_from [] (drop (length w) (c # cs)))"
  by pat_completeness auto
termination
  by (relation "measure (\<lambda>(acc, s). length s)") (auto dest: find_SomeD)

definition split_whitespace :: "string \<Rightarrow> string list" where
  "split_whitespace s = words_from [] s"

definition parse_scope_string :: "string option \<Rightarrow> string list option" where
  "parse_scope_string scope = map_option (\<lambda>s. filter (\<lambda>w. w \<noteq> []) (split_whitespace s)) scope"

definition invalid_id_token :: app_error where
  "invalid_id_token = Upstream ''oauth response contained an invalid ID token''"

definition decode_jwt_payload :: "oauth_lib \<Rightarrow> (json \<Rightarrow> 'v option) \<Rightarrow> string \<Rightarrow> 'v app_result" where
  "decode_jwt_payload lib f jwt =
     (case split_on CHR ''.'' jwt of
        header # payload # signature # rest \<Rightarrow>
          (if header = [] \<or> payload = [] \<or> signature = [] then Inl invalid_id_token
           else ok_or invalid_id_token
             (Option.bind (ol_b64_decode lib payload) (\<lambda>text.
                case json_parse lib text of Inl e \<Rightarrow> None | Inr v \<Rightarrow> f v)))
      | _ \<Rightarrow> Inl invalid_id_token)"

definition parse_jwt_expiration :: "oauth_lib \<Rightarrow> string \<Rightarrow> timestamp option app_result" where
  "parse_jwt_expiration lib jwt =
     rbind (decode_jwt_payload lib Some jwt) (\<lambda>v.
       Inr (Option.bind (Option.bind (jget ''exp'' v) as_i64) (ol_from_epoch lib)))"

fun ok :: "'a app_result \<Rightarrow> 'a option" where
  "ok (Inl e) = None"
| "ok (Inr a) = Some a"

definition jwt_expiration :: "oauth_lib \<Rightarrow> string \<Rightarrow> timestamp option" where
  "jwt_expiration lib jwt = Option.bind (ok (parse_jwt_expiration lib jwt)) id"

section \<open>Codex\<close>

definition codex_client_id :: string where
  "codex_client_id = ''app_EMoamEEZ73f0CkXaXp7hrann''"

definition codex_issuer :: "oauth_lib \<Rightarrow> string" where
  "codex_issuer lib = unwrap_or ''https://auth.openai.com'' (ol_vars lib ''KOU_CC_CODEX_ISSUER'')"

definition codex_token_url :: "oauth_lib \<Rightarrow> string" where
  "codex_token_url lib =
     (case ol_vars lib ''KOU_CC_CODEX_ISSUER'' of
        Some v \<Rightarrow> trim_end_char CHR ''/'' v @ ''/oauth/token''
      | None \<Rightarrow> ''https://auth.openai.com/oauth/token'')"

definition refresh_token_url :: "oauth_lib \<Rightarrow> string" where
  "refresh_token_url lib =
     unwrap_or (codex_token_url lib) (ol_vars lib ''CODEX_REFRESH_TOKEN_URL_OVERRIDE'')"

definition codex_originator :: "oauth_lib \<Rightarrow> string" where
  "codex_originator lib = unwrap_or ''codex_cli_rs'' (ol_vars lib ''CODEX_INTERNAL_ORIGINATOR_OVERRIDE'')"

definition codex_authorization_url :: "oauth_lib \<Rightarrow> string \<Rightarrow> string \<Rightarrow> string \<Rightarrow> string list \<Rightarrow> string" where
  "codex_authorization_url lib redirect_uri state challenge scopes =
     build_authorization_url (codex_issuer lib) (codex_originator lib) redirect_uri state challenge scopes"

record codex_claims =
  cx_email :: "string option"
  cx_account_id :: "string option"
  cx_is_fedramp :: bool

definition bool_field :: "string \<Rightarrow> obj \<Rightarrow> bool option" where
  "bool_field k ob =
     (case obj_get k ob of None \<Rightarrow> Some False | Some (JBool b) \<Rightarrow> Some b | Some w \<Rightarrow> None)"

definition auth_claims :: "obj \<Rightarrow> (string option \<times> bool) option" where
  "auth_claims ob =
     (case obj_get ''https://api.openai.com/auth'' ob of
        None \<Rightarrow> Some (None, False)
      | Some v \<Rightarrow> Option.bind (object v) (\<lambda>a.
          Option.bind (str_field ''chatgpt_account_id'' a) (\<lambda>i.
          Option.bind (bool_field ''chatgpt_account_is_fedramp'' a) (\<lambda>f. Some (i, f)))))"

definition profile_email :: "obj \<Rightarrow> string option option" where
  "profile_email ob =
     Option.bind (field object ''https://api.openai.com/profile'' ob) (\<lambda>p.
       case p of None \<Rightarrow> Some None | Some pr \<Rightarrow> str_field ''email'' pr)"

definition id_token_claims :: "json \<Rightarrow> codex_claims option" where
  "id_token_claims v =
     Option.bind (object v) (\<lambda>ob.
     Option.bind (str_field ''email'' ob) (\<lambda>email.
     Option.bind (profile_email ob) (\<lambda>profile.
     Option.bind (auth_claims ob) (\<lambda>(i, fedramp).
       Some \<lparr>cx_email = or_else email profile, cx_account_id = i, cx_is_fedramp = fedramp\<rparr>))))"

definition parse_id_token_claims :: "oauth_lib \<Rightarrow> string \<Rightarrow> codex_claims app_result" where
  "parse_id_token_claims lib raw = decode_jwt_payload lib id_token_claims raw"

record token_response =
  tr_access_token :: "string option"
  tr_refresh_token :: "string option"
  tr_id_token :: "string option"
  tr_expires_in :: "int option"
  tr_scope :: "string option"
  tr_scopes :: "string list option"

definition codex_token_response :: "json \<Rightarrow> token_response option" where
  "codex_token_response v =
     Option.bind (object v) (\<lambda>ob.
     Option.bind (str_field ''access_token'' ob) (\<lambda>access.
     Option.bind (str_field ''refresh_token'' ob) (\<lambda>ref.
     Option.bind (str_field ''id_token'' ob) (\<lambda>idt.
     Option.bind (field as_i64 ''expires_in'' ob) (\<lambda>secs.
     Option.bind (str_field ''scope'' ob) (\<lambda>scope.
     Option.bind (field string_list ''scopes'' ob) (\<lambda>scopes.
       Some \<lparr>tr_access_token = access, tr_refresh_token = ref, tr_id_token = idt,
             tr_expires_in = secs, tr_scope = scope, tr_scopes = scopes\<rparr>)))))))"

definition granted_scopes :: "token_response \<Rightarrow> string list option" where
  "granted_scopes t = or_else (parse_scope_string (tr_scope t)) (tr_scopes t)"

text \<open>
  The grant and the ID token it came with. The life time is the answer's own, else that of the
  access token, else that of the ID token.
\<close>

definition claims_of_token :: "oauth_lib \<Rightarrow> string option \<Rightarrow> codex_claims option app_result" where
  "claims_of_token lib idt =
     (case idt of
        None \<Rightarrow> Inr None
      | Some raw \<Rightarrow> rbind (parse_id_token_claims lib raw) (\<lambda>c. Inr (Some c)))"

definition codex_grant ::
  "oauth_lib \<Rightarrow> timestamp \<Rightarrow> token_response \<Rightarrow> (token_grant \<times> string option) app_result" where
  "codex_grant lib now t =
     rbind (claims_of_token lib (tr_id_token t)) (\<lambda>claims.
     rbind (ok_or (Upstream ''codex oauth token response did not include an access token'')
              (tr_access_token t)) (\<lambda>access.
       Inr (\<lparr>tg_access_token = access, tg_refresh_token = tr_refresh_token t,
             tg_expires_at = or_else (expires_at_from_now now (tr_expires_in t))
               (or_else (jwt_expiration lib access) (Option.bind (tr_id_token t) (jwt_expiration lib))),
             tg_scopes = granted_scopes t,
             tg_remote_account_id = Option.bind claims cx_account_id,
             tg_remote_email = Option.bind claims cx_email,
             tg_is_fedramp = (case claims of None \<Rightarrow> False | Some c \<Rightarrow> cx_is_fedramp c),
             tg_api_key = None\<rparr>, tr_id_token t)))"

definition parse_token_body ::
  "oauth_lib \<Rightarrow> timestamp \<Rightarrow> string \<Rightarrow> (token_grant \<times> string option) app_result" where
  "parse_token_body lib now body = rbind (read_body lib codex_token_response body) (codex_grant lib now)"

definition obtain_api_key :: "oauth_lib \<Rightarrow> string \<Rightarrow> string app_result" where
  "obtain_api_key lib id_token =
     rbind (ask lib \<lparr>tq_method = ''POST'', tq_url = codex_token_url lib, tq_bearer = None,
         tq_headers = [(''Content-Type'', ''application/x-www-form-urlencoded'')],
         tq_body = Form [(''grant_type'', ''urn:ietf:params:oauth:grant-type:token-exchange''),
           (''client_id'', codex_client_id), (''requested_token'', ''openai-api-key''),
           (''subject_token'', id_token),
           (''subject_token_type'', ''urn:ietf:params:oauth:token-type:id_token'')]\<rparr>)
       (\<lambda>(status, body).
          if \<not> is_success status then Inl (refused lib ''codex api key exchange'' status body)
          else read_body lib (get_str ''access_token'') body)"

definition codex_exchange_code ::
  "oauth_lib \<Rightarrow> timestamp \<Rightarrow> oauth_session \<Rightarrow> string \<Rightarrow> token_grant app_result" where
  "codex_exchange_code lib now s code =
     rbind (ask lib \<lparr>tq_method = ''POST'', tq_url = codex_token_url lib, tq_bearer = None,
         tq_headers = [(''Content-Type'', ''application/x-www-form-urlencoded'')],
         tq_body = Form [(''grant_type'', ''authorization_code''), (''code'', code),
           (''redirect_uri'', s_redirect_uri s), (''client_id'', codex_client_id),
           (''code_verifier'', s_code_verifier s)]\<rparr>) (\<lambda>(status, body).
     rbind (if \<not> is_success status then Inl (refused lib ''codex oauth token request'' status body)
            else parse_token_body lib now body) (\<lambda>(g, idt).
       Inr (case idt of None \<Rightarrow> g | Some raw \<Rightarrow> g\<lparr>tg_api_key := ok (obtain_api_key lib raw)\<rparr>)))"

definition codex_refresh :: "oauth_lib \<Rightarrow> timestamp \<Rightarrow> string \<Rightarrow> token_grant app_result" where
  "codex_refresh lib now token =
     rbind (ask lib \<lparr>tq_method = ''POST'', tq_url = refresh_token_url lib, tq_bearer = None,
         tq_headers = [(''Content-Type'', ''application/json''), (''originator'', codex_originator lib)],
         tq_body = JsonBody (json_obj [(''client_id'', JStr codex_client_id),
           (''grant_type'', JStr ''refresh_token''), (''refresh_token'', JStr token)])\<rparr>)
       (\<lambda>(status, body).
          if \<not> is_success status then
            Inl (if status = 401 then Upstream (classify_refresh_token_failure lib body)
                 else refused lib ''codex oauth token request'' status body)
          else rbind (parse_token_body lib now body) (\<lambda>(g, idt). Inr g))"

section \<open>Claude\<close>

definition claude_client_id :: string where
  "claude_client_id = ''9d1c250a-e61b-44d9-88ed-5944d1962f5e''"

definition claude_url :: "oauth_lib \<Rightarrow> string \<Rightarrow> string \<Rightarrow> string" where
  "claude_url lib var default_url = unwrap_or default_url (ol_vars lib var)"

definition claude_token_url :: "oauth_lib \<Rightarrow> string" where
  "claude_token_url lib =
     claude_url lib ''KOU_CC_CLAUDE_TOKEN_URL'' ''https://platform.claude.com/v1/oauth/token''"

definition refresh_scope :: string where
  "refresh_scope = str_join '' '' [''user:profile'', ''user:inference'',
     ''user:sessions:claude_code'', ''user:mcp_servers'', ''user:file_upload'']"

definition claude_authorization_url ::
  "oauth_lib \<Rightarrow> string \<Rightarrow> string \<Rightarrow> string \<Rightarrow> string list \<Rightarrow> string app_result" where
  "claude_authorization_url lib redirect_uri state challenge scopes =
     ok_or (Upstream ''invalid claude oauth authorize url'')
       (ol_append lib (claude_url lib ''KOU_CC_CLAUDE_AUTHORIZE_URL'' ''https://claude.com/cai/oauth/authorize'')
         [(''code'', ''true''), (''client_id'', claude_client_id), (''response_type'', ''code''),
          (''redirect_uri'', redirect_uri),
          (''scope'', str_join '' '' (if scopes = [] then default_scopes ClaudeOAuth else scopes)),
          (''code_challenge'', challenge), (''code_challenge_method'', ''S256''), (''state'', state)])"

definition has_inference_scope :: "string list option \<Rightarrow> bool" where
  "has_inference_scope scopes =
     (case scopes of None \<Rightarrow> False | Some l \<Rightarrow> list_ex (\<lambda>s. s = ''user:inference'') l)"

definition extract_jwt_sub :: "oauth_lib \<Rightarrow> string \<Rightarrow> string option" where
  "extract_jwt_sub lib jwt =
     opt_filter (\<lambda>s. s \<noteq> [])
       (Option.bind (ok (decode_jwt_payload lib (\<lambda>v. Option.bind (object v) (str_field ''sub'')) jwt)) id)"

record account_claims =
  ac_uuid :: "string option"
  ac_email :: "string option"
  ac_email_address :: "string option"

definition read_account_claims :: "json \<Rightarrow> account_claims option" where
  "read_account_claims v =
     Option.bind (object v) (\<lambda>ob.
     Option.bind (str_field ''uuid'' ob) (\<lambda>uuid.
     Option.bind (str_field ''email_address'' ob) (\<lambda>address.
       Some \<lparr>ac_uuid = uuid, ac_email = None, ac_email_address = address\<rparr>)))"

definition profile_account :: "json \<Rightarrow> account_claims option" where
  "profile_account v =
     Option.bind (read_account_claims v) (\<lambda>a.
     Option.bind (object v) (\<lambda>ob.
     Option.bind (str_field ''email'' ob) (\<lambda>email. Some (a\<lparr>ac_email := email\<rparr>))))"

text \<open>The organization is read, and must have the right shape, but is not used.\<close>

definition organization_ok :: "obj \<Rightarrow> unit option" where
  "organization_ok ob =
     Option.bind (field (\<lambda>v. Option.bind (object v) (str_field ''uuid'')) ''organization'' ob) (\<lambda>u. Some ())"

definition claude_token_response :: "json \<Rightarrow> (token_response \<times> account_claims option) option" where
  "claude_token_response v =
     Option.bind (object v) (\<lambda>ob.
     Option.bind (str_field ''access_token'' ob) (\<lambda>access.
     Option.bind (str_field ''refresh_token'' ob) (\<lambda>ref.
     Option.bind (field as_i64 ''expires_in'' ob) (\<lambda>secs.
     Option.bind (str_field ''scope'' ob) (\<lambda>scope.
     Option.bind (field string_list ''scopes'' ob) (\<lambda>scopes.
     Option.bind (field read_account_claims ''account'' ob) (\<lambda>acc.
     Option.bind (organization_ok ob) (\<lambda>u.
       Some (\<lparr>tr_access_token = access, tr_refresh_token = ref, tr_id_token = None,
              tr_expires_in = secs, tr_scope = scope, tr_scopes = scopes\<rparr>, acc)))))))))"

definition claude_grant ::
  "oauth_lib \<Rightarrow> timestamp \<Rightarrow> token_response \<times> account_claims option \<Rightarrow> token_grant app_result" where
  "claude_grant lib now ta =
     (let (t, acc) = ta in
      rbind (ok_or (Upstream ''claude oauth token response did not include an access token'')
               (tr_access_token t)) (\<lambda>access.
        Inr \<lparr>tg_access_token = access, tg_refresh_token = tr_refresh_token t,
             tg_expires_at = expires_at_from_now now (tr_expires_in t), tg_scopes = granted_scopes t,
             tg_remote_account_id = or_else (Option.bind acc ac_uuid) (extract_jwt_sub lib access),
             tg_remote_email = Option.bind acc ac_email_address, tg_is_fedramp = False,
             tg_api_key = None\<rparr>))"

definition claude_parse_token ::
  "oauth_lib \<Rightarrow> timestamp \<Rightarrow> nat \<times> string \<Rightarrow> token_grant app_result" where
  "claude_parse_token lib now sb =
     (if \<not> is_success (fst sb) then Inl (refused lib ''claude oauth token request'' (fst sb) (snd sb))
      else rbind (read_body lib claude_token_response (snd sb)) (claude_grant lib now))"

definition bearer_get :: "string \<Rightarrow> string \<Rightarrow> headers \<Rightarrow> token_request" where
  "bearer_get url token hs =
     \<lparr>tq_method = ''GET'', tq_url = url, tq_bearer = Some token, tq_headers = hs, tq_body = NoBody\<rparr>"

definition profile_response :: "json \<Rightarrow> account_claims option option" where
  "profile_response v = Option.bind (object v) (field profile_account ''account'')"

definition fetch_profile :: "oauth_lib \<Rightarrow> string \<Rightarrow> account_claims option app_result" where
  "fetch_profile lib token =
     rbind (ask lib (bearer_get
         (claude_url lib ''KOU_CC_CLAUDE_PROFILE_URL'' ''https://api.anthropic.com/api/oauth/profile'')
         token [(''Content-Type'', ''application/json'')])) (\<lambda>(status, body).
       if \<not> is_success status then Inl (refused lib ''claude oauth profile request'' status body)
       else read_body lib profile_response body)"

definition enrich_with_profile :: "oauth_lib \<Rightarrow> token_grant \<Rightarrow> token_grant app_result" where
  "enrich_with_profile lib g =
     rbind (fetch_profile lib (tg_access_token g)) (\<lambda>acc.
       Inr (case acc of
              None \<Rightarrow> g
            | Some a \<Rightarrow> g\<lparr>tg_remote_account_id := or_else (tg_remote_account_id g) (ac_uuid a),
                tg_remote_email := or_else (tg_remote_email g) (or_else (ac_email a) (ac_email_address a))\<rparr>))"

definition create_claude_key :: "oauth_lib \<Rightarrow> string \<Rightarrow> string app_result" where
  "create_claude_key lib token =
     rbind (ask lib \<lparr>tq_method = ''POST'',
         tq_url = claude_url lib ''KOU_CC_CLAUDE_API_KEY_URL''
           ''https://api.anthropic.com/api/oauth/claude_cli/create_api_key'',
         tq_bearer = Some token, tq_headers = [], tq_body = NoBody\<rparr>) (\<lambda>(status, body).
       if \<not> is_success status then Inl (refused lib ''claude oauth api key request'' status body)
       else rbind (read_body lib (\<lambda>v. Option.bind (object v) (str_field ''raw_key'')) body)
              (ok_or (Upstream ''claude oauth api key response did not include raw_key'')))"

text \<open>The roles are asked for and whatever comes back is dropped, so the request leaves no trace here.\<close>

definition claude_exchange_code ::
  "oauth_lib \<Rightarrow> timestamp \<Rightarrow> oauth_session \<Rightarrow> string \<Rightarrow> token_grant app_result" where
  "claude_exchange_code lib now s code =
     (let code = (case split_once CHR ''#'' code of None \<Rightarrow> code | Some (c, rest) \<Rightarrow> c) in
      rbind (ask lib \<lparr>tq_method = ''POST'', tq_url = claude_token_url lib, tq_bearer = None,
          tq_headers = [], tq_body = JsonBody (json_obj [(''grant_type'', JStr ''authorization_code''),
            (''code'', JStr code), (''state'', JStr (s_state s)), (''client_id'', JStr claude_client_id),
            (''redirect_uri'', JStr (s_redirect_uri s)), (''code_verifier'', JStr (s_code_verifier s))])\<rparr>)
        (\<lambda>answer.
      rbind (claude_parse_token lib now answer) (\<lambda>g.
      rbind (enrich_with_profile lib (g\<lparr>tg_scopes := Some (unwrap_or (s_scopes s) (tg_scopes g))\<rparr>)) (\<lambda>g.
        if has_inference_scope (tg_scopes g) then Inr g
        else rbind (create_claude_key lib (tg_access_token g)) (\<lambda>key. Inr (g\<lparr>tg_api_key := Some key\<rparr>))))))"

definition claude_refresh :: "oauth_lib \<Rightarrow> timestamp \<Rightarrow> string \<Rightarrow> token_grant app_result" where
  "claude_refresh lib now token =
     rbind (ask lib \<lparr>tq_method = ''POST'', tq_url = claude_token_url lib, tq_bearer = None,
         tq_headers = [], tq_body = JsonBody (json_obj [(''grant_type'', JStr ''refresh_token''),
           (''refresh_token'', JStr token), (''client_id'', JStr claude_client_id),
           (''scope'', JStr refresh_scope)])\<rparr>)
       (claude_parse_token lib now)"

section \<open>By provider\<close>

fun authorization_url ::
  "oauth_lib \<Rightarrow> string \<Rightarrow> oauth_provider \<Rightarrow> string \<Rightarrow> string \<Rightarrow> string list \<Rightarrow> string app_result" where
  "authorization_url lib challenge CodexOAuth redirect_uri state scopes =
     Inr (codex_authorization_url lib redirect_uri state challenge scopes)"
| "authorization_url lib challenge ClaudeOAuth redirect_uri state scopes =
     claude_authorization_url lib redirect_uri state challenge scopes"

fun exchange_code ::
  "oauth_lib \<Rightarrow> timestamp \<Rightarrow> oauth_provider \<Rightarrow> oauth_session \<Rightarrow> string \<Rightarrow> token_grant app_result" where
  "exchange_code lib now CodexOAuth s code = codex_exchange_code lib now s code"
| "exchange_code lib now ClaudeOAuth s code = claude_exchange_code lib now s code"

fun refresh_token ::
  "oauth_lib \<Rightarrow> timestamp \<Rightarrow> oauth_provider \<Rightarrow> string \<Rightarrow> token_grant app_result" where
  "refresh_token lib now CodexOAuth token = codex_refresh lib now token"
| "refresh_token lib now ClaudeOAuth token = claude_refresh lib now token"

section \<open>Facts\<close>

lemma enrich_keeps:
  "enrich_with_profile lib g = Inr g' \<Longrightarrow>
     tg_access_token g' = tg_access_token g \<and> tg_scopes g' = tg_scopes g
     \<and> tg_refresh_token g' = tg_refresh_token g \<and> tg_expires_at g' = tg_expires_at g
     \<and> tg_api_key g' = tg_api_key g
     \<and> (tg_remote_account_id g \<noteq> None \<longrightarrow> tg_remote_account_id g' = tg_remote_account_id g)
     \<and> (tg_remote_email g \<noteq> None \<longrightarrow> tg_remote_email g' = tg_remote_email g)"
  by (auto simp: enrich_with_profile_def rbind_Inr split: option.splits)

text \<open>A Claude authorization that succeeds can be used: for inference, or with a key of its own.\<close>

lemma claude_exchange_usable:
  assumes "claude_exchange_code lib now s code = Inr g"
  shows "\<exists>scopes. tg_scopes g = Some scopes \<and> (has_inference_scope (Some scopes) \<or> tg_api_key g \<noteq> None)"
proof -
  obtain g1 g2 where "enrich_with_profile lib g1 = Inr g2" "\<exists>l. tg_scopes g1 = Some l"
    and last: "(if has_inference_scope (tg_scopes g2) then Inr g2
        else rbind (create_claude_key lib (tg_access_token g2)) (\<lambda>key. Inr (g2\<lparr>tg_api_key := Some key\<rparr>))) = Inr g"
    using assms by (auto simp: claude_exchange_code_def rbind_Inr Let_def)
  then have "\<exists>l. tg_scopes g2 = Some l" using enrich_keeps by fastforce
  then show ?thesis using last by (auto simp: rbind_Inr split: if_splits)
qed

text \<open>
  What a Codex grant says of the account comes from the ID token alone, and an access token that
  says when it expires gives the grant an expiry.
\<close>

lemma codex_grant_spec:
  assumes "codex_grant lib now t = Inr (g, idt)"
  shows "idt = tr_id_token t \<and> tr_access_token t = Some (tg_access_token g)
     \<and> (idt = None \<longrightarrow> tg_remote_account_id g = None \<and> tg_remote_email g = None \<and> \<not> tg_is_fedramp g)
     \<and> (\<forall>raw. idt = Some raw \<longrightarrow> (\<exists>c. parse_id_token_claims lib raw = Inr c
          \<and> tg_remote_account_id g = cx_account_id c \<and> tg_remote_email g = cx_email c
          \<and> tg_is_fedramp g = cx_is_fedramp c))
     \<and> (tr_expires_in t \<noteq> None \<or> jwt_expiration lib (tg_access_token g) \<noteq> None
          \<longrightarrow> tg_expires_at g \<noteq> None)"
  using assms
  by (cases "tr_access_token t"; cases "tr_expires_in t")
    (auto simp: codex_grant_def claims_of_token_def rbind_Inr expires_at_from_now_def split: option.splits)

lemma words_from_nonempty: "w \<in> set (words_from acc s) \<Longrightarrow> w \<noteq> []"
  by (induction acc s rule: words_from.induct) (auto split: option.splits if_splits)

lemma scopes_nonempty: "parse_scope_string (Some s) = Some l \<Longrightarrow> [] \<notin> set l"
  by (auto simp: parse_scope_string_def)

end
