(* ===== verification/Audio.thy ===== *)
theory Audio
  imports Proxy_Routes
begin

text \<open>
  Speech and transcriptions (\<open>src/audio.rs\<close> and the audio calls of \<open>src/upstream.rs\<close>). They do
  not share the attempt loop: one connection is chosen and asked once, without accounts, retries
  or fallback. The HTTP exchange, the reading of MIME types, the clock and the fresh request
  identifier are arguments; an upload is the sequence of what reading its parts gives.
\<close>

section \<open>Requests and answers\<close>

record transcription_payload =
  tp_model :: string
  tp_filename :: string
  tp_content_type :: "string option"
  tp_bytes :: string
  tp_text_fields :: "(string \<times> string) list"

text \<open>The file part has a name, a MIME type and bytes; the text parts follow it.\<close>

datatype audio_body =
    SpeechBody json
  | FormBody (form_file: "string \<times> string \<times> string") (form_texts: "(string \<times> string) list")

record audio_request =
  aq_url :: string
  aq_headers :: headers
  aq_body :: audio_body

record audio_response =
  au_status :: nat
  au_content_type :: string
  au_bytes :: string

record 'c audio_env =
  av_lib :: http_lib
  av_client :: "'c app_result"
  av_send :: "'c \<Rightarrow> audio_request \<Rightarrow> http_response app_result"
  av_mime_error :: "string \<Rightarrow> string option"
  av_show_status :: "nat \<Rightarrow> string"
  av_asked_at :: timestamp
  av_answered_at :: timestamp
  av_request_id :: string

text \<open>Sending a built request; the body of the answer is read as bytes.\<close>

definition audio_exchange ::
  "'c audio_env \<Rightarrow> provider \<Rightarrow> string \<Rightarrow> audio_request \<Rightarrow> audio_response app_result" where
  "audio_exchange av p default_type req =
     rbind (av_client av) (\<lambda>c.
     rbind (av_send av c req) (\<lambda>resp.
     rbind (hr_text resp) (\<lambda>bytes.
       Inr \<lparr>au_status = hr_status resp,
            au_content_type = unwrap_or default_type
              (Option.bind (header_map_get ''content-type'' (hr_headers resp)) header_to_str),
            au_bytes = bytes\<rparr>)))"

definition audio_request_to :: "'c audio_env \<Rightarrow> provider \<Rightarrow> endpoint \<Rightarrow> audio_body \<Rightarrow> audio_request" where
  "audio_request_to av p e body =
     \<lparr>aq_url = build_url (p_base_url p) (endpoint_path p e None False),
      aq_headers = apply_provider_headers (ok_name (av_lib av)) (ok_value (av_lib av)) p None [],
      aq_body = body\<rparr>"

text \<open>
  The model is written into the payload by index; only an object or null can take it, and a
  normalised payload is an object.
\<close>

definition execute_audio_speech ::
  "'c audio_env \<Rightarrow> provider \<Rightarrow> string \<Rightarrow> json \<Rightarrow> audio_response app_result outcome" where
  "execute_audio_speech av p model payload =
     (case jset ''model'' (JStr model) payload of
        None \<Rightarrow> Panics
      | Some body \<Rightarrow> Done (audio_exchange av p ''application/octet-stream''
          (audio_request_to av p AudioSpeech (SpeechBody body))))"

definition transcription_form :: "string \<Rightarrow> transcription_payload \<Rightarrow> (string \<times> string) list" where
  "transcription_form model tp =
     (''model'', model) # filter (\<lambda>(k, v). k \<noteq> ''model'' \<and> k \<noteq> ''file'') (tp_text_fields tp)"

definition execute_audio_transcription ::
  "'c audio_env \<Rightarrow> provider \<Rightarrow> string \<Rightarrow> transcription_payload \<Rightarrow> audio_response app_result" where
  "execute_audio_transcription av p model tp =
     (let mime = unwrap_or ''application/octet-stream'' (tp_content_type tp) in
      case av_mime_error av mime of
        Some err \<Rightarrow> Inl (Http err)
      | None \<Rightarrow> audio_exchange av p ''application/json''
          (audio_request_to av p AudioTranscriptions
             (FormBody (tp_filename tp, mime, tp_bytes tp) (transcription_form model tp))))"

definition body_preview :: "'c audio_env \<Rightarrow> audio_response \<Rightarrow> string" where
  "body_preview av r = utf8_take 4000 (utf8_lossy (av_lib av) (au_bytes r))"

definition audio_attempt :: "'c audio_env \<Rightarrow> string \<Rightarrow> string \<Rightarrow> audio_response \<Rightarrow> attempt" where
  "audio_attempt av provider_id model r =
     \<lparr>at_provider_id = provider_id, at_model = model, at_status = au_status r,
      at_body = body_preview av r, at_account = None\<rparr>"

section \<open>Choosing the connection\<close>

definition audio_split_model :: "string \<Rightarrow> (string \<times> string) app_result" where
  "audio_split_model v =
     (case split_once CHR ''/'' v of
        Some (p, m) \<Rightarrow>
          (if p = [] \<or> m = [] then Inl (BadRequest (''invalid model identifier: '' @ v))
           else Inr (p, m))
      | None \<Rightarrow> Inl (BadRequest (''invalid model identifier: '' @ v)))"

definition eligible_providers :: "timestamp \<Rightarrow> endpoint \<Rightarrow> db \<Rightarrow> provider list app_result" where
  "eligible_providers now e d =
     (let ps = filter (\<lambda>p. provider_available now p \<and> supports_endpoint (p_supported_endpoints p) e)
                 (list_provider_connections d)
      in if ps = [] then Inl (BadRequest (''no enabled providers configured for '' @ endpoint_as_str e))
         else Inr ps)"

definition resolve_provider :: "provider list \<Rightarrow> string \<Rightarrow> endpoint \<Rightarrow> provider app_result" where
  "resolve_provider ps resolved e =
     rbind (audio_split_model resolved) (\<lambda>(prefix, model).
       case sort_key p_priority
              (filter (\<lambda>p. p_model_prefix p = prefix \<or> p_provider p = prefix) ps) of
         p # rest \<Rightarrow> Inr p
       | [] \<Rightarrow> Inl (BadRequest
           (''no provider found for model prefix and endpoint '' @ endpoint_as_str e)))"

text \<open>The connection for a requested model, with the resolved model and the name it goes by there.\<close>

definition audio_target ::
  "'c audio_env \<Rightarrow> endpoint \<Rightarrow> string \<Rightarrow> db \<Rightarrow> (provider \<times> string \<times> string) app_result" where
  "audio_target av e requested d =
     (let resolved = resolve_alias requested d in
      rbind (eligible_providers (av_asked_at av) e d) (\<lambda>ps.
      rbind (resolve_provider ps resolved e) (\<lambda>p.
      rbind (audio_split_model resolved) (\<lambda>(prefix, raw). Inr (p, resolved, raw)))))"

section \<open>Uploads\<close>

record form_field =
  ff_name :: "string option"
  ff_file_name :: "string option"
  ff_content_type :: "string option"
  ff_bytes :: "string + string"
  ff_text :: "string + string"

record upload =
  ul_model :: "string option"
  ul_filename :: "string option"
  ul_content_type :: "string option"
  ul_bytes :: "string option"
  ul_text_fields :: "(string \<times> string) list"

definition read_field :: "form_field \<Rightarrow> upload \<Rightarrow> upload app_result" where
  "read_field f ul =
     (let name = unwrap_or [] (ff_name f) in
      if name = ''file'' then
        (case ff_bytes f of
           Inl err \<Rightarrow> Inl (BadRequest (''failed to read uploaded file: '' @ err))
         | Inr bytes \<Rightarrow> Inr (ul\<lparr>ul_filename := Some (unwrap_or ''audio.wav'' (ff_file_name f)),
             ul_content_type := ff_content_type f, ul_bytes := Some bytes\<rparr>))
      else
        (case ff_text f of
           Inl err \<Rightarrow> Inl (BadRequest (''failed to read multipart field '' @ name @ '': '' @ err))
         | Inr v \<Rightarrow>
             Inr ((if name = ''model'' then ul\<lparr>ul_model := Some v\<rparr> else ul)
                    \<lparr>ul_text_fields := ul_text_fields ul @ [(name, v)]\<rparr>)))"

fun read_fields :: "(string + form_field) list \<Rightarrow> upload \<Rightarrow> upload app_result" where
  "read_fields [] ul = Inr ul"
| "read_fields (Inl err # fs) ul = Inl (BadRequest (''invalid multipart form data: '' @ err))"
| "read_fields (Inr f # fs) ul = rbind (read_field f ul) (read_fields fs)"

definition no_upload :: upload where
  "no_upload = \<lparr>ul_model = None, ul_filename = None, ul_content_type = None, ul_bytes = None,
     ul_text_fields = []\<rparr>"

definition collect_transcription_payload ::
  "(string + form_field) list \<Rightarrow> transcription_payload app_result" where
  "collect_transcription_payload fs =
     rbind (read_fields fs no_upload) (\<lambda>ul.
     rbind (ok_or (BadRequest ''missing model'') (ul_model ul)) (\<lambda>model.
     rbind (ok_or (BadRequest ''missing file'') (ul_bytes ul)) (\<lambda>bytes.
       Inr \<lparr>tp_model = model, tp_filename = unwrap_or ''audio.wav'' (ul_filename ul),
            tp_content_type = ul_content_type ul, tp_bytes = bytes,
            tp_text_fields = ul_text_fields ul\<rparr>)))"

section \<open>The two endpoints\<close>

definition audio_debug ::
  "'c audio_env \<Rightarrow> endpoint \<Rightarrow> string \<Rightarrow> string \<Rightarrow> attempt \<Rightarrow> debug" where
  "audio_debug av e requested resolved a =
     \<lparr>rd_request_id = av_request_id av, rd_requested_model = requested,
      rd_resolved_model = resolved, rd_endpoint = endpoint_as_str e, rd_path_suffix = None,
      rd_tried = [a], rd_usage = None, rd_cost_usd = None\<rparr>"

definition debug_header_error :: "http_lib \<Rightarrow> string \<Rightarrow> string option" where
  "debug_header_error lib text = (if ok_value lib text then None else Some ''failed to parse header value'')"

definition build_audio_response :: "http_lib \<Rightarrow> audio_response \<Rightarrow> debug \<Rightarrow> reply app_result" where
  "build_audio_response lib r d =
     (let text = json_print lib (debug_json JObj d) in
      case debug_header_error lib (au_content_type r) of
        Some err \<Rightarrow> Inl (BadRequest (''invalid audio content type: '' @ err))
      | None \<Rightarrow>
          (case debug_header_error lib text of
             Some err \<Rightarrow> Inl (BadRequest (''debug header too large/invalid: '' @ err))
           | None \<Rightarrow>
               Inr \<lparr>rp_status = 200,
                    rp_headers = [(''content-type'', au_content_type r), (''x-kou-router-debug'', text)],
                    rp_body = Whole (au_bytes r)\<rparr>))"

definition speech :: "'c audio_env \<Rightarrow> json \<Rightarrow> db \<Rightarrow> (reply app_result \<times> db) outcome" where
  "speech av payload d =
     (case rbind (normalize_request (av_lib av) AudioSpeech payload) (\<lambda>nr.
             rbind (audio_target av AudioSpeech (nr_model nr) d) (\<lambda>t. Inr (nr, t))) of
        Inl e \<Rightarrow> Done (Inl e, d)
      | Inr (nr, p, resolved, raw) \<Rightarrow>
          (case execute_audio_speech av p raw (nr_body nr) of
             Runs_on \<Rightarrow> Runs_on
           | Panics \<Rightarrow> Panics
           | Done (Inl e) \<Rightarrow> Done (Inl e, d)
           | Done (Inr r) \<Rightarrow> Done
               (if is_success (au_status r) then
                  (build_audio_response (av_lib av) r (audio_debug av AudioSpeech (nr_model nr) resolved
                     (audio_attempt av (p_id p) resolved r)),
                   mark_provider_success (av_answered_at av) (p_id p) d)
                else
                  (Inl (Upstream (''audio speech request failed for '' @ p_provider p)),
                   mark_provider_failure (av_answered_at av) (p_id p) (body_preview av r) d))))"

definition transcription_reply ::
  "'c audio_env \<Rightarrow> string \<Rightarrow> string \<Rightarrow> provider \<Rightarrow> audio_response \<Rightarrow> reply app_result" where
  "transcription_reply av requested resolved p r =
     (case json_parse (av_lib av) (au_bytes r) of
        Inl err \<Rightarrow> Inl (JsonError err)
      | Inr v \<Rightarrow> Inr \<lparr>rp_status = 200, rp_headers = [(''content-type'', ''application/json'')],
          rp_body = Whole (json_print (av_lib av)
            (with_debug (audio_debug av AudioTranscriptions requested resolved
               (audio_attempt av (p_id p) resolved r)) v))\<rparr>)"

definition transcription_error :: "'c audio_env \<Rightarrow> provider \<Rightarrow> audio_response \<Rightarrow> app_error" where
  "transcription_error av p r = Upstream
     (''audio transcriptions request failed for '' @ p_provider p
      @ (if fallback_error (au_status r) (utf8_lossy (av_lib av) (au_bytes r))
         then '' with fallback-worthy status '' @ av_show_status av (au_status r) else []))"

definition transcriptions ::
  "'c audio_env \<Rightarrow> (string + form_field) list \<Rightarrow> db \<Rightarrow> reply app_result \<times> db" where
  "transcriptions av fs d =
     (case rbind (collect_transcription_payload fs) (\<lambda>tp.
             rbind (audio_target av AudioTranscriptions (tp_model tp) d) (\<lambda>(p, resolved, raw).
             rbind (execute_audio_transcription av p raw tp) (\<lambda>r. Inr (tp, p, resolved, r)))) of
        Inl e \<Rightarrow> (Inl e, d)
      | Inr (tp, p, resolved, r) \<Rightarrow>
          if is_success (au_status r) then
            (transcription_reply av (tp_model tp) resolved p r,
             mark_provider_success (av_answered_at av) (p_id p) d)
          else
            (Inl (transcription_error av p r),
             mark_provider_failure (av_answered_at av) (p_id p)
               (utf8_lossy (av_lib av) (au_bytes r)) d))"

section \<open>Facts\<close>

lemma audio_split_model_Inr:
  "audio_split_model v = Inr (p, m) \<longleftrightarrow>
     p \<noteq> [] \<and> m \<noteq> [] \<and> v = p @ CHR ''/'' # m \<and> CHR ''/'' \<notin> set p"
proof -
  have "audio_split_model v = Inr (p, m) \<longleftrightarrow> p \<noteq> [] \<and> m \<noteq> [] \<and> split_once CHR ''/'' v = Some (p, m)"
    by (auto simp: audio_split_model_def split: option.splits if_splits)
  then show ?thesis by (simp only: split_once_Some conj_assoc)
qed

text \<open>A connection that serves a prefix for an audio endpoint at a time.\<close>

definition serves :: "timestamp \<Rightarrow> endpoint \<Rightarrow> string \<Rightarrow> provider \<Rightarrow> bool" where
  "serves now e name p \<longleftrightarrow> provider_available now p \<and> supports_endpoint (p_supported_endpoints p) e
     \<and> (p_model_prefix p = name \<or> p_provider p = name)"

lemma sort_key_first:
  assumes "sort_key f xs = x # ys"
  shows "x \<in> set xs \<and> (\<forall>y \<in> set xs. f x \<le> f y)"
proof -
  have "set xs = set (x # ys)" using assms by (metis set_sort)
  moreover have "sorted (map f (x # ys))" using assms by (metis sorted_sort_key)
  ultimately show ?thesis by auto
qed

lemma audio_target_Inr:
  assumes "audio_target av e requested d = Inr (p, resolved, raw)"
  shows "\<exists>prefix. resolved = resolve_alias requested d \<and> resolved = prefix @ CHR ''/'' # raw
     \<and> CHR ''/'' \<notin> set prefix \<and> p \<in> set (list_provider_connections d)
     \<and> serves (av_asked_at av) e prefix p
     \<and> (\<forall>q \<in> set (list_provider_connections d). serves (av_asked_at av) e prefix q
          \<longrightarrow> p_priority p \<le> p_priority q)"
proof -
  let ?ps = "filter (\<lambda>p. provider_available (av_asked_at av) p \<and> supports_endpoint (p_supported_endpoints p) e)
       (list_provider_connections d)"
  have "\<exists>ps. eligible_providers (av_asked_at av) e d = Inr ps
     \<and> resolve_provider ps (resolve_alias requested d) e = Inr p
     \<and> (\<exists>pre. audio_split_model (resolve_alias requested d) = Inr (pre, raw))"
    and resolved: "resolved = resolve_alias requested d"
    using assms by (auto simp: audio_target_def rbind_Inr Let_def)
  then obtain prefix where split: "audio_split_model resolved = Inr (prefix, raw)"
    and "resolve_provider ?ps resolved e = Inr p"
    by (auto simp: eligible_providers_def Let_def split: if_splits)
  then obtain rest where
    "sort_key p_priority (filter (\<lambda>p. p_model_prefix p = prefix \<or> p_provider p = prefix) ?ps) = p # rest"
    by (auto simp: resolve_provider_def rbind_Inr split: list.splits)
  from sort_key_first [OF this]
  have "p \<in> set (list_provider_connections d)" "serves (av_asked_at av) e prefix p"
    "\<forall>q \<in> set (list_provider_connections d). serves (av_asked_at av) e prefix q
       \<longrightarrow> p_priority p \<le> p_priority q"
    by (simp_all add: serves_def)
  moreover have "resolved = prefix @ CHR ''/'' # raw" "CHR ''/'' \<notin> set prefix"
    using split resolved by (simp_all add: audio_split_model_Inr)
  ultimately show ?thesis using resolved by blast
qed

text \<open>Speech never panics, since a normalised body is an object.\<close>

lemma normalized_body_object:
  "normalize_request c e payload = Inr nr \<Longrightarrow> \<exists>ob. nr_body nr = JObj ob"
  by (auto simp: normalize_request_def rbind_Inr)

lemma speech_returns: "\<exists>r d'. speech av payload d = Done (r, d')"
  using normalized_body_object [of "av_lib av" AudioSpeech payload]
  by (fastforce simp: speech_def execute_audio_speech_def rbind_Inr split: sum.split)

lemma build_audio_response_Inr:
  "build_audio_response lib r d = Inr reply \<Longrightarrow> rp_status reply = 200 \<and> rp_body reply = Whole (au_bytes r)"
  by (auto simp: build_audio_response_def Let_def split: option.splits)

text \<open>
  What a call did: nothing but answer with an error, or one exchange with the chosen connection,
  whose outcome is recorded there.
\<close>

definition recorded ::
  "'c audio_env \<Rightarrow> provider \<Rightarrow> audio_response \<Rightarrow> string \<Rightarrow> db \<Rightarrow> db" where
  "recorded av p a text d =
     (if is_success (au_status a) then mark_provider_success (av_answered_at av) (p_id p) d
      else mark_provider_failure (av_answered_at av) (p_id p) text d)"

lemma speech_cases:
  "\<exists>r d'. speech av payload d = Done (r, d') \<and> ((\<exists>err. r = Inl err) \<and> d' = d
     \<or> (\<exists>nr p resolved raw a body. normalize_request (av_lib av) AudioSpeech payload = Inr nr
          \<and> audio_target av AudioSpeech (nr_model nr) d = Inr (p, resolved, raw)
          \<and> jset ''model'' (JStr raw) (nr_body nr) = Some body
          \<and> audio_exchange av p ''application/octet-stream''
               (audio_request_to av p AudioSpeech (SpeechBody body)) = Inr a
          \<and> d' = recorded av p a (body_preview av a) d
          \<and> (case r of Inl err \<Rightarrow> True
             | Inr reply \<Rightarrow> is_success (au_status a) \<and> rp_status reply = 200
                 \<and> rp_body reply = Whole (au_bytes a))))"
proof (cases "rbind (normalize_request (av_lib av) AudioSpeech payload) (\<lambda>nr.
             rbind (audio_target av AudioSpeech (nr_model nr) d) (\<lambda>t. Inr (nr, t)))")
  case (Inl err)
  then show ?thesis by (auto simp: speech_def)
next
  case (Inr chosen)
  obtain nr p resolved raw where chosen: "chosen = (nr, p, resolved, raw)" by (cases chosen) auto
  then have nr: "normalize_request (av_lib av) AudioSpeech payload = Inr nr"
    and target: "audio_target av AudioSpeech (nr_model nr) d = Inr (p, resolved, raw)"
    using Inr by (auto simp: rbind_Inr)
  obtain ob where "nr_body nr = JObj ob" using normalized_body_object [OF nr] by blast
  then obtain body where body: "jset ''model'' (JStr raw) (nr_body nr) = Some body" by simp
  let ?answer = "audio_exchange av p ''application/octet-stream''
      (audio_request_to av p AudioSpeech (SpeechBody body))"
  have asks: "execute_audio_speech av p raw (nr_body nr) = Done ?answer"
    by (simp add: execute_audio_speech_def body)
  note run = speech_def [of av payload d, unfolded Inr chosen, simplified asks sum.case prod.case outcome.case]
  show ?thesis
  proof (cases ?answer)
    case (Inl err)
    then show ?thesis by (simp add: run)
  next
    case (Inr a)
    then show ?thesis using nr target body
      by (auto simp: run recorded_def split: sum.split dest: build_audio_response_Inr)
  qed
qed

lemma transcriptions_cases:
  "\<exists>r d'. transcriptions av fs d = (r, d') \<and> ((\<exists>err. r = Inl err) \<and> d' = d
     \<or> (\<exists>tp p resolved raw a. collect_transcription_payload fs = Inr tp
          \<and> audio_target av AudioTranscriptions (tp_model tp) d = Inr (p, resolved, raw)
          \<and> execute_audio_transcription av p raw tp = Inr a
          \<and> d' = recorded av p a (utf8_lossy (av_lib av) (au_bytes a)) d
          \<and> (case r of Inl err \<Rightarrow> True | Inr reply \<Rightarrow> is_success (au_status a))))"
proof (cases "rbind (collect_transcription_payload fs) (\<lambda>tp.
             rbind (audio_target av AudioTranscriptions (tp_model tp) d) (\<lambda>(p, resolved, raw).
             rbind (execute_audio_transcription av p raw tp) (\<lambda>r. Inr (tp, p, resolved, r))))")
  case (Inl err)
  then show ?thesis by (auto simp: transcriptions_def)
next
  case (Inr chosen)
  then obtain tp p resolved raw a where chosen: "chosen = (tp, p, resolved, a)"
    and steps: "collect_transcription_payload fs = Inr tp"
    "audio_target av AudioTranscriptions (tp_model tp) d = Inr (p, resolved, raw)"
    "execute_audio_transcription av p raw tp = Inr a"
    by (auto simp: rbind_Inr)
  show ?thesis
    using steps by (auto simp: transcriptions_def Inr chosen recorded_def split: sum.split)
qed

text \<open>The text parts of an upload, in their order.\<close>

definition text_part :: "string + form_field \<Rightarrow> (string \<times> string) option" where
  "text_part x =
     (case x of
        Inl err \<Rightarrow> None
      | Inr f \<Rightarrow> if unwrap_or [] (ff_name f) = ''file'' then None
                 else (case ff_text f of Inl err \<Rightarrow> None
                       | Inr v \<Rightarrow> Some (unwrap_or [] (ff_name f), v)))"

lemma read_field_texts:
  "read_field f ul = Inr ul' \<Longrightarrow> ul_text_fields ul'
     = ul_text_fields ul @ (case text_part (Inr f) of None \<Rightarrow> [] | Some kv \<Rightarrow> [kv])"
  by (auto simp: read_field_def text_part_def Let_def split: sum.splits if_splits)

lemma read_fields_texts:
  "read_fields fs ul = Inr ul' \<Longrightarrow> ul_text_fields ul' = ul_text_fields ul @ List.map_filter text_part fs"
proof (induction fs arbitrary: ul)
  case (Cons x fs)
  obtain f ul1 where x: "x = Inr f" and f: "read_field f ul = Inr ul1" and rest: "read_fields fs ul1 = Inr ul'"
    using Cons.prems by (cases x) (auto simp: rbind_Inr)
  show ?case using Cons.IH [OF rest] read_field_texts [OF f]
    by (simp add: x List.map_filter_def split: option.split)
qed (simp add: List.map_filter_def)

lemma collect_texts:
  assumes "collect_transcription_payload fs = Inr tp"
  shows "tp_text_fields tp = List.map_filter text_part fs"
  using assms read_fields_texts [of fs no_upload]
  by (auto simp: collect_transcription_payload_def rbind_Inr no_upload_def)

end
