(* ===== verification/Clients.thy ===== *)
theory Clients
  imports Repository
begin

text \<open>
  The HTTP clients (\<open>ProxyClientCache\<close> of \<open>src/proxy.rs\<close>): one without a proxy, built once, and
  one for each proxy URL, built when it is first asked for. Building a client is an argument that
  may give a different client each time it is called, so the model counts the calls. The lock
  around the cache is never poisoned, since nothing under it panics.
\<close>

section \<open>The interface\<close>

text \<open>
  A store that answers some requests once and for all: what was answered is answered again,
  without a change, and no other request changes it.
\<close>

locale settled_answers =
  fixes ask :: "'k \<Rightarrow> 's \<Rightarrow> (app_error + 'v) \<times> 's"
  assumes again: "ask k s = (Inr v, s') \<Longrightarrow> ask k s' = (Inr v, s')"
    and kept: "ask k s = (Inr v, s) \<Longrightarrow> ask k (snd (ask j s)) = (Inr v, snd (ask j s))"
begin

lemma kept_by_all:
  assumes "ask k s = (Inr v, s)"
  shows "ask k (fold (\<lambda>j s. snd (ask j s)) js s) = (Inr v, fold (\<lambda>j s. snd (ask j s)) js s)"
  using assms by (induction js arbitrary: s) (simp_all add: kept)

lemma answered_for_good:
  assumes "ask k s = (Inr v, s')"
  shows "ask k (fold (\<lambda>j s. snd (ask j s)) js s') = (Inr v, fold (\<lambda>j s. snd (ask j s)) js s')"
  by (rule kept_by_all [OF again [OF assms]])

end

section \<open>The cache\<close>

record 'c client_lib =
  pl_proxy_error :: "string \<Rightarrow> string option"
  pl_build :: "nat \<Rightarrow> string option \<Rightarrow> string + 'c"

record 'c clients =
  pc_direct :: "string + 'c"
  pc_cache :: "(string \<times> 'c) list"
  pc_built :: nat

definition clients_new :: "'c client_lib \<Rightarrow> 'c clients" where
  "clients_new lib = \<lparr>pc_direct = pl_build lib 0 None, pc_cache = [], pc_built = 1\<rparr>"

definition direct_client :: "'c clients \<Rightarrow> 'c app_result" where
  "direct_client st =
     (case pc_direct st of
        Inl err \<Rightarrow> Inl (Upstream (''failed to build no-proxy client: '' @ err))
      | Inr c \<Rightarrow> Inr c)"

definition build_client :: "'c client_lib \<Rightarrow> nat \<Rightarrow> string \<Rightarrow> 'c app_result" where
  "build_client lib n url =
     (case pl_proxy_error lib url of
        Some err \<Rightarrow> Inl (BadRequest (''invalid proxy_url '' @ quoted url @ '': '' @ err))
      | None \<Rightarrow>
          (case pl_build lib n (Some url) of
             Inl err \<Rightarrow> Inl (Upstream (''failed to build proxy client: '' @ err))
           | Inr c \<Rightarrow> Inr c))"

definition for_proxy :: "'c client_lib \<Rightarrow> string \<Rightarrow> 'c clients \<Rightarrow> 'c app_result \<times> 'c clients" where
  "for_proxy lib url st =
     (case parse_and_validate_proxy (pl_proxy_error lib) url of
        Inl e \<Rightarrow> (Inl e, st)
      | Inr u \<Rightarrow>
          (let t = trim url in
           case obj_get t (pc_cache st) of
             Some c \<Rightarrow> (Inr c, st)
           | None \<Rightarrow>
               (let st = st\<lparr>pc_built := Suc (pc_built st)\<rparr> in
                case build_client lib (pc_built st - 1) t of
                  Inl e \<Rightarrow> (Inl e, st)
                | Inr c \<Rightarrow> (Inr c, st\<lparr>pc_cache := obj_insert t c (pc_cache st)\<rparr>))))"

definition for_optional ::
  "'c client_lib \<Rightarrow> string option \<Rightarrow> 'c clients \<Rightarrow> 'c app_result \<times> 'c clients" where
  "for_optional lib url st =
     (case url of None \<Rightarrow> (direct_client st, st) | Some u \<Rightarrow> for_proxy lib u st)"

section \<open>Facts\<close>

lemma for_proxy_cached:
  assumes "parse_and_validate_proxy (pl_proxy_error lib) url = Inr ()"
    and "obj_get (trim url) (pc_cache st) = Some c"
  shows "for_proxy lib url st = (Inr c, st)"
  using assms by (simp add: for_proxy_def Let_def)

lemma for_proxy_Inr:
  assumes "for_proxy lib url st = (Inr c, st')"
  shows "parse_and_validate_proxy (pl_proxy_error lib) url = Inr () \<and> obj_get (trim url) (pc_cache st') = Some c"
  using assms by (auto simp: for_proxy_def Let_def split: sum.splits option.splits)

text \<open>The cache only grows, and the direct client stays what it was.\<close>

lemma for_proxy_grows:
  "pc_direct (snd (for_proxy lib url st)) = pc_direct st
   \<and> (\<forall>u c. obj_get u (pc_cache st) = Some c \<longrightarrow> obj_get u (pc_cache (snd (for_proxy lib url st))) = Some c)"
  by (auto simp: for_proxy_def Let_def split: sum.split option.split)

interpretation clients: settled_answers "for_optional lib" for lib
proof
  fix k st c st'
  assume "for_optional lib k st = (Inr c, st')"
  then show "for_optional lib k st' = (Inr c, st')"
    by (auto simp: for_optional_def for_proxy_cached dest: for_proxy_Inr split: option.splits)
next
  fix k st c j
  assume *: "for_optional lib k st = (Inr c, st)"
  show "for_optional lib k (snd (for_optional lib j st)) = (Inr c, snd (for_optional lib j st))"
    using * for_proxy_grows [of lib _ st]
    by (auto simp: for_optional_def direct_client_def for_proxy_cached dest!: for_proxy_Inr split: option.splits)
qed

text \<open>A proxy URL that the check refuses is never built, and one it takes is not refused later.\<close>

lemma for_proxy_error:
  assumes "for_proxy lib url st = (Inl e, st')"
  shows "(\<exists>m. e = BadRequest m) \<and> parse_and_validate_proxy (pl_proxy_error lib) url = Inl e \<and> st' = st
     \<or> (\<exists>m. e = Upstream m) \<and> pc_cache st' = pc_cache st"
  using assms
  by (auto simp: for_proxy_def build_client_def parse_and_validate_proxy_def Let_def
      split: sum.splits option.splits if_splits)

end
