(* ===== verification/Startup.thy ===== *)
theory Startup
  imports Admin_Routes
begin

text \<open>
  The program around the router: the command line and the first administrator
  (\<open>src/main.rs\<close>), the web interface served to requests that match no route (\<open>src/ui.rs\<close>,
  \<open>src/app.rs\<close>), and the page of the local OAuth callback (\<open>src/oauth/callback_server.rs\<close>).
  Arguments, environment, prompts, files and the embedded interface are arguments. The fixed text
  of the pages and the sockets are left out.
\<close>

section \<open>The command line\<close>

datatype run_mode = ServeMode | DaemonMode

record cli =
  cli_mode :: run_mode
  cli_bind :: "string option"
  cli_db :: "string option"

datatype cli_outcome = RunWith cli | ShowHelp | ShowVersion | BadUsage string

fun parse_args :: "bool \<Rightarrow> cli \<Rightarrow> string list \<Rightarrow> cli_outcome" where
  "parse_args first cli [] = RunWith cli"
| "parse_args first cli (arg # args) =
     (if arg = ''serve'' \<and> first then parse_args False (cli\<lparr>cli_mode := ServeMode\<rparr>) args
      else if arg = ''daemon'' \<and> first then parse_args False (cli\<lparr>cli_mode := DaemonMode\<rparr>) args
      else if arg = ''--bind'' then
        (case args of
           [] \<Rightarrow> BadUsage ''--bind requires a value''
         | v # rest \<Rightarrow> parse_args False (cli\<lparr>cli_bind := Some v\<rparr>) rest)
      else if arg = ''--db'' then
        (case args of
           [] \<Rightarrow> BadUsage ''--db requires a value''
         | v # rest \<Rightarrow> parse_args False (cli\<lparr>cli_db := Some v\<rparr>) rest)
      else if arg = ''-h'' \<or> arg = ''--help'' then ShowHelp
      else if arg = ''-V'' \<or> arg = ''--version'' then ShowVersion
      else BadUsage (''unknown argument: '' @ arg))"

definition parse_cli :: "string list \<Rightarrow> cli_outcome" where
  "parse_cli args = parse_args True \<lparr>cli_mode = ServeMode, cli_bind = None, cli_db = None\<rparr> args"

definition database_url :: "(string \<Rightarrow> string option) \<Rightarrow> cli \<Rightarrow> string" where
  "database_url vars cli =
     unwrap_or ''sqlite://kou-router.db'' (or_else (cli_db cli) (vars ''KOU_ROUTER_DATABASE_URL''))"

definition bind_address :: "(string \<Rightarrow> string option) \<Rightarrow> cli \<Rightarrow> string" where
  "bind_address vars cli =
     unwrap_or (case cli_mode cli of ServeMode \<Rightarrow> ''0.0.0.0:20128'' | DaemonMode \<Rightarrow> ''127.0.0.1:20128'')
       (or_else (cli_bind cli) (vars ''KOU_ROUTER_BIND''))"

section \<open>The first administrator\<close>

text \<open>
  What the prompts give, in order; \<open>None\<close> is a program that still waits for input. Nothing but the
  password prompts reads the terminal.
\<close>

fun prompt_password ::
  "auth_lib \<Rightarrow> string \<Rightarrow> (string + string) list \<Rightarrow> db \<Rightarrow> ((string + unit) \<times> db) option" where
  "prompt_password lib secret [] d = None"
| "prompt_password lib secret (Inl err # rest) d = Some (Inl err, d)"
| "prompt_password lib secret (Inr password # rest) d =
     (if length password < 8 then prompt_password lib secret rest d
      else
        (case rest of
           [] \<Rightarrow> None
         | Inl err # rest \<Rightarrow> Some (Inl err, d)
         | Inr confirm # rest \<Rightarrow>
             (if password \<noteq> confirm then prompt_password lib secret rest d
              else
                (case set_admin_password lib secret password d of
                   (Inl e, d) \<Rightarrow> Some (Inl (error_text e), d)
                 | (Inr u, d) \<Rightarrow> Some (Inr (), d)))))"

definition ensure_admin_password ::
  "auth_lib \<Rightarrow> (string \<Rightarrow> string option) \<Rightarrow> bool \<Rightarrow> string \<Rightarrow> (string + string) list \<Rightarrow> db
     \<Rightarrow> ((string + unit) \<times> db) option" where
  "ensure_admin_password lib vars terminal secret prompts d =
     (case vars ''KOU_ROUTER_ADMIN_PASSWORD'' of
        Some password \<Rightarrow>
          (case set_admin_password lib secret password d of
             (Inl e, d) \<Rightarrow> Some (Inl (''KOU_ROUTER_ADMIN_PASSWORD: '' @ error_text e), d)
           | (Inr u, d) \<Rightarrow> Some (Inr (), d))
      | None \<Rightarrow>
          if is_admin_configured lib d then Some (Inr (), d)
          else if \<not> terminal then
            Some (Inl (''no admin password configured: run interactively to set one, ''
                       @ ''or set KOU_ROUTER_ADMIN_PASSWORD''), d)
          else prompt_password lib secret prompts d)"

section \<open>The web interface\<close>

datatype ui_reply = NoSuchPage | LoginPage | Asset string string | UiMissing

fun ui_status :: "ui_reply \<Rightarrow> nat" where
  "ui_status NoSuchPage = 404"
| "ui_status LoginPage = 401"
| "ui_status (Asset path bytes) = 200"
| "ui_status UiMissing = 200"

definition asset_cache_control :: "string \<Rightarrow> string" where
  "asset_cache_control path =
     (if starts_with path ''assets/'' then ''public, max-age=31536000, immutable'' else ''no-cache'')"

definition unsafe_part :: "string \<Rightarrow> bool" where
  "unsafe_part part \<longleftrightarrow> part = [] \<or> part = ''.'' \<or> part = ''..'' \<or> CHR 0x5C \<in> set part"

definition index_or_missing :: "string option \<Rightarrow> ui_reply" where
  "index_or_missing index =
     (case index of Some bytes \<Rightarrow> Asset ''index.html'' bytes | None \<Rightarrow> UiMissing)"

text \<open>\<open>read\<close> reads the file whose path below the directory has the given components.\<close>

definition from_disk :: "(string list \<Rightarrow> string option) \<Rightarrow> string \<Rightarrow> ui_reply" where
  "from_disk read path =
     (let rel = (if path = [] then ''index.html'' else path); parts = split_on CHR ''/'' rel in
      if list_ex unsafe_part parts then NoSuchPage
      else (case read parts of
              Some bytes \<Rightarrow> Asset rel bytes
            | None \<Rightarrow> index_or_missing (read [''index.html''])))"

definition from_embed :: "(string \<Rightarrow> string option) \<Rightarrow> string \<Rightarrow> ui_reply" where
  "from_embed embedded path =
     (case embedded path of
        Some bytes \<Rightarrow> Asset path bytes
      | None \<Rightarrow> index_or_missing (embedded ''index.html''))"

record ui_env =
  ui_vars :: "string \<Rightarrow> string option"
  ui_read :: "string \<Rightarrow> string list \<Rightarrow> string option"
  ui_dist :: "string \<Rightarrow> string option"
  ui_auth :: auth_lib

definition is_api_path :: "string \<Rightarrow> bool" where
  "is_api_path path \<longleftrightarrow> path = ''api'' \<or> path = ''v1'' \<or> starts_with path ''api/'' \<or> starts_with path ''v1/''"

definition ui_serve :: "ui_env \<Rightarrow> string \<Rightarrow> string \<Rightarrow> headers \<Rightarrow> db \<Rightarrow> ui_reply" where
  "ui_serve ui http_method uri_path hs d =
     (if http_method \<noteq> ''GET'' \<and> http_method \<noteq> ''HEAD'' then NoSuchPage
      else
        (let path = dropWhile (\<lambda>c. c = CHR ''/'') uri_path in
         if is_api_path path then NoSuchPage
         else if is_auth_required d \<and> \<not> has_valid_admin_cookie (ui_auth ui) hs d then LoginPage
         else (case ui_vars ui ''KOU_FRONTEND_DIST'' of
                 Some dir \<Rightarrow> from_disk (ui_read ui dir) path
               | None \<Rightarrow> from_embed (ui_dist ui) path)))"

section \<open>The callback page\<close>

record callback_query =
  cq_code :: "string option"
  cq_state :: "string option"
  cq_error :: "string option"
  cq_error_description :: "string option"

record callback_page =
  cp_title :: string
  cp_detail :: string
  cp_ok :: bool

definition replace_char :: "char \<Rightarrow> string \<Rightarrow> string \<Rightarrow> string" where
  "replace_char c text s = concat (map (\<lambda>x. if x = c then text else [x]) s)"

definition escape_html :: "string \<Rightarrow> string" where
  "escape_html s = replace_char CHR ''>'' ''&gt;'' (replace_char CHR ''<'' ''&lt;''
     (replace_char CHR ''&'' ''&amp;'' s))"

definition em_dash :: string where
  "em_dash = [CHR 0xE2, CHR 0x80, CHR 0x94]"

definition page :: "string \<Rightarrow> string \<Rightarrow> bool \<Rightarrow> callback_page" where
  "page title detail ok = \<lparr>cp_title = title, cp_detail = escape_html detail, cp_ok = ok\<rparr>"

text \<open>The page, and whether the listener is told to stop.\<close>

definition handle_callback ::
  "api_env \<Rightarrow> callback_query \<Rightarrow> db \<times> nat \<Rightarrow> (callback_page \<times> bool) \<times> db \<times> nat" where
  "handle_callback ae q s =
     (case (cq_code q, cq_state q) of
        (Some code, Some state) \<Rightarrow>
          (case drawing (ae_fresh ae) (\<lambda>i. complete_authorization (ae_now ae) (ae_proxy_error ae)
                  (ae_client ae) (ae_exchange ae) i state code) s of
             (Inr a, s) \<Rightarrow>
               ((page ''ACCOUNT CONNECTED''
                   (unwrap_or ''account'' (or_else (a_remote_email a) (a_label a))
                      @ '' linked '' @ em_dash @ '' close this tab and return to kou-router.'') True,
                 True), s)
           | (Inl e, s) \<Rightarrow> ((page ''AUTHORIZATION FAILED'' (error_text e) False, False), s))
      | _ \<Rightarrow>
          ((page ''AUTHORIZATION FAILED''
              (unwrap_or ''missing code or state in callback''
                 (or_else (cq_error_description q) (cq_error q))) False, False), s))"

section \<open>Facts\<close>

text \<open>A server that starts has an administrator.\<close>

lemma set_admin_password_configures:
  assumes "set_admin_password lib secret password d = (Inr (), d')"
    and "\<And>h. hash_password lib password = Inr h \<Longrightarrow> json_parse lib (json_quoted h) = Inr (JStr h)"
  shows "is_admin_configured lib d'"
  using set_admin_password_Inr [OF assms(1)] assms(2)
  by (auto simp: is_admin_configured_def get_setting_string_def)

lemma prompt_password_Inr:
  assumes "prompt_password lib secret prompts d = Some (Inr (), d')"
  shows "\<exists>password. Inr password \<in> set prompts \<and> set_admin_password lib secret password d = (Inr (), d')"
  using assms
  by (induction lib secret prompts d rule: prompt_password.induct)
    (auto split: if_splits list.splits sum.splits prod.splits)

lemma ensure_admin_password_Inr:
  assumes "ensure_admin_password lib vars terminal secret prompts d = Some (Inr (), d')"
  shows "(\<exists>password. 8 \<le> length password \<and> set_admin_password lib secret password d = (Inr (), d')
       \<and> (vars ''KOU_ROUTER_ADMIN_PASSWORD'' = Some password \<or> terminal \<and> Inr password \<in> set prompts))
     \<or> (vars ''KOU_ROUTER_ADMIN_PASSWORD'' = None \<and> is_admin_configured lib d \<and> d' = d)"
proof (cases "vars ''KOU_ROUTER_ADMIN_PASSWORD''")
  case None
  show ?thesis
  proof (cases "is_admin_configured lib d")
    case False
    then have "terminal" "prompt_password lib secret prompts d = Some (Inr (), d')"
      using assms None by (simp_all add: ensure_admin_password_def split: if_splits)
    then show ?thesis using prompt_password_Inr set_admin_password_Inr by blast
  qed (use assms None in \<open>simp add: ensure_admin_password_def\<close>)
next
  case (Some password)
  then have "set_admin_password lib secret password d = (Inr (), d')"
    using assms by (auto simp: ensure_admin_password_def split: prod.splits sum.splits)
  then show ?thesis using Some set_admin_password_Inr by blast
qed

text \<open>What the interface shows without a cookie, and which files it reads.\<close>

lemma ui_serve_closed:
  assumes "is_auth_required d" and "\<not> has_valid_admin_cookie (ui_auth ui) hs d"
  shows "ui_serve ui http_method uri_path hs d \<in> {NoSuchPage, LoginPage}"
  using assms by (simp add: ui_serve_def Let_def)

definition inside :: "string list \<Rightarrow> bool" where
  "inside parts \<longleftrightarrow> parts \<noteq> [] \<and> (\<forall>part \<in> set parts. part \<noteq> [] \<and> part \<noteq> ''.'' \<and> part \<noteq> ''..''
     \<and> CHR ''/'' \<notin> set part \<and> CHR 0x5C \<notin> set part)"

lemma split_on_inside:
  assumes "\<not> list_ex unsafe_part (split_on CHR ''/'' s)"
  shows "inside (split_on CHR ''/'' s)"
  using assms split_on_no_sep split_on_nonempty
  by (auto simp: inside_def unsafe_part_def list_ex_iff)

lemma from_disk_reads_inside:
  assumes "\<And>parts. inside parts \<Longrightarrow> read parts = read2 parts"
  shows "from_disk read path = from_disk read2 path"
proof -
  have "read [''index.html''] = read2 [''index.html'']" by (rule assms) (simp add: inside_def)
  moreover have "read (split_on CHR ''/'' s) = read2 (split_on CHR ''/'' s)"
    if "\<not> list_ex unsafe_part (split_on CHR ''/'' s)" for s
    by (rule assms [OF split_on_inside [OF that]])
  ultimately show ?thesis
    by (cases "list_ex unsafe_part (split_on CHR ''/'' (if path = [] then ''index.html'' else path))")
      (simp_all only: from_disk_def Let_def if_True if_False simp_thms)
qed

text \<open>Escaping is one pass over the text, leaves no markup, and loses nothing.\<close>

definition escape_char :: "char \<Rightarrow> string" where
  "escape_char c =
     (if c = CHR ''&'' then ''&amp;'' else if c = CHR ''<'' then ''&lt;''
      else if c = CHR ''>'' then ''&gt;'' else [c])"

lemma replace_char_append: "replace_char c text (s @ t) = replace_char c text s @ replace_char c text t"
  by (simp add: replace_char_def)

lemma escape_html_append: "escape_html (s @ t) = escape_html s @ escape_html t"
  by (simp add: escape_html_def replace_char_append)

lemma escape_html_char: "escape_html [c] = escape_char c"
  by (simp add: escape_html_def escape_char_def replace_char_def)

lemma escape_html_one_pass: "escape_html s = concat (map escape_char s)"
proof (induction s)
  case (Cons c s)
  then show ?case using escape_html_append [of "[c]" s] by (simp add: escape_html_char)
qed (simp add: escape_html_def replace_char_def)

lemma escape_html_no_markup: "CHR ''<'' \<notin> set (escape_html s) \<and> CHR ''>'' \<notin> set (escape_html s)"
  by (auto simp: escape_html_one_pass escape_char_def split: if_splits)

fun unescape_html :: "string \<Rightarrow> string" where
  "unescape_html [] = []"
| "unescape_html (c # s) =
     (if c \<noteq> CHR ''&'' then c # unescape_html s
      else if starts_with s ''amp;'' then CHR ''&'' # unescape_html (drop 4 s)
      else if starts_with s ''lt;'' then CHR ''<'' # unescape_html (drop 3 s)
      else if starts_with s ''gt;'' then CHR ''>'' # unescape_html (drop 3 s)
      else c # unescape_html s)"

lemma unescape_escape: "unescape_html (escape_html s) = s"
proof -
  have "unescape_html (escape_char c @ t) = c # unescape_html t" for c t
    by (simp add: escape_char_def starts_with_iff)
  then show ?thesis
    by (induction s) (simp_all add: escape_html_one_pass)
qed

end
