(* ===== verification/Application.thy ===== *)
theory Application
  imports Catalog Audio Startup
begin

text \<open>
  The route table (\<open>router\<close> of \<open>src/routes.rs\<close>) and what answers a request as a whole
  (\<open>build_app\<close> and \<open>build_headless_app\<close> of \<open>src/app.rs\<close>): the pattern and method of each route, the
  extractor its handler takes, and the handler's name; and the handlers of the model listings.
  Matching a path is the routing crate's documented behaviour. A handler without an extractor
  sees every request; \<open>ProxyIdentity\<close> only names the caller; \<open>ManagementAuth\<close> can refuse.
\<close>

section \<open>Patterns\<close>

datatype segment = Lit string | One | Tail

definition segment_of :: "string \<Rightarrow> segment" where
  "segment_of s =
     (if starts_with s ''{*'' then Tail else if starts_with s ''{'' then One else Lit s)"

fun seg_matches :: "segment list \<Rightarrow> string list \<Rightarrow> bool" where
  "seg_matches [] ss = (ss = [])"
| "seg_matches (Tail # ps) ss = (ss \<noteq> [] \<and> ss \<noteq> [[]])"
| "seg_matches (Lit l # ps) (s # ss) = (l = s \<and> seg_matches ps ss)"
| "seg_matches (One # ps) (s # ss) = (s \<noteq> [] \<and> seg_matches ps ss)"
| "seg_matches (p # ps) [] = False"

datatype guard = Unguarded | Identified | Managed

record app_route =
  ar_method :: string
  ar_pattern :: "segment list"
  ar_guard :: guard
  ar_handler :: string

definition route_to :: "string \<Rightarrow> string \<Rightarrow> guard \<Rightarrow> string \<Rightarrow> app_route" where
  "route_to http_method pattern g handler =
     \<lparr>ar_method = http_method, ar_pattern = map segment_of (split_on CHR ''/'' pattern),
      ar_guard = g, ar_handler = handler\<rparr>"

section \<open>The table\<close>

definition model_routes :: "app_route list" where
  "model_routes =
     [route_to ''GET'' ''/health'' Unguarded ''health'',
      route_to ''GET'' ''/v1'' Unguarded ''list_models'',
      route_to ''GET'' ''/v1/models'' Unguarded ''list_models'',
      route_to ''POST'' ''/v1/chat/completions'' Identified ''chat_completions'',
      route_to ''POST'' ''/v1/completions'' Identified ''completions'',
      route_to ''POST'' ''/v1/messages'' Identified ''messages'',
      route_to ''POST'' ''/v1/messages/count_tokens'' Unguarded ''messages_count_tokens'',
      route_to ''GET'' ''/v1/files/{file_id}/content'' Unguarded ''files_content'',
      route_to ''POST'' ''/v1/responses'' Identified ''responses'',
      route_to ''POST'' ''/v1/responses/{*path}'' Identified ''responses_with_suffix'',
      route_to ''POST'' ''/v1/api/chat'' Identified ''ollama_chat'',
      route_to ''GET'' ''/v1/embeddings'' Unguarded ''list_embedding_models'',
      route_to ''POST'' ''/v1/embeddings'' Identified ''embeddings'',
      route_to ''GET'' ''/v1/images/generations'' Unguarded ''list_image_models'',
      route_to ''POST'' ''/v1/images/generations'' Identified ''image_generations'',
      route_to ''GET'' ''/v1/music/generations'' Unguarded ''list_music_models'',
      route_to ''POST'' ''/v1/music/generations'' Identified ''music_generations'',
      route_to ''GET'' ''/v1/videos/generations'' Unguarded ''list_video_models'',
      route_to ''POST'' ''/v1/videos/generations'' Identified ''video_generations'',
      route_to ''POST'' ''/v1/moderations'' Identified ''moderations'',
      route_to ''POST'' ''/v1/rerank'' Identified ''rerank'',
      route_to ''GET'' ''/v1/search'' Unguarded ''list_search_models'',
      route_to ''POST'' ''/v1/search'' Identified ''search'',
      route_to ''POST'' ''/v1/audio/speech'' Unguarded ''audio_speech'',
      route_to ''POST'' ''/v1/audio/transcriptions'' Unguarded ''audio_transcriptions'']"

definition management_routes :: "app_route list" where
  "management_routes =
     [route_to ''GET'' ''/api/providers'' Managed ''list_providers'',
      route_to ''POST'' ''/api/providers'' Managed ''create_provider'',
      route_to ''GET'' ''/api/providers/presets'' Managed ''list_provider_presets'',
      route_to ''POST'' ''/api/providers/import'' Managed ''import_provider_preset'',
      route_to ''GET'' ''/api/provider-accounts'' Managed ''list_provider_accounts'',
      route_to ''POST'' ''/api/provider-accounts'' Managed ''create_provider_account'',
      route_to ''POST'' ''/api/provider-accounts/oauth/start'' Managed ''start_provider_account_oauth'',
      route_to ''POST'' ''/api/provider-accounts/oauth/callback'' Managed ''complete_provider_account_oauth'',
      route_to ''POST'' ''/api/provider-accounts/{id}/refresh'' Managed ''refresh_provider_account'',
      route_to ''POST'' ''/api/provider-accounts/{id}/proxy'' Managed ''set_provider_account_proxy'',
      route_to ''POST'' ''/api/provider-accounts/{id}/disable'' Managed ''disable_provider_account'',
      route_to ''POST'' ''/api/provider-accounts/{id}/enable'' Managed ''enable_provider_account'',
      route_to ''DELETE'' ''/api/provider-accounts/{id}'' Managed ''delete_provider_account'',
      route_to ''GET'' ''/api/combos'' Managed ''list_combos'',
      route_to ''POST'' ''/api/combos'' Managed ''create_combo'',
      route_to ''GET'' ''/api/models/alias'' Managed ''list_aliases'',
      route_to ''POST'' ''/api/models/alias'' Managed ''upsert_alias'',
      route_to ''DELETE'' ''/api/models/alias/{alias}'' Managed ''delete_alias'',
      route_to ''GET'' ''/api/settings'' Managed ''get_settings'',
      route_to ''POST'' ''/api/settings'' Managed ''put_settings'',
      route_to ''GET'' ''/api/ratelimits'' Managed ''get_ratelimits'',
      route_to ''GET'' ''/api/logs'' Managed ''list_request_logs'',
      route_to ''DELETE'' ''/api/logs'' Managed ''clear_request_logs'',
      route_to ''GET'' ''/api/logs/{id}'' Managed ''get_request_log_detail'',
      route_to ''GET'' ''/api/auth/status'' Unguarded ''auth_status'',
      route_to ''POST'' ''/api/auth/setup'' Unguarded ''auth_setup'',
      route_to ''POST'' ''/api/auth/login'' Unguarded ''auth_login'',
      route_to ''POST'' ''/api/auth/logout'' Unguarded ''auth_logout'',
      route_to ''GET'' ''/api/keys'' Managed ''list_api_keys'',
      route_to ''POST'' ''/api/keys'' Managed ''create_api_key'',
      route_to ''DELETE'' ''/api/keys/{id}'' Managed ''revoke_api_key'']"

definition app_routes :: "app_route list" where
  "app_routes = model_routes @ management_routes"

text \<open>A GET handler also answers HEAD; a path that is known for other methods only is a 405.\<close>

datatype dispatched = Handler app_route | MethodNotAllowed | Unmatched

definition route_matches :: "string \<Rightarrow> app_route \<Rightarrow> bool" where
  "route_matches path r \<longleftrightarrow> seg_matches (ar_pattern r) (split_on CHR ''/'' path)"

definition method_matches :: "string \<Rightarrow> app_route \<Rightarrow> bool" where
  "method_matches http_method r \<longleftrightarrow>
     ar_method r = http_method \<or> (http_method = ''HEAD'' \<and> ar_method r = ''GET'')"

definition dispatch :: "string \<Rightarrow> string \<Rightarrow> dispatched" where
  "dispatch http_method path =
     (case filter (route_matches path) app_routes of
        [] \<Rightarrow> Unmatched
      | rs \<Rightarrow> (case find (method_matches http_method) rs of
                 None \<Rightarrow> MethodNotAllowed
               | Some r \<Rightarrow> Handler r))"

text \<open>What becomes of a request: a handler, or what the mode has for the others.\<close>

datatype served = Routed app_route | Refused nat | Shown ui_reply | ServiceInfo

definition app_serve :: "run_mode \<Rightarrow> ui_env \<Rightarrow> string \<Rightarrow> string \<Rightarrow> headers \<Rightarrow> db \<Rightarrow> served" where
  "app_serve mode ui http_method path hs d =
     (case dispatch http_method path of
        Handler r \<Rightarrow> Routed r
      | MethodNotAllowed \<Rightarrow> Refused 405
      | Unmatched \<Rightarrow>
          (case mode of
             ServeMode \<Rightarrow> Shown (ui_serve ui http_method path hs d)
           | DaemonMode \<Rightarrow>
               if path \<noteq> ''/'' then Refused 404
               else if http_method = ''GET'' \<or> http_method = ''HEAD'' then ServiceInfo
               else Refused 405))"

section \<open>The listings\<close>

definition model_listings :: "(string \<times> endpoint option) list" where
  "model_listings =
     [(''list_models'', None), (''list_embedding_models'', Some Embeddings),
      (''list_image_models'', Some ImagesGenerations), (''list_music_models'', Some MusicGenerations),
      (''list_video_models'', Some VideosGenerations), (''list_search_models'', Some Search)]"

definition serve_listing ::
  "catalog_env \<Rightarrow> string \<Rightarrow> db \<Rightarrow> native_state \<Rightarrow> (model_entry list \<times> native_state) option" where
  "serve_listing ca handler d st =
     (case map_of model_listings handler of
        None \<Rightarrow> None
      | Some None \<Rightarrow> Some (list_models ca d st)
      | Some (Some e) \<Rightarrow> Some (list_models_for_endpoint ca e d, st))"

section \<open>Facts\<close>

text \<open>Two patterns that some path matches.\<close>

fun overlap :: "segment list \<Rightarrow> segment list \<Rightarrow> bool" where
  "overlap [] qs = (qs = [])"
| "overlap ps [] = False"
| "overlap (Tail # ps) (q # qs) = True"
| "overlap (p # ps) (Tail # qs) = True"
| "overlap (Lit a # ps) (Lit b # qs) = (a = b \<and> overlap ps qs)"
| "overlap (p # ps) (q # qs) = overlap ps qs"

lemma matches_overlap: "seg_matches ps ss \<Longrightarrow> seg_matches qs ss \<Longrightarrow> overlap ps qs"
proof (induction ps arbitrary: qs ss)
  case (Cons p ps)
  from Cons.prems obtain s ss' where ss: "ss = s # ss'" by (cases ss; cases p) auto
  show ?case
  proof (cases qs)
    case qs: (Cons q qs')
    show ?thesis using Cons.prems Cons.IH [of ss' qs'] by (cases p; cases q) (auto simp: ss qs)
  qed (use Cons.prems ss in simp)
next
  case Nil
  then show ?case by (cases qs; cases "hd qs") auto
qed

text \<open>No request fits two routes.\<close>

lemma routes_apart:
  "sorted_wrt (\<lambda>r s. ar_method r \<noteq> ar_method s \<or> \<not> overlap (ar_pattern r) (ar_pattern s)) app_routes"
  by code_simp

lemma sorted_wrt_symD:
  assumes "sorted_wrt R xs" and "x \<in> set xs" and "y \<in> set xs" and "\<And>x y. R x y \<Longrightarrow> R y x"
  shows "x = y \<or> R x y"
  using assms by (induction xs) auto

lemma overlap_sym: "overlap ps qs \<Longrightarrow> overlap qs ps"
proof (induction ps qs rule: overlap.induct)
  case (3 ps q qs)
  then show ?case by (cases q) auto
qed auto

lemma route_unique:
  assumes "r \<in> set app_routes" and "s \<in> set app_routes" and "ar_method r = ar_method s"
    and "route_matches path r" and "route_matches path s"
  shows "r = s"
proof (rule ccontr)
  assume "r \<noteq> s"
  then have "ar_method r \<noteq> ar_method s \<or> \<not> overlap (ar_pattern r) (ar_pattern s)"
    using sorted_wrt_symD [OF routes_apart assms(1,2)] overlap_sym by metis
  then show False
    using assms(3) matches_overlap assms(4,5) unfolding route_matches_def by blast
qed

lemma dispatch_Handler:
  assumes "dispatch http_method path = Handler r"
  shows "r \<in> set app_routes \<and> route_matches path r \<and> method_matches http_method r"
proof -
  have "find (method_matches http_method) (filter (route_matches path) app_routes) = Some r"
    using assms by (auto simp: dispatch_def simp del: find.simps split: list.splits option.splits)
  then show ?thesis using find_SomeD by fastforce
qed

text \<open>The management routes, but those of the login, take the guard that can refuse.\<close>

definition under_api :: "string list \<Rightarrow> bool" where
  "under_api ss \<longleftrightarrow> take 2 ss = [[], ''api''] \<and> take 3 ss \<noteq> [[], ''api'', ''auth'']"

lemma routes_guarded:
  "list_all (\<lambda>r. ar_guard r = Managed \<longleftrightarrow> take 2 (ar_pattern r) = [Lit [], Lit ''api'']
     \<and> take 3 (ar_pattern r) \<noteq> [Lit [], Lit ''api'', Lit ''auth'']) app_routes"
  by code_simp

definition is_literal :: "segment \<Rightarrow> bool" where
  "is_literal p \<longleftrightarrow> (case p of Lit l \<Rightarrow> True | q \<Rightarrow> False)"

lemma literal_starts: "list_all (\<lambda>r. list_all is_literal (take 3 (ar_pattern r))) app_routes"
  by code_simp

lemma literal_matches:
  "seg_matches ps ss \<Longrightarrow> list_all is_literal (take n ps) \<Longrightarrow> take n ps = map Lit (take n ss)"
proof (induction ps ss arbitrary: n rule: seg_matches.induct)
  case (3 l ps s ss)
  then show ?case by (cases n) auto
qed (auto simp: is_literal_def take_Cons' split: if_splits)

lemma api_guarded:
  assumes "dispatch http_method path = Handler r" and "under_api (split_on CHR ''/'' path)"
  shows "ar_guard r = Managed"
proof -
  have r: "r \<in> set app_routes" "seg_matches (ar_pattern r) (split_on CHR ''/'' path)"
    using dispatch_Handler [OF assms(1)] by (simp_all add: route_matches_def)
  then have three: "take 3 (ar_pattern r) = map Lit (take 3 (split_on CHR ''/'' path))"
    using literal_starts literal_matches by (simp add: list_all_iff)
  have "take 2 (ar_pattern r) = take 2 (take 3 (ar_pattern r))" by simp
  also have "\<dots> = map Lit (take 2 (split_on CHR ''/'' path))" by (simp add: three take_map)
  finally have "take 2 (ar_pattern r) = [Lit [], Lit ''api'']"
    using assms(2) by (simp add: under_api_def)
  moreover have "take 3 (ar_pattern r) \<noteq> map Lit [[], ''api'', ''auth'']"
    unfolding three using assms(2) by (auto simp: under_api_def dest: map_injective)
  ultimately show ?thesis using routes_guarded r(1) by (simp add: list_all_iff)
qed

text \<open>
  Whatever the mode, a path under \<open>/api\<close> that is not one of the login reaches a guarded handler or
  is refused.
\<close>

lemma under_api_path:
  assumes "under_api (split_on CHR ''/'' path)"
  shows "path = ''/api'' \<or> starts_with path ''/api/''"
proof -
  obtain rest where split: "split_on CHR ''/'' path = [] # ''api'' # rest"
    using assms by (cases "split_on CHR ''/'' path" rule: remdups_adj.cases) (auto simp: under_api_def)
  have "path = str_join ''/'' ([] # ''api'' # rest)" using join_split_on [of "CHR ''/''" path] split by simp
  then show ?thesis by (cases rest) (auto simp: starts_with_def)
qed

lemma served_under_api:
  assumes "under_api (split_on CHR ''/'' path)"
  shows "(\<exists>r \<in> set app_routes. app_serve mode ui http_method path hs d = Routed r \<and> ar_guard r = Managed)
     \<or> app_serve mode ui http_method path hs d \<in> {Refused 404, Refused 405, Shown NoSuchPage}"
proof (cases "dispatch http_method path")
  case (Handler r)
  then show ?thesis using api_guarded [OF Handler assms] dispatch_Handler [OF Handler]
    by (auto simp: app_serve_def)
next
  case Unmatched
  have "path \<noteq> ''/''" "is_api_path (dropWhile (\<lambda>c. c = CHR ''/'') path)"
    using under_api_path [OF assms] by (auto simp: is_api_path_def starts_with_iff)
  then show ?thesis by (cases mode) (auto simp: app_serve_def Unmatched ui_serve_def)
qed (simp add: app_serve_def)

end
