(* ===== verification/Schema.thy ===== *)
theory Schema
  imports F64 "HOL-Library.AList"
begin

text \<open>
  The schema and its migrations (\<open>init_db\<close> of \<open>src/db.rs\<close>): the statements start-up runs on
  whatever database it finds, and the part of SQLite they use. A table has its columns and rows,
  every row one value per column; \<open>CREATE ... IF NOT EXISTS\<close> leaves what exists alone, and
  \<open>ALTER TABLE ... ADD COLUMN\<close> appends the default to every row. Opening the file and the
  connection pool are left out.
\<close>

section \<open>Tables\<close>

datatype sql_type = TextType | IntegerType | RealType

datatype sql_value = VNull | VText string | VInt int | VReal f64

record column =
  co_name :: string
  co_type :: sql_type
  co_not_null :: bool
  co_unique :: bool
  co_default :: "sql_value option"

definition required :: "string \<Rightarrow> sql_type \<Rightarrow> sql_value option \<Rightarrow> column" where
  "required n t v = \<lparr>co_name = n, co_type = t, co_not_null = True, co_unique = False, co_default = v\<rparr>"

definition nullable :: "string \<Rightarrow> sql_type \<Rightarrow> sql_value option \<Rightarrow> column" where
  "nullable n t v = \<lparr>co_name = n, co_type = t, co_not_null = False, co_unique = False, co_default = v\<rparr>"

text \<open>A primary key of SQLite may be null unless it is declared otherwise.\<close>

definition keyed :: "string \<Rightarrow> sql_type \<Rightarrow> column" where
  "keyed n t = \<lparr>co_name = n, co_type = t, co_not_null = False, co_unique = True, co_default = None\<rparr>"

definition unique :: "string \<Rightarrow> sql_type \<Rightarrow> column" where
  "unique n t = \<lparr>co_name = n, co_type = t, co_not_null = True, co_unique = True, co_default = None\<rparr>"

datatype on_delete = Cascade | SetNull

record foreign_key =
  fk_column :: string
  fk_table :: string
  fk_target :: string
  fk_on_delete :: on_delete

definition foreign :: "string \<Rightarrow> string \<Rightarrow> string \<Rightarrow> on_delete \<Rightarrow> foreign_key" where
  "foreign c t target act = \<lparr>fk_column = c, fk_table = t, fk_target = target, fk_on_delete = act\<rparr>"

record sql_table =
  tb_columns :: "column list"
  tb_foreign :: "foreign_key list"
  tb_rows :: "sql_value list list"

record sql_db =
  sq_tables :: "(string \<times> sql_table) list"
  sq_indexes :: "(string \<times> string \<times> string list) list"

definition column_names :: "sql_table \<Rightarrow> string list" where
  "column_names t = map co_name (tb_columns t)"

definition find_table :: "string \<Rightarrow> sql_db \<Rightarrow> sql_table option" where
  "find_table n db = map_of (sq_tables db) n"

definition set_table :: "string \<Rightarrow> sql_table \<Rightarrow> sql_db \<Rightarrow> sql_db" where
  "set_table n t db = db\<lparr>sq_tables := AList.update n t (sq_tables db)\<rparr>"

section \<open>Statements\<close>

datatype sql_error =
    NoSuchTable string
  | NoSuchColumn string
  | DuplicateColumn string
  | NoDefault string

definition create_table ::
  "string \<Rightarrow> column list \<Rightarrow> foreign_key list \<Rightarrow> sql_db \<Rightarrow> sql_error + sql_db" where
  "create_table n cols fks db =
     (case find_table n db of
        Some t \<Rightarrow> Inr db
      | None \<Rightarrow> Inr (set_table n \<lparr>tb_columns = cols, tb_foreign = fks, tb_rows = []\<rparr> db))"

definition add_column :: "string \<Rightarrow> column \<Rightarrow> sql_db \<Rightarrow> sql_error + sql_db" where
  "add_column n c db =
     (case find_table n db of
        None \<Rightarrow> Inl (NoSuchTable n)
      | Some t \<Rightarrow>
          if co_name c \<in> set (column_names t) then Inl (DuplicateColumn (co_name c))
          else if co_not_null c \<and> co_default c = None then Inl (NoDefault (co_name c))
          else Inr (set_table n
            (t\<lparr>tb_columns := tb_columns t @ [c],
               tb_rows := map (\<lambda>row. row @ [unwrap_or VNull (co_default c)]) (tb_rows t)\<rparr>) db))"

definition create_index :: "string \<Rightarrow> string \<Rightarrow> string list \<Rightarrow> sql_db \<Rightarrow> sql_error + sql_db" where
  "create_index i n cols db =
     (if i \<in> fst ` set (sq_indexes db) then Inr db
      else (case find_table n db of
              None \<Rightarrow> Inl (NoSuchTable n)
            | Some t \<Rightarrow>
                (case find (\<lambda>c. c \<notin> set (column_names t)) cols of
                   Some c \<Rightarrow> Inl (NoSuchColumn c)
                 | None \<Rightarrow> Inr (db\<lparr>sq_indexes := sq_indexes db @ [(i, n, cols)]\<rparr>))))"

section \<open>Migrations\<close>

text \<open>
  \<open>AddMissing\<close> asks once which columns the table has, then adds those of the list that it has
  not, in order. When asking fails, the table is taken to have none: \<open>info_fails\<close> tells when.
\<close>

datatype migration =
    CreateTable string "column list" "foreign_key list"
  | AddMissing string "column list"
  | CreateIndex string string "string list"

definition table_info :: "(string \<Rightarrow> bool) \<Rightarrow> string \<Rightarrow> sql_db \<Rightarrow> string list" where
  "table_info info_fails n db =
     (if info_fails n then []
      else (case find_table n db of None \<Rightarrow> [] | Some t \<Rightarrow> column_names t))"

fun add_columns :: "string \<Rightarrow> column list \<Rightarrow> sql_db \<Rightarrow> sql_error + sql_db" where
  "add_columns n [] db = Inr db"
| "add_columns n (c # cs) db = rbind (add_column n c db) (add_columns n cs)"

fun run_migration :: "(string \<Rightarrow> bool) \<Rightarrow> migration \<Rightarrow> sql_db \<Rightarrow> sql_error + sql_db" where
  "run_migration info_fails (CreateTable n cols fks) db = create_table n cols fks db"
| "run_migration info_fails (AddMissing n cols) db =
     add_columns n (filter (\<lambda>c. co_name c \<notin> set (table_info info_fails n db)) cols) db"
| "run_migration info_fails (CreateIndex i n cols) db = create_index i n cols db"

text \<open>One after the other, up to the first that fails.\<close>

fun run_all :: "('m \<Rightarrow> 's \<Rightarrow> 'e + 's) \<Rightarrow> 'm list \<Rightarrow> 's \<Rightarrow> 'e + 's" where
  "run_all run [] s = Inr s"
| "run_all run (m # ms) s = rbind (run m s) (run_all run ms)"

section \<open>The statements of start-up\<close>

text \<open>The text of a JSON list of plain names.\<close>

definition json_names :: "string list \<Rightarrow> string" where
  "json_names ns = [CHR ''[''] @ str_join '','' (map (\<lambda>n. [dquote] @ n @ [dquote]) ns) @ [CHR '']'']"

definition provider_connections_columns :: "column list" where
  "provider_connections_columns =
     [keyed ''id'' TextType,
      required ''provider'' TextType None,
      required ''base_url'' TextType None,
      nullable ''api_key'' TextType None,
      required ''auth_type'' TextType (Some (VText ''apikey'')),
      required ''auth_header'' TextType (Some (VText ''bearer'')),
      nullable ''auth_prefix'' TextType None,
      required ''extra_headers_json'' TextType (Some (VText ''{}'')),
      required ''endpoint_paths_json'' TextType (Some (VText ''{}'')),
      required ''stream_endpoint_paths_json'' TextType (Some (VText ''{}'')),
      required ''model_prefix'' TextType None,
      nullable ''name'' TextType None,
      required ''enabled'' IntegerType (Some (VInt 1)),
      required ''priority'' IntegerType (Some (VInt 0)),
      nullable ''default_model'' TextType None,
      required ''supported_endpoints_json'' TextType (Some (VText (json_names [''chat'', ''messages'',
          ''responses'', ''ollama.chat'', ''embeddings'', ''images'']))),
      required ''rate_limit_protection'' IntegerType (Some (VInt 0)),
      nullable ''last_error'' TextType None,
      nullable ''last_error_at'' TextType None,
      nullable ''last_error_type'' TextType None,
      nullable ''last_error_source'' TextType None,
      nullable ''rate_limited_until'' TextType None,
      nullable ''circuit_open_until'' TextType None,
      nullable ''last_used_at'' TextType None,
      required ''backoff_level'' IntegerType (Some (VInt 0)),
      required ''consecutive_use_count'' IntegerType (Some (VInt 0)),
      nullable ''test_status'' TextType None,
      required ''account_routing_strategy'' TextType (Some (VText ''priority'')),
      nullable ''protocol_format'' TextType None,
      required ''created_at'' TextType None,
      required ''updated_at'' TextType None]"

definition provider_accounts_columns :: "column list" where
  "provider_accounts_columns =
     [keyed ''id'' TextType,
      required ''provider_connection_id'' TextType None,
      nullable ''label'' TextType None,
      required ''auth_mode'' TextType None,
      nullable ''api_key'' TextType None,
      nullable ''access_token'' TextType None,
      nullable ''refresh_token'' TextType None,
      nullable ''expires_at'' TextType None,
      required ''scopes_json'' TextType (Some (VText ''[]'')),
      nullable ''remote_account_id'' TextType None,
      nullable ''remote_email'' TextType None,
      required ''is_fedramp'' IntegerType (Some (VInt 0)),
      required ''enabled'' IntegerType (Some (VInt 1)),
      required ''priority'' IntegerType (Some (VInt 0)),
      nullable ''last_used_at'' TextType None,
      nullable ''rate_limited_until'' TextType None,
      nullable ''circuit_open_until'' TextType None,
      nullable ''last_error'' TextType None,
      nullable ''last_error_type'' TextType None,
      nullable ''last_refresh_at'' TextType None,
      nullable ''refresh_error'' TextType None,
      required ''backoff_level'' IntegerType (Some (VInt 0)),
      required ''consecutive_use_count'' IntegerType (Some (VInt 0)),
      nullable ''proxy_url'' TextType None,
      required ''created_at'' TextType None,
      required ''updated_at'' TextType None]"

definition oauth_sessions_columns :: "column list" where
  "oauth_sessions_columns =
     [keyed ''id'' TextType,
      unique ''state'' TextType,
      required ''provider_connection_id'' TextType None,
      nullable ''provider_account_id'' TextType None,
      required ''redirect_uri'' TextType None,
      required ''code_verifier'' TextType None,
      required ''scopes_json'' TextType (Some (VText ''[]'')),
      nullable ''proxy_url'' TextType None,
      required ''created_at'' TextType None,
      required ''expires_at'' TextType None,
      nullable ''consumed_at'' TextType None]"

definition request_debug_logs_columns :: "column list" where
  "request_debug_logs_columns =
     [keyed ''id'' TextType,
      required ''request_id'' TextType None,
      required ''provider_id'' TextType None,
      nullable ''provider_account_id'' TextType None,
      required ''model'' TextType None,
      required ''endpoint'' TextType None,
      required ''sequence_no'' IntegerType None,
      required ''raw_body'' TextType None,
      required ''created_at'' TextType None]"

definition response_debug_logs_columns :: "column list" where
  "response_debug_logs_columns =
     [keyed ''id'' TextType,
      required ''request_id'' TextType None,
      required ''provider_id'' TextType None,
      nullable ''provider_account_id'' TextType None,
      required ''model'' TextType None,
      required ''endpoint'' TextType None,
      required ''sequence_no'' IntegerType (Some (VInt 0)),
      required ''upstream_status'' IntegerType None,
      required ''raw_body'' TextType None,
      nullable ''reasoning_summary_json'' TextType None,
      required ''obfuscation_count'' IntegerType (Some (VInt 0)),
      required ''created_at'' TextType None]"

definition llm_response_cache_columns :: "column list" where
  "llm_response_cache_columns =
     [keyed ''cache_key'' TextType,
      required ''endpoint'' TextType None,
      required ''upstream_endpoint'' TextType None,
      required ''requested_model'' TextType None,
      required ''resolved_model'' TextType None,
      required ''provider_id'' TextType None,
      nullable ''provider_account_id'' TextType None,
      required ''namespace'' TextType (Some (VText '''')),
      required ''request_body_hash'' TextType None,
      required ''response_body'' TextType None,
      required ''response_headers_json'' TextType (Some (VText ''[]'')),
      required ''status'' IntegerType None,
      required ''is_stream'' IntegerType (Some (VInt 0)),
      nullable ''usage_json'' TextType None,
      required ''expires_at'' TextType None,
      required ''hit_count'' IntegerType (Some (VInt 0)),
      required ''created_at'' TextType None,
      required ''updated_at'' TextType None,
      nullable ''last_hit_at'' TextType None]"

definition request_logs_columns :: "column list" where
  "request_logs_columns =
     [keyed ''id'' TextType,
      required ''endpoint'' TextType None,
      required ''requested_model'' TextType None,
      required ''resolved_model'' TextType None,
      nullable ''provider_id'' TextType None,
      nullable ''provider_account_id'' TextType None,
      nullable ''account_label'' TextType None,
      nullable ''api_key_name'' TextType None,
      required ''status'' IntegerType None,
      nullable ''error'' TextType None,
      required ''attempts'' IntegerType (Some (VInt 1)),
      required ''is_stream'' IntegerType (Some (VInt 0)),
      nullable ''input_tokens'' IntegerType None,
      nullable ''output_tokens'' IntegerType None,
      nullable ''cache_read_tokens'' IntegerType None,
      nullable ''cost_usd'' RealType None,
      required ''duration_ms'' IntegerType (Some (VInt 0)),
      nullable ''client_body'' TextType None,
      required ''created_at'' TextType None]"

definition combos_columns :: "column list" where
  "combos_columns =
     [keyed ''id'' TextType,
      unique ''name'' TextType,
      required ''strategy'' TextType None,
      required ''models_json'' TextType None,
      required ''enabled'' IntegerType (Some (VInt 1)),
      required ''created_at'' TextType None,
      required ''updated_at'' TextType None]"

definition model_aliases_columns :: "column list" where
  "model_aliases_columns =
     [keyed ''alias'' TextType,
      required ''target'' TextType None]"

definition settings_columns :: "column list" where
  "settings_columns =
     [keyed ''key'' TextType,
      required ''value_json'' TextType None,
      required ''updated_at'' TextType None]"

definition api_keys_columns :: "column list" where
  "api_keys_columns =
     [keyed ''id'' TextType,
      required ''name'' TextType None,
      required ''key_hash'' TextType None,
      required ''key_prefix'' TextType None,
      required ''allowed_models_json'' TextType (Some (VText (json_names [''*'']))),
      required ''is_active'' IntegerType (Some (VInt 1)),
      nullable ''last_used_at'' TextType None,
      required ''usage_count'' IntegerType (Some (VInt 0)),
      required ''created_at'' TextType None,
      required ''updated_at'' TextType None]"

definition provider_steps :: "migration list" where
  "provider_steps =
     [CreateTable ''provider_connections'' provider_connections_columns
        [],
      AddMissing ''provider_connections''
        [required ''supported_endpoints_json'' TextType (Some (VText (json_names [''chat'', ''messages'',
            ''responses'', ''ollama.chat'', ''embeddings'', ''images'']))),
         required ''rate_limit_protection'' IntegerType (Some (VInt 0)),
         required ''auth_type'' TextType (Some (VText ''apikey'')),
         required ''auth_header'' TextType (Some (VText ''bearer'')),
         nullable ''auth_prefix'' TextType None,
         required ''extra_headers_json'' TextType (Some (VText ''{}'')),
         required ''endpoint_paths_json'' TextType (Some (VText ''{}'')),
         required ''stream_endpoint_paths_json'' TextType (Some (VText ''{}'')),
         nullable ''last_error_type'' TextType None,
         nullable ''last_error_source'' TextType None,
         nullable ''circuit_open_until'' TextType None,
         nullable ''last_used_at'' TextType None,
         required ''backoff_level'' IntegerType (Some (VInt 0)),
         required ''consecutive_use_count'' IntegerType (Some (VInt 0)),
         required ''account_routing_strategy'' TextType (Some (VText ''priority'')),
         nullable ''protocol_format'' TextType None]]"

definition account_steps :: "migration list" where
  "account_steps =
     [CreateTable ''provider_accounts'' provider_accounts_columns
        [foreign ''provider_connection_id'' ''provider_connections'' ''id'' Cascade],
      AddMissing ''provider_accounts''
        [nullable ''proxy_url'' TextType None,
         required ''is_fedramp'' IntegerType (Some (VInt 0)),
         nullable ''base_url'' TextType None,
         nullable ''protocol_format'' TextType None,
         nullable ''supported_endpoints_json'' TextType None],
      CreateIndex ''idx_provider_accounts_connection_priority'' ''provider_accounts''
          [''provider_connection_id'', ''priority'', ''created_at''],
      CreateIndex ''idx_provider_accounts_enabled'' ''provider_accounts'' [''provider_connection_id'',
          ''enabled'']]"

definition session_steps :: "migration list" where
  "session_steps =
     [CreateTable ''oauth_sessions'' oauth_sessions_columns
        [foreign ''provider_connection_id'' ''provider_connections'' ''id'' Cascade, foreign
            ''provider_account_id'' ''provider_accounts'' ''id'' SetNull],
      AddMissing ''oauth_sessions''
        [nullable ''proxy_url'' TextType None],
      CreateIndex ''idx_oauth_sessions_provider_connection'' ''oauth_sessions'' [''provider_connection_id'',
          ''created_at''],
      CreateIndex ''idx_oauth_sessions_expires_at'' ''oauth_sessions'' [''expires_at'']]"

definition debug_log_steps :: "migration list" where
  "debug_log_steps =
     [CreateTable ''request_debug_logs'' request_debug_logs_columns
        [foreign ''provider_id'' ''provider_connections'' ''id'' Cascade, foreign ''provider_account_id''
            ''provider_accounts'' ''id'' SetNull],
      CreateTable ''response_debug_logs'' response_debug_logs_columns
        [foreign ''provider_id'' ''provider_connections'' ''id'' Cascade, foreign ''provider_account_id''
            ''provider_accounts'' ''id'' SetNull],
      AddMissing ''response_debug_logs''
        [required ''sequence_no'' IntegerType (Some (VInt 0))],
      CreateIndex ''idx_request_debug_logs_request_id'' ''request_debug_logs'' [''request_id'',
          ''sequence_no'', ''created_at''],
      CreateIndex ''idx_request_debug_logs_provider_created_at'' ''request_debug_logs'' [''provider_id'',
          ''created_at''],
      CreateIndex ''idx_response_debug_logs_request_id'' ''response_debug_logs'' [''request_id'',
          ''sequence_no'', ''created_at''],
      CreateIndex ''idx_response_debug_logs_provider_created_at'' ''response_debug_logs'' [''provider_id'',
          ''created_at'']]"

definition cache_steps :: "migration list" where
  "cache_steps =
     [CreateTable ''llm_response_cache'' llm_response_cache_columns
        [foreign ''provider_id'' ''provider_connections'' ''id'' Cascade, foreign ''provider_account_id''
            ''provider_accounts'' ''id'' SetNull],
      CreateIndex ''idx_llm_response_cache_lookup'' ''llm_response_cache'' [''cache_key'', ''namespace'',
          ''expires_at''],
      CreateIndex ''idx_llm_response_cache_expires_at'' ''llm_response_cache'' [''expires_at'']]"

definition request_log_steps :: "migration list" where
  "request_log_steps =
     [CreateTable ''request_logs'' request_logs_columns
        [],
      CreateIndex ''idx_request_logs_created_at'' ''request_logs'' [''created_at'']]"

definition settings_steps :: "migration list" where
  "settings_steps =
     [CreateTable ''combos'' combos_columns
        [],
      CreateTable ''model_aliases'' model_aliases_columns
        [],
      CreateTable ''settings'' settings_columns
        [],
      CreateTable ''api_keys'' api_keys_columns
        [],
      CreateIndex ''idx_api_keys_hash'' ''api_keys'' [''key_hash'']]"

definition init_steps :: "migration list" where
  "init_steps = concat [provider_steps, account_steps, session_steps, debug_log_steps, cache_steps,
      request_log_steps, settings_steps]"

definition init_db :: "(string \<Rightarrow> bool) \<Rightarrow> sql_db \<Rightarrow> sql_error + sql_db" where
  "init_db info_fails db = run_all (run_migration info_fails) init_steps db"

definition no_tables :: sql_db where
  "no_tables = \<lparr>sq_tables = [], sq_indexes = []\<rparr>"

section \<open>Running the migrations again\<close>

text \<open>
  Steps that may be run again: a step leaves its effect, no step undoes the effect of another,
  and a step whose effect is there does nothing.
\<close>

locale settling =
  fixes run :: "'m \<Rightarrow> 's \<Rightarrow> 'e + 's" and settles :: "'m \<Rightarrow> 's \<Rightarrow> bool"
  assumes leaves: "run m s = Inr s' \<Longrightarrow> settles m s'"
    and kept: "settles m s \<Longrightarrow> run m' s = Inr s' \<Longrightarrow> settles m s'"
    and idle: "settles m s \<Longrightarrow> run m s = Inr s"
begin

lemma all_kept: "run_all run ms s = Inr s' \<Longrightarrow> settles m s \<Longrightarrow> settles m s'"
  by (induction ms arbitrary: s) (auto simp: rbind_Inr dest: kept)

lemma all_left: "run_all run ms s = Inr s' \<Longrightarrow> m \<in> set ms \<Longrightarrow> settles m s'"
  by (induction ms arbitrary: s) (auto simp: rbind_Inr dest: all_kept leaves)

lemma all_idle: "(\<And>m. m \<in> set ms \<Longrightarrow> settles m s) \<Longrightarrow> run_all run ms s = Inr s"
  by (induction ms) (simp_all add: idle)

lemma run_again: "run_all run ms s = Inr s' \<Longrightarrow> run_all run ms s' = Inr s'"
  by (rule all_idle) (rule all_left)

end

text \<open>What a table keeps: its columns, its keys, and every row with the defaults appended.\<close>

definition extends :: "sql_table \<Rightarrow> sql_table \<Rightarrow> bool" where
  "extends t t' \<longleftrightarrow> (\<exists>cs. tb_columns t' = tb_columns t @ cs \<and> tb_foreign t' = tb_foreign t
     \<and> tb_rows t' = map (\<lambda>row. row @ map (\<lambda>c. unwrap_or VNull (co_default c)) cs) (tb_rows t))"

lemma extends_refl [simp]: "extends t t"
  by (auto simp: extends_def intro: exI [of _ "[]"])

lemma extends_trans:
  assumes "extends t t'" and "extends t' t''"
  shows "extends t t''"
proof -
  obtain cs cs' where "tb_columns t' = tb_columns t @ cs" "tb_columns t'' = tb_columns t' @ cs'"
    "tb_foreign t' = tb_foreign t" "tb_foreign t'' = tb_foreign t'"
    "tb_rows t' = map (\<lambda>row. row @ map (\<lambda>c. unwrap_or VNull (co_default c)) cs) (tb_rows t)"
    "tb_rows t'' = map (\<lambda>row. row @ map (\<lambda>c. unwrap_or VNull (co_default c)) cs') (tb_rows t')"
    using assms by (auto simp: extends_def)
  then show ?thesis unfolding extends_def by (intro exI [of _ "cs @ cs'"]) simp
qed

lemma find_set_table [simp]:
  "find_table n (set_table k t db) = (if n = k then Some t else find_table n db)"
  by (simp add: find_table_def set_table_def update_conv')

lemma indexes_set_table [simp]: "sq_indexes (set_table k t db) = sq_indexes db"
  by (simp add: set_table_def)

lemma find_table_indexes [simp]: "find_table n (db\<lparr>sq_indexes := is\<rparr>) = find_table n db"
  by (simp add: find_table_def)

text \<open>A statement only extends tables and adds to the indexes.\<close>

definition grows :: "sql_db \<Rightarrow> sql_db \<Rightarrow> bool" where
  "grows db db' \<longleftrightarrow> set (sq_indexes db) \<subseteq> set (sq_indexes db')
     \<and> (\<forall>n t. find_table n db = Some t \<longrightarrow> (\<exists>t'. find_table n db' = Some t' \<and> extends t t'))"

lemma grows_refl [simp]: "grows db db"
  by (simp add: grows_def)

lemma grows_trans: "grows db db' \<Longrightarrow> grows db' db'' \<Longrightarrow> grows db db''"
  unfolding grows_def by (meson extends_trans subset_trans)

lemma create_table_grows: "create_table n cols fks db = Inr db' \<Longrightarrow> grows db db'"
  by (auto simp: create_table_def grows_def split: option.splits)

lemma add_column_grows: "add_column n c db = Inr db' \<Longrightarrow> grows db db'"
  by (auto simp: add_column_def grows_def extends_def split: option.splits if_splits)

lemma add_columns_grows: "add_columns n cs db = Inr db' \<Longrightarrow> grows db db'"
  by (induction n cs db rule: add_columns.induct)
    (auto simp: rbind_Inr dest: add_column_grows intro: grows_trans)

lemma create_index_grows: "create_index i n cols db = Inr db' \<Longrightarrow> grows db db'"
  by (auto simp: create_index_def grows_def split: option.splits if_splits)

lemma run_migration_grows: "run_migration info_fails m db = Inr db' \<Longrightarrow> grows db db'"
  by (cases m) (auto dest: create_table_grows add_columns_grows create_index_grows)

lemma run_all_grows: "run_all (run_migration info_fails) ms db = Inr db' \<Longrightarrow> grows db db'"
  by (induction ms arbitrary: db) (auto simp: rbind_Inr dest: run_migration_grows intro: grows_trans)

definition known_columns :: "string \<Rightarrow> sql_db \<Rightarrow> string set" where
  "known_columns n db = (case find_table n db of None \<Rightarrow> {} | Some t \<Rightarrow> set (column_names t))"

lemma grows_columns: "grows db db' \<Longrightarrow> known_columns n db \<subseteq> known_columns n db'"
  by (fastforce simp: grows_def extends_def known_columns_def column_names_def split: option.splits)

text \<open>The effect of a step.\<close>

fun settles :: "migration \<Rightarrow> sql_db \<Rightarrow> bool" where
  "settles (CreateTable n cols fks) db = (find_table n db \<noteq> None)"
| "settles (AddMissing n cols) db = (co_name ` set cols \<subseteq> known_columns n db)"
| "settles (CreateIndex i n cols) db = (i \<in> fst ` set (sq_indexes db))"

lemma add_column_adds: "add_column n c db = Inr db' \<Longrightarrow> co_name c \<in> known_columns n db'"
  by (auto simp: add_column_def known_columns_def column_names_def split: option.splits if_splits)

lemma add_columns_adds: "add_columns n cs db = Inr db' \<Longrightarrow> co_name ` set cs \<subseteq> known_columns n db'"
proof (induction n cs db rule: add_columns.induct)
  case (2 n c cs db)
  then obtain db1 where first: "add_column n c db = Inr db1" and rest: "add_columns n cs db1 = Inr db'"
    by (auto simp: rbind_Inr)
  have "known_columns n db1 \<subseteq> known_columns n db'" by (rule grows_columns [OF add_columns_grows [OF rest]])
  then show ?case using 2(1) [OF rest] add_column_adds [OF first] by auto
qed simp

lemma table_info_known: "set (table_info (\<lambda>n. False) n db) = known_columns n db"
  by (simp add: table_info_def known_columns_def split: option.split)

lemma run_migration_settles:
  assumes "run_migration (\<lambda>n. False) m db = Inr db'"
  shows "settles m db'"
proof (cases m)
  case (AddMissing n cols)
  note run = assms [unfolded AddMissing, simplified]
  have new: "known_columns n db \<subseteq> known_columns n db'" by (rule grows_columns [OF add_columns_grows [OF run]])
  have "co_name c \<in> known_columns n db'" if "c \<in> set cols" for c
    using that new add_columns_adds [OF run]
    by (cases "co_name c \<in> known_columns n db") (auto simp: table_info_known)
  then show ?thesis by (auto simp: AddMissing)
qed (use assms in \<open>auto simp: create_table_def create_index_def split: option.splits if_splits\<close>)

lemma settles_grows: "grows db db' \<Longrightarrow> settles m db \<Longrightarrow> settles m db'"
proof (cases m)
  case (AddMissing n cols)
  then show "grows db db' \<Longrightarrow> settles m db \<Longrightarrow> ?thesis" using grows_columns by fastforce
qed (auto simp: grows_def image_iff, blast)

interpretation migrations: settling "run_migration (\<lambda>n. False)" settles
proof
  fix m db
  assume "settles m db"
  then show "run_migration (\<lambda>n. False) m db = Inr db"
    by (cases m) (auto simp: create_table_def create_index_def table_info_known image_subset_iff
        cong: filter_cong)
qed (blast intro: run_migration_settles settles_grows run_migration_grows)+

section \<open>Typing\<close>

text \<open>A value a column may hold, and tables whose rows hold such values.\<close>

fun has_type :: "sql_type \<Rightarrow> sql_value \<Rightarrow> bool" where
  "has_type TextType (VText s) = True"
| "has_type IntegerType (VInt i) = True"
| "has_type RealType (VReal r) = True"
| "has_type t v = False"

definition fits :: "sql_value \<Rightarrow> column \<Rightarrow> bool" where
  "fits v c \<longleftrightarrow> (if v = VNull then \<not> co_not_null c else has_type (co_type c) v)"

definition table_typed :: "sql_table \<Rightarrow> bool" where
  "table_typed t \<longleftrightarrow> distinct (column_names t) \<and> (\<forall>row \<in> set (tb_rows t). list_all2 fits row (tb_columns t))"

definition db_typed :: "sql_db \<Rightarrow> bool" where
  "db_typed db \<longleftrightarrow> (\<forall>n t. find_table n db = Some t \<longrightarrow> table_typed t)"

definition default_fits :: "column \<Rightarrow> bool" where
  "default_fits c \<longleftrightarrow> (case co_default c of None \<Rightarrow> True | Some v \<Rightarrow> v \<noteq> VNull \<and> has_type (co_type c) v)"

fun migration_typed :: "migration \<Rightarrow> bool" where
  "migration_typed (CreateTable n cols fks) = distinct (map co_name cols)"
| "migration_typed (AddMissing n cols) = list_all default_fits cols"
| "migration_typed (CreateIndex i n cols) = True"

lemma add_column_typed:
  assumes "add_column n c db = Inr db'" and "default_fits c" and "db_typed db"
  shows "db_typed db'"
proof -
  obtain t where t: "find_table n db = Some t" "co_name c \<notin> set (column_names t)"
    and ok: "co_not_null c \<Longrightarrow> co_default c \<noteq> None"
    and db': "db' = set_table n (t\<lparr>tb_columns := tb_columns t @ [c],
       tb_rows := map (\<lambda>row. row @ [unwrap_or VNull (co_default c)]) (tb_rows t)\<rparr>) db"
    using assms(1) by (auto simp: add_column_def split: option.splits if_splits)
  have "table_typed t" using assms(3) t(1) by (simp add: db_typed_def)
  moreover have "fits (unwrap_or VNull (co_default c)) c"
    using ok assms(2) by (auto simp: fits_def default_fits_def split: option.splits)
  ultimately show ?thesis
    using assms(3) t(2)
    by (auto simp: db_typed_def db' table_typed_def column_names_def intro!: list_all2_appendI)
qed

lemma add_columns_typed:
  "add_columns n cs db = Inr db' \<Longrightarrow> list_all default_fits cs \<Longrightarrow> db_typed db \<Longrightarrow> db_typed db'"
  by (induction n cs db rule: add_columns.induct) (auto simp: rbind_Inr dest: add_column_typed)

lemma run_migration_typed:
  assumes "run_migration info_fails m db = Inr db'" and "migration_typed m" and "db_typed db"
  shows "db_typed db'"
proof (cases m)
  case (CreateTable n cols fks)
  then show ?thesis using assms
    by (auto simp: create_table_def db_typed_def table_typed_def column_names_def
        split: option.splits if_splits)
next
  case (AddMissing n cols)
  then show ?thesis
    using assms by (auto simp: list_all_iff intro: add_columns_typed)
next
  case (CreateIndex i n cols)
  then show ?thesis using assms
    by (auto simp: create_index_def db_typed_def split: option.splits if_splits)
qed

lemma run_all_typed:
  "run_all (run_migration info_fails) ms db = Inr db' \<Longrightarrow> list_all migration_typed ms \<Longrightarrow> db_typed db
     \<Longrightarrow> db_typed db'"
  by (induction ms arbitrary: db) (auto simp: rbind_Inr dest: run_migration_typed)

lemma init_steps_typed: "list_all migration_typed init_steps"
  by code_simp

section \<open>Upgrading\<close>

text \<open>
  What is known of a database before a step runs: for the tables seen so far that they exist
  with certain columns; for the others only that they have the columns \<open>base\<close> if they exist.
\<close>

type_synonym sure = "(string \<times> string list) list"

definition agrees :: "(string \<Rightarrow> string list) \<Rightarrow> sure \<Rightarrow> sql_db \<Rightarrow> bool" where
  "agrees base k db \<longleftrightarrow> (\<forall>n. case map_of k n of
       Some cs \<Rightarrow> find_table n db \<noteq> None \<and> set cs \<subseteq> known_columns n db
     | None \<Rightarrow> find_table n db = None \<or> set (base n) \<subseteq> known_columns n db)"

fun check_step :: "(string \<Rightarrow> string list) \<Rightarrow> migration \<Rightarrow> sure \<Rightarrow> sure option" where
  "check_step base (CreateTable n cols fks) k =
     (case map_of k n of
        Some cs \<Rightarrow> None
      | None \<Rightarrow> Some ((n, filter (\<lambda>c. c \<in> co_name ` set cols) (base n)) # k))"
| "check_step base (AddMissing n cols) k =
     (case map_of k n of
        None \<Rightarrow> None
      | Some cs \<Rightarrow>
          if distinct (map co_name cols) \<and> list_all (\<lambda>c. co_not_null c \<longrightarrow> co_default c \<noteq> None) cols
          then Some ((n, map co_name cols @ cs) # k) else None)"
| "check_step base (CreateIndex i n cols) k =
     (case map_of k n of
        None \<Rightarrow> None
      | Some cs \<Rightarrow> if list_all (\<lambda>c. c \<in> set cs) cols then Some k else None)"

fun check_steps :: "(string \<Rightarrow> string list) \<Rightarrow> migration list \<Rightarrow> sure \<Rightarrow> sure option" where
  "check_steps base [] k = Some k"
| "check_steps base (m # ms) k = Option.bind (check_step base m k) (check_steps base ms)"

lemma agreesD:
  "agrees base k db \<Longrightarrow> map_of k n = Some cs \<Longrightarrow> find_table n db \<noteq> None \<and> set cs \<subseteq> known_columns n db"
  unfolding agrees_def by (drule spec [of _ n]) simp

lemma agreesN:
  "agrees base k db \<Longrightarrow> map_of k n = None \<Longrightarrow> find_table n db = None \<or> set (base n) \<subseteq> known_columns n db"
  unfolding agrees_def by (drule spec [of _ n]) simp

text \<open>A change of one table leaves what is known of the others.\<close>

lemma agrees_update:
  assumes "agrees base k db" and "find_table n db' \<noteq> None" and "set cs \<subseteq> known_columns n db'"
    and "\<And>j. j \<noteq> n \<Longrightarrow> find_table j db' = find_table j db"
  shows "agrees base ((n, cs) # k) db'"
proof -
  have "case map_of ((n, cs) # k) j of
       Some cs \<Rightarrow> find_table j db' \<noteq> None \<and> set cs \<subseteq> known_columns j db'
     | None \<Rightarrow> find_table j db' = None \<or> set (base j) \<subseteq> known_columns j db'" for j
    using assms(1) [unfolded agrees_def, rule_format, of j] assms(2-4)
    by (cases "j = n"; cases "map_of k j") (simp_all add: known_columns_def)
  then show ?thesis unfolding agrees_def by blast
qed

lemma add_columns_runs:
  assumes "find_table n db = Some t" and "distinct (map co_name cs)"
    and "\<And>c. c \<in> set cs \<Longrightarrow> co_name c \<notin> set (column_names t)"
    and "list_all (\<lambda>c. co_not_null c \<longrightarrow> co_default c \<noteq> None) cs"
  shows "\<exists>db'. add_columns n cs db = Inr db' \<and> (\<forall>j. j \<noteq> n \<longrightarrow> find_table j db' = find_table j db)"
  using assms
proof (induction cs arbitrary: db t)
  case (Cons c cs)
  let ?t = "t\<lparr>tb_columns := tb_columns t @ [c],
       tb_rows := map (\<lambda>row. row @ [unwrap_or VNull (co_default c)]) (tb_rows t)\<rparr>"
  have add: "add_column n c db = Inr (set_table n ?t db)"
    using Cons.prems by (auto simp: add_column_def)
  have "\<exists>db'. add_columns n cs (set_table n ?t db) = Inr db'
      \<and> (\<forall>j. j \<noteq> n \<longrightarrow> find_table j db' = find_table j (set_table n ?t db))"
    by (rule Cons.IH [of _ ?t]) (use Cons.prems in \<open>auto simp: column_names_def image_iff\<close>)
  then show ?case by (auto simp: add)
qed simp

lemma check_step_runs:
  assumes "check_step base m k = Some k'" and "agrees base k db"
  shows "\<exists>db'. run_migration (\<lambda>n. False) m db = Inr db' \<and> agrees base k' db'"
proof (cases m)
  case (CreateTable n cols fks)
  then have none: "map_of k n = None"
    and k': "k' = (n, filter (\<lambda>c. c \<in> co_name ` set cols) (base n)) # k"
    using assms(1) by (auto split: option.splits)
  show ?thesis
  proof (cases "find_table n db")
    case None
    let ?db = "set_table n \<lparr>tb_columns = cols, tb_foreign = fks, tb_rows = []\<rparr> db"
    have "agrees base k' ?db"
      unfolding k' by (rule agrees_update [OF assms(2)]) (auto simp: known_columns_def column_names_def)
    then show ?thesis by (simp add: CreateTable create_table_def None)
  next
    case (Some t)
    then have "set (base n) \<subseteq> known_columns n db"
      using agreesN [OF assms(2) none] by simp
    then have "agrees base k' db"
      unfolding k' by (intro agrees_update [OF assms(2)]) (auto simp: Some)
    then show ?thesis by (simp add: CreateTable create_table_def Some)
  qed
next
  case (AddMissing n cols)
  then obtain cs where cs: "map_of k n = Some cs" and k': "k' = (n, map co_name cols @ cs) # k"
    and ok: "distinct (map co_name cols)" "list_all (\<lambda>c. co_not_null c \<longrightarrow> co_default c \<noteq> None) cols"
    using assms(1) by (auto split: option.splits if_splits)
  obtain t where t: "find_table n db = Some t" using agreesD [OF assms(2) cs] by auto
  let ?new = "filter (\<lambda>c. co_name c \<notin> set (table_info (\<lambda>n. False) n db)) cols"
  have info: "set (table_info (\<lambda>n. False) n db) = set (column_names t)" by (simp add: table_info_def t)
  have "\<exists>db'. add_columns n ?new db = Inr db' \<and> (\<forall>j. j \<noteq> n \<longrightarrow> find_table j db' = find_table j db)"
  proof (rule add_columns_runs [OF t])
    show "distinct (map co_name ?new)" using ok(1) by (rule distinct_map_filter)
    show "co_name c \<notin> set (column_names t)" if "c \<in> set ?new" for c
      using that by (simp add: info)
    show "list_all (\<lambda>c. co_not_null c \<longrightarrow> co_default c \<noteq> None) ?new"
      using ok(2) by (simp add: list_all_iff)
  qed
  then obtain db' where run: "add_columns n ?new db = Inr db'"
    and other: "\<And>j. j \<noteq> n \<Longrightarrow> find_table j db' = find_table j db"
    by blast
  have run_m: "run_migration (\<lambda>n. False) m db = Inr db'" using run by (simp add: AddMissing)
  have "co_name ` set cols \<subseteq> known_columns n db'"
    using run_migration_settles [OF run_m] by (simp add: AddMissing)
  moreover have "set cs \<subseteq> known_columns n db'"
    using agreesD [OF assms(2) cs] grows_columns [OF run_migration_grows [OF run_m], of n] by blast
  moreover have "find_table n db' \<noteq> None"
    using run_migration_grows [OF run_m] t unfolding grows_def by blast
  ultimately have "agrees base k' db'"
    unfolding k' by (intro agrees_update [OF assms(2)]) (auto simp: other)
  then show ?thesis using run_m by blast
next
  case (CreateIndex i n cols)
  then obtain cs where cs: "map_of k n = Some cs" and "k' = k" "list_all (\<lambda>c. c \<in> set cs) cols"
    using assms(1) by (auto split: option.splits if_splits)
  moreover obtain t where "find_table n db = Some t" "set cs \<subseteq> set (column_names t)"
    using agreesD [OF assms(2) cs] by (auto simp: known_columns_def)
  moreover have "agrees base k (db\<lparr>sq_indexes := is\<rparr>)" for "is"
    using assms(2) by (simp add: agrees_def known_columns_def cong: option.case_cong)
  ultimately show ?thesis using assms(2)
    by (auto simp: CreateIndex create_index_def list_all_iff split: option.split dest!: find_SomeD)
qed

lemma check_steps_run:
  "check_steps base ms k = Some k' \<Longrightarrow> agrees base k db
     \<Longrightarrow> \<exists>db'. run_all (run_migration (\<lambda>n. False)) ms db = Inr db' \<and> agrees base k' db'"
proof (induction ms arbitrary: k db)
  case (Cons m ms)
  then obtain k1 where "check_step base m k = Some k1" "check_steps base ms k1 = Some k'"
    by (auto simp: bind_eq_Some_conv)
  then show ?case using check_step_runs [OF _ Cons.prems(2)] Cons.IH by fastforce
qed simp

text \<open>The oldest databases: the columns of a table that no step adds.\<close>

definition created_columns :: "string \<Rightarrow> string list" where
  "created_columns n = concat (map (\<lambda>m. case m of
     CreateTable k cols fks \<Rightarrow> if k = n then map co_name cols else [] | x \<Rightarrow> []) init_steps)"

definition added_columns :: "string \<Rightarrow> string list" where
  "added_columns n = concat (map (\<lambda>m. case m of
     AddMissing k cols \<Rightarrow> if k = n then map co_name cols else [] | x \<Rightarrow> []) init_steps)"

definition oldest_columns :: "string \<Rightarrow> string list" where
  "oldest_columns n = filter (\<lambda>c. c \<notin> set (added_columns n)) (created_columns n)"

lemma init_steps_checked:
  "case check_steps oldest_columns init_steps [] of None \<Rightarrow> False
   | Some k \<Rightarrow> list_all (\<lambda>m. case m of
       CreateTable n cols fks \<Rightarrow> set (map co_name cols) \<subseteq> set (unwrap_or [] (map_of k n))
         \<and> map_of k n \<noteq> None | x \<Rightarrow> True) init_steps"
  by code_simp

lemma init_db_upgrades:
  assumes "\<And>n t. find_table n db = Some t \<Longrightarrow> set (oldest_columns n) \<subseteq> set (column_names t)"
  shows "\<exists>db'. init_db (\<lambda>n. False) db = Inr db' \<and> init_db (\<lambda>n. False) db' = Inr db'
     \<and> (\<forall>n cols fks. CreateTable n cols fks \<in> set init_steps \<longrightarrow> co_name ` set cols \<subseteq> known_columns n db')"
proof -
  obtain k where check: "check_steps oldest_columns init_steps [] = Some k"
    and known: "list_all (\<lambda>m. case m of
       CreateTable n cols fks \<Rightarrow> set (map co_name cols) \<subseteq> set (unwrap_or [] (map_of k n))
         \<and> map_of k n \<noteq> None | x \<Rightarrow> True) init_steps"
    using init_steps_checked by (cases "check_steps oldest_columns init_steps []") simp_all
  have "agrees oldest_columns [] db"
    using assms by (auto simp: agrees_def known_columns_def split: option.split)
  then obtain db' where run: "run_all (run_migration (\<lambda>n. False)) init_steps db = Inr db'"
    and agrees: "agrees oldest_columns k db'"
    using check_steps_run [OF check] by blast
  have "co_name ` set cols \<subseteq> known_columns n db'" if "CreateTable n cols fks \<in> set init_steps" for n cols fks
  proof -
    have "set (map co_name cols) \<subseteq> set (unwrap_or [] (map_of k n)) \<and> map_of k n \<noteq> None"
      using known [unfolded list_all_iff, rule_format, OF that] by simp
    then obtain cs where "map_of k n = Some cs" "set (map co_name cols) \<subseteq> set cs" by auto
    then show ?thesis using agreesD [OF agrees] by auto
  qed
  then show ?thesis using run migrations.run_again [OF run] unfolding init_db_def by blast
qed

lemma init_db_keeps:
  assumes "init_db info_fails db = Inr db'"
  shows "grows db db'" and "db_typed db \<Longrightarrow> db_typed db'"
  using assms run_all_grows run_all_typed init_steps_typed by (auto simp: init_db_def)

end
