(* ===== verification/Rows.thy ===== *)
theory Rows
  imports Schema Oauth_Tokens
begin

text \<open>
  Rows of the database: what the \<open>INSERT\<close> statements of \<open>src/repository.rs\<close> bind for a record, and
  the readers (\<open>map_provider\<close>, \<open>map_provider_account\<close> and the others at its end) that turn a row
  into a record again. The rest of the development keeps records in its tables; this theory is why
  it may. Columns with structured values hold JSON text, times are RFC 3339 text; the JSON and date
  crates are arguments, with the texts of their errors and of those of the driver.
\<close>

type_synonym row = "(string \<times> sql_value) list"

record row_lib = codec +
  rw_show_date :: "timestamp \<Rightarrow> string"
  rw_read_date :: "string \<Rightarrow> string + timestamp"
  rw_wrong :: "json \<Rightarrow> string"
  rw_column_error :: "string \<Rightarrow> sql_value option \<Rightarrow> string"

section \<open>Writing values\<close>

definition opt_text :: "string option \<Rightarrow> sql_value" where
  "opt_text v = (case v of None \<Rightarrow> VNull | Some s \<Rightarrow> VText s)"

definition opt_int :: "int option \<Rightarrow> sql_value" where
  "opt_int v = (case v of None \<Rightarrow> VNull | Some i \<Rightarrow> VInt i)"

definition opt_real :: "f64 option \<Rightarrow> sql_value" where
  "opt_real v = (case v of None \<Rightarrow> VNull | Some r \<Rightarrow> VReal r)"

definition flag :: "bool \<Rightarrow> sql_value" where
  "flag b = VInt (if b then 1 else 0)"

definition date_text :: "row_lib \<Rightarrow> timestamp \<Rightarrow> sql_value" where
  "date_text rl t = VText (rw_show_date rl t)"

definition opt_date :: "row_lib \<Rightarrow> timestamp option \<Rightarrow> sql_value" where
  "opt_date rl v = (case v of None \<Rightarrow> VNull | Some t \<Rightarrow> date_text rl t)"

definition strs_json :: "string list \<Rightarrow> json" where
  "strs_json ss = JArr (map JStr ss)"

definition map_json :: "headers_map \<Rightarrow> json" where
  "map_json m = JObj (map (\<lambda>(k, v). (k, JStr v)) m)"

definition strs_text :: "row_lib \<Rightarrow> string list \<Rightarrow> sql_value" where
  "strs_text rl ss = VText (json_print rl (strs_json ss))"

definition opt_strs :: "row_lib \<Rightarrow> string list option \<Rightarrow> sql_value" where
  "opt_strs rl v = (case v of None \<Rightarrow> VNull | Some ss \<Rightarrow> strs_text rl ss)"

definition map_text :: "row_lib \<Rightarrow> headers_map \<Rightarrow> sql_value" where
  "map_text rl m = VText (json_print rl (map_json m))"

fun strategy_as_str :: "combo_strategy \<Rightarrow> string" where
  "strategy_as_str ComboPriority = ''priority''"
| "strategy_as_str ComboRoundRobin = ''round-robin''"

section \<open>Reading values\<close>

definition column_error :: "row_lib \<Rightarrow> row \<Rightarrow> string \<Rightarrow> app_error" where
  "column_error rl r k = Database (rw_column_error rl k (map_of r k))"

definition get_text :: "row_lib \<Rightarrow> row \<Rightarrow> string \<Rightarrow> string app_result" where
  "get_text rl r k = (case map_of r k of Some (VText s) \<Rightarrow> Inr s | v \<Rightarrow> Inl (column_error rl r k))"

definition get_int :: "row_lib \<Rightarrow> row \<Rightarrow> string \<Rightarrow> int app_result" where
  "get_int rl r k = (case map_of r k of Some (VInt i) \<Rightarrow> Inr i | v \<Rightarrow> Inl (column_error rl r k))"

definition get_flag :: "row_lib \<Rightarrow> row \<Rightarrow> string \<Rightarrow> bool app_result" where
  "get_flag rl r k = rbind (get_int rl r k) (\<lambda>i. Inr (i \<noteq> 0))"

definition get_opt_text :: "row_lib \<Rightarrow> row \<Rightarrow> string \<Rightarrow> string option app_result" where
  "get_opt_text rl r k =
     (case map_of r k of
        Some VNull \<Rightarrow> Inr None | Some (VText s) \<Rightarrow> Inr (Some s) | v \<Rightarrow> Inl (column_error rl r k))"

definition get_opt_int :: "row_lib \<Rightarrow> row \<Rightarrow> string \<Rightarrow> int option app_result" where
  "get_opt_int rl r k =
     (case map_of r k of
        Some VNull \<Rightarrow> Inr None | Some (VInt i) \<Rightarrow> Inr (Some i) | v \<Rightarrow> Inl (column_error rl r k))"

definition get_opt_real :: "row_lib \<Rightarrow> row \<Rightarrow> string \<Rightarrow> f64 option app_result" where
  "get_opt_real rl r k =
     (case map_of r k of
        Some VNull \<Rightarrow> Inr None | Some (VReal x) \<Rightarrow> Inr (Some x) | v \<Rightarrow> Inl (column_error rl r k))"

text \<open>A column that an older database may lack, or that cannot be read, counts as null.\<close>

definition get_lenient :: "row_lib \<Rightarrow> row \<Rightarrow> string \<Rightarrow> string option app_result" where
  "get_lenient rl r k = (case get_opt_text rl r k of Inl e \<Rightarrow> Inr None | Inr v \<Rightarrow> Inr v)"

definition parse_dt :: "row_lib \<Rightarrow> string \<Rightarrow> timestamp app_result" where
  "parse_dt rl s =
     (case rw_read_date rl s of
        Inl err \<Rightarrow> Inl (BadRequest (''invalid datetime in db: '' @ err))
      | Inr t \<Rightarrow> Inr t)"

definition parse_optional_dt :: "row_lib \<Rightarrow> string option \<Rightarrow> timestamp option app_result" where
  "parse_optional_dt rl v =
     (case v of None \<Rightarrow> Inr None | Some s \<Rightarrow> rbind (parse_dt rl s) (\<lambda>t. Inr (Some t)))"

definition get_date :: "row_lib \<Rightarrow> row \<Rightarrow> string \<Rightarrow> timestamp app_result" where
  "get_date rl r k = rbind (get_text rl r k) (parse_dt rl)"

definition get_opt_date :: "row_lib \<Rightarrow> row \<Rightarrow> string \<Rightarrow> timestamp option app_result" where
  "get_opt_date rl r k = rbind (get_opt_text rl r k) (parse_optional_dt rl)"

text \<open>\<open>from_str\<close> into a list of texts or a map of texts, as far as it succeeds.\<close>

fun string_pairs :: "obj \<Rightarrow> headers_map option" where
  "string_pairs [] = Some []"
| "string_pairs ((k, v) # ob) =
     Option.bind (as_str v) (\<lambda>s. map_option ((#) (k, s)) (string_pairs ob))"

definition string_map :: "json \<Rightarrow> headers_map option" where
  "string_map v = (case v of JObj ob \<Rightarrow> string_pairs ob | w \<Rightarrow> None)"

definition read_json :: "row_lib \<Rightarrow> (json \<Rightarrow> 'v option) \<Rightarrow> string \<Rightarrow> 'v app_result" where
  "read_json rl f s =
     (case json_parse rl s of
        Inl e \<Rightarrow> Inl (JsonError e)
      | Inr v \<Rightarrow> ok_or (JsonError (rw_wrong rl v)) (f v))"

definition get_strs :: "row_lib \<Rightarrow> string list \<Rightarrow> row \<Rightarrow> string \<Rightarrow> string list app_result" where
  "get_strs rl otherwise r k =
     rbind (get_text rl r k) (\<lambda>s. Inr (unwrap_or otherwise (ok (read_json rl string_list s))))"

definition get_strs_strictly :: "row_lib \<Rightarrow> row \<Rightarrow> string \<Rightarrow> string list app_result" where
  "get_strs_strictly rl r k = rbind (get_text rl r k) (read_json rl string_list)"

definition get_map :: "row_lib \<Rightarrow> row \<Rightarrow> string \<Rightarrow> headers_map app_result" where
  "get_map rl r k = rbind (get_text rl r k) (\<lambda>s. Inr (unwrap_or [] (ok (read_json rl string_map s))))"

definition get_opt_strs :: "row_lib \<Rightarrow> row \<Rightarrow> string \<Rightarrow> string list option app_result" where
  "get_opt_strs rl r k =
     rbind (get_lenient rl r k) (\<lambda>v.
       Inr (opt_filter (\<lambda>ss. ss \<noteq> []) (Option.bind v (\<lambda>s. ok (read_json rl string_list s)))))"

definition get_mode :: "row_lib \<Rightarrow> row \<Rightarrow> string \<Rightarrow> auth_mode app_result" where
  "get_mode rl r k =
     rbind (get_text rl r k) (\<lambda>s.
       ok_or (BadRequest (''invalid provider account auth mode in db: '' @ s)) (auth_mode_from_str s))"

definition get_strategy :: "row_lib \<Rightarrow> row \<Rightarrow> string \<Rightarrow> combo_strategy app_result" where
  "get_strategy rl r k =
     rbind (get_text rl r k) (\<lambda>s. Inr (if s = ''round-robin'' then ComboRoundRobin else ComboPriority))"

section \<open>The tables\<close>

text \<open>
  The \<open>..._row\<close> definitions list the columns of the \<open>INSERT\<close> with what is stored for a record; a
  new record has the constants of the statement in the other fields. The readers follow the order
  of the code, which decides the error when several columns are unreadable.
\<close>

definition provider_row :: "row_lib \<Rightarrow> provider \<Rightarrow> row" where
  "provider_row rl x =
     [(''id'', VText (p_id x)),
      (''provider'', VText (p_provider x)),
      (''base_url'', VText (p_base_url x)),
      (''api_key'', opt_text (p_api_key x)),
      (''auth_type'', VText (p_auth_type x)),
      (''auth_header'', VText (p_auth_header x)),
      (''auth_prefix'', opt_text (p_auth_prefix x)),
      (''extra_headers_json'', map_text rl (p_extra_headers x)),
      (''endpoint_paths_json'', map_text rl (p_endpoint_paths x)),
      (''stream_endpoint_paths_json'', map_text rl (p_stream_endpoint_paths x)),
      (''model_prefix'', VText (p_model_prefix x)),
      (''name'', opt_text (p_name x)),
      (''enabled'', flag (p_enabled x)),
      (''priority'', VInt (p_priority x)),
      (''default_model'', opt_text (p_default_model x)),
      (''supported_endpoints_json'', strs_text rl (p_supported_endpoints x)),
      (''rate_limit_protection'', flag (p_rate_limit_protection x)),
      (''last_error'', opt_text (p_last_error x)),
      (''last_error_at'', opt_date rl (p_last_error_at x)),
      (''last_error_type'', opt_text (p_last_error_type x)),
      (''last_error_source'', opt_text (p_last_error_source x)),
      (''rate_limited_until'', opt_date rl (p_rate_limited_until x)),
      (''circuit_open_until'', opt_date rl (p_circuit_open_until x)),
      (''last_used_at'', opt_date rl (p_last_used_at x)),
      (''backoff_level'', VInt (p_backoff_level x)),
      (''consecutive_use_count'', VInt (p_consecutive_use_count x)),
      (''test_status'', opt_text (p_test_status x)),
      (''created_at'', date_text rl (p_created_at x)),
      (''updated_at'', date_text rl (p_updated_at x)),
      (''protocol_format'', opt_text (p_protocol_format x))]"

definition map_provider :: "row_lib \<Rightarrow> row \<Rightarrow> provider app_result" where
  "map_provider rl r =
     rbind (get_strs rl default_supported_endpoints r ''supported_endpoints_json'') (\<lambda>v_supported_endpoints.
     rbind (get_map rl r ''extra_headers_json'') (\<lambda>v_extra_headers.
     rbind (get_map rl r ''endpoint_paths_json'') (\<lambda>v_endpoint_paths.
     rbind (get_map rl r ''stream_endpoint_paths_json'') (\<lambda>v_stream_endpoint_paths.
     rbind (get_text rl r ''id'') (\<lambda>v_id.
     rbind (get_text rl r ''provider'') (\<lambda>v_provider.
     rbind (get_text rl r ''base_url'') (\<lambda>v_base_url.
     rbind (get_opt_text rl r ''api_key'') (\<lambda>v_api_key.
     rbind (get_text rl r ''auth_type'') (\<lambda>v_auth_type.
     rbind (get_text rl r ''auth_header'') (\<lambda>v_auth_header.
     rbind (get_opt_text rl r ''auth_prefix'') (\<lambda>v_auth_prefix.
     rbind (get_text rl r ''model_prefix'') (\<lambda>v_model_prefix.
     rbind (get_opt_text rl r ''name'') (\<lambda>v_name.
     rbind (get_flag rl r ''enabled'') (\<lambda>v_enabled.
     rbind (get_int rl r ''priority'') (\<lambda>v_priority.
     rbind (get_opt_text rl r ''default_model'') (\<lambda>v_default_model.
     rbind (get_flag rl r ''rate_limit_protection'') (\<lambda>v_rate_limit_protection.
     rbind (get_opt_text rl r ''last_error'') (\<lambda>v_last_error.
     rbind (get_opt_date rl r ''last_error_at'') (\<lambda>v_last_error_at.
     rbind (get_opt_text rl r ''last_error_type'') (\<lambda>v_last_error_type.
     rbind (get_opt_text rl r ''last_error_source'') (\<lambda>v_last_error_source.
     rbind (get_opt_date rl r ''rate_limited_until'') (\<lambda>v_rate_limited_until.
     rbind (get_opt_date rl r ''circuit_open_until'') (\<lambda>v_circuit_open_until.
     rbind (get_opt_date rl r ''last_used_at'') (\<lambda>v_last_used_at.
     rbind (get_int rl r ''backoff_level'') (\<lambda>v_backoff_level.
     rbind (get_int rl r ''consecutive_use_count'') (\<lambda>v_consecutive_use_count.
     rbind (get_opt_text rl r ''test_status'') (\<lambda>v_test_status.
     rbind (get_date rl r ''created_at'') (\<lambda>v_created_at.
     rbind (get_date rl r ''updated_at'') (\<lambda>v_updated_at.
     rbind (get_lenient rl r ''protocol_format'') (\<lambda>v_protocol_format.
       Inr \<lparr>p_id = v_id, p_provider = v_provider, p_base_url = v_base_url, p_api_key =
         v_api_key, p_auth_type = v_auth_type, p_auth_header = v_auth_header, p_auth_prefix =
         v_auth_prefix, p_extra_headers = v_extra_headers, p_endpoint_paths = v_endpoint_paths,
         p_stream_endpoint_paths = v_stream_endpoint_paths, p_model_prefix = v_model_prefix, p_name =
         v_name, p_enabled = v_enabled, p_priority = v_priority, p_default_model = v_default_model,
         p_supported_endpoints = v_supported_endpoints, p_rate_limit_protection =
         v_rate_limit_protection, p_last_error = v_last_error, p_last_error_at = v_last_error_at,
         p_last_error_type = v_last_error_type, p_last_error_source = v_last_error_source,
         p_rate_limited_until = v_rate_limited_until, p_circuit_open_until = v_circuit_open_until,
         p_last_used_at = v_last_used_at, p_backoff_level = v_backoff_level, p_consecutive_use_count
         = v_consecutive_use_count, p_test_status = v_test_status, p_created_at = v_created_at,
         p_updated_at = v_updated_at, p_protocol_format =
         v_protocol_format\<rparr>))))))))))))))))))))))))))))))"

definition account_row :: "row_lib \<Rightarrow> account \<Rightarrow> row" where
  "account_row rl x =
     [(''id'', VText (a_id x)),
      (''provider_connection_id'', VText (a_provider_connection_id x)),
      (''label'', opt_text (a_label x)),
      (''auth_mode'', VText (auth_mode_as_str (a_auth_mode x))),
      (''api_key'', opt_text (a_api_key x)),
      (''access_token'', opt_text (a_access_token x)),
      (''refresh_token'', opt_text (a_refresh_token x)),
      (''expires_at'', opt_date rl (a_expires_at x)),
      (''scopes_json'', strs_text rl (a_scopes x)),
      (''remote_account_id'', opt_text (a_remote_account_id x)),
      (''remote_email'', opt_text (a_remote_email x)),
      (''is_fedramp'', flag (a_is_fedramp x)),
      (''enabled'', flag (a_enabled x)),
      (''priority'', VInt (a_priority x)),
      (''last_used_at'', opt_date rl (a_last_used_at x)),
      (''rate_limited_until'', opt_date rl (a_rate_limited_until x)),
      (''circuit_open_until'', opt_date rl (a_circuit_open_until x)),
      (''last_error'', opt_text (a_last_error x)),
      (''last_error_type'', opt_text (a_last_error_type x)),
      (''last_refresh_at'', opt_date rl (a_last_refresh_at x)),
      (''refresh_error'', opt_text (a_refresh_error x)),
      (''backoff_level'', VInt (a_backoff_level x)),
      (''consecutive_use_count'', VInt (a_consecutive_use_count x)),
      (''proxy_url'', opt_text (a_proxy_url x)),
      (''base_url'', opt_text (a_base_url x)),
      (''protocol_format'', opt_text (a_protocol_format x)),
      (''supported_endpoints_json'', opt_strs rl (a_supported_endpoints x)),
      (''created_at'', date_text rl (a_created_at x)),
      (''updated_at'', date_text rl (a_updated_at x))]"

definition map_account :: "row_lib \<Rightarrow> row \<Rightarrow> account app_result" where
  "map_account rl r =
     rbind (get_mode rl r ''auth_mode'') (\<lambda>v_auth_mode.
     rbind (get_strs rl [] r ''scopes_json'') (\<lambda>v_scopes.
     rbind (get_opt_strs rl r ''supported_endpoints_json'') (\<lambda>v_supported_endpoints.
     rbind (get_text rl r ''id'') (\<lambda>v_id.
     rbind (get_text rl r ''provider_connection_id'') (\<lambda>v_provider_connection_id.
     rbind (get_opt_text rl r ''label'') (\<lambda>v_label.
     rbind (get_opt_text rl r ''api_key'') (\<lambda>v_api_key.
     rbind (get_opt_text rl r ''access_token'') (\<lambda>v_access_token.
     rbind (get_opt_text rl r ''refresh_token'') (\<lambda>v_refresh_token.
     rbind (get_opt_date rl r ''expires_at'') (\<lambda>v_expires_at.
     rbind (get_opt_text rl r ''remote_account_id'') (\<lambda>v_remote_account_id.
     rbind (get_opt_text rl r ''remote_email'') (\<lambda>v_remote_email.
     rbind (get_flag rl r ''is_fedramp'') (\<lambda>v_is_fedramp.
     rbind (get_flag rl r ''enabled'') (\<lambda>v_enabled.
     rbind (get_int rl r ''priority'') (\<lambda>v_priority.
     rbind (get_opt_date rl r ''last_used_at'') (\<lambda>v_last_used_at.
     rbind (get_opt_date rl r ''rate_limited_until'') (\<lambda>v_rate_limited_until.
     rbind (get_opt_date rl r ''circuit_open_until'') (\<lambda>v_circuit_open_until.
     rbind (get_opt_text rl r ''last_error'') (\<lambda>v_last_error.
     rbind (get_opt_text rl r ''last_error_type'') (\<lambda>v_last_error_type.
     rbind (get_opt_date rl r ''last_refresh_at'') (\<lambda>v_last_refresh_at.
     rbind (get_opt_text rl r ''refresh_error'') (\<lambda>v_refresh_error.
     rbind (get_int rl r ''backoff_level'') (\<lambda>v_backoff_level.
     rbind (get_int rl r ''consecutive_use_count'') (\<lambda>v_consecutive_use_count.
     rbind (get_opt_text rl r ''proxy_url'') (\<lambda>v_proxy_url.
     rbind (get_lenient rl r ''base_url'') (\<lambda>v_base_url.
     rbind (get_lenient rl r ''protocol_format'') (\<lambda>v_protocol_format.
     rbind (get_date rl r ''created_at'') (\<lambda>v_created_at.
     rbind (get_date rl r ''updated_at'') (\<lambda>v_updated_at.
       Inr \<lparr>a_id = v_id, a_provider_connection_id = v_provider_connection_id, a_label =
         v_label, a_auth_mode = v_auth_mode, a_api_key = v_api_key, a_access_token = v_access_token,
         a_refresh_token = v_refresh_token, a_expires_at = v_expires_at, a_scopes = v_scopes,
         a_remote_account_id = v_remote_account_id, a_remote_email = v_remote_email, a_is_fedramp =
         v_is_fedramp, a_enabled = v_enabled, a_priority = v_priority, a_last_used_at =
         v_last_used_at, a_rate_limited_until = v_rate_limited_until, a_circuit_open_until =
         v_circuit_open_until, a_last_error = v_last_error, a_last_error_type = v_last_error_type,
         a_last_refresh_at = v_last_refresh_at, a_refresh_error = v_refresh_error, a_backoff_level =
         v_backoff_level, a_consecutive_use_count = v_consecutive_use_count, a_proxy_url =
         v_proxy_url, a_base_url = v_base_url, a_protocol_format = v_protocol_format,
         a_supported_endpoints = v_supported_endpoints, a_created_at = v_created_at, a_updated_at =
         v_updated_at\<rparr>)))))))))))))))))))))))))))))"

definition session_row :: "row_lib \<Rightarrow> oauth_session \<Rightarrow> row" where
  "session_row rl x =
     [(''id'', VText (s_id x)),
      (''state'', VText (s_state x)),
      (''provider_connection_id'', VText (s_provider_connection_id x)),
      (''provider_account_id'', opt_text (s_provider_account_id x)),
      (''redirect_uri'', VText (s_redirect_uri x)),
      (''code_verifier'', VText (s_code_verifier x)),
      (''scopes_json'', strs_text rl (s_scopes x)),
      (''proxy_url'', opt_text (s_proxy_url x)),
      (''created_at'', date_text rl (s_created_at x)),
      (''expires_at'', date_text rl (s_expires_at x)),
      (''consumed_at'', opt_date rl (s_consumed_at x))]"

definition map_session :: "row_lib \<Rightarrow> row \<Rightarrow> oauth_session app_result" where
  "map_session rl r =
     rbind (get_strs rl [] r ''scopes_json'') (\<lambda>v_scopes.
     rbind (get_text rl r ''id'') (\<lambda>v_id.
     rbind (get_text rl r ''state'') (\<lambda>v_state.
     rbind (get_text rl r ''provider_connection_id'') (\<lambda>v_provider_connection_id.
     rbind (get_opt_text rl r ''provider_account_id'') (\<lambda>v_provider_account_id.
     rbind (get_text rl r ''redirect_uri'') (\<lambda>v_redirect_uri.
     rbind (get_text rl r ''code_verifier'') (\<lambda>v_code_verifier.
     rbind (get_opt_text rl r ''proxy_url'') (\<lambda>v_proxy_url.
     rbind (get_date rl r ''created_at'') (\<lambda>v_created_at.
     rbind (get_date rl r ''expires_at'') (\<lambda>v_expires_at.
     rbind (get_opt_date rl r ''consumed_at'') (\<lambda>v_consumed_at.
       Inr \<lparr>s_id = v_id, s_state = v_state, s_provider_connection_id =
         v_provider_connection_id, s_provider_account_id = v_provider_account_id, s_redirect_uri =
         v_redirect_uri, s_code_verifier = v_code_verifier, s_scopes = v_scopes, s_proxy_url =
         v_proxy_url, s_created_at = v_created_at, s_expires_at = v_expires_at, s_consumed_at =
         v_consumed_at\<rparr>)))))))))))"

definition combo_row :: "row_lib \<Rightarrow> combo \<Rightarrow> row" where
  "combo_row rl x =
     [(''id'', VText (c_id x)),
      (''name'', VText (c_name x)),
      (''strategy'', VText (strategy_as_str (c_strategy x))),
      (''models_json'', strs_text rl (c_models x)),
      (''enabled'', flag (c_enabled x)),
      (''created_at'', date_text rl (c_created_at x)),
      (''updated_at'', date_text rl (c_updated_at x))]"

definition map_combo :: "row_lib \<Rightarrow> row \<Rightarrow> combo app_result" where
  "map_combo rl r =
     rbind (get_strategy rl r ''strategy'') (\<lambda>v_strategy.
     rbind (get_text rl r ''id'') (\<lambda>v_id.
     rbind (get_text rl r ''name'') (\<lambda>v_name.
     rbind (get_strs_strictly rl r ''models_json'') (\<lambda>v_models.
     rbind (get_flag rl r ''enabled'') (\<lambda>v_enabled.
     rbind (get_date rl r ''created_at'') (\<lambda>v_created_at.
     rbind (get_date rl r ''updated_at'') (\<lambda>v_updated_at.
       Inr \<lparr>c_id = v_id, c_name = v_name, c_strategy = v_strategy, c_models = v_models,
         c_enabled = v_enabled, c_created_at = v_created_at, c_updated_at =
         v_updated_at\<rparr>)))))))"

definition log_row :: "row_lib \<Rightarrow> request_log \<Rightarrow> row" where
  "log_row rl x =
     [(''id'', VText (rl_id x)),
      (''endpoint'', VText (rl_endpoint x)),
      (''requested_model'', VText (rl_requested_model x)),
      (''resolved_model'', VText (rl_resolved_model x)),
      (''provider_id'', opt_text (rl_provider_id x)),
      (''provider_account_id'', opt_text (rl_provider_account_id x)),
      (''account_label'', opt_text (rl_account_label x)),
      (''api_key_name'', opt_text (rl_api_key_name x)),
      (''status'', VInt (rl_status x)),
      (''error'', opt_text (rl_error x)),
      (''attempts'', VInt (rl_attempts x)),
      (''is_stream'', flag (rl_is_stream x)),
      (''input_tokens'', opt_int (rl_input_tokens x)),
      (''output_tokens'', opt_int (rl_output_tokens x)),
      (''cache_read_tokens'', opt_int (rl_cache_read_tokens x)),
      (''cost_usd'', opt_real (rl_cost_usd x)),
      (''duration_ms'', VInt (rl_duration_ms x)),
      (''client_body'', opt_text (rl_client_body x)),
      (''created_at'', date_text rl (rl_created_at x))]"

definition map_log :: "row_lib \<Rightarrow> row \<Rightarrow> request_log app_result" where
  "map_log rl r =
     rbind (get_text rl r ''id'') (\<lambda>v_id.
     rbind (get_text rl r ''endpoint'') (\<lambda>v_endpoint.
     rbind (get_text rl r ''requested_model'') (\<lambda>v_requested_model.
     rbind (get_text rl r ''resolved_model'') (\<lambda>v_resolved_model.
     rbind (get_opt_text rl r ''provider_id'') (\<lambda>v_provider_id.
     rbind (get_opt_text rl r ''provider_account_id'') (\<lambda>v_provider_account_id.
     rbind (get_opt_text rl r ''account_label'') (\<lambda>v_account_label.
     rbind (get_opt_text rl r ''api_key_name'') (\<lambda>v_api_key_name.
     rbind (get_int rl r ''status'') (\<lambda>v_status.
     rbind (get_opt_text rl r ''error'') (\<lambda>v_error.
     rbind (get_int rl r ''attempts'') (\<lambda>v_attempts.
     rbind (get_flag rl r ''is_stream'') (\<lambda>v_is_stream.
     rbind (get_opt_int rl r ''input_tokens'') (\<lambda>v_input_tokens.
     rbind (get_opt_int rl r ''output_tokens'') (\<lambda>v_output_tokens.
     rbind (get_opt_int rl r ''cache_read_tokens'') (\<lambda>v_cache_read_tokens.
     rbind (get_opt_real rl r ''cost_usd'') (\<lambda>v_cost_usd.
     rbind (get_int rl r ''duration_ms'') (\<lambda>v_duration_ms.
     rbind (get_opt_text rl r ''client_body'') (\<lambda>v_client_body.
     rbind (get_date rl r ''created_at'') (\<lambda>v_created_at.
       Inr \<lparr>rl_id = v_id, rl_endpoint = v_endpoint, rl_requested_model = v_requested_model,
         rl_resolved_model = v_resolved_model, rl_provider_id = v_provider_id, rl_provider_account_id
         = v_provider_account_id, rl_account_label = v_account_label, rl_api_key_name =
         v_api_key_name, rl_status = v_status, rl_error = v_error, rl_attempts = v_attempts,
         rl_is_stream = v_is_stream, rl_input_tokens = v_input_tokens, rl_output_tokens =
         v_output_tokens, rl_cache_read_tokens = v_cache_read_tokens, rl_cost_usd = v_cost_usd,
         rl_duration_ms = v_duration_ms, rl_client_body = v_client_body, rl_created_at =
         v_created_at\<rparr>)))))))))))))))))))"

section \<open>Looking up columns\<close>

lemma provider_row_get:
  "map_of (provider_row rl x) ''id'' = Some (VText (p_id x))"
  "map_of (provider_row rl x) ''provider'' = Some (VText (p_provider x))"
  "map_of (provider_row rl x) ''base_url'' = Some (VText (p_base_url x))"
  "map_of (provider_row rl x) ''api_key'' = Some (opt_text (p_api_key x))"
  "map_of (provider_row rl x) ''auth_type'' = Some (VText (p_auth_type x))"
  "map_of (provider_row rl x) ''auth_header'' = Some (VText (p_auth_header x))"
  "map_of (provider_row rl x) ''auth_prefix'' = Some (opt_text (p_auth_prefix x))"
  "map_of (provider_row rl x) ''extra_headers_json'' = Some (map_text rl (p_extra_headers x))"
  "map_of (provider_row rl x) ''endpoint_paths_json'' = Some (map_text rl (p_endpoint_paths x))"
  "map_of (provider_row rl x) ''stream_endpoint_paths_json'' = Some (map_text rl (p_stream_endpoint_paths x))"
  "map_of (provider_row rl x) ''model_prefix'' = Some (VText (p_model_prefix x))"
  "map_of (provider_row rl x) ''name'' = Some (opt_text (p_name x))"
  "map_of (provider_row rl x) ''enabled'' = Some (flag (p_enabled x))"
  "map_of (provider_row rl x) ''priority'' = Some (VInt (p_priority x))"
  "map_of (provider_row rl x) ''default_model'' = Some (opt_text (p_default_model x))"
  "map_of (provider_row rl x) ''supported_endpoints_json'' = Some (strs_text rl (p_supported_endpoints x))"
  "map_of (provider_row rl x) ''rate_limit_protection'' = Some (flag (p_rate_limit_protection x))"
  "map_of (provider_row rl x) ''last_error'' = Some (opt_text (p_last_error x))"
  "map_of (provider_row rl x) ''last_error_at'' = Some (opt_date rl (p_last_error_at x))"
  "map_of (provider_row rl x) ''last_error_type'' = Some (opt_text (p_last_error_type x))"
  "map_of (provider_row rl x) ''last_error_source'' = Some (opt_text (p_last_error_source x))"
  "map_of (provider_row rl x) ''rate_limited_until'' = Some (opt_date rl (p_rate_limited_until x))"
  "map_of (provider_row rl x) ''circuit_open_until'' = Some (opt_date rl (p_circuit_open_until x))"
  "map_of (provider_row rl x) ''last_used_at'' = Some (opt_date rl (p_last_used_at x))"
  "map_of (provider_row rl x) ''backoff_level'' = Some (VInt (p_backoff_level x))"
  "map_of (provider_row rl x) ''consecutive_use_count'' = Some (VInt (p_consecutive_use_count x))"
  "map_of (provider_row rl x) ''test_status'' = Some (opt_text (p_test_status x))"
  "map_of (provider_row rl x) ''created_at'' = Some (date_text rl (p_created_at x))"
  "map_of (provider_row rl x) ''updated_at'' = Some (date_text rl (p_updated_at x))"
  "map_of (provider_row rl x) ''protocol_format'' = Some (opt_text (p_protocol_format x))"
  by (simp_all add: provider_row_def)

lemma account_row_get:
  "map_of (account_row rl x) ''id'' = Some (VText (a_id x))"
  "map_of (account_row rl x) ''provider_connection_id'' = Some (VText (a_provider_connection_id x))"
  "map_of (account_row rl x) ''label'' = Some (opt_text (a_label x))"
  "map_of (account_row rl x) ''auth_mode'' = Some (VText (auth_mode_as_str (a_auth_mode x)))"
  "map_of (account_row rl x) ''api_key'' = Some (opt_text (a_api_key x))"
  "map_of (account_row rl x) ''access_token'' = Some (opt_text (a_access_token x))"
  "map_of (account_row rl x) ''refresh_token'' = Some (opt_text (a_refresh_token x))"
  "map_of (account_row rl x) ''expires_at'' = Some (opt_date rl (a_expires_at x))"
  "map_of (account_row rl x) ''scopes_json'' = Some (strs_text rl (a_scopes x))"
  "map_of (account_row rl x) ''remote_account_id'' = Some (opt_text (a_remote_account_id x))"
  "map_of (account_row rl x) ''remote_email'' = Some (opt_text (a_remote_email x))"
  "map_of (account_row rl x) ''is_fedramp'' = Some (flag (a_is_fedramp x))"
  "map_of (account_row rl x) ''enabled'' = Some (flag (a_enabled x))"
  "map_of (account_row rl x) ''priority'' = Some (VInt (a_priority x))"
  "map_of (account_row rl x) ''last_used_at'' = Some (opt_date rl (a_last_used_at x))"
  "map_of (account_row rl x) ''rate_limited_until'' = Some (opt_date rl (a_rate_limited_until x))"
  "map_of (account_row rl x) ''circuit_open_until'' = Some (opt_date rl (a_circuit_open_until x))"
  "map_of (account_row rl x) ''last_error'' = Some (opt_text (a_last_error x))"
  "map_of (account_row rl x) ''last_error_type'' = Some (opt_text (a_last_error_type x))"
  "map_of (account_row rl x) ''last_refresh_at'' = Some (opt_date rl (a_last_refresh_at x))"
  "map_of (account_row rl x) ''refresh_error'' = Some (opt_text (a_refresh_error x))"
  "map_of (account_row rl x) ''backoff_level'' = Some (VInt (a_backoff_level x))"
  "map_of (account_row rl x) ''consecutive_use_count'' = Some (VInt (a_consecutive_use_count x))"
  "map_of (account_row rl x) ''proxy_url'' = Some (opt_text (a_proxy_url x))"
  "map_of (account_row rl x) ''base_url'' = Some (opt_text (a_base_url x))"
  "map_of (account_row rl x) ''protocol_format'' = Some (opt_text (a_protocol_format x))"
  "map_of (account_row rl x) ''supported_endpoints_json'' = Some (opt_strs rl (a_supported_endpoints x))"
  "map_of (account_row rl x) ''created_at'' = Some (date_text rl (a_created_at x))"
  "map_of (account_row rl x) ''updated_at'' = Some (date_text rl (a_updated_at x))"
  by (simp_all add: account_row_def)

lemma session_row_get:
  "map_of (session_row rl x) ''id'' = Some (VText (s_id x))"
  "map_of (session_row rl x) ''state'' = Some (VText (s_state x))"
  "map_of (session_row rl x) ''provider_connection_id'' = Some (VText (s_provider_connection_id x))"
  "map_of (session_row rl x) ''provider_account_id'' = Some (opt_text (s_provider_account_id x))"
  "map_of (session_row rl x) ''redirect_uri'' = Some (VText (s_redirect_uri x))"
  "map_of (session_row rl x) ''code_verifier'' = Some (VText (s_code_verifier x))"
  "map_of (session_row rl x) ''scopes_json'' = Some (strs_text rl (s_scopes x))"
  "map_of (session_row rl x) ''proxy_url'' = Some (opt_text (s_proxy_url x))"
  "map_of (session_row rl x) ''created_at'' = Some (date_text rl (s_created_at x))"
  "map_of (session_row rl x) ''expires_at'' = Some (date_text rl (s_expires_at x))"
  "map_of (session_row rl x) ''consumed_at'' = Some (opt_date rl (s_consumed_at x))"
  by (simp_all add: session_row_def)

lemma combo_row_get:
  "map_of (combo_row rl x) ''id'' = Some (VText (c_id x))"
  "map_of (combo_row rl x) ''name'' = Some (VText (c_name x))"
  "map_of (combo_row rl x) ''strategy'' = Some (VText (strategy_as_str (c_strategy x)))"
  "map_of (combo_row rl x) ''models_json'' = Some (strs_text rl (c_models x))"
  "map_of (combo_row rl x) ''enabled'' = Some (flag (c_enabled x))"
  "map_of (combo_row rl x) ''created_at'' = Some (date_text rl (c_created_at x))"
  "map_of (combo_row rl x) ''updated_at'' = Some (date_text rl (c_updated_at x))"
  by (simp_all add: combo_row_def)

lemma log_row_get:
  "map_of (log_row rl x) ''id'' = Some (VText (rl_id x))"
  "map_of (log_row rl x) ''endpoint'' = Some (VText (rl_endpoint x))"
  "map_of (log_row rl x) ''requested_model'' = Some (VText (rl_requested_model x))"
  "map_of (log_row rl x) ''resolved_model'' = Some (VText (rl_resolved_model x))"
  "map_of (log_row rl x) ''provider_id'' = Some (opt_text (rl_provider_id x))"
  "map_of (log_row rl x) ''provider_account_id'' = Some (opt_text (rl_provider_account_id x))"
  "map_of (log_row rl x) ''account_label'' = Some (opt_text (rl_account_label x))"
  "map_of (log_row rl x) ''api_key_name'' = Some (opt_text (rl_api_key_name x))"
  "map_of (log_row rl x) ''status'' = Some (VInt (rl_status x))"
  "map_of (log_row rl x) ''error'' = Some (opt_text (rl_error x))"
  "map_of (log_row rl x) ''attempts'' = Some (VInt (rl_attempts x))"
  "map_of (log_row rl x) ''is_stream'' = Some (flag (rl_is_stream x))"
  "map_of (log_row rl x) ''input_tokens'' = Some (opt_int (rl_input_tokens x))"
  "map_of (log_row rl x) ''output_tokens'' = Some (opt_int (rl_output_tokens x))"
  "map_of (log_row rl x) ''cache_read_tokens'' = Some (opt_int (rl_cache_read_tokens x))"
  "map_of (log_row rl x) ''cost_usd'' = Some (opt_real (rl_cost_usd x))"
  "map_of (log_row rl x) ''duration_ms'' = Some (VInt (rl_duration_ms x))"
  "map_of (log_row rl x) ''client_body'' = Some (opt_text (rl_client_body x))"
  "map_of (log_row rl x) ''created_at'' = Some (date_text rl (rl_created_at x))"
  by (simp_all add: log_row_def)

section \<open>Reading back\<close>

text \<open>What is assumed of the crates: dates and the JSON texts of the record are read as written.\<close>

definition dates_read_back :: "row_lib \<Rightarrow> bool" where
  "dates_read_back rl \<longleftrightarrow> (\<forall>t. rw_read_date rl (rw_show_date rl t) = Inr t)"

definition reads_back :: "row_lib \<Rightarrow> json \<Rightarrow> bool" where
  "reads_back rl v \<longleftrightarrow> json_parse rl (json_print rl v) = Inr v"

lemma string_list_strs [simp]: "string_list (strs_json ss) = Some ss"
proof -
  have "strings (map JStr ss) = Some ss" by (induction ss) auto
  then show ?thesis by (simp add: string_list_def strs_json_def)
qed

lemma string_map_json [simp]: "string_map (map_json m) = Some m"
proof -
  have "string_pairs (map (\<lambda>(k, v). (k, JStr v)) m) = Some m" by (induction m) auto
  then show ?thesis by (simp add: string_map_def map_json_def)
qed

named_theorems column_reads \<open>reading a column whose value is known\<close>

lemma get_text_column [column_reads]: "map_of r k = Some (VText s) \<Longrightarrow> get_text rl r k = Inr s"
  by (simp add: get_text_def)

lemma get_int_column [column_reads]: "map_of r k = Some (VInt i) \<Longrightarrow> get_int rl r k = Inr i"
  by (simp add: get_int_def)

lemma get_flag_column [column_reads]: "map_of r k = Some (flag b) \<Longrightarrow> get_flag rl r k = Inr b"
  by (simp add: get_flag_def get_int_def flag_def)

lemma get_opt_text_column [column_reads]: "map_of r k = Some (opt_text v) \<Longrightarrow> get_opt_text rl r k = Inr v"
  by (simp add: get_opt_text_def opt_text_def split: option.split)

lemma get_opt_int_column [column_reads]: "map_of r k = Some (opt_int v) \<Longrightarrow> get_opt_int rl r k = Inr v"
  by (simp add: get_opt_int_def opt_int_def split: option.split)

lemma get_opt_real_column [column_reads]: "map_of r k = Some (opt_real v) \<Longrightarrow> get_opt_real rl r k = Inr v"
  by (simp add: get_opt_real_def opt_real_def split: option.split)

lemma get_lenient_column [column_reads]: "map_of r k = Some (opt_text v) \<Longrightarrow> get_lenient rl r k = Inr v"
  by (simp add: get_lenient_def get_opt_text_column)

lemma get_date_column [column_reads]:
  "dates_read_back rl \<Longrightarrow> map_of r k = Some (date_text rl t) \<Longrightarrow> get_date rl r k = Inr t"
  by (simp add: get_date_def get_text_def date_text_def parse_dt_def dates_read_back_def)

lemma get_opt_date_column [column_reads]:
  "dates_read_back rl \<Longrightarrow> map_of r k = Some (opt_date rl v) \<Longrightarrow> get_opt_date rl r k = Inr v"
  by (cases v) (simp_all add: get_opt_date_def get_opt_text_def opt_date_def date_text_def
      parse_optional_dt_def parse_dt_def dates_read_back_def)

lemma get_strs_column [column_reads]:
  "reads_back rl (strs_json ss) \<Longrightarrow> map_of r k = Some (strs_text rl ss) \<Longrightarrow> get_strs rl d r k = Inr ss"
  by (simp add: get_strs_def get_text_def strs_text_def read_json_def reads_back_def)

lemma get_strs_strictly_column [column_reads]:
  "reads_back rl (strs_json ss) \<Longrightarrow> map_of r k = Some (strs_text rl ss) \<Longrightarrow> get_strs_strictly rl r k = Inr ss"
  by (simp add: get_strs_strictly_def get_text_def strs_text_def read_json_def reads_back_def)

lemma get_map_column [column_reads]:
  "reads_back rl (map_json m) \<Longrightarrow> map_of r k = Some (map_text rl m) \<Longrightarrow> get_map rl r k = Inr m"
  by (simp add: get_map_def get_text_def map_text_def read_json_def reads_back_def)

lemma get_opt_strs_column [column_reads]:
  assumes "\<And>ss. v = Some ss \<Longrightarrow> reads_back rl (strs_json ss)" and "v \<noteq> Some []"
    and "map_of r k = Some (opt_strs rl v)"
  shows "get_opt_strs rl r k = Inr v"
  using assms
  by (cases v) (auto simp: get_opt_strs_def get_lenient_def get_opt_text_def opt_strs_def strs_text_def
      read_json_def reads_back_def)

lemma get_mode_column [column_reads]:
  "map_of r k = Some (VText (auth_mode_as_str m)) \<Longrightarrow> get_mode rl r k = Inr m"
  by (simp add: get_mode_def get_text_def)

lemma get_strategy_column [column_reads]:
  "map_of r k = Some (VText (strategy_as_str s)) \<Longrightarrow> get_strategy rl r k = Inr s"
  by (cases s) (simp_all add: get_strategy_def get_text_def)

lemma provider_round_trip:
  assumes "dates_read_back rl" and "reads_back rl (strs_json (p_supported_endpoints p))"
    and "reads_back rl (map_json (p_extra_headers p))" and "reads_back rl (map_json (p_endpoint_paths p))"
    and "reads_back rl (map_json (p_stream_endpoint_paths p))"
  shows "map_provider rl (provider_row rl p) = Inr p"
  using assms by (simp add: map_provider_def provider_row_get column_reads)

lemma account_round_trip:
  assumes "dates_read_back rl" and "reads_back rl (strs_json (a_scopes a))"
    and "\<And>ss. a_supported_endpoints a = Some ss \<Longrightarrow> reads_back rl (strs_json ss)"
    and "a_supported_endpoints a \<noteq> Some []"
  shows "map_account rl (account_row rl a) = Inr a"
  using assms(1,2) get_opt_strs_column [OF assms(3,4) account_row_get(27)]
  by (simp add: map_account_def account_row_get column_reads)

lemma session_round_trip:
  assumes "dates_read_back rl" and "reads_back rl (strs_json (s_scopes s))"
  shows "map_session rl (session_row rl s) = Inr s"
  using assms by (simp add: map_session_def session_row_get column_reads)

lemma combo_round_trip:
  assumes "dates_read_back rl" and "reads_back rl (strs_json (c_models c))"
  shows "map_combo rl (combo_row rl c) = Inr c"
  using assms by (simp add: map_combo_def combo_row_get column_reads)

lemma log_round_trip:
  assumes "dates_read_back rl"
  shows "map_log rl (log_row rl l) = Inr l"
  using assms by (simp add: map_log_def log_row_get column_reads)

section \<open>The rows and the schema\<close>

text \<open>What an \<open>INSERT\<close> needs of the table: its columns, and a value that fits in every one.\<close>

definition stored_value :: "row \<Rightarrow> column \<Rightarrow> sql_value" where
  "stored_value r c =
     (case map_of r (co_name c) of Some v \<Rightarrow> v | None \<Rightarrow> unwrap_or VNull (co_default c))"

definition accepted :: "column list \<Rightarrow> row \<Rightarrow> bool" where
  "accepted cols r \<longleftrightarrow> distinct (map fst r) \<and> list_all (\<lambda>kv. fst kv \<in> co_name ` set cols) r
     \<and> list_all (\<lambda>c. fits (stored_value r c) c) cols"

definition schema_columns :: "string \<Rightarrow> column list" where
  "schema_columns n =
     (case init_db (\<lambda>n. False) no_tables of
        Inl e \<Rightarrow> []
      | Inr db \<Rightarrow> (case find_table n db of None \<Rightarrow> [] | Some t \<Rightarrow> tb_columns t))"

lemma fits_column:
  "fits (VText s) \<lparr>co_name = n, co_type = TextType, co_not_null = b, co_unique = q, co_default = d\<rparr>"
  "fits (VInt i) \<lparr>co_name = n, co_type = IntegerType, co_not_null = b, co_unique = q, co_default = d\<rparr>"
  "fits VNull \<lparr>co_name = n, co_type = t, co_not_null = False, co_unique = q, co_default = d\<rparr>"
  "fits (VReal r) \<lparr>co_name = n, co_type = RealType, co_not_null = b, co_unique = q, co_default = d\<rparr>"
  by (simp_all add: fits_def)

lemma fits_optional:
  "fits (opt_text v) \<lparr>co_name = n, co_type = TextType, co_not_null = False, co_unique = q, co_default = d\<rparr>"
  "fits (opt_date rl t) \<lparr>co_name = n, co_type = TextType, co_not_null = False, co_unique = q, co_default = d\<rparr>"
  "fits (opt_strs rl ss) \<lparr>co_name = n, co_type = TextType, co_not_null = False, co_unique = q, co_default = d\<rparr>"
  "fits (opt_int i) \<lparr>co_name = n, co_type = IntegerType, co_not_null = False, co_unique = q, co_default = d\<rparr>"
  "fits (opt_real r) \<lparr>co_name = n, co_type = RealType, co_not_null = False, co_unique = q, co_default = d\<rparr>"
  by (auto simp: opt_text_def opt_date_def date_text_def opt_strs_def strs_text_def opt_int_def
      opt_real_def fits_column split: option.split)

lemma fits_written:
  "fits (date_text rl t) \<lparr>co_name = n, co_type = TextType, co_not_null = b, co_unique = q, co_default = d\<rparr>"
  "fits (strs_text rl ss) \<lparr>co_name = n, co_type = TextType, co_not_null = b, co_unique = q, co_default = d\<rparr>"
  "fits (map_text rl m) \<lparr>co_name = n, co_type = TextType, co_not_null = b, co_unique = q, co_default = d\<rparr>"
  "fits (flag f) \<lparr>co_name = n, co_type = IntegerType, co_not_null = b, co_unique = q, co_default = d\<rparr>"
  by (simp_all add: date_text_def strs_text_def map_text_def flag_def fits_column)

lemmas column_defs = required_def nullable_def keyed_def unique_def
lemmas column_fits = fits_column fits_optional fits_written

lemma schema_columns_are:
  "schema_columns ''provider_connections'' = provider_connections_columns"
  "schema_columns ''provider_accounts'' = provider_accounts_columns
     @ [nullable ''base_url'' TextType None, nullable ''protocol_format'' TextType None,
        nullable ''supported_endpoints_json'' TextType None]"
  "schema_columns ''oauth_sessions'' = oauth_sessions_columns"
  "schema_columns ''combos'' = combos_columns"
  "schema_columns ''request_logs'' = request_logs_columns"
  by code_simp+

lemma session_row_accepted: "accepted (schema_columns ''oauth_sessions'') (session_row rl s)"
  by (simp add: accepted_def schema_columns_are oauth_sessions_columns_def stored_value_def
      session_row_get column_fits column_defs) (simp add: session_row_def)

lemma provider_row_accepted: "accepted (schema_columns ''provider_connections'') (provider_row rl p)"
  by (simp add: accepted_def schema_columns_are provider_connections_columns_def stored_value_def
      provider_row_get column_fits column_defs) (simp add: provider_row_def column_fits)

lemma account_row_accepted: "accepted (schema_columns ''provider_accounts'') (account_row rl a)"
  by (simp add: accepted_def schema_columns_are provider_accounts_columns_def stored_value_def
      account_row_get column_fits column_defs) (simp add: account_row_def)

lemma combo_row_accepted: "accepted (schema_columns ''combos'') (combo_row rl c)"
  by (simp add: accepted_def schema_columns_are combos_columns_def stored_value_def
      combo_row_get column_fits column_defs) (simp add: combo_row_def)

lemma log_row_accepted: "accepted (schema_columns ''request_logs'') (log_row rl l)"
  by (simp add: accepted_def schema_columns_are request_logs_columns_def stored_value_def
      log_row_get column_fits column_defs) (simp add: log_row_def)

end
