(* ===== verification/Rows_Cache.thy ===== *)
theory Rows_Cache
  imports Rows Proxy_Routes
begin

text \<open>
  Rows of the response cache and of the API keys: what \<open>upsert_response_cache_entry\<close> and
  \<open>create_api_key\<close> bind, and the readers \<open>map_response_cache_entry\<close> and the one in
  \<open>find_api_key_by_hash\<close> and \<open>list_api_keys\<close> of \<open>src/repository.rs\<close>. Headers are stored as a list of
  pairs, usage as the object that the derived serialisation of \<open>UsageInfo\<close> writes.
\<close>

section \<open>Values\<close>

definition pairs_json :: "headers \<Rightarrow> json" where
  "pairs_json hs = JArr (map (\<lambda>(k, v). JArr [JStr k, JStr v]) hs)"

definition string_pair :: "json \<Rightarrow> (string \<times> string) option" where
  "string_pair v = (case v of JArr [JStr a, JStr b] \<Rightarrow> Some (a, b) | w \<Rightarrow> None)"

fun pair_list :: "json list \<Rightarrow> headers option" where
  "pair_list [] = Some []"
| "pair_list (v # vs) = Option.bind (string_pair v) (\<lambda>p. map_option ((#) p) (pair_list vs))"

definition read_pairs :: "json \<Rightarrow> headers option" where
  "read_pairs v = Option.bind (as_array v) pair_list"

text \<open>An optional count may be absent or null; the required ones may not.\<close>

definition optional_count :: "json option \<Rightarrow> u64 option option" where
  "optional_count v =
     (case v of None \<Rightarrow> Some None | Some JNull \<Rightarrow> Some None | Some w \<Rightarrow> map_option Some (as_u64 w))"

definition counts ::
  "json option \<Rightarrow> json option \<Rightarrow> json option \<Rightarrow> json option \<Rightarrow> json option \<Rightarrow> usage_info option" where
  "counts input output read creation whole =
     Option.bind (Option.bind input as_u64) (\<lambda>i.
     Option.bind (Option.bind output as_u64) (\<lambda>out.
     Option.bind (optional_count read) (\<lambda>r.
     Option.bind (optional_count creation) (\<lambda>c.
     Option.bind (Option.bind whole as_u64) (\<lambda>t.
       Some \<lparr>input_tokens = i, output_tokens = out, cache_read_tokens = r,
             cache_creation_tokens = c, total_tokens = t\<rparr>)))))"

text \<open>A structure is read from an object, or from the array of its fields.\<close>

definition read_usage :: "json \<Rightarrow> usage_info option" where
  "read_usage v =
     (case v of
        JObj ob \<Rightarrow> counts (obj_get ''input_tokens'' ob) (obj_get ''output_tokens'' ob)
          (obj_get ''cache_read_tokens'' ob) (obj_get ''cache_creation_tokens'' ob) (obj_get ''total_tokens'' ob)
      | JArr [i, out, r, c, t] \<Rightarrow> counts (Some i) (Some out) (Some r) (Some c) (Some t)
      | w \<Rightarrow> None)"

section \<open>The rows\<close>

definition usage_text :: "row_lib \<Rightarrow> usage_info option \<Rightarrow> sql_value" where
  "usage_text rl v = (case v of None \<Rightarrow> VNull | Some u \<Rightarrow> VText (json_print rl (usage_json JObj u)))"

definition cache_row_of :: "row_lib \<Rightarrow> cache_row \<Rightarrow> row" where
  "cache_row_of rl x =
     [(''cache_key'', VText (ce_cache_key x)),
      (''endpoint'', VText (ce_endpoint x)),
      (''upstream_endpoint'', VText (ce_upstream_endpoint x)),
      (''requested_model'', VText (ce_requested_model x)),
      (''resolved_model'', VText (ce_resolved_model x)),
      (''provider_id'', VText (ce_provider_id x)),
      (''provider_account_id'', opt_text (ce_provider_account_id x)),
      (''namespace'', VText (ce_namespace x)),
      (''request_body_hash'', VText (ce_request_body_hash x)),
      (''response_body'', VText (ce_response_body x)),
      (''response_headers_json'', VText (json_print rl (pairs_json (ce_response_headers x)))),
      (''status'', VInt (ce_status x)),
      (''is_stream'', flag (ce_is_stream x)),
      (''usage_json'', usage_text rl (ce_usage x)),
      (''expires_at'', date_text rl (ce_expires_at x)),
      (''hit_count'', VInt (ce_hit_count x)),
      (''created_at'', date_text rl (ce_created_at x)),
      (''updated_at'', date_text rl (ce_updated_at x)),
      (''last_hit_at'', opt_date rl (ce_last_hit_at x))]"

definition get_usage :: "row_lib \<Rightarrow> row \<Rightarrow> usage_info option app_result" where
  "get_usage rl r =
     rbind (get_opt_text rl r ''usage_json'') (\<lambda>v.
       case v of None \<Rightarrow> Inr None | Some s \<Rightarrow> rbind (read_json rl read_usage s) (\<lambda>u. Inr (Some u)))"

text \<open>What the code reads of an entry: no times but its expiry, and its count of hits.\<close>

definition map_cache_entry :: "row_lib \<Rightarrow> row \<Rightarrow> (cache_entry \<times> int) app_result" where
  "map_cache_entry rl r =
     rbind (get_text rl r ''response_headers_json'') (\<lambda>headers.
     rbind (get_usage rl r) (\<lambda>v_usage.
     rbind (get_text rl r ''cache_key'') (\<lambda>v_key.
     rbind (get_text rl r ''endpoint'') (\<lambda>v_endpoint.
     rbind (get_text rl r ''upstream_endpoint'') (\<lambda>v_upstream.
     rbind (get_text rl r ''requested_model'') (\<lambda>v_requested.
     rbind (get_text rl r ''resolved_model'') (\<lambda>v_resolved.
     rbind (get_text rl r ''provider_id'') (\<lambda>v_provider.
     rbind (get_opt_text rl r ''provider_account_id'') (\<lambda>v_account.
     rbind (get_text rl r ''namespace'') (\<lambda>v_namespace.
     rbind (get_text rl r ''request_body_hash'') (\<lambda>v_hash.
     rbind (get_text rl r ''response_body'') (\<lambda>v_body.
     rbind (get_int rl r ''status'') (\<lambda>v_status.
     rbind (get_flag rl r ''is_stream'') (\<lambda>v_stream.
     rbind (get_date rl r ''expires_at'') (\<lambda>v_expires.
     rbind (get_int rl r ''hit_count'') (\<lambda>v_hits.
       Inr (\<lparr>ce_cache_key = v_key, ce_endpoint = v_endpoint, ce_upstream_endpoint = v_upstream,
              ce_requested_model = v_requested, ce_resolved_model = v_resolved,
              ce_provider_id = v_provider, ce_provider_account_id = v_account,
              ce_namespace = v_namespace, ce_request_body_hash = v_hash, ce_response_body = v_body,
              ce_response_headers = unwrap_or [] (ok (read_json rl read_pairs headers)),
              ce_status = v_status, ce_is_stream = v_stream, ce_usage = v_usage,
              ce_expires_at = v_expires\<rparr>, v_hits)))))))))))))))))"

definition key_row :: "row_lib \<Rightarrow> api_key_row \<Rightarrow> row" where
  "key_row rl x =
     [(''id'', VText (k_id x)),
      (''name'', VText (k_name x)),
      (''key_hash'', VText (k_key_hash x)),
      (''key_prefix'', VText (k_key_prefix x)),
      (''allowed_models_json'', strs_text rl (k_allowed_models x)),
      (''is_active'', flag (k_is_active x)),
      (''last_used_at'', opt_date rl (k_last_used_at x)),
      (''usage_count'', VInt (k_usage_count x)),
      (''created_at'', date_text rl (k_created_at x)),
      (''updated_at'', date_text rl (k_updated_at x))]"

text \<open>The hash is not selected, so the record that is read has none.\<close>

definition map_key :: "row_lib \<Rightarrow> row \<Rightarrow> api_key_row app_result" where
  "map_key rl r =
     rbind (get_strs rl [''*''] r ''allowed_models_json'') (\<lambda>v_models.
     rbind (get_text rl r ''id'') (\<lambda>v_id.
     rbind (get_text rl r ''name'') (\<lambda>v_name.
     rbind (get_text rl r ''key_prefix'') (\<lambda>v_prefix.
     rbind (get_flag rl r ''is_active'') (\<lambda>v_active.
     rbind (get_opt_date rl r ''last_used_at'') (\<lambda>v_used.
     rbind (get_int rl r ''usage_count'') (\<lambda>v_count.
     rbind (get_date rl r ''created_at'') (\<lambda>v_created.
     rbind (get_date rl r ''updated_at'') (\<lambda>v_updated.
       Inr \<lparr>k_id = v_id, k_name = v_name, k_key_hash = [], k_key_prefix = v_prefix,
            k_allowed_models = v_models, k_is_active = v_active, k_last_used_at = v_used,
            k_usage_count = v_count, k_created_at = v_created, k_updated_at = v_updated\<rparr>)))))))))"

section \<open>Reading back\<close>

lemma cache_row_get:
  "map_of (cache_row_of rl x) ''cache_key'' = Some (VText (ce_cache_key x))"
  "map_of (cache_row_of rl x) ''endpoint'' = Some (VText (ce_endpoint x))"
  "map_of (cache_row_of rl x) ''upstream_endpoint'' = Some (VText (ce_upstream_endpoint x))"
  "map_of (cache_row_of rl x) ''requested_model'' = Some (VText (ce_requested_model x))"
  "map_of (cache_row_of rl x) ''resolved_model'' = Some (VText (ce_resolved_model x))"
  "map_of (cache_row_of rl x) ''provider_id'' = Some (VText (ce_provider_id x))"
  "map_of (cache_row_of rl x) ''provider_account_id'' = Some (opt_text (ce_provider_account_id x))"
  "map_of (cache_row_of rl x) ''namespace'' = Some (VText (ce_namespace x))"
  "map_of (cache_row_of rl x) ''request_body_hash'' = Some (VText (ce_request_body_hash x))"
  "map_of (cache_row_of rl x) ''response_body'' = Some (VText (ce_response_body x))"
  "map_of (cache_row_of rl x) ''response_headers_json'' = Some (VText (json_print rl (pairs_json (ce_response_headers x))))"
  "map_of (cache_row_of rl x) ''status'' = Some (VInt (ce_status x))"
  "map_of (cache_row_of rl x) ''is_stream'' = Some (flag (ce_is_stream x))"
  "map_of (cache_row_of rl x) ''usage_json'' = Some (usage_text rl (ce_usage x))"
  "map_of (cache_row_of rl x) ''expires_at'' = Some (date_text rl (ce_expires_at x))"
  "map_of (cache_row_of rl x) ''hit_count'' = Some (VInt (ce_hit_count x))"
  "map_of (cache_row_of rl x) ''created_at'' = Some (date_text rl (ce_created_at x))"
  "map_of (cache_row_of rl x) ''updated_at'' = Some (date_text rl (ce_updated_at x))"
  "map_of (cache_row_of rl x) ''last_hit_at'' = Some (opt_date rl (ce_last_hit_at x))"
  by (simp_all add: cache_row_of_def)

lemma key_row_get:
  "map_of (key_row rl x) ''id'' = Some (VText (k_id x))"
  "map_of (key_row rl x) ''name'' = Some (VText (k_name x))"
  "map_of (key_row rl x) ''key_hash'' = Some (VText (k_key_hash x))"
  "map_of (key_row rl x) ''key_prefix'' = Some (VText (k_key_prefix x))"
  "map_of (key_row rl x) ''allowed_models_json'' = Some (strs_text rl (k_allowed_models x))"
  "map_of (key_row rl x) ''is_active'' = Some (flag (k_is_active x))"
  "map_of (key_row rl x) ''last_used_at'' = Some (opt_date rl (k_last_used_at x))"
  "map_of (key_row rl x) ''usage_count'' = Some (VInt (k_usage_count x))"
  "map_of (key_row rl x) ''created_at'' = Some (date_text rl (k_created_at x))"
  "map_of (key_row rl x) ''updated_at'' = Some (date_text rl (k_updated_at x))"
  by (simp_all add: key_row_def)

lemma read_pairs_json [simp]: "read_pairs (pairs_json hs) = Some hs"
proof -
  have "pair_list (map (\<lambda>(k, v). JArr [JStr k, JStr v]) hs) = Some hs"
    by (induction hs) (auto simp: string_pair_def)
  then show ?thesis by (simp add: read_pairs_def pairs_json_def)
qed

lemma optional_count_json [simp]: "optional_count (Some (opt_json json_u64 v)) = Some v"
  by (cases v) (simp_all add: optional_count_def opt_json_def json_u64_def)

lemma read_usage_json [simp]: "read_usage (usage_json JObj u) = Some u"
  by (simp add: read_usage_def usage_json_def counts_def json_u64_def obj_get_def)

definition entry_readable :: "row_lib \<Rightarrow> 'a cache_entry_scheme \<Rightarrow> bool" where
  "entry_readable rl x \<longleftrightarrow> dates_read_back rl \<and> reads_back rl (pairs_json (ce_response_headers x))
     \<and> (\<forall>u. ce_usage x = Some u \<longrightarrow> reads_back rl (usage_json JObj u))"

lemma get_usage_column:
  assumes "\<forall>u. v = Some u \<longrightarrow> reads_back rl (usage_json JObj u)" and "map_of r ''usage_json'' = Some (usage_text rl v)"
  shows "get_usage rl r = Inr v"
  using assms by (cases v)
    (simp_all add: get_usage_def get_opt_text_def usage_text_def read_json_def reads_back_def)

lemma cache_round_trip:
  assumes "entry_readable rl x"
  shows "map_cache_entry rl (cache_row_of rl x) = Inr (cache_entry.truncate x, ce_hit_count x)"
proof -
  have "ok (read_json rl read_pairs (json_print rl (pairs_json (ce_response_headers x)))) = Some (ce_response_headers x)"
    and "get_usage rl (cache_row_of rl x) = Inr (ce_usage x)" and "dates_read_back rl"
    using assms get_usage_column [OF _ cache_row_get(14)]
    by (simp_all add: entry_readable_def read_json_def reads_back_def)
  then show ?thesis
    by (simp add: map_cache_entry_def cache_row_get column_reads cache_entry.truncate_def)
qed

lemma key_round_trip:
  assumes "dates_read_back rl" and "reads_back rl (strs_json (k_allowed_models x))"
  shows "map_key rl (key_row rl x) = Inr (x\<lparr>k_key_hash := []\<rparr>)"
  using assms by (simp add: map_key_def key_row_get column_reads)

section \<open>The rows and the schema\<close>

lemma cache_columns_are:
  "schema_columns ''llm_response_cache'' = llm_response_cache_columns"
  "schema_columns ''api_keys'' = api_keys_columns"
  by code_simp+

lemma fits_usage:
  "fits (usage_text rl v) \<lparr>co_name = n, co_type = TextType, co_not_null = False, co_unique = q, co_default = d\<rparr>"
  by (auto simp: usage_text_def fits_column split: option.split)

lemma cache_row_accepted: "accepted (schema_columns ''llm_response_cache'') (cache_row_of rl x)"
  by (simp add: accepted_def cache_columns_are llm_response_cache_columns_def stored_value_def
      cache_row_get column_fits fits_usage column_defs) (simp add: cache_row_of_def)

lemma key_row_accepted: "accepted (schema_columns ''api_keys'') (key_row rl x)"
  by (simp add: accepted_def cache_columns_are api_keys_columns_def stored_value_def
      key_row_get column_fits column_defs) (simp add: key_row_def)

end
