(* ===== verification/Queries.thy ===== *)
theory Queries
  imports Rows_Cache "HOL-Library.Product_Lexorder"
begin

text \<open>
  The selective statements of \<open>src/repository.rs\<close> on rows: conditions in the three-valued logic of
  SQL over stored values, with times compared as the texts they are stored as, and orderings by
  columns. The rest of the development filters and sorts records instead; the lemmas at the end are
  why that gives the same, given that the texts of times sort like the times.
\<close>

section \<open>Conditions\<close>

text \<open>
  SQLite orders values by class and then within the class: nulls, numbers, texts byte by byte.
\<close>

fun value_key :: "sql_value \<Rightarrow> nat \<times> rat \<times> string" where
  "value_key VNull = (0, 0, [])"
| "value_key (VInt i) = (2, of_int i, [])"
| "value_key (VReal (Fin q)) = (2, q, [])"
| "value_key (VReal (Inf neg)) = (if neg then 1 else 3, 0, [])"
| "value_key (VReal NaN) = (0, 0, [])"
| "value_key (VText s) = (4, 0, s)"

datatype comparison = Equal | Below | AtMost | Above

fun holds :: "comparison \<Rightarrow> 'k :: linorder \<Rightarrow> 'k \<Rightarrow> bool" where
  "holds Equal a b = (a = b)"
| "holds Below a b = (a < b)"
| "holds AtMost a b = (a \<le> b)"
| "holds Above a b = (b < a)"

datatype condition =
    Compare string comparison sql_value
  | IsNull string
  | Both condition condition
  | Either condition condition

definition cell :: "row \<Rightarrow> string \<Rightarrow> sql_value" where
  "cell r k = unwrap_or VNull (map_of r k)"

definition is_null :: "sql_value \<Rightarrow> bool" where
  "is_null v \<longleftrightarrow> fst (value_key v) = 0"

definition compare :: "comparison \<Rightarrow> sql_value \<Rightarrow> sql_value \<Rightarrow> bool option" where
  "compare c a b = (if is_null a \<or> is_null b then None else Some (holds c (value_key a) (value_key b)))"

fun truth :: "condition \<Rightarrow> row \<Rightarrow> bool option" where
  "truth (Compare k c v) r = compare c (cell r k) v"
| "truth (IsNull k) r = Some (is_null (cell r k))"
| "truth (Both p q) r =
     (if truth p r = Some False \<or> truth q r = Some False then Some False
      else if truth p r = None \<or> truth q r = None then None else Some True)"
| "truth (Either p q) r =
     (if truth p r = Some True \<or> truth q r = Some True then Some True
      else if truth p r = None \<or> truth q r = None then None else Some False)"

definition chosen :: "condition \<Rightarrow> row \<Rightarrow> bool" where
  "chosen p r \<longleftrightarrow> truth p r = Some True"

section \<open>Statements\<close>

text \<open>Columns to order by, the first one first; rows that agree on them keep their order.\<close>

datatype ordering = Ascending string | Descending string

fun order_rows :: "ordering list \<Rightarrow> row list \<Rightarrow> row list" where
  "order_rows [] rs = rs"
| "order_rows (Ascending k # os) rs = sort_key (\<lambda>r. value_key (cell r k)) (order_rows os rs)"
| "order_rows (Descending k # os) rs = rev (sort_key (\<lambda>r. value_key (cell r k)) (rev (order_rows os rs)))"

definition select_rows :: "condition \<Rightarrow> ordering list \<Rightarrow> row list \<Rightarrow> row list" where
  "select_rows p os rs = order_rows os (filter (chosen p) rs)"

definition delete_rows :: "condition \<Rightarrow> row list \<Rightarrow> nat \<times> row list" where
  "delete_rows p rs = (length (filter (chosen p) rs), filter (\<lambda>r. \<not> chosen p r) rs)"

definition assign :: "string \<Rightarrow> sql_value \<Rightarrow> row \<Rightarrow> row" where
  "assign k v r = map (\<lambda>(j, w). (j, if j = k then v else w)) r"

definition update_where :: "condition \<Rightarrow> (row \<Rightarrow> row) \<Rightarrow> row list \<Rightarrow> nat \<times> row list" where
  "update_where p f rs = (length (filter (chosen p) rs), map (\<lambda>r. if chosen p r then f r else r) rs)"

section \<open>The statements of the repository\<close>

definition column_is :: "string \<Rightarrow> string \<Rightarrow> condition" where
  "column_is k s = Compare k Equal (VText s)"

definition select_accounts_of :: "string \<Rightarrow> row list \<Rightarrow> row list" where
  "select_accounts_of i =
     select_rows (column_is ''provider_connection_id'' i) [Ascending ''priority'', Ascending ''created_at'']"

definition until_passed :: "row_lib \<Rightarrow> timestamp \<Rightarrow> string \<Rightarrow> condition" where
  "until_passed rl now k = Either (IsNull k) (Compare k AtMost (date_text rl now))"

definition select_selectable_accounts :: "row_lib \<Rightarrow> timestamp \<Rightarrow> string \<Rightarrow> row list \<Rightarrow> row list" where
  "select_selectable_accounts rl now i =
     select_rows
       (Both (Both (Both (column_is ''provider_connection_id'' i) (Compare ''enabled'' Equal (VInt 1)))
          (until_passed rl now ''rate_limited_until''))
          (until_passed rl now ''circuit_open_until''))
       [Ascending ''priority'', Ascending ''created_at'']"

definition select_connections :: "row list \<Rightarrow> row list" where
  "select_connections = order_rows [Ascending ''priority'', Ascending ''provider'']"

definition select_connections_by_provider :: "string \<Rightarrow> row list \<Rightarrow> row list" where
  "select_connections_by_provider name =
     select_rows (column_is ''provider'' name) [Ascending ''priority'', Ascending ''created_at'']"

definition select_sessions_of :: "string \<Rightarrow> row list \<Rightarrow> row list" where
  "select_sessions_of i = select_rows (column_is ''provider_connection_id'' i) [Descending ''created_at'']"

definition select_session_by_state :: "string \<Rightarrow> row list \<Rightarrow> row list" where
  "select_session_by_state st = select_rows (column_is ''state'' st) []"

definition consume_session :: "row_lib \<Rightarrow> timestamp \<Rightarrow> string \<Rightarrow> row list \<Rightarrow> nat \<times> row list" where
  "consume_session rl now i =
     update_where (Both (column_is ''id'' i) (IsNull ''consumed_at'')) (assign ''consumed_at'' (date_text rl now))"

definition delete_old_sessions :: "row_lib \<Rightarrow> timestamp \<Rightarrow> row list \<Rightarrow> nat \<times> row list" where
  "delete_old_sessions rl now = delete_rows (Compare ''expires_at'' Below (date_text rl now))"

definition select_cache_entry :: "row_lib \<Rightarrow> timestamp \<Rightarrow> string \<Rightarrow> string \<Rightarrow> string \<Rightarrow> row list \<Rightarrow> row list" where
  "select_cache_entry rl now k namespace hash =
     select_rows
       (Both (Both (Both (column_is ''cache_key'' k) (column_is ''namespace'' namespace))
          (column_is ''request_body_hash'' hash)) (Compare ''expires_at'' Above (date_text rl now))) []"

definition purge_cache_rows :: "row_lib \<Rightarrow> timestamp \<Rightarrow> row list \<Rightarrow> nat \<times> row list" where
  "purge_cache_rows rl now = delete_rows (Compare ''expires_at'' AtMost (date_text rl now))"

definition select_combos :: "row list \<Rightarrow> row list" where
  "select_combos = order_rows [Ascending ''name'']"

definition select_key_by_hash :: "string \<Rightarrow> row list \<Rightarrow> row list" where
  "select_key_by_hash hash = select_rows (column_is ''key_hash'' hash) []"

section \<open>Rows that stand for records\<close>

text \<open>
  A table of records: how they are written, what reading gives, and for which records it does.
\<close>

locale stored_records =
  fixes put :: "'a \<Rightarrow> row" and fetch :: "row \<Rightarrow> 'b app_result" and view :: "'a \<Rightarrow> 'b"
    and readable :: "'a \<Rightarrow> bool"
  assumes read_written: "readable x \<Longrightarrow> fetch (put x) = Inr (view x)"
begin

lemma read_all: "list_all readable xs \<Longrightarrow> map fetch (map put xs) = map Inr (map view xs)"
  by (induction xs) (auto simp: read_written)

lemma read_selected:
  assumes "list_all readable xs" and "rows = map put ys" and "set ys \<subseteq> set xs"
  shows "map fetch rows = map Inr (map view ys)"
proof -
  have "list_all readable ys" using assms(1,3) by (auto simp: list_all_iff)
  then show ?thesis unfolding assms(2) by (rule read_all)
qed

end

lemma insort_key_map: "insort_key g (h x) (map h xs) = map h (insort_key (\<lambda>x. g (h x)) x xs)"
  by (induction xs) auto

lemma sort_key_map: "sort_key g (map h xs) = map h (sort_key (\<lambda>x. g (h x)) xs)"
  by (induction xs) (simp_all add: insort_key_map)

lemma sort_key_same:
  assumes "\<And>x y. f x \<le> f y \<longleftrightarrow> g x \<le> g y"
  shows "sort_key f xs = sort_key g xs"
proof -
  have "insort_key f x ys = insort_key g x ys" for x ys
    by (induction ys) (simp_all add: assms)
  then show ?thesis by (induction xs) simp_all
qed

lemma sort_key_descending:
  fixes f :: "'a \<Rightarrow> int"
  shows "rev (sort_key f (rev xs)) = sort_key (\<lambda>x. - f x) xs"
proof (rule sym, rule properties_for_sort_key)
  show "filter (\<lambda>y. - f x = - f y) (rev (sort_key f (rev xs))) = filter (\<lambda>y. - f x = - f y) xs" for x
    using arg_cong [OF sort_key_stable [of f "f x" "rev xs"], of rev]
    by (simp add: rev_filter eq_commute [of "f x"])
  have "sorted (map f (sort_key f (rev xs)))" by simp
  then show "sorted (map (\<lambda>x. - f x) (rev (sort_key f (rev xs))))"
    by (simp add: rev_map [symmetric] sorted_wrt_rev sorted_wrt_map)
qed simp

text \<open>A column that sorts as a value of the record does.\<close>

definition sorts_as :: "('a \<Rightarrow> row) \<Rightarrow> string \<Rightarrow> ('a \<Rightarrow> 'k :: linorder) \<Rightarrow> bool" where
  "sorts_as put k f \<longleftrightarrow> (\<forall>x y. value_key (cell (put x) k) \<le> value_key (cell (put y) k) \<longleftrightarrow> f x \<le> f y)"

lemma order_ascending:
  assumes "sorts_as put k f" and "order_rows os (map put xs) = map put ys"
  shows "order_rows (Ascending k # os) (map put xs) = map put (sort_key f ys)"
proof -
  have "sort_key (\<lambda>x. value_key (cell (put x) k)) ys = sort_key f ys"
    by (rule sort_key_same) (use assms(1) in \<open>simp add: sorts_as_def\<close>)
  then show ?thesis by (simp add: assms(2) sort_key_map)
qed

lemma order_descending:
  fixes f :: "'a \<Rightarrow> int"
  assumes "sorts_as put k f" and "order_rows os (map put xs) = map put ys"
  shows "order_rows (Descending k # os) (map put xs) = map put (sort_key (\<lambda>x. - f x) ys)"
proof -
  have "sort_key (\<lambda>x. value_key (cell (put x) k)) (rev ys) = sort_key f (rev ys)"
    by (rule sort_key_same) (use assms(1) in \<open>simp add: sorts_as_def\<close>)
  then have "rev (sort_key (\<lambda>r. value_key (cell r k)) (map put (rev ys))) = map put (rev (sort_key f (rev ys)))"
    by (simp add: sort_key_map rev_map)
  then show ?thesis by (simp add: assms(2) rev_map sort_key_descending)
qed

lemma chosen_rows: "filter (chosen p) (map put xs) = map put (filter (\<lambda>x. chosen p (put x)) xs)"
  by (simp add: filter_map comp_def)

section \<open>The columns of the statements\<close>

text \<open>Times sort as their texts do, byte by byte.\<close>

definition dates_in_order :: "row_lib \<Rightarrow> bool" where
  "dates_in_order rl \<longleftrightarrow> (\<forall>s t. rw_show_date rl s \<le> rw_show_date rl t \<longleftrightarrow> s \<le> t)"

lemma dates_less: "dates_in_order rl \<Longrightarrow> rw_show_date rl s < rw_show_date rl t \<longleftrightarrow> s < t"
  by (simp add: dates_in_order_def linorder_not_le [symmetric])

lemma cell_known [simp]: "map_of r k = Some v \<Longrightarrow> cell r k = v"
  by (simp add: cell_def)

lemma sorts_as_text: "(\<And>x. map_of (put x) k = Some (VText (f x))) \<Longrightarrow> sorts_as put k f"
  by (simp add: sorts_as_def)

lemma sorts_as_int: "(\<And>x. map_of (put x) k = Some (VInt (f x))) \<Longrightarrow> sorts_as put k f"
  by (auto simp: sorts_as_def)

lemma sorts_as_date:
  "dates_in_order rl \<Longrightarrow> (\<And>x. map_of (put x) k = Some (date_text rl (f x))) \<Longrightarrow> sorts_as put k f"
  by (simp add: sorts_as_def date_text_def dates_in_order_def)

lemma chosen_simps [simp]:
  "chosen (Both p q) r \<longleftrightarrow> chosen p r \<and> chosen q r"
  "chosen (Either p q) r \<longleftrightarrow> chosen p r \<or> chosen q r"
  "chosen (IsNull k) r \<longleftrightarrow> is_null (cell r k)"
  by (auto simp: chosen_def)

named_theorems column_tests \<open>conditions on a column whose value is known\<close>

lemma column_is_known [column_tests]:
  "map_of r k = Some (VText t) \<Longrightarrow> chosen (column_is k s) r \<longleftrightarrow> t = s"
  by (simp add: chosen_def column_is_def compare_def is_null_def)

lemma flag_set [column_tests]:
  "map_of r k = Some (flag b) \<Longrightarrow> chosen (Compare k Equal (VInt 1)) r \<longleftrightarrow> b"
  by (simp add: chosen_def compare_def is_null_def flag_def)

lemma date_compared [column_tests]:
  assumes "dates_in_order rl" and "map_of r k = Some (date_text rl t)"
  shows "chosen (Compare k c (date_text rl now)) r \<longleftrightarrow> holds c t now"
proof -
  have "rw_show_date rl s = rw_show_date rl u \<longleftrightarrow> s = u" for s u
    using assms(1) unfolding dates_in_order_def by (metis order_antisym order_refl)
  then show ?thesis using assms
    by (cases c) (auto simp: chosen_def compare_def is_null_def date_text_def dates_less dates_in_order_def)
qed

lemma null_date [simp]: "\<not> is_null (date_text rl t)" "is_null (opt_date rl v) \<longleftrightarrow> v = None"
  by (auto simp: is_null_def opt_date_def date_text_def split: option.split)

lemma until_passed_known [column_tests]:
  assumes "dates_in_order rl" and "map_of r k = Some (opt_date rl v)"
  shows "chosen (until_passed rl now k) r \<longleftrightarrow> elapsed now v"
proof (cases v)
  case None
  then show ?thesis using assms(2) by (simp add: until_passed_def)
next
  case (Some t)
  then show ?thesis using assms date_compared [OF assms(1), of r k t]
    by (simp add: until_passed_def opt_date_def)
qed

section \<open>The statements and the operations on records\<close>

definition provider_readable :: "row_lib \<Rightarrow> provider \<Rightarrow> bool" where
  "provider_readable rl p \<longleftrightarrow> dates_read_back rl \<and> reads_back rl (strs_json (p_supported_endpoints p))
     \<and> reads_back rl (map_json (p_extra_headers p)) \<and> reads_back rl (map_json (p_endpoint_paths p))
     \<and> reads_back rl (map_json (p_stream_endpoint_paths p))"

definition account_readable :: "row_lib \<Rightarrow> account \<Rightarrow> bool" where
  "account_readable rl a \<longleftrightarrow> dates_read_back rl \<and> reads_back rl (strs_json (a_scopes a))
     \<and> (\<forall>ss. a_supported_endpoints a = Some ss \<longrightarrow> ss \<noteq> [] \<and> reads_back rl (strs_json ss))"

definition session_readable :: "row_lib \<Rightarrow> oauth_session \<Rightarrow> bool" where
  "session_readable rl s \<longleftrightarrow> dates_read_back rl \<and> reads_back rl (strs_json (s_scopes s))"

definition combo_readable :: "row_lib \<Rightarrow> combo \<Rightarrow> bool" where
  "combo_readable rl c \<longleftrightarrow> dates_read_back rl \<and> reads_back rl (strs_json (c_models c))"

definition key_readable :: "row_lib \<Rightarrow> api_key_row \<Rightarrow> bool" where
  "key_readable rl k \<longleftrightarrow> dates_read_back rl \<and> reads_back rl (strs_json (k_allowed_models k))"

interpretation provider_rows: stored_records "provider_row rl" "map_provider rl" id "provider_readable rl" for rl
  by unfold_locales (simp add: provider_readable_def provider_round_trip)

interpretation account_rows: stored_records "account_row rl" "map_account rl" id "account_readable rl" for rl
  by unfold_locales (auto simp: account_readable_def intro!: account_round_trip)

interpretation session_rows: stored_records "session_row rl" "map_session rl" id "session_readable rl" for rl
  by unfold_locales (simp add: session_readable_def session_round_trip)

interpretation combo_rows: stored_records "combo_row rl" "map_combo rl" id "combo_readable rl" for rl
  by unfold_locales (simp add: combo_readable_def combo_round_trip)

interpretation key_rows: stored_records "key_row rl" "map_key rl" "\<lambda>k. k\<lparr>k_key_hash := []\<rparr>" "key_readable rl" for rl
  by unfold_locales (simp add: key_readable_def key_round_trip)

interpretation entry_rows: stored_records "cache_row_of rl" "map_cache_entry rl"
    "\<lambda>r. (cache_entry.truncate r, ce_hit_count r)" "entry_readable rl" for rl
  by unfold_locales (rule cache_round_trip)

text \<open>Each statement selects the rows of the records that its operation lists, in that order.\<close>

lemma selectable_account_rows:
  assumes "dates_in_order rl"
  shows "select_selectable_accounts rl now i (map (account_row rl) (db_accounts d))
       = map (account_row rl) (list_selectable_provider_accounts now i d)"
  unfolding select_selectable_accounts_def select_rows_def list_selectable_provider_accounts_def chosen_rows
  by (rule order_ascending [OF sorts_as_int, OF account_row_get(14)],
      rule order_ascending [OF sorts_as_date [OF assms], OF account_row_get(28)])
    (simp add: column_tests account_row_get assms account_selectable_def conj_assoc)

lemma account_rows_of:
  assumes "dates_in_order rl"
  shows "select_accounts_of i (map (account_row rl) (db_accounts d)) = map (account_row rl) (list_provider_accounts i d)"
  unfolding select_accounts_of_def select_rows_def list_provider_accounts_def chosen_rows
  by (rule order_ascending [OF sorts_as_int, OF account_row_get(14)],
      rule order_ascending [OF sorts_as_date [OF assms], OF account_row_get(28)])
    (simp add: column_tests account_row_get)

lemma connection_rows:
  "select_connections (map (\<lambda>p. provider_row rl (fst p)) (db_providers d))
     = map (provider_row rl) (list_provider_connections d)"
proof -
  have "order_rows [Ascending ''priority'', Ascending ''provider''] (map (provider_row rl) ps)
      = map (provider_row rl) (sort_key p_priority (sort_key p_provider ps))" for ps
    by (rule order_ascending [OF sorts_as_int, OF provider_row_get(14)],
        rule order_ascending [OF sorts_as_text, OF provider_row_get(2)]) simp
  from this [of "map fst (db_providers d)"] show ?thesis
    by (simp add: select_connections_def list_provider_connections_def comp_def del: order_rows.simps)
qed

lemma connection_rows_by_provider:
  assumes "dates_in_order rl"
  shows "select_connections_by_provider name (map (\<lambda>p. provider_row rl (fst p)) (db_providers d))
     = map (provider_row rl) (list_provider_connections_by_provider name d)"
proof -
  have "select_connections_by_provider name (map (provider_row rl) ps)
      = map (provider_row rl) (sort_key p_priority (sort_key p_created_at (filter (\<lambda>p. p_provider p = name) ps)))" for ps
    unfolding select_connections_by_provider_def select_rows_def chosen_rows
    by (rule order_ascending [OF sorts_as_int, OF provider_row_get(14)],
        rule order_ascending [OF sorts_as_date [OF assms], OF provider_row_get(28)])
      (simp add: column_tests provider_row_get)
  from this [of "map fst (db_providers d)"] show ?thesis
    by (simp add: list_provider_connections_by_provider_def comp_def)
qed

lemma session_rows_of:
  assumes "dates_in_order rl"
  shows "select_sessions_of i (map (session_row rl) (db_sessions d)) = map (session_row rl) (list_oauth_sessions i d)"
  unfolding select_sessions_of_def select_rows_def list_oauth_sessions_def chosen_rows
  by (rule order_descending [OF sorts_as_date [OF assms], OF session_row_get(9)])
    (simp add: column_tests session_row_get)

lemma combo_rows_all: "select_combos (map (combo_row rl) (db_combos d)) = map (combo_row rl) (list_combos d)"
  unfolding select_combos_def list_combos_def
  by (rule order_ascending [OF sorts_as_text, OF combo_row_get(2)]) simp

lemma old_session_rows:
  assumes "dates_in_order rl"
  shows "delete_old_sessions rl now (map (session_row rl) (db_sessions d))
     = (case delete_expired_oauth_sessions now d of (n, d') \<Rightarrow> (n, map (session_row rl) (db_sessions d')))"
  by (simp add: delete_old_sessions_def delete_rows_def delete_expired_oauth_sessions_def filter_map comp_def
      date_compared [OF assms, OF session_row_get(10)])

lemma session_row_consumed:
  "assign ''consumed_at'' (date_text rl now) (session_row rl s) = session_row rl (s\<lparr>s_consumed_at := Some now\<rparr>)"
  by (simp add: assign_def session_row_def opt_date_def)

text \<open>Identifiers are unique, so the statement reaches one row at most.\<close>

lemma consumed_session_rows:
  assumes "distinct (map s_id (db_sessions d))"
  shows "consume_session rl now i (map (session_row rl) (db_sessions d))
     = (case mark_oauth_session_consumed now i d of (done, d') \<Rightarrow>
          (if done then 1 else 0, map (session_row rl) (db_sessions d')))"
proof -
  have chosen: "chosen (Both (column_is ''id'' i) (IsNull ''consumed_at'')) (session_row rl s) \<longleftrightarrow> unconsumed i s" for s
    by (simp add: column_tests session_row_get unconsumed_def)
  have "length (filter (unconsumed i) ss) = (if list_ex (unconsumed i) ss then 1 else 0)"
    if "distinct (map s_id ss)" for ss
    using that
  proof (induction ss)
    case (Cons s ss)
    have "unconsumed i s \<Longrightarrow> filter (unconsumed i) ss = []"
      using Cons.prems by (auto simp: unconsumed_def filter_empty_conv image_iff)
    then show ?case using Cons by (auto simp: list_ex_iff filter_empty_conv)
  qed simp
  then show ?thesis using assms
    by (simp add: consume_session_def update_where_def mark_oauth_session_consumed_def update_rows_def
        filter_map comp_def chosen session_row_consumed del: chosen_simps)
qed

text \<open>The cache holds one entry per key, under its key.\<close>

definition cache_keyed :: "db \<Rightarrow> bool" where
  "cache_keyed d \<longleftrightarrow> obj_sorted (db_cache d) \<and> list_all (\<lambda>(k, r). ce_cache_key r = k) (db_cache d)"

definition cache_rows :: "row_lib \<Rightarrow> db \<Rightarrow> row list" where
  "cache_rows rl d = map (\<lambda>kr. cache_row_of rl (snd kr)) (db_cache d)"

lemma filter_keyed:
  assumes "distinct (map fst kvs)"
  shows "filter (\<lambda>kv. fst kv = k \<and> P (snd kv)) kvs
     = (case opt_filter P (map_of kvs k) of None \<Rightarrow> [] | Some v \<Rightarrow> [(k, v)])"
  using assms
proof (induction kvs)
  case (Cons kv kvs)
  have "filter (\<lambda>kv. fst kv = fst x \<and> P (snd kv)) kvs = []" if "fst x \<notin> set (map fst kvs)" for x :: "'a \<times> 'b"
    using that by (auto simp: filter_empty_conv image_iff)
  then show ?case using Cons by (cases kv) auto
qed simp

lemma cache_entry_rows:
  assumes "dates_in_order rl" and "cache_keyed d"
  shows "select_cache_entry rl now k namespace hash (cache_rows rl d)
     = map (cache_row_of rl) (case fst (find_response_cache_entry now k namespace hash d) of None \<Rightarrow> [] | Some r \<Rightarrow> [r])"
proof -
  let ?fresh = "\<lambda>r. ce_namespace r = namespace \<and> ce_request_body_hash r = hash \<and> now < ce_expires_at r"
  have "select_cache_entry rl now k namespace hash (cache_rows rl d)
      = map (\<lambda>kr. cache_row_of rl (snd kr)) (filter (\<lambda>kr. ce_cache_key (snd kr) = k \<and> ?fresh (snd kr)) (db_cache d))"
    by (simp add: select_cache_entry_def select_rows_def cache_rows_def chosen_rows column_tests
        cache_row_get assms(1) conj_assoc)
  also have "filter (\<lambda>kr. ce_cache_key (snd kr) = k \<and> ?fresh (snd kr)) (db_cache d)
      = filter (\<lambda>kr. fst kr = k \<and> ?fresh (snd kr)) (db_cache d)"
    by (rule filter_cong) (use assms(2) in \<open>auto simp: cache_keyed_def list_all_iff\<close>)
  also have "\<dots> = (case opt_filter ?fresh (map_of (db_cache d) k) of None \<Rightarrow> [] | Some r \<Rightarrow> [(k, r)])"
    by (rule filter_keyed) (use assms(2) in \<open>simp add: cache_keyed_def obj_sorted_def strict_sorted_iff\<close>)
  finally show ?thesis
    by (cases "opt_filter ?fresh (map_of (db_cache d) k)") (simp_all add: find_response_cache_entry_def obj_get_def)
qed

lemma purged_cache_rows:
  assumes "dates_in_order rl"
  shows "purge_cache_rows rl now (cache_rows rl d)
     = (case purge_expired_response_cache_entries now d of (n, d') \<Rightarrow> (n, cache_rows rl d'))"
  by (simp add: purge_cache_rows_def delete_rows_def purge_expired_response_cache_entries_def cache_rows_def
      filter_map comp_def case_prod_unfold date_compared [OF assms, OF cache_row_get(15)])

lemma key_rows_by_hash:
  "select_key_by_hash hash (map (key_row rl) (db_api_keys d)) =
     map (key_row rl) (filter (\<lambda>k. k_key_hash k = hash) (db_api_keys d))"
  by (simp add: select_key_by_hash_def select_rows_def chosen_rows column_tests key_row_get)

text \<open>Every statement of the repository keeps the cache that way.\<close>

lemma cache_keyed_filter:
  "cache_keyed d \<Longrightarrow> cache_keyed (d\<lparr>db_cache := filter P (db_cache d)\<rparr>)"
  by (auto simp: cache_keyed_def obj_sorted_def list_all_iff sorted_wrt_map sorted_wrt_filter)

lemma cache_keyed_insert:
  "cache_keyed d \<Longrightarrow> ce_cache_key r = k \<Longrightarrow> cache_keyed (d\<lparr>db_cache := obj_insert k r (db_cache d)\<rparr>)"
  using obj_insert_set [of k r "db_cache d"]
  by (fastforce simp: cache_keyed_def obj_sorted_insert list_all_iff)

lemma cache_keyed_same: "cache_keyed d \<Longrightarrow> db_cache d' = db_cache d \<Longrightarrow> cache_keyed d'"
  by (simp add: cache_keyed_def)

lemma cache_keyed_cleared:
  assumes "cache_keyed d" and "db_cache d' = update_rows P clear_cache (filter Q (db_cache d))"
  shows "cache_keyed d'"
proof -
  have "map fst (db_cache d') = map fst (filter Q (db_cache d))"
    unfolding assms(2) by (rule map_update_rows) (simp add: clear_cache_def)
  moreover have "list_all (\<lambda>(k, r). ce_cache_key r = k) (db_cache d')"
    using assms by (auto simp: cache_keyed_def update_rows_def list_all_iff clear_cache_def)
  moreover have "obj_sorted (filter Q (db_cache d))"
    using cache_keyed_filter [OF assms(1)] by (simp add: cache_keyed_def)
  ultimately show ?thesis by (simp add: cache_keyed_def obj_sorted_def)
qed

lemma cache_keyed_found:
  assumes "cache_keyed d" and "find_response_cache_entry now k ns h d = (r, d')"
  shows "cache_keyed d'"
proof -
  have "ce_cache_key x = k" if "obj_get k (db_cache d) = Some x" for x
    using assms(1) map_of_SomeD [of "db_cache d" k x] that
    by (auto simp: cache_keyed_def obj_get_def list_all_iff)
  then show ?thesis using assms
    by (auto simp: find_response_cache_entry_def intro!: cache_keyed_insert split: option.splits)
qed

lemmas keeps_cache = update_provider_connection_base_url_def update_provider_connection_name_def
  mark_provider_failure_def mark_provider_success_def create_provider_connection_def
  create_provider_account_def update_provider_account_proxy_def update_provider_account_api_key_def
  update_provider_account_oauth_credentials_def record_provider_account_refresh_error_def
  set_provider_account_enabled_def mark_provider_account_failure_def mark_provider_account_success_def
  create_oauth_session_def mark_oauth_session_consumed_def delete_oauth_session_def
  delete_expired_oauth_sessions_def create_combo_def upsert_alias_def delete_alias_def set_setting_def
  touch_api_key_usage_def create_api_key_def revoke_api_key_def insert_request_debug_log_def
  insert_response_debug_log_def insert_request_log_def finalize_stream_request_log_def
  clear_request_logs_def update_provider_rows_def update_account_rows_def update_account_def

lemma step_keeps_cache_keyed: "db_step w w' \<Longrightarrow> cache_keyed (w_db w) \<Longrightarrow> cache_keyed (w_db w')"
proof (induction rule: db_step.induct)
  case (step_delete_provider i d b d' u)
  then show ?case
    by (auto simp: delete_provider_connection_def Let_def drop_connection_def intro: cache_keyed_cleared)
next
  case (step_delete_account i d b d' u)
  then show ?case
    using cache_keyed_cleared [of d d' _ "\<lambda>r. True"]
    by (auto simp: delete_provider_account_def drop_account_def)
next
  case (step_cache_find now k ns h d r d' u)
  then show ?case using cache_keyed_found by simp
next
  case (step_cache_upsert now conflict e d d' u)
  then show ?case
    by (auto simp: upsert_response_cache_entry_def store_cache_row_def Let_def cache_entry.defs
        intro!: cache_keyed_insert split: if_splits option.splits)
next
  case (step_cache_purge now d n d' u)
  then show ?case
    by (auto simp: purge_expired_response_cache_entries_def intro: cache_keyed_filter)
qed (auto simp: keeps_cache Let_def rbind_Inr elim: cache_keyed_same split: if_splits sum.splits option.splits prod.splits)

end
