(* ===== verification/Route_Logs.thy ===== *)
theory Route_Logs
  imports Raw_Proxy Db_Invariant
begin

text \<open>
  The debug logs of a routed call (\<open>RouterService::route\<close> of \<open>src/service.rs\<close>). Every target that is
  prepared starts a task that stores the body sent to it; its answer starts at most one more, for
  the body that came back or for the stream that is still to come. The loops here are those of
  \<open>Route\<close> with the tasks beside them; the tasks run detached, so the database of a call does not
  show what they write.
\<close>

section \<open>The tasks\<close>

text \<open>A stream's log is written from snapshots of its buffer, taken after the call has returned.\<close>

record stream_task =
  sk_provider_id :: string
  sk_account_id :: "string option"
  sk_model :: string
  sk_seq :: int
  sk_status :: int
  sk_endpoint :: endpoint
  sk_codex :: bool

datatype debug_task = BodySent new_request_debug_log | BodyGot new_response_debug_log
  | StreamTee string stream_task

record debug_tasks =
  lo_seq :: int
  lo_tasks :: "debug_task list"

definition leg_sent :: "'a codec_scheme \<Rightarrow> call \<Rightarrow> leg \<Rightarrow> int \<Rightarrow> prepared_request \<Rightarrow> debug_task" where
  "leg_sent c cl lg seq prep = BodySent
     \<lparr>dq_request_id = cl_request_id cl, dq_provider_id = p_id (lg_provider lg),
      dq_provider_account_id = map_option a_id (lg_account lg), dq_model = lg_candidate lg,
      dq_endpoint = endpoint_as_str (cl_endpoint cl), dq_sequence_no = seq,
      dq_raw_body = json_print c (request_body prep)\<rparr>"

definition leg_got ::
  "'a codec_scheme \<Rightarrow> call \<Rightarrow> leg \<Rightarrow> int \<Rightarrow> nat \<Rightarrow> string \<Rightarrow> json \<Rightarrow> endpoint \<Rightarrow> debug_task" where
  "leg_got c cl lg seq status raw body e = BodyGot
     (build_response_debug_log c (cl_request_id cl) (p_id (lg_provider lg))
        (map_option a_id (lg_account lg)) (lg_candidate lg) seq (int status) raw body e
        (is_codex_provider (lg_provider lg)))"

definition leg_tee :: "call \<Rightarrow> leg \<Rightarrow> int \<Rightarrow> nat \<Rightarrow> debug_task" where
  "leg_tee cl lg seq status = StreamTee (cl_request_id cl)
     \<lparr>sk_provider_id = p_id (lg_provider lg), sk_account_id = map_option a_id (lg_account lg),
      sk_model = lg_candidate lg, sk_seq = seq, sk_status = int status,
      sk_endpoint = cl_endpoint cl, sk_codex = is_codex_provider (lg_provider lg)\<rparr>"

section \<open>What an answer starts\<close>

text \<open>A body that cannot be read or adapted ends the call before it is logged.\<close>

definition codex_task ::
  "'c service \<Rightarrow> call \<Rightarrow> leg \<Rightarrow> int \<Rightarrow> streaming_response \<Rightarrow> router \<Rightarrow> debug_task option" where
  "codex_task sv cl lg seq s st =
     (case rbind (collect_stream (sv_lib sv) (watched sv s st) []) (\<lambda>transcript.
           rbind (adapt_responses_success_body (sv_lib sv) transcript (nr_stream (cl_request cl)))
             (\<lambda>(body, is_stream). Inr (transcript, body))) of
        Inl err \<Rightarrow> None
      | Inr (transcript, body) \<Rightarrow>
          Some (leg_got (sv_lib sv) cl lg seq (st_status s) transcript body (lg_upstream lg)))"

text \<open>A refused answer that lets the next target try is not logged.\<close>

definition buffered_task ::
  "'a codec_scheme \<Rightarrow> call \<Rightarrow> leg \<Rightarrow> int \<Rightarrow> provider_response \<Rightarrow> debug_task option" where
  "buffered_task c cl lg seq r =
     (if 200 \<le> r_status r \<and> r_status r < 300 then
        (case routed_body c (cl_endpoint cl) (lg_source lg) (lg_target lg)
                (nr_stream (cl_request cl)) (r_is_stream r) (r_body r) of
           Inl err \<Rightarrow> None
         | Inr (body, is_stream) \<Rightarrow>
             Some (leg_got c cl lg seq (r_status r) (r_body r) body
               (if responses_stream_error_message body = None then lg_upstream lg else cl_endpoint cl)))
      else if fallback_error (axum_status (r_status r)) (r_body r) then None
      else Some (leg_got c cl lg seq (r_status r) (r_body r) (parse_or c (raw_json (r_body r)) (r_body r))
             (cl_endpoint cl)))"

definition outcome_task ::
  "'c service \<Rightarrow> call \<Rightarrow> leg \<Rightarrow> int \<Rightarrow> retry_outcome \<Rightarrow> router \<Rightarrow> debug_task option" where
  "outcome_task sv cl lg seq out st =
     (case ro_result out of
        Streaming s \<Rightarrow>
          (if lg_upstream lg = Responses \<and> is_codex_provider (lg_provider lg)
              \<and> \<not> nr_stream (cl_request cl)
           then codex_task sv cl lg seq s st
           else Some (leg_tee cl lg seq (st_status s)))
      | Buffered r \<Rightarrow> buffered_task (sv_lib sv) cl lg seq r)"

section \<open>The loops with their tasks\<close>

definition add_round :: "debug_task list \<Rightarrow> debug_tasks \<Rightarrow> debug_tasks" where
  "add_round ts lo = \<lparr>lo_seq = lo_seq lo + 1, lo_tasks = lo_tasks lo @ ts\<rparr>"

definition option_list :: "'v option \<Rightarrow> 'v list" where
  "option_list v = (case v of None \<Rightarrow> [] | Some x \<Rightarrow> [x])"

definition try_target_logged ::
  "'c service \<Rightarrow> call \<Rightarrow> leg \<Rightarrow> string \<Rightarrow> json \<Rightarrow> exec_target \<Rightarrow> attempt list \<Rightarrow> router \<Rightarrow> debug_tasks
     \<Rightarrow> (flow \<times> router) outcome \<times> debug_tasks" where
  "try_target_logged sv cl lg0 raw_model body target tried st lo =
     (let (resolved, acc) = target; lg = lg0\<lparr>lg_account := acc\<rparr>; ev = sv_env sv; seq = lo_seq lo + 1 in
      case prepare_leg sv cl lg raw_model body resolved of
        None \<Rightarrow> (Panics, lo)
      | Some (prep, pass) \<Rightarrow>
          (let sent = leg_sent (sv_lib sv) cl lg seq prep; plan = plan_cache sv cl lg prep pass st in
           case read_cache sv cl plan st of
             (Some row, st) \<Rightarrow>
               (Done (Return (Inr (cached_answer (sv_lib sv) cl lg row tried)), st), add_round [sent] lo)
           | (None, st) \<Rightarrow>
               (case execute_with_oauth_retry ev (lg_provider lg) resolved acc (lg_upstream lg)
                       raw_model prep pass (Option.bind acc a_proxy_url) st of
                  None \<Rightarrow> (Runs_on, add_round [sent] lo)
                | Some (Inl err, st) \<Rightarrow>
                    (Done (Continue (tried @ [new_attempt lg 502 (error_text err)]),
                           mark_leg_failure ev lg (error_text err) st), add_round [sent] lo)
                | Some (Inr out, st) \<Rightarrow>
                    (Done (handle_outcome sv cl lg plan tried out st),
                     add_round (sent # option_list (outcome_task sv cl lg seq out st)) lo))))"

fun each_logged ::
  "('x \<Rightarrow> attempt list \<Rightarrow> router \<Rightarrow> debug_tasks \<Rightarrow> (flow \<times> router) outcome \<times> debug_tasks) \<Rightarrow> 'x list
     \<Rightarrow> attempt list \<Rightarrow> router \<Rightarrow> debug_tasks \<Rightarrow> (flow \<times> router) outcome \<times> debug_tasks" where
  "each_logged f [] tried st lo = (Done (Continue tried, st), lo)"
| "each_logged f (x # xs) tried st lo =
     (case f x tried st lo of
        (Done (Continue tried, st), lo) \<Rightarrow> each_logged f xs tried st lo
      | r \<Rightarrow> r)"

definition try_provider_logged ::
  "'c service \<Rightarrow> call \<Rightarrow> string \<Rightarrow> string \<Rightarrow> provider \<Rightarrow> attempt list \<Rightarrow> router \<Rightarrow> debug_tasks
     \<Rightarrow> (flow \<times> router) outcome \<times> debug_tasks" where
  "try_provider_logged sv cl candidate raw_model p tried st lo =
     (let nr = cl_request cl; lib = sv_lib sv;
          source = detect_source (cl_endpoint cl) (nr_body nr);
          target = from_provider p;
          upstream = upstream_endpoint_for_provider (cl_endpoint cl) target;
          lg = \<lparr>lg_candidate = candidate, lg_provider = p, lg_account = None, lg_source = source,
                lg_target = target, lg_upstream = upstream\<rparr>
      in case (if source \<noteq> target
               then translate_request lib source target raw_model (nr_body nr) (nr_stream nr)
               else Inr (nr_body nr)) of
           Inl err \<Rightarrow> (Done (Return (Inl err), st), lo)
         | Inr translated \<Rightarrow>
             (case execution_targets (sv_env sv) p upstream st of
                (Inl err, st) \<Rightarrow> (Done (Return (Inl err), st), lo)
              | (Inr targets, st) \<Rightarrow>
                  each_logged (try_target_logged sv cl lg raw_model
                          (maybe_adapt_codex_responses_request lib upstream p translated (nr_body nr)))
                    targets tried st lo))"

definition try_candidate_logged ::
  "'c service \<Rightarrow> call \<Rightarrow> provider list \<Rightarrow> string \<Rightarrow> attempt list \<Rightarrow> router \<Rightarrow> debug_tasks
     \<Rightarrow> (flow \<times> router) outcome \<times> debug_tasks" where
  "try_candidate_logged sv cl providers candidate tried st lo =
     (case split_model candidate of
        Inl err \<Rightarrow> (Done (Return (Inl err), st), lo)
      | Inr (model_prefix, raw_model) \<Rightarrow>
          (case order_providers (rt_tracker st) (matching_providers providers model_prefix raw_model) of
             [] \<Rightarrow> (Done (Continue (tried @ [unresolved_attempt (cl_endpoint cl) model_prefix raw_model]), st), lo)
           | p # ps \<Rightarrow> each_logged (try_provider_logged sv cl candidate raw_model) (p # ps) tried st lo))"

definition route_logged ::
  "'c service \<Rightarrow> endpoint \<Rightarrow> json \<Rightarrow> string option \<Rightarrow> headers option \<Rightarrow> string \<Rightarrow> cache_ctx \<Rightarrow> router
     \<Rightarrow> (routed app_result \<times> router) outcome \<times> debug_tasks" where
  "route_logged sv e payload suff pass request_id ctx st =
     (let lo = \<lparr>lo_seq = 0, lo_tasks = []\<rparr> in
      case normalize_request (sv_lib sv) e payload of
        Inl err \<Rightarrow> (Done (Inl err, st), lo)
      | Inr nr \<Rightarrow>
          (let resolved = resolve_alias (nr_model nr) (rt_db st);
               (candidates, rr) = expand_candidates e resolved (rt_db st) (rt_rr st);
               st = st\<lparr>rt_rr := rr\<rparr>
           in case candidates of
                Inl err \<Rightarrow> (Done (Inl err, st), lo)
              | Inr candidates \<Rightarrow>
                  (let providers = available_providers (now_of (sv_env sv) st) e (rt_db st);
                       cl = \<lparr>cl_endpoint = e, cl_request = nr, cl_resolved = resolved,
                             cl_suffix = suff, cl_pass = pass, cl_request_id = request_id,
                             cl_cache = ctx\<rparr>
                   in if providers = [] then (Done (Inl (no_provider e), st), lo)
                      else (case each_logged (try_candidate_logged sv cl providers) candidates [] st lo of
                              (Runs_on, lo) \<Rightarrow> (Runs_on, lo)
                            | (Panics, lo) \<Rightarrow> (Panics, lo)
                            | (Done (Return r, st), lo) \<Rightarrow> (Done (r, st), lo)
                            | (Done (Continue tried, st), lo) \<Rightarrow>
                                (Done (Inl (final_error (sv_lib sv) e tried), st), lo)))))"

section \<open>The tasks are beside the call\<close>

text \<open>Leaving the tasks out gives the loops of \<open>Route\<close>.\<close>

lemma each_logged_erased:
  assumes "\<And>x tried st lo. fst (f x tried st lo) = g x tried st"
  shows "fst (each_logged f xs tried st lo) = each g xs tried st"
proof (induction xs arbitrary: tried st lo)
  case (Cons x xs)
  obtain r lo' where r: "f x tried st lo = (r, lo')" by (cases "f x tried st lo")
  then have "g x tried st = r" using assms [of x tried st lo] by simp
  then show ?case using Cons r by (auto split: outcome.split flow.split prod.split)
qed simp

lemma try_target_erased: "fst (try_target_logged sv cl lg raw body target tried st lo) = try_target sv cl lg raw body target tried st"
  by (simp add: try_target_logged_def try_target_def Let_def split: option.split prod.split sum.split)

lemma try_provider_erased: "fst (try_provider_logged sv cl cand raw p tried st lo) = try_provider sv cl cand raw p tried st"
  by (simp add: try_provider_logged_def try_provider_def Let_def each_logged_erased [OF try_target_erased]
      split: prod.split sum.split)

lemma try_candidate_erased: "fst (try_candidate_logged sv cl ps cand tried st lo) = try_candidate sv cl ps cand tried st"
proof -
  have "fst (each_logged (try_provider_logged sv cl cand raw) xs tried st lo)
      = each (try_provider sv cl cand raw) xs tried st" for raw xs
    by (rule each_logged_erased) (rule try_provider_erased)
  then show ?thesis
    by (simp add: try_candidate_logged_def try_candidate_def split: prod.split sum.split list.split
        del: each_logged.simps each.simps)
qed

lemma route_erased: "fst (route_logged sv e payload suff pass rid ctx st) = route sv e payload suff pass rid ctx st"
proof -
  have each: "each (try_candidate sv cl ps) cs tried st = fst (each_logged (try_candidate_logged sv cl ps) cs tried st lo)"
    for cl ps cs tried st lo
    by (rule each_logged_erased [OF try_candidate_erased, symmetric])
  show ?thesis
    unfolding route_logged_def route_def Let_def
      each [where lo = "\<lparr>lo_seq = 0, lo_tasks = []\<rparr>"]
    by (auto split: sum.split prod.split outcome.split flow.split)
qed

section \<open>Rounds\<close>

text \<open>
  The tasks come in rounds, one per target that was prepared: the body sent, and perhaps what came
  back, under the same number and for the same connection, account and model.
\<close>

definition key_of :: "debug_task \<Rightarrow> string \<times> int \<times> string \<times> string option \<times> string" where
  "key_of t =
     (case t of
        BodySent q \<Rightarrow> (dq_request_id q, dq_sequence_no q, dq_provider_id q, dq_provider_account_id q, dq_model q)
      | BodyGot q \<Rightarrow> (dr_request_id q, dr_sequence_no q, dr_provider_id q, dr_provider_account_id q, dr_model q)
      | StreamTee r k \<Rightarrow> (r, sk_seq k, sk_provider_id k, sk_account_id k, sk_model k))"

definition is_sent :: "debug_task \<Rightarrow> bool" where
  "is_sent t \<longleftrightarrow> (case t of BodySent q \<Rightarrow> True | x \<Rightarrow> False)"

definition round_of :: "string \<Rightarrow> int \<Rightarrow> debug_task list \<Rightarrow> bool" where
  "round_of rid n ts \<longleftrightarrow> (\<exists>sent got. ts = sent # option_list got \<and> is_sent sent
     \<and> fst (key_of sent) = rid \<and> fst (snd (key_of sent)) = n
     \<and> (\<forall>t. got = Some t \<longrightarrow> \<not> is_sent t \<and> key_of t = key_of sent))"

inductive logs_on :: "string \<Rightarrow> debug_tasks \<Rightarrow> debug_tasks \<Rightarrow> bool" for rid where
  logs_nothing: "logs_on rid lo lo"
| logs_round: "logs_on rid lo lo' \<Longrightarrow> round_of rid (lo_seq lo' + 1) ts \<Longrightarrow> logs_on rid lo (add_round ts lo')"

lemma logs_on_trans: "logs_on rid lo' lo'' \<Longrightarrow> logs_on rid lo lo' \<Longrightarrow> logs_on rid lo lo''"
  by (induction rule: logs_on.induct) (auto intro: logs_on.intros)

lemma logs_on_rounds:
  assumes "logs_on rid lo lo'"
  shows "\<exists>rs. lo_tasks lo' = lo_tasks lo @ concat rs \<and> lo_seq lo' = lo_seq lo + int (length rs)
     \<and> (\<forall>i < length rs. round_of rid (lo_seq lo + 1 + int i) (rs ! i))"
  using assms
proof (induction rule: logs_on.induct)
  case (logs_nothing lo)
  show ?case by (rule exI [of _ "[]"]) simp
next
  case (logs_round lo lo' ts)
  then obtain rs where rs: "lo_tasks lo' = lo_tasks lo @ concat rs" "lo_seq lo' = lo_seq lo + int (length rs)"
    "\<forall>i < length rs. round_of rid (lo_seq lo + 1 + int i) (rs ! i)" by blast
  have "round_of rid (lo_seq lo + 1 + int i) ((rs @ [ts]) ! i)" if "i < length (rs @ [ts])" for i
    using rs logs_round.hyps(2) that by (cases "i < length rs") (auto simp: nth_append less_Suc_eq add_ac)
  then show ?case using rs by (intro exI [of _ "rs @ [ts]"]) (simp add: add_round_def)
qed

text \<open>What the loops need of a step that logs.\<close>

locale logging_step =
  fixes rid :: string
    and f :: "'x \<Rightarrow> attempt list \<Rightarrow> router \<Rightarrow> debug_tasks \<Rightarrow> (flow \<times> router) outcome \<times> debug_tasks"
  assumes logs: "logs_on rid lo (snd (f x tried st lo))"
begin

lemma each_logs: "logs_on rid lo (snd (each_logged f xs tried st lo))"
proof (induction xs arbitrary: tried st lo)
  case (Cons x xs)
  obtain r lo' where r: "f x tried st lo = (r, lo')" by (cases "f x tried st lo")
  have first: "logs_on rid lo lo'" using logs [of lo x tried st] by (simp add: r)
  show ?case
  proof (cases "\<exists>tried' st'. r = Done (Continue tried', st')")
    case True
    then obtain tried' st' where "r = Done (Continue tried', st')" by blast
    then show ?thesis using logs_on_trans [OF Cons.IH first] by (simp add: r)
  next
    case False
    then have "snd (each_logged f (x # xs) tried st lo) = lo'"
      by (simp add: r split: outcome.split flow.split prod.split)
    then show ?thesis using first by simp
  qed
qed (simp add: logs_nothing)

end

lemma outcome_task_key:
  assumes "outcome_task sv cl lg seq out st = Some t"
  shows "\<not> is_sent t" and "key_of t = key_of (leg_sent c cl lg seq prep)"
  using assms
  by (auto simp: outcome_task_def codex_task_def buffered_task_def leg_got_def leg_tee_def leg_sent_def is_sent_def
      key_of_def build_response_debug_log_def Let_def split: upstream_result.splits if_splits sum.splits prod.splits)

lemma leg_sent_key:
  "is_sent (leg_sent c cl lg n prep)" "fst (key_of (leg_sent c cl lg n prep)) = cl_request_id cl"
  "fst (snd (key_of (leg_sent c cl lg n prep))) = n"
  by (simp_all add: leg_sent_def is_sent_def key_of_def)

lemma sent_round: "round_of (cl_request_id cl) n [leg_sent c cl lg n prep]"
  unfolding round_of_def
  by (intro exI [of _ "leg_sent c cl lg n prep"] exI [of _ None]) (simp add: leg_sent_key option_list_def)

lemma answered_round:
  "round_of (cl_request_id cl) n (leg_sent c cl lg n prep # option_list (outcome_task sv cl lg n out st))"
  unfolding round_of_def
  by (intro exI [of _ "leg_sent c cl lg n prep"] exI [of _ "outcome_task sv cl lg n out st"])
    (auto simp: leg_sent_key dest: outcome_task_key)

lemma add_first_round: "round_of rid (lo_seq lo + 1) ts \<Longrightarrow> logs_on rid lo (add_round ts lo)"
  by (rule logs_round [OF logs_nothing])

interpretation target_logging: logging_step "cl_request_id cl" "try_target_logged sv cl lg raw body" for sv cl lg raw body
proof
  fix lo target tried st
  show "logs_on (cl_request_id cl) lo (snd (try_target_logged sv cl lg raw body target tried st lo))"
    by (auto simp: try_target_logged_def Let_def
        intro: logs_nothing add_first_round [OF sent_round] add_first_round [OF answered_round]
        split: option.split prod.split sum.split)
qed

interpretation provider_logging: logging_step "cl_request_id cl" "try_provider_logged sv cl cand raw" for sv cl cand raw
  by unfold_locales
    (auto simp: try_provider_logged_def Let_def intro: logs_nothing target_logging.each_logs split: prod.split sum.split)

interpretation candidate_logging: logging_step "cl_request_id cl" "try_candidate_logged sv cl ps" for sv cl ps
  by unfold_locales
    (simp add: try_candidate_logged_def logs_nothing provider_logging.each_logs
      split: prod.split sum.split list.split del: each_logged.simps)

lemma route_logs: "logs_on rid \<lparr>lo_seq = 0, lo_tasks = []\<rparr> (snd (route_logged sv e payload suff pass rid ctx st))"
proof -
  have each: "logs_on rid lo (snd (each_logged (try_candidate_logged sv cl ps) cs tried st lo))"
    if "cl_request_id cl = rid" for cl ps cs tried st lo
    using candidate_logging.each_logs [of cl lo sv ps cs tried st] that by simp
  show ?thesis
    unfolding route_logged_def Let_def
    by (auto simp: logs_nothing split: sum.split prod.split outcome.split flow.split
        dest!: arg_cong [of _ _ snd] intro!: each)
qed

section \<open>Running the tasks\<close>

text \<open>
  A task inserts its row, whenever it runs; an insertion that fails is only reported. The snapshots
  are those of the stream's buffer.
\<close>

definition run_task ::
  "'a codec_scheme \<Rightarrow> timestamp \<Rightarrow> string \<Rightarrow> string \<Rightarrow> string list \<Rightarrow> debug_task \<Rightarrow> db \<Rightarrow> db" where
  "run_task c now fresh conflict snapshots t d =
     (let store = (\<lambda>q. case insert_response_debug_log now fresh conflict q d of
                          Inl e \<Rightarrow> d | Inr (row, d') \<Rightarrow> d')
      in case t of
           BodySent q \<Rightarrow> (case insert_request_debug_log now fresh conflict q d of
                            Inl e \<Rightarrow> d | Inr (row, d') \<Rightarrow> d')
         | BodyGot q \<Rightarrow> store q
         | StreamTee rid k \<Rightarrow>
             (case stream_debug_log c rid (sk_provider_id k) (sk_account_id k) (sk_model k) (sk_seq k)
                     (sk_status k) (sk_endpoint k) (sk_codex k) snapshots of
                None \<Rightarrow> d | Some q \<Rightarrow> store q))"

lemma run_task_step:
  assumes "fresh \<notin> u"
  shows "\<exists>u'. u' \<subseteq> insert fresh u \<and> db_step\<^sup>*\<^sup>* \<lparr>w_used = u, w_db = d\<rparr>
     \<lparr>w_used = u', w_db = run_task c now fresh conflict snapshots t d\<rparr>"
proof (cases "run_task c now fresh conflict snapshots t d = d")
  case True
  then show ?thesis by auto
next
  case False
  then have "(\<exists>q row. insert_request_debug_log now fresh conflict q d
         = Inr (row, run_task c now fresh conflict snapshots t d))
     \<or> (\<exists>q row. insert_response_debug_log now fresh conflict q d
         = Inr (row, run_task c now fresh conflict snapshots t d))"
    by (auto simp: run_task_def Let_def split: debug_task.splits sum.splits prod.splits option.splits)
  then have "db_step \<lparr>w_used = u, w_db = d\<rparr>
      \<lparr>w_used = insert fresh u, w_db = run_task c now fresh conflict snapshots t d\<rparr>"
    using assms by (auto intro: step_request_debug step_response_debug)
  then show ?thesis by blast
qed

end
