(* ===== verification/Jwt.thy ===== *)
theory Jwt
  imports Auth
begin

text \<open>
  The administrator's session tokens (\<open>src/auth/jwt.rs\<close>): the claims that a login signs and the
  check of a cookie. Encoding and decoding belong to the JWT crate and are arguments;
  \<open>with_tokens\<close> is the library of \<open>Auth\<close> with this file in the place of its two arguments.
\<close>

record claims =
  jc_sub :: string
  jc_exp :: u64
  jc_iat :: u64
  jc_jti :: string

text \<open>\<open>jl_decode\<close> reads the clock: it refuses tokens that have expired.\<close>

record jwt_lib =
  jl_encode :: "string \<Rightarrow> claims \<Rightarrow> string + string"
  jl_decode :: "timestamp \<Rightarrow> string \<Rightarrow> string \<Rightarrow> string + claims"

definition token_lifetime :: timestamp where
  "token_lifetime = 24 * 60 * 60 * second"

text \<open>Seconds since the epoch, cast to the unsigned type of the claims.\<close>

definition unix_seconds :: "timestamp \<Rightarrow> u64" where
  "unix_seconds t = of_int (t div second)"

definition create_token :: "jwt_lib \<Rightarrow> timestamp \<Rightarrow> string \<Rightarrow> string \<Rightarrow> string \<Rightarrow> string app_result" where
  "create_token jl now jti secret username =
     (case jl_encode jl secret \<lparr>jc_sub = username, jc_exp = unix_seconds (now + token_lifetime),
             jc_iat = unix_seconds now, jc_jti = jti\<rparr> of
        Inl err \<Rightarrow> Inl (BadRequest (''failed to create token: '' @ err))
      | Inr token \<Rightarrow> Inr token)"

definition verify_token :: "jwt_lib \<Rightarrow> timestamp \<Rightarrow> string \<Rightarrow> string \<Rightarrow> claims app_result" where
  "verify_token jl now secret token =
     (case jl_decode jl now secret token of
        Inl err \<Rightarrow> Inl (BadRequest (''invalid token: '' @ err))
      | Inr c \<Rightarrow> Inr c)"

definition with_tokens :: "jwt_lib \<Rightarrow> timestamp \<Rightarrow> string \<Rightarrow> auth_lib \<Rightarrow> auth_lib" where
  "with_tokens jl now jti lib = lib\<lparr>sign_token := create_token jl now jti,
     check_token := (\<lambda>secret token.
       case verify_token jl now secret token of Inl e \<Rightarrow> None | Inr c \<Rightarrow> Some (jc_sub c))\<rparr>"

section \<open>How long a session lasts\<close>

text \<open>
  What the crate documents: a token is made of base64url texts and dots, and decoding it under its
  secret gives its claims until a minute after their expiry.
\<close>

definition token_char :: "char \<Rightarrow> bool" where
  "token_char c \<longleftrightarrow> 33 \<le> byte c \<and> byte c < 127 \<and> c \<noteq> CHR '';''"

definition tokens_expire :: "jwt_lib \<Rightarrow> bool" where
  "tokens_expire jl \<longleftrightarrow> (\<forall>secret c token now. jl_encode jl secret c = Inr token \<longrightarrow>
     token \<noteq> [] \<and> list_all token_char token
     \<and> (if now div second \<le> uint (jc_exp c) + 60 then jl_decode jl now secret token = Inr c
        else \<exists>err. jl_decode jl now secret token = Inl err))"

lemma drop_leading_visible:
  assumes "list_all (\<lambda>w. w \<noteq> [] \<and> \<not> token_char (hd w)) ws" and "token_char c"
  shows "drop_leading ws (c # s) = c # s"
proof -
  have "\<not> starts_with (c # s) w" if "w \<in> set ws" for w
    using assms that by (cases w) (auto simp: list_all_iff starts_with_iff)
  then have "find (\<lambda>w. w \<noteq> [] \<and> starts_with (c # s) w) ws = None" by (auto simp: find_None_iff)
  then show ?thesis by (simp add: drop_leading.simps [of ws "c # s"])
qed

lemma trim_visible:
  assumes "token_char c" and "token_char x"
  shows "trim (c # s @ [x]) = c # s @ [x]"
proof -
  have "list_all (\<lambda>w. w \<noteq> [] \<and> \<not> token_char (hd w)) white_space"
    and "list_all (\<lambda>w. w \<noteq> [] \<and> \<not> token_char (hd w)) (map rev white_space)" by code_simp+
  then show ?thesis using assms drop_leading_visible
    by (simp add: trim_def trim_start_def trim_end_def)
qed

lemma cookie_carries_token:
  assumes "list_all token_char token" and "token \<noteq> []"
  shows "extract_jwt_cookie [(''cookie'', ''kou_auth='' @ token)] = Some token"
proof -
  obtain t x where token: "token = t @ [x]" using assms(2) by (metis rev_exhaust)
  have x: "token_char x" using assms(1) by (simp add: token)
  have "token_char CHR ''k''" by code_simp
  from trim_visible [OF this x, of "''ou_auth='' @ t"]
  have "trim (''kou_auth='' @ token) = ''kou_auth='' @ token" by (simp add: token)
  moreover have "CHR '';'' \<notin> set (''kou_auth='' @ token)"
  proof -
    have "CHR '';'' \<notin> set ''kou_auth=''" by code_simp
    moreover have "CHR '';'' \<notin> set token"
      using assms(1) unfolding list_all_iff token_char_def by blast
    ultimately show ?thesis unfolding set_append Un_iff by blast
  qed
  then have "split_on CHR '';'' (''kou_auth='' @ token) = [''kou_auth='' @ token]" by (rule split_on_nosep_id)
  moreover have "list_all (\<lambda>c. (32 \<le> byte c \<and> byte c < 127) \<or> byte c = 9) (''kou_auth='' @ token)"
  proof -
    have "list_all (\<lambda>c. 32 \<le> byte c \<and> byte c < 127) ''kou_auth=''" by code_simp
    moreover have "list_all (\<lambda>c. 32 \<le> byte c \<and> byte c < 127) token"
      using assms(1) by (rule list.pred_mono_strong) (simp add: token_char_def)
    ultimately have "list_all (\<lambda>c. 32 \<le> byte c \<and> byte c < 127) (''kou_auth='' @ token)"
      unfolding list_all_append by blast
    then show ?thesis by (rule list.pred_mono_strong) blast
  qed
  then have "header_to_str (''kou_auth='' @ token) = Some (''kou_auth='' @ token)"
    unfolding header_to_str_def by (rule if_P)
  moreover have "strip_prefix ''kou_auth='' (''kou_auth='' @ token) = Some token"
    by (simp only: strip_prefix_Some)
  ultimately show ?thesis
    by (simp only: extract_jwt_cookie_def header_text_def header_map_get_def map_of.simps fun_upd_same
        fst_conv snd_conv bind.bind_lunit first_cookie.simps or_else.simps)
qed

lemma json_with_tokens [simp]: "json_parse (with_tokens jl now jti lib) = json_parse lib"
  by (cases lib) (simp add: with_tokens_def)

lemma fields_with_tokens:
  "check_password (with_tokens jl now jti lib) = check_password lib"
  "sign_token (with_tokens jl now jti lib) = create_token jl now jti"
  by (cases lib, simp add: with_tokens_def)+

lemma settings_with_tokens [simp]:
  "get_jwt_secret (with_tokens jl now jti lib) d = get_jwt_secret lib d"
  "get_setting_string (with_tokens jl now jti lib) k d = get_setting_string lib k d"
  by (simp_all add: get_jwt_secret_def get_setting_string_def cong: option.case_cong)

lemma login_token:
  assumes "auth_login (with_tokens jl now jti lib) password d = Inr cookie"
  shows "\<exists>token secret. get_jwt_secret lib d = Some secret
     \<and> create_token jl now jti secret ''admin'' = Inr token
     \<and> cookie = ''kou_auth='' @ token @ ''; Path=/; HttpOnly; SameSite=Lax; Max-Age=86400''"
  using assms
  by (auto simp: auth_login_def get_jwt_secret_def rbind_Inr with_tokens_def [THEN arg_cong, of sign_token]
      split: sum.splits if_splits)

lemma issued_token:
  assumes "tokens_expire jl" and "create_token jl now jti secret user = Inr token"
    and "0 \<le> now div second" and "now div second + 86400 < 2 ^ 64"
  shows "token \<noteq> [] \<and> list_all token_char token"
    and "check_token (with_tokens jl later jti' lib) secret token \<noteq> None
      \<longleftrightarrow> later div second \<le> now div second + 86460"
proof -
  let ?c = "\<lparr>jc_sub = user, jc_exp = unix_seconds (now + token_lifetime),
             jc_iat = unix_seconds now, jc_jti = jti\<rparr>"
  have made: "jl_encode jl secret ?c = Inr token"
    using assms(2) by (simp add: create_token_def split: sum.splits)
  then show "token \<noteq> [] \<and> list_all token_char token"
    using assms(1) unfolding tokens_expire_def by blast
  have "(now + token_lifetime) div second = now div second + 86400"
    by (simp add: token_lifetime_def second_def)
  then have "uint (jc_exp ?c) = now div second + 86400"
    using assms(3,4) by (simp add: unix_seconds_def uint_word_of_int del: of_int_add)
  then have "if later div second \<le> now div second + 86460 then jl_decode jl later secret token = Inr ?c
      else \<exists>err. jl_decode jl later secret token = Inl err"
    using assms(1) made unfolding tokens_expire_def by fastforce
  then show "check_token (with_tokens jl later jti' lib) secret token \<noteq> None
      \<longleftrightarrow> later div second \<le> now div second + 86460"
    by (auto simp: with_tokens_def verify_token_def split: if_splits)
qed

end
