(* ===== verification/Secrecy.thy ===== *)
theory Secrecy
  imports Admin_Facts
begin

text \<open>
  What the management interface lets out of the secrets it keeps. Two databases are alike when
  they differ only in the keys and tokens of accounts and in the code verifiers of OAuth sessions,
  and an account has a usable secret in the one when it has in the other. A request is blind when
  it answers the same on databases that are alike, and leaves databases that are alike.
\<close>

section \<open>Lists that look the same\<close>

lemma same_induct [consumes 1, case_names Nil Cons]:
  assumes "map h xs = map h ys" and "P [] []"
    and "\<And>x y xs ys. h x = h y \<Longrightarrow> map h xs = map h ys \<Longrightarrow> P xs ys \<Longrightarrow> P (x # xs) (y # ys)"
  shows "P xs ys"
proof -
  have "length xs = length ys" using assms(1) by (rule map_eq_imp_length_eq)
  then show ?thesis using assms(1) by (induction rule: list_induct2) (auto intro: assms(2,3))
qed

lemma same_filter:
  assumes "map h xs = map h ys" and "\<And>x y. h x = h y \<Longrightarrow> p x = p y"
  shows "map h (filter p xs) = map h (filter p ys)"
  using assms(1) by (induction rule: same_induct) (auto dest: assms(2))

lemma same_update:
  assumes "map h xs = map h ys" and "\<And>x y. h x = h y \<Longrightarrow> p x = p y"
    and "\<And>x y. h x = h y \<Longrightarrow> h (f x) = h (f y)"
  shows "map h (update_rows p f xs) = map h (update_rows p f ys)"
  using assms(1)
  by (induction rule: same_induct) (auto simp: update_rows_def dest: assms(2) intro: assms(3))

lemma same_insort:
  assumes "map h xs = map h ys" and "h x = h y" and "\<And>x y. h x = h y \<Longrightarrow> k x = k y"
  shows "map h (insort_key k x xs) = map h (insort_key k y ys)"
  using assms(1)
proof (induction rule: same_induct)
  case (Cons a b as bs)
  have "k x = k y" and "k a = k b" using assms(2) Cons.hyps(1) by (auto intro: assms(3))
  then show ?case using Cons assms(2) by simp
qed (simp add: assms(2))

lemma same_sort:
  assumes "map h xs = map h ys" and "\<And>x y. h x = h y \<Longrightarrow> k x = k y"
  shows "map h (sort_key k xs) = map h (sort_key k ys)"
  using assms(1) by (induction rule: same_induct) (auto intro: same_insort assms(2))

lemma same_find:
  assumes "map h xs = map h ys" and "\<And>x y. h x = h y \<Longrightarrow> p x = p y"
  shows "map_option h (find p xs) = map_option h (find p ys)"
  using assms(1) by (induction rule: same_induct) (auto dest: assms(2))

lemma same_map:
  assumes "map h xs = map h ys" and "\<And>x y. h x = h y \<Longrightarrow> g x = g y"
  shows "map g xs = map g ys"
  using assms(1) by (induction rule: same_induct) (auto intro: assms(2))

lemma same_ex:
  assumes "map h xs = map h ys" and "\<And>x y. h x = h y \<Longrightarrow> p x = p y"
  shows "list_ex p xs = list_ex p ys"
  using assms(1) by (induction rule: same_induct) (auto dest: assms(2))

section \<open>Databases without their secrets\<close>

definition mask_secret :: "string option \<Rightarrow> string option" where
  "mask_secret v = (if has_usable_secret v then Some ''*'' else None)"

definition mask_account :: "account \<Rightarrow> account" where
  "mask_account a = a\<lparr>a_api_key := mask_secret (a_api_key a),
     a_access_token := mask_secret (a_access_token a), a_refresh_token := mask_secret (a_refresh_token a)\<rparr>"

definition mask_session :: "oauth_session \<Rightarrow> oauth_session" where
  "mask_session s = s\<lparr>s_code_verifier := []\<rparr>"

definition masked :: "db \<Rightarrow> db" where
  "masked d = d\<lparr>db_accounts := map mask_account (db_accounts d),
     db_sessions := map mask_session (db_sessions d)\<rparr>"

lemma mask_secret_eq: "mask_secret v = mask_secret w \<longleftrightarrow> has_usable_secret v = has_usable_secret w"
  by (auto simp: mask_secret_def)

lemma mask_account_eq:
  "mask_account a = mask_account b \<longleftrightarrow>
     has_usable_secret (a_api_key a) = has_usable_secret (a_api_key b)
     \<and> has_usable_secret (a_access_token a) = has_usable_secret (a_access_token b)
     \<and> has_usable_secret (a_refresh_token a) = has_usable_secret (a_refresh_token b)
     \<and> a\<lparr>a_api_key := None, a_access_token := None, a_refresh_token := None\<rparr>
       = b\<lparr>a_api_key := None, a_access_token := None, a_refresh_token := None\<rparr>"
  by (cases a; cases b) (auto simp: mask_account_def mask_secret_eq)

lemma mask_account_fields:
  assumes "mask_account a = mask_account b"
  shows "a_id a = a_id b" "a_provider_connection_id a = a_provider_connection_id b"
    "a_created_at a = a_created_at b" "a_priority a = a_priority b"
    "account_view_of a = account_view_of b"
  using assms by (cases a; cases b; simp add: mask_account_eq account_view_of_def)+

lemma mask_session_fields:
  assumes "mask_session s = mask_session t"
  shows "s_id s = s_id t" "s_state s = s_state t" "session_view_of s = session_view_of t"
    "s_provider_account_id s = s_provider_account_id t" "s_expires_at s = s_expires_at t"
    "s_consumed_at s = s_consumed_at t" "s_provider_connection_id s = s_provider_connection_id t"
  using assms by (cases s; cases t; simp add: mask_session_def session_view_of_def)+

lemma masked_iff:
  "masked d = masked e \<longleftrightarrow>
     map mask_account (db_accounts d) = map mask_account (db_accounts e)
     \<and> map mask_session (db_sessions d) = map mask_session (db_sessions e)
     \<and> db_providers d = db_providers e \<and> db_combos d = db_combos e \<and> db_aliases d = db_aliases e
     \<and> db_settings d = db_settings e \<and> db_api_keys d = db_api_keys e \<and> db_cache d = db_cache e
     \<and> db_request_logs d = db_request_logs e \<and> db_request_debug d = db_request_debug e
     \<and> db_response_debug d = db_response_debug e"
  by (cases d; cases e) (auto simp: masked_def)

definition alike :: "db \<times> nat \<Rightarrow> db \<times> nat \<Rightarrow> bool" where
  "alike s t \<longleftrightarrow> masked (fst s) = masked (fst t) \<and> snd s = snd t"

section \<open>Blind requests\<close>

definition answers_alike :: "'a app_result \<times> db \<times> nat \<Rightarrow> 'a app_result \<times> db \<times> nat \<Rightarrow> bool" where
  "answers_alike x y \<longleftrightarrow> fst x = fst y \<and> alike (snd x) (snd y)"

definition blind :: "'a minting \<Rightarrow> bool" where
  "blind m \<longleftrightarrow> (\<forall>s t. alike s t \<longrightarrow> answers_alike (m s) (m t))"

lemma blind_reply_with: "blind (reply_with r)"
  by (simp add: blind_def answers_alike_def reply_with_def)

lemma blind_reading:
  assumes "\<And>d e. masked d = masked e \<Longrightarrow> f d = f e"
  shows "blind (reading f)"
  unfolding blind_def
proof (intro allI impI)
  fix s t :: "db \<times> nat"
  assume "alike s t"
  then show "answers_alike (reading f s) (reading f t)"
    using assms [of "fst s" "fst t"] by (simp add: answers_alike_def alike_def reading_def)
qed

lemma alike_and_then:
  assumes "answers_alike (m s) (m' t)" and "\<And>a. blind (f a)"
  shows "answers_alike (and_then m f s) (and_then m' f t)"
proof -
  obtain r d n where s: "m s = (r, d, n)" by (cases "m s")
  obtain r' d' n' where t: "m' t = (r', d', n')" by (cases "m' t")
  from assms(1) have "r = r'" and rest: "alike (d, n) (d', n')" by (simp_all add: answers_alike_def s t)
  have "answers_alike (f a (d, n)) (f a (d', n'))" for a
    using assms(2) rest unfolding blind_def by blast
  with rest show ?thesis unfolding s t \<open>r = r'\<close> [symmetric] and_then_def
    by (cases r) (simp_all add: answers_alike_def)
qed

lemma blind_and_then: "blind m \<Longrightarrow> (\<And>a. blind (f a)) \<Longrightarrow> blind (and_then m f)"
  unfolding blind_def [of m] blind_def [of "and_then m f"] using alike_and_then by blast

lemma blind_on_db:
  assumes "\<And>d e. masked d = masked e \<Longrightarrow> fst (f d) = fst (f e) \<and> masked (snd (f d)) = masked (snd (f e))"
  shows "blind (on_db f)"
  unfolding blind_def
proof (intro allI impI)
  fix s t :: "db \<times> nat"
  assume "alike s t"
  then show "answers_alike (on_db f s) (on_db f t)"
    using assms [of "fst s" "fst t"]
    by (simp add: answers_alike_def alike_def on_db_def case_prod_unfold Let_def)
qed

lemma blind_drawing:
  assumes "\<And>i d e. masked d = masked e \<Longrightarrow>
      fst (f i d) = fst (f i e) \<and> masked (snd (f i d)) = masked (snd (f i e))"
  shows "blind (drawing fresh f)"
  unfolding blind_def
proof (intro allI impI)
  fix s t :: "db \<times> nat"
  assume "alike s t"
  then show "answers_alike (drawing fresh f s) (drawing fresh f t)"
    using assms [of "fst s" "fst t" "fresh (snd s)"]
    by (simp add: answers_alike_def alike_def drawing_def case_prod_unfold Let_def)
qed

lemma alike_each_in_turn:
  assumes "list_all2 (\<lambda>x y. \<forall>s t. alike s t \<longrightarrow> answers_alike (f x s) (f y t)) xs ys" and "alike s t"
  shows "answers_alike (each_in_turn f xs s) (each_in_turn f ys t)"
  using assms
proof (induction arbitrary: s t rule: list_all2_induct)
  case (Cons x xs y ys)
  then have "answers_alike (f x s) (f y t)" by blast
  then show ?case using Cons.IH
    by (auto simp: answers_alike_def split: prod.splits sum.splits)
qed (simp add: answers_alike_def)

lemma blind_each_in_turn: "(\<And>x. blind (f x)) \<Longrightarrow> blind (each_in_turn f xs)"
  unfolding blind_def by (simp add: alike_each_in_turn list_all2_refl)


section \<open>Operations on databases that are alike\<close>

lemma find_connection_alike:
  "masked d = masked e \<Longrightarrow> find_provider_connection_by_id i d = find_provider_connection_by_id i e"
  by (simp add: masked_iff find_provider_connection_by_id_def)

lemma get_account_alike:
  "masked d = masked e \<Longrightarrow>
     map_option mask_account (get_provider_account i d) = map_option mask_account (get_provider_account i e)"
  unfolding get_provider_account_def masked_iff by (intro same_find) (auto dest: mask_account_fields)

lemma get_account_cases:
  assumes "masked d = masked e"
  obtains "get_provider_account i d = None" and "get_provider_account i e = None"
  | a b where "get_provider_account i d = Some a" and "get_provider_account i e = Some b"
    and "mask_account a = mask_account b"
  using get_account_alike [OF assms, of i]
  by (cases "get_provider_account i d"; cases "get_provider_account i e") auto

lemma list_accounts_alike:
  assumes "masked d = masked e"
  shows "map mask_account (list_provider_accounts i d) = map mask_account (list_provider_accounts i e)"
  using assms unfolding list_provider_accounts_def masked_iff
  by (intro same_sort same_filter) (auto dest: mask_account_fields)

lemma update_account_alike:
  assumes "masked d = masked e" and "\<And>a b. mask_account a = mask_account b \<Longrightarrow> mask_account (f a) = mask_account (f b)"
  shows "fst (update_account i f d) = fst (update_account i f e)
     \<and> masked (snd (update_account i f d)) = masked (snd (update_account i f e))"
proof -
  have "map mask_account (update_rows (\<lambda>a. a_id a = i) f (db_accounts d))
      = map mask_account (update_rows (\<lambda>a. a_id a = i) f (db_accounts e))"
    using assms(1) unfolding masked_iff by (intro same_update assms(2)) (auto dest: mask_account_fields)
  moreover have "(get_provider_account i d = None) = (get_provider_account i e = None)"
    using assms(1) by (rule get_account_cases [where i = i]) simp_all
  ultimately show ?thesis using assms(1)
    by (simp add: update_account_def update_account_rows_def masked_iff)
qed

lemma mask_account_update:
  "mask_account (a\<lparr>a_enabled := b, a_updated_at := now\<rparr>) = (mask_account a)\<lparr>a_enabled := b, a_updated_at := now\<rparr>"
  "mask_account (a\<lparr>a_proxy_url := u, a_updated_at := now\<rparr>) = (mask_account a)\<lparr>a_proxy_url := u, a_updated_at := now\<rparr>"
  by (simp_all add: mask_account_def)

lemma set_enabled_alike:
  "masked d = masked e \<Longrightarrow>
     fst (set_provider_account_enabled now i b d) = fst (set_provider_account_enabled now i b e)
     \<and> masked (snd (set_provider_account_enabled now i b d)) = masked (snd (set_provider_account_enabled now i b e))"
  unfolding set_provider_account_enabled_def
  by (rule update_account_alike) (simp_all only: mask_account_update)

lemma update_proxy_alike:
  assumes "masked d = masked e"
  shows "map_sum id (map_prod id masked) (update_provider_account_proxy now proxy_error i url d)
     = map_sum id (map_prod id masked) (update_provider_account_proxy now proxy_error i url e)"
proof -
  have "fst (update_account i (\<lambda>a. a\<lparr>a_proxy_url := u, a_updated_at := now\<rparr>) d)
        = fst (update_account i (\<lambda>a. a\<lparr>a_proxy_url := u, a_updated_at := now\<rparr>) e)
      \<and> masked (snd (update_account i (\<lambda>a. a\<lparr>a_proxy_url := u, a_updated_at := now\<rparr>) d))
        = masked (snd (update_account i (\<lambda>a. a\<lparr>a_proxy_url := u, a_updated_at := now\<rparr>) e))" for u
    using assms by (rule update_account_alike) (simp only: mask_account_update)
  then show ?thesis
    by (cases "normalize_proxy_url proxy_error url")
      (simp_all add: update_provider_account_proxy_def prod_eq_iff)
qed

lemma mask_clear_session: "mask_session (clear_session s) = clear_session (mask_session s)"
  by (simp add: mask_session_def clear_session_def)

lemma delete_account_alike:
  assumes "masked d = masked e"
  shows "fst (delete_provider_account i d) = fst (delete_provider_account i e)
     \<and> masked (snd (delete_provider_account i d)) = masked (snd (delete_provider_account i e))"
proof -
  have "map mask_account (filter (\<lambda>a. a_id a \<noteq> i) (db_accounts d))
      = map mask_account (filter (\<lambda>a. a_id a \<noteq> i) (db_accounts e))"
    using assms unfolding masked_iff by (intro same_filter) (auto dest: mask_account_fields)
  moreover have "map mask_session (drop_account s_provider_account_id clear_session i (db_sessions d))
      = map mask_session (drop_account s_provider_account_id clear_session i (db_sessions e))"
    using assms unfolding masked_iff drop_account_def
    by (intro same_update) (auto dest: mask_session_fields simp: mask_clear_session)
  moreover have "(get_provider_account i d = None) = (get_provider_account i e = None)"
    using assms by (rule get_account_cases [where i = i]) simp_all
  ultimately show ?thesis using assms by (simp add: delete_provider_account_def masked_iff)
qed

lemma delete_connection_alike:
  assumes "masked d = masked e"
  shows "masked (snd (delete_provider_connection i d)) = masked (snd (delete_provider_connection i e))"
proof -
  let ?gone = "\<lambda>d. map a_id (filter (\<lambda>a. a_provider_connection_id a = i) (db_accounts d))"
  have kept: "map mask_account (filter (\<lambda>a. a_provider_connection_id a \<noteq> i) (db_accounts d))
      = map mask_account (filter (\<lambda>a. a_provider_connection_id a \<noteq> i) (db_accounts e))"
    using assms unfolding masked_iff by (intro same_filter) (auto dest: mask_account_fields)
  have "map mask_account (filter (\<lambda>a. a_provider_connection_id a = i) (db_accounts d))
      = map mask_account (filter (\<lambda>a. a_provider_connection_id a = i) (db_accounts e))"
    using assms unfolding masked_iff by (intro same_filter) (auto dest: mask_account_fields)
  then have gone: "?gone d = ?gone e" by (rule same_map) (auto dest: mask_account_fields)
  have "map mask_session (drop_connection s_provider_connection_id s_provider_account_id clear_session i
          gone (db_sessions d))
      = map mask_session (drop_connection s_provider_connection_id s_provider_account_id clear_session i
          gone (db_sessions e))" for gone
    using assms unfolding masked_iff drop_connection_def
    by (intro same_update same_filter) (auto dest: mask_session_fields simp: mask_clear_session)
  with kept gone assms show ?thesis by (simp add: delete_provider_connection_def masked_iff Let_def)
qed

text \<open>A new account is one with secrets, too: requests that differ in them only.\<close>

definition mask_new :: "new_account \<Rightarrow> new_account" where
  "mask_new na = na\<lparr>na_api_key := mask_secret (na_api_key na),
     na_access_token := mask_secret (na_access_token na),
     na_refresh_token := mask_secret (na_refresh_token na)\<rparr>"

definition mask_created :: "account \<times> db \<Rightarrow> account \<times> db" where
  "mask_created = map_prod mask_account masked"

lemma usable_mask [simp]: "has_usable_secret (mask_secret v) = has_usable_secret v"
proof -
  have "has_usable_secret (Some ''*'')" by code_simp
  then show ?thesis by (simp add: mask_secret_def has_usable_secret_def)
qed

lemma mask_secret_idem [simp]: "mask_secret (mask_secret v) = mask_secret v"
  by (simp add: mask_secret_eq)

lemma next_priority_masked [simp]:
  "next_provider_account_priority i (masked d) = next_provider_account_priority i d"
  by (simp add: next_provider_account_priority_def masked_def filter_map o_def mask_account_def)

lemma check_secret_masked [simp]: "check_account_secret (mask_new na) u = check_account_secret na u"
  by (cases "na_auth_mode na") (simp_all add: check_account_secret_def mask_new_def)

lemma masked_idem [simp]: "masked (masked d) = masked d"
  by (cases d) (simp add: masked_def mask_account_def mask_session_def)

lemma masked_add:
  "masked (d\<lparr>db_accounts := db_accounts d @ [a]\<rparr>)
     = (masked d)\<lparr>db_accounts := db_accounts (masked d) @ [mask_account a]\<rparr>"
  by (simp add: masked_def)

lemma map_sum_rbind: "map_sum id g (rbind m f) = rbind m (\<lambda>a. map_sum id g (f a))"
  by (cases m) simp_all

lemma create_account_masked:
  "map_sum id mask_created (create_provider_account now i proxy_error na d)
     = map_sum id mask_created (create_provider_account now i proxy_error (mask_new na) (masked d))"
proof -
  have found: "find_provider_connection_by_id j (masked d) = find_provider_connection_by_id j d" for j
    by (simp add: find_provider_connection_by_id_def masked_def)
  have fields: "na_provider_connection_id (mask_new na) = na_provider_connection_id na"
    "na_base_url (mask_new na) = na_base_url na" "na_proxy_url (mask_new na) = na_proxy_url na"
    by (simp_all add: mask_new_def)
  show ?thesis
    unfolding create_provider_account_def found fields check_secret_masked next_priority_masked
    by (simp add: map_sum_rbind mask_created_def Let_def masked_add mask_account_def mask_new_def)
qed

lemma create_account_alike:
  assumes "masked d = masked e" and "mask_new na = mask_new nb"
  shows "map_sum id mask_created (create_provider_account now i proxy_error na d)
     = map_sum id mask_created (create_provider_account now i proxy_error nb e)"
  using create_account_masked [of now i proxy_error na d] create_account_masked [of now i proxy_error nb e]
  by (simp add: assms)

lemma atomic_create_alike:
  assumes "masked d = masked e"
  shows "map_sum id mask_account (fst (atomic (create_provider_account now i proxy_error na) d))
       = map_sum id mask_account (fst (atomic (create_provider_account now i proxy_error na) e))
     \<and> masked (snd (atomic (create_provider_account now i proxy_error na) d))
       = masked (snd (atomic (create_provider_account now i proxy_error na) e))"
  using create_account_alike [OF assms refl, of now i proxy_error na] assms
  by (cases "create_provider_account now i proxy_error na d"; cases "create_provider_account now i proxy_error na e")
    (auto simp: atomic_def mask_created_def)

section \<open>Authorization sessions\<close>

lemma delete_expired_alike:
  assumes "masked d = masked e"
  shows "masked (snd (delete_expired_oauth_sessions now d)) = masked (snd (delete_expired_oauth_sessions now e))"
proof -
  have "map mask_session (filter (\<lambda>s. \<not> s_expires_at s < now) (db_sessions d))
      = map mask_session (filter (\<lambda>s. \<not> s_expires_at s < now) (db_sessions e))"
    using assms unfolding masked_iff by (intro same_filter) (auto dest: mask_session_fields)
  with assms show ?thesis by (simp add: delete_expired_oauth_sessions_def masked_iff)
qed

lemma check_session_alike:
  assumes "masked d = masked e"
  shows "check_session_account ns d = check_session_account ns e"
proof (cases "ns_provider_account_id ns")
  case (Some i)
  show ?thesis
    using assms
  proof (rule get_account_cases [where i = i])
    fix a b
    assume "get_provider_account i d = Some a" "get_provider_account i e = Some b"
      and same: "mask_account a = mask_account b"
    moreover have "a_auth_mode a = a_auth_mode b" using same by (cases a; cases b; simp add: mask_account_eq)
    ultimately show ?thesis
      using mask_account_fields(2) [OF same] by (simp add: check_session_account_def Some)
  qed (simp add: check_session_account_def Some)
qed (simp add: check_session_account_def)

lemma create_session_alike:
  assumes "masked d = masked e"
  shows "map_sum id (map_prod id masked) (create_oauth_session now i conflict ns d)
     = map_sum id (map_prod id masked) (create_oauth_session now i conflict ns e)"
proof -
  have "list_ex (\<lambda>s. s_state s = ns_state ns) (db_sessions d) = list_ex (\<lambda>s. s_state s = ns_state ns) (db_sessions e)"
    using assms unfolding masked_iff by (intro same_ex [where h = mask_session]) (auto dest: mask_session_fields)
  moreover have "masked (d\<lparr>db_sessions := db_sessions d @ [s]\<rparr>) = masked (e\<lparr>db_sessions := db_sessions e @ [s]\<rparr>)" for s
    using assms by (simp add: masked_iff)
  ultimately show ?thesis
    using find_connection_alike [OF assms] check_session_alike [OF assms]
    by (simp add: create_oauth_session_def map_sum_rbind Let_def)
qed

lemma start_authorization_alike:
  assumes "masked d = masked e"
  shows "map_prod id masked (start_authorization now proxy_error url i conflict state verifier p account uri proxy d)
     = map_prod id masked (start_authorization now proxy_error url i conflict state verifier p account uri proxy e)"
proof -
  let ?expired = "\<lambda>d. snd (delete_expired_oauth_sessions now d)"
  let ?told = "\<lambda>u d. case account of None \<Rightarrow> Inr d
      | Some a \<Rightarrow> rbind (update_provider_account_proxy now proxy_error a u d) (\<lambda>r. Inr (snd r))"
  have past: "masked (?expired d) = masked (?expired e)" using assms by (rule delete_expired_alike)
  have told: "map_sum id masked (?told u (?expired d)) = map_sum id masked (?told u (?expired e))" for u
  proof (cases account)
    case (Some a)
    then show ?thesis using update_proxy_alike [OF past, of now proxy_error a u]
      by (cases "update_provider_account_proxy now proxy_error a u (?expired d)";
          cases "update_provider_account_proxy now proxy_error a u (?expired e)") auto
  qed (simp add: past)
  have last: "map_prod id masked (case create_oauth_session now i conflict ns d' of
        Inl err \<Rightarrow> (Inl err, d') | Inr (s, d'') \<Rightarrow> (Inr (s, u), d''))
      = map_prod id masked (case create_oauth_session now i conflict ns e' of
        Inl err \<Rightarrow> (Inl err, e') | Inr (s, d'') \<Rightarrow> (Inr (s, u), d''))"
    if "masked d' = masked e'" for ns d' e' u
    using create_session_alike [OF that, of now i conflict ns] that
    by (cases "create_oauth_session now i conflict ns d'"; cases "create_oauth_session now i conflict ns e'") auto
  show ?thesis
  proof (cases "find_provider_connection_by_id p (?expired e)")
    case None
    then show ?thesis using past by (simp add: start_authorization_def find_connection_alike [OF past])
  next
    case found: (Some c)
    note start = start_authorization_def Let_def find_connection_alike [OF past] found option.case
    show ?thesis
    proof (cases "oauth_provider_from_id (p_provider c)")
      case (Inl err)
      then show ?thesis unfolding start using past by simp
    next
      case prov: (Inr prov)
      show ?thesis
      proof (cases "normalize_proxy_url proxy_error proxy")
        case (Inl err)
        then show ?thesis unfolding start using past prov by simp
      next
        case u: (Inr u)
        show ?thesis
          unfolding start prov u sum.case
          using told [of u] past last
          by (cases "?told u (?expired d)"; cases "?told u (?expired e)";
              cases "url prov uri state (default_scopes prov)") simp_all
      qed
    qed
  qed
qed

section \<open>The built-in lines\<close>

lemma blindI:
  assumes "\<And>s t. alike s t \<Longrightarrow> answers_alike (m s) (m t)"
  shows "blind m"
  using assms by (simp add: blind_def)

lemma blindD: "blind m \<Longrightarrow> alike s t \<Longrightarrow> answers_alike (m s) (m t)"
  unfolding blind_def by blast

lemma blind_if: "blind m \<Longrightarrow> blind m' \<Longrightarrow> blind (\<lambda>s. if c then m s else m' s)"
  by (cases c) simp_all

lemma blind_given:
  assumes "\<And>d e. masked d = masked e \<Longrightarrow> f d = f e" and "\<And>x. blind (g x)"
  shows "blind (\<lambda>s. g (f (fst s)) s)"
proof (rule blindI)
  fix s t :: "db \<times> nat"
  assume "alike s t"
  moreover from this have "f (fst s) = f (fst t)" by (intro assms(1)) (simp add: alike_def)
  ultimately show "answers_alike (g (f (fst s)) s) (g (f (fst t)) t)"
    using blindD [OF assms(2)] by simp
qed

lemma lists_alike:
  assumes "masked d = masked e"
  shows "list_provider_connections d = list_provider_connections e"
    "list_provider_connections_by_provider name d = list_provider_connections_by_provider name e"
    "find_provider_connection_by_provider name d = find_provider_connection_by_provider name e"
  using assms
  by (simp_all add: masked_iff list_provider_connections_def list_provider_connections_by_provider_def
      find_provider_connection_by_provider_def)

lemma blind_stay: "blind (\<lambda>s. (r, s))"
  by (simp add: blind_def answers_alike_def)

text \<open>A statement on another table only.\<close>

lemma blind_statement:
  assumes "\<And>d e. masked d = masked e \<Longrightarrow> masked (f d) = masked (f e)"
  shows "blind (\<lambda>s. (r, f (fst s), snd s))"
proof (rule blindI)
  fix s t :: "db \<times> nat"
  assume "alike s t"
  then show "answers_alike (r, f (fst s), snd s) (r, f (fst t), snd t)"
    using assms [of "fst s" "fst t"] by (simp add: answers_alike_def alike_def)
qed

lemma create_connection_alike:
  assumes "masked d = masked e"
  shows "fst (create_provider_connection now i np d) = fst (create_provider_connection now i np e)"
    and "masked (snd (create_provider_connection now i np d)) = masked (snd (create_provider_connection now i np e))"
proof -
  have "next_provider_priority n d = next_provider_priority n e" for n
    using assms by (simp add: masked_iff next_provider_priority_def)
  then show p: "fst (create_provider_connection now i np d) = fst (create_provider_connection now i np e)"
    by (simp only: create_provider_connection_def Let_def fst_conv)
  have "snd (create_provider_connection now i np d)
      = d\<lparr>db_providers := db_providers d @ [(fst (create_provider_connection now i np d), ''priority'')]\<rparr>" for d
    by (simp only: create_provider_connection_def Let_def fst_conv snd_conv)
  then show "masked (snd (create_provider_connection now i np d)) = masked (snd (create_provider_connection now i np e))"
    using assms p by (simp add: masked_iff)
qed

lemma blind_mint_provider: "blind (mint_provider now fresh np)"
proof (rule blindI)
  fix s t :: "db \<times> nat"
  assume "alike s t"
  then show "answers_alike (mint_provider now fresh np s) (mint_provider now fresh np t)"
    using create_connection_alike [of "fst s" "fst t" now "fresh (snd t)" np]
    by (simp add: mint_provider_def case_prod_unfold Let_def answers_alike_def alike_def)
qed

lemma mint_account_alike:
  assumes "alike s t" and "mask_new na = mask_new nb"
  shows "answers_alike (mint_account now fresh proxy_error na s) (mint_account now fresh proxy_error nb t)"
proof -
  have d: "masked (fst s) = masked (fst t)" and n: "snd s = snd t" using assms(1) by (simp_all add: alike_def)
  show ?thesis
    using create_account_alike [OF d assms(2), of now "fresh (snd t)" proxy_error] d n
    by (cases "create_provider_account now (fresh (snd t)) proxy_error na (fst s)";
        cases "create_provider_account now (fresh (snd t)) proxy_error nb (fst t)")
      (auto simp: mint_account_def answers_alike_def alike_def mask_created_def)
qed

lemma moved_account_alike:
  assumes "mask_account a = mask_account b"
  shows "mask_new (moved_account shell p a) = mask_new (moved_account shell p b)"
  using assms by (cases a; cases b) (simp add: mask_account_eq moved_account_def mask_new_def mask_secret_eq)

lemma blind_moves:
  "blind (\<lambda>s. each_in_turn (\<lambda>a. mint_account now fresh proxy_error (moved_account shell p a))
     (list_provider_accounts i (fst s)) s)"
proof (rule blindI)
  fix s t :: "db \<times> nat"
  assume st: "alike s t"
  then have "map mask_account (list_provider_accounts i (fst s)) = map mask_account (list_provider_accounts i (fst t))"
    by (intro list_accounts_alike) (simp add: alike_def)
  then have "list_all2 (\<lambda>a b. \<forall>s t. alike s t \<longrightarrow> answers_alike
        (mint_account now fresh proxy_error (moved_account shell p a) s)
        (mint_account now fresh proxy_error (moved_account shell p b) t))
      (list_provider_accounts i (fst s)) (list_provider_accounts i (fst t))"
    by (induction rule: same_induct) (auto intro: mint_account_alike moved_account_alike)
  then show "answers_alike
      (each_in_turn (\<lambda>a. mint_account now fresh proxy_error (moved_account shell p a)) (list_provider_accounts i (fst s)) s)
      (each_in_turn (\<lambda>a. mint_account now fresh proxy_error (moved_account shell p a)) (list_provider_accounts i (fst t)) t)"
    using st by (rule alike_each_in_turn)
qed

lemma blind_mint_account: "blind (mint_account now fresh proxy_error na)"
  by (rule blindI) (rule mint_account_alike [OF _ refl])

lemma blind_rehome: "blind (rehome now fresh proxy_error shell p)"
  unfolding rehome_def
  by (intro blind_and_then blind_if blind_mint_account blind_stay blind_moves blind_statement
      delete_connection_alike)

lemma blind_find_shell: "blind (find_shell now fresh customs)"
  using blind_mint_provider [of now fresh custom_shell_connection]
  by (auto simp: find_shell_def blind_def answers_alike_def split: option.splits)

lemma update_connection_alike:
  assumes "masked d = masked e"
  shows "masked (update_provider_rows i f d) = masked (update_provider_rows i f e)"
  using assms by (simp add: update_provider_rows_def masked_iff)

lemma blind_hide_shell: "blind (hide_shell_url now shell)"
  unfolding hide_shell_url_def update_provider_connection_base_url_def
  by (auto simp: blind_def answers_alike_def alike_def intro: update_connection_alike)

lemma blind_line_name: "blind (normalize_line_name now p)"
  unfolding normalize_line_name_def update_provider_connection_name_def
  by (auto simp: blind_def answers_alike_def alike_def intro: update_connection_alike split: option.splits)

lemma blind_ensure_line: "blind (ensure_builtin_line now fresh preset)"
proof (rule blindI)
  fix s t :: "db \<times> nat"
  assume st: "alike s t"
  then have found: "find_provider_connection_by_provider preset (fst s) = find_provider_connection_by_provider preset (fst t)"
    by (intro lists_alike) (simp add: alike_def)
  have "blind (and_then (mint_provider now fresh np) (\<lambda>p s. (Inr (), s)))" for np
    by (intro blind_and_then blind_mint_provider blind_stay)
  from blindD [OF this st] show "answers_alike (ensure_builtin_line now fresh preset s) (ensure_builtin_line now fresh preset t)"
    using st unfolding ensure_builtin_line_def found
    by (simp add: answers_alike_def split: sum.splits)
qed

lemma blind_single_line: "blind (ensure_single_custom_api_line now fresh proxy_error)"
proof -
  let ?g = "\<lambda>customs. and_then (find_shell now fresh customs) (\<lambda>shell.
      and_then (hide_shell_url now shell) (\<lambda>_. each_in_turn (rehome now fresh proxy_error (p_id shell))
          (filter (\<lambda>p. p_id p \<noteq> p_id shell) customs)))"
  have "blind (?g customs)" for customs
    by (intro blind_and_then blind_find_shell blind_hide_shell blind_each_in_turn blind_rehome)
  then show ?thesis
    unfolding ensure_single_custom_api_line_def [abs_def] Let_def
    by (intro blind_given [of "list_provider_connections_by_provider ''custom''" ?g] lists_alike(2))
qed

lemma blind_line_names: "blind (normalize_builtin_line_names now)"
  unfolding normalize_builtin_line_names_def [abs_def]
  by (intro blind_given [of list_provider_connections "each_in_turn (normalize_line_name now)"]
      lists_alike(1) blind_each_in_turn blind_line_name)

lemma blind_builtin_lines: "blind (ensure_builtin_provider_connections now fresh proxy_error)"
  unfolding ensure_builtin_provider_connections_def
  by (intro blind_and_then blind_each_in_turn blind_ensure_line blind_single_line blind_line_names)

section \<open>The handlers\<close>

lemma db_reply_alike:
  assumes "map_prod id masked (f d) = map_prod id masked (f e)"
  shows "fst (f d) = fst (f e) \<and> masked (snd (f d)) = masked (snd (f e))"
  using assms by (cases "f d"; cases "f e") simp

lemma atomic_alike:
  assumes "masked d = masked e"
    and "map_sum id (map_prod id masked) (f d) = map_sum id (map_prod id masked) (f e)"
  shows "fst (atomic f d) = fst (atomic f e) \<and> masked (snd (atomic f d)) = masked (snd (atomic f e))"
  using assms by (cases "f d"; cases "f e") (auto simp: atomic_def)

lemma found_or_alike:
  assumes "fst r = fst r' \<and> masked (snd r) = masked (snd r')"
  shows "fst (found_or err a r) = fst (found_or err a r') \<and> masked (snd (found_or err a r)) = masked (snd (found_or err a r'))"
  using assms by (simp add: found_or_def)

text \<open>Operations that neither read nor write accounts and sessions.\<close>

lemma elsewhere_alike:
  assumes "masked d = masked e"
  shows "fst (delete_alias a d) = fst (delete_alias a e)" "masked (snd (delete_alias a d)) = masked (snd (delete_alias a e))"
    "masked (upsert_alias a t d) = masked (upsert_alias a t e)"
    "masked (set_setting k v d) = masked (set_setting k v e)"
    "fst (clear_request_logs d) = fst (clear_request_logs e)" "masked (snd (clear_request_logs d)) = masked (snd (clear_request_logs e))"
    "fst (revoke_api_key i d) = fst (revoke_api_key i e)" "masked (snd (revoke_api_key i d)) = masked (snd (revoke_api_key i e))"
    "map_sum id (map_prod id masked) (create_combo now i conflict nc d) = map_sum id (map_prod id masked) (create_combo now i conflict nc e)"
    "map_sum id masked (create_api_key now conflict i name h pre allowed d) = map_sum id masked (create_api_key now conflict i name h pre allowed e)"
    "masked (touch_api_key_usage now i d) = masked (touch_api_key_usage now i e)"
  using assms
  by (simp_all add: masked_iff delete_alias_def upsert_alias_def set_setting_def clear_request_logs_def
      revoke_api_key_def create_combo_def create_api_key_def touch_api_key_usage_def Let_def)

lemma put_settings_alike:
  assumes "masked d = masked e"
  shows "map_sum id masked (put_settings c payload d) = map_sum id masked (put_settings c payload e)"
proof -
  have "masked (fold (\<lambda>(k, v). set_setting k (json_print c v)) ob d) = masked (fold (\<lambda>(k, v). set_setting k (json_print c v)) ob e)" for ob
    using assms
  proof (induction ob arbitrary: d e)
    case (Cons kv ob)
    obtain k v where kv: "kv = (k, v)" by (cases kv)
    show ?case unfolding kv using Cons.IH [OF elsewhere_alike(4) [OF Cons.prems]] by simp
  qed simp
  then show ?thesis by (cases payload) (simp_all add: put_settings_def)
qed

lemma management_auth_alike:
  assumes "masked d = masked e"
  shows "fst (management_auth now lib hs d) = fst (management_auth now lib hs e)
     \<and> masked (snd (management_auth now lib hs d)) = masked (snd (management_auth now lib hs e))"
proof -
  have "is_auth_required d = is_auth_required e" "cookie_subject lib hs d = cookie_subject lib hs e"
    "find_api_key_by_hash h d = find_api_key_by_hash h e" for h
    using assms by (simp_all add: masked_iff is_auth_required_def get_setting_bool_def cookie_subject_def
        get_jwt_secret_def get_setting_string_def find_api_key_by_hash_def)
  then show ?thesis
    using assms elsewhere_alike(11) [OF assms]
    by (auto simp: management_auth_def validate_api_key_def split: option.splits)
qed

text \<open>The requests that do not use a secret on behalf of the caller.\<close>

fun uses_secrets :: "api_request \<Rightarrow> bool" where
  "uses_secrets (CompleteOAuth s c) = True"
| "uses_secrets (RefreshAccount i) = True"
| "uses_secrets _ = False"

lemma account_row_alike:
  assumes "masked d = masked e"
  shows "rbind (ok_or err (get_provider_account i d)) (\<lambda>a. Inr (AccountRow (account_view_of a)))
      = rbind (ok_or err (get_provider_account i e)) (\<lambda>a. Inr (AccountRow (account_view_of a)))"
  using assms
proof (rule get_account_cases [where i = i])
  fix a b
  assume "get_provider_account i d = Some a" and "get_provider_account i e = Some b"
    and "mask_account a = mask_account b"
  then show ?thesis using mask_account_fields(5) [of a b] by simp
qed simp

lemma owner_alike:
  assumes "masked d = masked e"
  shows "check_owner p account d = check_owner p account e"
proof (cases account)
  case (Some i)
  show ?thesis
    using assms
  proof (rule get_account_cases [where i = i])
    fix a b
    assume "get_provider_account i d = Some a" and "get_provider_account i e = Some b"
      and "mask_account a = mask_account b"
    then show ?thesis using mask_account_fields(2) [of a b] by (simp add: check_owner_def Some)
  qed (simp add: check_owner_def Some)
qed (simp add: check_owner_def)

lemma blind_accounts_listed: "blind (list_accounts_handler i)"
  unfolding list_accounts_handler_def
proof (rule blind_reading)
  fix d e
  assume same: "masked d = masked e"
  have "map account_view_of (list_provider_accounts i d) = map account_view_of (list_provider_accounts i e)"
    using list_accounts_alike [OF same] by (rule same_map) (rule mask_account_fields(5))
  then show "rbind (ok_or (NotFound (''provider connection '' @ i)) (find_provider_connection_by_id i d))
        (\<lambda>_. Inr (Accounts (map account_view_of (list_provider_accounts i d))))
      = rbind (ok_or (NotFound (''provider connection '' @ i)) (find_provider_connection_by_id i e))
        (\<lambda>_. Inr (Accounts (map account_view_of (list_provider_accounts i e))))"
    by (simp only: find_connection_alike [OF same])
qed

text \<open>The account made is not the same in both, but its view is.\<close>

lemma blind_account_created: "blind (create_account_handler ae na)"
proof (rule blindI)
  fix s t :: "db \<times> nat"
  assume "alike s t"
  then have d: "masked (fst s) = masked (fst t)" and n: "snd s = snd t" by (simp_all add: alike_def)
  let ?create = "atomic (create_provider_account (ae_now ae) (ae_fresh ae (snd t)) (ae_proxy_error ae) na)"
  obtain r d' where a: "?create (fst s) = (r, d')" by (cases "?create (fst s)")
  obtain r' e' where b: "?create (fst t) = (r', e')" by (cases "?create (fst t)")
  have "map_sum id mask_account r = map_sum id mask_account r'" and "masked d' = masked e'"
    using atomic_create_alike [OF d, of "ae_now ae" "ae_fresh ae (snd t)" "ae_proxy_error ae" na]
    by (simp_all add: a b)
  then show "answers_alike (create_account_handler ae na s) (create_account_handler ae na t)"
    by (cases r; cases r')
      (auto simp: create_account_handler_def and_then_def drawing_def reply_with_def n a b
        answers_alike_def alike_def dest: mask_account_fields(5))
qed

lemma blind_oauth_started: "blind (start_provider_account_oauth ae p account uri proxy)"
  unfolding start_provider_account_oauth_def split_beta
  by (intro blind_and_then blind_reading owner_alike blind_drawing db_reply_alike start_authorization_alike
      blind_reply_with)

lemma blind_proxy_set: "blind (set_provider_account_proxy ae i u)"
  unfolding set_provider_account_proxy_def
  by (intro blind_and_then blind_reply_with blind_on_db atomic_alike update_proxy_alike blind_reading
      account_row_alike)

lemma blind_enabled: "blind (enable_provider_account ae i b)"
  unfolding enable_provider_account_def by (intro blind_on_db found_or_alike set_enabled_alike)

lemma blind_account_deleted: "blind (delete_account_handler i)"
  unfolding delete_account_handler_def by (intro blind_on_db found_or_alike delete_account_alike)

lemma blind_listing:
  assumes "\<And>d e. masked d = masked e \<Longrightarrow> f d = f e"
  shows "blind (reading (\<lambda>d. g (f d)))"
proof (rule blind_reading)
  fix d e
  assume "masked d = masked e"
  from assms [OF this] show "g (f d) = g (f e)" by simp
qed

lemma get_settings_alike: "masked d = masked e \<Longrightarrow> get_settings c d = get_settings c e"
  by (simp add: masked_iff get_settings_def)

lemma blind_settings_put: "blind (put_settings_handler ae payload)"
proof -
  have "map_sum id (map_prod id masked) (rbind (put_settings c payload d) (\<lambda>d'. Inr ((), d')))
      = map_sum id (map_prod id masked) (rbind (put_settings c payload e) (\<lambda>d'. Inr ((), d')))"
    if "masked d = masked e" for c :: auth_lib and d e
    using put_settings_alike [OF that, of c payload]
    by (cases "put_settings c payload d"; cases "put_settings c payload e") simp_all
  then show ?thesis
    unfolding put_settings_handler_def
    by (intro blind_and_then blind_on_db atomic_alike blind_listing [of "get_settings _"] get_settings_alike)
qed

lemma blind_key_created: "blind (create_key_handler ae name allowed)"
proof -
  have "map_sum id (map_prod id masked) (issue_api_key now conflict lib i random name allowed d)
      = map_sum id (map_prod id masked) (issue_api_key now conflict lib i random name allowed e)"
    if "masked d = masked e" for now conflict lib i random d e
  proof -
    let ?k = "generate_api_key i random name"
    let ?make = "create_api_key now conflict (kc_id ?k) (kc_name ?k) (hash_api_key lib (kc_key ?k)) (kc_key_prefix ?k) allowed"
    have "map_sum id masked (?make d) = map_sum id masked (?make e)" using that by (rule elsewhere_alike(10))
    then show ?thesis by (cases "?make d"; cases "?make e") (simp_all add: issue_api_key_def Let_def)
  qed
  then show ?thesis
    unfolding create_key_handler_def by (intro blind_and_then blind_drawing atomic_alike blind_reply_with)
qed

lemma blind_tables:
  "blind (reading (\<lambda>d. Inr (Providers (list_provider_connections d))))"
  "blind (reading (\<lambda>d. Inr (Combos (list_combos d))))"
  "blind (reading (\<lambda>d. Inr (Aliases (list_aliases d))))"
  "blind (reading (\<lambda>d. Inr (LogRows (list_request_logs n d))))"
  "blind (reading (\<lambda>d. Inr (Keys (list_api_keys d))))"
  "blind (reading (\<lambda>d. rbind (get_settings c d) (\<lambda>v. Inr (Value v))))"
  "blind (get_request_log_detail i)"
  unfolding get_request_log_detail_def
  by (rule blind_reading; simp add: masked_iff list_provider_connections_def list_combos_def
      list_aliases_def list_request_logs_def list_api_keys_def get_settings_def get_request_log_def
      list_request_debug_logs_for_request_def list_response_debug_logs_for_request_def)+

lemma blind_alias_upserted: "blind (upsert_alias_handler a t)"
  unfolding upsert_alias_handler_def
  by (rule blind_on_db) (simp only: fst_conv snd_conv, blast intro: elsewhere_alike(3))

lemma blind_alias_deleted: "blind (delete_alias_handler a)"
  unfolding delete_alias_handler_def by (intro blind_on_db found_or_alike conjI elsewhere_alike(1,2))

lemma blind_key_revoked: "blind (revoke_key_handler i)"
  unfolding revoke_key_handler_def by (intro blind_on_db found_or_alike conjI elsewhere_alike(7,8))

lemma blind_logs_cleared: "blind clear_logs_handler"
  unfolding clear_logs_handler_def
proof (rule blind_on_db)
  fix d e
  assume "masked d = masked e"
  note same = elsewhere_alike(5,6) [OF this]
  show "fst (let (n, d) = clear_request_logs d in (Inr (Value (json_obj [(''status'', JStr ''ok''), (''deleted'', JNum (PosInt (of_nat n)))])), d))
      = fst (let (n, d) = clear_request_logs e in (Inr (Value (json_obj [(''status'', JStr ''ok''), (''deleted'', JNum (PosInt (of_nat n)))])), d))
    \<and> masked (snd (let (n, d) = clear_request_logs d in (Inr (Value (json_obj [(''status'', JStr ''ok''), (''deleted'', JNum (PosInt (of_nat n)))])), d)))
      = masked (snd (let (n, d) = clear_request_logs e in (Inr (Value (json_obj [(''status'', JStr ''ok''), (''deleted'', JNum (PosInt (of_nat n)))])), d)))"
    unfolding split_beta Let_def fst_conv snd_conv same by simp
qed

lemma blind_rows_created: "blind (create_provider ae np)" "blind (create_combo_handler ae nc)"
  unfolding create_provider_def create_combo_handler_def
  by (intro blind_and_then blind_mint_provider blind_drawing atomic_alike elsewhere_alike(9) blind_reply_with)+

lemma blind_handler:
  assumes "\<not> uses_secrets req"
  shows "blind (api_handler ae req)"
  using assms
  by (cases req)
    (simp_all add: blind_reply_with blind_tables blind_alias_upserted blind_alias_deleted
      blind_key_revoked blind_logs_cleared blind_rows_created blind_accounts_listed
      blind_account_created blind_oauth_started blind_proxy_set blind_enabled blind_account_deleted
      blind_settings_put blind_key_created list_providers_def import_provider_preset_def
      list_logs_handler_def blind_and_then blind_builtin_lines)

lemma blind_api: "\<not> uses_secrets req \<Longrightarrow> blind (api ae hs req)"
  unfolding api_def by (intro blind_and_then blind_on_db management_auth_alike blind_handler)

text \<open>A replies_to: requests one after the other, each with what it draws on, and their replies.\<close>

fun replies_to :: "(api_env \<times> headers \<times> api_request) list \<Rightarrow> db \<times> nat \<Rightarrow> api_reply app_result list" where
  "replies_to [] s = []"
| "replies_to ((ae, hs, req) # calls) s =
     (let (r, s) = api ae hs req s in r # replies_to calls s)"

lemma replies_alike:
  assumes "list_all (\<lambda>(ae, hs, req). \<not> uses_secrets req) calls" and "alike s t"
  shows "replies_to calls s = replies_to calls t"
  using assms
proof (induction calls arbitrary: s t)
  case (Cons call calls)
  obtain ae hs req where call: "call = (ae, hs, req)" by (cases call)
  have "answers_alike (api ae hs req s) (api ae hs req t)"
    using Cons.prems by (intro blindD [OF blind_api]) (simp_all add: call)
  then show ?case using Cons by (auto simp: call answers_alike_def split_beta Let_def)
qed simp

end
