(* ===== verification/Wire.thy ===== *)
theory Wire
  imports Application Secrecy Rows_Cache
begin

text \<open>
  The management API over HTTP: how the body, the query and the path of a request become the
  arguments of its handler, and the JSON of the reply (the derives of \<open>src/models.rs\<close>,
  \<open>src/presets.rs\<close> and \<open>src/auth/models.rs\<close>, the extractors and bodies of \<open>src/routes.rs\<close>).
  A body is a document: a JSON tree whose objects list their members in the order of the text,
  where a key may come twice. Parsing and printing text, decoding paths and queries, and dates as
  texts belong to the crates and are arguments; so are the notes of the presets, which are prose.
\<close>

section \<open>Reading structs\<close>

record wire_lib =
  wl_is_json :: "headers \<Rightarrow> bool"
  wl_body :: "string \<Rightarrow> json option"
  wl_query :: "string \<Rightarrow> (string \<times> string) list option"
  wl_segment :: "string \<Rightarrow> string option"
  wl_show_date :: "timestamp \<Rightarrow> string"
  wl_read_date :: "string \<Rightarrow> timestamp option"
  wl_notes :: "string \<Rightarrow> string"

text \<open>
  The members of a struct. From an object, unknown keys are skipped and a known key that comes
  twice is an error; an array gives the fields in their order, and may end early where the rest
  has defaults. The flag tells an array.
\<close>

type_synonym struct_fields = "bool \<times> (string \<Rightarrow> json option)"

definition fields_of :: "string list \<Rightarrow> json \<Rightarrow> struct_fields option" where
  "fields_of names v =
     (case v of
        JObj ms \<Rightarrow>
          if list_all (\<lambda>n. length (filter (\<lambda>m. fst m = n) ms) \<le> 1) names then Some (False, map_of ms)
          else None
      | JArr vs \<Rightarrow> if length vs \<le> length names then Some (True, map_of (zip names vs)) else None
      | _ \<Rightarrow> None)"

definition or_null :: "(json \<Rightarrow> 'v option) \<Rightarrow> json \<Rightarrow> 'v option option" where
  "or_null f v = (if v = JNull then Some None else map_option Some (f v))"

definition must_have :: "(json \<Rightarrow> 'v option) \<Rightarrow> string \<Rightarrow> struct_fields \<Rightarrow> 'v option" where
  "must_have f k fs = Option.bind (snd fs k) f"

text \<open>An \<open>Option\<close> may be left out of an object, but not of an array.\<close>

definition optional :: "(json \<Rightarrow> 'v option) \<Rightarrow> string \<Rightarrow> struct_fields \<Rightarrow> 'v option option" where
  "optional f k fs =
     (case snd fs k of None \<Rightarrow> if fst fs then None else Some None | Some v \<Rightarrow> or_null f v)"

text \<open>\<open>#[serde(default)]\<close>\<close>

definition defaulted :: "'v \<Rightarrow> (json \<Rightarrow> 'v option) \<Rightarrow> string \<Rightarrow> struct_fields \<Rightarrow> 'v option" where
  "defaulted w f k fs = (case snd fs k of None \<Rightarrow> Some w | Some v \<Rightarrow> f v)"

definition read_map :: "json \<Rightarrow> headers_map option" where
  "read_map v = map_option map_from_pairs (string_map v)"

definition read_date :: "wire_lib \<Rightarrow> json \<Rightarrow> timestamp option" where
  "read_date wl v = Option.bind (as_str v) (wl_read_date wl)"

text \<open>A variant without data: its name, or an object that maps its name to null.\<close>

fun variant_name :: "json \<Rightarrow> string option" where
  "variant_name (JStr s) = Some s"
| "variant_name (JObj [(s, JNull)]) = Some s"
| "variant_name _ = None"

definition read_auth_mode :: "json \<Rightarrow> auth_mode option" where
  "read_auth_mode v = Option.bind (variant_name v) (\<lambda>s.
     if s = ''api_key'' \<or> s = ''apikey'' then Some ApiKeyMode
     else if s = ''oauth'' \<or> s = ''o_auth'' then Some OAuthMode else None)"

definition read_combo_strategy :: "json \<Rightarrow> combo_strategy option" where
  "read_combo_strategy v = Option.bind (variant_name v) (\<lambda>s.
     if s = ''priority'' then Some ComboPriority
     else if s = ''round-robin'' then Some ComboRoundRobin else None)"

section \<open>The bodies\<close>

definition new_provider_fields :: "string list" where
  "new_provider_fields =
     [''provider'', ''base_url'', ''api_key'', ''auth_type'', ''auth_header'', ''auth_prefix'',
      ''extra_headers'', ''endpoint_paths'', ''stream_endpoint_paths'', ''model_prefix'', ''name'',
      ''enabled'', ''priority'', ''default_model'', ''supported_endpoints'', ''rate_limit_protection'',
      ''protocol_format'']"

definition read_new_provider :: "json \<Rightarrow> new_provider option" where
  "read_new_provider v = Option.bind (fields_of new_provider_fields v) (\<lambda>fs.
     Option.bind (must_have as_str ''provider'' fs) (\<lambda>provider.
     Option.bind (must_have as_str ''base_url'' fs) (\<lambda>base_url.
     Option.bind (optional as_str ''api_key'' fs) (\<lambda>api_key.
     Option.bind (defaulted ''apikey'' as_str ''auth_type'' fs) (\<lambda>auth_type.
     Option.bind (defaulted ''bearer'' as_str ''auth_header'' fs) (\<lambda>auth_header.
     Option.bind (defaulted None (or_null as_str) ''auth_prefix'' fs) (\<lambda>auth_prefix.
     Option.bind (defaulted [] read_map ''extra_headers'' fs) (\<lambda>extra_headers.
     Option.bind (defaulted None (or_null read_map) ''endpoint_paths'' fs) (\<lambda>paths.
     Option.bind (defaulted None (or_null read_map) ''stream_endpoint_paths'' fs) (\<lambda>stream_paths.
     Option.bind (defaulted None (or_null as_str) ''model_prefix'' fs) (\<lambda>model_prefix.
     Option.bind (optional as_str ''name'' fs) (\<lambda>name.
     Option.bind (defaulted True as_bool ''enabled'' fs) (\<lambda>enabled.
     Option.bind (optional as_i64 ''priority'' fs) (\<lambda>priority.
     Option.bind (optional as_str ''default_model'' fs) (\<lambda>default_model.
     Option.bind (defaulted None (or_null string_list) ''supported_endpoints'' fs) (\<lambda>endpoints.
     Option.bind (defaulted False as_bool ''rate_limit_protection'' fs) (\<lambda>protection.
     Option.bind (defaulted None (or_null as_str) ''protocol_format'' fs) (\<lambda>protocol.
       Some \<lparr>np_provider = provider, np_base_url = base_url, np_api_key = api_key,
             np_auth_type = auth_type, np_auth_header = auth_header, np_auth_prefix = auth_prefix,
             np_extra_headers = extra_headers, np_endpoint_paths = paths,
             np_stream_endpoint_paths = stream_paths, np_model_prefix = model_prefix,
             np_name = name, np_enabled = enabled, np_priority = priority,
             np_default_model = default_model, np_supported_endpoints = endpoints,
             np_rate_limit_protection = protection, np_protocol_format = protocol\<rparr>))))))))))))))))))"

definition new_account_fields :: "string list" where
  "new_account_fields =
     [''provider_connection_id'', ''label'', ''auth_mode'', ''api_key'', ''access_token'', ''refresh_token'',
      ''expires_at'', ''scopes'', ''remote_account_id'', ''remote_email'', ''is_fedramp'', ''enabled'',
      ''priority'', ''proxy_url'', ''base_url'', ''protocol_format'', ''supported_endpoints'']"

definition read_new_account :: "wire_lib \<Rightarrow> json \<Rightarrow> new_account option" where
  "read_new_account wl v = Option.bind (fields_of new_account_fields v) (\<lambda>fs.
     Option.bind (must_have as_str ''provider_connection_id'' fs) (\<lambda>connection.
     Option.bind (optional as_str ''label'' fs) (\<lambda>label.
     Option.bind (defaulted ApiKeyMode read_auth_mode ''auth_mode'' fs) (\<lambda>auth_mode.
     Option.bind (optional as_str ''api_key'' fs) (\<lambda>api_key.
     Option.bind (optional as_str ''access_token'' fs) (\<lambda>access_token.
     Option.bind (optional as_str ''refresh_token'' fs) (\<lambda>refresh_token.
     Option.bind (optional (read_date wl) ''expires_at'' fs) (\<lambda>expires_at.
     Option.bind (defaulted None (or_null string_list) ''scopes'' fs) (\<lambda>scopes.
     Option.bind (optional as_str ''remote_account_id'' fs) (\<lambda>remote_id.
     Option.bind (optional as_str ''remote_email'' fs) (\<lambda>remote_email.
     Option.bind (defaulted False as_bool ''is_fedramp'' fs) (\<lambda>fedramp.
     Option.bind (defaulted True as_bool ''enabled'' fs) (\<lambda>enabled.
     Option.bind (optional as_i64 ''priority'' fs) (\<lambda>priority.
     Option.bind (defaulted None (or_null as_str) ''proxy_url'' fs) (\<lambda>proxy_url.
     Option.bind (defaulted None (or_null as_str) ''base_url'' fs) (\<lambda>base_url.
     Option.bind (defaulted None (or_null as_str) ''protocol_format'' fs) (\<lambda>protocol.
     Option.bind (defaulted None (or_null string_list) ''supported_endpoints'' fs) (\<lambda>endpoints.
       Some \<lparr>na_provider_connection_id = connection, na_label = label, na_auth_mode = auth_mode,
             na_api_key = api_key, na_access_token = access_token, na_refresh_token = refresh_token,
             na_expires_at = expires_at, na_scopes = scopes, na_remote_account_id = remote_id,
             na_remote_email = remote_email, na_is_fedramp = fedramp, na_enabled = enabled,
             na_priority = priority, na_proxy_url = proxy_url, na_base_url = base_url,
             na_protocol_format = protocol, na_supported_endpoints = endpoints\<rparr>))))))))))))))))))"

definition read_new_combo :: "json \<Rightarrow> new_combo option" where
  "read_new_combo v = Option.bind (fields_of [''name'', ''strategy'', ''models'', ''enabled''] v) (\<lambda>fs.
     Option.bind (must_have as_str ''name'' fs) (\<lambda>name.
     Option.bind (defaulted ComboPriority read_combo_strategy ''strategy'' fs) (\<lambda>strategy.
     Option.bind (must_have string_list ''models'' fs) (\<lambda>models.
     Option.bind (defaulted True as_bool ''enabled'' fs) (\<lambda>enabled.
       Some \<lparr>nc_name = name, nc_strategy = strategy, nc_models = models, nc_enabled = enabled\<rparr>)))))"

definition read_import :: "json \<Rightarrow> import_request option" where
  "read_import v = Option.bind (fields_of [''preset_id'', ''api_key'', ''model_prefix'', ''name'', ''enabled'',
       ''priority'', ''rate_limit_protection''] v) (\<lambda>fs.
     Option.bind (must_have as_str ''preset_id'' fs) (\<lambda>preset.
     Option.bind (optional as_str ''api_key'' fs) (\<lambda>api_key.
     Option.bind (defaulted None (or_null as_str) ''model_prefix'' fs) (\<lambda>model_prefix.
     Option.bind (defaulted None (or_null as_str) ''name'' fs) (\<lambda>name.
     Option.bind (defaulted None (or_null as_bool) ''enabled'' fs) (\<lambda>enabled.
     Option.bind (defaulted None (or_null as_i64) ''priority'' fs) (\<lambda>priority.
     Option.bind (defaulted None (or_null as_bool) ''rate_limit_protection'' fs) (\<lambda>protection.
       Some \<lparr>im_preset_id = preset, im_api_key = api_key, im_model_prefix = model_prefix,
             im_name = name, im_enabled = enabled, im_priority = priority,
             im_rate_limit_protection = protection\<rparr>))))))))"

definition read_alias :: "json \<Rightarrow> (string \<times> string) option" where
  "read_alias v = Option.bind (fields_of [''alias'', ''target''] v) (\<lambda>fs.
     Option.bind (must_have as_str ''alias'' fs) (\<lambda>name.
     Option.bind (must_have as_str ''target'' fs) (\<lambda>target. Some (name, target))))"

definition read_oauth_start :: "json \<Rightarrow> api_request option" where
  "read_oauth_start v = Option.bind (fields_of [''provider_connection_id'', ''provider_account_id'',
       ''redirect_uri'', ''proxy_url''] v) (\<lambda>fs.
     Option.bind (must_have as_str ''provider_connection_id'' fs) (\<lambda>connection.
     Option.bind (defaulted None (or_null as_str) ''provider_account_id'' fs) (\<lambda>account.
     Option.bind (must_have as_str ''redirect_uri'' fs) (\<lambda>redirect_uri.
     Option.bind (defaulted None (or_null as_str) ''proxy_url'' fs) (\<lambda>proxy_url.
       Some (StartOAuth connection account redirect_uri proxy_url))))))"

definition read_oauth_callback :: "json \<Rightarrow> api_request option" where
  "read_oauth_callback v = Option.bind (fields_of [''state'', ''code''] v) (\<lambda>fs.
     Option.bind (must_have as_str ''state'' fs) (\<lambda>state.
     Option.bind (must_have as_str ''code'' fs) (\<lambda>code. Some (CompleteOAuth state code))))"

definition read_proxy_body :: "json \<Rightarrow> string option option" where
  "read_proxy_body v = Option.bind (fields_of [''proxy_url''] v) (\<lambda>fs.
     defaulted None (or_null as_str) ''proxy_url'' fs)"

definition read_new_key :: "json \<Rightarrow> api_request option" where
  "read_new_key v = Option.bind (fields_of [''name'', ''allowed_models''] v) (\<lambda>fs.
     Option.bind (must_have as_str ''name'' fs) (\<lambda>name.
     Option.bind (defaulted [''*''] string_list ''allowed_models'' fs) (\<lambda>allowed.
       Some (CreateKey name allowed))))"

text \<open>A document as a \<open>Value\<close>: keys in order, the last member of a key wins.\<close>

function value_of :: "json \<Rightarrow> json" where
  "value_of (JObj ms) = json_obj (map (\<lambda>m. (fst m, value_of (snd m))) ms)"
| "value_of (JArr vs) = JArr (map value_of vs)"
| "value_of JNull = JNull"
| "value_of (JBool b) = JBool b"
| "value_of (JNum n) = JNum n"
| "value_of (JStr s) = JStr s"
  by pat_completeness auto
termination
proof (relation "measure size")
  fix ms :: obj and m
  assume "m \<in> set ms"
  then have "size (snd m) < Suc (size_list (size_prod (\<lambda>_. 0) size) ms)"
    by (induction ms) (auto split: prod.splits)
  then show "(snd m, JObj ms) \<in> measure size" by simp
qed (auto simp: less_Suc_eq_le dest: size_list_estimation')

text \<open>\<open>#[serde(flatten)]\<close>: all members of an object.\<close>

definition read_settings :: "json \<Rightarrow> json option" where
  "read_settings v = (case v of JObj ms \<Rightarrow> Some (value_of v) | _ \<Rightarrow> None)"

section \<open>Requests\<close>

record web_request =
  wq_method :: string
  wq_path :: string
  wq_query :: string
  wq_headers :: headers
  wq_body :: string

text \<open>
  Why an extractor turns a request away: no JSON content type, a body that is no JSON or has the
  wrong shape, a query or a path that cannot be read. The status and text belong to the framework.
\<close>

datatype rejection = NotJson | BadBody | BadQuery | BadPath

fun captures :: "segment list \<Rightarrow> string list \<Rightarrow> string list" where
  "captures (One # ps) (s # ss) = s # captures ps ss"
| "captures (p # ps) (s # ss) = captures ps ss"
| "captures ps ss = []"

type_synonym reader = "wire_lib \<Rightarrow> app_route \<Rightarrow> web_request \<Rightarrow> rejection + api_request"

definition no_input :: "api_request \<Rightarrow> reader" where
  "no_input req wl r q = Inr req"

definition path_param :: "wire_lib \<Rightarrow> app_route \<Rightarrow> web_request \<Rightarrow> rejection + string" where
  "path_param wl r q =
     (case captures (ar_pattern r) (split_on CHR ''/'' (wq_path q)) of
        [] \<Rightarrow> Inl BadPath
      | s # ss \<Rightarrow> ok_or BadPath (wl_segment wl s))"

definition by_path :: "(string \<Rightarrow> api_request) \<Rightarrow> reader" where
  "by_path f wl r q = rbind (path_param wl r q) (\<lambda>i. Inr (f i))"

definition json_body :: "(json \<Rightarrow> 'v option) \<Rightarrow> wire_lib \<Rightarrow> web_request \<Rightarrow> rejection + 'v" where
  "json_body f wl q =
     (if \<not> wl_is_json wl (wq_headers q) then Inl NotJson
      else ok_or BadBody (Option.bind (wl_body wl (wq_body q)) f))"

definition by_body :: "(json \<Rightarrow> 'v option) \<Rightarrow> ('v \<Rightarrow> api_request) \<Rightarrow> reader" where
  "by_body f g wl r q = rbind (json_body f wl q) (\<lambda>v. Inr (g v))"

text \<open>A field of a query comes at most once.\<close>

definition query_field :: "string \<Rightarrow> (string \<times> string) list \<Rightarrow> string option option" where
  "query_field k kvs =
     (case filter (\<lambda>kv. fst kv = k) kvs of [] \<Rightarrow> Some None | [kv] \<Rightarrow> Some (Some (snd kv)) | _ \<Rightarrow> None)"

definition by_query :: "((string \<times> string) list \<Rightarrow> api_request option) \<Rightarrow> reader" where
  "by_query f wl r q = ok_or BadQuery (Option.bind (wl_query wl (wq_query q)) f)"

definition read_accounts_query :: "(string \<times> string) list \<Rightarrow> api_request option" where
  "read_accounts_query kvs =
     Option.bind (query_field ''provider_connection_id'' kvs) (map_option ListAccounts)"

definition read_logs_query :: "(string \<times> string) list \<Rightarrow> api_request option" where
  "read_logs_query kvs =
     Option.bind (query_field ''limit'' kvs) (\<lambda>v.
       (case v of None \<Rightarrow> Some (ListLogs None) | Some s \<Rightarrow> map_option (\<lambda>i. ListLogs (Some i)) (parse_i64 s)))"

definition read_set_proxy :: reader where
  "read_set_proxy wl r q =
     rbind (path_param wl r q) (\<lambda>i.
     rbind (json_body read_proxy_body wl q) (\<lambda>url. Inr (SetAccountProxy i url)))"

definition read_create_account :: reader where
  "read_create_account wl = by_body (read_new_account wl) CreateAccount wl"

definition request_readers :: "(string \<times> reader) list" where
  "request_readers =
     [(''list_providers'', no_input ListProviders),
      (''create_provider'', by_body read_new_provider CreateProvider),
      (''list_provider_presets'', no_input ListPresets),
      (''import_provider_preset'', by_body read_import ImportPreset),
      (''list_provider_accounts'', by_query read_accounts_query),
      (''create_provider_account'', read_create_account),
      (''start_provider_account_oauth'', by_body read_oauth_start id),
      (''complete_provider_account_oauth'', by_body read_oauth_callback id),
      (''refresh_provider_account'', by_path RefreshAccount),
      (''set_provider_account_proxy'', read_set_proxy),
      (''disable_provider_account'', by_path (\<lambda>i. EnableAccount i False)),
      (''enable_provider_account'', by_path (\<lambda>i. EnableAccount i True)),
      (''delete_provider_account'', by_path DeleteAccount),
      (''list_combos'', no_input ListCombos),
      (''create_combo'', by_body read_new_combo CreateCombo),
      (''list_aliases'', no_input ListAliases),
      (''upsert_alias'', by_body read_alias (\<lambda>(a, t). UpsertAlias a t)),
      (''delete_alias'', by_path DeleteAlias),
      (''get_settings'', no_input GetSettings),
      (''put_settings'', by_body read_settings PutSettings),
      (''get_ratelimits'', no_input GetRatelimits),
      (''list_request_logs'', by_query read_logs_query),
      (''clear_request_logs'', no_input ClearLogs),
      (''get_request_log_detail'', by_path GetLog),
      (''list_api_keys'', no_input ListKeys),
      (''create_api_key'', by_body read_new_key id),
      (''revoke_api_key'', by_path RevokeKey)]"

section \<open>Replies\<close>

text \<open>The members of a struct are written in the order of its fields.\<close>

definition int_json :: "int \<Rightarrow> json" where
  "int_json i = JNum (if i < 0 then NegInt i else PosInt (of_int i))"

definition date_json :: "wire_lib \<Rightarrow> timestamp \<Rightarrow> json" where
  "date_json wl t = JStr (wl_show_date wl t)"

abbreviation opt_str_json :: "string option \<Rightarrow> json" where
  "opt_str_json \<equiv> opt_json JStr"

definition provider_doc :: "wire_lib \<Rightarrow> provider \<Rightarrow> json" where
  "provider_doc wl p = JObj
     [(''id'', JStr (p_id p)), (''provider'', JStr (p_provider p)), (''base_url'', JStr (p_base_url p)),
      (''api_key'', opt_str_json (p_api_key p)), (''auth_type'', JStr (p_auth_type p)),
      (''auth_header'', JStr (p_auth_header p)), (''auth_prefix'', opt_str_json (p_auth_prefix p)),
      (''extra_headers'', map_json (p_extra_headers p)), (''endpoint_paths'', map_json (p_endpoint_paths p)),
      (''stream_endpoint_paths'', map_json (p_stream_endpoint_paths p)),
      (''model_prefix'', JStr (p_model_prefix p)), (''name'', opt_str_json (p_name p)),
      (''enabled'', JBool (p_enabled p)), (''priority'', int_json (p_priority p)),
      (''default_model'', opt_str_json (p_default_model p)),
      (''supported_endpoints'', strs_json (p_supported_endpoints p)),
      (''rate_limit_protection'', JBool (p_rate_limit_protection p)),
      (''last_error'', opt_str_json (p_last_error p)),
      (''last_error_at'', opt_json (date_json wl) (p_last_error_at p)),
      (''last_error_type'', opt_str_json (p_last_error_type p)),
      (''last_error_source'', opt_str_json (p_last_error_source p)),
      (''rate_limited_until'', opt_json (date_json wl) (p_rate_limited_until p)),
      (''circuit_open_until'', opt_json (date_json wl) (p_circuit_open_until p)),
      (''last_used_at'', opt_json (date_json wl) (p_last_used_at p)),
      (''backoff_level'', int_json (p_backoff_level p)),
      (''consecutive_use_count'', int_json (p_consecutive_use_count p)),
      (''test_status'', opt_str_json (p_test_status p)), (''created_at'', date_json wl (p_created_at p)),
      (''updated_at'', date_json wl (p_updated_at p)), (''protocol_format'', opt_str_json (p_protocol_format p))]"

definition preset_doc :: "wire_lib \<Rightarrow> provider_preset \<Rightarrow> json" where
  "preset_doc wl p = JObj
     ([(''id'', JStr (pr_id p)), (''display_name'', JStr (pr_display_name p)),
       (''base_url'', JStr (pr_base_url p)), (''auth_type'', JStr (pr_auth_type p)),
       (''auth_header'', JStr (pr_auth_header p))]
      @ (case pr_auth_prefix p of None \<Rightarrow> [] | Some s \<Rightarrow> [(''auth_prefix'', JStr s)])
      @ [(''extra_headers'', map_json (pr_extra_headers p)), (''endpoint_paths'', map_json (pr_endpoint_paths p)),
         (''stream_endpoint_paths'', map_json (pr_stream_endpoint_paths p)),
         (''supported_endpoints'', strs_json (pr_supported_endpoints p))]
      @ (case pr_default_model p of None \<Rightarrow> [] | Some s \<Rightarrow> [(''default_model'', JStr s)])
      @ [(''source'', JStr ''diegosouzapw/OmniRoute''), (''notes'', JStr (wl_notes wl (pr_id p)))])"

definition account_doc :: "wire_lib \<Rightarrow> account_view \<Rightarrow> json" where
  "account_doc wl a = JObj
     [(''id'', JStr (av_id a)), (''provider_connection_id'', JStr (av_provider_connection_id a)),
      (''label'', opt_str_json (av_label a)), (''auth_mode'', JStr (auth_mode_as_str (av_auth_mode a))),
      (''has_api_key'', JBool (av_has_api_key a)), (''has_access_token'', JBool (av_has_access_token a)),
      (''has_refresh_token'', JBool (av_has_refresh_token a)),
      (''expires_at'', opt_json (date_json wl) (av_expires_at a)), (''scopes'', strs_json (av_scopes a)),
      (''remote_account_id'', opt_str_json (av_remote_account_id a)),
      (''remote_email'', opt_str_json (av_remote_email a)), (''enabled'', JBool (av_enabled a)),
      (''priority'', int_json (av_priority a)), (''last_used_at'', opt_json (date_json wl) (av_last_used_at a)),
      (''rate_limited_until'', opt_json (date_json wl) (av_rate_limited_until a)),
      (''circuit_open_until'', opt_json (date_json wl) (av_circuit_open_until a)),
      (''last_error'', opt_str_json (av_last_error a)), (''last_error_type'', opt_str_json (av_last_error_type a)),
      (''last_refresh_at'', opt_json (date_json wl) (av_last_refresh_at a)),
      (''refresh_error'', opt_str_json (av_refresh_error a)), (''backoff_level'', int_json (av_backoff_level a)),
      (''consecutive_use_count'', int_json (av_consecutive_use_count a)),
      (''proxy_url'', opt_str_json (av_proxy_url a)), (''base_url'', opt_str_json (av_base_url a)),
      (''protocol_format'', opt_str_json (av_protocol_format a)),
      (''supported_endpoints'', opt_json strs_json (av_supported_endpoints a)),
      (''created_at'', date_json wl (av_created_at a)), (''updated_at'', date_json wl (av_updated_at a))]"

definition session_doc :: "wire_lib \<Rightarrow> session_view \<Rightarrow> json" where
  "session_doc wl s = JObj
     [(''id'', JStr (sw_id s)), (''state'', JStr (sw_state s)),
      (''provider_connection_id'', JStr (sw_provider_connection_id s)),
      (''provider_account_id'', opt_str_json (sw_provider_account_id s)),
      (''redirect_uri'', JStr (sw_redirect_uri s)), (''scopes'', strs_json (sw_scopes s)),
      (''proxy_url'', opt_str_json (sw_proxy_url s)), (''created_at'', date_json wl (sw_created_at s)),
      (''expires_at'', date_json wl (sw_expires_at s)),
      (''consumed_at'', opt_json (date_json wl) (sw_consumed_at s))]"

definition combo_doc :: "wire_lib \<Rightarrow> combo \<Rightarrow> json" where
  "combo_doc wl c = JObj
     [(''id'', JStr (c_id c)), (''name'', JStr (c_name c)), (''strategy'', JStr (strategy_as_str (c_strategy c))),
      (''models'', strs_json (c_models c)), (''enabled'', JBool (c_enabled c)),
      (''created_at'', date_json wl (c_created_at c)), (''updated_at'', date_json wl (c_updated_at c))]"

definition alias_doc :: "string \<times> string \<Rightarrow> json" where
  "alias_doc a = JObj [(''alias'', JStr (fst a)), (''target'', JStr (snd a))]"

definition rate_limit_doc :: "wire_lib \<Rightarrow> rate_limit_state \<Rightarrow> json" where
  "rate_limit_doc wl s = JObj
     [(''provider_id'', JStr (ps_provider_id s)), (''last_remaining'', opt_json json_u64 (ps_last_remaining s)),
      (''last_limit'', opt_json json_u64 (ps_last_limit s)),
      (''last_utilization_pct'', opt_json json_f64 (ps_last_utilization_pct s)),
      (''last_reset_at'', opt_json (date_json wl) (ps_last_reset_at s)),
      (''updated_at'', date_json wl (ps_updated_at s))]"

definition request_log_doc :: "wire_lib \<Rightarrow> request_log \<Rightarrow> json" where
  "request_log_doc wl l = JObj
     ([(''id'', JStr (rl_id l)), (''endpoint'', JStr (rl_endpoint l)),
       (''requested_model'', JStr (rl_requested_model l)), (''resolved_model'', JStr (rl_resolved_model l)),
       (''provider_id'', opt_str_json (rl_provider_id l)),
       (''provider_account_id'', opt_str_json (rl_provider_account_id l)),
       (''account_label'', opt_str_json (rl_account_label l)), (''api_key_name'', opt_str_json (rl_api_key_name l)),
       (''status'', int_json (rl_status l)), (''error'', opt_str_json (rl_error l)),
       (''attempts'', int_json (rl_attempts l)), (''is_stream'', JBool (rl_is_stream l)),
       (''input_tokens'', opt_json int_json (rl_input_tokens l)),
       (''output_tokens'', opt_json int_json (rl_output_tokens l)),
       (''cache_read_tokens'', opt_json int_json (rl_cache_read_tokens l)),
       (''cost_usd'', opt_json json_f64 (rl_cost_usd l)), (''duration_ms'', int_json (rl_duration_ms l))]
      @ (case rl_client_body l of None \<Rightarrow> [] | Some b \<Rightarrow> [(''client_body'', JStr b)])
      @ [(''created_at'', date_json wl (rl_created_at l))])"

definition request_debug_doc :: "wire_lib \<Rightarrow> request_debug_log \<Rightarrow> json" where
  "request_debug_doc wl l = JObj
     [(''id'', JStr (dq_id l)), (''request_id'', JStr (dq_request_id l)), (''provider_id'', JStr (dq_provider_id l)),
      (''provider_account_id'', opt_str_json (dq_provider_account_id l)), (''model'', JStr (dq_model l)),
      (''endpoint'', JStr (dq_endpoint l)), (''sequence_no'', int_json (dq_sequence_no l)),
      (''raw_body'', JStr (dq_raw_body l)), (''created_at'', date_json wl (dq_created_at l))]"

definition response_debug_doc :: "wire_lib \<Rightarrow> response_debug_log \<Rightarrow> json" where
  "response_debug_doc wl l = JObj
     [(''id'', JStr (dr_id l)), (''request_id'', JStr (dr_request_id l)), (''provider_id'', JStr (dr_provider_id l)),
      (''provider_account_id'', opt_str_json (dr_provider_account_id l)), (''model'', JStr (dr_model l)),
      (''endpoint'', JStr (dr_endpoint l)), (''sequence_no'', int_json (dr_sequence_no l)),
      (''upstream_status'', int_json (dr_upstream_status l)), (''raw_body'', JStr (dr_raw_body l)),
      (''reasoning_summary_json'', opt_str_json (dr_reasoning_summary_json l)),
      (''obfuscation_count'', int_json (dr_obfuscation_count l)), (''created_at'', date_json wl (dr_created_at l))]"

definition key_doc :: "wire_lib \<Rightarrow> key_view \<Rightarrow> json" where
  "key_doc wl k = JObj
     [(''id'', JStr (kv_id k)), (''name'', JStr (kv_name k)), (''key_prefix'', JStr (kv_key_prefix k)),
      (''allowed_models'', strs_json (kv_allowed_models k)), (''is_active'', JBool (kv_is_active k)),
      (''last_used_at'', opt_json (date_json wl) (kv_last_used_at k)),
      (''usage_count'', int_json (kv_usage_count k)), (''created_at'', date_json wl (kv_created_at k)),
      (''updated_at'', date_json wl (kv_updated_at k))]"

definition key_created_doc :: "api_key_created \<Rightarrow> json" where
  "key_created_doc k = JObj
     [(''id'', JStr (kc_id k)), (''name'', JStr (kc_name k)), (''key'', JStr (kc_key k)),
      (''key_prefix'', JStr (kc_key_prefix k))]"

text \<open>\<open>json!\<close> collects what it is given as a \<open>Value\<close>.\<close>

fun reply_doc :: "wire_lib \<Rightarrow> api_reply \<Rightarrow> json" where
  "reply_doc wl (Providers ps) = JArr (map (provider_doc wl) ps)"
| "reply_doc wl (ProviderRow p) = provider_doc wl p"
| "reply_doc wl (PresetList ps) = JArr (map (preset_doc wl) ps)"
| "reply_doc wl (Accounts as) = JArr (map (account_doc wl) as)"
| "reply_doc wl (AccountRow a) = account_doc wl a"
| "reply_doc wl (OAuthStarted s url here) =
     JObj [(''session'', session_doc wl s), (''authorization_url'', JStr url)]"
| "reply_doc wl (Combos cs) = JArr (map (combo_doc wl) cs)"
| "reply_doc wl (ComboRow c) = combo_doc wl c"
| "reply_doc wl (Aliases as) = JArr (map alias_doc as)"
| "reply_doc wl (Ratelimits ss) = json_obj [(''ratelimits'', value_of (JArr (map (rate_limit_doc wl) ss)))]"
| "reply_doc wl (LogRows ls) = json_obj [(''logs'', value_of (JArr (map (request_log_doc wl) ls)))]"
| "reply_doc wl (LogDetail l qs rs) = json_obj
     [(''log'', value_of (request_log_doc wl l)),
      (''upstream_requests'', value_of (JArr (map (request_debug_doc wl) qs))),
      (''upstream_responses'', value_of (JArr (map (response_debug_doc wl) rs)))]"
| "reply_doc wl (Keys ks) = JArr (map (key_doc wl) ks)"
| "reply_doc wl (KeyCreated k) = key_created_doc k"
| "reply_doc wl (Value v) = v"

section \<open>The whole call\<close>

datatype web_reply = Reply nat json | TurnedAway rejection

definition error_reply :: "app_error \<Rightarrow> web_reply" where
  "error_reply e = (case into_response e of (status, body) \<Rightarrow> Reply status body)"

definition read_request :: "wire_lib \<Rightarrow> app_route \<Rightarrow> web_request \<Rightarrow> (rejection + api_request) option" where
  "read_request wl r q = map_option (\<lambda>f. f wl r q) (map_of request_readers (ar_handler r))"

text \<open>The credential is asked for first, before the query and the body are looked at.\<close>

definition run_handler ::
  "wire_lib \<Rightarrow> api_env \<Rightarrow> web_request \<Rightarrow> rejection + api_request \<Rightarrow> db \<times> nat \<Rightarrow> web_reply \<times> db \<times> nat" where
  "run_handler wl ae q read s =
     (case on_db (management_auth (ae_now ae) (ae_auth ae) (wq_headers q)) s of
        (Inl e, s) \<Rightarrow> (error_reply e, s)
      | (Inr ctx, s) \<Rightarrow>
          (case read of
             Inl why \<Rightarrow> (TurnedAway why, s)
           | Inr req \<Rightarrow>
               (case api_handler ae req s of
                  (Inl e, s) \<Rightarrow> (error_reply e, s)
                | (Inr rep, s) \<Rightarrow> (Reply 200 (reply_doc wl rep), s))))"

text \<open>A request under the guard; the other requests are not answered here.\<close>

definition manage :: "wire_lib \<Rightarrow> api_env \<Rightarrow> web_request \<Rightarrow> db \<times> nat \<Rightarrow> web_reply option \<times> db \<times> nat" where
  "manage wl ae q s =
     (case dispatch (wq_method q) (wq_path q) of
        Handler r \<Rightarrow>
          (case read_request wl r q of
             None \<Rightarrow> (None, s)
           | Some read \<Rightarrow> (let (rep, s) = run_handler wl ae q read s in (Some rep, s)))
      | _ \<Rightarrow> (None, s))"

section \<open>Signing in\<close>

definition read_password :: "json \<Rightarrow> string option" where
  "read_password v = Option.bind (fields_of [''password''] v) (must_have as_str ''password'')"

definition read_auth_request :: "wire_lib \<Rightarrow> web_request \<Rightarrow> string \<Rightarrow> (rejection + auth_request) option" where
  "read_auth_request wl q handler =
     (if handler = ''auth_status'' then Some (Inr AuthStatus)
      else if handler = ''auth_setup'' then Some (rbind (json_body read_password wl q) (\<lambda>p. Inr (AuthSetup p)))
      else if handler = ''auth_login'' then Some (rbind (json_body read_password wl q) (\<lambda>p. Inr (AuthLogin p)))
      else if handler = ''auth_logout'' then Some (Inr AuthLogout)
      else None)"

definition done_doc :: "string \<Rightarrow> json" where
  "done_doc message = json_obj [(''status'', JStr ''ok''), (''message'', JStr message)]"

fun auth_doc :: "auth_request \<Rightarrow> auth_reply \<Rightarrow> json" where
  "auth_doc req (Status wanted set_up) =
     JObj [(''auth_required'', JBool wanted), (''setup_complete'', JBool set_up)]"
| "auth_doc (AuthLogin p) rep = done_doc ''logged in''"
| "auth_doc AuthLogout rep = done_doc ''logged out''"
| "auth_doc req rep = done_doc ''Admin password set and auth enabled''"

fun cookie_header :: "auth_reply \<Rightarrow> headers" where
  "cookie_header (Cookie c) = [(''set-cookie'', c)]"
| "cookie_header _ = []"

definition sign_in ::
  "wire_lib \<Rightarrow> auth_lib \<Rightarrow> string \<Rightarrow> web_request \<Rightarrow> db \<Rightarrow> (web_reply \<times> headers) option \<times> db" where
  "sign_in wl lib new_secret q d =
     (case dispatch (wq_method q) (wq_path q) of
        Handler r \<Rightarrow>
          (case read_auth_request wl q (ar_handler r) of
             None \<Rightarrow> (None, d)
           | Some (Inl why) \<Rightarrow> (Some (TurnedAway why, []), d)
           | Some (Inr req) \<Rightarrow>
               (case auth_api lib new_secret req d of
                  (Inl e, d) \<Rightarrow> (Some (error_reply e, []), d)
                | (Inr rep, d) \<Rightarrow> (Some (Reply 200 (auth_doc req rep), cookie_header rep), d)))
      | _ \<Rightarrow> (None, d))"

section \<open>What is shown can be read\<close>

lemma fields_of_distinct:
  assumes "distinct (map fst ms)"
  shows "fields_of names (JObj ms) = Some (False, map_of ms)"
proof -
  have "length (filter (\<lambda>m. fst m = n) ms) \<le> 1" for n
    using assms
  proof (induction ms)
    case (Cons m ms)
    then have "filter (\<lambda>x. fst x = fst m) ms = []" by (auto simp: filter_empty_conv image_iff)
    with Cons show ?case by auto
  qed simp
  then show ?thesis by (simp add: fields_of_def list_all_iff)
qed

lemma as_i64_int_json:
  assumes "- (2 ^ 63) \<le> i" and "i < 2 ^ 63"
  shows "as_i64 (int_json i) = Some i"
proof (cases "i < 0")
  case False
  then have "uint (word_of_int i :: u64) = i" using assms(2) by (simp add: uint_word_of_int)
  then have "unat (word_of_int i :: u64) = nat i" by (simp add: unat_eq_nat_uint)
  with False assms(2) show ?thesis by (simp add: int_json_def)
qed (simp add: int_json_def)

lemma or_null_opt_json:
  assumes "\<And>x. f (g x) = Some x" and "\<And>x. g x \<noteq> JNull"
  shows "or_null f (opt_json g v) = Some v"
  using assms by (cases v) (simp_all add: or_null_def opt_json_def)

lemma obj_insert_last: "(\<forall>k' \<in> fst ` set ob. k' < k) \<Longrightarrow> obj_insert k v ob = ob @ [(k, v)]"
  by (induction ob) (auto simp: less_le_not_le)

lemma map_from_pairs_sorted: "obj_sorted m \<Longrightarrow> map_from_pairs m = m"
proof (induction m rule: rev_induct)
  case (snoc kv m)
  then have "obj_sorted m" and "\<forall>k' \<in> fst ` set m. k' < fst kv"
    by (auto simp: obj_sorted_def sorted_wrt_append)
  with snoc.IH show ?case
    by (cases kv) (simp add: map_from_pairs_def obj_insert_last)
qed (simp add: map_from_pairs_def)

lemma read_map_shown: "obj_sorted m \<Longrightarrow> read_map (map_json m) = Some m"
  by (simp add: read_map_def map_from_pairs_sorted)

lemma shown_fields:
  "or_null as_str (opt_str_json v) = Some v" "or_null string_list (strs_json ss) = Some (Some ss)"
  "obj_sorted m \<Longrightarrow> or_null read_map (map_json m) = Some (Some m)"
  "- (2 ^ 63) \<le> i \<Longrightarrow> i < 2 ^ 63 \<Longrightarrow> or_null as_i64 (int_json i) = Some (Some i)"
  "or_null as_str (JStr s) = Some (Some s)"
  by (simp_all add: or_null_opt_json) (simp_all add: or_null_def strs_json_def map_json_def int_json_def
      read_map_shown [unfolded map_json_def] string_list_strs [unfolded strs_json_def] as_i64_int_json [unfolded int_json_def])

definition sendable :: "provider \<Rightarrow> bool" where
  "sendable p \<longleftrightarrow> - (2 ^ 63) \<le> p_priority p \<and> p_priority p < 2 ^ 63
     \<and> obj_sorted (p_extra_headers p) \<and> obj_sorted (p_endpoint_paths p) \<and> obj_sorted (p_stream_endpoint_paths p)"

definition as_new :: "provider \<Rightarrow> new_provider" where
  "as_new p = \<lparr>np_provider = p_provider p, np_base_url = p_base_url p, np_api_key = p_api_key p,
     np_auth_type = p_auth_type p, np_auth_header = p_auth_header p, np_auth_prefix = p_auth_prefix p,
     np_extra_headers = p_extra_headers p, np_endpoint_paths = Some (p_endpoint_paths p),
     np_stream_endpoint_paths = Some (p_stream_endpoint_paths p), np_model_prefix = Some (p_model_prefix p),
     np_name = p_name p, np_enabled = p_enabled p, np_priority = Some (p_priority p),
     np_default_model = p_default_model p, np_supported_endpoints = Some (p_supported_endpoints p),
     np_rate_limit_protection = p_rate_limit_protection p, np_protocol_format = p_protocol_format p\<rparr>"

lemma read_shown_provider:
  assumes "sendable p"
  shows "read_new_provider (provider_doc wl p) = Some (as_new p)"
proof -
  have members: "fields_of new_provider_fields (provider_doc wl p) = Some (False, map_of
      (case provider_doc wl p of JObj ms \<Rightarrow> ms | _ \<Rightarrow> []))"
    unfolding provider_doc_def json.case by (rule fields_of_distinct) simp
  show ?thesis
    using assms
    unfolding read_new_provider_def members bind.bind_lunit
    by (simp add: provider_doc_def must_have_def optional_def defaulted_def shown_fields read_map_shown
        as_new_def sendable_def)
qed

section \<open>Every guarded route has its reader\<close>

lemma guarded_readable:
  "list_all (\<lambda>r. ar_guard r = Managed \<longrightarrow> List.member (map fst request_readers) (ar_handler r)) app_routes"
  by code_simp

lemma guarded_read:
  assumes "r \<in> set app_routes" and "ar_guard r = Managed"
  shows "\<exists>read. read_request wl r q = Some read"
proof -
  have "ar_handler r \<in> fst ` set request_readers"
    using guarded_readable assms by (auto simp: list_all_iff)
  then have "map_of request_readers (ar_handler r) \<noteq> None" by (simp add: map_of_eq_None_iff)
  then show ?thesis by (auto simp: read_request_def)
qed

section \<open>The call and the operation\<close>

lemma run_handler_api:
  "run_handler wl ae q (Inr req) s =
     (case api ae (wq_headers q) req s of
        (Inl e, s) \<Rightarrow> (error_reply e, s) | (Inr rep, s) \<Rightarrow> (Reply 200 (reply_doc wl rep), s))"
  by (simp add: run_handler_def api_def and_then_def split: prod.splits sum.splits)

text \<open>The handlers that use a secret on behalf of the caller.\<close>

definition secret_handlers :: "string list" where
  "secret_handlers = [''complete_provider_account_oauth'', ''refresh_provider_account'']"

definition spends_secrets :: "web_request \<Rightarrow> bool" where
  "spends_secrets q =
     (case dispatch (wq_method q) (wq_path q) of Handler r \<Rightarrow> ar_handler r \<in> set secret_handlers | _ \<Rightarrow> False)"

definition keeps_out :: "reader \<Rightarrow> bool" where
  "keeps_out f \<longleftrightarrow> (\<forall>wl r q req. f wl r q = Inr req \<longrightarrow> \<not> uses_secrets req)"

lemma keeps_out_readers:
  "\<not> uses_secrets req \<Longrightarrow> keeps_out (no_input req)"
  "(\<And>v. \<not> uses_secrets (g v)) \<Longrightarrow> keeps_out (by_path g)"
  "(\<And>w v. f w = Some v \<Longrightarrow> \<not> uses_secrets (h v)) \<Longrightarrow> keeps_out (by_body f h)"
  "(\<And>kvs req. k kvs = Some req \<Longrightarrow> \<not> uses_secrets req) \<Longrightarrow> keeps_out (by_query k)"
  "keeps_out read_set_proxy" "keeps_out read_create_account"
proof -
  show "keeps_out read_create_account"
    by (auto simp: keeps_out_def read_create_account_def by_body_def rbind_Inr)
qed (auto simp: keeps_out_def no_input_def by_path_def by_body_def by_query_def read_set_proxy_def rbind_Inr
      json_body_def ok_or_Inr bind_eq_Some_conv split: if_splits)

lemma read_keeps_out:
  "read_accounts_query kvs = Some req \<Longrightarrow> \<not> uses_secrets req"
  "read_logs_query kvs = Some req \<Longrightarrow> \<not> uses_secrets req"
  "read_oauth_start v = Some req \<Longrightarrow> \<not> uses_secrets req"
  "read_new_key v = Some req \<Longrightarrow> \<not> uses_secrets req"
  by (auto simp: read_accounts_query_def read_logs_query_def read_oauth_start_def read_new_key_def
      bind_eq_Some_conv split: option.splits)

lemma readers_keep_out:
  "list_all (\<lambda>(h, f). h \<in> set secret_handlers \<or> keeps_out f) request_readers"
  unfolding request_readers_def list.pred_inject prod.case secret_handlers_def
  by simp (intro conjI keeps_out_readers; auto dest: read_keeps_out)

lemma spends_secrets_read:
  assumes "dispatch (wq_method q) (wq_path q) = Handler r" and "\<not> spends_secrets q"
    and "read_request wl r q = Some (Inr req)"
  shows "\<not> uses_secrets req"
proof -
  obtain f where f: "map_of request_readers (ar_handler r) = Some f" and read: "f wl r q = Inr req"
    using assms(3) by (auto simp: read_request_def)
  from map_of_SomeD [OF f] have "ar_handler r \<in> set secret_handlers \<or> keeps_out f"
    using readers_keep_out by (auto simp: list_all_iff)
  moreover have "ar_handler r \<notin> set secret_handlers" using assms(1,2) by (simp add: spends_secrets_def)
  ultimately show ?thesis using read by (auto simp: keeps_out_def)
qed

lemma run_handler_alike:
  assumes "\<And>req. read = Inr req \<Longrightarrow> \<not> uses_secrets req" and "alike s t"
  shows "fst (run_handler wl ae q read s) = fst (run_handler wl ae q read t)
     \<and> alike (snd (run_handler wl ae q read s)) (snd (run_handler wl ae q read t))"
proof (cases read)
  case (Inl why)
  have "blind (on_db (management_auth (ae_now ae) (ae_auth ae) (wq_headers q)))"
    by (intro blind_on_db management_auth_alike)
  from blindD [OF this assms(2)] show ?thesis
    by (auto simp: run_handler_def Inl answers_alike_def split: prod.splits sum.splits)
next
  case (Inr req)
  then have "blind (api ae (wq_headers q) req)" by (intro blind_api assms(1))
  from blindD [OF this assms(2)] show ?thesis
    by (auto simp: run_handler_api Inr answers_alike_def split: prod.splits sum.splits)
qed

lemma manage_alike:
  assumes "\<not> spends_secrets q" and "alike s t"
  shows "fst (manage wl ae q s) = fst (manage wl ae q t) \<and> alike (snd (manage wl ae q s)) (snd (manage wl ae q t))"
proof (cases "dispatch (wq_method q) (wq_path q)")
  case (Handler r)
  show ?thesis
  proof (cases "read_request wl r q")
    case (Some read)
    have "\<not> uses_secrets req" if "read = Inr req" for req
      using spends_secrets_read [OF Handler assms(1), of wl req] Some that by simp
    from run_handler_alike [OF this assms(2)] show ?thesis
      by (simp add: manage_def Handler Some Let_def split_beta)
  qed (simp add: manage_def Handler assms(2))
qed (simp_all add: manage_def assms(2))

text \<open>Requests one after the other, each with what it draws on.\<close>

fun web_replies :: "wire_lib \<Rightarrow> (api_env \<times> web_request) list \<Rightarrow> db \<times> nat \<Rightarrow> web_reply option list" where
  "web_replies wl [] s = []"
| "web_replies wl ((ae, q) # calls) s = (let (rep, s) = manage wl ae q s in rep # web_replies wl calls s)"

lemma web_replies_alike:
  assumes "list_all (\<lambda>(ae, q). \<not> spends_secrets q) calls" and "alike s t"
  shows "web_replies wl calls s = web_replies wl calls t"
  using assms
proof (induction calls arbitrary: s t)
  case (Cons call calls)
  obtain ae q where call: "call = (ae, q)" by (cases call)
  show ?case using Cons manage_alike [of q s t wl ae] by (auto simp: call split_beta Let_def)
qed simp

text \<open>Over HTTP, too, the database moves by repository statements.\<close>

lemma manage_statements:
  assumes "\<And>req. keeps R (api ae (wq_headers q) req)" and "\<And>s. R s s"
    and "keeps R (on_db (management_auth (ae_now ae) (ae_auth ae) (wq_headers q)))"
  shows "R s (snd (manage wl ae q s))"
proof (cases "dispatch (wq_method q) (wq_path q)")
  case (Handler r)
  show ?thesis
  proof (cases "read_request wl r q")
    case (Some read)
    have "R s (snd (run_handler wl ae q read s))"
    proof (cases read)
      case (Inl why)
      obtain x s' where auth: "on_db (management_auth (ae_now ae) (ae_auth ae) (wq_headers q)) s = (x, s')"
        by (metis prod.exhaust)
      then have "R s s'" using assms(3) keepsD by blast
      then show ?thesis by (cases x) (simp_all add: run_handler_def Inl auth)
    next
      case (Inr req)
      obtain x s' where call: "api ae (wq_headers q) req s = (x, s')" by (metis prod.exhaust)
      then have "R s s'" using assms(1) keepsD by blast
      then show ?thesis by (cases x) (simp_all add: run_handler_api Inr call)
    qed
    then show ?thesis by (simp add: manage_def Handler Some Let_def split_beta)
  qed (simp add: manage_def Handler assms(2))
qed (simp_all add: manage_def assms(2))

lemma manage_api_db:
  assumes "inj (ae_fresh ae)" and "manage wl ae q (d, n) = (rep, d', n')"
    and "unused (ae_fresh ae) n u" and "db_ok \<lparr>w_used = u, w_db = d\<rparr>"
  shows "\<exists>u'. unused (ae_fresh ae) n' u' \<and> db_ok \<lparr>w_used = u', w_db = d'\<rparr>
     \<and> db_step\<^sup>*\<^sup>* \<lparr>w_used = u, w_db = d\<rparr> \<lparr>w_used = u', w_db = d'\<rparr>"
proof -
  have "minted (ae_fresh ae) (d, n) (snd (manage wl ae q (d, n)))"
    by (rule manage_statements) (rule api_keeps assms(1) statements.stay keeps_on_db moves_management)+
  then show ?thesis using assms(2-4) db_steps_ok by (fastforce simp: minted_def)
qed

text \<open>A connection as new: its configuration under another identifier, without a history.\<close>

definition copied :: "timestamp \<Rightarrow> string \<Rightarrow> provider \<Rightarrow> provider" where
  "copied now i p = p\<lparr>p_id := i, p_last_error := None, p_last_error_at := None, p_last_error_type := None,
     p_last_error_source := None, p_rate_limited_until := None, p_circuit_open_until := None,
     p_last_used_at := None, p_backoff_level := 0, p_consecutive_use_count := 0, p_test_status := None,
     p_created_at := now, p_updated_at := now\<rparr>"

lemma create_copied:
  "create_provider_connection now i (as_new p) d
     = (copied now i p, d\<lparr>db_providers := db_providers d @ [(copied now i p, ''priority'')]\<rparr>)"
  by (cases p) (simp add: create_provider_connection_def Let_def as_new_def copied_def)

lemma dispatch_create_provider:
  "dispatch ''POST'' ''/api/providers'' = Handler (route_to ''POST'' ''/api/providers'' Managed ''create_provider'')"
  by code_simp

lemma reader_create_provider:
  "map_of request_readers ''create_provider'' = Some (by_body read_new_provider CreateProvider)"
  by (simp add: request_readers_def)

lemma create_provider_copied:
  "create_provider ae (as_new p) (d, n) =
     (Inr (ProviderRow (copied (ae_now ae) (ae_fresh ae n) p)),
      d\<lparr>db_providers := db_providers d @ [(copied (ae_now ae) (ae_fresh ae n) p, ''priority'')]\<rparr>, Suc n)"
  by (simp add: create_provider_def and_then_def mint_provider_def create_copied reply_with_def)

text \<open>Every route under \<open>/api\<close> is either guarded or one of the four for signing in.\<close>

lemma api_routes_read:
  "list_all (\<lambda>r. if ar_guard r = Managed then List.member (map fst request_readers) (ar_handler r)
      else List.member [''auth_status'', ''auth_setup'', ''auth_login'', ''auth_logout''] (ar_handler r))
    management_routes"
  by code_simp

end
