(* ===== verification/Updates.thy ===== *)
theory Updates
  imports Queries
begin

text \<open>
  The \<open>UPDATE\<close> statements of \<open>src/repository.rs\<close> on stored rows: the health of connections and
  accounts, their addresses, credentials and switches, and the use of keys. Every statement names
  one identifier and sets columns to bound values, to \<open>COALESCE(?, column)\<close> or to \<open>column + 1\<close>. The
  rest of the development updates fields of records; a sequence of statements does to the rows of
  the records what the operations do to the records, as long as no counter reaches the bound of a
  64-bit integer.
\<close>

section \<open>Setting columns\<close>

datatype assignment =
    Put string sql_value
  | Keep string sql_value
  | Bump string

definition coalesce :: "sql_value \<Rightarrow> sql_value \<Rightarrow> sql_value" where
  "coalesce v w = (if v = VNull then w else v)"

text \<open>
  SQLite goes over to floating point where an integer would overflow. The columns that are counted
  up are declared \<open>INTEGER\<close> and hold no texts.
\<close>

fun incremented :: "sql_value \<Rightarrow> sql_value" where
  "incremented (VInt n) = (if n + 1 < 2 ^ 63 then VInt (n + 1) else VReal (Fin (of_int (n + 1))))"
| "incremented (VReal x) = VReal (f64_add x (Fin 1))"
| "incremented v = v"

text \<open>The right-hand sides are evaluated on the old row; no statement sets a column twice.\<close>

fun new_value :: "assignment list \<Rightarrow> string \<Rightarrow> sql_value \<Rightarrow> sql_value" where
  "new_value [] k v = v"
| "new_value (Put j w # as) k v = (if j = k then w else new_value as k v)"
| "new_value (Keep j w # as) k v = (if j = k then coalesce w v else new_value as k v)"
| "new_value (Bump j # as) k v = (if j = k then incremented v else new_value as k v)"

definition set_columns :: "assignment list \<Rightarrow> row \<Rightarrow> row" where
  "set_columns as r = map (\<lambda>(k, v). (k, new_value as k v)) r"

definition update_by_id :: "string \<Rightarrow> assignment list \<Rightarrow> row list \<Rightarrow> nat \<times> row list" where
  "update_by_id i as = update_where (column_is ''id'' i) (set_columns as)"

section \<open>The statements\<close>

definition base_url_columns :: "row_lib \<Rightarrow> timestamp \<Rightarrow> string \<Rightarrow> assignment list" where
  "base_url_columns rl now url = [Put ''base_url'' (VText url), Put ''updated_at'' (date_text rl now)]"

definition name_columns :: "row_lib \<Rightarrow> timestamp \<Rightarrow> string \<Rightarrow> assignment list" where
  "name_columns rl now name = [Put ''name'' (VText name), Put ''updated_at'' (date_text rl now)]"

definition failure_kind :: "string \<Rightarrow> sql_value" where
  "failure_kind message = VText (if is_rate_limit_message message then ''rate_limit'' else ''upstream_error'')"

definition limited_until :: "row_lib \<Rightarrow> timestamp \<Rightarrow> string \<Rightarrow> sql_value" where
  "limited_until rl now message =
     (if is_rate_limit_message message then date_text rl (now + 30 * second) else VNull)"

definition connection_failure_columns :: "row_lib \<Rightarrow> timestamp \<Rightarrow> string \<Rightarrow> assignment list" where
  "connection_failure_columns rl now message =
     [Put ''last_error'' (VText message),
      Put ''last_error_at'' (date_text rl now),
      Put ''last_error_type'' (failure_kind message),
      Put ''last_error_source'' (VText ''gateway''),
      Keep ''rate_limited_until'' (limited_until rl now message),
      Put ''circuit_open_until'' (date_text rl (now + 15 * second)),
      Put ''test_status'' (VText ''error''),
      Put ''updated_at'' (date_text rl now),
      Bump ''backoff_level'',
      Put ''consecutive_use_count'' (VInt 0)]"

definition connection_success_columns :: "row_lib \<Rightarrow> timestamp \<Rightarrow> assignment list" where
  "connection_success_columns rl now =
     [Put ''last_error'' VNull,
      Put ''last_error_at'' VNull,
      Put ''last_error_type'' VNull,
      Put ''last_error_source'' VNull,
      Put ''rate_limited_until'' VNull,
      Put ''circuit_open_until'' VNull,
      Put ''test_status'' (VText ''ok''),
      Put ''updated_at'' (date_text rl now),
      Put ''last_used_at'' (date_text rl now),
      Put ''backoff_level'' (VInt 0),
      Bump ''consecutive_use_count'']"

definition proxy_columns :: "row_lib \<Rightarrow> timestamp \<Rightarrow> string option \<Rightarrow> assignment list" where
  "proxy_columns rl now url = [Put ''proxy_url'' (opt_text url), Put ''updated_at'' (date_text rl now)]"

definition account_key_columns :: "row_lib \<Rightarrow> timestamp \<Rightarrow> string option \<Rightarrow> assignment list" where
  "account_key_columns rl now key = [Put ''api_key'' (opt_text key), Put ''updated_at'' (date_text rl now)]"

text \<open>What an authorization or a refresh brought for an account.\<close>

record credentials =
  cd_access_token :: string
  cd_refresh_token :: "string option"
  cd_expires_at :: "timestamp option"
  cd_scopes :: "string list"
  cd_remote_account_id :: "string option"
  cd_remote_email :: "string option"
  cd_is_fedramp :: bool
  cd_api_key :: "string option"

definition credential_columns :: "row_lib \<Rightarrow> timestamp \<Rightarrow> credentials \<Rightarrow> assignment list" where
  "credential_columns rl now c =
     [Put ''access_token'' (VText (cd_access_token c)),
      Keep ''refresh_token'' (opt_text (cd_refresh_token c)),
      Put ''expires_at'' (opt_date rl (cd_expires_at c)),
      Put ''scopes_json'' (strs_text rl (cd_scopes c)),
      Put ''remote_account_id'' (opt_text (cd_remote_account_id c)),
      Put ''remote_email'' (opt_text (cd_remote_email c)),
      Put ''is_fedramp'' (flag (cd_is_fedramp c)),
      Keep ''api_key'' (opt_text (cd_api_key c)),
      Put ''last_refresh_at'' (date_text rl now),
      Put ''refresh_error'' VNull,
      Put ''updated_at'' (date_text rl now)]"

definition refresh_error_columns :: "row_lib \<Rightarrow> timestamp \<Rightarrow> string \<Rightarrow> assignment list" where
  "refresh_error_columns rl now message =
     [Put ''refresh_error'' (VText message), Put ''updated_at'' (date_text rl now)]"

definition switch_columns :: "row_lib \<Rightarrow> timestamp \<Rightarrow> bool \<Rightarrow> assignment list" where
  "switch_columns rl now on = [Put ''enabled'' (flag on), Put ''updated_at'' (date_text rl now)]"

definition account_failure_columns :: "row_lib \<Rightarrow> timestamp \<Rightarrow> string \<Rightarrow> assignment list" where
  "account_failure_columns rl now message =
     [Put ''last_error'' (VText message),
      Put ''last_error_type'' (failure_kind message),
      Keep ''rate_limited_until'' (limited_until rl now message),
      Put ''circuit_open_until'' (date_text rl (now + 15 * second)),
      Put ''updated_at'' (date_text rl now),
      Bump ''backoff_level'',
      Put ''consecutive_use_count'' (VInt 0)]"

definition account_success_columns :: "row_lib \<Rightarrow> timestamp \<Rightarrow> assignment list" where
  "account_success_columns rl now =
     [Put ''last_error'' VNull,
      Put ''last_error_type'' VNull,
      Put ''rate_limited_until'' VNull,
      Put ''circuit_open_until'' VNull,
      Put ''last_used_at'' (date_text rl now),
      Put ''updated_at'' (date_text rl now),
      Put ''backoff_level'' (VInt 0),
      Bump ''consecutive_use_count'']"

definition key_use_columns :: "row_lib \<Rightarrow> timestamp \<Rightarrow> assignment list" where
  "key_use_columns rl now =
     [Put ''last_used_at'' (date_text rl now), Bump ''usage_count'', Put ''updated_at'' (date_text rl now)]"

section \<open>Running them\<close>

datatype row_write =
    ConnectionUrl string string
  | ConnectionName string string
  | ConnectionFailed string string
  | ConnectionSucceeded string
  | AccountProxy string "string option"
  | AccountKey string "string option"
  | AccountCredentials string credentials
  | AccountRefreshFailed string string
  | AccountSwitched string bool
  | AccountFailed string string
  | AccountSucceeded string
  | KeyUsed string

record tables =
  t_connections :: "row list"
  t_accounts :: "row list"
  t_keys :: "row list"

definition on_connections :: "(row list \<Rightarrow> nat \<times> row list) \<Rightarrow> tables \<Rightarrow> nat \<times> tables" where
  "on_connections f t = (case f (t_connections t) of (n, rs) \<Rightarrow> (n, t\<lparr>t_connections := rs\<rparr>))"

definition on_accounts :: "(row list \<Rightarrow> nat \<times> row list) \<Rightarrow> tables \<Rightarrow> nat \<times> tables" where
  "on_accounts f t = (case f (t_accounts t) of (n, rs) \<Rightarrow> (n, t\<lparr>t_accounts := rs\<rparr>))"

definition on_keys :: "(row list \<Rightarrow> nat \<times> row list) \<Rightarrow> tables \<Rightarrow> nat \<times> tables" where
  "on_keys f t = (case f (t_keys t) of (n, rs) \<Rightarrow> (n, t\<lparr>t_keys := rs\<rparr>))"

text \<open>
  Some functions answer whether the statement reached a row, \<open>rows_affected() > 0\<close>; those that
  record a use or a failure answer nothing.
\<close>

definition reached :: "nat \<times> 't \<Rightarrow> bool option \<times> 't" where
  "reached result = (Some (0 < fst result), snd result)"

definition silently :: "nat \<times> 't \<Rightarrow> bool option \<times> 't" where
  "silently result = (None, snd result)"

fun write_rows :: "row_lib \<Rightarrow> timestamp \<Rightarrow> row_write \<Rightarrow> tables \<Rightarrow> bool option \<times> tables" where
  "write_rows rl now (ConnectionUrl i url) t = reached (on_connections (update_by_id i (base_url_columns rl now url)) t)"
| "write_rows rl now (ConnectionName i n) t = reached (on_connections (update_by_id i (name_columns rl now n)) t)"
| "write_rows rl now (ConnectionFailed i m) t =
     silently (on_connections (update_by_id i (connection_failure_columns rl now m)) t)"
| "write_rows rl now (ConnectionSucceeded i) t =
     silently (on_connections (update_by_id i (connection_success_columns rl now)) t)"
| "write_rows rl now (AccountProxy i url) t = reached (on_accounts (update_by_id i (proxy_columns rl now url)) t)"
| "write_rows rl now (AccountKey i key) t = reached (on_accounts (update_by_id i (account_key_columns rl now key)) t)"
| "write_rows rl now (AccountCredentials i c) t = reached (on_accounts (update_by_id i (credential_columns rl now c)) t)"
| "write_rows rl now (AccountRefreshFailed i m) t =
     reached (on_accounts (update_by_id i (refresh_error_columns rl now m)) t)"
| "write_rows rl now (AccountSwitched i on) t = reached (on_accounts (update_by_id i (switch_columns rl now on)) t)"
| "write_rows rl now (AccountFailed i m) t =
     silently (on_accounts (update_by_id i (account_failure_columns rl now m)) t)"
| "write_rows rl now (AccountSucceeded i) t =
     silently (on_accounts (update_by_id i (account_success_columns rl now)) t)"
| "write_rows rl now (KeyUsed i) t = silently (on_keys (update_by_id i (key_use_columns rl now)) t)"

text \<open>The operations on records that the statements belong to.\<close>

definition answered :: "bool \<times> 'd \<Rightarrow> bool option \<times> 'd" where
  "answered result = (Some (fst result), snd result)"

fun write_records :: "timestamp \<Rightarrow> row_write \<Rightarrow> db \<Rightarrow> bool option \<times> db" where
  "write_records now (ConnectionUrl i url) d = answered (update_provider_connection_base_url now i url d)"
| "write_records now (ConnectionName i n) d = answered (update_provider_connection_name now i n d)"
| "write_records now (ConnectionFailed i m) d = (None, mark_provider_failure now i m d)"
| "write_records now (ConnectionSucceeded i) d = (None, mark_provider_success now i d)"
| "write_records now (AccountProxy i url) d =
     answered (update_account i (\<lambda>a. a\<lparr>a_proxy_url := url, a_updated_at := now\<rparr>) d)"
| "write_records now (AccountKey i key) d = answered (update_provider_account_api_key now i key d)"
| "write_records now (AccountCredentials i c) d =
     answered (update_provider_account_oauth_credentials now i (cd_access_token c) (cd_refresh_token c)
       (cd_expires_at c) (cd_scopes c) (cd_remote_account_id c) (cd_remote_email c) (cd_is_fedramp c)
       (cd_api_key c) d)"
| "write_records now (AccountRefreshFailed i m) d = answered (record_provider_account_refresh_error now i m d)"
| "write_records now (AccountSwitched i on) d = answered (set_provider_account_enabled now i on d)"
| "write_records now (AccountFailed i m) d = (None, mark_provider_account_failure now i m d)"
| "write_records now (AccountSucceeded i) d = (None, mark_provider_account_success now i d)"
| "write_records now (KeyUsed i) d = (None, touch_api_key_usage now i d)"

fun run_writes ::
  "(timestamp \<Rightarrow> row_write \<Rightarrow> 's \<Rightarrow> bool option \<times> 's) \<Rightarrow> (timestamp \<times> row_write) list \<Rightarrow> 's \<Rightarrow> bool option list \<times> 's" where
  "run_writes step [] s = ([], s)"
| "run_writes step ((now, w) # ws) s =
     (case step now w s of (b, s) \<Rightarrow> (case run_writes step ws s of (bs, s) \<Rightarrow> (b # bs, s)))"

lemma snd_run_writes [simp]:
  "snd (run_writes step ((now, w) # ws) s) = snd (run_writes step ws (snd (step now w s)))"
  by (simp split: prod.split)

section \<open>Rows that stand for records stay so\<close>

text \<open>A store that imitates another through a view of its states, as long as there is room.\<close>

locale write_simulation =
  fixes view :: "'s \<Rightarrow> 't" and room :: "nat \<Rightarrow> 's \<Rightarrow> bool"
    and concrete :: "timestamp \<Rightarrow> row_write \<Rightarrow> 't \<Rightarrow> bool option \<times> 't"
    and abstract :: "timestamp \<Rightarrow> row_write \<Rightarrow> 's \<Rightarrow> bool option \<times> 's"
  assumes imitates: "room (Suc n) s \<Longrightarrow> concrete now w (view s) = map_prod id view (abstract now w s)"
    and uses_room: "room (Suc n) s \<Longrightarrow> room n (snd (abstract now w s))"
begin

lemma run_imitates:
  "room (length ws) s \<Longrightarrow> run_writes concrete ws (view s) = map_prod id view (run_writes abstract ws s)"
proof (induction ws arbitrary: s)
  case (Cons tw ws)
  obtain now w where tw: "tw = (now, w)" by (cases tw)
  obtain b s' where s': "abstract now w s = (b, s')" by (cases "abstract now w s")
  have "room (Suc (length ws)) s" using Cons.prems by simp
  from imitates [OF this, of now w] uses_room [OF this, of now w] Cons.IH [of s']
  show ?case by (simp add: tw s' split: prod.split)
qed simp

end

named_theorems columns_set \<open>columns of a row after a statement\<close>

lemma kept_text [columns_set]: "coalesce (opt_text v) (opt_text w) = opt_text (or_else v w)"
  by (auto simp: coalesce_def opt_text_def split: option.split)

lemma kept_limit [columns_set]:
  "coalesce (limited_until rl now m) (opt_date rl v) =
     opt_date rl (or_else (if is_rate_limit_message m then Some (now + 30 * second) else None) v)"
  by (auto simp: coalesce_def limited_until_def opt_date_def date_text_def split: option.split)

lemma counted_up [columns_set]: "n + 1 < 2 ^ 63 \<Longrightarrow> incremented (VInt n) = VInt (n + 1)"
  by simp

lemmas provider_columns = set_columns_def provider_row_def base_url_columns_def name_columns_def
  connection_failure_columns_def connection_success_columns_def failure_kind_def fail_provider_def succeed_provider_def

lemma provider_row_set:
  "set_columns (base_url_columns rl now url) (provider_row rl p)
     = provider_row rl (p\<lparr>p_base_url := url, p_updated_at := now\<rparr>)"
  "set_columns (name_columns rl now n) (provider_row rl p)
     = provider_row rl (p\<lparr>p_name := Some n, p_updated_at := now\<rparr>)"
  "p_backoff_level p + 1 < 2 ^ 63 \<Longrightarrow>
     set_columns (connection_failure_columns rl now m) (provider_row rl p) = provider_row rl (fail_provider now m p)"
  "p_consecutive_use_count p + 1 < 2 ^ 63 \<Longrightarrow>
     set_columns (connection_success_columns rl now) (provider_row rl p) = provider_row rl (succeed_provider now p)"
  by (simp_all add: provider_columns columns_set del: incremented.simps) (simp_all add: opt_text_def opt_date_def)

lemmas account_columns = set_columns_def account_row_def proxy_columns_def account_key_columns_def
  credential_columns_def refresh_error_columns_def switch_columns_def account_failure_columns_def
  account_success_columns_def failure_kind_def fail_account_def succeed_account_def

lemma account_row_set:
  "set_columns (proxy_columns rl now url) (account_row rl a)
     = account_row rl (a\<lparr>a_proxy_url := url, a_updated_at := now\<rparr>)"
  "set_columns (account_key_columns rl now key) (account_row rl a)
     = account_row rl (a\<lparr>a_api_key := key, a_updated_at := now\<rparr>)"
  "set_columns (credential_columns rl now c) (account_row rl a)
     = account_row rl (a\<lparr>a_access_token := Some (cd_access_token c),
         a_refresh_token := or_else (cd_refresh_token c) (a_refresh_token a), a_expires_at := cd_expires_at c,
         a_scopes := cd_scopes c, a_remote_account_id := cd_remote_account_id c,
         a_remote_email := cd_remote_email c, a_is_fedramp := cd_is_fedramp c,
         a_api_key := or_else (cd_api_key c) (a_api_key a), a_last_refresh_at := Some now,
         a_refresh_error := None, a_updated_at := now\<rparr>)"
  "set_columns (refresh_error_columns rl now m) (account_row rl a)
     = account_row rl (a\<lparr>a_refresh_error := Some m, a_updated_at := now\<rparr>)"
  "set_columns (switch_columns rl now on) (account_row rl a)
     = account_row rl (a\<lparr>a_enabled := on, a_updated_at := now\<rparr>)"
  "a_backoff_level a + 1 < 2 ^ 63 \<Longrightarrow>
     set_columns (account_failure_columns rl now m) (account_row rl a) = account_row rl (fail_account now m a)"
  "a_consecutive_use_count a + 1 < 2 ^ 63 \<Longrightarrow>
     set_columns (account_success_columns rl now) (account_row rl a) = account_row rl (succeed_account now a)"
  by (simp_all add: account_columns columns_set del: incremented.simps) (simp_all add: opt_text_def opt_date_def)

lemma key_row_set:
  "k_usage_count k + 1 < 2 ^ 63 \<Longrightarrow> set_columns (key_use_columns rl now) (key_row rl k)
     = key_row rl (k\<lparr>k_last_used_at := Some now, k_usage_count := k_usage_count k + 1, k_updated_at := now\<rparr>)"
  by (simp add: set_columns_def key_row_def key_use_columns_def columns_set opt_date_def del: incremented.simps)

text \<open>An update by identifier of rows that stand for records.\<close>

lemma update_by_id_rows:
  assumes "\<And>x. map_of (put x) ''id'' = Some (VText (ident x))"
    and "\<And>x. x \<in> set xs \<Longrightarrow> ident x = i \<Longrightarrow> set_columns as (put x) = put (f x)"
  shows "update_by_id i as (map put xs)
     = (length (filter (\<lambda>x. ident x = i) xs), map put (update_rows (\<lambda>x. ident x = i) f xs))"
proof -
  have "chosen (column_is ''id'' i) (put x) \<longleftrightarrow> ident x = i" for x
    by (rule column_is_known [OF assms(1)])
  then show ?thesis
    using assms(2) by (simp add: update_by_id_def update_where_def update_rows_def filter_map comp_def)
qed

lemma counted_found: "0 < length (filter P xs) \<longleftrightarrow> find P xs \<noteq> None"
  by (induction xs) auto

definition tables_of :: "row_lib \<Rightarrow> db \<Rightarrow> tables" where
  "tables_of rl d =
     \<lparr>t_connections = map (\<lambda>p. provider_row rl (fst p)) (db_providers d),
      t_accounts = map (account_row rl) (db_accounts d),
      t_keys = map (key_row rl) (db_api_keys d)\<rparr>"

text \<open>No counter reaches its bound within the next \<open>n\<close> statements.\<close>

definition counters_below :: "int \<Rightarrow> db \<Rightarrow> bool" where
  "counters_below b d \<longleftrightarrow> 0 < b
     \<and> (\<forall>p \<in> fst ` set (db_providers d). p_backoff_level p < b \<and> p_consecutive_use_count p < b)
     \<and> (\<forall>a \<in> set (db_accounts d). a_backoff_level a < b \<and> a_consecutive_use_count a < b)
     \<and> (\<forall>k \<in> set (db_api_keys d). k_usage_count k < b)"

definition room :: "nat \<Rightarrow> db \<Rightarrow> bool" where
  "room n d \<longleftrightarrow> counters_below (2 ^ 63 - int n) d"

lemma connections_updated:
  assumes "\<And>p. p \<in> fst ` set (db_providers d) \<Longrightarrow> set_columns as (provider_row rl p) = provider_row rl (f p)"
  shows "on_connections (update_by_id i as) (tables_of rl d)
     = (length (filter (\<lambda>p. p_id (fst p) = i) (db_providers d)), tables_of rl (update_provider_rows i f d))"
proof -
  have "update_by_id i as (map (\<lambda>p. provider_row rl (fst p)) (db_providers d))
      = (length (filter (\<lambda>p. p_id (fst p) = i) (db_providers d)),
         map (\<lambda>p. provider_row rl (fst p)) (update_rows (\<lambda>p. p_id (fst p) = i) (\<lambda>(p, s). (f p, s)) (db_providers d)))"
    by (rule update_by_id_rows) (auto simp: provider_row_get assms)
  then show ?thesis
    by (simp add: on_connections_def tables_of_def update_provider_rows_def case_prod_unfold)
qed

lemma accounts_updated:
  assumes "\<And>a. a \<in> set (db_accounts d) \<Longrightarrow> set_columns as (account_row rl a) = account_row rl (f a)"
  shows "on_accounts (update_by_id i as) (tables_of rl d)
     = (length (filter (\<lambda>a. a_id a = i) (db_accounts d)), tables_of rl (update_account_rows i f d))"
  using update_by_id_rows [of "account_row rl" a_id "db_accounts d" i as f] assms
  by (simp add: on_accounts_def tables_of_def update_account_rows_def account_row_get)

lemma keys_updated:
  assumes "\<And>k. k \<in> set (db_api_keys d) \<Longrightarrow> set_columns as (key_row rl k) = key_row rl (f k)"
  shows "on_keys (update_by_id i as) (tables_of rl d)
     = (length (filter (\<lambda>k. k_id k = i) (db_api_keys d)),
        tables_of rl (d\<lparr>db_api_keys := update_rows (\<lambda>k. k_id k = i) f (db_api_keys d)\<rparr>))"
  using update_by_id_rows [of "key_row rl" k_id "db_api_keys d" i as f] assms
  by (simp add: on_keys_def tables_of_def key_row_get)

lemma connection_reached:
  "reached (length (filter (\<lambda>p. p_id (fst p) = i) (db_providers d)), t)
     = (Some (find_provider_connection_by_id i d \<noteq> None), t)"
  by (simp only: reached_def find_provider_connection_by_id_def counted_found [symmetric] filter_map
      length_map comp_def fst_conv snd_conv)

lemma account_reached:
  "reached (length (filter (\<lambda>a. a_id a = i) (db_accounts d)), t) = (Some (get_provider_account i d \<noteq> None), t)"
  by (simp only: reached_def get_provider_account_def counted_found fst_conv snd_conv)

lemmas writes = update_provider_connection_base_url_def update_provider_connection_name_def
  mark_provider_failure_def mark_provider_success_def update_account_def update_provider_account_api_key_def
  update_provider_account_oauth_credentials_def record_provider_account_refresh_error_def
  set_provider_account_enabled_def mark_provider_account_failure_def mark_provider_account_success_def
  touch_api_key_usage_def answered_def silently_def connection_reached account_reached

lemma rows_imitate:
  assumes "room (Suc n) d"
  shows "write_rows rl now w (tables_of rl d) = map_prod id (tables_of rl) (write_records now w d)"
proof -
  have p: "p_backoff_level p + 1 < 2 ^ 63 \<and> p_consecutive_use_count p + 1 < 2 ^ 63"
    if "p \<in> fst ` set (db_providers d)" for p
    using assms that by (fastforce simp: room_def counters_below_def)
  have a: "a_backoff_level a + 1 < 2 ^ 63 \<and> a_consecutive_use_count a + 1 < 2 ^ 63" if "a \<in> set (db_accounts d)" for a
    using assms that by (fastforce simp: room_def counters_below_def)
  have k: "k_usage_count k + 1 < 2 ^ 63" if "k \<in> set (db_api_keys d)" for k
    using assms that by (fastforce simp: room_def counters_below_def)
  note conn = connections_updated [OF provider_row_set(1)] connections_updated [OF provider_row_set(2)]
    connections_updated [OF provider_row_set(3), OF conjunct1 [OF p]]
    connections_updated [OF provider_row_set(4), OF conjunct2 [OF p]]
  note acc = account_row_set(1-5) [THEN accounts_updated]
    accounts_updated [OF account_row_set(6), OF conjunct1 [OF a]]
    accounts_updated [OF account_row_set(7), OF conjunct2 [OF a]]
  show ?thesis
    by (cases w) (simp_all only: write_rows.simps write_records.simps conn acc
        keys_updated [OF key_row_set, OF k] writes map_prod_simp id_apply fst_conv snd_conv)
qed

lemma room_kept: "room (Suc n) d \<Longrightarrow> room n (snd (write_records now w d))"
  by (cases w) (fastforce simp: room_def counters_below_def writes update_provider_rows_def update_account_rows_def
      set_update_rows fail_provider_def succeed_provider_def fail_account_def succeed_account_def split: if_splits)+

interpretation stored_writes: write_simulation "tables_of rl" room "write_rows rl" write_records for rl
  by unfold_locales (rule rows_imitate, assumption, rule room_kept)

section \<open>Accounts that rest after a failure\<close>

fun account_written :: "row_write \<Rightarrow> string option" where
  "account_written (AccountProxy i url) = Some i"
| "account_written (AccountKey i key) = Some i"
| "account_written (AccountCredentials i c) = Some i"
| "account_written (AccountRefreshFailed i m) = Some i"
| "account_written (AccountSwitched i on) = Some i"
| "account_written (AccountFailed i m) = Some i"
| "account_written (AccountSucceeded i) = Some i"
| "account_written w = None"

definition resting :: "string \<Rightarrow> timestamp \<Rightarrow> db \<Rightarrow> bool" where
  "resting i u d \<longleftrightarrow> (\<forall>a \<in> set (db_accounts d). a_id a = i \<longrightarrow> (\<exists>c. a_circuit_open_until a = Some c \<and> u \<le> c))"

lemma failed_rests: "resting i (now + 15 * second) (snd (write_records now (AccountFailed i m) d))"
proof -
  have "a_circuit_open_until (fail_account now m a) = Some (now + 15 * second)" for a
    by (simp add: fail_account_def)
  then show ?thesis
    by (auto simp: resting_def mark_provider_account_failure_def update_account_rows_def update_rows_def)
qed

lemma still_resting:
  assumes "resting i (t + 15 * second) d" and "t \<le> now" and "w \<noteq> AccountSucceeded i"
  shows "resting i (t + 15 * second) (snd (write_records now w d))"
  using assms
  by (cases w) (fastforce simp: resting_def writes update_provider_rows_def update_account_rows_def set_update_rows
      fail_account_def succeed_account_def split: if_splits)+

lemma run_rests:
  assumes "resting i (t + 15 * second) d" and "list_all (\<lambda>(now, w). t \<le> now \<and> w \<noteq> AccountSucceeded i) ws"
  shows "resting i (t + 15 * second) (snd (run_writes write_records ws d))"
  using assms
proof (induction ws arbitrary: d)
  case (Cons tw ws)
  obtain now w where tw: "tw = (now, w)" by (cases tw)
  from Cons.prems still_resting [of i t d now w] Cons.IH [of "snd (write_records now w d)"]
  show ?case by (simp add: tw del: run_writes.simps)
qed simp

lemma resting_not_selected:
  assumes "resting i u d" and "now < u" and "a \<in> set (list_selectable_provider_accounts now p d)"
  shows "a_id a \<noteq> i"
  using assms by (fastforce simp: selectable_set account_selectable_def resting_def)

definition accounts_besides :: "string set \<Rightarrow> db \<Rightarrow> account list" where
  "accounts_besides is d = filter (\<lambda>a. a_id a \<notin> is) (db_accounts d)"

lemma others_updated:
  assumes "i \<in> is" and "\<And>a. a_id (f a) = a_id a"
  shows "accounts_besides is (update_account_rows i f d) = accounts_besides is d"
proof -
  have "filter (\<lambda>a. a_id a \<notin> is) (update_rows (\<lambda>a. a_id a = i) f as) = filter (\<lambda>a. a_id a \<notin> is) as" for as
    using assms by (induction as) (auto simp: update_rows_def)
  then show ?thesis by (simp add: accounts_besides_def update_account_rows_def)
qed

lemma others_written:
  assumes "\<And>i. account_written w = Some i \<Longrightarrow> i \<in> is"
  shows "accounts_besides is (snd (write_records now w d)) = accounts_besides is d"
  using assms by (cases w) (simp_all add: writes others_updated, simp_all add: accounts_besides_def update_provider_rows_def)

lemma others_run:
  assumes "\<And>now w i. (now, w) \<in> set ws \<Longrightarrow> account_written w = Some i \<Longrightarrow> i \<in> is"
  shows "accounts_besides is (snd (run_writes write_records ws d)) = accounts_besides is d"
  using assms
proof (induction ws arbitrary: d)
  case (Cons tw ws)
  obtain now w where tw: "tw = (now, w)" by (cases tw)
  have "accounts_besides is (snd (write_records now w d)) = accounts_besides is d"
    by (rule others_written) (use Cons.prems in \<open>auto simp: tw\<close>)
  moreover have "accounts_besides is (snd (run_writes write_records ws d')) = accounts_besides is d'" for d'
    by (rule Cons.IH) (use Cons.prems in auto)
  ultimately show ?case by (simp add: tw del: run_writes.simps)
qed simp

lemma selected_besides:
  "filter (\<lambda>a. a_id a \<notin> is) (list_selectable_provider_accounts now p d)
     = sort_key a_priority (sort_key a_created_at
         (filter (\<lambda>a. a_provider_connection_id a = p \<and> account_selectable now a) (accounts_besides is d)))"
  by (simp add: list_selectable_provider_accounts_def accounts_besides_def filter_sort conj_commute)

text \<open>The same of stored rows.\<close>

definition selected_rows :: "row_lib \<Rightarrow> timestamp \<Rightarrow> string \<Rightarrow> tables \<Rightarrow> row list" where
  "selected_rows rl now p t = select_selectable_accounts rl now p (t_accounts t)"

definition other_rows :: "string list \<Rightarrow> row list \<Rightarrow> row list" where
  "other_rows is = filter (\<lambda>r. cell r ''id'' \<notin> VText ` set is)"

lemma selected_rows_of:
  "dates_in_order rl \<Longrightarrow> selected_rows rl now p (tables_of rl d) = map (account_row rl) (list_selectable_provider_accounts now p d)"
  by (simp add: selected_rows_def tables_of_def selectable_account_rows)

lemma other_rows_of:
  assumes "dates_in_order rl"
  shows "other_rows is (selected_rows rl now p (tables_of rl d))
     = map (account_row rl) (filter (\<lambda>a. a_id a \<notin> set is) (list_selectable_provider_accounts now p d))"
proof -
  have "VText s \<in> VText ` S \<longleftrightarrow> s \<in> S" for s S by auto
  then show ?thesis
    by (simp add: selected_rows_of [OF assms] other_rows_def filter_map comp_def account_row_get)
qed

lemma other_rows_kept:
  assumes "dates_in_order rl" and "accounts_besides (set is) d' = accounts_besides (set is) d"
  shows "other_rows is (selected_rows rl now p (tables_of rl d')) = other_rows is (selected_rows rl now p (tables_of rl d))"
  using assms(2) by (simp add: other_rows_of [OF assms(1)] selected_besides)

lemma resting_rows:
  assumes "dates_in_order rl" and "resting i u d" and "now < u"
  shows "VText i \<notin> (\<lambda>r. cell r ''id'') ` set (selected_rows rl now p (tables_of rl d))"
proof -
  have "VText i \<noteq> cell (account_row rl a) ''id''" if "a \<in> set (list_selectable_provider_accounts now p d)" for a
    using resting_not_selected [OF assms(2,3) that] by (simp add: account_row_get)
  then show ?thesis by (auto simp: selected_rows_of [OF assms(1)] simp del: cell_known)
qed

end
