(* ===== verification/Spec2Isabelle.thy ===== *)
theory Spec2Isabelle
  imports Prelude
    Json
    Models
    Errors
    F64
    Upstream
    Search
    Execute
    Retry
    Trans_Common
    Trans_Claude
    Trans_Gemini
    Trans_Hub
    Cost
    RateLimits
    Cache
    Repository
    Logs
    Db_Invariant
    Requests
    Responses_Sse
    Auth
    OAuth
    Routing
    Fingerprint
    Route
    Route_Facts
    Route_History
    Raw_Proxy
    Raw_Facts
    Presets
    Proxy_Routes
    Proxy_Facts
    Admin_Routes
    Admin_Facts
    Catalog
    Oauth_Tokens
    Audio
    Clients
    Startup
    Application
    Schema
    Rows
    Rows_Cache
    Queries
    Route_Logs
    Jwt
    Secrecy
    Wire
    Updates
begin

text \<open>
  This development verifies the core of kou-router, an HTTP router that sits between clients of
  the OpenAI, Claude, Gemini, Ollama and Responses protocols and the providers that answer
  them. A call is normalised, mapped to one or more targets (a provider connection, perhaps
  with one of its accounts), translated to the provider's protocol, sent with retries, and its
  answer is translated back, buffered or streamed, and perhaps cached; what succeeded and what
  failed is recorded in the database and decides which targets the next calls see.

  Theories and the files under src/src/ they model, in the order they build on each other.

    \<^item> \<open>Prelude\<close> (byte-wise string functions of the Rust standard library, association lists,
      results, the collections of simplification rules); \<open>Json\<close> (serde\_json values, accessors,
      object updates); \<open>F64\<close> (IEEE doubles as rationals rounded to nearest even).
    \<^item> \<open>Models\<close> (models.rs), \<open>Errors\<close> (error.rs).
    \<^item> \<open>Upstream\<close> and \<open>Execute\<close> (upstream.rs: headers, credentials, URLs, request preparation,
      execution, stream watchdog), \<open>Search\<close> (search.rs), \<open>Retry\<close> (retry.rs),
      \<open>RateLimits\<close> (ratelimit.rs), \<open>Cost\<close> (cost.rs), \<open>Cache\<close> (response\_cache.rs).
    \<^item> \<open>Trans_Common\<close>, \<open>Trans_Claude\<close>, \<open>Trans_Gemini\<close>, \<open>Trans_Hub\<close> (translate/*.rs): the pairwise
      translators, the stream chunk translators and the hub registry.
    \<^item> \<open>Repository\<close> (repository.rs): each SQL statement group is an operation on a database record
      of tables held as lists of rows; \<open>Db_Invariant\<close>: a step relation of all statements, its
      invariant and what one statement may change.
    \<^item> \<open>Requests\<close>, \<open>Responses_Sse\<close>, \<open>Routing\<close>, \<open>Route\<close> (service.rs): normalisation and reply
      adaptation; Responses streams; the choice of targets; the attempt loop \<open>route\<close>.
      \<open>Route_Facts\<close> and \<open>Route_History\<close> hold its lemmas, \<open>Route_Logs\<close> the loop with the debug logs it
      starts. \<open>Logs\<close> has the log tables of
      repository.rs; \<open>Raw_Proxy\<close> (with \<open>Raw_Facts\<close>) the calls relayed byte for byte and the debug
      logs.
    \<^item> \<open>Auth\<close> (auth/*.rs), \<open>Jwt\<close> (auth/jwt.rs: the session tokens), \<open>OAuth\<close> (oauth/service.rs), \<open>Oauth_Tokens\<close> (oauth/codex.rs,
      oauth/claude.rs, oauth/mod.rs: the token endpoints), \<open>Fingerprint\<close> (fingerprint.rs).
    \<^item> \<open>Presets\<close> (presets.rs: preset tables and the start-up passes over the built-in connections),
      \<open>Catalog\<close> (native\_models.rs and the listings of models).
    \<^item> \<open>Proxy_Routes\<close> and \<open>Admin_Routes\<close> (routes.rs): the handlers of the model endpoints with
      their request logs, and those of the management API behind its guard; \<open>Proxy_Facts\<close> and
      \<open>Admin_Facts\<close> hold their lemmas, \<open>Secrecy\<close> what the second lets out. \<open>Audio\<close> (audio.rs): the two audio endpoints.
    \<^item> \<open>Clients\<close> (proxy.rs: the HTTP clients kept per proxy address), \<open>Startup\<close> (main.rs, ui.rs,
      oauth/callback\_server.rs: the command line, the first administrator, the files of the web
      interface, the callback page), \<open>Application\<close> (app.rs and the route table of routes.rs: which
      handler a request reaches, and behind which guard), \<open>Wire\<close> (the derives of models.rs and the
      extractors of routes.rs: the management API from its HTTP requests to the JSON of its replies).
    \<^item> \<open>Schema\<close> (db.rs: the tables, the columns added to older files and the indexes, as steps over a
      schema with its rows), \<open>Rows\<close> and \<open>Rows_Cache\<close> (repository.rs: what is bound for a record
      and how a row is read), \<open>Queries\<close> (repository.rs: the selecting statements on stored rows in
      the logic of SQL), \<open>Updates\<close> (repository.rs: the updating statements on stored rows). They connect the lists of records of \<open>Repository\<close> with the rows SQLite keeps.

  State. The router's state is the record \<open>router\<close>: the database, the round-robin counters,
  the tracked rate limits and the exchanges and refreshes asked for so far. Operations take and
  return it. Every early return of the code is a value of \<open>error + 'a\<close>; an attempt that
  panics ends a call with the outcome \<open>Panics\<close>.

  What is a parameter. The HTTP client, the token endpoints, clocks, random sources, SHA-256,
  Argon2, the JWT library, the JSON printer and parser, Unicode lower-casing and date parsing
  are arguments (fields of the \<open>..._lib\<close> and \<open>service\<close> records, or plain functions). A
  hypothesis about one of them is stated in the theorem that needs it and its witness
  instantiates it.

  Interfaces. \<open>attempt_contract\<close> in \<open>Route_Facts\<close> is what the loops of \<open>route\<close> need of one attempt;
  it is interpreted three times on the code's own \<open>try_target\<close>: for the statements it runs on
  the database, for the trail of attempts it reports, and for the number of exchanges.
  \<open>logging_step\<close> in \<open>Route_Logs\<close> is what the same loops need of a step that starts log tasks;
  \<open>raw_contract\<close> in \<open>Raw_Facts\<close> does the same for the loops of the raw calls, \<open>progress\<close> in
  \<open>Admin_Facts\<close> for the handlers of the management API. \<open>settling\<close> in \<open>Schema\<close> is what makes migrations
  safe to run again, \<open>settled_answers\<close> in \<open>Clients\<close> what a store of clients promises,
  \<open>stored_records\<close> in \<open>Queries\<close> what a table needs to stand for records; it is interpreted for
  six tables; \<open>write_simulation\<close> in \<open>Updates\<close> what makes a sequence of statements imitate the operations on records. The other locales are interpreted in the theory of the component that provides the operations.

  Fuel and bounds. The retry loop takes fuel; \<open>execute_with_retry_correct\<close> shows that one more
  than \<open>max_retries\<close> is enough for every value but the largest 32-bit one, where the counter
  wraps. Waiting for a cached stream's end is bounded by the code's own 240 polls. All other
  definitions are total without fuel. Millisecond arithmetic of the retry loop, token counts and
  status codes are words of the code's width. Counters of rows are integers; C11 asks that
  they have room below \<open>2^63\<close> for the statements it runs.

  What the properties show. Routing: each answer comes with a trail of attempts that explains it
  (C1), the loop ends (C4), within two exchanges per attempt (C33), moving the database only by
  repository statements (C3). Caching: hits are replayed unchanged (C5), keyed
  injectively (C34), and only complete streams are stored (C38).
  Statements keep the database's references intact (C8), and so does every
  management request over HTTP (C12), which needs a credential (C28); no path under
  \<open>/api\<close> but the login's is routed around that guard (C29), its replies show no key or token
  of an account (C30), and no server starts without an administrator (C16).
  A call leaves one log row that tells what happened (C6) and numbered debug logs of its
  rounds (C7). Storage: any older file is
  brought to the current schema (C21) with its rows (C13), records are read back as
  they were written (C22), what the API shows it can read (C23), and the statements that select accounts and cache entries find
  in the rows what the operations find in the records (C9, C14),
  those that update them change the rows as the operations change the records (C11),
  and an account that failed rests (C10). The remaining
  properties are about retries, authorization, round robin, credentials, streams, audio and the
  translations.

  Assumptions on crates. JSON and RFC 3339 texts are read as they were written, and the texts of
  times sort like the times; the latter two hold for the years 0 to 9999, in which all times of
  the program lie. SQLite runs statements one after the other, appends new rows, compares texts byte
  by byte, and keeps the order of rows that an ordering does not tell apart. A session token decodes
  under its secret until a minute past its expiry (C17).

  Not modelled: sockets, signals and the tasks that accept connections (main.rs,
  oauth/callback\_server.rs), the fixed text of the two built-in pages (ui.rs,
  oauth/callback\_server.rs), cross-origin and tracing layers (app.rs), the opening of the connection
  pool (db.rs), logging and module declarations (lib.rs).
  Concurrency: a call is a sequence of steps on the shared state; statements of other calls
  between them are the arbitrary statement sequences of C8 and C15.
\<close>

section \<open>Concrete inputs\<close>

text \<open>
  Values the witnesses below apply the properties to: a codec that reads nothing and prints the
  null value, a buffered answer of a given status, and rows with unremarkable fields.
\<close>

definition ex_codec :: codec where
  "ex_codec = \<lparr>json_parse = (\<lambda>s. if s = ''null'' then Inr JNull else Inl ''expected value''),
     json_print = (\<lambda>v. ''null''), new_uuid = dec\<rparr>"

definition ex_answer :: "nat \<Rightarrow> upstream_result" where
  "ex_answer status = Buffered \<lparr>r_status = status, r_body = ''slow down'', r_is_stream = False,
     r_headers = []\<rparr>"

definition ex_provider :: provider where
  "ex_provider = \<lparr>p_id = ''p1'', p_provider = ''openai'', p_base_url = ''http://up'',
     p_api_key = None, p_auth_type = ''apikey'', p_auth_header = ''bearer'', p_auth_prefix = None,
     p_extra_headers = [], p_endpoint_paths = [], p_stream_endpoint_paths = [],
     p_model_prefix = ''openai'', p_name = None, p_enabled = True, p_priority = 0,
     p_default_model = None, p_supported_endpoints = [''chat''], p_rate_limit_protection = False,
     p_last_error = None, p_last_error_at = None, p_last_error_type = None,
     p_last_error_source = None, p_rate_limited_until = None, p_circuit_open_until = None,
     p_last_used_at = None, p_backoff_level = 0, p_consecutive_use_count = 0,
     p_test_status = None, p_created_at = 0, p_updated_at = 0, p_protocol_format = None\<rparr>"

definition ex_account :: account where
  "ex_account = \<lparr>a_id = ''a1'', a_provider_connection_id = ''p1'', a_label = None,
     a_auth_mode = OAuthMode, a_api_key = None, a_access_token = Some ''tok'',
     a_refresh_token = None, a_expires_at = None, a_scopes = [],
     a_remote_account_id = Some ''acct'', a_remote_email = None, a_is_fedramp = True,
     a_enabled = True, a_priority = 0, a_last_used_at = None, a_rate_limited_until = None,
     a_circuit_open_until = None, a_last_error = None, a_last_error_type = None,
     a_last_refresh_at = None, a_refresh_error = None, a_backoff_level = 0,
     a_consecutive_use_count = 0, a_proxy_url = None, a_base_url = None,
     a_protocol_format = None, a_supported_endpoints = None, a_created_at = 0, a_updated_at = 0\<rparr>"

definition ex_session :: oauth_session where
  "ex_session = \<lparr>s_id = ''s1'', s_state = ''st'', s_provider_connection_id = ''p1'',
     s_provider_account_id = None, s_redirect_uri = ''http://cb'', s_code_verifier = ''v'',
     s_scopes = [], s_proxy_url = None, s_created_at = 0, s_expires_at = 10,
     s_consumed_at = None\<rparr>"

definition ex_entry :: cache_entry where
  "ex_entry = \<lparr>ce_cache_key = ''k'', ce_endpoint = ''chat'', ce_upstream_endpoint = ''chat'',
     ce_requested_model = ''m'', ce_resolved_model = ''m'', ce_provider_id = ''p1'',
     ce_provider_account_id = None, ce_namespace = ''anonymous'', ce_request_body_hash = ''h'',
     ce_response_body = ''{}'', ce_response_headers = [], ce_status = 200, ce_is_stream = False,
     ce_usage = None, ce_expires_at = 10\<rparr>"

definition ex_usage_codec :: codec where
  "ex_usage_codec = ex_codec\<lparr>json_parse := (\<lambda>s. Inr (json_obj [(''usage'',
     json_obj [(''prompt_tokens'', jnat 3), (''completion_tokens'', jnat 4)])]))\<rparr>"

text \<open>
  A service over one OpenAI connection whose upstream always answers with the JSON null value.
\<close>

definition ex_lib :: http_lib where
  "ex_lib = codec.extend ex_codec (http_lib.fields (\<lambda>s. True) (\<lambda>s. True) (\<lambda>s. s))"

definition ex_env :: "unit env" where
  "ex_env = \<lparr>ev_lib = ex_lib, ev_clock = int, ev_client = (\<lambda>proxy. Inr ()),
     ev_refresh = (\<lambda>i prov token. Inl (Upstream ''down'')),
     ev_send = (\<lambda>i j c out. Inr \<lparr>hr_status = 200, hr_headers = [], hr_text = Inr ''null'',
                                  hr_chunks = []\<rparr>),
     ev_random = (\<lambda>i j n. 0), ev_retry = retry_default\<rparr>"

definition ex_service :: "unit service" where
  "ex_service = \<lparr>sv_env = ex_env,
     sv_fp = fingerprint_new (\<lambda>n. None) None (replicate 32 CHR 0x00) ''session'',
     sv_vars = (\<lambda>n. None), sv_sha256_hex = id, sv_lowercase = to_ascii_lowercase,
     sv_from_epoch = (\<lambda>n. None), sv_parse_date = (\<lambda>s. None), sv_idle_secs = 90,
     sv_stall = (\<lambda>n. None), sv_conflict = ''constraint failed''\<rparr>"

definition ex_router :: router where
  "ex_router = \<lparr>rt_db = empty_db\<lparr>db_providers := [(ex_provider, '''')]\<rparr>, rt_rr = [],
     rt_tracker = tracker_new (\<lambda>n. None), rt_sent = 0\<rparr>"

definition ex_db :: db where
  "ex_db = empty_db\<lparr>db_providers := [(ex_provider, [])]\<rparr>"

definition ex_payload :: json where
  "ex_payload = json_obj [(''model'', JStr ''openai/gpt''), (''messages'', JArr []),
     (''temperature'', jnat 0)]"

definition ex_cache_ctx :: cache_ctx where
  "ex_cache_ctx = \<lparr>cc_read = True, cc_write = True, cc_ttl = Some 60,
     cc_namespace = ''anonymous'', cc_allow_nondeterministic = False\<rparr>"



definition ex_grant :: token_grant where
  "ex_grant = \<lparr>tg_access_token = ''new'', tg_refresh_token = None, tg_expires_at = None,
     tg_scopes = None, tg_remote_account_id = None, tg_remote_email = None,
     tg_is_fedramp = False, tg_api_key = None\<rparr>"

definition ex_auth_lib :: auth_lib where
  "ex_auth_lib = codec.extend ex_codec (auth_lib.fields id (\<lambda>p. Inr p) (\<lambda>p h. Inr (p = h))
     (\<lambda>sec sub. Inr sub) (\<lambda>sec token. Some token))"

definition ex_key :: api_key_row where
  "ex_key = \<lparr>k_id = ''k1'', k_name = ''ci'', k_key_hash = ''key'', k_key_prefix = ''key...'',
     k_allowed_models = [], k_is_active = True, k_last_used_at = None, k_usage_count = 0,
     k_created_at = 0, k_updated_at = 0\<rparr>"


text \<open>The management API over identifiers that never repeat.\<close>

definition ex_api :: api_env where
  "ex_api = \<lparr>ae_now = 7, ae_fresh = (\<lambda>k. replicate k CHR ''x''), ae_conflict = ''constraint failed'',
     ae_proxy_error = (\<lambda>u. None), ae_client = (\<lambda>proxy. Inr ()),
     ae_authorize = (\<lambda>prov redirect state scopes. Inr redirect),
     ae_exchange = (\<lambda>prov s code. Inr ex_grant), ae_refresh = (\<lambda>prov token. Inr ex_grant),
     ae_state = ''st'', ae_verifier = ''v'', ae_random = replicate 32 CHR 0x00,
     ae_ratelimits = tracker_new (\<lambda>n. None), ae_auth = ex_auth_lib\<rparr>"




definition ex_codex_db :: db where
  "ex_codex_db = empty_db\<lparr>
     db_providers := [(ex_provider\<lparr>p_provider := ''codex'', p_model_prefix := ''codex'',
        p_default_model := Some ''default''\<rparr>, [])],
     db_accounts := [ex_account]\<rparr>"

text \<open>Token endpoints that give a token without scopes, an empty profile and a key.\<close>

definition ex_oauth_lib :: oauth_lib where
  "ex_oauth_lib = codec.extend
     (ex_codec\<lparr>json_parse := (\<lambda>s. Inr (json_obj [(''access_token'', JStr ''tok''), (''raw_key'', JStr ''sk'')]))\<rparr>)
     (oauth_lib.fields (\<lambda>n. None) dec id (\<lambda>s. None) id (\<lambda>v. ''wrong shape'') (\<lambda>n. None)
        (\<lambda>base ps. Some base) (\<lambda>req. Inr (200, Inr ''reply'')))"



text \<open>
  Rows whose texts are lists of at most one name, empty maps and dates in unary: \<open>a..ab\<close> before the
  epoch and \<open>x..x\<close> from it on, so that texts sort like dates.
\<close>

definition ex_show_date :: "timestamp \<Rightarrow> string" where
  "ex_show_date t =
     (if t < 0 then replicate (nat (- t)) CHR ''a'' @ ''b'' else CHR ''x'' # replicate (nat t) CHR ''x'')"

definition ex_read_date :: "string \<Rightarrow> string + timestamp" where
  "ex_read_date s = Inr (if last s = CHR ''b'' then 1 - int (length s) else int (length s) - 1)"

definition ex_row_lib :: row_lib where
  "ex_row_lib = codec.extend
     (ex_codec\<lparr>json_parse := (\<lambda>s. Inr (if s = [] then JObj [] else if tl s = [] then JArr []
                              else JArr [JStr (tl s)])),
               json_print := (\<lambda>v. case v of JArr [] \<Rightarrow> ''['' | JArr [JStr t] \<Rightarrow> CHR ''['' # t | w \<Rightarrow> [])\<rparr>)
     (row_lib.fields ex_show_date ex_read_date (\<lambda>v. ''wrong shape'') (\<lambda>k v. ''no such column''))"

text \<open>A database file from before every column that was added later, with one row.\<close>

definition ex_old_file :: sql_db where
  "ex_old_file = \<lparr>sq_tables = [(''provider_connections'',
       \<lparr>tb_columns = map (\<lambda>n. nullable n TextType None) (oldest_columns ''provider_connections''),
        tb_foreign = [],
        tb_rows = [map (\<lambda>n. VText n) (oldest_columns ''provider_connections'')]\<rparr>)],
     sq_indexes = []\<rparr>"

text \<open>An interface built into a directory, and the password library of a first start.\<close>

definition ex_ui :: ui_env where
  "ex_ui = \<lparr>ui_vars = (\<lambda>n. Some ''dist''),
     ui_read = (\<lambda>dir parts. if parts = [''index.html''] then Some ''home'' else None),
     ui_dist = (\<lambda>f. None), ui_auth = ex_auth_lib\<rparr>"

definition ex_start_lib :: auth_lib where
  "ex_start_lib = ex_auth_lib\<lparr>json_parse := (\<lambda>s. Inr (JStr (butlast (tl s))))\<rparr>"

lemma ex_dates_read_back: "dates_read_back ex_row_lib"
proof -
  have "ex_read_date (ex_show_date t) = Inr t" for t
    by (auto simp: ex_read_date_def ex_show_date_def)
  then show ?thesis by (simp add: dates_read_back_def ex_row_lib_def row_lib.defs codec.defs)
qed

lemma ex_reads_back:
  "reads_back ex_row_lib (JArr [])" "reads_back ex_row_lib (JObj [])"
  "s \<noteq> [] \<Longrightarrow> reads_back ex_row_lib (JArr [JStr s])"
  by (simp_all add: reads_back_def ex_row_lib_def row_lib.defs codec.defs)

lemma ex_dates_in_order: "dates_in_order ex_row_lib"
proof -
  have before: "replicate m CHR ''a'' @ ''b'' \<le> replicate n CHR ''a'' @ ''b'' \<longleftrightarrow> n \<le> m" for m n
  proof (induction m arbitrary: n)
    case (Suc m)
    then show ?case by (cases n) auto
  next
    case 0
    then show ?case by (cases n) auto
  qed
  have after: "replicate m CHR ''x'' \<le> replicate n CHR ''x'' \<longleftrightarrow> m \<le> n" for m n
  proof (induction m arbitrary: n)
    case (Suc m)
    then show ?case by (cases n) auto
  qed simp
  have across: "replicate m CHR ''a'' @ ''b'' \<le> CHR ''x'' # s" "\<not> CHR ''x'' # s \<le> replicate m CHR ''a'' @ ''b''" for m s
    by (cases m; simp)+
  have "ex_show_date s \<le> ex_show_date t \<longleftrightarrow> s \<le> t" for s t
    using before [of "nat (- s)" "nat (- t)"] after [of "nat s" "nat t"] across
    by (auto simp: ex_show_date_def simp del: append.simps)
  then show ?thesis by (simp add: dates_in_order_def ex_row_lib_def row_lib.defs codec.defs)
qed


text \<open>The log of a call that had one round, with an answer.\<close>

definition ex_one_round :: "debug_tasks \<Rightarrow> bool" where
  "ex_one_round lo \<longleftrightarrow> map is_sent (lo_tasks lo) = [True, False] \<and> lo_seq lo = 1"







text \<open>A framework for which every body is the shown connection.\<close>

definition ex_framework :: wire_lib where
  "ex_framework = \<lparr>wl_is_json = (\<lambda>hs. True), wl_body = (\<lambda>b. None), wl_query = (\<lambda>q. Some []),
     wl_segment = Some, wl_show_date = (\<lambda>t. ''now''), wl_read_date = (\<lambda>s. None), wl_notes = (\<lambda>i. [])\<rparr>"

definition ex_wire :: wire_lib where
  "ex_wire = ex_framework\<lparr>wl_body := (\<lambda>b. Some (provider_doc ex_framework ex_provider))\<rparr>"

lemma ex_wire_body: "wl_is_json ex_wire hs" "wl_body ex_wire b = Some (provider_doc ex_wire ex_provider)"
proof -
  have "date_json ex_wire = date_json ex_framework" by (rule ext) (simp add: date_json_def ex_wire_def)
  then have "provider_doc ex_wire ex_provider = provider_doc ex_framework ex_provider"
    by (simp only: provider_doc_def)
  then show "wl_body ex_wire b = Some (provider_doc ex_wire ex_provider)" by (simp add: ex_wire_def)
qed (simp add: ex_wire_def ex_framework_def)

definition ex_post :: web_request where
  "ex_post = \<lparr>wq_method = ''POST'', wq_path = ''/api/providers'', wq_query = [], wq_headers = [],
     wq_body = ''body''\<rparr>"

definition ex_disable :: web_request where
  "ex_disable = \<lparr>wq_method = ''POST'', wq_path = ''/api/provider-accounts/a1/disable'', wq_query = [],
     wq_headers = [], wq_body = []\<rparr>"

section \<open>Properties\<close>



text \<open>C2. The retry loop of \<open>execute_with_retry\<close> returns for every sequence of attempts, with more fuel
  than the configured retries: it repeats exactly the retriable attempts before the deciding
  one, sleeps once per repeated attempt, and answers with the deciding attempt's outcome, the
  number of attempts and the time slept. The bound on \<open>max_retries\<close> excludes the one value for
  which \<open>attempts + 1\<close> wraps.\<close>

theorem execute_with_retry_correct:
  assumes "unat (max_retries cfg) < 2 ^ 32 - 1" and "unat (max_retries cfg) < fuel"
  shows "\<exists>n \<le> unat (max_retries cfg).
     (\<forall>i < n. retriable_outcome (exec i))
     \<and> (n < unat (max_retries cfg) \<longrightarrow> \<not> retriable_outcome (exec n))
     \<and> execute_with_retry fuel cfg exec rnd
         = Some (retry_answer cfg (exec n) n (sum_list (map (attempt_delay cfg exec rnd) [0..<n])),
                 map (attempt_delay cfg exec rnd) [0..<n])"
  using execute_with_retry_runs [OF assms refl] deciding_attempt_le deciding_attempt_before
    deciding_attempt_at by blast

theorem execute_with_retry_correct_witness:
  "\<exists>n \<le> (3::nat). (\<forall>i < n. retriable_outcome (Inr (ex_answer 429)))
     \<and> execute_with_retry 4 retry_default (\<lambda>i. Inr (ex_answer 429)) (\<lambda>i n. 0) \<noteq> None"
  using execute_with_retry_correct [of retry_default 4 "\<lambda>i. Inr (ex_answer 429)" "\<lambda>i n. 0"]
  by (auto simp: retry_default_def retriable_outcome_def ex_answer_def)









text \<open>C7. A call starts its debug logs beside its work: leaving them out gives the loop of the other
  properties. They come in rounds, numbered from 1 in the order of the targets: the body that was
  sent, and at most one log of the answer, which has the number, the request identifier, the
  connection, the account and the model of the body it answers.\<close>

theorem route_debug_logged:
  assumes "route_logged sv e payload suff pass rid ctx st = (out, lo)"
  shows "out = route sv e payload suff pass rid ctx st
     \<and> (\<exists>rounds. lo_tasks lo = concat rounds \<and> lo_seq lo = int (length rounds)
          \<and> (\<forall>i < length rounds. round_of rid (int i + 1) (rounds ! i)))"
proof -
  have "logs_on rid \<lparr>lo_seq = 0, lo_tasks = []\<rparr> lo"
    using route_logs [of rid sv e payload suff pass ctx st] assms by simp
  from logs_on_rounds [OF this] show ?thesis
    using route_erased [of sv e payload suff pass rid ctx st] assms by (simp add: add_ac)
qed

theorem route_debug_logged_witness:
  "\<exists>sent got. lo_tasks (snd (route_logged ex_service ChatCompletions ex_payload None None ''req''
       ex_cache_ctx ex_router)) = [sent, got]
     \<and> is_sent sent \<and> \<not> is_sent got \<and> key_of got = key_of sent \<and> fst (key_of sent) = ''req''"
proof -
  let ?run = "route_logged ex_service ChatCompletions ex_payload None None ''req'' ex_cache_ctx ex_router"
  have "ex_one_round (snd ?run)" by code_simp
  then have two: "map is_sent (lo_tasks (snd ?run)) = [True, False] \<and> lo_seq (snd ?run) = 1"
    unfolding ex_one_round_def .
  obtain rounds where rounds: "lo_tasks (snd ?run) = concat rounds" "lo_seq (snd ?run) = int (length rounds)"
    "\<forall>i < length rounds. round_of ''req'' (int i + 1) (rounds ! i)"
    using route_debug_logged [of _ _ _ _ _ _ _ _ "fst ?run" "snd ?run"] by (metis prod.collapse)
  then obtain r where "rounds = [r]" using two by (cases rounds) auto
  then have "round_of ''req'' 1 (lo_tasks (snd ?run))" using rounds by auto
  then show ?thesis using two by (auto simp: round_of_def option_list_def split: option.splits)
qed

text \<open>C8. Referential integrity: after any sequence of the repository's statements run against an empty
  database, identifiers, session states and request log ids are unique, every account refers to
  a connection that exists, and so does every session, cached response and debug log, with an
  account that exists if it names one. Deleting a connection or an account keeps this.\<close>

theorem database_integrity:
  assumes "db_step\<^sup>*\<^sup>* \<lparr>w_used = {}, w_db = empty_db\<rparr> w"
  shows "distinct (provider_ids (w_db w)) \<and> distinct (account_ids (w_db w))
     \<and> distinct (session_ids (w_db w)) \<and> distinct (map s_state (db_sessions (w_db w)))
     \<and> distinct (log_ids (w_db w))
     \<and> (\<forall>a \<in> set (db_accounts (w_db w)). a_provider_connection_id a \<in> set (provider_ids (w_db w)))
     \<and> (\<forall>s \<in> set (db_sessions (w_db w)).
          refers_ok (s_provider_connection_id s) (s_provider_account_id s) (w_db w))
     \<and> (\<forall>(k, r) \<in> set (db_cache (w_db w)).
          refers_ok (ce_provider_id r) (ce_provider_account_id r) (w_db w))
     \<and> (\<forall>l \<in> set (db_request_debug (w_db w)).
          refers_ok (dq_provider_id l) (dq_provider_account_id l) (w_db w))
     \<and> (\<forall>l \<in> set (db_response_debug (w_db w)).
          refers_ok (dr_provider_id l) (dr_provider_account_id l) (w_db w))"
  using db_steps_ok [OF assms empty_db_ok]
  by (simp add: db_ok_def Let_def links_defs links_ok_def refers_ok_iff cache_owner_def
      cache_account_def case_prod_unfold)

theorem database_integrity_witness:
  "distinct (provider_ids (set_setting ''require_auth'' ''true'' empty_db))"
  using database_integrity [OF r_into_rtranclp, OF step_set_setting] by simp

text \<open>C9. The statement that selects the accounts a call may use, run on the rows as they are stored, with
  times compared as texts and nulls as SQL does, gives exactly the accounts that the operation on
  records gives, in its order. That operation is what the routing properties rest on
  (C27, C24).\<close>

theorem accounts_selected_from_rows:
  assumes "dates_in_order rl" and "list_all (account_readable rl) (db_accounts d)"
  shows "map (map_account rl) (select_selectable_accounts rl now i (map (account_row rl) (db_accounts d)))
     = map Inr (list_selectable_provider_accounts now i d)"
  using account_rows.read_selected [OF assms(2) selectable_account_rows [OF assms(1), of now i]]
  by (simp add: list_selectable_provider_accounts_def subset_iff)

theorem accounts_selected_from_rows_witness:
  "map (map_account ex_row_lib) (select_selectable_accounts ex_row_lib 7 ''p1''
       (map (account_row ex_row_lib)
         [ex_account\<lparr>a_rate_limited_until := Some 9\<rparr>,
          ex_account\<lparr>a_id := ''a2'', a_priority := 1, a_circuit_open_until := Some 7\<rparr>,
          ex_account\<lparr>a_id := ''a3''\<rparr>]))
     = map Inr [ex_account\<lparr>a_id := ''a3''\<rparr>,
                ex_account\<lparr>a_id := ''a2'', a_priority := 1, a_circuit_open_until := Some 7\<rparr>]"
proof -
  let ?as = "[ex_account\<lparr>a_rate_limited_until := Some 9\<rparr>,
      ex_account\<lparr>a_id := ''a2'', a_priority := 1, a_circuit_open_until := Some 7\<rparr>,
      ex_account\<lparr>a_id := ''a3''\<rparr>]"
  have "list_all (account_readable ex_row_lib) ?as"
    by (simp add: account_readable_def ex_account_def strs_json_def ex_dates_read_back ex_reads_back)
  moreover have "db_accounts (empty_db\<lparr>db_accounts := ?as\<rparr>) = ?as" by simp
  ultimately have "map (map_account ex_row_lib) (select_selectable_accounts ex_row_lib 7 ''p1'' (map (account_row ex_row_lib) ?as))
      = map Inr (list_selectable_provider_accounts 7 ''p1'' (empty_db\<lparr>db_accounts := ?as\<rparr>))"
    using accounts_selected_from_rows [OF ex_dates_in_order, of "empty_db\<lparr>db_accounts := ?as\<rparr>" 7 "''p1''"]
    by metis
  then show ?thesis
    by (simp add: list_selectable_provider_accounts_def account_selectable_def ex_account_def)
qed

text \<open>C10. On the stored rows: once a failure was recorded for an account, it is not selected for fifteen
  seconds, whatever other updates come in between, a success of it excepted; the accounts that no
  statement names are selected as before, in the same order.\<close>

theorem failed_account_rests:
  fixes ws :: "(timestamp \<times> row_write) list"
  assumes "dates_in_order rl" and "room (Suc (length ws)) d"
    and "list_all (\<lambda>(now, w). t \<le> now \<and> w \<noteq> AccountSucceeded i) ws" and "now < t + 15 * second"
  shows "let before = tables_of rl d;
             after = snd (run_writes (write_rows rl) ((t, AccountFailed i m) # ws) before);
             named = i # List.map_filter (\<lambda>(now, w). account_written w) ws
         in VText i \<notin> (\<lambda>r. cell r ''id'') ` set (selected_rows rl now p after)
            \<and> other_rows named (selected_rows rl now p after) = other_rows named (selected_rows rl now p before)"
proof -
  let ?ws = "(t, AccountFailed i m) # ws"
  let ?d = "snd (run_writes write_records ?ws d)"
  let ?named = "i # List.map_filter (\<lambda>(now, w). account_written w) ws"
  have after: "snd (run_writes (write_rows rl) ?ws (tables_of rl d)) = tables_of rl ?d"
    using stored_writes.run_imitates [of ?ws d rl] assms(2) by (simp del: run_writes.simps)
  have "resting i (t + 15 * second) ?d"
    using run_rests [OF failed_rests assms(3)] by (simp del: run_writes.simps write_records.simps)
  moreover have "accounts_besides (set ?named) ?d = accounts_besides (set ?named) d"
    by (rule others_run) (force simp: List.map_filter_def)
  ultimately show ?thesis
    unfolding Let_def after by (intro conjI resting_rows [OF assms(1) _ assms(4)] other_rows_kept [OF assms(1)])
qed

theorem failed_account_rests_witness:
  "let after = snd (run_writes (write_rows ex_row_lib)
         [(3, AccountFailed ''a1'' ''boom''), (5, AccountSwitched ''a1'' True)]
         (tables_of ex_row_lib (empty_db\<lparr>db_accounts := [ex_account, ex_account\<lparr>a_id := ''a2''\<rparr>]\<rparr>)))
   in VText ''a1'' \<notin> (\<lambda>r. cell r ''id'') ` set (selected_rows ex_row_lib 9 ''p1'' after)
      \<and> map (\<lambda>r. cell r ''id'') (other_rows [''a1'', ''a1''] (selected_rows ex_row_lib 9 ''p1'' after)) = [VText ''a2'']"
proof -
  let ?d = "empty_db\<lparr>db_accounts := [ex_account, ex_account\<lparr>a_id := ''a2''\<rparr>]\<rparr>"
  have "room (Suc (length [(5 :: timestamp, AccountSwitched ''a1'' True)])) ?d"
    by (simp add: room_def counters_below_def empty_db_def ex_account_def)
  note rests = failed_account_rests [OF ex_dates_in_order this, of 3 "''a1''" 9 "''boom''" "''p1''"]
  have "list_selectable_provider_accounts 9 ''p1'' ?d = [ex_account, ex_account\<lparr>a_id := ''a2''\<rparr>]"
    by (simp add: list_selectable_provider_accounts_def account_selectable_def ex_account_def)
  then have "map (\<lambda>r. cell r ''id'') (other_rows [''a1'', ''a1''] (selected_rows ex_row_lib 9 ''p1'' (tables_of ex_row_lib ?d)))
      = [VText ''a2'']"
    by (simp add: other_rows_of [OF ex_dates_in_order] account_row_get) (simp add: ex_account_def)
  with rests show ?thesis
    by (simp add: Let_def second_def List.map_filter_def del: run_writes.simps snd_run_writes write_rows.simps)
qed

text \<open>C11. The statements that update connections, accounts and keys, run one after another on the stored rows
  with \<open>COALESCE\<close> and the counting up as SQLite evaluates them, answer what the operations on
  records answer and leave the rows of what those leave, as long as the counters have room in a
  64-bit integer for as many failures and uses.\<close>

theorem updates_reach_rows:
  assumes "room (length ws) d"
  shows "run_writes (write_rows rl) ws (tables_of rl d)
     = map_prod id (tables_of rl) (run_writes write_records ws d)"
  by (rule stored_writes.run_imitates [OF assms])

theorem updates_reach_rows_witness:
  "let ws = [(3, AccountFailed ''a1'' ''429''), (5, AccountSwitched ''a2'' False), (9, AccountFailed ''a1'' ''boom'')];
       (answers, t) = run_writes (write_rows ex_row_lib) ws (tables_of ex_row_lib (empty_db\<lparr>db_accounts := [ex_account]\<rparr>))
   in answers = [None, Some False, None]
      \<and> map (\<lambda>r. (cell r ''backoff_level'', cell r ''rate_limited_until'', cell r ''last_error'')) (t_accounts t)
        = [(VInt 2, date_text ex_row_lib (3 + 30 * second), VText ''boom'')]"
proof -
  let ?ws = "[(3, AccountFailed ''a1'' ''429''), (5, AccountSwitched ''a2'' False), (9, AccountFailed ''a1'' ''boom'')]"
  have "room (length ?ws) (empty_db\<lparr>db_accounts := [ex_account]\<rparr>)"
    by (simp add: room_def counters_below_def empty_db_def ex_account_def)
  note run = updates_reach_rows [OF this, of ex_row_lib]
  have limits: "is_rate_limit_message ''429''" "\<not> is_rate_limit_message ''boom''" by code_simp+
  show ?thesis
    unfolding run Let_def
    by (simp add: writes get_provider_account_def update_account_rows_def update_rows_def tables_of_def account_row_get fail_account_def
        limits opt_date_def opt_text_def empty_db_def) (simp add: ex_account_def)
qed

text \<open>C12. Over HTTP: a request for a route of the management API gets an answer, and whatever its path, query
  and body hold, it moves the database by statements of the repository alone; so what was
  consistent stays consistent (C8).\<close>

theorem management_served:
  assumes "dispatch (wq_method q) (wq_path q) = Handler r" and "ar_guard r = Managed"
    and "inj (ae_fresh ae)" and "\<forall>k \<ge> n. ae_fresh ae k \<notin> u" and "db_ok \<lparr>w_used = u, w_db = d\<rparr>"
  shows "\<exists>rep d' n' u'. manage wl ae q (d, n) = (Some rep, d', n')
     \<and> (\<forall>k \<ge> n'. ae_fresh ae k \<notin> u') \<and> db_ok \<lparr>w_used = u', w_db = d'\<rparr>
     \<and> db_step\<^sup>*\<^sup>* \<lparr>w_used = u, w_db = d\<rparr> \<lparr>w_used = u', w_db = d'\<rparr>"
proof -
  obtain read where "read_request wl r q = Some read"
    using guarded_read [of r wl q] dispatch_Handler [OF assms(1)] assms(2) by blast
  then obtain rep where "fst (manage wl ae q (d, n)) = Some rep"
    by (simp add: manage_def assms(1) Let_def split_beta)
  then obtain d' n' where run: "manage wl ae q (d, n) = (Some rep, d', n')" by (metis prod.collapse)
  from manage_api_db [OF assms(3) run _ assms(5)] assms(4) run show ?thesis
    by (auto simp: unused_def)
qed

theorem management_served_witness:
  "\<exists>rep d' n' u'. manage ex_wire ex_api ex_post (empty_db, 0) = (Some rep, d', n')
     \<and> db_ok \<lparr>w_used = u', w_db = d'\<rparr>"
proof -
  have dispatched: "dispatch (wq_method ex_post) (wq_path ex_post)
      = Handler (route_to ''POST'' ''/api/providers'' Managed ''create_provider'')"
    by (simp add: ex_post_def dispatch_create_provider)
  have guarded: "ar_guard (route_to ''POST'' ''/api/providers'' Managed ''create_provider'') = Managed"
    by (simp add: route_to_def)
  have fresh: "inj (ae_fresh ex_api)" by (auto simp: ex_api_def inj_def replicate_eq_replicate)
  show ?thesis
    using management_served [OF dispatched guarded fresh _ empty_db_ok, of 0 ex_wire] by auto
qed

text \<open>C13. Whatever a start does to a database file that it does not refuse, every table stays, its rows in
  their order, each of them extended by the defaults of the columns added; and rows that fit the
  types and constraints of their columns still do.\<close>

theorem schema_keeps_rows:
  assumes "init_db info_fails db = Inr db'" and "find_table n db = Some t"
  shows "\<exists>t' cs. find_table n db' = Some t' \<and> tb_columns t' = tb_columns t @ cs
     \<and> tb_rows t' = map (\<lambda>row. row @ map (\<lambda>c. unwrap_or VNull (co_default c)) cs) (tb_rows t)
     \<and> (db_typed db \<longrightarrow> table_typed t')"
proof -
  have "grows db db'" by (rule init_db_keeps(1) [OF assms(1)])
  then obtain t' where t': "find_table n db' = Some t'" and ext: "extends t t'"
    using assms(2) unfolding grows_def by blast
  have "db_typed db \<Longrightarrow> table_typed t'"
    using init_db_keeps(2) [OF assms(1)] t' unfolding db_typed_def by blast
  then show ?thesis using t' ext unfolding extends_def by blast
qed

theorem schema_keeps_rows_witness:
  "\<exists>db' t' (cs :: column list). init_db (\<lambda>n. False) ex_old_file = Inr db'
     \<and> find_table ''provider_connections'' db' = Some t' \<and> table_typed t'
     \<and> tb_rows t' = [map VText (oldest_columns ''provider_connections'')
                     @ map (\<lambda>c. unwrap_or VNull (co_default c)) cs]"
proof -
  have "case init_db (\<lambda>n. False) ex_old_file of Inl e \<Rightarrow> False | Inr db' \<Rightarrow> True" by code_simp
  then obtain db' where run: "init_db (\<lambda>n. False) ex_old_file = Inr db'" by (auto split: sum.splits)
  let ?t = "\<lparr>tb_columns = map (\<lambda>n. nullable n TextType None) (oldest_columns ''provider_connections''),
      tb_foreign = [], tb_rows = [map VText (oldest_columns ''provider_connections'')]\<rparr>"
  have t: "find_table ''provider_connections'' ex_old_file = Some ?t"
    by (simp add: ex_old_file_def find_table_def)
  have "distinct (oldest_columns ''provider_connections'')" by code_simp
  then have "table_typed ?t"
    by (simp add: table_typed_def column_names_def nullable_def comp_def list_all2_map1 list_all2_map2
        fits_def list.rel_refl)
  then have "db_typed ex_old_file"
    by (auto simp: db_typed_def ex_old_file_def find_table_def split: if_splits)
  then obtain t' and cs :: "column list" where "find_table ''provider_connections'' db' = Some t'" "table_typed t'"
    "tb_rows t' = [map VText (oldest_columns ''provider_connections'')
                   @ map (\<lambda>c. unwrap_or VNull (co_default c)) cs]"
    using schema_keeps_rows [OF run t] by (simp del: map_append) blast
  then show ?thesis using run by blast
qed

text \<open>C14. Whatever statements ran since the cache was empty, the lookup in the stored rows, with the expiry
  compared as text, finds what the operation on records finds: no row, or the one entry that is
  stored under the key in the namespace and has not expired, read back as it was written.\<close>

theorem cache_found_in_rows:
  assumes "db_step\<^sup>*\<^sup>* w w'" and "db_cache (w_db w) = []" and "dates_in_order rl"
    and "list_all (\<lambda>kr. entry_readable rl (snd kr)) (db_cache (w_db w'))"
  shows "map (map_cache_entry rl) (select_cache_entry rl now k namespace hash (cache_rows rl (w_db w')))
     = (case fst (find_response_cache_entry now k namespace hash (w_db w')) of
          None \<Rightarrow> [] | Some r \<Rightarrow> [Inr (cache_entry.truncate r, ce_hit_count r)])"
proof -
  have "cache_keyed (w_db w)" using assms(2) by (simp add: cache_keyed_def obj_sorted_def)
  with assms(1) have "cache_keyed (w_db w')"
    by (induction rule: rtranclp_induct) (auto intro: step_keeps_cache_keyed)
  note rows = cache_entry_rows [OF assms(3) this, of now k namespace hash]
  have "set (case fst (find_response_cache_entry now k namespace hash (w_db w')) of None \<Rightarrow> [] | Some r \<Rightarrow> [r])
      \<subseteq> set (map snd (db_cache (w_db w')))"
    by (force simp: find_response_cache_entry_def obj_get_def split: option.splits dest: map_of_SomeD)
  moreover have "list_all (entry_readable rl) (map snd (db_cache (w_db w')))"
    using assms(4) by (simp add: list_all_iff)
  ultimately have "map (map_cache_entry rl) (select_cache_entry rl now k namespace hash (cache_rows rl (w_db w')))
      = map Inr (map (\<lambda>r. (cache_entry.truncate r, ce_hit_count r))
          (case fst (find_response_cache_entry now k namespace hash (w_db w')) of None \<Rightarrow> [] | Some r \<Rightarrow> [r]))"
    using entry_rows.read_selected rows by blast
  then show ?thesis by (simp split: option.split)
qed

theorem cache_found_in_rows_witness:
  "map (map_cache_entry ex_row_lib) (select_cache_entry ex_row_lib 7 ''k'' ''anonymous'' ''h''
       (cache_rows ex_row_lib (store_cache_row 3 ex_entry ex_db)))
     = [Inr (ex_entry, 0)]"
proof -
  have "upsert_response_cache_entry 3 ''conflict'' ex_entry ex_db = Inr (store_cache_row 3 ex_entry ex_db)"
    by (simp add: upsert_response_cache_entry_def refers_ok_def find_provider_connection_by_id_def ex_entry_def ex_db_def ex_provider_def empty_db_def)
  then have steps: "db_step\<^sup>*\<^sup>* \<lparr>w_used = {}, w_db = ex_db\<rparr> \<lparr>w_used = {}, w_db = store_cache_row 3 ex_entry ex_db\<rparr>"
    by (intro r_into_rtranclp step_cache_upsert)
  have cache: "db_cache (store_cache_row 3 ex_entry ex_db)
      = [(''k'', cache_entry.extend ex_entry (cache_row.fields 0 3 3 None))]"
    by (simp add: store_cache_row_def ex_db_def empty_db_def obj_get_def ex_entry_def cache_entry.defs)
  have "list_all (\<lambda>kr. entry_readable ex_row_lib (snd kr)) (db_cache (store_cache_row 3 ex_entry ex_db))"
    unfolding cache
    by (simp add: entry_readable_def ex_entry_def cache_entry.defs pairs_json_def ex_dates_read_back
        ex_reads_back)
  moreover have "fst (find_response_cache_entry 7 ''k'' ''anonymous'' ''h'' (store_cache_row 3 ex_entry ex_db))
      = Some (cache_entry.extend ex_entry (cache_row.fields 0 3 3 None))"
    unfolding find_response_cache_entry_def cache by (simp add: obj_get_def ex_entry_def cache_entry.defs)
  moreover have "cache_entry.truncate (cache_entry.extend ex_entry (cache_row.fields 0 3 3 None)) = ex_entry"
    "ce_hit_count (cache_entry.extend ex_entry (cache_row.fields 0 3 3 None)) = 0"
    by (simp_all add: cache_entry.defs cache_row.defs)
  moreover have "db_cache ex_db = []" by (simp add: ex_db_def empty_db_def)
  ultimately show ?thesis
    using cache_found_in_rows [OF steps _ ex_dates_in_order, of 7 "''k''" "''anonymous''" "''h''"] by simp
qed

text \<open>C15. Two callbacks for one authorization, whose waits for the token endpoint overlap in any way,
  store at most one account: after one completion succeeded, every other completion of the same
  session is refused, whatever repository statements ran in between.\<close>

theorem authorization_completed_once:
  assumes "complete_finish now proxy_error fresh s g d = (Inr a, d')"
    and "db_ok \<lparr>w_used = u, w_db = d\<rparr>" and "fresh \<notin> u"
  shows "\<exists>u'. db_step\<^sup>*\<^sup>* \<lparr>w_used = u, w_db = d\<rparr> \<lparr>w_used = u', w_db = d'\<rparr>
     \<and> (\<forall>u2 d2. db_step\<^sup>*\<^sup>* \<lparr>w_used = u', w_db = d'\<rparr> \<lparr>w_used = u2, w_db = d2\<rparr> \<longrightarrow>
          fst (complete_finish now2 proxy_error2 fresh2 s g2 d2)
            = Inl (BadRequest ''oauth session has already been consumed''))"
  using complete_finish_spends [OF assms] spent_steps spent_complete_finish by blast

theorem authorization_completed_once_witness:
  "fst (complete_finish 2 (\<lambda>u. None) ''a2'' ex_session ex_grant
     (snd (complete_finish 1 (\<lambda>u. None) ''a1'' ex_session ex_grant
        (empty_db\<lparr>db_providers := [(ex_provider, '''')], db_sessions := [ex_session]\<rparr>))))
     = Inl (BadRequest ''oauth session has already been consumed'')"
proof -
  let ?d = "empty_db\<lparr>db_providers := [(ex_provider, '''')], db_sessions := [ex_session]\<rparr>"
  have "(case fst (complete_finish 1 (\<lambda>u. None) ''a1'' ex_session ex_grant ?d) of
      Inr a \<Rightarrow> True | Inl e \<Rightarrow> False)" by code_simp
  then obtain a d' where fin: "complete_finish 1 (\<lambda>u. None) ''a1'' ex_session ex_grant ?d = (Inr a, d')"
    by (auto split: sum.splits) (metis prod.collapse)
  have "db_ok \<lparr>w_used = {''p1'', ''s1''}, w_db = ?d\<rparr>"
    by (simp add: db_ok_def ids_defs links_defs empty_db_def ex_provider_def ex_session_def)
  from authorization_completed_once [OF fin this, of 2 "\<lambda>u. None" "''a2''" ex_grant]
  show ?thesis using fin by auto
qed

text \<open>C16. The server starts only with an administrator: when the check of the start succeeds, a password hash
  is stored that can be read. Either it was there and nothing changed, or a password of at least
  eight bytes was given by the environment or typed twice at a terminal, its hash is what is stored,
  and authentication is required from then on.\<close>

theorem start_needs_admin:
  assumes "ensure_admin_password lib vars terminal secret prompts d = Some (Inr (), d')"
    and "\<And>password h. hash_password lib password = Inr h \<Longrightarrow> json_parse lib (json_quoted h) = Inr (JStr h)"
  shows "is_admin_configured lib d'
     \<and> (vars ''KOU_ROUTER_ADMIN_PASSWORD'' = None \<and> is_admin_configured lib d \<and> d' = d
        \<or> is_auth_required d'
          \<and> (\<exists>password h. 8 \<le> length password
               \<and> (vars ''KOU_ROUTER_ADMIN_PASSWORD'' = Some password \<or> terminal \<and> Inr password \<in> set prompts)
               \<and> hash_password lib password = Inr h
               \<and> obj_get ''admin_password_hash'' (db_settings d') = Some (json_quoted h)))"
  using ensure_admin_password_Inr [OF assms(1)]
proof
  assume "\<exists>password. 8 \<le> length password \<and> set_admin_password lib secret password d = (Inr (), d')
       \<and> (vars ''KOU_ROUTER_ADMIN_PASSWORD'' = Some password \<or> terminal \<and> Inr password \<in> set prompts)"
  then obtain password where "set_admin_password lib secret password d = (Inr (), d')"
    "vars ''KOU_ROUTER_ADMIN_PASSWORD'' = Some password \<or> terminal \<and> Inr password \<in> set prompts" by blast
  then show ?thesis
    using set_admin_password_configures assms(2) set_admin_password_Inr by blast
qed simp

theorem start_needs_admin_witness:
  "\<exists>d'. ensure_admin_password ex_start_lib (\<lambda>n. None) True ''secret''
       [Inr ''short'', Inr ''long enough'', Inr ''long enough''] empty_db = Some (Inr (), d')
     \<and> is_admin_configured ex_start_lib d' \<and> is_auth_required d'"
proof -
  let ?run = "ensure_admin_password ex_start_lib (\<lambda>n. None) True ''secret''
       [Inr ''short'', Inr ''long enough'', Inr ''long enough''] empty_db"
  have "case ?run of Some (Inr u, d') \<Rightarrow> db_settings d' \<noteq> [] | x \<Rightarrow> False" by code_simp
  then have "\<exists>d'. ?run = Some (Inr (), d') \<and> db_settings d' \<noteq> []"
    by (auto split: option.splits prod.splits sum.splits)
  then obtain d' where run: "?run = Some (Inr (), d')" and "db_settings d' \<noteq> []" by blast
  then have "d' \<noteq> empty_db" by (auto simp: empty_db_def)
  moreover have "json_parse ex_start_lib (json_quoted h) = Inr (JStr h)" for h
    by (simp add: ex_start_lib_def json_quoted_def butlast_append)
  ultimately show ?thesis using start_needs_admin [OF run] run by blast
qed











text \<open>C22. The rows that are written for a connection and an account fit the tables of a started database, and
  reading them gives the records back, field by field. An empty list of endpoints of an account is
  the one value that does not survive: it is read as no list, and so is left out here.\<close>

theorem stored_rows_read_back:
  assumes "dates_read_back rl"
    and "\<forall>m \<in> {p_extra_headers p, p_endpoint_paths p, p_stream_endpoint_paths p}. reads_back rl (map_json m)"
    and "\<forall>ss \<in> {p_supported_endpoints p, a_scopes a} \<union> set_option (a_supported_endpoints a).
           reads_back rl (strs_json ss)"
    and "a_supported_endpoints a \<noteq> Some []"
  shows "accepted (schema_columns ''provider_connections'') (provider_row rl p)
     \<and> accepted (schema_columns ''provider_accounts'') (account_row rl a)
     \<and> map_provider rl (provider_row rl p) = Inr p \<and> map_account rl (account_row rl a) = Inr a"
  using assms
  by (auto intro!: provider_row_accepted account_row_accepted provider_round_trip account_round_trip)

theorem stored_rows_read_back_witness:
  "map_provider ex_row_lib (provider_row ex_row_lib ex_provider) = Inr ex_provider
   \<and> map_account ex_row_lib (account_row ex_row_lib (ex_account\<lparr>a_supported_endpoints := Some [''chat'']\<rparr>))
       = Inr (ex_account\<lparr>a_supported_endpoints := Some [''chat'']\<rparr>)"
proof -
  note ex_dates_read_back
  moreover have "reads_back ex_row_lib (map_json [])" "reads_back ex_row_lib (strs_json [])"
    "reads_back ex_row_lib (strs_json [''chat''])"
    by (simp_all add: map_json_def strs_json_def ex_reads_back)
  ultimately show ?thesis
    using stored_rows_read_back [of ex_row_lib ex_provider "ex_account\<lparr>a_supported_endpoints := Some [''chat'']\<rparr>"]
    by (simp add: ex_provider_def ex_account_def)
qed

text \<open>C23. A connection as the API shows it can be sent to the API again. The reply shows, and the database
  then holds, a connection of the same configuration with a new identifier and a clean history.\<close>

theorem connection_copied:
  assumes "sendable p" and "wl_is_json wl hs" and "wl_body wl body = Some (provider_doc wl p)"
    and "management_auth (ae_now ae) (ae_auth ae) hs d = (Inr ctx, d1)"
  shows "\<exists>d2. manage wl ae \<lparr>wq_method = ''POST'', wq_path = ''/api/providers'', wq_query = [],
         wq_headers = hs, wq_body = body\<rparr> (d, n)
       = (Some (Reply 200 (provider_doc wl (copied (ae_now ae) (ae_fresh ae n) p))), d2, Suc n)
     \<and> db_providers d2 = db_providers d1 @ [(copied (ae_now ae) (ae_fresh ae n) p, ''priority'')]"
proof -
  let ?q = "\<lparr>wq_method = ''POST'', wq_path = ''/api/providers'', wq_query = [], wq_headers = hs, wq_body = body\<rparr>"
  let ?r = "route_to ''POST'' ''/api/providers'' Managed ''create_provider''"
  have "read_request wl ?r ?q = Some (Inr (CreateProvider (as_new p)))"
    using assms(1-3)
    by (simp add: read_request_def route_to_def reader_create_provider by_body_def json_body_def
        read_shown_provider)
  moreover have "dispatch (wq_method ?q) (wq_path ?q) = Handler ?r"
    unfolding web_request.simps by (rule dispatch_create_provider)
  ultimately show ?thesis
    using assms(4) by (simp add: manage_def run_handler_def on_db_def create_provider_copied Let_def)
qed

theorem connection_copied_witness:
  "\<exists>d2. manage ex_wire ex_api ex_post (empty_db, 0)
     = (Some (Reply 200 (provider_doc ex_wire (copied 7 [] ex_provider))), d2, 1)"
proof -
  have "sendable ex_provider" by code_simp
  moreover have "management_auth (ae_now ex_api) (ae_auth ex_api) [] empty_db = (Inr Anonymous, empty_db)" by code_simp
  ultimately obtain d2 where "manage ex_wire ex_api ex_post (empty_db, 0)
      = (Some (Reply 200 (provider_doc ex_wire (copied (ae_now ex_api) (ae_fresh ex_api 0) ex_provider))), d2, Suc 0)"
    unfolding ex_post_def using connection_copied [OF _ ex_wire_body] by blast
  then show ?thesis by (simp add: ex_api_def)
qed

text \<open>C24. Under round robin no account starves: as many consecutive requests to a connection as it has
  accounts try each account first exactly once, until the counter wraps.\<close>

theorem round_robin_fair:
  assumes "1 < length accounts" and "distinct accounts"
    and "rr_count (account_key i) rr + length accounts < 2 ^ 64"
  shows "distinct (first_accounts i accounts (length accounts) rr)
     \<and> set (first_accounts i accounts (length accounts) rr) = set accounts"
  by (rule first_accounts_fair [OF assms])

theorem round_robin_fair_witness:
  "distinct (first_accounts ''p1'' [ex_account, ex_account\<lparr>a_id := ''a2''\<rparr>]
       (length [ex_account, ex_account\<lparr>a_id := ''a2''\<rparr>]) [])
     \<and> set (first_accounts ''p1'' [ex_account, ex_account\<lparr>a_id := ''a2''\<rparr>]
         (length [ex_account, ex_account\<lparr>a_id := ''a2''\<rparr>]) [])
       = set [ex_account, ex_account\<lparr>a_id := ''a2''\<rparr>]"
  by (rule round_robin_fair) (simp_all add: rr_count_def ex_account_def)





text \<open>C28. When authentication is required, no request of the management API, whichever it is, has any effect
  or any other answer than \<open>unauthorized\<close>, unless it carries a cookie that is valid under the stored
  secret or a key whose hash is that of an active row of the table.\<close>

theorem api_needs_credential:
  assumes "is_auth_required d" and "cookie_subject (ae_auth ae) hs d = None"
    and "\<And>token k. presented_key hs = Some token \<Longrightarrow> k \<in> set (db_api_keys d) \<Longrightarrow> k_is_active k
           \<Longrightarrow> k_key_hash k \<noteq> hash_api_key (ae_auth ae) token"
  shows "\<exists>m. api ae hs req (d, n) = (Inl (unauthorized m), d, n)"
  using assms by (intro api_refuses) (auto simp: credential_def)

theorem api_needs_credential_witness:
  "\<exists>m. api ex_api [(''x-api-key'', ''key'')] (DeleteAccount ''a1'')
      (ex_db\<lparr>db_settings := [(''require_auth'', ''true'')],
             db_api_keys := [ex_key\<lparr>k_is_active := False\<rparr>]\<rparr>, 0)
    = (Inl (unauthorized m), ex_db\<lparr>db_settings := [(''require_auth'', ''true'')],
             db_api_keys := [ex_key\<lparr>k_is_active := False\<rparr>]\<rparr>, 0)"
proof (rule api_needs_credential)
  show "is_auth_required (ex_db\<lparr>db_settings := [(''require_auth'', ''true'')],
             db_api_keys := [ex_key\<lparr>k_is_active := False\<rparr>]\<rparr>)" by code_simp
  have "cookie_subject (ae_auth ex_api) [(''x-api-key'', ''key'')]
      (ex_db\<lparr>db_settings := [(''require_auth'', ''true'')],
             db_api_keys := [ex_key\<lparr>k_is_active := False\<rparr>]\<rparr>) = None" by code_simp
  then show "cookie_subject (ae_auth ex_api) [(''x-api-key'', ''key'')]
      (ex_db\<lparr>db_settings := [(''require_auth'', ''true'')],
             db_api_keys := [ex_key\<lparr>k_is_active := False\<rparr>]\<rparr>) = None" .
qed simp



text \<open>C30. The management API tells whether an account has a key or a token, and nothing else about it.
  Whatever is asked and changed, as long as no request completes an authorization or refreshes a
  token, every reply is that of the database in which secrets are masked.\<close>

theorem replies_hide_secrets:
  assumes "list_all (\<lambda>(ae, q). \<not> spends_secrets q) calls"
  shows "web_replies wl calls (d, n) = web_replies wl calls (masked d, n)"
  using assms by (rule web_replies_alike) (simp add: alike_def)

theorem replies_hide_secrets_witness:
  "web_replies ex_wire [(ex_api, ex_disable), (ex_api, ex_post)] (ex_codex_db, 0)
     = web_replies ex_wire [(ex_api, ex_disable), (ex_api, ex_post)] (masked ex_codex_db, 0)
   \<and> map a_access_token (db_accounts ex_codex_db) \<noteq> map a_access_token (db_accounts (masked ex_codex_db))"
proof
  have "\<not> spends_secrets ex_disable \<and> \<not> spends_secrets ex_post" by code_simp
  then show "web_replies ex_wire [(ex_api, ex_disable), (ex_api, ex_post)] (ex_codex_db, 0)
     = web_replies ex_wire [(ex_api, ex_disable), (ex_api, ex_post)] (masked ex_codex_db, 0)"
    by (intro replies_hide_secrets) simp
  show "map a_access_token (db_accounts ex_codex_db) \<noteq> map a_access_token (db_accounts (masked ex_codex_db))"
    by code_simp
qed

text \<open>C31. A chat request translated to the Claude API keeps the conversation: its messages are the user,
  assistant and tool messages in order, each under the role user or assistant (a tool result
  becomes a user turn), every system message's blocks move, in order, to the \<open>system\<close> field,
  which is absent when there are none, and model and stream flag are the router's.\<close>

theorem claude_request_structure:
  assumes "openai_to_claude_request c model body stream = Inr r"
  shows "\<exists>messages turns. jget ''messages'' body = Some (JArr messages)
     \<and> jget ''messages'' r = Some (JArr turns)
     \<and> turns = map (claude_turn c) (conversation messages)
     \<and> map (get_str ''role'') turns
         = map (\<lambda>m. Some (if role_of m = ''assistant'' then ''assistant'' else ''user''))
             (conversation messages)
     \<and> jget ''system'' r = (let sys = system_part c messages @ json_mode_blocks body in
           if sys = [] then None else Some (JArr sys))
     \<and> jget ''model'' r = Some (JStr model) \<and> jget ''stream'' r = Some (JBool stream)"
proof -
  obtain messages where "jget ''messages'' body = Some (JArr messages)"
    "jget ''messages'' r = Some (JArr (map (claude_turn c) (conversation messages)))"
    "jget ''system'' r = (let sys = system_part c messages @ json_mode_blocks body in
           if sys = [] then None else Some (JArr sys))"
    "jget ''model'' r = Some (JStr model)" "jget ''stream'' r = Some (JBool stream)"
    using openai_to_claude_Inr [OF assms] by metis
  then show ?thesis
    by (simp add: claude_turn_role)
qed

theorem claude_request_structure_witness:
  "\<exists>r. openai_to_claude_request ex_codec ''m''
        (json_obj [(''messages'', JArr [json_obj [(''role'', JStr ''user''), (''content'', JStr ''hi'')]])])
        True = Inr r \<and> jget ''model'' r = Some (JStr ''m'')"
proof -
  let ?body = "json_obj [(''messages'', JArr [json_obj [(''role'', JStr ''user''), (''content'', JStr ''hi'')]])]"
  have "\<And>e. openai_to_claude_request ex_codec ''m'' ?body True \<noteq> Inl e"
    by (simp add: openai_to_claude_error kou_simps)
  then obtain r where r: "openai_to_claude_request ex_codec ''m'' ?body True = Inr r"
    by (cases "openai_to_claude_request ex_codec ''m'' ?body True") blast+
  show ?thesis
    using claude_request_structure [OF r] r by blast
qed

text \<open>C32. In a request translated to the Gemini API consecutive tool results are merged into one
  function turn: the contents have known roles and parts, no two function turns are adjacent,
  and their parts, read in order, are the function responses of all tool messages.\<close>

theorem gemini_contents_well_formed:
  assumes "openai_to_gemini_request c body = Inr r"
  shows "\<exists>messages cs. get_array ''messages'' body = Some messages
     \<and> jget ''contents'' r = Some (JArr cs)
     \<and> list_all content_ok cs \<and> no_adjacent_function cs
     \<and> function_parts cs = map (tool_msg_to_function_response c)
          (filter (\<lambda>m. get_str ''role'' m = Some ''tool'') messages)"
proof -
  obtain messages cs where m: "get_array ''messages'' body = Some messages"
    "jget ''contents'' r = Some (JArr cs)" "cs = snd (fold (gemini_step c) messages ([], []))"
    by (rule openai_to_gemini_Inr [OF assms])
  have "gemini_inv []" "function_parts [] = []"
    by (simp_all add: gemini_inv_def function_parts_def)
  then show ?thesis
    using m gemini_fold [of "[]" c messages "[]"] by (auto simp: gemini_inv_def)
qed

theorem gemini_contents_well_formed_witness:
  "\<exists>r cs. openai_to_gemini_request ex_codec (json_obj [(''messages'', JArr [])]) = Inr r
     \<and> jget ''contents'' r = Some (JArr cs) \<and> no_adjacent_function cs"
proof -
  obtain r where r: "openai_to_gemini_request ex_codec (json_obj [(''messages'', JArr [])]) = Inr r"
    by (simp add: openai_to_gemini_request_def kou_simps Let_def)
  then show ?thesis
    using gemini_contents_well_formed [OF r] by blast
qed







text \<open>C36. Injecting the fingerprint into a body touches no field but \<open>system\<close> and \<open>metadata\<close>, leaves a
  user id in the metadata, and is idempotent: a body that went through it once, say on the way to
  a first account, is not changed by another injection, whatever account that is for.\<close>

theorem fingerprint_injected_once:
  assumes "inject_body lib fp source oauth body = Some b"
  shows "(\<forall>k. k \<noteq> ''system'' \<and> k \<noteq> ''metadata'' \<longrightarrow> jget k b = jget k body)
     \<and> jget ''user_id'' (jindex ''metadata'' b) \<noteq> None
     \<and> inject_body lib fp source' oauth' b = Some b"
  by (rule inject_body_effect [OF assms])

theorem fingerprint_injected_once_witness:
  "\<exists>b. inject_body (sv_fp_lib ex_service) (sv_fp ex_service) JNull None ex_payload = Some b
     \<and> jget ''model'' b = Some (JStr ''openai/gpt'')"
proof -
  have "(case inject_body (sv_fp_lib ex_service) (sv_fp ex_service) JNull None ex_payload of
      Some b \<Rightarrow> True | None \<Rightarrow> False)" by code_simp
  then obtain b where b: "inject_body (sv_fp_lib ex_service) (sv_fp ex_service) JNull None ex_payload
      = Some b" by (auto split: option.splits)
  from fingerprint_injected_once [OF b] b show ?thesis by (auto simp: ex_payload_def)
qed

text \<open>C37. The answer of the web interface depends on files below its directory alone: two file systems that
  agree on the paths without empty, dotted or separator-carrying components give the same answer to
  every request. Where authentication is required and the cookie is not valid, no file is shown.\<close>

theorem ui_stays_inside:
  assumes "\<And>dir parts. inside parts \<Longrightarrow> read1 dir parts = read2 dir parts"
  shows "ui_serve (ui\<lparr>ui_read := read1\<rparr>) http_method path hs d
       = ui_serve (ui\<lparr>ui_read := read2\<rparr>) http_method path hs d
     \<and> (is_auth_required d \<longrightarrow> \<not> has_valid_admin_cookie (ui_auth ui) hs d \<longrightarrow>
          ui_serve ui http_method path hs d \<in> {NoSuchPage, LoginPage})"
proof -
  have "from_disk (read1 dir) p = from_disk (read2 dir) p" for dir p
    using assms by (rule from_disk_reads_inside)
  then show ?thesis by (auto simp: ui_serve_def Let_def split: option.split)
qed

theorem ui_stays_inside_witness:
  "ui_serve (ex_ui\<lparr>ui_read := (\<lambda>dir parts. if parts = [''..'', ''secret''] then Some ''key'' else None)\<rparr>)
       ''GET'' ''/../secret'' [] empty_db
     = ui_serve (ex_ui\<lparr>ui_read := (\<lambda>dir parts. None)\<rparr>) ''GET'' ''/../secret'' [] empty_db
   \<and> ui_serve (ex_ui\<lparr>ui_read := (\<lambda>dir parts. None)\<rparr>) ''GET'' ''/../secret'' [] empty_db = NoSuchPage"
proof
  have "\<not> inside [''..'', ''secret'']" by (simp add: inside_def)
  then have "(if parts = [''..'', ''secret''] then Some ''key'' else None) = None" if "inside parts" for parts
    by (intro if_not_P) (use that in blast)
  then show "ui_serve (ex_ui\<lparr>ui_read := (\<lambda>dir parts. if parts = [''..'', ''secret''] then Some ''key'' else None)\<rparr>)
       ''GET'' ''/../secret'' [] empty_db
     = ui_serve (ex_ui\<lparr>ui_read := (\<lambda>dir parts. None)\<rparr>) ''GET'' ''/../secret'' [] empty_db"
    using ui_stays_inside [of "\<lambda>dir parts. if parts = [''..'', ''secret''] then Some ''key'' else None"
        "\<lambda>dir parts. None" ex_ui "''GET''" "''/../secret''" "[]" empty_db] by blast
  have "case ui_serve (ex_ui\<lparr>ui_read := (\<lambda>dir parts. None)\<rparr>) ''GET'' ''/../secret'' [] empty_db of
      NoSuchPage \<Rightarrow> True | x \<Rightarrow> False" by code_simp
  then show "ui_serve (ex_ui\<lparr>ui_read := (\<lambda>dir parts. None)\<rparr>) ''GET'' ''/../secret'' [] empty_db = NoSuchPage"
    by (auto split: ui_reply.splits)
qed

text \<open>C38. The detached task that watches a stream's buffer writes to the cache only a text it saw in the
  buffer and that shows the end of a stream; otherwise it leaves the database alone.\<close>

theorem stream_cached_only_complete:
  assumes "stream_cache_write c now conflict entry snapshots d \<noteq> d"
  shows "\<exists>transcript \<in> set snapshots. cacheable_stream_transcript_complete transcript
     \<and> upsert_response_cache_entry now conflict
         (entry\<lparr>ce_usage := extract_usage_from_sse c transcript,
                ce_response_body := json_print c (raw_json transcript)\<rparr>) d
       = Inr (stream_cache_write c now conflict entry snapshots d)"
  by (rule stream_cache_write_complete [OF assms])

theorem stream_cached_only_complete_witness:
  "\<exists>transcript \<in> {''data: [DONE]''}. cacheable_stream_transcript_complete transcript"
proof -
  have "db_cache (stream_cache_write ex_codec 0 [] ex_entry (replicate 3 ''data: [DONE]'') ex_db) \<noteq> []"
    by code_simp
  then have "stream_cache_write ex_codec 0 [] ex_entry (replicate 3 ''data: [DONE]'') ex_db \<noteq> ex_db"
    by (auto simp: empty_db_def ex_db_def)
  from stream_cached_only_complete [OF this] show ?thesis by auto
qed

text \<open>C39. Tool-use blocks survive the trip through OpenAI tool calls: identifiers, names and inputs come
  back unchanged and in order, given that the JSON library reads back what it printed for the
  inputs.\<close>

theorem tool_use_survives_translation:
  assumes "\<And>i n v. (i, n, v) \<in> set uses \<Longrightarrow> json_parse c (json_print c v) = Inr v"
  shows "openai_tool_calls_to_claude c
       (JArr (claude_tool_use_to_openai c (JArr (map (\<lambda>(i, n, v). tool_use_block i n v) uses))))
     = map (\<lambda>(i, n, v). tool_use_block i n v) uses"
  by (rule tool_uses_round_trip [OF assms])

theorem tool_use_survives_translation_witness:
  "openai_tool_calls_to_claude ex_codec (JArr (claude_tool_use_to_openai ex_codec
      (JArr [tool_use_block ''t1'' ''f'' JNull]))) = [tool_use_block ''t1'' ''f'' JNull]"
  using tool_use_survives_translation [of "[(''t1'', ''f'', JNull)]" ex_codec]
  by (simp add: ex_codec_def)

text \<open>C40. The registry's hub-and-spoke step translates the source format to OpenAI with the RESPONSE
  translator, so a Claude request for a Gemini provider loses its messages and is always
  refused, while a request to an OpenAI provider, or of the provider's own format, passes
  unchanged.\<close>

theorem claude_to_gemini_never_translates:
  "translate_request c Claude Gemini model body stream = Inl (BadRequest ''missing messages array'')
   \<and> translate_request c source OpenAI model body stream = Inr body
   \<and> translate_request c f f model body stream = Inr body"
  by (simp add: claude_to_gemini_request_fails translate_request_to_openai)

section \<open>Further facts\<close>

text \<open>However the attempts go and whatever the jitter source draws, a run of the retry loop sleeps
  at most \<open>max_retries\<close> times and each sleep is at most \<open>max_delay_ms\<close>, even where the
  millisecond arithmetic wraps.\<close>

theorem retry_sleeps_bounded:
  assumes "unat (max_retries cfg) < 2 ^ 32 - 1" and "unat (max_retries cfg) < fuel"
    and "execute_with_retry fuel cfg exec rnd = Some (r, sleeps)"
  shows "length sleeps \<le> unat (max_retries cfg) \<and> (\<forall>s \<in> set sleeps. s \<le> max_delay_ms cfg)"
proof -
  have "sleeps = map (attempt_delay cfg exec rnd) [0..<deciding_attempt exec (unat (max_retries cfg))]"
    using execute_with_retry_runs [OF assms(1,2) refl] assms(3) by simp
  then show ?thesis
    by (auto simp: deciding_attempt_le attempt_delay_le_max)
qed

theorem retry_sleeps_bounded_witness:
  "length ([] :: u64 list) \<le> 3 \<and> execute_with_retry 4 retry_default (\<lambda>i. Inr (ex_answer 200)) (\<lambda>i n. 0)
     = Some (Inr \<lparr>ro_result = ex_answer 200, ro_attempts = 1, ro_total_delay_ms = 0,
                 ro_retry_after_secs = None\<rparr>, [])"
proof -
  have run: "execute_with_retry 4 retry_default (\<lambda>i. Inr (ex_answer 200)) (\<lambda>i n. 0)
     = Some (Inr \<lparr>ro_result = ex_answer 200, ro_attempts = 1, ro_total_delay_ms = 0,
                 ro_retry_after_secs = None\<rparr>, [])"
    by (simp add: execute_with_retry_def eval_nat_numeral ex_answer_def is_success_def)
  show ?thesis
    using retry_sleeps_bounded [OF _ _ run] run by (simp add: retry_default_def)
qed

text \<open>An OAuth session is spent once: after \<open>mark_oauth_session_consumed\<close> reported success for an
  identifier, no later call for it succeeds, whatever statements run in between (the identifier
  is not reused, since every created row gets a fresh one).\<close>

theorem oauth_session_consumed_once:
  assumes "db_ok \<lparr>w_used = u, w_db = d\<rparr>"
    and "mark_oauth_session_consumed now i d = (True, d')"
    and "db_step\<^sup>*\<^sup>* \<lparr>w_used = u, w_db = d'\<rparr> \<lparr>w_used = u', w_db = d''\<rparr>"
  shows "\<not> fst (mark_oauth_session_consumed now' i d'')"
  using spent_not_consumed [OF spent_steps [OF assms(3) consume_spends [OF assms(2,1)]]] .

theorem oauth_session_consumed_once_witness:
  "\<not> fst (mark_oauth_session_consumed 7 ''s1'' (set_setting ''k'' ''v''
       (snd (mark_oauth_session_consumed 5 ''s1''
          (empty_db\<lparr>db_providers := [(ex_provider, '''')], db_sessions := [ex_session]\<rparr>)))))"
proof (rule oauth_session_consumed_once)
  show "db_ok \<lparr>w_used = {''p1'', ''s1''},
      w_db = empty_db\<lparr>db_providers := [(ex_provider, '''')], db_sessions := [ex_session]\<rparr>\<rparr>"
    by (simp add: db_ok_def ids_defs links_defs empty_db_def ex_provider_def ex_session_def)
  show "mark_oauth_session_consumed 5 ''s1''
      (empty_db\<lparr>db_providers := [(ex_provider, '''')], db_sessions := [ex_session]\<rparr>)
      = (True, snd (mark_oauth_session_consumed 5 ''s1''
          (empty_db\<lparr>db_providers := [(ex_provider, '''')], db_sessions := [ex_session]\<rparr>)))"
    by (simp add: mark_oauth_session_consumed_def empty_db_def ex_session_def unconsumed_def
        update_rows_def)
qed (rule r_into_rtranclp, rule step_set_setting)

text \<open>Once a failure is recorded for an account, the account is not selectable for the next fifteen
  seconds, and the selection of every other account is what it was.\<close>

theorem failed_account_skipped:
  assumes "t < now + 15 * second"
  shows "set (list_selectable_provider_accounts t p (mark_provider_account_failure now i m d))
     = {a \<in> set (list_selectable_provider_accounts t p d). a_id a \<noteq> i}"
proof (rule set_eqI)
  fix a
  show "a \<in> set (list_selectable_provider_accounts t p (mark_provider_account_failure now i m d))
     \<longleftrightarrow> a \<in> {a \<in> set (list_selectable_provider_accounts t p d). a_id a \<noteq> i}"
    using mark_failure_unselectable [OF assms, of p i m d] mark_failure_others [of a i t p now m d]
    by (cases "a_id a = i") auto
qed

theorem failed_account_skipped_witness:
  "set (list_selectable_provider_accounts 1 ''p1'' (mark_provider_account_failure 0 ''a1'' ''boom''
      (empty_db\<lparr>db_accounts := [ex_account, ex_account\<lparr>a_id := ''a2''\<rparr>]\<rparr>)))
     = {ex_account\<lparr>a_id := ''a2''\<rparr>}"
  by (subst failed_account_skipped)
     (auto simp: second_def list_selectable_provider_accounts_def empty_db_def ex_account_def
        account_selectable_def)

text \<open>The accounts offered to a request are exactly the connection's enabled accounts whose rate
  limit and circuit cooldowns have passed, in order of priority and, among equals, of creation.\<close>

theorem selectable_accounts_sorted:
  "set (list_selectable_provider_accounts now i d)
     = {a \<in> set (db_accounts d). a_provider_connection_id a = i \<and> a_enabled a
          \<and> elapsed now (a_rate_limited_until a) \<and> elapsed now (a_circuit_open_until a)}
   \<and> sorted_wrt (\<lambda>x y. a_priority x < a_priority y
        \<or> (a_priority x = a_priority y \<and> a_created_at x \<le> a_created_at y))
       (list_selectable_provider_accounts now i d)"
  by (auto simp: selectable_set account_selectable_def)
     (simp add: list_selectable_provider_accounts_def sort_key_twice_sorted)

text \<open>A response stored in the cache is found again, field for field, by a request with the same
  key, namespace and body hash at any time before it expires.\<close>

theorem cache_hit_after_store:
  assumes "upsert_response_cache_entry now' conflict e d = Inr d'" and "now < ce_expires_at e"
  shows "\<exists>r. fst (find_response_cache_entry now (ce_cache_key e) (ce_namespace e)
              (ce_request_body_hash e) d') = Some r
     \<and> cache_entry.truncate r = e"
  by (rule cache_find_after_upsert [OF assms])

lemma ex_stored: "upsert_response_cache_entry 1 [] ex_entry ex_db = Inr (store_cache_row 1 ex_entry ex_db)"
  by (simp add: upsert_response_cache_entry_def refers_ok_def ex_entry_def ex_db_def empty_db_def
      find_provider_connection_by_id_def ex_provider_def)

theorem cache_hit_after_store_witness:
  "\<exists>r. fst (find_response_cache_entry 3 ''k'' ''anonymous'' ''h''
      (store_cache_row 1 ex_entry ex_db)) = Some r \<and> ce_status r = 200"
proof -
  obtain r where "fst (find_response_cache_entry 3 ''k'' ''anonymous'' ''h''
      (store_cache_row 1 ex_entry ex_db)) = Some r"
    and "cache_entry.truncate r = ex_entry"
    using cache_hit_after_store [OF ex_stored, of 3] by (auto simp: ex_entry_def)
  then show ?thesis
    by (auto simp: ex_entry_def cache_entry.truncate_def)
qed

text \<open>Whatever rows the cache holds, a hit is one that has not expired, was stored under the
  caller's namespace, and answers a request with the same body hash.\<close>

theorem cache_hits_are_fresh:
  assumes "fst (find_response_cache_entry now k ns h d) = Some r"
  shows "now < ce_expires_at r \<and> ce_namespace r = ns \<and> ce_request_body_hash r = h"
  by (rule cache_find_fresh [OF assms])

theorem cache_hits_are_fresh_witness:
  "\<exists>r. fst (find_response_cache_entry 3 ''k'' ''anonymous'' ''h''
      (store_cache_row 1 ex_entry ex_db)) = Some r \<and> 3 < ce_expires_at r"
  using cache_find_after_store [of 3 ex_entry 1 ex_db]
    cache_hits_are_fresh [of 3 "''k''" "''anonymous''" "''h''"]
  by (fastforce simp: ex_entry_def)

text \<open>Cache namespaces isolate principals: two requests whose principal names contain no colon share
  a namespace only if they come from the same principal and carry the same override.\<close>

theorem cache_namespaces_isolated:
  assumes "auth_namespace a ov = auth_namespace b ov'"
    and "CHR '':'' \<notin> set (principal_name a)" and "CHR '':'' \<notin> set (principal_name b)"
  shows "principal a = principal b \<and> ov = ov'"
  by (rule auth_namespace_inject [OF assms])

theorem cache_namespaces_isolated_witness:
  "auth_namespace (AdminContext ''root'') (Some ''shared'') \<noteq> auth_namespace (AdminContext ''ann'') (Some ''shared'')"
  using cache_namespaces_isolated [of "AdminContext ''root''" "Some ''shared''" "AdminContext ''ann''" "Some ''shared''"]
  by (auto simp: principal.simps principal_name.simps)

text \<open>The cache policy allows a request exactly when its endpoint is cacheable, a chat request is
  deterministic or the client accepted the risk, \<open>store\<close> is not set, no tool, file or session
  field is filled in, no media key occurs at any depth, and no live header is passed on.\<close>

theorem cache_policy_exact:
  "(evaluate_policy e body pass allow = None) =
     (cacheable_endpoint e
      \<and> (if is_chat_family e then allow \<or> temperature_is_zero body else True)
      \<and> \<not> truthy_field body ''store''
      \<and> list_all (\<lambda>f. \<not> non_empty_field body f) dynamic_fields
      \<and> list_all (\<lambda>k. \<not> contains_key_recursive k body) media_fields
      \<and> list_all (\<lambda>kv. \<not> is_live_header (fst kv)) (unwrap_or [] pass))"
  by (cases pass) (auto simp: evaluate_policy_allows list_all_iff)

text \<open>The canonical rendering of an object, and with it the body hash of the cache key, does not
  depend on the order in which its fields are listed.\<close>

theorem canonical_json_ignores_order:
  assumes "mset xs = mset ys" and "distinct (map fst xs)"
  shows "canonical_json c (JObj xs) = canonical_json c (JObj ys)"
  by (rule canonical_json_order [OF assms])

theorem canonical_json_ignores_order_witness:
  "canonical_json ex_codec (JObj [(''b'', JNull), (''a'', JBool True)])
     = canonical_json ex_codec (JObj [(''a'', JBool True), (''b'', JNull)])"
  by (rule canonical_json_ignores_order) simp_all

text \<open>The classification and the fallback decision agree on server failures: whatever is classified
  as a server error falls back to the next target. The classification does not depend on
  letter case, and \<open>ConnectionError\<close> is never the kind of an answer that arrived.\<close>

theorem server_errors_fall_back:
  "(classify_upstream_error status body = ServerError \<longrightarrow> fallback_error status body)
   \<and> classify_upstream_error status (to_ascii_lowercase body) = classify_upstream_error status body
   \<and> classify_upstream_error status body \<noteq> ConnectionError"
  using classify_server_error_falls_back classify_case_insensitive classify_never_connection by blast

theorem server_errors_fall_back_witness:
  "classify_upstream_error 502 ''Boom'' = ServerError \<and> fallback_error 502 ''Boom''"
proof -
  have "classify_upstream_error 502 ''Boom'' = ServerError" by code_simp
  then show ?thesis using server_errors_fall_back by blast
qed

text \<open>For the statuses the classifier looks at first the body plays no role, and the kind's own
  status is what the client is sent: 429, 401 and 404 are kept, 403 becomes 401, 408 becomes
  504 and 529 becomes 503.\<close>

theorem status_decides_kind:
  "http_status (classify_upstream_error 429 body) = 429
   \<and> http_status (classify_upstream_error 401 body) = 401
   \<and> http_status (classify_upstream_error 403 body) = 401
   \<and> http_status (classify_upstream_error 404 body) = 404
   \<and> http_status (classify_upstream_error 408 body) = 504
   \<and> http_status (classify_upstream_error 529 body) = 503"
  by (simp add: classify_by_status)

text \<open>Merging generated headers into the client's keeps the client's list as it is at the front,
  adds a generated header only under a name the client did not send (compared without case),
  and leaves no name twice.\<close>

theorem passthrough_headers_win:
  assumes "headers_distinct hs"
  shows "headers_distinct (merge_headers hs extra)
     \<and> (\<exists>added. merge_headers hs extra = hs @ added)
     \<and> header_find n (merge_headers hs extra) = or_else (header_find n hs) (header_find n extra)"
  using merge_headers_distinct [OF assms] merge_headers_prefix merge_headers_find by blast

theorem passthrough_headers_win_witness:
  "header_find ''X-App'' (merge_headers [(''x-app'', ''cli'')] [(''X-App'', ''gen''), (''b'', ''2'')])
     = Some ''cli''"
proof -
  have "header_find ''X-App'' [(''x-app'', ''cli'')] = Some ''cli''"
    by code_simp
  then show ?thesis
    using passthrough_headers_win [of "[(''x-app'', ''cli'')]"] by (simp del: merge_headers.simps)
qed

text \<open>A prepared request carries the model the router chose, whatever model the client named, and
  its URL is the connection's base URL joined with the request's path.\<close>

theorem prepared_request_targets_provider:
  assumes "prepare_upstream_request p e suff model payload True = Some r"
  shows "jget ''model'' (request_body r) = Some (JStr model)
     \<and> req_url r = build_url (p_base_url p) (req_path r)"
  using prepare_model [OF assms] prepare_url [OF assms] by blast

theorem prepared_request_targets_provider_witness:
  "\<exists>r. prepare_upstream_request ex_provider Embeddings None ''real'' (json_obj [(''model'', JStr ''alias'')]) True
     = Some r \<and> jget ''model'' (request_body r) = Some (JStr ''real'')"
proof -
  obtain r where r: "prepare_upstream_request ex_provider Embeddings None ''real''
      (json_obj [(''model'', JStr ''alias'')]) True = Some r"
    by (simp add: prepare_upstream_request_def json_obj_def Let_def)
  then show ?thesis
    using prepared_request_targets_provider [OF r] by blast
qed

text \<open>The translation to the Claude API refuses a request exactly when it has no non-empty array of
  messages, and the client is told so with status 400.\<close>

theorem claude_request_errors:
  "(openai_to_claude_request c model body stream = Inl e) =
     (e = BadRequest ''messages array is required and must not be empty''
      \<and> get_array ''messages'' body \<in> {None, Some []})
   \<and> fst (into_response (BadRequest m)) = 400"
  by (simp add: openai_to_claude_error into_response_status)

text \<open>Tool definitions with a name, description and schema survive the translation from the Claude
  format to OpenAI functions and back.\<close>

theorem tools_survive_translation:
  "openai_tools_to_claude (claude_tools_to_openai (JArr (map (\<lambda>(n, d, s). claude_tool n d s) ts)))
     = JArr (map (\<lambda>(n, d, s). claude_tool n d s) ts)"
  by (rule tools_round_trip)

text \<open>The usage of a streamed answer is read from all its events: the input count is the last
  positive one any event carries, so is the output count, and they are not both zero.\<close>

theorem stream_usage_is_last_positive:
  assumes "extract_usage_from_sse c t = Some u"
  shows "input_tokens u = last_positive (map input_tokens (sse_candidates c t))
     \<and> output_tokens u = last_positive (map output_tokens (sse_candidates c t))
     \<and> (input_tokens u, output_tokens u) \<noteq> (0, 0)"
  using extract_usage_from_sse_last [OF assms] extract_usage_from_sse_nonzero [OF assms] by auto

theorem stream_usage_is_last_positive_witness:
  "\<exists>u. extract_usage_from_sse ex_usage_codec ''data: {}'' = Some u \<and> (input_tokens u, output_tokens u) \<noteq> (0, 0)"
proof -
  obtain u where u: "extract_usage_from_sse ex_usage_codec ''data: {}'' = Some u"
    by (cases "extract_usage_from_sse ex_usage_codec ''data: {}''", code_simp, blast)
  then show ?thesis
    using stream_usage_is_last_positive [OF u] by blast
qed

text \<open>The cost of a call does not depend on the provider prefix its model identifier carries: with
  or without it the same table entry, and so the same cost, is used.\<close>

theorem pricing_ignores_provider_prefix:
  assumes "CHR ''/'' \<notin> set name"
  shows "calculate_cost (provider @ ''/'' @ name) u = calculate_cost name u"
  using pricing_ignores_prefix [OF assms, of provider] by (simp add: calculate_cost_def)

theorem pricing_ignores_provider_prefix_witness:
  "calculate_cost ''openai/gpt-4o'' \<lparr>input_tokens = 10, output_tokens = 2, cache_read_tokens = None,
       cache_creation_tokens = None, total_tokens = 12\<rparr>
     = calculate_cost ''gpt-4o'' \<lparr>input_tokens = 10, output_tokens = 2, cache_read_tokens = None,
       cache_creation_tokens = None, total_tokens = 12\<rparr>"
  using pricing_ignores_provider_prefix [of "''gpt-4o''" "''openai''"] by simp

text \<open>The rate-limit tracker reports a provider as near its limit exactly when the last informative
  report for it reached the warning threshold; a report without data and reports for other
  providers change nothing, and no provider is tracked twice.\<close>

theorem near_limit_follows_last_report:
  assumes "tracker_ok t"
  shows "tracker_ok (tracker_update now p info t)
     \<and> is_near_limit q (tracker_update now p info t)
         = (if q = p \<and> tracked info
            then (case rl_utilization_pct info of None \<Rightarrow> False
                  | Some pct \<Rightarrow> f64_le (tr_warn_threshold t) pct)
            else is_near_limit q t)"
  by (simp add: tracker_update_ok [OF assms] near_limit_update)

theorem near_limit_follows_last_report_witness:
  "is_near_limit ''p1'' (tracker_update 0 ''p1'' \<lparr>rl_remaining = Some 1, rl_limit = Some 100,
       rl_reset_at = None, rl_utilization_pct = Some (Fin 99), rl_retry_after_secs = None\<rparr>
     (tracker_new (\<lambda>k. None)))"
proof -
  have "tracker_ok (tracker_new (\<lambda>k. None))"
    by (simp add: tracker_ok_def tracker_new_def obj_sorted_def)
  then show ?thesis
    by (subst near_limit_follows_last_report [THEN conjunct2])
      (simp_all add: tracked_def tracker_new_def)
qed

text \<open>The lifetime a client may ask for is bounded: in every accepted cache context it lies between
  one second and one hour, whatever number and unit the header holds, and without the cache
  header nothing is read from or written to the cache.\<close>

theorem cache_ttl_bounded:
  assumes "cache_from_headers hs auth = Inr ctx"
  shows "(case cc_ttl ctx of None \<Rightarrow> True | Some s \<Rightarrow> 1 \<le> s \<and> s \<le> 3600)
     \<and> (header_value hs ''x-kou-response-cache'' = None \<longrightarrow> \<not> cache_enabled ctx)"
  using cache_from_headers_ttl [OF assms] cache_off_without_header [OF _ assms]
  by (auto split: option.split)

theorem cache_ttl_bounded_witness:
  "\<exists>ctx. cache_from_headers [] Anonymous = Inr ctx \<and> \<not> cache_enabled ctx"
proof -
  obtain ctx where c: "cache_from_headers [] Anonymous = Inr ctx"
    by (cases "cache_from_headers [] Anonymous", code_simp, blast)
  moreover have "header_value [] ''x-kou-response-cache'' = None" by code_simp
  ultimately show ?thesis
    using cache_ttl_bounded [OF c] by blast
qed

text \<open>A model identifier splits into a provider prefix and a model that, joined by a slash, give it
  back, with no slash in the prefix; an identifier without a slash is a bare model, and one
  whose prefix or model is empty is refused.\<close>

theorem model_identifier_parses_back:
  "case split_model v of
     Inr (p, m) \<Rightarrow> CHR ''/'' \<notin> set p
        \<and> (if CHR ''/'' \<in> set v then v = p @ ''/'' @ m \<and> p \<noteq> [] \<and> m \<noteq> [] else p = [] \<and> m = v)
   | Inl e \<Rightarrow> e = BadRequest (''invalid model identifier: '' @ v)
        \<and> (\<exists>p m. v = p @ ''/'' @ m \<and> CHR ''/'' \<notin> set p \<and> (p = [] \<or> m = []))"
proof (cases "split_model v")
  case (Inr pm)
  moreover obtain p m where "pm = (p, m)" by (cases pm)
  ultimately have "split_model v = Inr (p, m)" by simp
  then show ?thesis
    using split_model_Inr [of v p m] by auto
next
  case (Inl e)
  then show ?thesis
    using split_model_Inl [of v e] by auto
qed

text \<open>A request that passes normalisation names, in its body, the model it is routed by; completions
  (from their prompt), Ollama chats, and messages and responses requests with an input carry
  messages; file and transcription requests never pass.\<close>

theorem normalized_requests_carry_model:
  assumes "normalize_request c e payload = Inr r"
  shows "get_str ''model'' (nr_body r) = Some (nr_model r)
     \<and> e \<noteq> Files \<and> e \<noteq> AudioTranscriptions
     \<and> (e \<in> {Completions, OllamaChat}
          \<or> e \<in> {Messages, Responses} \<and> jget ''input'' payload \<noteq> None
        \<longrightarrow> jget ''messages'' (nr_body r) \<noteq> None)"
  using normalize_request_model [OF assms] normalize_request_messages [OF assms]
    normalize_request_never [of c payload r] assms by auto

theorem normalized_requests_carry_model_witness:
  "\<exists>r. normalize_request ex_codec Completions (json_obj [(''prompt'', JStr ''hi''), (''model'', JStr ''m'')]) = Inr r
     \<and> jget ''messages'' (nr_body r) \<noteq> None"
proof -
  let ?p = "json_obj [(''prompt'', JStr ''hi''), (''model'', JStr ''m'')]"
  obtain r where r: "normalize_request ex_codec Completions ?p = Inr r"
    by (cases "normalize_request ex_codec Completions ?p", code_simp, blast)
  then show ?thesis
    using normalized_requests_carry_model [OF r] by blast
qed

text \<open>Whatever the client sent, the body for a Codex provider's responses endpoint asks for a
  stream, forbids storage, carries instructions and input, and has no \<open>messages\<close> and none of
  the token limits the backend refuses.\<close>

theorem codex_requests_sanitised:
  assumes "is_codex_provider p"
    and "maybe_adapt_codex_responses_request c Responses p (JObj ob) normalized = r"
  shows "jget ''stream'' r = Some (JBool True) \<and> jget ''store'' r = Some (JBool False)
     \<and> list_all (\<lambda>k. jget k r = None)
          [''messages'', ''max_tokens'', ''max_output_tokens'', ''max_completion_tokens'']
     \<and> list_all (\<lambda>k. jget k r \<noteq> None) [''instructions'', ''input'']"
  using codex_request_fields [OF assms] by simp

theorem codex_requests_sanitised_witness:
  "jget ''max_tokens'' (maybe_adapt_codex_responses_request ex_codec Responses
      (ex_provider\<lparr>p_provider := ''codex''\<rparr>) (JObj [(''max_tokens'', jnat 5)]) (JObj [])) = None"
  using codex_requests_sanitised [OF _ refl, of "ex_provider\<lparr>p_provider := ''codex''\<rparr>" ex_codec
      "[(''max_tokens'', jnat 5)]" "JObj []"]
  by (simp add: is_codex_provider_def)

text \<open>The reply adapted for a Messages client has exactly one text block, the assistant's text: the
  tool calls of the upstream reply never reach the client, although its stop reason may be
  \<open>tool_use\<close>.\<close>

theorem messages_reply_drops_tool_calls:
  "jget ''content'' (adapt_to_messages body) = Some (JArr [text_block (extract_assistant_text body)])
   \<and> openai_finish_to_messages_stop_reason ''tool_calls'' = ''tool_use''"
  by (simp add: adapt_to_messages_content openai_finish_to_messages_stop_reason_def)

text \<open>A non-empty capability list supports an endpoint exactly when one of its entries, normalised,
  is among the names that grant it; adding capabilities never takes support away; and the
  endpoints' names are distinct.\<close>

theorem capabilities_decide_support:
  assumes "caps \<noteq> []"
  shows "(supports_endpoint caps e
       = list_ex (\<lambda>c. normalize_capability c \<in> set (granting_names e)) caps)
     \<and> (set caps \<subseteq> set caps' \<longrightarrow> supports_endpoint caps e \<longrightarrow> supports_endpoint caps' e)
     \<and> (endpoint_as_str e = endpoint_as_str e' \<longrightarrow> e = e')"
  using supports_endpoint_granting [OF assms] supports_endpoint_mono [OF _ assms]
    endpoint_as_str_inject by (auto simp: list_ex_iff)

theorem capabilities_decide_support_witness:
  "supports_endpoint [''embeddings'', ''chat''] Messages = supports_endpoint [''chat''] Messages"
  using capabilities_decide_support [of "[''embeddings'', ''chat'']" Messages]
    capabilities_decide_support [of "[''chat'']" Messages] by code_simp

text \<open>When authentication is required, a request passes \<open>ManagementAuth\<close> only as the subject of a
  cookie that is valid under the stored secret, or as the owner of an active key of the table
  whose hash is that of the presented token.\<close>

theorem management_needs_credential:
  assumes "management_auth now lib hs d = (Inr ctx, d')" and "is_auth_required d"
  shows "(\<exists>sub. ctx = AdminContext sub \<and> cookie_subject lib hs d = Some sub)
     \<or> (\<exists>token k. presented_key hs = Some token \<and> k \<in> set (db_api_keys d)
          \<and> k_key_hash k = hash_api_key lib token \<and> k_is_active k
          \<and> ctx = ApiKeyContext (k_id k) (k_name k) (k_allowed_models k))"
  by (rule management_auth_Inr [OF assms])

theorem management_needs_credential_witness:
  "\<exists>k \<in> set [ex_key]. k_key_hash k = hash_api_key ex_auth_lib ''key''
     \<and> ApiKeyContext ''k1'' ''ci'' [] = ApiKeyContext (k_id k) (k_name k) (k_allowed_models k)"
proof -
  let ?d = "empty_db\<lparr>db_settings := [(''require_auth'', ''true'')], db_api_keys := [ex_key]\<rparr>"
  have "is_auth_required ?d" by code_simp
  moreover have "fst (management_auth 0 ex_auth_lib [(''x-api-key'', ''key'')] ?d)
      = Inr (ApiKeyContext ''k1'' ''ci'' [])" by code_simp
  then obtain d' where "management_auth 0 ex_auth_lib [(''x-api-key'', ''key'')] ?d
      = (Inr (ApiKeyContext ''k1'' ''ci'' []), d')" by (metis prod.collapse)
  ultimately show ?thesis
    using management_needs_credential [of 0 ex_auth_lib "[(''x-api-key'', ''key'')]" ?d
        "ApiKeyContext ''k1'' ''ci'' []" d']
    by (auto simp: ex_key_def hash_api_key_def ex_auth_lib_def codec.defs auth_lib.defs)
qed

text \<open>A successful refresh gives back the same account: it still has a refresh token and its remote
  account, it does not lose the FedRAMP mark, and its refresh error is cleared.\<close>

theorem refreshed_account_keeps_identity:
  assumes "refresh_provider_account now client refresh i d = (Inr a, d')"
    and "get_provider_account i d = Some b"
  shows "a_id a = i \<and> (a_is_fedramp b \<longrightarrow> a_is_fedramp a)
     \<and> (a_refresh_token b \<noteq> None \<longrightarrow> a_refresh_token a \<noteq> None)
     \<and> (a_remote_account_id b \<noteq> None \<longrightarrow> a_remote_account_id a \<noteq> None)
     \<and> a_refresh_error a = None"
  by (rule refresh_keeps_identity [OF assms])

theorem refreshed_account_keeps_identity_witness:
  "\<exists>a :: account. a_id a = ''a1'' \<and> a_is_fedramp a \<and> a_refresh_token a \<noteq> None"
proof -
  let ?d = "empty_db\<lparr>db_providers := [(ex_provider\<lparr>p_provider := ''codex''\<rparr>, '''')],
     db_accounts := [ex_account\<lparr>a_refresh_token := Some ''r''\<rparr>]\<rparr>"
  have "(case fst (refresh_provider_account 1 (\<lambda>p. Inr ()) (\<lambda>prov tok. Inr ex_grant) ''a1'' ?d) of
      Inr a \<Rightarrow> True | Inl e \<Rightarrow> False)" by code_simp
  then obtain a d' where
    "refresh_provider_account 1 (\<lambda>p. Inr ()) (\<lambda>prov tok. Inr ex_grant) ''a1'' ?d = (Inr a, d')"
    by (auto split: sum.splits) (metis prod.collapse)
  from refreshed_account_keeps_identity [OF this, of "ex_account\<lparr>a_refresh_token := Some ''r''\<rparr>"]
  show ?thesis by (auto simp: get_provider_account_def empty_db_def ex_account_def)
qed

text \<open>An exchange is made once, or twice when the account uses OAuth and the first answer was a 401
  after which the token was refreshed; otherwise its outcome is the first run's.\<close>

theorem oauth_exchange_repeated_once:
  assumes "execute_with_oauth_retry ev base res acc e model prep pass proxy st = Some (r, st')"
  shows "rt_sent st' \<in> {rt_sent st + 1, rt_sent st + 2}
     \<and> (rt_sent st' = rt_sent st + 2 \<longrightarrow>
          (\<exists>a out st1. acc = Some a \<and> a_auth_mode a = OAuthMode
             \<and> run_retry ev res e model prep pass proxy st = Some (Inr out, st1)
             \<and> (\<exists>resp. ro_result out = Buffered resp \<and> r_status resp = 401)))
     \<and> (rt_sent st' = rt_sent st + 1 \<longrightarrow>
          map_option fst (run_retry ev res e model prep pass proxy st) = Some r)"
  by (rule oauth_retry_sent [OF assms])

theorem oauth_exchange_repeated_once_witness:
  "\<exists>st' :: router. rt_sent st' \<in> {1, 2}"
proof -
  let ?prep = "\<lparr>request_body = JNull, req_path = [], req_url = []\<rparr>"
  have "execute_with_oauth_retry ex_env ex_provider ex_provider None ChatCompletions ''gpt'' ?prep
      None None ex_router \<noteq> None"
    by (rule oauth_retry_total) (simp add: ex_env_def retry_default_def)
  then obtain r st' where "execute_with_oauth_retry ex_env ex_provider ex_provider None
      ChatCompletions ''gpt'' ?prep None None ex_router = Some (r, st')" by auto
  from oauth_exchange_repeated_once [OF this] show ?thesis by (auto simp: ex_router_def)
qed

text \<open>However a relayed request ends, the request bodies it logs are numbered 1, 2, 3, ... without a
  gap, one for each exchange made, every logged answer carries the number of a logged request,
  and the database has moved by statements of the repository only.\<close>

theorem raw_proxy_logged:
  assumes "proxy_raw_to_provider ev request_id e http_method path payload pass st = (r, spawned, st')"
  shows "rt_sent st \<le> rt_sent st' \<and> db_moves (rt_db st) (rt_db st')
     \<and> sent_numbers spawned = map int [1..<Suc (rt_sent st' - rt_sent st)]
     \<and> set (got_numbers spawned) \<subseteq> set (sent_numbers spawned)"
  using proxy_raw_keeps [OF assms] by blast

theorem raw_proxy_logged_witness:
  "\<exists>r spawned st'. proxy_raw_to_provider ex_env ''req'' Messages ''POST'' ''/messages/count_tokens''
       (Some ex_payload) None ex_router = (r, spawned, st')
     \<and> sent_numbers spawned = map int [1..<Suc (rt_sent st' - rt_sent ex_router)]
     \<and> rt_sent st' = 1 \<and> got_numbers spawned = [1]"
proof -
  have "case proxy_raw_to_provider ex_env ''req'' Messages ''POST'' ''/messages/count_tokens''
       (Some ex_payload) None ex_router of (r, spawned, st') \<Rightarrow> rt_sent st' = 1 \<and> got_numbers spawned = [1]"
    by code_simp
  then obtain r spawned st' where
    run: "proxy_raw_to_provider ex_env ''req'' Messages ''POST'' ''/messages/count_tokens''
       (Some ex_payload) None ex_router = (r, spawned, st')"
    and "rt_sent st' = 1" "got_numbers spawned = [1]" by (auto split: prod.splits)
  then show ?thesis using raw_proxy_logged [OF run] by blast
qed

text \<open>Every request of the management API moves the database by statements of the repository alone, with
  identifiers drawn from a source that does not repeat itself; so what was consistent stays
  consistent (C8), whatever the request and its answer.\<close>

theorem api_keeps_database:
  assumes "api ae hs req (d, n) = (r, d', n')" and "inj (ae_fresh ae)"
    and "\<forall>k \<ge> n. ae_fresh ae k \<notin> u" and "db_ok \<lparr>w_used = u, w_db = d\<rparr>"
  shows "\<exists>u'. (\<forall>k \<ge> n'. ae_fresh ae k \<notin> u') \<and> db_ok \<lparr>w_used = u', w_db = d'\<rparr>
     \<and> db_step\<^sup>*\<^sup>* \<lparr>w_used = u, w_db = d\<rparr> \<lparr>w_used = u', w_db = d'\<rparr>"
  using api_keeps_db [OF assms(1,2) _ assms(4)] assms(3) by (auto simp: unused_def)

theorem api_keeps_database_witness:
  "\<exists>u d'. snd (api ex_api [] (CreateKey ''ci'' []) (empty_db, 0)) = (d', 1)
     \<and> length (db_api_keys d') = 1 \<and> db_ok \<lparr>w_used = u, w_db = d'\<rparr>"
proof -
  let ?run = "api ex_api [] (CreateKey ''ci'' []) (empty_db, 0)"
  obtain r d' n' where run: "?run = (r, d', n')" by (metis prod_cases3)
  have "n' = 1 \<and> length (db_api_keys d') = 1"
  proof -
    have "(case ?run of (r, d', n') \<Rightarrow> n' = 1 \<and> length (db_api_keys d') = 1)" by code_simp
    then show ?thesis by (simp add: run)
  qed
  moreover have "inj (ae_fresh ex_api)" by (auto simp: ex_api_def inj_def replicate_eq_replicate)
  ultimately show ?thesis
    using api_keeps_database [OF run, of "{}"] empty_db_ok run by auto
qed

text \<open>A Claude authorization code that is exchanged successfully gives a grant with scopes, and one that
  can serve requests: either its scopes allow inference, or an API key was made for it.\<close>

theorem claude_grant_usable:
  assumes "claude_exchange_code lib now s code = Inr g"
  shows "\<exists>scopes. tg_scopes g = Some scopes
     \<and> (''user:inference'' \<in> set scopes \<or> tg_api_key g \<noteq> None)"
  using claude_exchange_usable [OF assms] by (auto simp: has_inference_scope_def list_ex_iff)

theorem claude_grant_usable_witness:
  "\<exists>g. claude_exchange_code ex_oauth_lib 0 ex_session ''code#x'' = Inr g \<and> tg_api_key g = Some ''sk''
     \<and> tg_scopes g = Some []"
proof -
  let ?run = "claude_exchange_code ex_oauth_lib 0 ex_session ''code#x''"
  have "(case ?run of Inr g \<Rightarrow> tg_scopes g = Some [] | Inl e \<Rightarrow> False)" by code_simp
  then obtain g where g: "?run = Inr g" "tg_scopes g = Some []" by (auto split: sum.splits)
  then have "tg_api_key g \<noteq> None" using claude_grant_usable [OF g(1)] by simp
  moreover have "(case ?run of Inr g \<Rightarrow> tg_api_key g = Some ''sk'' | Inl e \<Rightarrow> False)" by code_simp
  ultimately show ?thesis using g by simp
qed

text \<open>A client that the cache has given for a proxy address is the one it gives for that address ever
  after, whatever is asked in between; connections to one proxy therefore share one pool.\<close>

theorem clients_settled:
  assumes "for_optional lib url st = (Inr c, st')"
  shows "for_optional lib url (fold (\<lambda>u s. snd (for_optional lib u s)) urls st')
     = (Inr c, fold (\<lambda>u s. snd (for_optional lib u s)) urls st')"
  using assms by (rule clients.answered_for_good)

theorem clients_settled_witness:
  "fst (for_optional \<lparr>pl_proxy_error = (\<lambda>u. None), pl_build = (\<lambda>n u. Inr n)\<rparr> (Some ''http://a'')
     (fold (\<lambda>u s. snd (for_optional \<lparr>pl_proxy_error = (\<lambda>u. None), pl_build = (\<lambda>n u. Inr n)\<rparr> u s))
        [Some ''http://b'', None, Some '' http://a'']
        (snd (for_optional \<lparr>pl_proxy_error = (\<lambda>u. None), pl_build = (\<lambda>n u. Inr n)\<rparr> (Some ''http://a'')
           (clients_new \<lparr>pl_proxy_error = (\<lambda>u. None), pl_build = (\<lambda>n u. Inr n)\<rparr>))))) = Inr 1"
proof -
  let ?lib = "\<lparr>pl_proxy_error = (\<lambda>u. None), pl_build = (\<lambda>n u. Inr n)\<rparr>"
  let ?first = "for_optional ?lib (Some ''http://a'') (clients_new ?lib)"
  have "fst ?first = Inr 1" by code_simp
  then have "?first = (Inr 1, snd ?first)" by (metis prod.collapse)
  from clients_settled [OF this, of "[Some ''http://b'', None, Some '' http://a'']"] show ?thesis by (simp only: fst_conv)
qed

text \<open>The detail on the callback page never opens a tag, whatever the redirect carried or the exchange
  said; and the listener is told to stop only after an account was connected.\<close>

theorem callback_page_escaped:
  "CHR ''<'' \<notin> set (cp_detail (fst (fst (handle_callback ae q s))))"
  "CHR ''>'' \<notin> set (cp_detail (fst (fst (handle_callback ae q s))))"
  "snd (fst (handle_callback ae q s)) = cp_ok (fst (fst (handle_callback ae q s)))"
  by (auto simp: handle_callback_def page_def escape_html_no_markup split: option.split sum.split prod.split)

end
